(* ===== verification/Mupen_Prelude.thy ===== *)
theory Mupen_Prelude
  imports "HOL-Library.Word" "HOL-Library.Monad_Syntax"
begin

text \<open>
  Shared vocabulary of the development: the names of the machine integers, the
  little-endian byte encodings that the emulator's host uses whenever it copies
  an integer into a buffer with \<^verbatim>\<open>memcpy\<close>, the byte swap \<^verbatim>\<open>sl\<close> of
  \<^verbatim>\<open>memory.h\<close>, and the generic facts on options, lists and words that the
  component theories rely on.  Everything that can go wrong in the C++ code
  (a failed \<^verbatim>\<open>assert\<close>, an access outside an array, a null dereference, a loop
  that does not end) is the value \<^term>\<open>None\<close> of an option type.
\<close>

unbundle bit_operations_syntax

type_synonym u8 = "8 word"
type_synonym u16 = "16 word"
type_synonym u32 = "32 word"
type_synonym u64 = "64 word"
type_synonym bytes = "8 word list"

named_theorems bind_rules \<open>elimination of successful option computations\<close>

section \<open>Options\<close>

lemma guard_Some [bind_rules]: "(if b then Some x else None) = Some y \<longleftrightarrow> b \<and> x = y"
  by simp

lemma bind_Some_iff [bind_rules]:
  "(Option.bind m f = Some y) \<longleftrightarrow> (\<exists>x. m = Some x \<and> f x = Some y)"
  by (cases m) auto

lemma bind_SomeE:
  assumes "Option.bind m f = Some y"
  obtains x where "m = Some x" "f x = Some y"
  using assms by (cases m) auto

section \<open>Lists\<close>

lemma map_upd_notin: "i \<notin> set xs \<Longrightarrow> map (f(i := v)) xs = map f xs"
  by (induction xs) auto

lemma filter_takeWhile_dropWhile:
  "filter P (takeWhile Q xs) @ filter P (dropWhile Q xs) = filter P xs"
  by (metis filter_append takeWhile_dropWhile_id)

section \<open>Little-endian encodings\<close>

definition put_le32 :: "u32 \<Rightarrow> bytes" where
  "put_le32 w = [ucast w, ucast (drop_bit 8 w), ucast (drop_bit 16 w), ucast (drop_bit 24 w)]"

definition get_le32 :: "bytes \<Rightarrow> nat \<Rightarrow> u32 option" where
  "get_le32 b off = (if off + 4 \<le> length b
     then Some (ucast (b ! off) OR push_bit 8 (ucast (b ! (off + 1)))
              OR push_bit 16 (ucast (b ! (off + 2))) OR push_bit 24 (ucast (b ! (off + 3))))
     else None)"

lemma length_put_le32 [simp]: "length (put_le32 w) = 4"
  by (simp add: put_le32_def)

lemma le32_bytes:
  fixes w :: u32
  shows "ucast (ucast w :: u8) OR push_bit 8 (ucast (ucast (drop_bit 8 w) :: u8))
       OR push_bit 16 (ucast (ucast (drop_bit 16 w) :: u8))
       OR push_bit 24 (ucast (ucast (drop_bit 24 w) :: u8)) = w"
proof (rule bit_word_eqI)
  fix n assume n: "n < LENGTH(32)"
  then consider "n < 8" | "8 \<le> n" "n < 16" "n - 8 < 8"
    | "16 \<le> n" "n < 24" "\<not> n - 8 < 8" "n - 16 < 8"
    | "24 \<le> n" "\<not> n - 8 < 8" "\<not> n - 16 < 8" "n - 24 < 8"
    by force
  then show "bit (ucast (ucast w :: u8) OR push_bit 8 (ucast (ucast (drop_bit 8 w) :: u8))
       OR push_bit 16 (ucast (ucast (drop_bit 16 w) :: u8))
       OR push_bit 24 (ucast (ucast (drop_bit 24 w) :: u8)) :: u32) n = bit w n"
    using n by cases (simp_all add: bit_or_iff bit_push_bit_iff bit_unsigned_iff bit_drop_bit_eq)
qed

lemma get_put_le32_at [simp]: "get_le32 (pre @ put_le32 w @ post) (length pre) = Some w"
proof -
  have "(pre @ put_le32 w @ post) ! (length pre + k) = put_le32 w ! k" if "k < 4" for k
    using that by (simp add: nth_append)
  from this [of 0] this [of 1] this [of 2] this [of 3] show ?thesis
    by (simp add: get_le32_def put_le32_def le32_bytes)
qed

lemma get_put_le32 [simp]: "get_le32 (put_le32 w @ post) 0 = Some w"
  using get_put_le32_at [of "[]" w post] by simp

lemma get_le32_off: "get_le32 (pre @ b) (length pre + k) = get_le32 b k"
  by (simp add: get_le32_def nth_append add.assoc)

text \<open>The members of a packed structure, read from its bytes.\<close>

definition le_word :: "bytes \<Rightarrow> 'a::len word" where
  "le_word b = foldr (\<lambda>x w. ucast x OR push_bit 8 w) b 0"

definition u32_at :: "bytes \<Rightarrow> nat \<Rightarrow> u32" where
  "u32_at b off = le_word (take 4 (drop off b))"

definition u16_at :: "bytes \<Rightarrow> nat \<Rightarrow> u16" where
  "u16_at b off = le_word (take 2 (drop off b))"

definition put_le16 :: "u16 \<Rightarrow> bytes" where
  "put_le16 w = [ucast w, ucast (drop_bit 8 w)]"

lemma length_put_le16 [simp]: "length (put_le16 w) = 2"
  by (simp add: put_le16_def)

lemma le_word_put32 [simp]: "le_word (put_le32 w) = w"
  using le32_bytes [of w] by (simp add: le_word_def put_le32_def push_bit_or push_bit_push_bit)

lemma le_word_put16 [simp]: "le_word (put_le16 w) = w"
proof (rule bit_word_eqI)
  fix n assume "n < LENGTH(16)"
  then consider "n < 8" | "8 \<le> n" "n - 8 < 8" by force
  then show "bit (le_word (put_le16 w) :: u16) n = bit w n"
    using \<open>n < LENGTH(16)\<close>
    by cases (simp_all add: le_word_def put_le16_def bit_or_iff bit_push_bit_iff bit_unsigned_iff bit_drop_bit_eq)
qed

section \<open>Sequences of operations\<close>

text \<open>A client of a component is a list of operations; it fails when one of them does.\<close>

fun run_ops :: "('op \<Rightarrow> 's \<Rightarrow> 's option) \<Rightarrow> 'op list \<Rightarrow> 's \<Rightarrow> 's option" where
  "run_ops step [] s = Some s"
| "run_ops step (op # ops) s = Option.bind (step op s) (run_ops step ops)"

lemma run_ops_append:
  "run_ops step (xs @ ys) s = Option.bind (run_ops step xs s) (run_ops step ys)"
  by (induction xs arbitrary: s) (auto split: bind_splits)

text \<open>A component whose operations keep an invariant.\<close>

locale invariant_steps =
  fixes inv :: "'s \<Rightarrow> bool" and step :: "'op \<Rightarrow> 's \<Rightarrow> 's option"
  assumes step_inv: "inv s \<Longrightarrow> step op s = Some s' \<Longrightarrow> inv s'"
begin

lemma run_inv: "inv s \<Longrightarrow> run_ops step ops s = Some s' \<Longrightarrow> inv s'"
  by (induction ops arbitrary: s) (auto simp: bind_rules dest: step_inv)

end

text \<open>
  A component that implements a specification: whenever the specification
  performs an operation, so does the implementation, and the results are related.
\<close>

locale simulation =
  fixes rel :: "'c \<Rightarrow> 'a \<Rightarrow> bool"
    and cstep :: "'op \<Rightarrow> 'c \<Rightarrow> 'c option"
    and astep :: "'op \<Rightarrow> 'a \<Rightarrow> 'a option"
  assumes step_sim: "rel c a \<Longrightarrow> astep op a = Some a' \<Longrightarrow> \<exists>c'. cstep op c = Some c' \<and> rel c' a'"
begin

lemma run_sim:
  "rel c a \<Longrightarrow> run_ops astep ops a = Some a' \<Longrightarrow> \<exists>c'. run_ops cstep ops c = Some c' \<and> rel c' a'"
proof (induction ops arbitrary: c a)
  case (Cons op ops)
  then obtain a1 where a1: "astep op a = Some a1" "run_ops astep ops a1 = Some a'"
    by (auto simp: bind_rules)
  obtain c1 where "cstep op c = Some c1" "rel c1 a1" using step_sim [OF Cons.prems(1) a1(1)] by blast
  with Cons.IH [OF _ a1(2)] show ?case by simp
qed simp

end

end
