(* ===== verification/Host_Memory.thy ===== *)
theory Host_Memory
  imports Mupen_Prelude
begin

text \<open>
  Host memory as the emulator uses it: byte arrays read and written through
  little-endian integer pointers, the \<^verbatim>\<open>S8\<close>/\<^verbatim>\<open>S16\<close> address swizzle that stores the
  big-endian guest memory in host words (\<^verbatim>\<open>memory.h\<close>), the byte copy loop
  that every DMA routine is built from, and whole-file reads and writes.
\<close>

section \<open>The address swizzle\<close>

lemma xor3_nat: "(x::nat) XOR 3 = 4 * (x div 4) + (3 - x mod 4)"
proof -
  have "x XOR 3 = 4 * ((x XOR 3) div 4) + (x XOR 3) mod 4" by simp
  moreover have "(x XOR 3) div 4 = x div 4"
  proof -
    have "drop_bit 2 (x XOR 3) = drop_bit 2 x" unfolding drop_bit_xor by (simp add: drop_bit_eq_div)
    then show ?thesis by (simp add: drop_bit_eq_div)
  qed
  moreover have "(x XOR 3) mod 4 = 3 - x mod 4"
  proof -
    have "take_bit 2 (x XOR 3) = take_bit 2 x XOR 3" unfolding take_bit_xor by (simp add: take_bit_eq_mod)
    then have "(x XOR 3) mod 4 = x mod 4 XOR 3" by (simp add: take_bit_eq_mod)
    moreover have "x mod 4 < 4" by simp
    then have "x mod 4 = 0 \<or> x mod 4 = 1 \<or> x mod 4 = 2 \<or> x mod 4 = 3" by linarith
    ultimately show ?thesis by auto
  qed
  ultimately show ?thesis by (simp only:)
qed

lemma xor3_invol [simp]: "((x::nat) XOR 3) XOR 3 = x"
  unfolding xor.assoc by simp

lemma xor3_eq_iff: "((x::nat) XOR 3 = y) = (x = y XOR 3)"
  by (metis xor3_invol)

lemma xor3_less: "4 dvd n \<Longrightarrow> ((x::nat) XOR 3 < n) = (x < n)"
proof -
  assume "4 dvd n"
  then obtain k where n: "n = 4 * k" by (auto elim: dvdE)
  have "4 * d + (3 - r) < 4 * k \<longleftrightarrow> d < k" if "r < 4" for d r k :: nat using that by presburger
  moreover have "4 * d + r < 4 * k \<longleftrightarrow> d < k" if "r < 4" for d r k :: nat using that by presburger
  ultimately show ?thesis
    unfolding xor3_nat n by (metis mod_less_divisor mult_div_mod_eq zero_less_numeral)
qed

lemma unat_xor3: "unat ((w::u32) XOR 3) = unat w XOR 3"
  by (simp add: unsigned_xor_eq)

section \<open>Arrays\<close>

text \<open>A host array is a function from byte offsets; the size is checked at each access.\<close>

type_synonym array = "nat \<Rightarrow> u8"

text \<open>
  The emulated machine is big-endian, the host little-endian: words are kept in
  host order, so a guest byte lives at its address with the two low bits
  inverted (\<^verbatim>\<open>^ S8\<close>) and a guest half-word at its address with bit 1 inverted (\<^verbatim>\<open>^ S16\<close>).
\<close>

abbreviation (input) S8 :: nat where "S8 \<equiv> 3"
abbreviation (input) S16 :: nat where "S16 \<equiv> 2"

definition ld16 :: "array \<Rightarrow> nat \<Rightarrow> u16" where
  "ld16 m a = ucast (m a) OR push_bit 8 (ucast (m (a + 1)))"

definition ld32 :: "array \<Rightarrow> nat \<Rightarrow> u32" where
  "ld32 m a = ucast (m a) OR push_bit 8 (ucast (m (a + 1)))
     OR push_bit 16 (ucast (m (a + 2))) OR push_bit 24 (ucast (m (a + 3)))"

definition st16 :: "array \<Rightarrow> nat \<Rightarrow> u16 \<Rightarrow> array" where
  "st16 m a w = m(a := ucast w, a + 1 := ucast (drop_bit 8 w))"

definition st32 :: "array \<Rightarrow> nat \<Rightarrow> u32 \<Rightarrow> array" where
  "st32 m a w = m(a := ucast w, a + 1 := ucast (drop_bit 8 w),
                  a + 2 := ucast (drop_bit 16 w), a + 3 := ucast (drop_bit 24 w))"

lemma ld32_st32 [simp]: "ld32 (st32 m a w) a = w"
  by (simp add: ld32_def st32_def le32_bytes)

lemma ld32_st32_other: "b + 4 \<le> a \<or> a + 4 \<le> b \<Longrightarrow> ld32 (st32 m a w) b = ld32 m b"
  by (auto simp: ld32_def st32_def)

text \<open>
  The loop \<^verbatim>\<open>for (i = 0; i < n; i++) dst[(doff + i) ^ S8] = src[(soff + i) ^ S8]\<close> between two
  arrays of the given sizes, with the 32-bit offsets of the source.
\<close>

fun copy_s8 :: "nat \<Rightarrow> array \<Rightarrow> nat \<Rightarrow> u32 \<Rightarrow> array \<Rightarrow> nat \<Rightarrow> u32 \<Rightarrow> array option" where
  "copy_s8 0 src ssz soff dst dsz doff = Some dst"
| "copy_s8 (Suc n) src ssz soff dst dsz doff =
     (if unat (soff XOR 3) < ssz \<and> unat (doff XOR 3) < dsz
      then copy_s8 n src ssz (soff + 1) (dst(unat (doff XOR 3) := src (unat (soff XOR 3)))) dsz (doff + 1)
      else None)"

text \<open>The guest's view of an array, and the copy loop as a plain block copy in that view.\<close>

definition guest :: "array \<Rightarrow> array" where "guest m a = m (a XOR S8)"

lemma guest_upd: "guest (m(a XOR 3 := v)) = (guest m)(a := v)"
  by (auto simp: guest_def fun_eq_iff xor3_eq_iff)

lemma guest_guest [simp]: "guest (guest m) = m"
  by (simp add: guest_def fun_eq_iff)

lemma unat32_less: "unat (w::u32) < 2 ^ 32"
  using unsigned_less [of w, where 'a = nat] by simp

lemma sless_zero32: "(w::u32) <s 0 \<longleftrightarrow> 2 ^ 31 \<le> unat w"
proof -
  have sw: "sint w = (uint w + 2 ^ 31) mod 2 ^ 32 - 2 ^ 31" using int_word_sint [of "uint w", where 'a = 32] by simp
  have lt: "uint w < 2 ^ 32" using uint_bounded [of w] by simp
  have "sint w < 0 \<longleftrightarrow> 2 ^ 31 \<le> uint w"
  proof (cases "uint w < 2 ^ 31")
    case True
    then have "(uint w + 2 ^ 31) mod 2 ^ 32 = uint w + 2 ^ 31" by (intro mod_pos_pos_trivial) auto
    with True sw show ?thesis by simp
  next
    case False
    then have "(uint w + 2 ^ 31) mod 2 ^ 32 = uint w + 2 ^ 31 - 2 ^ 32"
      using lt by (subst mod_pos_geq) (auto intro!: mod_pos_pos_trivial)
    with False lt sw show ?thesis by simp
  qed
  moreover have "2 ^ 31 \<le> uint w \<longleftrightarrow> 2 ^ 31 \<le> unat w"
  proof -
    have "2 ^ 31 \<le> int n \<longleftrightarrow> 2 ^ 31 \<le> n" for n by auto
    from this [of "unat w"] show ?thesis by simp
  qed
  ultimately show ?thesis by (simp add: word_sless_alt)
qed

lemma unat_suc32: "unat (w::u32) + 1 < 2 ^ 32 \<Longrightarrow> unat (w + 1) = unat w + 1"
  by (simp add: unat_word_ariths)

lemma copy_s8_guest:
  assumes "unat soff + n \<le> ssz" "unat doff + n \<le> dsz" "4 dvd ssz" "4 dvd dsz" "ssz \<le> 2 ^ 31" "dsz \<le> 2 ^ 31"
  shows "\<exists>dst'. copy_s8 n src ssz soff dst dsz doff = Some dst' \<and>
           guest dst' = (\<lambda>a. if unat doff \<le> a \<and> a < unat doff + n
                             then guest src (a - unat doff + unat soff) else guest dst a)"
  using assms
proof (induction n arbitrary: soff doff dst)
  case 0
  then show ?case by (auto simp: fun_eq_iff)
next
  case (Suc n)
  have s: "unat (soff + 1) = unat soff + 1" by (rule unat_suc32) (use Suc.prems in simp)
  have d: "unat (doff + 1) = unat doff + 1" by (rule unat_suc32) (use Suc.prems in simp)
  have ok: "unat (soff XOR 3) < ssz" "unat (doff XOR 3) < dsz"
    using Suc.prems by (auto simp: unat_xor3 xor3_less)
  let ?dst = "dst(unat (doff XOR 3) := src (unat (soff XOR 3)))"
  have "\<exists>dst'. copy_s8 n src ssz (soff + 1) ?dst dsz (doff + 1) = Some dst' \<and>
           guest dst' = (\<lambda>a. if unat (doff + 1) \<le> a \<and> a < unat (doff + 1) + n
                             then guest src (a - unat (doff + 1) + unat (soff + 1)) else guest ?dst a)"
    by (rule Suc.IH) (use Suc.prems s d in auto)
  then obtain dst' where c: "copy_s8 n src ssz (soff + 1) ?dst dsz (doff + 1) = Some dst'"
      "guest dst' = (\<lambda>a. if unat doff + 1 \<le> a \<and> a < unat doff + 1 + n
                         then guest src (a - (unat doff + 1) + (unat soff + 1)) else guest ?dst a)"
    unfolding s d by blast
  have g: "guest ?dst = (guest dst)(unat doff := guest src (unat soff))"
    by (simp only: unat_xor3 guest_upd) (simp add: guest_def)
  have "guest dst' = (\<lambda>a. if unat doff \<le> a \<and> a < unat doff + Suc n
                          then guest src (a - unat doff + unat soff) else guest dst a)"
    unfolding c(2) g by (auto simp: fun_eq_iff intro!: arg_cong [where f = "guest src"])
  with c(1) ok show ?case by auto
qed

section \<open>Files opened for update\<close>

text \<open>\<^verbatim>\<open>fseek(f, 0, SEEK_SET); fread(buf, 1, n, f)\<close> and the matching \<^verbatim>\<open>fwrite\<close>: a short file leaves the rest of the buffer.\<close>

definition fread0 :: "nat \<Rightarrow> bytes \<Rightarrow> array \<Rightarrow> array" where
  "fread0 n f buf = (\<lambda>i. if i < n \<and> i < length f then f ! i else buf i)"

definition fwrite0 :: "nat \<Rightarrow> array \<Rightarrow> bytes \<Rightarrow> bytes" where
  "fwrite0 n buf f = map buf [0..<n] @ drop n f"

lemma length_fwrite0 [simp]: "length (fwrite0 n buf f) = max n (length f)"
  by (simp add: fwrite0_def max_def)

lemma fread0_fwrite0: "i < n \<Longrightarrow> fread0 n (fwrite0 n buf f) buf' i = buf i"
  by (simp add: fread0_def fwrite0_def nth_append)

section \<open>Checked byte buffers\<close>

text \<open>A buffer of fixed size as a list; an access outside it is \<^term>\<open>None\<close>.\<close>

definition bget :: "bytes \<Rightarrow> nat \<Rightarrow> u8 option" where
  "bget b i = (if i < length b then Some (b ! i) else None)"

definition bput :: "nat \<Rightarrow> u8 \<Rightarrow> bytes \<Rightarrow> bytes option" where
  "bput i v b = (if i < length b then Some (b[i := v]) else None)"

definition bblock :: "bytes \<Rightarrow> nat \<Rightarrow> nat \<Rightarrow> bytes option" where
  "bblock b off n = (if off + n \<le> length b then Some (take n (drop off b)) else None)"

definition bwrite :: "nat \<Rightarrow> bytes \<Rightarrow> bytes \<Rightarrow> bytes option" where
  "bwrite off d b = (if off + length d \<le> length b
     then Some (take off b @ d @ drop (off + length d) b) else None)"

lemma bput_length: "bput i v b = Some b' \<Longrightarrow> length b' = length b"
  by (auto simp: bput_def split: if_splits)

lemma bwrite_length: "bwrite off d b = Some b' \<Longrightarrow> length b' = length b"
  by (auto simp: bwrite_def split: if_splits)

lemma bblock_length: "bblock b off n = Some d \<Longrightarrow> length d = n"
  by (auto simp: bblock_def split: if_splits)

lemma bblock_bwrite: "bwrite off d b = Some b' \<Longrightarrow> bblock b' off (length d) = Some d"
  by (auto simp: bwrite_def bblock_def split: if_splits)

lemma bget_bwrite_other:
  "bwrite off d b = Some b' \<Longrightarrow> i < off \<or> off + length d \<le> i \<Longrightarrow> bget b' i = bget b i"
  by (auto simp: bwrite_def bget_def nth_append split: if_splits)

lemma bblock_bwrite_other:
  assumes "bwrite off d b = Some b'" "i + n \<le> off \<or> off + length d \<le> i"
  shows "bblock b' i n = bblock b i n"
proof -
  have "take n (drop i b') = take n (drop i b)" if "i + n \<le> length b"
  proof (rule nth_equalityI)
    show "length (take n (drop i b')) = length (take n (drop i b))" using bwrite_length [OF assms(1)] by simp
    fix k assume "k < length (take n (drop i b'))"
    then have k: "k < n" by simp
    then have "bget b' (i + k) = bget b (i + k)" by (intro bget_bwrite_other [OF assms(1)]) (use assms(2) in auto)
    then show "take n (drop i b') ! k = take n (drop i b) ! k"
      using k that bwrite_length [OF assms(1)] by (simp add: bget_def)
  qed
  then show ?thesis using bwrite_length [OF assms(1)] by (simp add: bblock_def)
qed

text \<open>\<^verbatim>\<open>fread\<close> and \<^verbatim>\<open>fwrite\<close> of one buffer at a position of a file that is long enough or short.\<close>

definition fread_at :: "nat \<Rightarrow> bytes \<Rightarrow> bytes \<Rightarrow> bytes" where
  "fread_at pos f buf = (let d = take (length buf) (drop pos f) in d @ drop (length d) buf)"

lemma length_fread_at [simp]: "length (fread_at pos f buf) = length buf"
  by (simp add: fread_at_def Let_def)

end
