(* ===== verification/IO_Helpers.thy ===== *)
theory IO_Helpers
  imports Host_Memory
begin

text \<open>
  The helpers of \<^verbatim>\<open>lib/IOHelpers.cpp\<close> that the core relies on: the growing byte vector and
  the read pointer of the savestate code, decompression with a doubling output buffer, the
  trimming of ROM names, the search for the n-th occurrence of a string and the removal of a
  set of indices.  The decompressor of libdeflate is a parameter.
\<close>

section \<open>Vectors and read pointers\<close>

definition vecwrite :: "bytes \<Rightarrow> bytes \<Rightarrow> bytes" where
  "vecwrite vec d = vec @ d"

text \<open>\<^verbatim>\<open>memread(&src, dest, len)\<close>: the data read and the advanced pointer.\<close>

definition memread :: "bytes \<Rightarrow> nat \<Rightarrow> nat \<Rightarrow> (bytes \<times> nat) option" where
  "memread buf src len = map_option (\<lambda>d. (d, src + len)) (bblock buf src len)"

lemma memread_vecwrite:
  "src = length vec \<Longrightarrow> len = length d \<Longrightarrow> memread (vecwrite vec d @ rest) src len = Some (d, src + len)"
  by (simp add: memread_def vecwrite_def bblock_def)

section \<open>Decompression\<close>

datatype deflate_result = Deflate_success bytes | Bad_data | Short_output | Insufficient_space

text \<open>The loop that doubles the buffer until the output fits.\<close>

partial_function (option) inflate_loop :: "(nat \<Rightarrow> deflate_result) \<Rightarrow> nat \<Rightarrow> bytes option" where
  "inflate_loop gunzip buf_size = (case gunzip buf_size of
      Short_output \<Rightarrow> inflate_loop gunzip (buf_size * 2)
    | Insufficient_space \<Rightarrow> inflate_loop gunzip (buf_size * 2)
    | Deflate_success out \<Rightarrow> Some out
    | Bad_data \<Rightarrow> Some [])"

definition auto_decompress :: "(bytes \<Rightarrow> nat \<Rightarrow> deflate_result) \<Rightarrow> bytes \<Rightarrow> nat \<Rightarrow> bytes option" where
  "auto_decompress gunzip vec initial_size =
    (if length vec < 2 \<or> vec ! 0 \<noteq> 0x1F \<and> vec ! 1 \<noteq> 0x8B then Some vec
     else inflate_loop (gunzip vec) initial_size)"

text \<open>
  What libdeflate documents: a valid stream decompresses into any buffer that is large
  enough for its output and reports a lack of space otherwise.
\<close>

definition gunzip_yields :: "(nat \<Rightarrow> deflate_result) \<Rightarrow> bytes \<Rightarrow> bool" where
  "gunzip_yields gunzip out \<longleftrightarrow>
     (\<forall>n. gunzip n = (if length out \<le> n then Deflate_success out else Insufficient_space))"

lemma inflate_loop_ends:
  assumes "gunzip_yields gunzip out" "length out \<le> n * 2 ^ k"
  shows "inflate_loop gunzip n = Some out"
  using assms(2)
proof (induction k arbitrary: n)
  case 0
  then show ?case using assms(1) by (subst inflate_loop.simps) (simp add: gunzip_yields_def)
next
  case (Suc k)
  have "inflate_loop gunzip (n * 2) = Some out" using Suc.IH [of "n * 2"] Suc.prems by (simp add: mult.assoc)
  then show ?case using assms(1) by (subst inflate_loop.simps) (simp add: gunzip_yields_def)
qed



section \<open>Strings\<close>

text \<open>\<^verbatim>\<open>strtrim\<close> clears a fixed-size buffer from the first pair of spaces on.\<close>

fun strtrim_at :: "nat \<Rightarrow> bytes \<Rightarrow> nat \<Rightarrow> bytes" where
  "strtrim_at 0 str i = str"
| "strtrim_at (Suc n) str i =
    (if i \<noteq> 0 \<and> str ! (i - 1) = 0x20 \<and> str ! i = 0x20
     then take (i - 1) str @ replicate (length str - i + 1) 0
     else strtrim_at n str (i + 1))"

definition strtrim :: "bytes \<Rightarrow> bytes" where
  "strtrim str = strtrim_at (length str) str 0"

lemma length_strtrim_at: "i + n \<le> length str \<Longrightarrow> length (strtrim_at n str i) = length str"
  by (induction n str i rule: strtrim_at.induct) auto

lemma length_strtrim [simp]: "length (strtrim str) = length str"
  by (simp add: strtrim_def length_strtrim_at)

text \<open>\<^verbatim>\<open>str.find(searched, pos)\<close> for a single character, and the n-th occurrence built on it.\<close>

fun find_char :: "char \<Rightarrow> string \<Rightarrow> nat \<Rightarrow> nat option" where
  "find_char c [] pos = None"
| "find_char c (x # xs) pos = (case pos of
      0 \<Rightarrow> if x = c then Some 0 else map_option Suc (find_char c xs 0)
    | Suc p \<Rightarrow> map_option Suc (find_char c xs p))"

fun nth_occurence_loop :: "nat \<Rightarrow> string \<Rightarrow> char \<Rightarrow> nat \<Rightarrow> nat option" where
  "nth_occurence_loop 0 str c pos = Some pos"
| "nth_occurence_loop (Suc n) str c pos = (case find_char c str pos of
      None \<Rightarrow> None
    | Some p \<Rightarrow> if n = 0 then Some p else nth_occurence_loop n str c (p + 1))"

definition str_nth_occurence :: "string \<Rightarrow> char \<Rightarrow> nat \<Rightarrow> nat option" where
  "str_nth_occurence str c k = (if k = 0 then None else nth_occurence_loop k str c 0)"

lemma find_char_bound: "find_char c str pos = Some p \<Longrightarrow> p < length str \<and> pos \<le> p \<and> str ! p = c"
  by (induction c str pos arbitrary: p rule: find_char.induct)
    (auto split: nat.splits if_splits simp: less_Suc_eq_0_disj)

lemma nth_occurence_bound:
  "nth_occurence_loop n str c pos = Some p \<Longrightarrow> 0 < n \<Longrightarrow> pos + n \<le> p + 1 \<and> p < length str"
proof (induction n arbitrary: pos)
  case (Suc n)
  then obtain q where q: "find_char c str pos = Some q" by (auto split: option.splits)
  show ?case
  proof (cases "n = 0")
    case True
    then show ?thesis using Suc.prems q find_char_bound [OF q] by simp
  next
    case False
    then have "nth_occurence_loop n str c (q + 1) = Some p" using Suc.prems q by simp
    from Suc.IH [OF this] False find_char_bound [OF q] show ?thesis by simp
  qed
qed simp

section \<open>Erasing indices\<close>

text \<open>
  \<^verbatim>\<open>erase_indices\<close>: the indices are sorted in descending order, then each one that is in
  range is erased.
\<close>

fun erase_each :: "nat list \<Rightarrow> 'a list \<Rightarrow> 'a list" where
  "erase_each [] ret = ret"
| "erase_each (i # is) ret = erase_each is (if i < length ret then take i ret @ drop (i + 1) ret else ret)"

definition erase_indices :: "'a list \<Rightarrow> nat list \<Rightarrow> 'a list" where
  "erase_indices xs indices = (if indices = [] then xs else erase_each (rev (sort indices)) xs)"

lemma nths_agree: "(\<And>j. j < length xs \<Longrightarrow> j \<in> A \<longleftrightarrow> j \<in> B) \<Longrightarrow> nths xs A = nths xs B"
  unfolding nths_def by (intro arg_cong [where f = "map fst"] filter_cong) (auto simp: in_set_zip)

lemma nths_UNIV [simp]: "nths xs UNIV = xs"
  by (simp add: nths_def)

lemma nths_erase:
  assumes "\<forall>j\<in>A. j < i"
  shows "nths (if i < length xs then take i xs @ drop (i + 1) xs else xs) (- A) = nths xs (- insert i A)"
proof (cases "i < length xs")
  case True
  have A: "{j. j + i \<in> - A} = UNIV" "{j. Suc j + i \<in> - insert i A} = UNIV" "0 \<notin> {j. j + i \<in> - insert i A}"
    using assms by force+
  have len: "length (take i xs) = i" using True by simp
  have "nths (take i xs @ drop (i + 1) xs) (- A) = nths (take i xs) (- A) @ drop (i + 1) xs"
    unfolding nths_append len by (simp only: A nths_UNIV)
  also have "nths (take i xs) (- A) = nths (take i xs) (- insert i A)"
    by (rule nths_agree) (use True in auto)
  also have "\<dots> @ drop (i + 1) xs = nths (take i xs @ xs ! i # drop (Suc i) xs) (- insert i A)"
    unfolding nths_append len nths_Cons using A by simp
  also have "take i xs @ xs ! i # drop (Suc i) xs = xs" using True by (simp add: id_take_nth_drop [symmetric])
  finally show ?thesis using True by simp
next
  case False
  then have "nths xs (- A) = nths xs (- insert i A)" by (intro nths_agree) auto
  with False show ?thesis by simp
qed

lemma erase_each_nths: "sorted_wrt (>) is \<Longrightarrow> erase_each is xs = nths xs (- set is)"
proof (induction "is" arbitrary: xs)
  case (Cons i "is")
  then show ?case using nths_erase [of "set is" i xs] by simp
qed simp

lemma erase_indices_nths: "distinct indices \<Longrightarrow> erase_indices xs indices = nths xs (- set indices)"
proof -
  assume "distinct indices"
  then have "sorted_wrt (<) (sort indices)" by (simp add: strict_sorted_iff)
  then have "sorted_wrt (>) (rev (sort indices))" by (simp add: sorted_wrt_rev)
  from erase_each_nths [OF this, of xs] show ?thesis by (auto simp: erase_indices_def)
qed

end
