(* ===== verification/Movie_Format.thy ===== *)
theory Movie_Format
  imports IO_Helpers
begin

text \<open>
  The movie file format (\<^verbatim>\<open>CoreVCRMovieHeader\<close> in \<^verbatim>\<open>Core/include/core_types.h\<close> and its
  readers and writers in \<^verbatim>\<open>Core/r4300/vcr.cpp\<close>): the packed 1024-byte header as a
  record with its byte layout, parsing with the recovery of the first two versions,
  writing, the change of author and description in place, and the comparison of input
  buffers.  \<^term>\<open>None\<close> is an access outside a buffer.
\<close>

section \<open>Results\<close>

datatype core_result =
    Res_Ok | Res_Cancelled
  | VCR_InvalidFormat | VCR_BadFile | VCR_CheatWriteFailed | VCR_InvalidControllers | VCR_InvalidSavestate
  | VCR_InvalidFrame | VCR_NoMatchingRom | VCR_Idle | VCR_NotFromThisMovie | VCR_InvalidVersion
  | VCR_InvalidExtendedVersion | VCR_NeedsPlaybackOrRecording | VCR_InvalidStartType
  | VCR_WarpModifyAlreadyRunning | VCR_WarpModifyNeedsRecordingTask | VCR_WarpModifyEmptyInputBuffer
  | VCR_SeekAlreadyRunning | VCR_SeekSavestateLoadFailed | VCR_SeekSavestateIntervalZero
  | VR_NoMatchingRom | VR_PluginError | VR_RomInvalid | VR_NotRunning | VR_FileOpenFailed
  | ST_CoreNotLaunched | ST_NotFound | ST_FileWriteError | ST_DecompressionError | ST_EventQueueTooLong
  | ST_InvalidRegisters | Pl_LoadLibraryFailed | Pl_NoGetDllInfo

section \<open>The header\<close>

abbreviation (input) mup_magic :: u32 where "mup_magic \<equiv> 0x1a34364d"
abbreviation (input) mup_version :: u32 where "mup_version \<equiv> 3"

record movie_header =
  magic :: u32
  version :: u32
  uid :: u32
  length_vis :: u32
  rerecord_count :: u32
  vis_per_second :: u8
  num_controllers :: u8
  extended_version :: u8
  extended_flags :: u8
  length_samples :: u32
  startFlags :: u16
  reserved2 :: u16
  controller_flags :: u32
  authorship_tag :: bytes
  bruteforce_extra_data :: u32
  ext_rerecord_count :: u32
  ext_unused :: bytes
  old_author_info :: bytes
  old_description :: bytes
  rom_name :: bytes
  rom_crc1 :: u32
  rom_country :: u16
  reserved_bytes :: bytes
  video_plugin_name :: bytes
  audio_plugin_name :: bytes
  input_plugin_name :: bytes
  rsp_plugin_name :: bytes
  author :: bytes
  description :: bytes

abbreviation (input) header_size :: nat where "header_size \<equiv> 1024"

definition header_wf :: "movie_header \<Rightarrow> bool" where
  "header_wf h \<longleftrightarrow> length (authorship_tag h) = 4 \<and> length (ext_unused h) = 20 \<and> length (old_author_info h) = 48 \<and>
     length (old_description h) = 80 \<and> length (rom_name h) = 32 \<and> length (reserved_bytes h) = 56 \<and>
     length (video_plugin_name h) = 64 \<and> length (audio_plugin_name h) = 64 \<and> length (input_plugin_name h) = 64 \<and>
     length (rsp_plugin_name h) = 64 \<and> length (author h) = 222 \<and> length (description h) = 256"

definition header_bytes :: "movie_header \<Rightarrow> bytes" where
  "header_bytes h = put_le32 (magic h) @ put_le32 (version h) @ put_le32 (uid h) @ put_le32 (length_vis h)
     @ put_le32 (rerecord_count h) @ [vis_per_second h, num_controllers h, extended_version h, extended_flags h]
     @ put_le32 (length_samples h) @ put_le16 (startFlags h) @ put_le16 (reserved2 h) @ put_le32 (controller_flags h)
     @ authorship_tag h @ put_le32 (bruteforce_extra_data h) @ put_le32 (ext_rerecord_count h) @ ext_unused h
     @ old_author_info h @ old_description h @ rom_name h @ put_le32 (rom_crc1 h) @ put_le16 (rom_country h)
     @ reserved_bytes h @ video_plugin_name h @ audio_plugin_name h @ input_plugin_name h @ rsp_plugin_name h
     @ author h @ description h"

definition slice :: "nat \<Rightarrow> nat \<Rightarrow> bytes \<Rightarrow> bytes" where
  "slice off n b = take n (drop off b)"

definition header_of_bytes :: "bytes \<Rightarrow> movie_header" where
  "header_of_bytes b =
     \<lparr>magic = u32_at b 0, version = u32_at b 4, uid = u32_at b 8, length_vis = u32_at b 12,
      rerecord_count = u32_at b 16, vis_per_second = b ! 20, num_controllers = b ! 21, extended_version = b ! 22,
      extended_flags = b ! 23, length_samples = u32_at b 24, startFlags = u16_at b 28, reserved2 = u16_at b 30,
      controller_flags = u32_at b 32, authorship_tag = slice 36 4 b, bruteforce_extra_data = u32_at b 40,
      ext_rerecord_count = u32_at b 44, ext_unused = slice 48 20 b, old_author_info = slice 68 48 b,
      old_description = slice 116 80 b, rom_name = slice 196 32 b, rom_crc1 = u32_at b 228, rom_country = u16_at b 232,
      reserved_bytes = slice 234 56 b, video_plugin_name = slice 290 64 b, audio_plugin_name = slice 354 64 b,
      input_plugin_name = slice 418 64 b, rsp_plugin_name = slice 482 64 b, author = slice 546 222 b,
      description = slice 768 256 b\<rparr>"

lemma length_header_bytes: "header_wf h \<Longrightarrow> length (header_bytes h) = header_size"
  by (simp add: header_wf_def header_bytes_def)

lemma header_bytes_inverse: "header_wf h \<Longrightarrow> header_of_bytes (header_bytes h @ rest) = h"
  by (rule movie_header.equality)
    (simp_all add: header_wf_def header_of_bytes_def header_bytes_def u32_at_def u16_at_def slice_def nth_append)

lemma header_of_bytes_wf: "header_size \<le> length b \<Longrightarrow> header_wf (header_of_bytes b)"
  by (simp add: header_wf_def header_of_bytes_def slice_def)

section \<open>Reading\<close>

text \<open>
  \<^verbatim>\<open>strncpy_s(dest, sizeof(dest), src, count)\<close>: at most \<^term>\<open>count\<close> characters up to a zero
  byte, then a zero byte; the call aborts when they do not fit.
\<close>

definition cstr_prefix :: "nat \<Rightarrow> bytes \<Rightarrow> bytes" where
  "cstr_prefix n b = takeWhile (\<lambda>c. c \<noteq> 0) (take n b)"

definition strncpy_s :: "bytes \<Rightarrow> bytes \<Rightarrow> nat \<Rightarrow> bytes option" where
  "strncpy_s dest src n = bwrite 0 (cstr_prefix n src @ [0]) dest"

definition IS_ALPHA :: "u8 \<Rightarrow> bool" where
  "IS_ALPHA x \<longleftrightarrow> 0x41 \<le> x \<and> x \<le> 0x5A \<or> 0x61 \<le> x \<and> x \<le> 0x7A \<or> x = 0x31"

text \<open>The loop that looks for a position where \<^term>\<open>k\<close> names would start in turn.\<close>

definition find_names :: "bytes \<Rightarrow> nat \<Rightarrow> nat option" where
  "find_names b k = find (\<lambda>i. \<forall>j\<in>set [0..<k]. IS_ALPHA (b ! (234 + i + 64 * j))) [0..<56 + 64]"

definition unknown_name :: bytes where
  "unknown_name = map (\<lambda>c. of_nat (of_char c)) ''(unknown)''"

definition put_unknown :: "nat \<Rightarrow> bytes \<Rightarrow> bytes option" where
  "put_unknown off b = do {
     d \<leftarrow> strncpy_s (slice off 64 b) unknown_name 64;
     bwrite off d b }"

text \<open>
  \<^verbatim>\<open>memmove\<close> of the recovered names over the name fields (video at 290, audio at 354,
  input at 418, RSP at 482), and the defaults for the names in front of them.
\<close>

definition recover_names :: "bytes \<Rightarrow> bytes option" where
  "recover_names b = (case find_names b 4 of
      Some i \<Rightarrow> bwrite 290 (slice (234 + i) 256 b) b
    | None \<Rightarrow> do {
        b1 \<leftarrow> (case find_names b 3 of
            Some i \<Rightarrow> bwrite 354 (slice (234 + i) 192 b) b
          | None \<Rightarrow> do {
              b2 \<leftarrow> (case find_names b 2 of
                  Some i \<Rightarrow> bwrite 418 (slice (234 + i) 128 b) b
                | None \<Rightarrow> do {
                    b3 \<leftarrow> (case find_names b 1 of
                        Some i \<Rightarrow> bwrite 482 (slice (234 + i) 64 b) b
                      | None \<Rightarrow> put_unknown 482 b);
                    put_unknown 418 b3 });
              put_unknown 354 b2 });
        put_unknown 290 b1 })"

definition recover_old_header :: "bytes \<Rightarrow> movie_header option" where
  "recover_old_header b = do {
     b1 \<leftarrow> recover_names b;
     let h = header_of_bytes b1;
     a \<leftarrow> strncpy_s (author h) (old_author_info h) 48;
     d \<leftarrow> strncpy_s (description h) (old_description h) 80;
     Some (h\<lparr>author := a, description := d\<rparr>) }"

definition read_movie_header :: "bytes \<Rightarrow> (core_result + movie_header) option" where
  "read_movie_header buf =
    (if length buf < 512 then Some (Inl VCR_InvalidFormat)
     else let b = take 512 buf @ replicate 512 0; h = header_of_bytes b in
       if magic h \<noteq> mup_magic then Some (Inl VCR_InvalidFormat)
       else if version h \<le> 0 \<or> version h > mup_version then Some (Inl VCR_InvalidVersion)
       else if extended_version h > 1 then Some (Inl VCR_InvalidExtendedVersion)
       else if version h = 1 \<or> version h = 2 then map_option Inr (recover_old_header b)
       else if length buf < header_size then Some (Inl VCR_InvalidFormat)
       else
         let h1 = h\<lparr>author := slice 546 222 buf, description := slice 768 256 buf\<rparr>;
             actual_sample_count = (length buf - header_size) div 4
         in Some (Inr (if unat (length_samples h1) > actual_sample_count
                       then h1\<lparr>length_samples := of_nat actual_sample_count\<rparr> else h1)))"

text \<open>A path, as far as the movie code looks at it.\<close>

record mpath =
  directory :: string
  stem :: string
  extension :: string

definition path_string :: "mpath \<Rightarrow> string" where
  "path_string p = directory p @ stem p @ extension p"

type_synonym files = "string \<Rightarrow> bytes option"

definition read_file_buffer :: "files \<Rightarrow> mpath \<Rightarrow> bytes" where
  "read_file_buffer fs p = (case fs (path_string p) of None \<Rightarrow> [] | Some b \<Rightarrow> b)"

definition no_rom_header :: movie_header where
  "no_rom_header = (header_of_bytes (replicate header_size 0))\<lparr>extended_version := 1,
     authorship_tag := [0x4D, 0x55, 0x50, 0x4E], rom_country := 0xFFFF,
     rom_name := map (\<lambda>c. of_nat (of_char c)) ''(no ROM)'' @ replicate 24 0\<rparr>"

definition core_vcr_parse_header ::
  "files \<Rightarrow> mpath \<Rightarrow> movie_header \<Rightarrow> (core_result \<times> movie_header) option" where
  "core_vcr_parse_header fs p h0 =
    (if extension p \<noteq> ''.m64'' then Some (VCR_InvalidFormat, h0)
     else let buf = read_file_buffer fs p in
       if buf = [] then Some (VCR_BadFile, h0)
       else map_option (\<lambda>r. case r of Inl e \<Rightarrow> (e, no_rom_header) | Inr h \<Rightarrow> (Res_Ok, h)) (read_movie_header buf))"

definition read_inputs :: "bytes \<Rightarrow> nat \<Rightarrow> u32 list option" where
  "read_inputs buf n = map_option (\<lambda>d. map (\<lambda>k. u32_at d (4 * k)) [0..<n]) (bblock buf header_size (4 * n))"

definition core_vcr_read_movie_inputs ::
  "files \<Rightarrow> mpath \<Rightarrow> u32 list \<Rightarrow> (core_result \<times> u32 list) option" where
  "core_vcr_read_movie_inputs fs p inputs0 = do {
     (result, h) \<leftarrow> core_vcr_parse_header fs p (header_of_bytes (replicate header_size 0));
     if result \<noteq> Res_Ok then Some (result, inputs0)
     else let buf = read_file_buffer fs p in
       if length buf < header_size + 4 * unat (length_samples h) then Some (VCR_InvalidFormat, inputs0)
       else map_option (Pair Res_Ok) (read_inputs buf (unat (length_samples h))) }"

section \<open>Writing\<close>

definition inputs_bytes :: "u32 list \<Rightarrow> bytes" where
  "inputs_bytes xs = concat (map put_le32 xs)"

text \<open>The header as it is written when the extended format is switched off.\<close>

definition strip_extended :: "movie_header \<Rightarrow> movie_header" where
  "strip_extended h =
    (let h1 = h\<lparr>extended_version := 0, extended_flags := 0, authorship_tag := replicate 4 0\<rparr>
     in h1\<lparr>authorship_tag := 0 # tl (authorship_tag h1)\<rparr>)"

definition movie_file :: "bool \<Rightarrow> movie_header \<Rightarrow> u32 list \<Rightarrow> bytes option" where
  "movie_file extended h inputs =
    (let hdr_copy = (if extended then h else strip_extended h); n = unat (length_samples hdr_copy)
     in if n \<le> length inputs then Some (header_bytes hdr_copy @ inputs_bytes (take n inputs)) else None)"

text \<open>\<^verbatim>\<open>writable\<close> says which files can be opened for writing.\<close>

definition write_movie_impl ::
  "bool \<Rightarrow> (string \<Rightarrow> bool) \<Rightarrow> movie_header \<Rightarrow> u32 list \<Rightarrow> mpath \<Rightarrow> files \<Rightarrow> (bool \<times> files) option" where
  "write_movie_impl extended writable h inputs p fs =
    (if \<not> writable (path_string p) then Some (False, fs)
     else map_option (\<lambda>d. (True, fs(path_string p \<mapsto> d))) (movie_file extended h inputs))"

definition get_rerecord_count :: "movie_header \<Rightarrow> u64" where
  "get_rerecord_count h = push_bit 32 (ucast (ext_rerecord_count h)) OR ucast (rerecord_count h)"

definition set_rerecord_count :: "u64 \<Rightarrow> movie_header \<Rightarrow> movie_header" where
  "set_rerecord_count v h = h\<lparr>rerecord_count := ucast (v AND 0xFFFFFFFF), ext_rerecord_count := ucast (drop_bit 32 v)\<rparr>"

section \<open>Author and description in place\<close>

definition cstr :: "bytes \<Rightarrow> bytes option" where
  "cstr b = (if 0 \<in> set b then Some (takeWhile (\<lambda>c. c \<noteq> 0) b) else None)"

definition fwrite_at :: "nat \<Rightarrow> bytes \<Rightarrow> bytes \<Rightarrow> bytes" where
  "fwrite_at pos d f = take pos (f @ replicate (pos - length f) 0) @ d @ drop (pos + length d) f"

definition core_vcr_replace_author_info ::
  "(string \<Rightarrow> bool) \<Rightarrow> mpath \<Rightarrow> bytes \<Rightarrow> bytes \<Rightarrow> files \<Rightarrow> (core_result \<times> files) option" where
  "core_vcr_replace_author_info writable p new_author new_description fs =
    (let buf = read_file_buffer fs p in
     if buf = [] then Some (VCR_BadFile, fs)
     else do {
       r \<leftarrow> read_movie_header buf;
       case r of
         Inl e \<Rightarrow> Some (e, fs)
       | Inr h \<Rightarrow> do {
           a \<leftarrow> cstr (author h @ description h);
           d \<leftarrow> cstr (description h);
           if a = takeWhile (\<lambda>c. c \<noteq> 0) new_author \<and> d = takeWhile (\<lambda>c. c \<noteq> 0) new_description
           then Some (Res_Ok, fs)
           else if \<not> writable (path_string p) then Some (VCR_BadFile, fs)
           else if length new_author > 222 \<or> length new_description > 256 then Some (VCR_InvalidFormat, fs)
           else
             let f1 = fwrite_at 546 new_author (fwrite_at 546 (replicate 222 0) buf);
                 f2 = fwrite_at 768 new_description (fwrite_at 768 (replicate 256 0) f1)
             in Some (Res_Ok, fs(path_string p \<mapsto> f2)) } })"

section \<open>Input buffers\<close>

text \<open>The loops of \<^verbatim>\<open>vcr_find_first_input_difference\<close>; \<^verbatim>\<open>SIZE_MAX\<close> is \<^term>\<open>None\<close>.\<close>

fun first_diff :: "u32 list \<Rightarrow> u32 list \<Rightarrow> nat \<Rightarrow> nat option" where
  "first_diff (x # xs) (y # ys) i = (if x \<noteq> y then Some i else first_diff xs ys (i + 1))"
| "first_diff _ _ i = None"

definition vcr_find_first_input_difference :: "u32 list \<Rightarrow> u32 list \<Rightarrow> nat option" where
  "vcr_find_first_input_difference first second =
    (if length first \<noteq> length second then
       case first_diff first second 0 of
         Some i \<Rightarrow> Some i
       | None \<Rightarrow> Some (min (length first) (length second) - 1)
     else first_diff first second 0)"

section \<open>Reading is safe\<close>

lemma length_slice: "off + n \<le> length b \<Longrightarrow> length (slice off n b) = n"
  by (simp add: slice_def)

lemma bwrite_Some: "off + length d \<le> length b \<Longrightarrow> \<exists>b'. bwrite off d b = Some b' \<and> length b' = length b"
  by (auto simp: bwrite_def)

lemma length_cstr_prefix: "length (cstr_prefix n b) \<le> n"
  unfolding cstr_prefix_def by (rule order_trans [OF length_takeWhile_le]) simp

lemma strncpy_s_Some: "n < length dest \<Longrightarrow> \<exists>d. strncpy_s dest src n = Some d \<and> length d = length dest"
  unfolding strncpy_s_def by (rule bwrite_Some) (use length_cstr_prefix [of n src] in simp)

lemma put_unknown_Some: "off + 64 \<le> length b \<Longrightarrow> \<exists>b'. put_unknown off b = Some b' \<and> length b' = length b"
proof -
  assume off: "off + 64 \<le> length b"
  have "length (cstr_prefix 64 unknown_name @ [0]) \<le> 64"
    by (simp add: cstr_prefix_def unknown_name_def)
  then obtain d where d: "strncpy_s (slice off 64 b) unknown_name 64 = Some d" "length d = 64"
    unfolding strncpy_s_def using bwrite_Some [of 0 "cstr_prefix 64 unknown_name @ [0]" "slice off 64 b"] off
    by (auto simp: length_slice)
  then show ?thesis using off bwrite_Some [of off d b] by (simp add: put_unknown_def)
qed

lemma find_names_less: "find_names b k = Some i \<Longrightarrow> i < 120"
  by (auto simp: find_names_def find_Some_iff)

lemma move_names_Some:
  assumes "find_names b k = Some i" "length b = header_size" "off + n \<le> header_size" "n \<le> 256"
  shows "\<exists>b'. bwrite off (slice (234 + i) n b) b = Some b' \<and> length b' = header_size"
  using bwrite_Some [of off "slice (234 + i) n b" b] find_names_less [OF assms(1)] assms(2-4)
  by (simp add: length_slice)

lemma recover_names_Some: "length b = header_size \<Longrightarrow> \<exists>b'. recover_names b = Some b' \<and> length b' = header_size"
proof -
  assume b: "length b = header_size"
  have unk: "\<exists>b'. put_unknown off c = Some b' \<and> length b' = header_size"
    if "length c = header_size" "off + 64 \<le> header_size" for off c
    using put_unknown_Some [of off c] that by simp
  have 1: "\<exists>b3. (case find_names b 1 of Some i \<Rightarrow> bwrite 482 (slice (234 + i) 64 b) b | None \<Rightarrow> put_unknown 482 b) = Some b3
      \<and> length b3 = header_size"
    using move_names_Some [of b 1 _ 482 64] unk [of b 482] b by (simp split: option.split)
  then have 2: "\<exists>b2. (case find_names b 2 of Some i \<Rightarrow> bwrite 418 (slice (234 + i) 128 b) b
      | None \<Rightarrow> do { b3 \<leftarrow> (case find_names b 1 of Some i \<Rightarrow> bwrite 482 (slice (234 + i) 64 b) b | None \<Rightarrow> put_unknown 482 b);
                    put_unknown 418 b3 }) = Some b2 \<and> length b2 = header_size" (is "\<exists>b2. ?two = _ \<and> _")
    using move_names_Some [of b 2 _ 418 128] unk [of _ 418] b by (fastforce split: option.split)
  then have 3: "\<exists>b1. (case find_names b 3 of Some i \<Rightarrow> bwrite 354 (slice (234 + i) 192 b) b
      | None \<Rightarrow> do { b2 \<leftarrow> ?two; put_unknown 354 b2 }) = Some b1 \<and> length b1 = header_size"
    using move_names_Some [of b 3 _ 354 192] unk [of _ 354] b by (fastforce split: option.split)
  then show ?thesis
    unfolding recover_names_def
    using move_names_Some [of b 4 _ 290 256] unk [of _ 290] b by (fastforce split: option.split)
qed

lemma recover_old_header_Some: "length b = header_size \<Longrightarrow> \<exists>h. recover_old_header b = Some h \<and> header_wf h"
proof -
  assume "length b = header_size"
  then obtain b1 where b1: "recover_names b = Some b1" "length b1 = header_size" using recover_names_Some by blast
  then have wf: "header_wf (header_of_bytes b1)" by (simp add: header_of_bytes_wf)
  obtain a where a: "strncpy_s (author (header_of_bytes b1)) (old_author_info (header_of_bytes b1)) 48 = Some a" "length a = 222"
    using strncpy_s_Some [of 48 "author (header_of_bytes b1)"] wf by (auto simp: header_wf_def)
  obtain d where d: "strncpy_s (description (header_of_bytes b1)) (old_description (header_of_bytes b1)) 80 = Some d" "length d = 256"
    using strncpy_s_Some [of 80 "description (header_of_bytes b1)"] wf by (auto simp: header_wf_def)
  show ?thesis using b1 a d wf by (simp add: recover_old_header_def Let_def header_wf_def)
qed

lemma read_movie_header_cases:
  obtains e where "read_movie_header buf = Some (Inl e)"
  | h where "read_movie_header buf = Some (Inr h)" "header_wf h"
proof -
  let ?b = "take 512 buf @ replicate 512 0 :: bytes"
  have "length ?b = header_size" if "\<not> length buf < 512" using that by simp
  then have "\<exists>h. recover_old_header ?b = Some h \<and> header_wf h" "header_wf (header_of_bytes ?b)" if "\<not> length buf < 512"
    using that recover_old_header_Some header_of_bytes_wf by auto
  then have "(\<exists>e. read_movie_header buf = Some (Inl e)) \<or> (\<exists>h. read_movie_header buf = Some (Inr h) \<and> header_wf h)"
    by (auto simp: read_movie_header_def Let_def length_slice header_wf_def)
  then show ?thesis using that by blast
qed

lemma read_inputs_Some: "header_size + 4 * n \<le> length buf \<Longrightarrow> \<exists>xs. read_inputs buf n = Some xs \<and> length xs = n"
  by (simp add: read_inputs_def bblock_def)

section \<open>What was written is read back\<close>

lemma length_inputs_bytes [simp]: "length (inputs_bytes xs) = 4 * length xs"
  by (induction xs) (simp_all add: inputs_bytes_def)

lemma inputs_bytes_inverse: "map (\<lambda>k. u32_at (inputs_bytes xs) (4 * k)) [0..<length xs] = xs"
proof (induction xs)
  case (Cons x xs)
  have "u32_at (inputs_bytes (x # xs)) (4 * Suc k) = u32_at (inputs_bytes xs) (4 * k)" for k
    by (simp add: u32_at_def inputs_bytes_def)
  moreover have "u32_at (inputs_bytes (x # xs)) 0 = x" by (simp add: u32_at_def inputs_bytes_def)
  ultimately show ?case using Cons by (simp add: map_upt_Suc del: upt_Suc)
qed simp

lemma read_inputs_written:
  assumes "length hb = header_size"
  shows "read_inputs (hb @ inputs_bytes xs) (length xs) = Some xs"
  using assms inputs_bytes_inverse [of xs] by (simp add: read_inputs_def bblock_def)

text \<open>The header as it comes back: the second half of the RSP plugin's name is lost.\<close>

definition read_back :: "movie_header \<Rightarrow> movie_header" where
  "read_back h = h\<lparr>rsp_plugin_name := take 30 (rsp_plugin_name h) @ replicate 34 0\<rparr>"

definition movie_v3 :: "movie_header \<Rightarrow> bool" where
  "movie_v3 h \<longleftrightarrow> header_wf h \<and> magic h = mup_magic \<and> version h = mup_version \<and> extended_version h \<le> 1"

lemma header_first_half:
  assumes "header_wf h"
  shows "take 512 (header_bytes h @ x) @ replicate 512 0 =
    header_bytes ((read_back h)\<lparr>author := replicate 222 0, description := replicate 256 0\<rparr>)"
proof -
  let ?front = "put_le32 (magic h) @ put_le32 (version h) @ put_le32 (uid h) @ put_le32 (length_vis h)
     @ put_le32 (rerecord_count h) @ [vis_per_second h, num_controllers h, extended_version h, extended_flags h]
     @ put_le32 (length_samples h) @ put_le16 (startFlags h) @ put_le16 (reserved2 h) @ put_le32 (controller_flags h)
     @ authorship_tag h @ put_le32 (bruteforce_extra_data h) @ put_le32 (ext_rerecord_count h) @ ext_unused h
     @ old_author_info h @ old_description h @ rom_name h @ put_le32 (rom_crc1 h) @ put_le16 (rom_country h)
     @ reserved_bytes h @ video_plugin_name h @ audio_plugin_name h @ input_plugin_name h"
  have len: "length ?front = 482" using assms by (simp add: header_wf_def)
  have hb: "header_bytes h = ?front @ rsp_plugin_name h @ author h @ description h"
    by (simp add: header_bytes_def)
  have "take 512 (header_bytes h @ x) = ?front @ take 30 (rsp_plugin_name h)"
    using assms unfolding hb append_assoc take_append len by (simp add: header_wf_def)
  moreover have "replicate 512 (0 :: u8) = replicate 34 0 @ replicate 222 0 @ replicate 256 0"
    by (simp flip: replicate_add)
  ultimately show ?thesis by (simp add: header_bytes_def read_back_def)
qed

lemma read_movie_header_written:
  assumes "movie_v3 h"
  shows "read_movie_header (header_bytes h @ x) = Some (Inr
    (if unat (length_samples h) > length x div 4
     then (read_back h)\<lparr>length_samples := of_nat (length x div 4)\<rparr> else read_back h))"
proof -
  have wf: "header_wf h" using assms by (simp add: movie_v3_def)
  let ?z = "(read_back h)\<lparr>author := replicate 222 0, description := replicate 256 0\<rparr>"
  have "header_wf ?z" using wf by (simp add: header_wf_def read_back_def)
  from header_bytes_inverse [OF this, of "[]"] have z: "header_of_bytes (header_bytes ?z) = ?z" by simp
  have fields: "slice 546 222 (header_bytes h @ x) = author h" "slice 768 256 (header_bytes h @ x) = description h"
    using arg_cong [OF header_bytes_inverse [OF wf, of x], of author]
      arg_cong [OF header_bytes_inverse [OF wf, of x], of description]
    by (simp_all add: header_of_bytes_def)
  have b: "header_of_bytes (take 512 (header_bytes h @ x) @ replicate 512 0) = ?z"
    by (simp only: header_first_half [OF wf] z)
  have c: "magic ?z = mup_magic" "version ?z = 3" "\<not> extended_version ?z > 1"
      "length_samples ?z = length_samples h"
    using assms by (simp_all add: movie_v3_def read_back_def leD)
  have d: "?z\<lparr>author := author h, description := description h\<rparr> = read_back h"
    by (simp add: read_back_def)
  show ?thesis
    using length_header_bytes [OF wf] c
    by (simp only: read_movie_header_def Let_def b fields d) (simp add: read_back_def)
qed

lemma movie_file_read:
  assumes "movie_v3 h" "unat (length_samples h) \<le> length inputs"
  shows "\<exists>f. movie_file True h inputs = Some f \<and> read_movie_header f = Some (Inr (read_back h)) \<and>
    length f = header_size + 4 * unat (length_samples h) \<and>
    read_inputs f (unat (length_samples h)) = Some (take (unat (length_samples h)) inputs)"
proof -
  let ?xs = "take (unat (length_samples h)) inputs"
  have n: "length ?xs = unat (length_samples h)" using assms(2) by simp
  have len: "length (header_bytes h) = header_size" using assms(1) by (simp add: movie_v3_def length_header_bytes)
  show ?thesis
    using read_movie_header_written [OF assms(1), of "inputs_bytes ?xs"] read_inputs_written [OF len, of ?xs] assms(2)
    unfolding n by (simp add: movie_file_def len)
qed

lemma rerecord_count_inverse [simp]: "get_rerecord_count (set_rerecord_count v h) = v"
proof (rule bit_word_eqI)
  fix n assume n: "n < LENGTH(64)"
  have "v AND 0xFFFFFFFF = take_bit 32 v" by (simp add: take_bit_eq_mask mask_numeral)
  then have low: "bit (v AND 0xFFFFFFFF) k \<longleftrightarrow> k < 32 \<and> bit v k" for k by (simp add: bit_take_bit_iff)
  show "bit (get_rerecord_count (set_rerecord_count v h)) n = bit v n"
  proof (cases "n < 32")
    case True
    then show ?thesis
      by (simp add: get_rerecord_count_def set_rerecord_count_def bit_or_iff bit_push_bit_iff bit_unsigned_iff low)
  next
    case False
    then have "n - 32 < 32" "32 + (n - 32) = n" using n by auto
    with False show ?thesis
      by (simp add: get_rerecord_count_def set_rerecord_count_def bit_or_iff bit_push_bit_iff bit_unsigned_iff low
          bit_drop_bit_eq)
  qed
qed

section \<open>Properties\<close>

text \<open>C26. A movie file reads back.  Writing a version 3 movie and parsing the file returns
  its header, except that the name of the RSP plugin keeps only its first 30 bytes, and exactly
  its inputs.\<close>

theorem movie_roundtrip:
  assumes "movie_v3 h" "unat (length_samples h) \<le> length inputs" "writable (path_string p)" "extension p = ''.m64''"
  shows "\<exists>fs'. write_movie_impl True writable h inputs p fs = Some (True, fs') \<and>
    core_vcr_parse_header fs' p h0 = Some (Res_Ok, read_back h) \<and>
    core_vcr_read_movie_inputs fs' p old = Some (Res_Ok, take (unat (length_samples h)) inputs)"
proof -
  obtain f where f: "movie_file True h inputs = Some f" "read_movie_header f = Some (Inr (read_back h))"
      "length f = header_size + 4 * unat (length_samples h)"
      "read_inputs f (unat (length_samples h)) = Some (take (unat (length_samples h)) inputs)"
    using movie_file_read [OF assms(1,2)] by blast
  have ne: "f \<noteq> []" using f(3) by auto
  have "read_file_buffer (fs(path_string p \<mapsto> f)) p = f" by (simp add: read_file_buffer_def)
  moreover from this have "core_vcr_parse_header (fs(path_string p \<mapsto> f)) p h1 = Some (Res_Ok, read_back h)" for h1
    using f(2) ne assms(4) by (simp add: core_vcr_parse_header_def)
  ultimately show ?thesis
    using f assms(3)
    by (simp add: write_movie_impl_def core_vcr_read_movie_inputs_def read_back_def)
qed

definition movie_example :: "u32 \<Rightarrow> movie_header" where
  "movie_example n = (header_of_bytes (replicate header_size 0))\<lparr>magic := mup_magic, version := mup_version,
     length_samples := n, ext_rerecord_count := 1, controller_flags := 1\<rparr>"

lemma movie_example_v3: "movie_v3 (movie_example n)"
  using header_of_bytes_wf [of "replicate header_size 0"]
  by (simp add: movie_v3_def movie_example_def header_wf_def header_of_bytes_def)

definition m64 :: mpath where
  "m64 = \<lparr>directory = ''C:/'', stem = ''movie'', extension = ''.m64''\<rparr>"

theorem movie_roundtrip_witness:
  "\<exists>fs'. write_movie_impl True (\<lambda>_. True) (movie_example 2) [0x8000, 0] m64 (\<lambda>_. None) = Some (True, fs') \<and>
     core_vcr_read_movie_inputs fs' m64 [] = Some (Res_Ok, [0x8000, 0])"
proof -
  have n: "unat (length_samples (movie_example 2)) = 2" by (simp add: movie_example_def)
  from movie_roundtrip [OF movie_example_v3, of 2 "[0x8000, 0]" "\<lambda>_. True" m64 "\<lambda>_. None" _ "[]"]
  show ?thesis by (auto simp: n m64_def)
qed

text \<open>C27. Any file can be opened as a movie.  Whatever its bytes, parsing the header and
  reading the inputs finish without an access outside a buffer, a parsed header has
  fields of the declared sizes, and a successful read returns as many inputs as the
  header says.\<close>

theorem movie_read_safe:
  "\<exists>r h. core_vcr_parse_header fs p h0 = Some (r, h) \<and>
     (if r = Res_Ok then header_wf h else True) \<and>
     (\<exists>r' xs. core_vcr_read_movie_inputs fs p old = Some (r', xs) \<and>
        (if r' = Res_Ok then r = Res_Ok \<and> length xs = unat (length_samples h) else xs = old))"
proof (cases rule: read_movie_header_cases [of "read_file_buffer fs p"])
  case (1 e)
  have "e \<noteq> Res_Ok" using 1 by (auto simp: read_movie_header_def Let_def split: if_splits)
  with 1 show ?thesis
    by (cases "extension p = ''.m64''"; cases "read_file_buffer fs p = []")
      (simp_all add: core_vcr_parse_header_def core_vcr_read_movie_inputs_def Let_def)
next
  case (2 h)
  then show ?thesis
    using read_inputs_Some [of "unat (length_samples h)" "read_file_buffer fs p"]
    by (cases "extension p = ''.m64''"; cases "read_file_buffer fs p = []")
      (auto simp: core_vcr_parse_header_def core_vcr_read_movie_inputs_def Let_def not_less)
qed

text \<open>Switching the extended format off does not clear the extended section: the file
  written keeps the high word of the rerecord count and the bruteforce data, so
  the parsed movie has the same 64-bit rerecord count as the one written.\<close>

theorem unextended_movie_keeps_data:
  assumes "movie_v3 h" "unat (length_samples h) \<le> length inputs"
  shows "\<exists>f h'. movie_file False h inputs = Some f \<and> read_movie_header f = Some (Inr h') \<and> extended_version h' = 0 \<and>
     get_rerecord_count h' = get_rerecord_count h \<and> bruteforce_extra_data h' = bruteforce_extra_data h \<and>
     ext_unused h' = ext_unused h"
proof -
  have "movie_v3 (strip_extended h)" "length_samples (strip_extended h) = length_samples h"
    using assms(1) by (simp_all add: movie_v3_def strip_extended_def Let_def header_wf_def)
  with movie_file_read [OF this(1), of inputs] assms(2) show ?thesis
    by (auto simp: movie_file_def read_back_def strip_extended_def Let_def get_rerecord_count_def)
qed

theorem unextended_movie_keeps_data_witness:
  "\<exists>f h'. movie_file False (movie_example 0) [] = Some f \<and> read_movie_header f = Some (Inr h') \<and>
     extended_version h' = 0 \<and> get_rerecord_count h' = 0x100000000"
proof -
  have "get_rerecord_count (movie_example 0) = 0x100000000"
    by (simp add: get_rerecord_count_def movie_example_def header_of_bytes_def u32_at_def le_word_def numeral_eq_Suc)
  with unextended_movie_keeps_data [OF movie_example_v3, of 0 "[]"] show ?thesis
    by (auto simp: movie_example_def)
qed

end
