(* ===== verification/Cheats.thy ===== *)
theory Cheats
  imports Host_Memory
begin

text \<open>
  GameShark cheats (\<^verbatim>\<open>Core/cheats.cpp\<close>) with the memory accessors of
  \<^verbatim>\<open>include/core_api.h\<close> and the line splitter of \<^verbatim>\<open>lib/IOHelpers.cpp\<close>: the compiler from
  code lines to instructions, the executor, the stack of cheat layers that overrides the
  host's list, and the text format in which a movie keeps its cheats.  The closures of the
  source are the constructors of \<^verbatim>\<open>cheat_instr\<close>.  Wide strings are character
  lists; \<^verbatim>\<open>std::stoul\<close> throwing is \<^verbatim>\<open>Inl\<close>.
\<close>

section \<open>Memory accessors\<close>

abbreviation (input) CORE_ADDR_MASK :: u32 where "CORE_ADDR_MASK \<equiv> 0x7FFFFF"

definition to_addr :: "u32 \<Rightarrow> nat \<Rightarrow> u32" where
  "to_addr addr sz = (if sz = 4 then addr else if sz = 2 then addr XOR 2
     else if sz = 1 then addr XOR 3 else 0xFFFFFFFF)"

definition rdram_index :: "u32 \<Rightarrow> nat \<Rightarrow> nat option" where
  "rdram_index addr sz = (let k = unat (to_addr addr sz AND CORE_ADDR_MASK) in
     if k + sz \<le> 0x800000 then Some k else None)"

definition core_rdram_load8 :: "array \<Rightarrow> u32 \<Rightarrow> u8 option" where
  "core_rdram_load8 rdram addr = map_option rdram (rdram_index addr 1)"

definition core_rdram_load16 :: "array \<Rightarrow> u32 \<Rightarrow> u16 option" where
  "core_rdram_load16 rdram addr = map_option (ld16 rdram) (rdram_index addr 2)"

definition core_rdram_store8 :: "array \<Rightarrow> u32 \<Rightarrow> u8 \<Rightarrow> array option" where
  "core_rdram_store8 rdram addr v = map_option (\<lambda>k. rdram(k := v)) (rdram_index addr 1)"

definition core_rdram_store16 :: "array \<Rightarrow> u32 \<Rightarrow> u16 \<Rightarrow> array option" where
  "core_rdram_store16 rdram addr v = map_option (\<lambda>k. st16 rdram k v) (rdram_index addr 2)"

section \<open>Instructions\<close>

datatype cheat_instr =
    Store8 u32 u32 | Store16 u32 u32 | Store8_gs u32 u32 | Store16_gs u32 u32
  | Eq8 u32 u32 | Eq16 u32 u32 | Ne8 u32 u32 | Ne16 u32 u32

record cheat =
  cheat_name :: string
  cheat_code :: string
  cheat_active :: bool
  cheat_instructions :: "(bool \<times> cheat_instr) list"

definition new_cheat :: cheat where
  "new_cheat = \<lparr>cheat_name = ''Unnamed Cheat'', cheat_code = [], cheat_active = True, cheat_instructions = []\<rparr>"

fun run_instr :: "bool \<Rightarrow> cheat_instr \<Rightarrow> array \<Rightarrow> (bool \<times> array) option" where
  "run_instr gs (Store8 a v) m = map_option (Pair True) (core_rdram_store8 m a (ucast (v AND 0xFF)))"
| "run_instr gs (Store16 a v) m = map_option (Pair True) (core_rdram_store16 m a (ucast v))"
| "run_instr gs (Store8_gs a v) m =
     (if gs then map_option (Pair True) (core_rdram_store8 m a (ucast (v AND 0xFF))) else Some (True, m))"
| "run_instr gs (Store16_gs a v) m =
     (if gs then map_option (Pair True) (core_rdram_store16 m a (ucast v)) else Some (True, m))"
| "run_instr gs (Eq8 a v) m = map_option (\<lambda>x. (ucast x = v AND 0xFF, m)) (core_rdram_load8 m a)"
| "run_instr gs (Eq16 a v) m = map_option (\<lambda>x. (ucast x = v, m)) (core_rdram_load16 m a)"
| "run_instr gs (Ne8 a v) m = map_option (\<lambda>x. (ucast x \<noteq> v AND 0xFF, m)) (core_rdram_load8 m a)"
| "run_instr gs (Ne16 a v) m = map_option (\<lambda>x. (ucast x \<noteq> v, m)) (core_rdram_load16 m a)"

section \<open>Text\<close>

text \<open>\<^verbatim>\<open>split_string(s, L"\n")\<close>: the pieces between line feeds, the last one included.\<close>

fun split_lines :: "string \<Rightarrow> string list" where
  "split_lines [] = [[]]"
| "split_lines (c # cs) = (if c = CHR 0x0A then [] # split_lines cs
     else case split_lines cs of [] \<Rightarrow> [[c]] | l # ls \<Rightarrow> (c # l) # ls)"

definition is_space :: "char \<Rightarrow> bool" where
  "is_space c \<longleftrightarrow> c = CHR '' '' \<or> 9 \<le> (of_char c :: nat) \<and> (of_char c :: nat) \<le> 13"

definition hex_digit :: "char \<Rightarrow> nat option" where
  "hex_digit c = (let n = (of_char c :: nat) in
     if 48 \<le> n \<and> n \<le> 57 then Some (n - 48)
     else if 65 \<le> n \<and> n \<le> 70 then Some (n - 55)
     else if 97 \<le> n \<and> n \<le> 102 then Some (n - 87) else None)"

fun hex_value :: "nat \<Rightarrow> string \<Rightarrow> nat" where
  "hex_value acc [] = acc"
| "hex_value acc (c # cs) = (case hex_digit c of None \<Rightarrow> acc | Some d \<Rightarrow> hex_value (16 * acc + d) cs)"

text \<open>
  \<^verbatim>\<open>std::stoul(s, nullptr, 16)\<close> on the at most six characters that the compiler passes
  (so that no value is out of range): white space, a sign, an optional prefix, then digits.
\<close>

definition strip_sign :: "string \<Rightarrow> bool \<times> string" where
  "strip_sign s = (case s of c # cs \<Rightarrow> if c = CHR ''-'' then (True, cs) else if c = CHR ''+'' then (False, cs)
     else (False, s) | [] \<Rightarrow> (False, []))"

definition strip_0x :: "string \<Rightarrow> string" where
  "strip_0x s = (case s of a # b # c # cs \<Rightarrow>
     if a = CHR ''0'' \<and> (b = CHR ''x'' \<or> b = CHR ''X'') \<and> hex_digit c \<noteq> None then c # cs else s | _ \<Rightarrow> s)"

definition stoul16 :: "string \<Rightarrow> u32 option" where
  "stoul16 s =
    (let (neg, s1) = strip_sign (dropWhile is_space s); s2 = strip_0x s1 in
     case s2 of [] \<Rightarrow> None
     | c # _ \<Rightarrow> if hex_digit c = None then None
         else let v = of_nat (hex_value 0 s2) in Some (if neg then - v else v))"

section \<open>The compiler\<close>

datatype cheat_error = Invalid_argument

record serial_mode =
  serial :: bool
  serial_count :: nat
  serial_offset :: u32
  serial_diff :: u32

definition substr :: "string \<Rightarrow> nat \<Rightarrow> nat \<Rightarrow> string" where
  "substr s pos n = take n (drop pos s)"

definition stoul_or_throw :: "string \<Rightarrow> cheat_error + u32" where
  "stoul_or_throw s = (case stoul16 s of None \<Rightarrow> Inl Invalid_argument | Some v \<Rightarrow> Inr v)"

definition line_skipped :: "string \<Rightarrow> bool" where
  "line_skipped line \<longleftrightarrow> length line < 13 \<or> hd line = CHR ''$'' \<or> hd line = CHR ''-''"

definition serial_writes :: "serial_mode \<Rightarrow> u32 \<Rightarrow> u32 \<Rightarrow> (bool \<times> cheat_instr) list" where
  "serial_writes st address val =
     map (\<lambda>i. (False, Store8 (address + serial_offset st * of_nat i) (val + serial_diff st * of_nat i)))
       [0..<serial_count st]"

definition decode_line :: "string \<Rightarrow> u32 \<Rightarrow> u32 \<Rightarrow> (bool \<times> cheat_instr) option" where
  "decode_line opcode address val =
    (if opcode = ''80'' \<or> opcode = ''A0'' then Some (False, Store8 address val)
     else if opcode = ''81'' \<or> opcode = ''A1'' then Some (False, Store16 address val)
     else if opcode = ''88'' then Some (False, Store8_gs address val)
     else if opcode = ''89'' then Some (False, Store16_gs address val)
     else if opcode = ''D0'' then Some (True, Eq8 address val)
     else if opcode = ''D1'' then Some (True, Eq16 address val)
     else if opcode = ''D2'' then Some (True, Ne8 address val)
     else if opcode = ''D3'' then Some (True, Ne16 address val)
     else None)"

text \<open>The loop over the lines: \<^verbatim>\<open>Inl\<close> a thrown exception, \<^term>\<open>Inr None\<close> an illegal instruction.\<close>

fun compile_lines ::
  "string list \<Rightarrow> serial_mode \<Rightarrow> (bool \<times> cheat_instr) list \<Rightarrow> cheat_error + (bool \<times> cheat_instr) list option" where
  "compile_lines [] st acc = Inr (Some acc)"
| "compile_lines (line # lines) st acc =
    (if line_skipped line then compile_lines lines st acc
     else case stoul_or_throw (substr line 2 6) of
       Inl e \<Rightarrow> Inl e
     | Inr address \<Rightarrow>
       (case stoul_or_throw (if substr line 8 1 = '' '' then substr line 9 4 else substr line 10 4) of
         Inl e \<Rightarrow> Inl e
       | Inr val \<Rightarrow>
         if serial st then compile_lines lines (st\<lparr>serial := False\<rparr>) (acc @ serial_writes st address val)
         else if substr line 0 2 = ''50'' then
           compile_lines lines
             \<lparr>serial = True, serial_count = unat (drop_bit 8 (address AND 0xFF00)),
              serial_offset = address AND 0xFF, serial_diff = val\<rparr> acc
         else case decode_line (substr line 0 2) address val of
             None \<Rightarrow> Inr None
           | Some i \<Rightarrow> compile_lines lines st (acc @ [i])))"

definition core_cht_compile :: "string \<Rightarrow> cheat \<Rightarrow> cheat_error + bool \<times> cheat" where
  "core_cht_compile code c =
    (case compile_lines (split_lines code) \<lparr>serial = False, serial_count = 0, serial_offset = 0, serial_diff = 0\<rparr> [] of
       Inl e \<Rightarrow> Inl e
     | Inr None \<Rightarrow> Inr (False, c)
     | Inr (Some is) \<Rightarrow> Inr (True, new_cheat\<lparr>cheat_instructions := is, cheat_code := code\<rparr>))"

section \<open>Files\<close>

text \<open>
  The file is opened in text mode and its content, up to the first zero byte, becomes the
  string; \<^term>\<open>None\<close> is a file that cannot be opened.
\<close>

fun read_lines :: "string list \<Rightarrow> bool \<Rightarrow> cheat list \<Rightarrow> cheat list" where
  "read_lines [] reading cheats = cheats"
| "read_lines (line # lines) reading cheats =
    (if line = [] then read_lines lines reading cheats
     else let cheats1 = (if reading \<and> cheats \<noteq> []
                then butlast cheats @ [(last cheats)\<lparr>cheat_code := cheat_code (last cheats) @ line @ [CHR 0x0A]\<rparr>]
                else cheats)
       in if take 2 line = ''--''
          then read_lines lines True (cheats1 @ [new_cheat\<lparr>cheat_name := drop 2 line\<rparr>])
          else read_lines lines reading cheats1)"

fun compile_all :: "cheat list \<Rightarrow> cheat_error + cheat list" where
  "compile_all [] = Inr []"
| "compile_all (c # cs) =
    (case core_cht_compile (cheat_code c) c of
       Inl e \<Rightarrow> Inl e
     | Inr (_, c') \<Rightarrow> (case compile_all cs of Inl e \<Rightarrow> Inl e | Inr cs' \<Rightarrow> Inr (c'\<lparr>cheat_name := cheat_name c\<rparr> # cs')))"

definition cht_read_from_file :: "string option \<Rightarrow> cheat list \<Rightarrow> cheat_error + bool \<times> cheat list" where
  "cht_read_from_file file cheats =
    (case file of
       None \<Rightarrow> Inr (False, cheats)
     | Some text \<Rightarrow>
         (case compile_all (read_lines (split_lines (takeWhile (\<lambda>c. c \<noteq> CHR 0x00) text)) False []) of
            Inl e \<Rightarrow> Inl e | Inr cs \<Rightarrow> Inr (True, cs)))"

section \<open>Layers and execution\<close>

record cheat_state =
  host_cheats :: "cheat list"
  cheat_stack :: "cheat list list"

definition cht_serialize :: "cheat_state \<Rightarrow> string" where
  "cht_serialize s = concat (map (\<lambda>c. ''--'' @ cheat_name c @ [CHR 0x0A] @ cheat_code c @ [CHR 0x0A]) (host_cheats s))"

definition core_cht_get_list :: "cheat_state \<Rightarrow> cheat list" where
  "core_cht_get_list s = (case cheat_stack s of [] \<Rightarrow> host_cheats s | l # _ \<Rightarrow> l)"

definition core_cht_get_override_stack :: "cheat_state \<Rightarrow> cheat list list" where
  "core_cht_get_override_stack s = cheat_stack s"

definition core_cht_set_list :: "cheat list \<Rightarrow> cheat_state \<Rightarrow> cheat_state" where
  "core_cht_set_list l s = (if cheat_stack s \<noteq> [] then s else s\<lparr>host_cheats := l\<rparr>)"

definition cht_layer_push :: "cheat list \<Rightarrow> cheat_state \<Rightarrow> cheat_state" where
  "cht_layer_push l s = s\<lparr>cheat_stack := l # cheat_stack s\<rparr>"

text \<open>\<^verbatim>\<open>std::stack::pop\<close> of an empty stack is undefined.\<close>

definition cht_layer_pop :: "cheat_state \<Rightarrow> cheat_state option" where
  "cht_layer_pop s = (case cheat_stack s of [] \<Rightarrow> None | _ # ls \<Rightarrow> Some (s\<lparr>cheat_stack := ls\<rparr>))"

fun exec_instrs :: "bool \<Rightarrow> (bool \<times> cheat_instr) list \<Rightarrow> bool \<Rightarrow> array \<Rightarrow> array option" where
  "exec_instrs gs [] execute m = Some m"
| "exec_instrs gs ((cond, i) # is) execute m =
    (if execute then do { (b, m') \<leftarrow> run_instr gs i m; exec_instrs gs is b m' }
     else exec_instrs gs is (\<not> cond) m)"

fun exec_cheats :: "bool \<Rightarrow> cheat list \<Rightarrow> array \<Rightarrow> array option" where
  "exec_cheats gs [] m = Some m"
| "exec_cheats gs (c # cs) m =
    (if \<not> cheat_active c then Some m
     else do { m' \<leftarrow> exec_instrs gs (cheat_instructions c) True m; exec_cheats gs cs m' })"

definition cht_execute :: "bool \<Rightarrow> cheat_state \<Rightarrow> array \<Rightarrow> array option" where
  "cht_execute gs s m = exec_cheats gs (core_cht_get_list s) m"


section \<open>Execution of guarded instructions\<close>

fun is_cond :: "cheat_instr \<Rightarrow> bool" where
  "is_cond (Eq8 _ _) = True" | "is_cond (Eq16 _ _) = True"
| "is_cond (Ne8 _ _) = True" | "is_cond (Ne16 _ _) = True" | "is_cond _ = False"

lemma run_instr_cond: "is_cond i \<Longrightarrow> run_instr gs i m = Some (b, m') \<Longrightarrow> m' = m"
  by (cases i) auto

lemma run_instr_action: "\<not> is_cond i \<Longrightarrow> run_instr gs i m = Some (b, m') \<Longrightarrow> b"
  by (cases i) (auto split: if_splits)

text \<open>The conjunction of a chain of conditions, read from left to right.\<close>

fun all_hold :: "bool \<Rightarrow> cheat_instr list \<Rightarrow> array \<Rightarrow> bool option" where
  "all_hold gs [] m = Some True"
| "all_hold gs (c # cs) m = do { (b, _) \<leftarrow> run_instr gs c m; if b then all_hold gs cs m else Some False }"

lemma exec_instrs_skip:
  "exec_instrs gs (map (Pair True) cs @ (False, i) # is) False m = exec_instrs gs is True m"
  by (induction cs) auto

lemma exec_instrs_chain:
  assumes "\<forall>c\<in>set cs. is_cond c" "\<not> is_cond i"
  shows "exec_instrs gs (map (Pair True) cs @ (False, i) # is) True m =
    do { b \<leftarrow> all_hold gs cs m;
         m' \<leftarrow> (if b then map_option snd (run_instr gs i m) else Some m);
         exec_instrs gs is True m' }"
  using assms(1)
proof (induction cs)
  case Nil
  show ?case
  proof (cases "run_instr gs i m")
    case (Some r)
    then show ?thesis using run_instr_action [OF assms(2)] by (cases r) fastforce
  qed simp
next
  case (Cons c cs)
  show ?case
  proof (cases "run_instr gs c m")
    case (Some r)
    obtain b m' where r: "r = (b, m')" by fastforce
    have "m' = m" using Cons.prems Some r by (auto dest: run_instr_cond)
    with Some r Cons exec_instrs_skip [of gs cs i "is" m] show ?thesis by (cases b) auto
  qed simp
qed

section \<open>The compiler on printed code\<close>

definition hex_char :: "nat \<Rightarrow> char" where
  "hex_char d = char_of (if d < 10 then 48 + d else 55 + d)"

fun hex_str :: "nat \<Rightarrow> nat \<Rightarrow> string" where
  "hex_str 0 n = []"
| "hex_str (Suc k) n = hex_char (n div 16 ^ k mod 16) # hex_str k n"

lemma length_hex_str [simp]: "length (hex_str k n) = k"
  by (induction k) auto

lemma hex_digit_char: "d < 16 \<Longrightarrow> hex_digit (hex_char d) = Some d"
  by (auto simp: hex_digit_def hex_char_def Let_def)

lemma hex_value_str: "hex_value acc (hex_str k n) = acc * 16 ^ k + n mod 16 ^ k"
proof (induction k arbitrary: acc)
  case (Suc k)
  have "n mod 16 ^ Suc k = n div 16 ^ k mod 16 * 16 ^ k + n mod 16 ^ k"
    by (metis mod_mult2_eq power_Suc2 mult.commute add.commute)
  with Suc show ?case by (simp add: hex_digit_char algebra_simps)
qed simp

lemma hex_digit_no_space: "hex_digit c \<noteq> None \<Longrightarrow> \<not> is_space c \<and> c \<noteq> CHR ''-'' \<and> c \<noteq> CHR ''+'' \<and> c \<noteq> CHR ''x'' \<and> c \<noteq> CHR ''X''"
  by (auto simp: hex_digit_def is_space_def Let_def split: if_splits)

lemma stoul16_digits:
  assumes "cs \<noteq> []" "\<forall>c\<in>set cs. hex_digit c \<noteq> None"
  shows "stoul16 cs = Some (of_nat (hex_value 0 cs))"
proof -
  obtain a as where cs: "cs = a # as" using assms(1) by (cases cs) auto
  have "strip_0x cs = cs"
    using assms(2) hex_digit_no_space by (auto simp: strip_0x_def cs split: list.splits)
  moreover have "dropWhile is_space cs = cs" "strip_sign cs = (False, cs)" "hex_digit a \<noteq> None"
    using assms(2) hex_digit_no_space [of a] by (auto simp: cs strip_sign_def)
  ultimately show ?thesis by (simp add: stoul16_def cs)
qed

lemma hex_str_digits: "c \<in> set (hex_str k n) \<Longrightarrow> hex_digit c \<noteq> None"
  by (induction k) (auto simp: hex_digit_char)

lemma stoul16_hex_str: "0 < k \<Longrightarrow> n < 16 ^ k \<Longrightarrow> stoul16 (hex_str k n) = Some (of_nat n)"
  using stoul16_digits [of "hex_str k n"] hex_str_digits hex_value_str [of 0 k n]
  by (metis add_0 length_0_conv length_hex_str less_not_refl mod_less mult_0)

fun instr_opcode :: "cheat_instr \<Rightarrow> string" where
  "instr_opcode (Store8 _ _) = ''80''" | "instr_opcode (Store16 _ _) = ''81''"
| "instr_opcode (Store8_gs _ _) = ''88''" | "instr_opcode (Store16_gs _ _) = ''89''"
| "instr_opcode (Eq8 _ _) = ''D0''" | "instr_opcode (Eq16 _ _) = ''D1''"
| "instr_opcode (Ne8 _ _) = ''D2''" | "instr_opcode (Ne16 _ _) = ''D3''"

fun instr_operands :: "cheat_instr \<Rightarrow> u32 \<times> u32" where
  "instr_operands (Store8 a v) = (a, v)" | "instr_operands (Store16 a v) = (a, v)"
| "instr_operands (Store8_gs a v) = (a, v)" | "instr_operands (Store16_gs a v) = (a, v)"
| "instr_operands (Eq8 a v) = (a, v)" | "instr_operands (Eq16 a v) = (a, v)"
| "instr_operands (Ne8 a v) = (a, v)" | "instr_operands (Ne16 a v) = (a, v)"

definition print_instr :: "cheat_instr \<Rightarrow> string" where
  "print_instr i = (case instr_operands i of (a, v) \<Rightarrow>
     instr_opcode i @ hex_str 6 (unat a) @ '' '' @ hex_str 4 (unat v))"

definition printable :: "cheat_instr \<Rightarrow> bool" where
  "printable i = (case instr_operands i of (a, v) \<Rightarrow> a < 0x1000000 \<and> v < 0x10000)"

lemma length_opcode [simp]: "length (instr_opcode i) = 2"
  by (cases i) auto

lemma print_instr_fields:
  assumes "instr_operands i = (a, v)"
  shows "length (print_instr i) = 13" "hd (print_instr i) = hd (instr_opcode i)"
    "substr (print_instr i) 0 2 = instr_opcode i" "substr (print_instr i) 2 6 = hex_str 6 (unat a)"
    "substr (print_instr i) 8 1 = '' ''" "substr (print_instr i) 9 4 = hex_str 4 (unat v)"
proof -
  have ne: "instr_opcode i \<noteq> []" by (cases i) auto
  show "length (print_instr i) = 13" "hd (print_instr i) = hd (instr_opcode i)"
    "substr (print_instr i) 0 2 = instr_opcode i" "substr (print_instr i) 2 6 = hex_str 6 (unat a)"
    "substr (print_instr i) 8 1 = '' ''" "substr (print_instr i) 9 4 = hex_str 4 (unat v)"
    using ne by (simp_all add: print_instr_def assms substr_def)
qed

lemma decode_print: "instr_operands i = (a, v) \<Longrightarrow> decode_line (instr_opcode i) a v = Some (is_cond i, i)"
  by (cases i) (auto simp: decode_line_def)

lemma print_not_skipped: "\<not> line_skipped (print_instr i)"
  by (cases "instr_operands i"; cases i) (auto simp: line_skipped_def print_instr_fields)

lemma print_instr_no_nl: "CHR 0x0A \<notin> set (print_instr i)"
proof -
  have "CHR 0x0A \<notin> set (hex_str k n)" for k n
    using hex_str_digits [of "CHR 0x0A" k n] by (auto simp: hex_digit_def)
  moreover have "CHR 0x0A \<notin> set (instr_opcode i)" by (cases i) auto
  ultimately show ?thesis by (simp add: print_instr_def split: prod.split)
qed

lemma compile_print:
  assumes "printable i" "\<not> serial st"
  shows "compile_lines (print_instr i # lines) st acc = compile_lines lines st (acc @ [(is_cond i, i)])"
proof -
  obtain a v where av: "instr_operands i = (a, v)" by fastforce
  then have b: "unat a < 16 ^ 6" "unat v < 16 ^ 4"
    using assms(1) by (auto simp: printable_def word_less_nat_alt)
  have "stoul_or_throw (hex_str 6 (unat a)) = Inr a" "stoul_or_throw (hex_str 4 (unat v)) = Inr v"
    using stoul16_hex_str [OF _ b(1)] stoul16_hex_str [OF _ b(2)] by (simp_all add: stoul_or_throw_def)
  moreover have "instr_opcode i \<noteq> ''50''" by (cases i) auto
  ultimately show ?thesis
    using assms(2) print_not_skipped [of i] print_instr_fields [OF av] decode_print [OF av] by simp
qed

lemma compile_prints:
  assumes "\<forall>i\<in>set is. printable i" "\<not> serial st"
  shows "compile_lines (map print_instr is) st acc = Inr (Some (acc @ map (\<lambda>i. (is_cond i, i)) is))"
  using assms(1)
  by (induction "is" arbitrary: acc) (simp_all add: compile_print assms(2) del: compile_lines.simps(2))

lemma split_lines_ne [simp]: "split_lines s \<noteq> []"
  by (induction s) (auto split: list.splits)

lemma split_lines_append_nl: "split_lines (xs @ CHR 0x0A # ys) = split_lines xs @ split_lines ys"
  by (induction xs) (auto split: list.splits)

lemma split_lines_no_nl: "CHR 0x0A \<notin> set xs \<Longrightarrow> split_lines xs = [xs]"
  by (induction xs) auto

definition join_lines :: "string list \<Rightarrow> string" where
  "join_lines ls = concat (map (\<lambda>l. l @ [CHR 0x0A]) ls)"

lemma split_join_lines:
  "\<forall>l\<in>set ls. CHR 0x0A \<notin> set l \<Longrightarrow> split_lines (join_lines ls @ xs) = ls @ split_lines xs"
  by (induction ls) (auto simp: join_lines_def split_lines_append_nl split_lines_no_nl)

lemma compile_lines_filter:
  "compile_lines (filter (\<lambda>l. \<not> line_skipped l) ls) st acc = compile_lines ls st acc"
  by (induction ls st acc rule: compile_lines.induct) (auto split: sum.split option.split)

lemma split_lines_no_nl_in: "l \<in> set (split_lines s) \<Longrightarrow> CHR 0x0A \<notin> set l"
  by (induction s arbitrary: l) (auto split: list.splits if_splits)

lemma split_printed: "split_lines (join_lines (map print_instr is)) = map print_instr is @ [[]]"
proof -
  have "split_lines (join_lines (map print_instr is) @ []) = map print_instr is @ split_lines []"
    by (rule split_join_lines) (auto simp: print_instr_no_nl)
  then show ?thesis by simp
qed

lemma compile_printed:
  assumes "\<forall>i\<in>set is. printable i"
  shows "core_cht_compile (join_lines (map print_instr is)) c = Inr (True,
    new_cheat\<lparr>cheat_instructions := map (\<lambda>i. (is_cond i, i)) is, cheat_code := join_lines (map print_instr is)\<rparr>)"
proof -
  have "filter (\<lambda>l. \<not> line_skipped l) (map print_instr is @ [[]]) = map print_instr is"
    using print_not_skipped by (auto simp: filter_id_conv line_skipped_def [of "[]"])
  then show ?thesis
    using compile_prints [OF assms] compile_lines_filter [of "map print_instr is @ [[]]"]
    by (simp add: core_cht_compile_def split_printed del: compile_lines.simps(2))
qed

section \<open>Cheats stored with a movie\<close>

definition cheat_lines :: "cheat \<Rightarrow> string list" where
  "cheat_lines c = (''--'' @ cheat_name c) # split_lines (cheat_code c)"

definition stored_cheat :: "cheat \<Rightarrow> string \<Rightarrow> cheat" where
  "stored_cheat c suffix = new_cheat\<lparr>cheat_name := cheat_name c,
     cheat_code := join_lines (filter (\<lambda>l. l \<noteq> []) (split_lines (cheat_code c))) @ suffix\<rparr>"

text \<open>The header line of the next cheat ends up in the code of the one before.\<close>

fun stored :: "cheat list \<Rightarrow> cheat list" where
  "stored [] = []"
| "stored [c] = [stored_cheat c []]"
| "stored (c # d # cs) = stored_cheat c (''--'' @ cheat_name d @ [CHR 0x0A]) # stored (d # cs)"

definition storable :: "cheat \<Rightarrow> bool" where
  "storable c \<longleftrightarrow> CHR 0x0A \<notin> set (cheat_name c) \<and> CHR 0x00 \<notin> set (cheat_name c @ cheat_code c) \<and>
     (\<forall>l\<in>set (split_lines (cheat_code c)). take 2 l \<noteq> ''--'')"

lemma split_serialize:
  "\<forall>c\<in>set (host_cheats s). storable c \<Longrightarrow>
   split_lines (cht_serialize s) = concat (map cheat_lines (host_cheats s)) @ [[]]"
proof -
  have "split_lines (concat (map (\<lambda>c. ''--'' @ cheat_name c @ [CHR 0x0A] @ cheat_code c @ [CHR 0x0A]) cs)) =
      concat (map cheat_lines cs) @ [[]]" if "\<forall>c\<in>set cs. storable c" for cs
    using that
  proof (induction cs)
    case (Cons c cs)
    have "split_lines ((''--'' @ cheat_name c) @ CHR 0x0A # cheat_code c @ CHR 0x0A # x) =
        cheat_lines c @ split_lines x" for x
      using Cons.prems unfolding split_lines_append_nl
      by (subst split_lines_no_nl) (auto simp: storable_def cheat_lines_def)
    from this [of "concat (map (\<lambda>c. ''--'' @ cheat_name c @ [CHR 0x0A] @ cheat_code c @ [CHR 0x0A]) cs)"] Cons
    show ?case by simp
  qed simp
  then show "\<forall>c\<in>set (host_cheats s). storable c \<Longrightarrow> ?thesis" by (simp add: cht_serialize_def)
qed

lemma read_code_lines:
  "\<forall>l\<in>set ls. take 2 l \<noteq> ''--'' \<Longrightarrow>
   read_lines (ls @ rest) True (acc @ [c]) =
     read_lines rest True (acc @ [c\<lparr>cheat_code := cheat_code c @ join_lines (filter (\<lambda>l. l \<noteq> []) ls)\<rparr>])"
  by (induction ls arbitrary: c) (auto simp: join_lines_def Let_def)

lemma read_cheat_lines:
  assumes "storable c"
  shows "read_lines (cheat_lines c @ rest) True (acc @ [x]) =
    read_lines rest True ((acc @ [x\<lparr>cheat_code := cheat_code x @ ''--'' @ cheat_name c @ [CHR 0x0A]\<rparr>]) @ [stored_cheat c []])"
proof -
  have "read_lines (cheat_lines c @ rest) True (acc @ [x]) = read_lines (split_lines (cheat_code c) @ rest) True
      ((acc @ [x\<lparr>cheat_code := cheat_code x @ ''--'' @ cheat_name c @ [CHR 0x0A]\<rparr>]) @ [new_cheat\<lparr>cheat_name := cheat_name c\<rparr>])"
    by (simp add: cheat_lines_def Let_def)
  then show ?thesis
    using assms by (subst (asm) read_code_lines) (auto simp: storable_def stored_cheat_def new_cheat_def)
qed

lemma read_cheats:
  assumes "\<forall>c\<in>set cs. storable c"
  shows "read_lines (concat (map cheat_lines cs) @ [[]]) True (acc @ [x]) =
     acc @ (case cs of [] \<Rightarrow> [x] | c # _ \<Rightarrow> [x\<lparr>cheat_code := cheat_code x @ ''--'' @ cheat_name c @ [CHR 0x0A]\<rparr>]) @ stored cs"
  using assms
proof (induction cs arbitrary: acc x)
  case (Cons c cs)
  let ?x = "x\<lparr>cheat_code := cheat_code x @ ''--'' @ cheat_name c @ [CHR 0x0A]\<rparr>"
  have "read_lines (concat (map cheat_lines (c # cs)) @ [[]]) True (acc @ [x]) =
      read_lines (concat (map cheat_lines cs) @ [[]]) True ((acc @ [?x]) @ [stored_cheat c []])"
    using Cons.prems read_cheat_lines [of c "concat (map cheat_lines cs) @ [[]]" acc x] by simp
  also have "\<dots> = (acc @ [?x]) @ (case cs of [] \<Rightarrow> [stored_cheat c []] | d # _ \<Rightarrow>
      [(stored_cheat c [])\<lparr>cheat_code := cheat_code (stored_cheat c []) @ ''--'' @ cheat_name d @ [CHR 0x0A]\<rparr>]) @ stored cs"
    using Cons.prems by (intro Cons.IH) simp
  finally show ?case by (cases cs) (simp_all add: stored_cheat_def)
qed simp

lemma read_serialized:
  assumes "\<forall>c\<in>set (host_cheats s). storable c"
  shows "read_lines (split_lines (cht_serialize s)) False [] = stored (host_cheats s)"
proof (cases "host_cheats s")
  case Nil
  then show ?thesis by (simp add: cht_serialize_def)
next
  case (Cons c cs)
  have "read_lines (cheat_lines c @ rest) False [] = read_lines rest True ([] @ [stored_cheat c []])" for rest
    using assms Cons read_code_lines [of "split_lines (cheat_code c)" rest "[]" "new_cheat\<lparr>cheat_name := cheat_name c\<rparr>"]
    by (simp add: cheat_lines_def storable_def stored_cheat_def new_cheat_def)
  with Cons read_cheats [of cs "[]" "stored_cheat c []"] assms show ?thesis
    by (cases cs) (simp_all add: split_serialize stored_cheat_def)
qed

lemma compile_stored:
  assumes "\<forall>l\<in>set (split_lines suffix). line_skipped l"
    and "core_cht_compile (cheat_code c) c = Inr (True, c')"
  shows "\<exists>d. core_cht_compile (cheat_code (stored_cheat c suffix)) x = Inr (True, d) \<and>
    cheat_instructions d = cheat_instructions c' \<and> cheat_active d"
proof -
  let ?L = "filter (\<lambda>l. l \<noteq> []) (split_lines (cheat_code c))"
  let ?P = "\<lambda>l. \<not> line_skipped l"
  have "split_lines (join_lines ?L @ suffix) = ?L @ split_lines suffix"
    by (rule split_join_lines) (auto dest: split_lines_no_nl_in)
  moreover have "filter ?P (?L @ split_lines suffix) = filter ?P (split_lines (cheat_code c))"
    using assms(1) by (auto simp: line_skipped_def intro: filter_cong)
  ultimately have "compile_lines (split_lines (join_lines ?L @ suffix)) st acc =
      compile_lines (split_lines (cheat_code c)) st acc" for st acc
    by (metis compile_lines_filter)
  then show ?thesis
    using assms(2) by (auto simp: core_cht_compile_def stored_cheat_def new_cheat_def split: sum.splits option.splits)
qed

lemma header_skipped: "CHR 0x0A \<notin> set n \<Longrightarrow> \<forall>l\<in>set (split_lines (''--'' @ n @ [CHR 0x0A])). line_skipped l"
  using split_lines_append_nl [of "''--'' @ n" "[]"] by (auto simp: split_lines_no_nl line_skipped_def)

definition cheat_compiled :: "cheat \<Rightarrow> bool" where
  "cheat_compiled c = (case core_cht_compile (cheat_code c) c of
     Inr (ok, c') \<Rightarrow> ok \<and> cheat_instructions c' = cheat_instructions c | Inl _ \<Rightarrow> False)"

lemma cheat_compiledE:
  assumes "cheat_compiled c"
  obtains c' where "core_cht_compile (cheat_code c) c = Inr (True, c')" "cheat_instructions c' = cheat_instructions c"
  using assms by (auto simp: cheat_compiled_def split: sum.splits prod.splits)

lemma compile_all_stored:
  assumes "\<forall>c\<in>set cs. storable c \<and> cheat_compiled c"
  shows "\<exists>ds. compile_all (stored cs) = Inr ds \<and> map cheat_name ds = map cheat_name cs \<and>
    map cheat_instructions ds = map cheat_instructions cs \<and> (\<forall>d\<in>set ds. cheat_active d)"
  using assms
proof (induction cs rule: stored.induct)
  case (2 c)
  then obtain c' where c': "core_cht_compile (cheat_code c) c = Inr (True, c')" "cheat_instructions c' = cheat_instructions c"
    by (auto elim: cheat_compiledE)
  have "\<forall>l\<in>set (split_lines []). line_skipped l" by (simp add: line_skipped_def)
  from compile_stored [OF this c'(1), of "stored_cheat c []"] c'(2)
  obtain d where "core_cht_compile (cheat_code (stored_cheat c [])) (stored_cheat c []) = Inr (True, d)"
      "cheat_instructions d = cheat_instructions c" "cheat_active d" by auto
  then show ?case by (simp add: stored_cheat_def)
next
  case (3 c d cs)
  let ?x = "stored_cheat c (''--'' @ cheat_name d @ [CHR 0x0A])"
  obtain c' where c': "core_cht_compile (cheat_code c) c = Inr (True, c')" "cheat_instructions c' = cheat_instructions c"
    using "3.prems" by (auto elim: cheat_compiledE)
  have "CHR 0x0A \<notin> set (cheat_name d)" using "3.prems" by (simp add: storable_def)
  from compile_stored [OF header_skipped [OF this] c'(1), of ?x] c'(2)
  obtain e where "core_cht_compile (cheat_code ?x) ?x = Inr (True, e)"
      "cheat_instructions e = cheat_instructions c" "cheat_active e" by auto
  moreover obtain ds where "compile_all (stored (d # cs)) = Inr ds" "map cheat_name ds = map cheat_name (d # cs)"
      "map cheat_instructions ds = map cheat_instructions (d # cs)" "\<forall>d\<in>set ds. cheat_active d"
    using "3.IH" "3.prems" by auto
  ultimately show ?case by (simp add: stored_cheat_def)
qed simp

section \<open>Properties\<close>

definition printed_cheat :: "string \<Rightarrow> bool \<Rightarrow> cheat_instr list \<Rightarrow> cheat" where
  "printed_cheat n act is = \<lparr>cheat_name = n, cheat_code = join_lines (map print_instr is), cheat_active = act,
     cheat_instructions = map (\<lambda>i. (is_cond i, i)) is\<rparr>"

lemma printed_cheat_ok:
  assumes "\<forall>i\<in>set is. printable i" "CHR 0x0A \<notin> set n" "CHR 0x00 \<notin> set n"
  shows "storable (printed_cheat n act is) \<and> cheat_compiled (printed_cheat n act is)"
proof -
  have "CHR 0x00 \<notin> set (print_instr i)" for i
  proof -
    have "CHR 0x00 \<notin> set (hex_str k m)" for k m
      using hex_str_digits [of "CHR 0x00" k m] by (auto simp: hex_digit_def)
    moreover have "CHR 0x00 \<notin> set (instr_opcode i)" by (cases i) auto
    ultimately show ?thesis by (simp add: print_instr_def split: prod.split)
  qed
  moreover have "take 2 (print_instr i) \<noteq> ''--''" for i
    by (cases i) (auto simp: print_instr_def)
  moreover have "CHR 0x00 \<notin> set (join_lines (map print_instr is))"
    using calculation(1) by (auto simp: join_lines_def)
  ultimately have "storable (printed_cheat n act is)"
    using assms(2,3) by (auto simp: storable_def printed_cheat_def split_printed)
  then show ?thesis
    by (simp add: cheat_compiled_def printed_cheat_def compile_printed [OF assms(1)])
qed

definition cheat_example :: cheat_state where
  "cheat_example = \<lparr>host_cheats =
     [printed_cheat ''Lives'' False [Store8 0x33B21D 0x64], printed_cheat ''Coins'' True [Store16 0x33B218 0x63]],
     cheat_stack = []\<rparr>"

text \<open>A condition guards the next action.  In compiled cheats, a chain of
  conditions followed by an action performs the action exactly when every condition of
  the chain holds, evaluating them from left to right and none after the first that
  fails, and execution then continues behind the action in either case.\<close>

theorem cheat_condition_guards:
  assumes "\<forall>c\<in>set cs. is_cond c" "\<not> is_cond i"
  shows "exec_instrs gs (map (Pair True) cs @ (False, i) # is) True m =
    do { b \<leftarrow> all_hold gs cs m;
         m' \<leftarrow> (if b then map_option snd (run_instr gs i m) else Some m);
         exec_instrs gs is True m' }"
  using assms by (rule exec_instrs_chain)

theorem cheat_condition_guards_witness:
  "exec_instrs False [(True, Eq8 0x100 7), (False, Store8 0x200 1)] True (\<lambda>_. 0) = Some (\<lambda>_. 0)"
  using cheat_condition_guards [of "[Eq8 0x100 7]" "Store8 0x200 1" False "[]" "\<lambda>_. 0"]
  by (simp add: core_rdram_load8_def rdram_index_def to_addr_def)

text \<open>C28. The compiler reads back printed code: a list of instructions with 24-bit
  addresses and 16-bit values, printed one per line in the GameShark notation, compiles to
  exactly these instructions with the conditions marked as such.\<close>

theorem cheat_compile_print:
  assumes "\<forall>i\<in>set is. printable i"
  shows "\<exists>c'. core_cht_compile (join_lines (map print_instr is)) c = Inr (True, c') \<and>
     cheat_instructions c' = map (\<lambda>i. (is_cond i, i)) is"
  by (simp add: compile_printed [OF assms])

theorem cheat_compile_print_witness:
  "\<exists>c'. core_cht_compile (join_lines (map print_instr [Eq8 0x33AFA1 0x20, Store16 0x33B1BC 0x4220])) new_cheat = Inr (True, c') \<and>
     cheat_instructions c' = [(True, Eq8 0x33AFA1 0x20), (False, Store16 0x33B1BC 0x4220)]"
  using cheat_compile_print [of "[Eq8 0x33AFA1 0x20, Store16 0x33B1BC 0x4220]" new_cheat]
  by (simp add: printable_def)

text \<open>The cheats of a movie survive its cheat file.  For cheats whose names are single
  lines and whose code has no line starting with two dashes, reading the file that
  \<^verbatim>\<open>cht_serialize\<close> wrote yields the same cheats, with the same names and the same
  compiled instructions in the same order, except that all of them are active: the flag is
  not stored.\<close>

theorem cheat_file_roundtrip:
  assumes "\<forall>c\<in>set (host_cheats s). storable c \<and> cheat_compiled c"
  shows "\<exists>ds. cht_read_from_file (Some (cht_serialize s)) old = Inr (True, ds) \<and>
     map cheat_name ds = map cheat_name (host_cheats s) \<and>
     map cheat_instructions ds = map cheat_instructions (host_cheats s) \<and> (\<forall>d\<in>set ds. cheat_active d)"
proof -
  have "CHR 0x00 \<notin> set (''--'' @ cheat_name c @ [CHR 0x0A] @ cheat_code c @ [CHR 0x0A])" if "storable c" for c
    using that by (simp add: storable_def)
  then have "CHR 0x00 \<notin> set (cht_serialize s)"
    using assms unfolding cht_serialize_def by (simp only: set_concat set_map) blast
  then have t: "takeWhile (\<lambda>c. c \<noteq> CHR 0x00) (cht_serialize s) = cht_serialize s"
    by (auto simp: takeWhile_eq_all_conv)
  have r: "read_lines (split_lines (cht_serialize s)) False [] = stored (host_cheats s)"
    using assms by (intro read_serialized) simp
  show ?thesis
    using compile_all_stored [OF assms] by (auto simp: cht_read_from_file_def t r)
qed

theorem cheat_file_roundtrip_witness:
  "\<exists>ds. cht_read_from_file (Some (cht_serialize cheat_example)) [] = Inr (True, ds) \<and>
     map cheat_active (host_cheats cheat_example) = [False, True] \<and>
     map cheat_name ds = [''Lives'', ''Coins''] \<and> (\<forall>d\<in>set ds. cheat_active d)"
proof -
  have "\<forall>c\<in>set (host_cheats cheat_example). storable c \<and> cheat_compiled c"
    by (simp add: cheat_example_def printed_cheat_ok printable_def)
  from cheat_file_roundtrip [OF this, of "[]"] show ?thesis
    by (auto simp: cheat_example_def printed_cheat_def)
qed

text \<open>An inactive cheat switches off everything behind it: execution performs the cheats
  in front of the first inactive one and returns, so active cheats behind it
  have no effect.\<close>

theorem cheat_inactive_stops:
  assumes "core_cht_get_list s = pre @ c # post" "\<forall>x\<in>set pre. cheat_active x" "\<not> cheat_active c"
  shows "cht_execute gs s m = exec_cheats gs pre m"
proof -
  have "exec_cheats gs (pre @ c # post) m = exec_cheats gs pre m"
    using assms(2) by (induction pre arbitrary: m) (auto simp: assms(3) split: Option.bind_splits)
  then show ?thesis by (simp add: cht_execute_def assms(1))
qed

theorem cheat_inactive_stops_witness:
  "cheat_active (host_cheats cheat_example ! 1) \<and> cht_execute False cheat_example (\<lambda>_. 0) = Some (\<lambda>_. 0)"
  using cheat_inactive_stops [of cheat_example "[]" "printed_cheat ''Lives'' False [Store8 0x33B21D 0x64]"]
  by (simp add: cheat_example_def core_cht_get_list_def printed_cheat_def)

end
