(* ===== verification/Rom.thy ===== *)
theory Rom
  imports IO_Helpers "HOL-Library.AList"
begin

text \<open>
  Loading of ROM images (\<^verbatim>\<open>Core/r4300/rom.cpp\<close>): decompression, the three byte orders in
  circulation, the header with its trimmed name, the video standard that follows from the
  country code, and the ROM cache.  The decompressor and the MD5 digest are parameters, as
  is the content of fresh memory (\<^verbatim>\<open>uninit\<close>), which shows when a cartridge
  with SD card enlarges the image.  \<^term>\<open>None\<close> is an access outside a buffer.
\<close>

section \<open>State\<close>

record rom_header =
  init_PI_BSB_DOM1 :: bytes
  ClockRate :: u32
  rom_PC :: u32
  Release :: u32
  CRC1 :: u32
  CRC2 :: u32
  Unknown0 :: u32
  Unknown1 :: u32
  nom :: bytes
  rom_unknown :: u32
  Manufacturer_ID :: u32
  Cartridge_ID :: u16
  Country_code :: u16
  Boot_Code :: bytes

datatype system_type = Sys_ntsc | Sys_pal

record rom_state =
  rom :: "bytes option"
  rom_size :: nat
  rom_md5 :: bytes
  ROM_HEADER :: rom_header
  g_sys_type :: system_type
  rom_cache :: "(string \<times> bytes) list"

section \<open>Byte orders\<close>

text \<open>The two swapping loops; a remainder shorter than a group is left alone.\<close>

fun swap_pairs :: "bytes \<Rightarrow> bytes" where
  "swap_pairs (a # b # xs) = b # a # swap_pairs xs"
| "swap_pairs xs = xs"

fun swap_quads :: "bytes \<Rightarrow> bytes" where
  "swap_quads (a # b # c # d # xs) = d # c # b # a # swap_quads xs"
| "swap_quads xs = xs"

definition core_vr_byteswap :: "bytes \<Rightarrow> bytes option" where
  "core_vr_byteswap r =
    (if length r < 0x40 then None
     else let r1 = (if r ! 0 = 0x37 then swap_pairs (take 0x40 r) @ drop 0x40 r else r);
              r2 = (if r1 ! 0 = 0x40 then swap_quads (take 0x40 r1) @ drop 0x40 r1 else r1)
          in Some r2)"

section \<open>Country codes\<close>

definition core_vr_get_vis_per_second :: "u16 \<Rightarrow> u32" where
  "core_vr_get_vis_per_second country_code =
    (if country_code AND 0xFF \<in> {0x44, 0x46, 0x49, 0x50, 0x53, 0x55, 0x58, 0x59} then 50
     else if country_code AND 0xFF \<in> {0x37, 0x41, 0x45, 0x4A} then 60 else 60)"

definition sys_type_of :: "u16 \<Rightarrow> system_type" where
  "sys_type_of country_code =
    (if country_code AND 0xFF \<in> {0x44, 0x46, 0x49, 0x50, 0x53, 0x55, 0x58, 0x59} then Sys_pal
     else if country_code AND 0xFF \<in> {0x37, 0x41, 0x45, 0x4A} then Sys_ntsc else Sys_pal)"

section \<open>Loading\<close>

definition read_rom_header :: "bytes \<Rightarrow> rom_header option" where
  "read_rom_header r = (if length r < 0x1000 then None else Some
     \<lparr>init_PI_BSB_DOM1 = take 4 r, ClockRate = u32_at r 4, rom_PC = u32_at r 8, Release = u32_at r 12,
      CRC1 = u32_at r 16, CRC2 = u32_at r 20, Unknown0 = u32_at r 24, Unknown1 = u32_at r 28,
      nom = take 20 (drop 32 r), rom_unknown = u32_at r 52, Manufacturer_ID = u32_at r 56,
      Cartridge_ID = u16_at r 60, Country_code = u16_at r 62, Boot_Code = take 4032 (drop 64 r)\<rparr>)"

definition clean_header :: "rom_header \<Rightarrow> rom_header" where
  "clean_header h = h\<lparr>rom_unknown := 0, Unknown0 := 0, Unknown1 := 0, nom := strtrim (nom h)\<rparr>"

text \<open>
  The swaps that \<^verbatim>\<open>rom_load\<close> applies to the image \<^term>\<open>r\<close> and its test of the first word,
  in a buffer that continues with \<^term>\<open>tail\<close>; \<^verbatim>\<open>Inl\<close> is the wrong file format.
\<close>

definition canonical_rom :: "bytes \<Rightarrow> bytes \<Rightarrow> (bytes + bytes) option" where
  "canonical_rom r tail = do {
     b0 \<leftarrow> bget r 0;
     let r1 = (if b0 = 0x37 then swap_pairs r else r);
     c0 \<leftarrow> bget r1 0;
     if c0 = 0x40 then Some (Inr (swap_quads r1))
     else do {
       c1 \<leftarrow> bget (r1 @ tail) 1; c2 \<leftarrow> bget (r1 @ tail) 2; c3 \<leftarrow> bget (r1 @ tail) 3;
       if c0 \<noteq> 0x80 \<or> c1 \<noteq> 0x37 \<or> c2 \<noteq> 0x12 \<or> c3 \<noteq> 0x40 then Some (Inl r1) else Some (Inr r1) } }"

record rom_env =
  read_file :: "string \<Rightarrow> bytes"
  gunzip :: "bytes \<Rightarrow> nat \<Rightarrow> deflate_result"
  md5_hex :: "bytes \<Rightarrow> bytes"
  uninit :: "nat \<Rightarrow> u8"
  use_summercart :: bool
  rom_cache_size :: nat

definition rom_load :: "rom_env \<Rightarrow> string \<Rightarrow> rom_state \<Rightarrow> (bool \<times> rom_state) option" where
  "rom_load env path s0 =
    (let s = s0\<lparr>rom := None\<rparr> in
     case map_of (rom_cache s) path of
       Some data \<Rightarrow> Some (True, s\<lparr>rom := Some data\<rparr>)
     | None \<Rightarrow> do {
         img \<leftarrow> auto_decompress (gunzip env) (read_file env path) 0xB624F0;
         if img = [] then Some (False, s)
         else do {
           let n = length img;
           let taille = (if use_summercart env \<and> n < 0x4000000 then 0x4000000 else n);
           let tail = map (uninit env) [n..<taille];
           let s1 = s\<lparr>rom_size := n\<rparr>;
           c \<leftarrow> canonical_rom img tail;
           case c of
             Inl r \<Rightarrow> Some (False, s1\<lparr>rom := Some (r @ tail)\<rparr>)
           | Inr r \<Rightarrow> do {
               h \<leftarrow> read_rom_header (r @ tail);
               let h' = clean_header h;
               let data = swap_quads r @ tail;
               let s2 = s1\<lparr>rom := Some data, ROM_HEADER := h', rom_md5 := md5_hex env r,
                           g_sys_type := sys_type_of (Country_code h')\<rparr>;
               Some (True, if length (rom_cache s2) < rom_cache_size env
                           then s2\<lparr>rom_cache := AList.update path data (rom_cache s2)\<rparr> else s2) } } })"

section \<open>Swapping\<close>

lemma length_swap_pairs [simp]: "length (swap_pairs r) = length r"
  by (induction r rule: swap_pairs.induct) auto

lemma length_swap_quads [simp]: "length (swap_quads r) = length r"
  by (induction r rule: swap_quads.induct) auto

lemma swap_pairs_invol [simp]: "swap_pairs (swap_pairs r) = r"
  by (induction r rule: swap_pairs.induct) auto

lemma swap_quads_invol [simp]: "swap_quads (swap_quads r) = r"
  by (induction r rule: swap_quads.induct) auto

lemma swap_pairs_append: "even (length xs) \<Longrightarrow> swap_pairs (xs @ ys) = swap_pairs xs @ swap_pairs ys"
  by (induction xs rule: swap_pairs.induct) auto

lemma swap_quads_append: "length xs mod 4 = 0 \<Longrightarrow> swap_quads (xs @ ys) = swap_quads xs @ swap_quads ys"
  by (induction xs rule: swap_quads.induct) simp_all

text \<open>A well-formed image in the order of the machine.\<close>

definition z64_image :: "bytes \<Rightarrow> bool" where
  "z64_image z \<longleftrightarrow> take 4 z = [0x80, 0x37, 0x12, 0x40] \<and> 0x1000 \<le> length z"

lemma z64_imageE:
  assumes "z64_image z"
  obtains zs where "z = 0x80 # 0x37 # 0x12 # 0x40 # zs" "0xFFC \<le> length zs"
proof -
  have "z = take 4 z @ drop 4 z" by simp
  also have "take 4 z = [0x80, 0x37, 0x12, 0x40]" using assms by (simp add: z64_image_def)
  finally have "z = 0x80 # 0x37 # 0x12 # 0x40 # drop 4 z" by simp
  moreover have "0x1000 \<le> length z" using assms by (simp add: z64_image_def)
  then have "0xFFC \<le> length (drop 4 z)" by simp
  ultimately show ?thesis by (rule that)
qed

lemma canonical_orders:
  assumes "z64_image z"
  shows "canonical_rom z tail = Some (Inr z)" "canonical_rom (swap_pairs z) tail = Some (Inr z)"
    "canonical_rom (swap_quads z) tail = Some (Inr z)"
proof -
  obtain zs where z: "z = 0x80 # 0x37 # 0x12 # 0x40 # zs" using assms by (rule z64_imageE)
  show "canonical_rom z tail = Some (Inr z)" "canonical_rom (swap_pairs z) tail = Some (Inr z)"
    "canonical_rom (swap_quads z) tail = Some (Inr z)"
    by (simp_all add: canonical_rom_def bget_def z Let_def)
qed

lemma plain_orders:
  assumes "z64_image z"
  shows "auto_decompress g z n = Some z" "auto_decompress g (swap_pairs z) n = Some (swap_pairs z)"
    "auto_decompress g (swap_quads z) n = Some (swap_quads z)"
proof -
  obtain zs where z: "z = 0x80 # 0x37 # 0x12 # 0x40 # zs" using assms by (rule z64_imageE)
  show "auto_decompress g z n = Some z" "auto_decompress g (swap_pairs z) n = Some (swap_pairs z)"
    "auto_decompress g (swap_quads z) n = Some (swap_quads z)"
    by (simp_all add: auto_decompress_def z)
qed

text \<open>The memory image and the state after a successful load of \<^term>\<open>z\<close>, without the cache.\<close>

definition rom_tail :: "rom_env \<Rightarrow> bytes \<Rightarrow> bytes" where
  "rom_tail env z = map (uninit env)
     [length z..<if use_summercart env \<and> length z < 0x4000000 then 0x4000000 else length z]"

definition rom_data :: "rom_env \<Rightarrow> bytes \<Rightarrow> bytes" where
  "rom_data env z = swap_quads z @ rom_tail env z"

definition loaded :: "rom_env \<Rightarrow> bytes \<Rightarrow> rom_state \<Rightarrow> rom_state" where
  "loaded env z s = (case read_rom_header (z @ rom_tail env z) of None \<Rightarrow> s | Some h \<Rightarrow>
     s\<lparr>rom := Some (rom_data env z), rom_size := length z, rom_md5 := md5_hex env z,
       ROM_HEADER := clean_header h, g_sys_type := sys_type_of (Country_code h)\<rparr>)"

lemma Country_code_clean [simp]: "Country_code (clean_header h) = Country_code h"
  by (simp add: clean_header_def)

lemma rom_load_image:
  assumes "map_of (rom_cache s) path = None" "auto_decompress (gunzip env) (read_file env path) 0xB624F0 = Some img"
    and "\<And>tail. canonical_rom img tail = Some (Inr z)" "length img = length z" "0x1000 \<le> length z"
  shows "rom_load env path s = Some (True, if length (rom_cache s) < rom_cache_size env
     then (loaded env z s)\<lparr>rom_cache := AList.update path (rom_data env z) (rom_cache s)\<rparr> else loaded env z s)"
proof -
  obtain h where "read_rom_header (z @ rom_tail env z) = Some h"
    using assms(5) by (simp add: read_rom_header_def)
  moreover have "img \<noteq> []" using assms(4,5) by auto
  ultimately show ?thesis
    using assms by (simp add: rom_load_def loaded_def Let_def rom_tail_def rom_data_def)
qed

lemma loaded_fields:
  assumes "0x1000 \<le> length z"
  shows "rom (loaded env z s) = Some (rom_data env z)" "rom_size (loaded env z s) = length z"
    "rom_md5 (loaded env z s) = md5_hex env z" "rom_cache (loaded env z s) = rom_cache s"
    "ROM_HEADER (loaded env z s) = ROM_HEADER (loaded env z t)"
    "g_sys_type (loaded env z s) = g_sys_type (loaded env z t)"
  using assms by (simp_all add: loaded_def read_rom_header_def)

lemma core_vr_byteswap_orders:
  assumes "z64_image z"
  shows "core_vr_byteswap z = Some z"
    "map_option (take 0x40) (core_vr_byteswap (swap_pairs z)) = Some (take 0x40 z)"
    "map_option (take 0x40) (core_vr_byteswap (swap_quads z)) = Some (take 0x40 z)"
proof -
  obtain zs where z: "z = 0x80 # 0x37 # 0x12 # 0x40 # zs" "0xFFC \<le> length zs" using assms by (rule z64_imageE)
  have "length z \<ge> 0x40" using z by simp
  then have len: "length (take 0x40 z) = 0x40" by simp
  have p: "take 0x40 (swap_pairs z) = swap_pairs (take 0x40 z)"
    using swap_pairs_append [of "take 0x40 z" "drop 0x40 z"] len by simp
  have q: "take 0x40 (swap_quads z) = swap_quads (take 0x40 z)"
    using swap_quads_append [of "take 0x40 z" "drop 0x40 z"] len by simp
  have hd: "z ! 0 = 0x80" "swap_pairs z ! 0 = 0x37" "swap_quads z ! 0 = 0x40" "take 0x40 z ! 0 = 0x80"
      "\<not> length z < 0x40"
    using z by simp_all
  show "core_vr_byteswap z = Some z" using hd by (simp add: core_vr_byteswap_def Let_def)
  show "map_option (take 0x40) (core_vr_byteswap (swap_pairs z)) = Some (take 0x40 z)"
    "map_option (take 0x40) (core_vr_byteswap (swap_quads z)) = Some (take 0x40 z)"
    using len hd by (simp_all add: core_vr_byteswap_def Let_def p q nth_append)
qed

section \<open>Properties\<close>

text \<open>C29. The three byte orders of an image load alike.  For an image in the machine's order
  and its two swapped forms, each in a file that is not cached, \<^verbatim>\<open>rom_load\<close> succeeds
  and leaves the same memory image, header, digest, size and video standard, and
  \<^verbatim>\<open>core_vr_byteswap\<close> recovers the same first 64 bytes.\<close>

theorem rom_orders_load_alike:
  assumes "z64_image z" "read_file env p \<in> {z, swap_pairs z, swap_quads z}" "map_of (rom_cache s) p = None"
  shows "\<exists>s'. rom_load env p s = Some (True, s') \<and> s'\<lparr>rom_cache := rom_cache s\<rparr> = loaded env z s \<and>
    map_option (take 0x40) (core_vr_byteswap (read_file env p)) = Some (take 0x40 z)"
proof -
  have len: "0x1000 \<le> length z" using assms(1) by (simp add: z64_image_def)
  obtain img where img: "img = read_file env p" "auto_decompress (gunzip env) img 0xB624F0 = Some img"
      "\<And>tail. canonical_rom img tail = Some (Inr z)" "length img = length z"
      "map_option (take 0x40) (core_vr_byteswap img) = Some (take 0x40 z)"
    using assms(2) plain_orders [OF assms(1)] canonical_orders [OF assms(1)] core_vr_byteswap_orders [OF assms(1)]
    by auto
  have "(loaded env z s)\<lparr>rom_cache := rom_cache s\<rparr> = loaded env z s"
    using loaded_fields(4) [OF len, of env s] by (metis rom_state.surjective rom_state.update_convs(6))
  with rom_load_image [OF assms(3) _ img(3,4) len, of env] img show ?thesis by simp
qed

definition rom_example :: "u8 \<Rightarrow> bytes" where
  "rom_example b = [0x80, 0x37, 0x12, 0x40] @ replicate 0xFFC b"

lemma rom_example_z64: "z64_image (rom_example b)"
  by (simp add: z64_image_def rom_example_def)

definition rom_example_env :: rom_env where
  "rom_example_env = \<lparr>read_file = (\<lambda>p. if p = ''a.v64'' then swap_pairs (rom_example 0) else rom_example (if p = ''b'' then 1 else 0)),
     gunzip = (\<lambda>_ _. Bad_data), md5_hex = take 8, uninit = (\<lambda>_. 0), use_summercart = False, rom_cache_size = 2\<rparr>"

definition rom_empty :: rom_state where
  "rom_empty = \<lparr>rom = None, rom_size = 0, rom_md5 = [], ROM_HEADER = \<lparr>init_PI_BSB_DOM1 = [], ClockRate = 0,
     rom_PC = 0, Release = 0, CRC1 = 0, CRC2 = 0, Unknown0 = 0, Unknown1 = 0, nom = [], rom_unknown = 0,
     Manufacturer_ID = 0, Cartridge_ID = 0, Country_code = 0, Boot_Code = []\<rparr>, g_sys_type = Sys_ntsc, rom_cache = []\<rparr>"

theorem rom_orders_load_alike_witness:
  "\<exists>s'. rom_load rom_example_env ''a.v64'' rom_empty = Some (True, s') \<and>
     s'\<lparr>rom_cache := []\<rparr> = loaded rom_example_env (rom_example 0) rom_empty"
  using rom_orders_load_alike [OF rom_example_z64, of rom_example_env "''a.v64''" 0 rom_empty]
  by (auto simp: rom_example_env_def rom_empty_def)

text \<open>A ROM from the cache is run with the header of another one.  A cached load
  replaces the memory image only: after loading a ROM, then a second one, loading the first
  again leaves its image together with the header, digest, size and video
  standard of the second.\<close>

theorem cached_rom_stale_header:
  assumes "z64_image x" "z64_image y" "read_file env a = x" "read_file env b = y" "a \<noteq> b"
    and "rom_cache s = []" "0 < rom_cache_size env"
  shows "\<exists>s1 s2 s3. rom_load env a s = Some (True, s1) \<and> rom_load env b s1 = Some (True, s2) \<and>
    rom_load env a s2 = Some (True, s3) \<and> rom s3 = Some (rom_data env x) \<and>
    ROM_HEADER s3 = ROM_HEADER (loaded env y s) \<and> g_sys_type s3 = g_sys_type (loaded env y s) \<and>
    rom_size s3 = length y \<and> rom_md5 s3 = md5_hex env y"
proof -
  have len: "0x1000 \<le> length x" "0x1000 \<le> length y" using assms(1,2) by (simp_all add: z64_image_def)
  define s1 where "s1 = (loaded env x s)\<lparr>rom_cache := [(a, rom_data env x)]\<rparr>"
  have 1: "rom_load env a s = Some (True, s1)"
    using rom_load_image [of s a env x x] plain_orders(1) canonical_orders(1) assms len by (simp add: s1_def)
  define s2 where "s2 = (if 1 < rom_cache_size env
     then (loaded env y s1)\<lparr>rom_cache := [(a, rom_data env x), (b, rom_data env y)]\<rparr> else loaded env y s1)"
  have 2: "rom_load env b s1 = Some (True, s2)"
    using rom_load_image [of s1 b env y y] plain_orders(1) canonical_orders(1) assms len
    by (simp add: s1_def s2_def)
  have "map_of (rom_cache s2) a = Some (rom_data env x)"
    using loaded_fields(4) [OF len(2), of env s1] by (simp add: s2_def s1_def)
  then have 3: "rom_load env a s2 = Some (True, s2\<lparr>rom := Some (rom_data env x)\<rparr>)"
    by (simp add: rom_load_def Let_def)
  have "ROM_HEADER s2 = ROM_HEADER (loaded env y s)" "g_sys_type s2 = g_sys_type (loaded env y s)"
      "rom_size s2 = length y" "rom_md5 s2 = md5_hex env y"
    using loaded_fields [OF len(2), of env s1] loaded_fields(5,6) [OF len(2), of env s1 s] by (simp_all add: s2_def)
  with 1 2 3 show ?thesis
    by (intro exI [of _ s1] exI [of _ s2] exI [of _ "s2\<lparr>rom := Some (rom_data env x)\<rparr>"]) simp
qed

theorem cached_rom_stale_header_witness:
  "\<exists>s1 s2 s3. rom_load rom_example_env ''a'' rom_empty = Some (True, s1) \<and>
     rom_load rom_example_env ''b'' s1 = Some (True, s2) \<and> rom_load rom_example_env ''a'' s2 = Some (True, s3) \<and>
     rom s3 = Some (rom_data rom_example_env (rom_example 0)) \<and>
     rom_md5 s3 = [0x80, 0x37, 0x12, 0x40, 1, 1, 1, 1]"
proof -
  have "md5_hex rom_example_env (rom_example 1) = [0x80, 0x37, 0x12, 0x40, 1, 1, 1, 1]"
    by (simp add: rom_example_env_def rom_example_def numeral_eq_Suc)
  with cached_rom_stale_header [OF rom_example_z64 rom_example_z64, of rom_example_env "''a''" 0 "''b''" 1 rom_empty]
  show ?thesis by (fastforce simp: rom_example_env_def rom_empty_def)
qed

text \<open>The two readings of a country code disagree exactly on unknown codes: the
  refresh rate that movies record is 50 for the PAL countries and 60 otherwise,
  while an unknown country runs as PAL.\<close>

theorem country_code_divergence:
  "(core_vr_get_vis_per_second c = (if sys_type_of c = Sys_pal then 50 else 60)) \<longleftrightarrow>
   c AND 0xFF \<in> {0x44, 0x46, 0x49, 0x50, 0x53, 0x55, 0x58, 0x59, 0x37, 0x41, 0x45, 0x4A}"
  by (auto simp: core_vr_get_vis_per_second_def sys_type_of_def)

end
