(* ===== verification/Pif.thy ===== *)
theory Pif
  imports Host_Memory
begin

text \<open>
  The peripheral interface, \<^verbatim>\<open>Core/memory/pif.cpp\<close>: the serial EEPROM, the four controller
  paks with their checksum, the controller commands and the two walks over the
  64 bytes of PIF memory.  \<^verbatim>\<open>Command\<close> is a pointer into PIF memory, so every
  \<^verbatim>\<open>Command[k]\<close> is the byte at \<^term>\<open>i + k\<close> of the 64-byte buffer and a command that
  sticks out of the buffer is \<^term>\<open>None\<close>.  The input plugin is a parameter.
\<close>

section \<open>State\<close>

record control =
  Present :: bool
  RawData :: bool
  Plugin :: u32

abbreviation (input) ce_mempak :: u32 where "ce_mempak \<equiv> 2"
abbreviation (input) ce_raw :: u32 where "ce_raw \<equiv> 5"

record pif_state =
  eeprom :: bytes
  g_eeprom_file :: bytes
  mempack :: "bytes list"
  g_mpak_file :: bytes

text \<open>\<^verbatim>\<open>fseek(f, 0, SEEK_SET)\<close> followed by \<^verbatim>\<open>fwrite\<close> of consecutive buffers.\<close>

definition fwrite_start :: "bytes \<Rightarrow> bytes \<Rightarrow> bytes" where
  "fwrite_start d f = d @ drop (length d) f"

definition pif_wf :: "pif_state \<Rightarrow> bool" where
  "pif_wf s \<longleftrightarrow> length (eeprom s) = 0x800 \<and> length (mempack s) = 4 \<and> (\<forall>m\<in>set (mempack s). length m = 0x8000)"

section \<open>EEPROM\<close>

definition EepromCommand :: "nat \<Rightarrow> bytes \<Rightarrow> pif_state \<Rightarrow> (bytes \<times> pif_state) option" where
  "EepromCommand i p s = do {
     c2 \<leftarrow> bget p (i + 2);
     if c2 = 0 then do {
       c1 \<leftarrow> bget p (i + 1);
       if c1 \<noteq> 3 then do {
         p1 \<leftarrow> bput (i + 1) (c1 OR 0x40) p;
         p2 \<leftarrow> (if (c1 OR 0x40) AND 3 > 0 then bput (i + 3) 0 p1 else Some p1);
         p3 \<leftarrow> (if (c1 OR 0x40) AND 3 > 1 then bput (i + 4) 0x80 p2 else Some p2);
         p4 \<leftarrow> (if (c1 OR 0x40) AND 3 > 2 then bput (i + 5) 0 p3 else Some p3);
         Some (p4, s) }
       else do {
         p1 \<leftarrow> bput (i + 3) 0 p;
         p2 \<leftarrow> bput (i + 4) 0x80 p1;
         p3 \<leftarrow> bput (i + 5) 0 p2;
         Some (p3, s) } }
     else if c2 = 4 then do {
       let e = fread_at 0 (g_eeprom_file s) (eeprom s);
       c3 \<leftarrow> bget p (i + 3);
       d \<leftarrow> bblock e (unat c3 * 8) 8;
       p1 \<leftarrow> bwrite (i + 4) d p;
       Some (p1, s\<lparr>eeprom := e\<rparr>) }
     else if c2 = 5 then do {
       let e = fread_at 0 (g_eeprom_file s) (eeprom s);
       c3 \<leftarrow> bget p (i + 3);
       d \<leftarrow> bblock p (i + 4) 8;
       e1 \<leftarrow> bwrite (unat c3 * 8) d e;
       Some (p, s\<lparr>eeprom := e1, g_eeprom_file := fwrite_start e1 (g_eeprom_file s)\<rparr>) }
     else Some (p, s) }"

section \<open>Controller paks\<close>

definition mempack_init :: bytes where
  "mempack_init =
    [0x81, 0x01, 0x02, 0x03, 0x04, 0x05, 0x06, 0x07, 0x08, 0x09, 0x0a, 0x0b, 0x0c, 0x0d, 0x0e, 0x0f,
     0x10, 0x11, 0x12, 0x13, 0x14, 0x15, 0x16, 0x17, 0x18, 0x19, 0x1a, 0x1b, 0x1c, 0x1d, 0x1e, 0x1f,
     0xff, 0xff, 0xff, 0xff, 0x05, 0x1a, 0x5f, 0x13, 0x00, 0x00, 0x00, 0x00, 0x00, 0x00, 0x00, 0x00,
     0xff, 0xff, 0xff, 0xff, 0xff, 0xff, 0xff, 0xff, 0xff, 0xff, 0x01, 0xff, 0x66, 0x25, 0x99, 0xcd,
     0x00, 0x00, 0x00, 0x00, 0x00, 0x00, 0x00, 0x00, 0x00, 0x00, 0x00, 0x00, 0x00, 0x00, 0x00, 0x00,
     0x00, 0x00, 0x00, 0x00, 0x00, 0x00, 0x00, 0x00, 0x00, 0x00, 0x00, 0x00, 0x00, 0x00, 0x00, 0x00,
     0xff, 0xff, 0xff, 0xff, 0x05, 0x1a, 0x5f, 0x13, 0x00, 0x00, 0x00, 0x00, 0x00, 0x00, 0x00, 0x00,
     0xff, 0xff, 0xff, 0xff, 0xff, 0xff, 0xff, 0xff, 0xff, 0xff, 0x01, 0xff, 0x66, 0x25, 0x99, 0xcd,
     0xff, 0xff, 0xff, 0xff, 0x05, 0x1a, 0x5f, 0x13, 0x00, 0x00, 0x00, 0x00, 0x00, 0x00, 0x00, 0x00,
     0xff, 0xff, 0xff, 0xff, 0xff, 0xff, 0xff, 0xff, 0xff, 0xff, 0x01, 0xff, 0x66, 0x25, 0x99, 0xcd,
     0x00, 0x00, 0x00, 0x00, 0x00, 0x00, 0x00, 0x00, 0x00, 0x00, 0x00, 0x00, 0x00, 0x00, 0x00, 0x00,
     0x00, 0x00, 0x00, 0x00, 0x00, 0x00, 0x00, 0x00, 0x00, 0x00, 0x00, 0x00, 0x00, 0x00, 0x00, 0x00,
     0xff, 0xff, 0xff, 0xff, 0x05, 0x1a, 0x5f, 0x13, 0x00, 0x00, 0x00, 0x00, 0x00, 0x00, 0x00, 0x00,
     0xff, 0xff, 0xff, 0xff, 0xff, 0xff, 0xff, 0xff, 0xff, 0xff, 0x01, 0xff, 0x66, 0x25, 0x99, 0xcd,
     0x00, 0x00, 0x00, 0x00, 0x00, 0x00, 0x00, 0x00, 0x00, 0x00, 0x00, 0x00, 0x00, 0x00, 0x00, 0x00,
     0x00, 0x00, 0x00, 0x00, 0x00, 0x00, 0x00, 0x00, 0x00, 0x00, 0x00, 0x00, 0x00, 0x00, 0x00, 0x00,
     0x00, 0x71, 0x00, 0x03, 0x00, 0x03, 0x00, 0x03, 0x00, 0x03, 0x00, 0x03, 0x00, 0x03, 0x00, 0x03]"

text \<open>\<^verbatim>\<open>mempack[i][j] = 0; mempack[i][j + 1] = 0x03;\<close> for even \<^verbatim>\<open>j\<close>, then the 272 initial bytes.\<close>

definition format_mempack :: bytes where
  "format_mempack = mempack_init @ drop 272 (concat (replicate 0x4000 [0, 0x03]))"

definition format_mempacks :: "pif_state \<Rightarrow> pif_state" where
  "format_mempacks s = s\<lparr>mempack := replicate 4 format_mempack\<rparr>"

text \<open>One round of the checksum: shift in a bit, then reduce.\<close>

definition crc_bit :: "bool \<Rightarrow> u8 \<Rightarrow> u8" where
  "crc_bit b crc =
    (let xor_tap = (if crc AND 0x80 \<noteq> 0 then 0x85 else 0);
         crc1 = push_bit 1 crc;
         crc2 = (if b then crc1 OR 1 else crc1)
     in crc2 XOR xor_tap)"

definition crc_byte :: "u8 \<Rightarrow> u8 \<Rightarrow> u8" where
  "crc_byte d crc = fold (\<lambda>k. crc_bit (bit d k)) [7, 6, 5, 4, 3, 2, 1, 0] crc"

text \<open>The 32 data bytes, then eight zero bits (the turn \<^verbatim>\<open>i == 0x20\<close> of the outer loop).\<close>

definition mempack_crc :: "bytes \<Rightarrow> u8" where
  "mempack_crc d = crc_byte 0 (fold crc_byte d 0)"

section \<open>Controller commands\<close>

text \<open>
  The input plugin.  \<^verbatim>\<open>controller_command\<close> and \<^verbatim>\<open>read_controller\<close> get a pointer into PIF
  memory: the bytes from that position on, which they may change; \<^verbatim>\<open>'w\<close> is
  everything outside the component.
\<close>

record 'w input_plugin =
  has_controller_command :: bool
  controller_command :: "nat \<Rightarrow> bytes \<Rightarrow> 'w \<Rightarrow> bytes \<times> 'w"
  controller_command_end :: "'w \<Rightarrow> 'w"
  read_controller :: "nat \<Rightarrow> bytes \<Rightarrow> 'w \<Rightarrow> bytes \<times> 'w"
  read_controller_end :: "'w \<Rightarrow> 'w"

definition call_at :: "(bytes \<Rightarrow> 'w \<Rightarrow> bytes \<times> 'w) \<Rightarrow> nat \<Rightarrow> bytes \<Rightarrow> 'w \<Rightarrow> bytes \<times> 'w" where
  "call_at f i p w = (let (d, w') = f (drop i p) w in (take i p @ d, w'))"

text \<open>\<^verbatim>\<open>fread\<close> of the four paks, one after the other, and the matching \<^verbatim>\<open>fwrite\<close>.\<close>

definition read_paks :: "pif_state \<Rightarrow> pif_state" where
  "read_paks s = s\<lparr>mempack := map (\<lambda>k. fread_at (k * 0x8000) (g_mpak_file s) (mempack s ! k)) [0..<4]\<rparr>"

definition write_paks :: "pif_state \<Rightarrow> pif_state" where
  "write_paks s = s\<lparr>g_mpak_file := fwrite_start (concat (mempack s)) (g_mpak_file s)\<rparr>"

definition pak_address :: "u8 \<Rightarrow> u8 \<Rightarrow> nat" where
  "pak_address h l = unat h * 256 + unat l"

definition put_crc :: "nat \<Rightarrow> bytes \<Rightarrow> bytes option" where
  "put_crc i p = do {
     d \<leftarrow> bblock p (i + 5) 0x20;
     bput (i + 0x25) (mempack_crc d) p }"

definition pak_read :: "nat \<Rightarrow> nat \<Rightarrow> bytes \<Rightarrow> pif_state \<Rightarrow> (bytes \<times> pif_state) option" where
  "pak_read Control i p s = do {
     h \<leftarrow> bget p (i + 3);
     l \<leftarrow> bget p (i + 4);
     let address = pak_address h l;
     if address = 0x8001 then do {
       p1 \<leftarrow> bwrite (i + 5) (replicate 0x20 0) p;
       p2 \<leftarrow> put_crc i p1;
       Some (p2, s) }
     else do {
       let address = address AND 0xFFE0;
       (p1, s1) \<leftarrow> (if address \<le> 0x7FE0 then do {
           let s1 = read_paks s;
           d \<leftarrow> bblock (mempack s1 ! Control) address 0x20;
           p1 \<leftarrow> bwrite (i + 5) d p;
           Some (p1, s1) }
         else do {
           p1 \<leftarrow> bwrite (i + 5) (replicate 0x20 0) p;
           Some (p1, s) });
       p2 \<leftarrow> put_crc i p1;
       Some (p2, s1) } }"

definition pak_write :: "nat \<Rightarrow> nat \<Rightarrow> bytes \<Rightarrow> pif_state \<Rightarrow> (bytes \<times> pif_state) option" where
  "pak_write Control i p s = do {
     h \<leftarrow> bget p (i + 3);
     l \<leftarrow> bget p (i + 4);
     let address = pak_address h l;
     if address = 0x8001 then do {
       p1 \<leftarrow> put_crc i p;
       Some (p1, s) }
     else do {
       let address = address AND 0xFFE0;
       s1 \<leftarrow> (if address \<le> 0x7FE0 then do {
           let s1 = read_paks s;
           d \<leftarrow> bblock p (i + 5) 0x20;
           m \<leftarrow> bwrite address d (mempack s1 ! Control);
           Some (write_paks (s1\<lparr>mempack := (mempack s1)[Control := m]\<rparr>)) }
         else Some s);
       p1 \<leftarrow> put_crc i p;
       Some (p1, s1) } }"

definition internal_ControllerCommand ::
  "'w input_plugin \<Rightarrow> (nat \<Rightarrow> control) \<Rightarrow> nat \<Rightarrow> nat \<Rightarrow> bytes \<Rightarrow> pif_state \<Rightarrow> 'w
     \<Rightarrow> (bytes \<times> pif_state \<times> 'w) option" where
  "internal_ControllerCommand pl controls Control i p s w = do {
     c1 \<leftarrow> bget p (i + 1);
     c2 \<leftarrow> bget p (i + 2);
     let present = Present (controls Control);
     let plugin = Plugin (controls Control);
     if c2 = 0x00 \<or> c2 = 0xFF then
       if c1 AND 0x80 \<noteq> 0 then Some (p, s, w)
       else if present then do {
         p1 \<leftarrow> bput (i + 3) 0x05 p;
         p2 \<leftarrow> bput (i + 4) 0x00 p1;
         p3 \<leftarrow> bput (i + 5) (if plugin = ce_mempak \<or> plugin = ce_raw then 1 else 0) p2;
         Some (p3, s, w) }
       else do {
         p1 \<leftarrow> bput (i + 1) (c1 OR 0x80) p;
         Some (p1, s, w) }
     else if c2 = 0x01 then
       if \<not> present then do {
         p1 \<leftarrow> bput (i + 1) (c1 OR 0x80) p;
         Some (p1, s, w) }
       else Some (p, s, w)
     else if c2 = 0x02 \<or> c2 = 0x03 then
       if \<not> present then do {
         p1 \<leftarrow> bput (i + 1) (c1 OR 0x80) p;
         Some (p1, s, w) }
       else if plugin = ce_mempak then do {
         (p1, s1) \<leftarrow> (if c2 = 0x02 then pak_read Control i p s else pak_write Control i p s);
         Some (p1, s1, w) }
       else if plugin = ce_raw then
         if has_controller_command pl
         then let (p1, w1) = call_at (controller_command pl Control) i p w in Some (p1, s, w1)
         else Some (p, s, w)
       else if c2 = 0x02 then do {
         p1 \<leftarrow> bwrite (i + 5) (replicate 0x20 0) p;
         p2 \<leftarrow> bput (i + 0x25) 0 p1;
         Some (p2, s, w) }
       else do {
         p1 \<leftarrow> put_crc i p;
         Some (p1, s, w) }
     else Some (p, s, w) }"

section \<open>The walk of a PIF write\<close>

text \<open>
  The loop of \<^verbatim>\<open>update_pif_write\<close>.  The position grows with every turn, so it ends.
\<close>

function pif_write_loop ::
  "'w input_plugin \<Rightarrow> (nat \<Rightarrow> control) \<Rightarrow> nat \<Rightarrow> nat \<Rightarrow> bytes \<Rightarrow> pif_state \<Rightarrow> 'w
     \<Rightarrow> (bytes \<times> pif_state \<times> 'w) option" where
  "pif_write_loop pl controls i channel p s w =
    (if i < 0x40 then do {
       b \<leftarrow> bget p i;
       if b = 0 then
         if channel + 1 > 6 then Some (p, s, w)
         else pif_write_loop pl controls (i + 1) (channel + 1) p s w
       else if b = 0xFF then pif_write_loop pl controls (i + 1) channel p s w
       else if b AND 0xC0 = 0 then do {
         (p1, s1, w1) \<leftarrow>
           (if channel < 4 then
              if Present (controls channel) \<and> RawData (controls channel)
              then let (p1, w1) = call_at (controller_command pl channel) i p w in Some (p1, s, w1)
              else internal_ControllerCommand pl controls channel i p s w
            else if channel = 4 then do {
              (p1, s1) \<leftarrow> EepromCommand i p s;
              Some (p1, s1, w) }
            else Some (p, s, w));
         b0 \<leftarrow> bget p1 i;
         b1 \<leftarrow> bget p1 (i + 1);
         pif_write_loop pl controls (i + unat b0 + unat (b1 AND 0x3F) + 2) (channel + 1) p1 s1 w1 }
       else Some (p, s, w) }
     else Some (p, s, w))"
  by pat_completeness auto

termination
  by (relation "measure (\<lambda>(pl, controls, i, channel, p, s, w). 0x40 - i)") auto

type_synonym pif_lut = "(bytes \<times> bytes) list"

definition update_pif_write ::
  "pif_lut \<Rightarrow> 'w input_plugin \<Rightarrow> (nat \<Rightarrow> control) \<Rightarrow> bytes \<Rightarrow> pif_state \<Rightarrow> 'w
     \<Rightarrow> (bytes \<times> pif_state \<times> 'w) option" where
  "update_pif_write g_pif_lut pl controls p s w = do {
     b \<leftarrow> bget p 0x3F;
     if b > 1 then
       if b = 0x02 then do {
         key \<leftarrow> bblock p 48 16;
         case List.find (\<lambda>e. fst e = key) g_pif_lut of
           Some e \<Rightarrow> do { p1 \<leftarrow> bwrite 48 (snd e) p; Some (p1, s, w) }
         | None \<Rightarrow> Some (p, s, w) }
       else if b = 0x08 then do { p1 \<leftarrow> bput 0x3F 0 p; Some (p1, s, w) }
       else Some (p, s, w)
     else do {
       (p1, s1, w1) \<leftarrow> pif_write_loop pl controls 0 0 p s w;
       Some (p1, s1, controller_command_end pl w1) } }"

section \<open>Files and buffers\<close>

lemma fread_fwrite_start:
  assumes "length buf = length d"
  shows "fread_at 0 (fwrite_start d f) buf = d"
  using assms by (simp add: fread_at_def fwrite_start_def Let_def)

lemma take_drop_concat:
  assumes "\<forall>x\<in>set xs. length x = n" "k < length xs"
  shows "take n (drop (k * n) (concat xs @ ys)) = xs ! k"
  using assms
proof (induction xs arbitrary: k)
  case (Cons x xs)
  then show ?case by (cases k) auto
qed simp

lemma length_concat_uniform: "\<forall>x\<in>set xs. length x = n \<Longrightarrow> length (concat xs) = length xs * n"
  by (induction xs) auto

lemma pif_wf_read_paks [simp]: "pif_wf s \<Longrightarrow> pif_wf (read_paks s)"
  by (auto simp: pif_wf_def read_paks_def)

lemma eeprom_write_read:
  assumes "pif_wf s" "EepromCommand i p s = Some (p', s')" "bget p (i + 2) = Some 5" "bget p (i + 3) = Some blk"
  shows "pif_wf s'" "p' = p" "bblock p (i + 4) 8 = bblock (fread_at 0 (g_eeprom_file s') (eeprom s')) (unat blk * 8) 8"
    and "blk' \<noteq> blk \<Longrightarrow> bblock (fread_at 0 (g_eeprom_file s') (eeprom s')) (unat blk' * 8) 8 =
           bblock (fread_at 0 (g_eeprom_file s) (eeprom s)) (unat blk' * 8) 8"
proof -
  let ?e = "fread_at 0 (g_eeprom_file s) (eeprom s)"
  from assms(2-4) obtain d e1 where de: "bblock p (i + 4) 8 = Some d" "bwrite (unat blk * 8) d ?e = Some e1"
      "p' = p" "s' = s\<lparr>eeprom := e1, g_eeprom_file := fwrite_start e1 (g_eeprom_file s)\<rparr>"
    by (auto simp: EepromCommand_def bind_rules Let_def)
  have len: "length e1 = 0x800" using bwrite_length [OF de(2)] assms(1) by (simp add: pif_wf_def)
  have rd: "fread_at 0 (g_eeprom_file s') (eeprom s') = e1" by (simp add: de(4) fread_fwrite_start)
  have d8: "length d = 8" using bblock_length [OF de(1)] .
  show "pif_wf s'" "p' = p" using assms(1) len de by (auto simp: pif_wf_def)
  show "bblock p (i + 4) 8 = bblock (fread_at 0 (g_eeprom_file s') (eeprom s')) (unat blk * 8) 8"
    using bblock_bwrite [OF de(2)] de(1) by (simp add: rd d8)
  assume "blk' \<noteq> blk"
  then have "unat blk' \<noteq> unat blk" by (auto dest: unsigned_word_eqI)
  then have "unat blk' * 8 + 8 \<le> unat blk * 8 \<or> unat blk * 8 + length d \<le> unat blk' * 8"
    unfolding d8 by linarith
  from bblock_bwrite_other [OF de(2) this]
  show "bblock (fread_at 0 (g_eeprom_file s') (eeprom s')) (unat blk' * 8) 8 = bblock ?e (unat blk' * 8) 8"
    by (simp add: rd)
qed

lemma eeprom_read_block:
  assumes "bget q (j + 2) = Some 4" "bget q (j + 3) = Some blk" "j + 12 \<le> length q" "length (eeprom s) = 0x800"
  shows "\<exists>q' s'. EepromCommand j q s = Some (q', s') \<and>
     bblock q' (j + 4) 8 = bblock (fread_at 0 (g_eeprom_file s) (eeprom s)) (unat blk * 8) 8"
proof -
  have "unat blk < 256" using unsigned_less [of blk, where 'a = nat] by simp
  then obtain d where d: "bblock (fread_at 0 (g_eeprom_file s) (eeprom s)) (unat blk * 8) 8 = Some d"
    using assms(4) by (simp add: bblock_def)
  have d8: "length d = 8" using bblock_length [OF d] .
  then obtain q' where "bwrite (j + 4) d q = Some q'" using assms(3) by (simp add: bwrite_def)
  with assms(1,2) d d8 bblock_bwrite [OF this] show ?thesis
    by (auto simp: EepromCommand_def Let_def)
qed

section \<open>The checksum\<close>

lemma and_0x80: "x AND 0x80 \<noteq> 0 \<longleftrightarrow> bit (x :: u8) 7"
proof -
  have "(0x80 :: u8) = push_bit 7 1" by simp
  then show ?thesis by (metis (no_types) and_exp_eq_0_iff_not_bit push_bit_of_1)
qed

text \<open>The round as a linear map over bits.\<close>

lemma crc_bit_linear:
  "crc_bit b c = push_bit 1 c XOR (if b then 1 else 0) XOR (if bit c 7 then 0x85 else 0)"
proof -
  have "push_bit 1 x OR 1 = push_bit 1 x XOR (1 :: u8)" for x
    by (rule bit_word_eqI) (simp only: bit_or_iff bit_xor_iff bit_push_bit_iff bit_1_iff, auto)
  then show ?thesis by (simp only: crc_bit_def Let_def and_0x80) (simp add: ac_simps)
qed

lemma crc_bit_xor: "crc_bit (b = (\<not> b')) (c XOR c') = crc_bit b c XOR crc_bit b' c'"
proof -
  have "(x XOR y) XOR (if b = (\<not> b') then 1 else 0) XOR (if p = (\<not> p') then t else 0) =
      (x XOR (if b then 1 else 0) XOR (if p then t else 0)) XOR (y XOR (if b' then 1 else 0) XOR (if p' then t else 0))"
    for x y t :: u8 and p p'
    by (cases b; cases b'; cases p; cases p') (simp_all add: ac_simps)
  moreover have "bit (c XOR c') 7 = (bit c 7 = (\<not> bit c' 7))" by (auto simp: bit_xor_iff)
  ultimately show ?thesis by (simp only: crc_bit_linear push_bit_xor)
qed

lemma crc_bit_zero_iff: "crc_bit False c = 0 \<longleftrightarrow> c = 0"
proof
  assume "crc_bit False c = 0"
  then have z: "\<not> bit (push_bit 1 c XOR (if bit c 7 then 0x85 else 0)) n" for n
    by (simp add: crc_bit_linear)
  have n7: "\<not> bit c 7"
    using z [of 0] by (simp only: bit_xor_iff bit_push_bit_iff) (auto split: if_splits)
  show "c = 0"
  proof (rule bit_word_eqI)
    fix n assume n: "n < LENGTH(8)"
    show "bit c n = bit 0 n"
    proof (cases "n = 7")
      case False
      have "\<not> bit (push_bit 1 c) (n + 1)" using z [of "n + 1"] n7 by (simp only: if_False xor.right_neutral) simp
      with False n show ?thesis by (simp only: bit_push_bit_iff) auto
    qed (use n7 in simp)
  qed
qed (simp add: crc_bit_linear)

lemma crc_byte_xor: "crc_byte (d XOR e) (c XOR c') = crc_byte d c XOR crc_byte e c'"
  by (simp add: crc_byte_def bit_xor_iff crc_bit_xor)

lemma crc_byte_zero_iff: "crc_byte 0 c = 0 \<longleftrightarrow> c = 0"
  by (simp add: crc_byte_def crc_bit_zero_iff)

definition xor_bytes :: "bytes \<Rightarrow> bytes \<Rightarrow> bytes" where
  "xor_bytes xs ys = map2 (XOR) xs ys"

lemma crc_fold_xor:
  "length xs = length ys \<Longrightarrow>
     fold crc_byte (xor_bytes xs ys) (c XOR c') = fold crc_byte xs c XOR fold crc_byte ys c'"
  by (induction xs ys arbitrary: c c' rule: list_induct2) (auto simp: xor_bytes_def crc_byte_xor)

lemma crc_fold_zeros: "fold crc_byte (replicate n 0) c = 0 \<longleftrightarrow> c = 0"
  by (induction n arbitrary: c) (auto simp: crc_byte_zero_iff)

lemma crc_bit_shift: "crc_bit (bit d j) (drop_bit (Suc j) d) = drop_bit j d"
proof (rule bit_word_eqI)
  fix n assume n: "n < LENGTH(8)"
  have t: "\<not> bit (drop_bit (Suc j) d) 7" by (auto simp: bit_drop_bit_eq dest: bit_imp_le_length)
  show "bit (crc_bit (bit d j) (drop_bit (Suc j) d)) n = bit (drop_bit j d) n"
    unfolding crc_bit_linear using t n
    by (cases n) (simp_all only: bit_xor_iff bit_push_bit_iff if_False xor.right_neutral,
        auto simp: bit_drop_bit_eq bit_1_iff)
qed

lemma crc_byte_start: "crc_byte d 0 = d"
proof -
  have "drop_bit (Suc 7) d = 0" by (rule bit_word_eqI) (auto simp: bit_drop_bit_eq dest: bit_imp_le_length)
  then have z: "crc_bit (bit d 7) 0 = drop_bit 7 d" using crc_bit_shift [of d 7] by (simp only:)
  have s: "crc_bit (bit d j) (drop_bit k d) = drop_bit j d" if "k = Suc j" for j k
    using that crc_bit_shift by simp
  show ?thesis by (simp add: crc_byte_def z s)
qed

lemma xor_zeroD:
  fixes x y :: u8
  assumes "x XOR y = 0"
  shows "x = y"
proof -
  have "x = (x XOR y) XOR y" unfolding xor.assoc by simp
  with assms show ?thesis by simp
qed

lemma xor_bytes_same: "xor_bytes xs xs = replicate (length xs) 0"
  by (induction xs) (auto simp: xor_bytes_def)

lemma crc_byte_error:
  assumes "x \<noteq> y"
  shows "mempack_crc (pre @ x # post) \<noteq> mempack_crc (pre @ y # post)"
proof -
  let ?xs = "pre @ x # post" and ?ys = "pre @ y # post"
  have "xor_bytes ?xs ?ys = replicate (length pre) 0 @ (x XOR y) # replicate (length post) 0"
    using xor_bytes_same [of pre] xor_bytes_same [of post] by (simp add: xor_bytes_def)
  then have "fold crc_byte (xor_bytes ?xs ?ys) 0 = fold crc_byte (replicate (length post) 0) (x XOR y)"
    using crc_fold_zeros [of "length pre" 0] by (simp add: crc_byte_start)
  also have "\<dots> \<noteq> 0"
    using assms xor_zeroD crc_fold_zeros by blast
  finally have "fold crc_byte ?xs 0 XOR fold crc_byte ?ys 0 \<noteq> 0"
    using crc_fold_xor [of ?xs ?ys 0 0] by simp
  then have "crc_byte (0 XOR 0) (fold crc_byte ?xs 0 XOR fold crc_byte ?ys 0) \<noteq> 0"
    by (simp add: crc_byte_zero_iff)
  then have "crc_byte 0 (fold crc_byte ?xs 0) XOR crc_byte 0 (fold crc_byte ?ys 0) \<noteq> 0"
    by (simp only: crc_byte_xor) blast
  then show ?thesis unfolding mempack_crc_def by (metis xor_self_eq)
qed

section \<open>Controller pak accesses\<close>

lemma read_paks_write_paks:
  assumes "pif_wf s"
  shows "read_paks (write_paks s) = write_paks s"
proof -
  have len: "\<forall>m\<in>set (mempack s). length m = 0x8000" "length (mempack s) = 4" using assms by (auto simp: pif_wf_def)
  have "fread_at (k * 0x8000) (fwrite_start (concat (mempack s)) f) (mempack s ! k) = mempack s ! k" if "k < 4" for k f
    using take_drop_concat [OF len(1), of k "drop (length (concat (mempack s))) f"] that len
    by (simp add: fread_at_def fwrite_start_def Let_def)
  then have "map (\<lambda>k. fread_at (k * 0x8000) (g_mpak_file (write_paks s)) (mempack (write_paks s) ! k)) [0..<4] = mempack s"
    using len(2) by (intro nth_equalityI) (auto simp: write_paks_def)
  then show ?thesis by (simp add: read_paks_def write_paks_def)
qed

definition pak_block :: "nat \<Rightarrow> nat \<Rightarrow> pif_state \<Rightarrow> bytes option" where
  "pak_block Control address s = bblock (mempack (read_paks s) ! Control) (address AND 0xFFE0) 0x20"

lemma pak_write_block:
  assumes "pif_wf s" "Control < 4" "pak_write Control i p s = Some (p', s')"
    and "bget p (i + 3) = Some h" "bget p (i + 4) = Some l"
    and "pak_address h l \<noteq> 0x8001" "pak_address h l AND 0xFFE0 \<le> 0x7FE0"
  shows "pif_wf s' \<and> bblock p (i + 5) 0x20 = pak_block Control (pak_address h l) s' \<and>
     (C' < 4 \<longrightarrow> C' \<noteq> Control \<longrightarrow> pak_block C' a s' = pak_block C' a s)"
proof -
  let ?a = "pak_address h l AND 0xFFE0" and ?s1 = "read_paks s"
  from assms(3-7) obtain d m where dm: "bblock p (i + 5) 0x20 = Some d"
      "bwrite ?a d (mempack ?s1 ! Control) = Some m"
      "s' = write_paks (?s1\<lparr>mempack := (mempack ?s1)[Control := m]\<rparr>)"
    by (auto simp: pak_write_def bind_rules Let_def)
  have wf1: "pif_wf ?s1" using assms(1) by simp
  then have lenm: "length m = 0x8000"
    using bwrite_length [OF dm(2)] assms(2) by (auto simp: pif_wf_def)
  have wf2: "pif_wf (?s1\<lparr>mempack := (mempack ?s1)[Control := m]\<rparr>)"
    using wf1 lenm assms(2) by (auto simp: pif_wf_def dest: set_update_subset_insert [THEN subsetD])
  have rd: "mempack (read_paks s') = (mempack ?s1)[Control := m]"
    unfolding dm(3) by (simp add: read_paks_write_paks [OF wf2]) (simp add: write_paks_def)
  have "length (mempack ?s1) = 4" using wf1 by (simp add: pif_wf_def)
  moreover have "pif_wf s'" using wf2 by (simp add: dm(3) pif_wf_def write_paks_def)
  moreover have "length d = 0x20" using bblock_length [OF dm(1)] .
  ultimately show ?thesis
    using bblock_bwrite [OF dm(2)] dm(1) assms(2) by (simp add: pak_block_def rd)
qed

lemma pak_read_block:
  assumes "bget q (j + 3) = Some h" "bget q (j + 4) = Some l" "j + 0x25 < length q"
    and "pif_wf s" "Control < 4" "pak_address h l \<noteq> 0x8001" "pak_address h l AND 0xFFE0 \<le> 0x7FE0"
  shows "\<exists>q' s' d. pak_read Control j q s = Some (q', s') \<and> pak_block Control (pak_address h l) s = Some d \<and>
     bblock q' (j + 5) 0x20 = Some d \<and> bget q' (j + 0x25) = Some (mempack_crc d)"
proof -
  have "length (mempack (read_paks s) ! Control) = 0x8000"
    using pif_wf_read_paks [OF assms(4)] assms(5) by (auto simp: pif_wf_def)
  then obtain d where d: "pak_block Control (pak_address h l) s = Some d"
    using assms(7) by (simp add: pak_block_def bblock_def)
  have d20: "length d = 0x20" using d by (auto simp: pak_block_def dest: bblock_length)
  then obtain q1 where q1: "bwrite (j + 5) d q = Some q1" using assms(3) by (simp add: bwrite_def)
  have b1: "bblock q1 (j + 5) 0x20 = Some d" using bblock_bwrite [OF q1] by (simp add: d20)
  have len: "length q1 = length q" using bwrite_length [OF q1] .
  let ?q2 = "q1[j + 0x25 := mempack_crc d]"
  have "bblock ?q2 (j + 5) 0x20 = Some d" "bget ?q2 (j + 0x25) = Some (mempack_crc d)"
    using b1 len assms(3) by (auto simp: bblock_def bget_def drop_update_swap take_update_cancel)
  moreover have "pak_read Control j q s = Some (?q2, read_paks s)"
    using assms d q1 b1 len by (simp add: pak_read_def Let_def pak_block_def put_crc_def bput_def)
  ultimately show ?thesis using d by blast
qed

lemma pif_write_oob:
  assumes g: "bget p 0 = Some 0x3C" "bget p 1 = Some 0" "bget p 2 = Some 0x42" "bget p 62 = Some 1"
      "bget p 63 = Some 1" "bget p 64 = None"
  shows "update_pif_write lut pl (\<lambda>_. \<lparr>Present = True, RawData = False, Plugin = 1\<rparr>) p s w = None"
proof -
  let ?c = "\<lambda>_ :: nat. \<lparr>Present = True, RawData = False, Plugin = 1\<rparr>"
  have "pif_write_loop pl ?c 62 1 p s w = None"
    by (subst pif_write_loop.simps) (simp add: g internal_ControllerCommand_def)
  moreover have "internal_ControllerCommand pl ?c 0 0 p s w = Some (p, s, w)"
  proof -
    have "bget p (Suc (Suc 0)) = Some 0x42" using g(3) by (simp only: numeral_2_eq_2)
    then show ?thesis using g by (simp add: internal_ControllerCommand_def)
  qed
  ultimately have "pif_write_loop pl ?c 0 0 p s w = None"
    using g by (subst pif_write_loop.simps) simp
  then show ?thesis using g by (simp add: update_pif_write_def)
qed

section \<open>Properties\<close>

definition pif_example :: pif_state where
  "pif_example = \<lparr>eeprom = replicate 0x800 0, g_eeprom_file = [], mempack = replicate 4 (replicate 0x8000 0),
     g_mpak_file = []\<rparr>"

lemma pif_example_wf: "pif_wf pif_example"
  by (simp add: pif_example_def pif_wf_def)

text \<open>C25. The EEPROM keeps what is written.  After a write command for a block, a
  read command for the same block delivers the eight bytes of the write, and a
  read command for any other block delivers what it would have delivered before, also
  when the backing file was shorter than the device.\<close>

theorem eeprom_roundtrip:
  assumes "pif_wf s" "EepromCommand i p s = Some (p', s')" "bget p (i + 2) = Some 5" "bget p (i + 3) = Some blk"
    and "bget q (j + 2) = Some 4" "bget q (j + 3) = Some blk'" "j + 12 \<le> length q"
  shows "\<exists>q' s''. EepromCommand j q s' = Some (q', s'') \<and>
     (if blk' = blk then bblock q' (j + 4) 8 = bblock p (i + 4) 8
      else \<exists>q0 s0. EepromCommand j q s = Some (q0, s0) \<and> bblock q' (j + 4) 8 = bblock q0 (j + 4) 8)"
proof -
  note wr = eeprom_write_read [OF assms(1-4)]
  obtain q' s'' where r: "EepromCommand j q s' = Some (q', s'')"
      "bblock q' (j + 4) 8 = bblock (fread_at 0 (g_eeprom_file s') (eeprom s')) (unat blk' * 8) 8"
    using eeprom_read_block [OF assms(5-7), of s'] wr(1) unfolding pif_wf_def by blast
  obtain q0 s0 where r0: "EepromCommand j q s = Some (q0, s0)"
      "bblock q0 (j + 4) 8 = bblock (fread_at 0 (g_eeprom_file s) (eeprom s)) (unat blk' * 8) 8"
    using eeprom_read_block [OF assms(5-7), of s] assms(1) unfolding pif_wf_def by blast
  show ?thesis using r r0 wr(3) wr(4) [of blk'] by auto
qed

theorem eeprom_roundtrip_witness:
  "\<exists>p' s' q' s''.
     EepromCommand 0 [12, 1, 5, 7, 1, 2, 3, 4, 5, 6, 7, 8, 0] pif_example = Some (p', s') \<and>
     EepromCommand 0 [2, 8, 4, 7, 0, 0, 0, 0, 0, 0, 0, 0] s' = Some (q', s'') \<and>
     bblock q' 4 8 = Some [1, 2, 3, 4, 5, 6, 7, 8]"
proof -
  let ?p = "[12, 1, 5, 7, 1, 2, 3, 4, 5, 6, 7, 8, 0] :: bytes" and ?q = "[2, 8, 4, 7, 0, 0, 0, 0, 0, 0, 0, 0] :: bytes"
  obtain p' s' where w: "EepromCommand 0 ?p pif_example = Some (p', s')"
    by (simp add: EepromCommand_def bget_def bblock_def bwrite_def Let_def pif_example_def fread_at_def)
  have "bblock ?p (0 + 4) 8 = Some [1, 2, 3, 4, 5, 6, 7, 8]" by (simp add: bblock_def)
  with eeprom_roundtrip [OF pif_example_wf w, of 7 ?q 0 7] w show ?thesis
    by (auto simp: bget_def)
qed

text \<open>The controller paks keep what is written and do not disturb each other: after
  a write command to one controller's pak, a read command for the same block returns
  the 32 bytes written followed by their checksum, and every block of
  the other three paks is unchanged.\<close>

theorem mempak_roundtrip:
  assumes "pif_wf s" "Control < 4" "pak_write Control i p s = Some (p', s')"
    and "bget p (i + 3) = Some h" "bget p (i + 4) = Some l" "bget q (j + 3) = Some h" "bget q (j + 4) = Some l"
    and "pak_address h l \<noteq> 0x8001" "pak_address h l AND 0xFFE0 \<le> 0x7FE0" "j + 0x25 < length q"
  shows "\<exists>q' s'' d. bblock p (i + 5) 0x20 = Some d \<and> pak_read Control j q s' = Some (q', s'') \<and>
     bblock q' (j + 5) 0x20 = Some d \<and> bget q' (j + 0x25) = Some (mempack_crc d) \<and>
     (\<forall>C a. C < 4 \<longrightarrow> C \<noteq> Control \<longrightarrow> pak_block C a s' = pak_block C a s)"
proof -
  have w: "pif_wf s' \<and> bblock p (i + 5) 0x20 = pak_block Control (pak_address h l) s' \<and>
     (C < 4 \<longrightarrow> C \<noteq> Control \<longrightarrow> pak_block C a s' = pak_block C a s)" for C a
    by (rule pak_write_block) (use assms in auto)
  show ?thesis
    using pak_read_block [of q j h l s' Control] w assms by auto
qed

theorem mempak_roundtrip_witness:
  "\<exists>p' s' q' s''. pak_write 1 0 ([0x23, 1, 3, 0x01, 0x00] @ replicate 33 0xA5) pif_example = Some (p', s') \<and>
     pak_read 1 0 ([3, 0x21, 2, 0x01, 0x00] @ replicate 33 0) s' = Some (q', s'') \<and>
     bblock q' 5 0x20 = Some (replicate 32 0xA5)"
proof -
  let ?p = "[0x23, 1, 3, 0x01, 0x00] @ replicate 33 0xA5 :: bytes" and ?q = "[3, 0x21, 2, 0x01, 0x00] @ replicate 33 0 :: bytes"
  have a: "pak_address 0x01 0x00 = 0x100" by (simp add: pak_address_def)
  have b: "bblock ?p (0 + 5) 0x20 = Some (replicate 32 0xA5)" by (simp add: bblock_def)
  have "length (mempack (read_paks pif_example) ! 1) = 0x8000"
    using pif_wf_read_paks [OF pif_example_wf] by (simp add: pif_wf_def)
  then obtain p' s' where w: "pak_write 1 0 ?p pif_example = Some (p', s')"
    by (simp add: pak_write_def put_crc_def bget_def bblock_def bwrite_def bput_def Let_def a)
  have g: "bget ?p (0 + 3) = Some 0x01" "bget ?p (0 + 4) = Some 0x00" "bget ?q (0 + 3) = Some 0x01"
      "bget ?q (0 + 4) = Some 0x00" by (simp_all add: bget_def)
  show ?thesis
    using mempak_roundtrip [OF pif_example_wf _ w g] b w by (auto simp: a)
qed

text \<open>The checksum of a controller pak block detects every corruption of a single
  byte: two blocks that differ in exactly one byte have different checksums.\<close>

theorem mempack_crc_detects:
  assumes "x \<noteq> y"
  shows "mempack_crc (pre @ x # post) \<noteq> mempack_crc (pre @ y # post)"
  using assms by (rule crc_byte_error)

theorem mempack_crc_detects_witness:
  "mempack_crc (replicate 31 0 @ 1 # []) \<noteq> mempack_crc (replicate 31 0 @ 2 # [])"
  by (rule mempack_crc_detects) simp

text \<open>A command that starts at the end of PIF memory is not rejected: with a command
  byte in the last but one position, the walk of \<^verbatim>\<open>update_pif_write\<close> reads past the 64
  bytes.\<close>

theorem pif_write_out_of_bounds:
  "update_pif_write lut pl (\<lambda>_. \<lparr>Present = True, RawData = False, Plugin = 1\<rparr>)
     ([0x3C, 0, 0x42] @ replicate 59 0 @ [1, 1]) s w = None"
proof (rule pif_write_oob)
  let ?p = "[0x3C, 0, 0x42] @ replicate 59 0 @ [1, 1] :: bytes"
  show "bget ?p 0 = Some 0x3C" "bget ?p 1 = Some 0" "bget ?p 2 = Some 0x42" "bget ?p 62 = Some 1"
      "bget ?p 63 = Some 1" "bget ?p 64 = None"
    by (simp_all add: bget_def nth_append)
qed

end
