(* ===== verification/Vcr.thy ===== *)
theory Vcr
  imports Movie_Format Cheats Rom Pif "HOL-Library.Signed_Division"
begin

text \<open>
  The movie engine (\<^verbatim>\<open>Core/r4300/vcr.cpp\<close>): recording, playback, seeking with seek
  savestates, warp modification, freezing into savestates, with the pause gates of
  \<^verbatim>\<open>Core/r4300/r4300.cpp\<close>.  The state is one record; \<^term>\<open>None\<close> is undefined behaviour (an
  index outside the input buffer, an empty cheat stack, a failed assertion).

  Work that the source hands to another thread (\<^verbatim>\<open>submit_task\<close>) or to the savestate queue
  (\<^verbatim>\<open>core_st_do_file\<close>, \<^verbatim>\<open>core_st_do_memory\<close>) is recorded in \<^verbatim>\<open>vcr_tasks\<close>, and its completion is
  an operation of its own, so that every interleaving of polls and completions is a
  sequence of operations.  Notifications without a result are appended to \<^verbatim>\<open>vcr_events\<close>.
  The input plugin, the script callback, the dialogs, the clock and the start of a ROM
  are parameters.  \<^verbatim>\<open>size_t\<close> has 64 bits.
\<close>

section \<open>State\<close>

datatype vcr_task =
    task_idle | task_start_recording_from_reset | task_start_recording_from_snapshot
  | task_start_recording_from_existing_snapshot | task_recording | task_start_playback_from_reset
  | task_start_playback_from_snapshot | task_playback

datatype vcr_dialog =
    Rawdata_warning | Wiivc_warning | Rom_name_warning | Rom_country_warning | Rom_crc_warning | Cheat_load_error
  | Old_extended_nonzero | Controller_off_on nat | Controller_on_off nat | Controller_mempak nat
  | Controller_rumblepak nat | Controller_no_pak nat | Seek_save_failed | Reset_recording_failed
  | Reset_playback_failed | Reset_user_failed | Reset_movie_failed | Seek_exceeded | Save_state_failed
  | Load_state_failed | Load_playback_failed | Load_seek_failed | Seek_interval_zero

datatype vcr_event =
    Ev_task_changed vcr_task | Ev_current_sample u32 | Ev_rerecords u64 | Ev_frame | Ev_unfreeze_completed
  | Ev_seek_savestate u64 | Ev_readonly bool | Ev_seek_status | Ev_seek_completed | Ev_warp_modify bool
  | Ev_loop_movie | Ev_play_movie | Ev_stop_movie | Ev_paused bool | Ev_dialog vcr_dialog

datatype vcr_pending =
    Reset_for_recording bool | Reset_for_playback bool | Reset_by_user | Reset_by_movie
  | Save_seek_state u64 | Save_movie_state mpath | Load_existing_state mpath | Load_movie_state mpath
  | Load_seek_state u64

record vcr_cfg =
  total_rerecords :: u64
  seek_savestate_interval :: u32
  seek_savestate_max_count :: u32
  pause_at_frame :: u32
  pause_at_last_frame :: bool
  vcr_readonly :: bool
  vcr_backups :: bool
  vcr_write_extended_format :: bool
  wait_at_movie_end :: bool
  is_movie_loop_enabled :: bool
  wii_vc_emulation :: u32

record 'w vcr_state =
  g_task :: vcr_task
  seek_to_frame :: "u64 option"
  g_seek_pause_at_end :: bool
  g_seek_savestate_loading :: bool
  g_reset_pending :: bool
  g_seek_savestates :: "(u64 \<times> bytes) list"
  g_warp_modify_active :: bool
  g_warp_modify_first_difference_frame :: u64
  g_header :: movie_header
  g_movie_inputs :: "u32 list"
  g_movie_path :: mpath
  m_current_sample :: u32
  m_current_vi :: u32
  vcr_reset_requested :: bool
  cfg :: vcr_cfg
  emu_paused :: bool
  emu_launched :: bool
  frame_advance_outstanding :: u64
  controls :: "nat \<Rightarrow> control"
  vcr_cheats :: cheat_state
  vcr_files :: files
  vcr_events :: "vcr_event list"
  vcr_tasks :: "vcr_pending list"
  world :: 'w

record 'w vcr_env =
  input_get_keys :: "nat \<Rightarrow> u32 \<Rightarrow> 'w \<Rightarrow> u32 \<times> 'w"
  input_set_keys :: "nat \<Rightarrow> u32 \<Rightarrow> 'w \<Rightarrow> 'w"
  callback_input :: "nat \<Rightarrow> u32 \<Rightarrow> 'w \<Rightarrow> u32 \<times> 'w"
  show_ask_dialog :: "vcr_dialog \<Rightarrow> 'w \<Rightarrow> bool \<times> 'w"
  time_now :: "'w \<Rightarrow> u64"
  writable :: "string \<Rightarrow> bool"
  backups_directory :: string
  get_plugin_names :: "bytes \<times> bytes \<times> bytes \<times> bytes"
  rom_info :: rom_header
  core_executing :: "'w \<Rightarrow> bool"
  core_vr_start_rom :: "mpath \<Rightarrow> 'w \<Rightarrow> core_result \<times> 'w"

definition emit :: "vcr_event \<Rightarrow> 'w vcr_state \<Rightarrow> 'w vcr_state" where
  "emit e s = s\<lparr>vcr_events := vcr_events s @ [e]\<rparr>"

definition submit :: "vcr_pending \<Rightarrow> 'w vcr_state \<Rightarrow> 'w vcr_state" where
  "submit t s = s\<lparr>vcr_tasks := vcr_tasks s @ [t]\<rparr>"

text \<open>Conversion of an \<^verbatim>\<open>int32_t\<close> to \<^verbatim>\<open>size_t\<close>.\<close>

definition size_of_int :: "u32 \<Rightarrow> u64" where
  "size_of_int w = scast w"

text \<open>\<^verbatim>\<open>std::to_wstring\<close>, and the text of a file as characters.\<close>

fun decimal :: "nat \<Rightarrow> string" where
  "decimal n = (if n < 10 then [char_of (48 + n)] else decimal (n div 10) @ [char_of (48 + n mod 10)])"

declare decimal.simps [simp del]

definition text_bytes :: "string \<Rightarrow> bytes" where
  "text_bytes t = map (\<lambda>c. of_nat (of_char c)) t"

definition bytes_text :: "bytes \<Rightarrow> string" where
  "bytes_text b = map (\<lambda>x. char_of (unat x)) b"

section \<open>Tasks and writing\<close>

definition vcr_is_task_recording :: "vcr_task \<Rightarrow> bool" where
  "vcr_is_task_recording t \<longleftrightarrow> t = task_recording \<or> t = task_start_recording_from_reset \<or>
     t = task_start_recording_from_existing_snapshot \<or> t = task_start_recording_from_snapshot"

definition is_task_playback :: "vcr_task \<Rightarrow> bool" where
  "is_task_playback t \<longleftrightarrow> t = task_start_playback_from_reset \<or> t = task_start_playback_from_snapshot \<or> t = task_playback"

definition vcr_is_playing :: "'w vcr_state \<Rightarrow> bool" where
  "vcr_is_playing s \<longleftrightarrow> g_task s = task_playback"

definition write_movie :: "'w vcr_env \<Rightarrow> 'w vcr_state \<Rightarrow> (bool \<times> 'w vcr_state) option" where
  "write_movie env s =
    (if \<not> vcr_is_task_recording (g_task s) then Some (True, s)
     else map_option (\<lambda>(b, fs). (b, s\<lparr>vcr_files := fs\<rparr>))
       (write_movie_impl (vcr_write_extended_format (cfg s)) (writable env) (g_header s) (g_movie_inputs s)
          (g_movie_path s) (vcr_files s)))"

definition write_backup_impl :: "'w vcr_env \<Rightarrow> 'w vcr_state \<Rightarrow> (bool \<times> 'w vcr_state) option" where
  "write_backup_impl env s =
     map_option (\<lambda>(b, fs). (b, s\<lparr>vcr_files := fs\<rparr>))
       (write_movie_impl (vcr_write_extended_format (cfg s)) (writable env) (g_header s) (g_movie_inputs s)
          \<lparr>directory = backups_directory env,
           stem = stem (g_movie_path s) @ ''.'' @ decimal (unat (time_now env (world s))), extension = ''.m64''\<rparr>
          (vcr_files s))"

definition core_vcr_write_backup :: "'w vcr_env \<Rightarrow> 'w vcr_state \<Rightarrow> (core_result \<times> 'w vcr_state) option" where
  "core_vcr_write_backup env s = map_option (\<lambda>(b, s'). (if b then Res_Ok else VCR_BadFile, s')) (write_backup_impl env s)"

section \<open>Files of a movie\<close>

text \<open>
  Paths fit the buffers of \<^verbatim>\<open>_splitpath_s\<close>.  The loop looks for \<^verbatim>\<open>A.st\<close>, \<^verbatim>\<open>A.B.st\<close> and so on
  for the movie \<^verbatim>\<open>A.B.m64\<close>.
\<close>

definition first_existing :: "files \<Rightarrow> string \<Rightarrow> string \<Rightarrow> string list \<Rightarrow> mpath option" where
  "first_existing fs dir name exts = map_option (\<lambda>e. \<lparr>directory = dir, stem = name, extension = e\<rparr>)
     (find (\<lambda>e. fs (path_string \<lparr>directory = dir, stem = name, extension = e\<rparr>) \<noteq> None) exts)"

function accompanying_loop :: "files \<Rightarrow> mpath \<Rightarrow> string list \<Rightarrow> nat \<Rightarrow> mpath option" where
  "accompanying_loop fs p exts i =
    (case str_nth_occurence (stem p) (CHR ''.'') (i + 1) of
       None \<Rightarrow> first_existing fs (directory p) (stem p) exts
     | Some result \<Rightarrow>
         (case first_existing fs (directory p) (take result (stem p)) exts of
            Some st \<Rightarrow> Some st
          | None \<Rightarrow> accompanying_loop fs p exts (i + 1)))"
  by pat_completeness auto

termination
proof (relation "measure (\<lambda>(fs, p, exts, i). length (stem p) - i)")
  fix fs p exts i result
  assume "str_nth_occurence (stem p) (CHR ''.'') (i + 1) = Some result"
  then have "i < length (stem p)"
    using nth_occurence_bound [of "i + 1" "stem p" "CHR ''.''" 0 result] by (simp add: str_nth_occurence_def split: if_splits)
  then show "((fs, p, exts, i + 1), fs, p, exts, i) \<in> measure (\<lambda>(fs, p, exts, i). length (stem p) - i)"
    by simp
qed simp

definition find_accompanying_file_for_movie :: "files \<Rightarrow> mpath \<Rightarrow> string list \<Rightarrow> mpath option" where
  "find_accompanying_file_for_movie fs p exts = accompanying_loop fs p exts 0"

abbreviation (input) st_extensions :: "string list" where "st_extensions \<equiv> [''.st'', ''.savestate'']"

definition get_path_for_new_movie :: "mpath \<Rightarrow> string \<Rightarrow> mpath" where
  "get_path_for_new_movie p ext = (case str_nth_occurence (stem p) (CHR ''.'') 1 of
      None \<Rightarrow> p\<lparr>extension := ext\<rparr>
    | Some result \<Rightarrow> \<lparr>directory = directory p, stem = take result (stem p), extension = ext\<rparr>)"

section \<open>Seeking state and the pause gates\<close>

definition core_vcr_is_seeking :: "'w vcr_state \<Rightarrow> bool" where
  "core_vcr_is_seeking s \<longleftrightarrow> seek_to_frame s \<noteq> None"

definition core_vcr_get_seek_completion :: "'w vcr_state \<Rightarrow> u64 \<times> u64" where
  "core_vcr_get_seek_completion s =
    (case seek_to_frame s of
       None \<Rightarrow> (size_of_int (m_current_sample s), - 1)
     | Some f \<Rightarrow> (size_of_int (m_current_sample s), f))"

definition vcr_allows_core_pause :: "'w vcr_state \<Rightarrow> bool" where
  "vcr_allows_core_pause s =
    (case seek_to_frame s of
       None \<Rightarrow> True
     | Some f \<Rightarrow> size_of_int (m_current_sample s) = f - 1 \<and> g_seek_pause_at_end s)"

definition vcr_allows_core_unpause :: "'w vcr_state \<Rightarrow> bool" where
  "vcr_allows_core_unpause s \<longleftrightarrow>
     \<not> (wait_at_movie_end (cfg s) \<and> g_task s = task_playback \<and> m_current_sample s \<ge> length_samples (g_header s) - 1)"

definition core_vr_pause_emu :: "'w vcr_state \<Rightarrow> 'w vcr_state" where
  "core_vr_pause_emu s =
    (if \<not> vcr_allows_core_pause s then s
     else let s1 = (if emu_launched s then s\<lparr>emu_paused := True\<rparr> else s) in emit (Ev_paused (emu_paused s1)) s1)"

definition core_vr_resume_emu_impl :: "bool \<Rightarrow> 'w vcr_state \<Rightarrow> 'w vcr_state" where
  "core_vr_resume_emu_impl force s =
    (if \<not> force \<and> \<not> vcr_allows_core_unpause s then s
     else let s1 = (if emu_launched s then s\<lparr>emu_paused := False\<rparr> else s) in emit (Ev_paused (emu_paused s1)) s1)"

definition core_vr_resume_emu :: "'w vcr_state \<Rightarrow> 'w vcr_state" where
  "core_vr_resume_emu s = core_vr_resume_emu_impl False s"

definition core_vr_frame_advance :: "u64 \<Rightarrow> 'w vcr_state \<Rightarrow> 'w vcr_state" where
  "core_vr_frame_advance n s =
    (if \<not> vcr_allows_core_unpause s then s else core_vr_resume_emu (s\<lparr>frame_advance_outstanding := n\<rparr>))"

definition core_vcr_stop_seek :: "'w vcr_state \<Rightarrow> 'w vcr_state" where
  "core_vcr_stop_seek s =
    (if seek_to_frame s = None then s
     else let s1 = emit Ev_seek_completed (emit Ev_seek_status (s\<lparr>seek_to_frame := None\<rparr>))
       in if g_warp_modify_active s1 then emit (Ev_warp_modify False) (s1\<lparr>g_warp_modify_active := False\<rparr>) else s1)"

definition vcr_stop_seek_if_needed :: "'w vcr_state \<Rightarrow> 'w vcr_state option" where
  "vcr_stop_seek_if_needed s =
    (case seek_to_frame s of
       None \<Rightarrow> Some s
     | Some f \<Rightarrow>
         if g_task s = task_idle then None
         else
           let s1 = (if size_of_int (m_current_sample s) > f then emit (Ev_dialog Seek_exceeded) s else s)
           in Some (if size_of_int (m_current_sample s1) \<ge> f then
                let s2 = core_vcr_stop_seek s1 in if g_seek_pause_at_end s2 then core_vr_pause_emu s2 else s2
              else s1))"

section \<open>Stopping\<close>

definition vcr_stop_record :: "'w vcr_env \<Rightarrow> 'w vcr_state \<Rightarrow> (core_result \<times> 'w vcr_state) option" where
  "vcr_stop_record env s =
    (if \<not> vcr_is_task_recording (g_task s) then Some (Res_Ok, s)
     else do {
       let s1 = (if g_task s = task_start_recording_from_reset
                 then s\<lparr>g_task := task_idle, vcr_files := (vcr_files s)
                   (path_string ((g_movie_path s)\<lparr>extension := ''.m64''\<rparr>) := None,
                    path_string ((g_movie_path s)\<lparr>extension := ''.st''\<rparr>) := None)\<rparr>
                 else s);
       s2 \<leftarrow> (if g_task s1 = task_recording
              then map_option (\<lambda>(_, t). t\<lparr>g_task := task_idle\<rparr>) (write_movie env s1) else Some s1);
       Some (Res_Ok, emit (Ev_task_changed (g_task s2)) s2) })"

definition vcr_stop_playback :: "'w vcr_state \<Rightarrow> (core_result \<times> 'w vcr_state) option" where
  "vcr_stop_playback s =
    (if \<not> is_task_playback (g_task s) then Some (Res_Ok, s)
     else do {
       let s1 = emit Ev_stop_movie (emit (Ev_task_changed task_idle) (s\<lparr>g_task := task_idle\<rparr>));
       c \<leftarrow> cht_layer_pop (vcr_cheats s1);
       Some (Res_Ok, s1\<lparr>vcr_cheats := c\<rparr>) })"

definition vcr_clear_seek_savestates :: "'w vcr_state \<Rightarrow> 'w vcr_state" where
  "vcr_clear_seek_savestates s =
     fold (\<lambda>k. emit (Ev_seek_savestate k)) (map fst (g_seek_savestates s)) (s\<lparr>g_seek_savestates := []\<rparr>)"

definition setkeys_with_zero :: "'w vcr_env \<Rightarrow> 'w vcr_state \<Rightarrow> 'w vcr_state" where
  "setkeys_with_zero env s = s\<lparr>world := fold (\<lambda>i. input_set_keys env i 0) [0..<4] (world s)\<rparr>"

definition core_vcr_stop_all :: "'w vcr_env \<Rightarrow> 'w vcr_state \<Rightarrow> (core_result \<times> 'w vcr_state) option" where
  "core_vcr_stop_all env s0 =
    (let s = vcr_clear_seek_savestates s0 in
     if g_task s \<in> {task_start_recording_from_reset, task_start_recording_from_snapshot, task_recording}
     then vcr_stop_record env (setkeys_with_zero env s)
     else if g_task s \<in> {task_start_playback_from_reset, task_start_playback_from_snapshot, task_playback}
     then vcr_stop_playback (setkeys_with_zero env s)
     else Some (Res_Ok, s))"

section \<open>Starting to record\<close>

abbreviation (input) MOVIE_START_FROM_SNAPSHOT :: u16 where "MOVIE_START_FROM_SNAPSHOT \<equiv> 1"
abbreviation (input) MOVIE_START_FROM_NOTHING :: u16 where "MOVIE_START_FROM_NOTHING \<equiv> 2"
abbreviation (input) MOVIE_START_FROM_EEPROM :: u16 where "MOVIE_START_FROM_EEPROM \<equiv> 4"
abbreviation (input) MOVIE_START_FROM_EXISTING_SNAPSHOT :: u16 where "MOVIE_START_FROM_EXISTING_SNAPSHOT \<equiv> 8"

definition CONTROLLER_X_PRESENT :: "nat \<Rightarrow> u32" where "CONTROLLER_X_PRESENT x = push_bit x 1"
definition CONTROLLER_X_MEMPAK :: "nat \<Rightarrow> u32" where "CONTROLLER_X_MEMPAK x = push_bit (x + 4) 1"
definition CONTROLLER_X_RUMBLE :: "nat \<Rightarrow> u32" where "CONTROLLER_X_RUMBLE x = push_bit (x + 8) 1"

abbreviation (input) ce_none :: u32 where "ce_none \<equiv> 1"
abbreviation (input) ce_rumblepak :: u32 where "ce_rumblepak \<equiv> 3"

definition set_controller :: "(nat \<Rightarrow> control) \<Rightarrow> nat \<Rightarrow> movie_header \<Rightarrow> movie_header" where
  "set_controller ctl i h =
    (let h1 = (if Plugin (ctl i) = ce_mempak then h\<lparr>controller_flags := controller_flags h OR CONTROLLER_X_MEMPAK i\<rparr> else h);
         h2 = (if Plugin (ctl i) = ce_rumblepak then h1\<lparr>controller_flags := controller_flags h1 OR CONTROLLER_X_RUMBLE i\<rparr> else h1)
     in if \<not> Present (ctl i) then h2
        else h2\<lparr>controller_flags := controller_flags h2 OR CONTROLLER_X_PRESENT i, num_controllers := num_controllers h2 + 1\<rparr>)"

text \<open>The plugin names are written by the host into the fields of the header.\<close>

definition set_rom_info :: "'w vcr_env \<Rightarrow> (nat \<Rightarrow> control) \<Rightarrow> movie_header \<Rightarrow> movie_header option" where
  "set_rom_info env ctl h = do {
     let h1 = fold (set_controller ctl) [0..<4]
       (h\<lparr>vis_per_second := ucast (core_vr_get_vis_per_second (Country_code (rom_info env))), controller_flags := 0,
          num_controllers := 0\<rparr>);
     n \<leftarrow> strncpy_s (rom_name h1) (nom (rom_info env)) 32;
     case get_plugin_names env of (v, a, i, r) \<Rightarrow>
       Some (h1\<lparr>rom_name := n, rom_crc1 := CRC1 (rom_info env), rom_country := Country_code (rom_info env),
                video_plugin_name := v, audio_plugin_name := a, input_plugin_name := i, rsp_plugin_name := r\<rparr>) }"

text \<open>The dialog for controllers in raw mode: \<^term>\<open>False\<close> is a refusal.\<close>

definition ask_rawdata :: "'w vcr_env \<Rightarrow> 'w vcr_state \<Rightarrow> bool \<times> 'w vcr_state" where
  "ask_rawdata env s =
    (if \<exists>i\<in>set [0..<4]. Present (controls s i) \<and> RawData (controls s i)
     then case show_ask_dialog env Rawdata_warning (world s) of (b, w) \<Rightarrow> (b, s\<lparr>world := w\<rparr>)
     else (True, s))"

text \<open>An author or description, cut to the field and copied into it.\<close>

definition set_text :: "nat \<Rightarrow> bytes \<Rightarrow> bytes option" where
  "set_text n t = strncpy_s (replicate n 0) (take n t) (length (take n t))"

definition zero_header :: movie_header where
  "zero_header = header_of_bytes (replicate header_size 0)"

definition new_movie_header :: "'w vcr_env \<Rightarrow> u16 \<Rightarrow> 'w vcr_state \<Rightarrow> movie_header" where
  "new_movie_header env flags s =
     (set_rerecord_count 0 (zero_header\<lparr>magic := mup_magic, version := mup_version, extended_version := 1,
        extended_flags := (if wii_vc_emulation (cfg s) \<noteq> 0 then 1 else 0),
        authorship_tag := [0x4D, 0x55, 0x50, 0x4E], uid := ucast (time_now env (world s)),
        length_vis := 0, length_samples := 0\<rparr>))\<lparr>startFlags := flags\<rparr>"

text \<open>Writing the cheats of the movie; \<^term>\<open>None\<close> in the result is a failure.\<close>

definition write_movie_cheats :: "'w vcr_env \<Rightarrow> mpath \<Rightarrow> 'w vcr_state \<Rightarrow> 'w vcr_state option" where
  "write_movie_cheats env p s =
    (let cheat_data = cht_serialize (vcr_cheats s); cheat_path = get_path_for_new_movie p ''.cht'' in
     if cheat_data = [] then Some s
     else if \<not> writable env (path_string cheat_path) then None
     else Some (s\<lparr>vcr_files := (vcr_files s)(path_string cheat_path \<mapsto> text_bytes cheat_data)\<rparr>))"

definition finish_start_record ::
  "'w vcr_env \<Rightarrow> bytes \<Rightarrow> bytes \<Rightarrow> 'w vcr_state \<Rightarrow> (core_result \<times> 'w vcr_state) option" where
  "finish_start_record env auth descr s = do {
     h \<leftarrow> set_rom_info env (controls s) (g_header s);
     a \<leftarrow> set_text 222 auth;
     d \<leftarrow> set_text 256 descr;
     let s1 = s\<lparr>g_header := h\<lparr>author := a, description := d\<rparr>, m_current_sample := 0, m_current_vi := 0\<rparr>;
     Some (Res_Ok, emit (Ev_rerecords (get_rerecord_count (g_header s1)))
       (emit (Ev_current_sample 0) (emit (Ev_task_changed (g_task s1)) s1))) }"

definition core_vcr_start_record ::
  "'w vcr_env \<Rightarrow> mpath \<Rightarrow> u16 \<Rightarrow> bytes \<Rightarrow> bytes \<Rightarrow> 'w vcr_state \<Rightarrow> (core_result \<times> 'w vcr_state) option" where
  "core_vcr_start_record env p flags auth0 descr0 s0 =
    (if flags \<notin> {MOVIE_START_FROM_SNAPSHOT, MOVIE_START_FROM_NOTHING, MOVIE_START_FROM_EEPROM, MOVIE_START_FROM_EXISTING_SNAPSHOT}
     then Some (VCR_InvalidStartType, s0)
     else
       let auth = (if auth0 = [] then text_bytes ''(no author)'' else auth0);
           descr = (if descr0 = [] then text_bytes ''(no description)'' else descr0)
       in case write_movie_cheats env p s0 of
         None \<Rightarrow> Some (VCR_CheatWriteFailed, s0)
       | Some s1 \<Rightarrow> do {
           (_, s2) \<leftarrow> core_vcr_stop_all env s1;
           let (proceed, s3) = ask_rawdata env (s2\<lparr>g_movie_path := p\<rparr>);
           if \<not> proceed then Some (Res_Cancelled, s3)
           else do {
             let s4 = emit (Ev_readonly False) (s3\<lparr>cfg := (cfg s3)\<lparr>vcr_readonly := False\<rparr>\<rparr>);
             let s5 = s4\<lparr>g_movie_inputs := [], g_header := new_movie_header env flags s4\<rparr>;
             if flags AND MOVIE_START_FROM_SNAPSHOT \<noteq> 0 then
               finish_start_record env auth descr
                 (submit (Save_movie_state (get_path_for_new_movie p ''.st''))
                   (s5\<lparr>g_task := task_start_recording_from_snapshot\<rparr>))
             else if flags AND MOVIE_START_FROM_EXISTING_SNAPSHOT \<noteq> 0 then
               (case find_accompanying_file_for_movie (vcr_files s5) p st_extensions of
                  None \<Rightarrow> Some (VCR_InvalidSavestate, s5)
                | Some st \<Rightarrow> finish_start_record env auth descr
                    (submit (Load_existing_state st)
                      (s5\<lparr>g_header := (g_header s5)\<lparr>startFlags := MOVIE_START_FROM_SNAPSHOT\<rparr>,
                          g_task := task_start_recording_from_existing_snapshot\<rparr>)))
             else finish_start_record env auth descr (s5\<lparr>g_task := task_start_recording_from_reset\<rparr>) } })"

section \<open>Starting playback\<close>

definition controller_warning :: "(nat \<Rightarrow> control) \<Rightarrow> movie_header \<Rightarrow> nat \<Rightarrow> bool \<times> vcr_dialog list" where
  "controller_warning ctl h i =
    (let present = Present (ctl i); plugin = Plugin (ctl i); flag = (\<lambda>f. controller_flags h AND f i \<noteq> 0) in
     if \<not> present \<and> flag CONTROLLER_X_PRESENT then (False, [Controller_off_on (i + 1)])
     else if present \<and> \<not> flag CONTROLLER_X_PRESENT then (True, [Controller_on_off (i + 1)])
     else (True,
        (if present \<and> plugin \<noteq> ce_mempak \<and> flag CONTROLLER_X_MEMPAK then [Controller_mempak (i + 1)] else [])
      @ (if present \<and> plugin \<noteq> ce_rumblepak \<and> flag CONTROLLER_X_RUMBLE then [Controller_rumblepak (i + 1)] else [])
      @ (if present \<and> plugin \<noteq> ce_none \<and> controller_flags h AND (CONTROLLER_X_MEMPAK i OR CONTROLLER_X_RUMBLE i) = 0
         then [Controller_no_pak (i + 1)] else [])))"

fun show_controller_warnings :: "nat list \<Rightarrow> movie_header \<Rightarrow> 'w vcr_state \<Rightarrow> bool \<times> 'w vcr_state" where
  "show_controller_warnings [] h s = (True, s)"
| "show_controller_warnings (i # is) h s =
    (case controller_warning (controls s) h i of (ok, ds) \<Rightarrow>
       let s1 = fold (\<lambda>d. emit (Ev_dialog d)) ds s in
       if ok then show_controller_warnings is h s1 else (False, s1))"

definition show_controller_warning :: "movie_header \<Rightarrow> 'w vcr_state \<Rightarrow> bool \<times> 'w vcr_state" where
  "show_controller_warning h s = show_controller_warnings [0..<4] h s"

definition ask_user :: "'w vcr_env \<Rightarrow> vcr_dialog \<Rightarrow> 'w vcr_state \<Rightarrow> bool \<times> 'w vcr_state" where
  "ask_user env d s = (case show_ask_dialog env d (world s) of (b, w) \<Rightarrow> (b, s\<lparr>world := w\<rparr>))"

definition ask_if :: "bool \<Rightarrow> 'w vcr_env \<Rightarrow> vcr_dialog \<Rightarrow> 'w vcr_state \<Rightarrow> bool \<times> 'w vcr_state" where
  "ask_if c env d s = (if c then ask_user env d s else (True, s))"

definition lower :: "u8 \<Rightarrow> u8" where
  "lower c = (if 0x41 \<le> c \<and> c \<le> 0x5A then c + 0x20 else c)"

text \<open>
  \<^verbatim>\<open>_stricmp(header.rom_name, ROM_HEADER.nom)\<close>: a name without a terminator in its field runs on
  into the fields behind it.
\<close>

definition rom_name_differs :: "movie_header \<Rightarrow> rom_header \<Rightarrow> bool option" where
  "rom_name_differs h r = map_option (\<lambda>n. map lower n \<noteq> map lower (takeWhile (\<lambda>c. c \<noteq> 0) (nom r)))
     (cstr (drop 196 (header_bytes h)))"

definition rom_mismatch_dialog :: "movie_header \<Rightarrow> rom_header \<Rightarrow> vcr_dialog option option" where
  "rom_mismatch_dialog h r = map_option (\<lambda>differs.
     if differs then Some Rom_name_warning
     else if rom_country h \<noteq> Country_code r then Some Rom_country_warning
     else if rom_crc1 h \<noteq> CRC1 r then Some Rom_crc_warning else None) (rom_name_differs h r)"

text \<open>The layer of cheats for a movie; \<^verbatim>\<open>Inl\<close> is an exception of the cheat compiler.\<close>

definition push_movie_cheats :: "'w vcr_env \<Rightarrow> mpath \<Rightarrow> 'w vcr_state \<Rightarrow> (bool \<times> 'w vcr_state) option" where
  "push_movie_cheats env p s =
    (case find_accompanying_file_for_movie (vcr_files s) p [''.cht''] of
       None \<Rightarrow> Some (True, s\<lparr>vcr_cheats := cht_layer_push [] (vcr_cheats s)\<rparr>)
     | Some cht \<Rightarrow>
         (case cht_read_from_file (map_option bytes_text (vcr_files s (path_string cht))) [] of
            Inl _ \<Rightarrow> None
          | Inr (True, cs) \<Rightarrow> Some (True, s\<lparr>vcr_cheats := cht_layer_push cs (vcr_cheats s)\<rparr>)
          | Inr (False, _) \<Rightarrow> Some (ask_user env Cheat_load_error s)))"

definition announce_movie :: "'w vcr_state \<Rightarrow> 'w vcr_state" where
  "announce_movie s = emit (Ev_rerecords (get_rerecord_count (g_header s)))
     (emit (Ev_current_sample (m_current_sample s)) (emit (Ev_task_changed (g_task s)) s))"

definition begin_playback :: "'w vcr_env \<Rightarrow> mpath \<Rightarrow> movie_header \<Rightarrow> u32 list \<Rightarrow> 'w vcr_state \<Rightarrow> (core_result \<times> 'w vcr_state) option" where
  "begin_playback env p h inputs s0 = do {
     (_, s1) \<leftarrow> core_vcr_stop_all env s0;
     let s = s1\<lparr>m_current_sample := 0, m_current_vi := 0, g_movie_path := p, g_movie_inputs := inputs, g_header := h\<rparr>;
     if startFlags h AND MOVIE_START_FROM_SNAPSHOT \<noteq> 0 then
       (case find_accompanying_file_for_movie (vcr_files s) p st_extensions of
          None \<Rightarrow> Some (VCR_InvalidSavestate, s)
        | Some st \<Rightarrow> Some (Res_Ok, emit Ev_play_movie (announce_movie
            (submit (Load_movie_state st) (s\<lparr>g_task := task_start_playback_from_snapshot\<rparr>)))))
     else Some (Res_Ok, emit Ev_play_movie (announce_movie (s\<lparr>g_task := task_start_playback_from_reset\<rparr>))) }"

text \<open>The questions asked before playback begins, in order; a refusal cancels.\<close>

definition playback_checks :: "'w vcr_env \<Rightarrow> movie_header \<Rightarrow> 'w vcr_state \<Rightarrow> (core_result \<times> 'w vcr_state) option" where
  "playback_checks env h s0 =
    (let (ok1, s1) = ask_rawdata env s0 in
     if \<not> ok1 then Some (Res_Cancelled, s1)
     else let (ok2, s2) = show_controller_warning h s1 in
     if \<not> ok2 then Some (VCR_InvalidControllers, s2)
     else let (ok3, s3) =
       (if extended_version h \<noteq> 0
        then ask_if (wii_vc_emulation (cfg s2) \<noteq> (if bit (extended_flags h) 0 then 1 else 0)) env Wiivc_warning s2
        else (True, if extended_flags h \<noteq> 0 then emit (Ev_dialog Old_extended_nonzero) s2 else s2)) in
     if \<not> ok3 then Some (Res_Cancelled, s3)
     else do {
       d \<leftarrow> rom_mismatch_dialog h (rom_info env);
       let (ok4, s4) = (case d of None \<Rightarrow> (True, s3) | Some q \<Rightarrow> ask_user env q s3);
       Some (if ok4 then Res_Ok else Res_Cancelled, s4) })"

definition core_vcr_start_playback :: "'w vcr_env \<Rightarrow> mpath \<Rightarrow> 'w vcr_state \<Rightarrow> (core_result \<times> 'w vcr_state) option" where
  "core_vcr_start_playback env p s0 =
    (let movie_buf = read_file_buffer (vcr_files s0) p in
     if movie_buf = [] then Some (VCR_BadFile, s0)
     else
       let (started, s1) = (if core_executing env (world s0) then (Res_Ok, s0)
             else case core_vr_start_rom env p (world s0) of (r, w) \<Rightarrow> (r, s0\<lparr>world := w\<rparr>)) in
       if started \<noteq> Res_Ok then Some (started, s1)
       else do {
         r \<leftarrow> read_movie_header movie_buf;
         case r of
           Inl e \<Rightarrow> Some (e, s1)
         | Inr h \<Rightarrow> do {
             inputs \<leftarrow> read_inputs movie_buf (unat (length_samples h));
             (res, s2) \<leftarrow> playback_checks env h s1;
             if res \<noteq> Res_Ok then Some (res, s2)
             else do {
               (ok, s3) \<leftarrow> push_movie_cheats env p s2;
               if \<not> ok then Some (Res_Cancelled, s3)
               else begin_playback env p h inputs s3 } } })"

section \<open>Freezing into savestates\<close>

record freeze_info =
  frz_size :: u32
  frz_uid :: u32
  frz_current_sample :: u32
  frz_current_vi :: u32
  frz_length_samples :: u32
  frz_input_buffer :: "u32 list"

text \<open>The size of the frozen buffer is computed with 32 bits in the end.\<close>

definition core_vcr_freeze :: "'w vcr_env \<Rightarrow> 'w vcr_state \<Rightarrow> (freeze_info option \<times> 'w vcr_state) option" where
  "core_vcr_freeze env s =
    (if g_task s = task_idle then Some (None, s)
     else if length (g_movie_inputs s) < unat (length_samples (g_header s)) \<or> length_samples (g_header s) + 1 = 0 then None
     else do {
       let n = length_samples (g_header s);
       let fr = \<lparr>frz_size = 16 + 4 * (n + 1), frz_uid = uid (g_header s), frz_current_sample = m_current_sample s,
                 frz_current_vi = m_current_vi s, frz_length_samples = n,
                 frz_input_buffer = take (unat n) (g_movie_inputs s) @ [0]\<rparr>;
       (_, s1) \<leftarrow> write_movie env s;
       Some (Some fr, s1) })"

definition unfreeze_recording :: "'w vcr_env \<Rightarrow> freeze_info \<Rightarrow> vcr_task \<Rightarrow> 'w vcr_state \<Rightarrow> 'w vcr_state option" where
  "unfreeze_recording env fr last_task s0 = do {
     let s1 = announce_movie (s0\<lparr>g_task := task_recording\<rparr>);
     h \<leftarrow> (if last_task = task_playback then set_rom_info env (controls s1) (g_header s1) else Some (g_header s1));
     let h' = set_rerecord_count (get_rerecord_count h + 1) h;
     let s2 = emit (Ev_rerecords (get_rerecord_count h'))
       (s1\<lparr>g_header := h', cfg := (cfg s1)\<lparr>total_rerecords := total_rerecords (cfg s1) + 1\<rparr>\<rparr>);
     if g_warp_modify_active s2 then Some s2
     else do {
       let n = unat (frz_current_sample fr);
       let s3 = s2\<lparr>g_header := (g_header s2)\<lparr>length_samples := frz_current_sample fr\<rparr>\<rparr>;
       s4 \<leftarrow> (if vcr_backups (cfg s3) then map_option snd (write_backup_impl env s3) else Some s3);
       if n > length (frz_input_buffer fr) then None
       else map_option snd (write_movie env (s4\<lparr>g_movie_inputs := take n (frz_input_buffer fr)\<rparr>)) } }"

definition core_vcr_unfreeze :: "'w vcr_env \<Rightarrow> freeze_info \<Rightarrow> 'w vcr_state \<Rightarrow> (core_result \<times> 'w vcr_state) option" where
  "core_vcr_unfreeze env fr s =
    (if g_task s = task_idle then Some (VCR_NeedsPlaybackOrRecording, s)
     else if frz_size fr < 16 then Some (VCR_InvalidFormat, s)
     else if frz_uid fr \<noteq> uid (g_header s) then Some (VCR_NotFromThisMovie, s)
     else if frz_current_sample fr > frz_length_samples fr \<and> vcr_readonly (cfg s) then Some (VCR_InvalidFrame, s)
     else if 4 * (frz_length_samples fr + 1) > frz_size fr then Some (VCR_InvalidFormat, s)
     else do {
       let s1 = s\<lparr>m_current_sample := frz_current_sample fr, m_current_vi := frz_current_vi fr\<rparr>;
       let starting = (g_task s1 = task_start_playback_from_reset \<or> g_task s1 = task_start_playback_from_snapshot);
       s2 \<leftarrow> (if g_task s1 = task_recording \<and> seek_to_frame s1 \<noteq> None
              then Some (emit (Ev_current_sample (m_current_sample s1)) s1)
              else if \<not> vcr_readonly (cfg s1) \<and> \<not> starting then unfreeze_recording env fr (g_task s) s1
              else map_option (\<lambda>(_, t). announce_movie (t\<lparr>g_task := task_playback\<rparr>)) (write_movie env s1));
       Some (Res_Ok, emit Ev_unfreeze_completed (emit Ev_frame s2)) })"

definition core_vcr_convert_freeze_buffer_to_movie ::
  "'w vcr_env \<Rightarrow> (nat \<Rightarrow> control) \<Rightarrow> freeze_info \<Rightarrow> movie_header \<Rightarrow> (movie_header \<times> u32 list) option" where
  "core_vcr_convert_freeze_buffer_to_movie env ctl fr h =
     map_option (\<lambda>h'. (h', frz_input_buffer fr))
       (set_rom_info env ctl (h\<lparr>magic := mup_magic, version := mup_version, uid := frz_uid fr,
          length_samples := frz_length_samples fr, startFlags := MOVIE_START_FROM_NOTHING, length_vis := 0xFFFFFFFF\<rparr>))"

section \<open>Polling\<close>

text \<open>\<^verbatim>\<open>for (int32_t i = 1; i < g_header.length_samples; ++i)\<close> up to the first contained frame.\<close>

definition purge_oldest :: "'w vcr_state \<Rightarrow> 'w vcr_state" where
  "purge_oldest s =
    (case find (\<lambda>i. map_of (g_seek_savestates s) (of_nat i) \<noteq> None) [1..<unat (length_samples (g_header s))] of
       None \<Rightarrow> s
     | Some i \<Rightarrow> emit (Ev_seek_savestate (of_nat i))
         (s\<lparr>g_seek_savestates := AList.delete (of_nat i) (g_seek_savestates s)\<rparr>))"

definition vcr_create_n_frame_savestate :: "u64 \<Rightarrow> 'w vcr_state \<Rightarrow> 'w vcr_state" where
  "vcr_create_n_frame_savestate frame s =
    (let (now, target) = core_vcr_get_seek_completion s in
     if core_vcr_is_seeking s \<and>
        target - now > size_of_int (seek_savestate_interval (cfg s) * seek_savestate_max_count (cfg s))
     then s
     else
       let s1 = (if of_nat (length (g_seek_savestates s)) > size_of_int (seek_savestate_max_count (cfg s))
                 then purge_oldest s else s)
       in submit (Save_seek_state frame) s1)"

definition vcr_create_seek_savestates :: "'w vcr_state \<Rightarrow> 'w vcr_state" where
  "vcr_create_seek_savestates s =
    (if g_task s = task_idle \<or> seek_savestate_interval (cfg s) = 0 then s
     else if sint (m_current_sample s) smod sint (seek_savestate_interval (cfg s)) = 0
     then vcr_create_n_frame_savestate (size_of_int (m_current_sample s)) s else s)"

definition vcr_handle_starting_tasks :: "'w vcr_state \<Rightarrow> 'w vcr_state" where
  "vcr_handle_starting_tasks s =
    (let clear_eeprom = (startFlags (g_header s) AND MOVIE_START_FROM_EEPROM = 0);
         s1 = (if g_task s = task_start_recording_from_reset
               then submit (Reset_for_recording clear_eeprom) (s\<lparr>g_reset_pending := True\<rparr>) else s)
     in if g_task s1 = task_start_playback_from_reset
        then submit (Reset_for_playback clear_eeprom) (s1\<lparr>g_reset_pending := True\<rparr>) else s1)"

definition vcr_handle_recording ::
  "'w vcr_env \<Rightarrow> nat \<Rightarrow> u32 \<Rightarrow> 'w vcr_state \<Rightarrow> (u32 \<times> 'w vcr_state) option" where
  "vcr_handle_recording env index input s =
    (if g_task s \<noteq> task_recording then Some (input, s)
     else do {
       let effective_index = m_current_sample s + of_nat index;
       let use_inputs_from_buffer =
         (of_nat (length (g_movie_inputs s)) > size_of_int effective_index \<or> g_warp_modify_active s);
       (inp, s1) \<leftarrow>
         (if vcr_reset_requested s then Some (0xC000, s)
          else if use_inputs_from_buffer then
            if unat (size_of_int effective_index) < length (g_movie_inputs s) then
              let x = g_movie_inputs s ! unat (size_of_int effective_index) in
              Some (x, s\<lparr>world := snd (callback_input env index x (world s))\<rparr>)
            else None
          else
            let (x, w) = input_get_keys env index input (world s); (y, w') = callback_input env index x w
            in Some (y, s\<lparr>world := w'\<rparr>));
       let s2 = (if use_inputs_from_buffer then s1
         else s1\<lparr>g_movie_inputs := g_movie_inputs s1 @ [inp],
                 g_header := (g_header s1)\<lparr>length_samples := length_samples (g_header s1) + 1\<rparr>\<rparr>);
       let s3 = s2\<lparr>m_current_sample := m_current_sample s2 + 1\<rparr>;
       let s4 = emit (Ev_current_sample (m_current_sample s3)) s3;
       Some (inp, if vcr_reset_requested s4
         then submit Reset_by_user (s4\<lparr>vcr_reset_requested := False, g_reset_pending := True\<rparr>) else s4) })"

definition vcr_handle_playback ::
  "'w vcr_env \<Rightarrow> nat \<Rightarrow> u32 \<Rightarrow> 'w vcr_state \<Rightarrow> (u32 \<times> 'w vcr_state) option" where
  "vcr_handle_playback env index input s0 =
    (if g_task s0 \<noteq> task_playback then Some (input, s0)
     else
       let s = (if wait_at_movie_end (cfg s0) \<and> m_current_sample s0 = length_samples (g_header s0) - 1
                then core_vr_pause_emu s0 else s0) in
       if length_samples (g_header s) \<le>s m_current_sample s then do {
         (_, s1) \<leftarrow> core_vcr_stop_all env s;
         if is_movie_loop_enabled (cfg s1) then do {
           (_, s2) \<leftarrow> core_vcr_start_playback env (g_movie_path s1) (emit Ev_loop_movie s1);
           Some (input, s2) }
         else
           let w1 = input_set_keys env index 0 (world s1); (x, w2) = input_get_keys env index input w1
           in Some (x, s1\<lparr>world := w2\<rparr>) }
       else if controller_flags (g_header s) AND CONTROLLER_X_PRESENT index = 0 then Some (0, s)
       else
         let i = size_of_int (m_current_sample s + of_nat index) in
         if unat i < length (g_movie_inputs s) then
           let x = g_movie_inputs s ! unat i;
               s1 = s\<lparr>world := input_set_keys env index x (world s)\<rparr>;
               s2 = (if x = 0xC000 then submit Reset_by_movie (s1\<lparr>g_reset_pending := True\<rparr>) else s1);
               (y, w) = callback_input env index x (world s2);
               s3 = s2\<lparr>world := w, m_current_sample := m_current_sample s2 + 1\<rparr>
           in Some (y, emit (Ev_current_sample (m_current_sample s3)) s3)
         else None)"

definition vcr_on_controller_poll ::
  "'w vcr_env \<Rightarrow> nat \<Rightarrow> u32 \<Rightarrow> 'w vcr_state \<Rightarrow> (u32 \<times> 'w vcr_state) option" where
  "vcr_on_controller_poll env index input s =
    (if g_reset_pending s then Some (input, s)
     else if g_seek_savestate_loading s then Some (input, s)
     else if g_task s = task_idle then
       let (x, w) = input_get_keys env index input (world s); (y, w') = callback_input env index x w
       in Some (y, s\<lparr>world := w'\<rparr>)
     else do {
       s1 \<leftarrow> vcr_stop_seek_if_needed s;
       let s2 = vcr_create_seek_savestates (vcr_handle_starting_tasks s1);
       (x, s3) \<leftarrow> vcr_handle_recording env index input s2;
       vcr_handle_playback env index x s3 })"

section \<open>Completion of submitted work\<close>

text \<open>
  The closure of a seek load reads the map of savestates with \<^verbatim>\<open>operator[]\<close>, which adds an
  empty entry for a frame that has none.
\<close>

definition touch_savestate :: "u64 \<Rightarrow> 'w vcr_state \<Rightarrow> 'w vcr_state" where
  "touch_savestate key s = s\<lparr>g_seek_savestates := (if map_of (g_seek_savestates s) key = None
     then g_seek_savestates s @ [(key, [])] else g_seek_savestates s)\<rparr>"

text \<open>
  The callbacks of \<^verbatim>\<open>submit_task\<close>, \<^verbatim>\<open>core_st_do_file\<close> and \<^verbatim>\<open>core_st_do_memory\<close>, with the success of the
  work and, for a saved seek state, its buffer.
\<close>

definition stop_after :: "'w vcr_env \<Rightarrow> vcr_dialog \<Rightarrow> 'w vcr_state \<Rightarrow> 'w vcr_state option" where
  "stop_after env d s = map_option snd (core_vcr_stop_all env (emit (Ev_dialog d) s))"

fun complete :: "'w vcr_env \<Rightarrow> vcr_pending \<Rightarrow> bool \<Rightarrow> bytes \<Rightarrow> 'w vcr_state \<Rightarrow> 'w vcr_state option" where
  "complete env (Reset_for_recording _) ok buf s0 =
    (let s = s0\<lparr>g_reset_pending := False\<rparr> in
     if \<not> ok then stop_after env Reset_recording_failed s
     else Some (announce_movie (s\<lparr>m_current_sample := 0, m_current_vi := 0, g_task := task_recording\<rparr>)))"
| "complete env (Reset_for_playback _) ok buf s0 =
    (let s = s0\<lparr>g_reset_pending := False\<rparr> in
     if \<not> ok then stop_after env Reset_playback_failed s
     else Some (announce_movie (s\<lparr>m_current_sample := 0, m_current_vi := 0, g_task := task_playback\<rparr>)))"
| "complete env Reset_by_user ok buf s0 =
    (let s = s0\<lparr>g_reset_pending := False\<rparr> in Some (if \<not> ok then emit (Ev_dialog Reset_user_failed) s else s))"
| "complete env Reset_by_movie ok buf s =
    (if \<not> ok then map_option (\<lambda>t. t\<lparr>g_reset_pending := False\<rparr>) (stop_after env Reset_movie_failed s)
     else Some (s\<lparr>g_reset_pending := False\<rparr>))"
| "complete env (Save_seek_state frame) ok buf s =
    Some (if \<not> ok then emit (Ev_dialog Seek_save_failed) s
      else emit (Ev_seek_savestate frame) (s\<lparr>g_seek_savestates := AList.update frame buf (g_seek_savestates s)\<rparr>))"
| "complete env (Save_movie_state _) ok buf s =
    (if \<not> ok then stop_after env Save_state_failed s else Some (s\<lparr>g_task := task_recording\<rparr>))"
| "complete env (Load_existing_state _) ok buf s =
    (if \<not> ok then stop_after env Load_state_failed s else Some (s\<lparr>g_task := task_recording\<rparr>))"
| "complete env (Load_movie_state _) ok buf s =
    (if \<not> ok then stop_after env Load_playback_failed s
     else Some (announce_movie (s\<lparr>g_task := task_playback\<rparr>)))"
| "complete env (Load_seek_state key) ok buf s0 =
    (let s = touch_savestate key s0 in Some (if \<not> ok
      then (core_vcr_stop_seek ((emit (Ev_dialog Load_seek_failed) s)\<lparr>g_seek_savestate_loading := False\<rparr>))
             \<lparr>g_seek_savestate_loading := False\<rparr>
      else s\<lparr>g_seek_savestate_loading := False\<rparr>))"

section \<open>Seeking\<close>

definition can_seek_to :: "u64 \<Rightarrow> 'w vcr_state \<Rightarrow> bool" where
  "can_seek_to frame s \<longleftrightarrow> frame \<le> ucast (length_samples (g_header s)) \<and> frame > 0"

text \<open>\<^verbatim>\<open>std::stoi\<close>: \<^term>\<open>None\<close> is an exception.\<close>

definition is_digit :: "char \<Rightarrow> bool" where
  "is_digit c \<longleftrightarrow> 48 \<le> (of_char c :: nat) \<and> (of_char c :: nat) \<le> 57"

definition digits_value :: "string \<Rightarrow> nat" where
  "digits_value ds = foldl (\<lambda>acc c. 10 * acc + (of_char c - 48)) 0 ds"

definition stoi :: "string \<Rightarrow> int option" where
  "stoi t =
    (let (neg, t1) = strip_sign (dropWhile is_space t); ds = takeWhile is_digit t1;
         v = (if neg then - int (digits_value ds) else int (digits_value ds))
     in if ds = [] \<or> v < - (2 ^ 31) \<or> v \<ge> 2 ^ 31 then None else Some v)"

text \<open>The result \<^term>\<open>- 1\<close> is \<^verbatim>\<open>SIZE_MAX\<close>.\<close>

definition compute_sample_from_seek_string :: "string \<Rightarrow> 'w vcr_state \<Rightarrow> u64" where
  "compute_sample_from_seek_string t s =
    (case t of
       [] \<Rightarrow> - 1
     | c # cs \<Rightarrow>
         if c = CHR ''-'' \<or> c = CHR ''+'' then
           (case stoi t of None \<Rightarrow> - 1 | Some v \<Rightarrow> size_of_int (m_current_sample s + of_int v))
         else if c = CHR ''^'' then
           (case stoi cs of None \<Rightarrow> - 1 | Some v \<Rightarrow> ucast (length_samples (g_header s) - of_int v))
         else (case stoi t of None \<Rightarrow> - 1 | Some v \<Rightarrow> size_of_int (of_int v)))"

fun closest_before :: "u64 \<Rightarrow> (u64 \<times> bytes) list \<Rightarrow> u32 \<Rightarrow> u64 \<Rightarrow> u64" where
  "closest_before frame [] lowest lowest_frame = lowest_frame"
| "closest_before frame ((slot, _) # sts) lowest lowest_frame =
    (if slot \<ge> frame then closest_before frame sts lowest lowest_frame
     else if frame - slot < size_of_int lowest then closest_before frame sts (ucast (frame - slot)) slot
     else closest_before frame sts lowest lowest_frame)"

definition vcr_find_closest_savestate_before_frame :: "u64 \<Rightarrow> 'w vcr_state \<Rightarrow> u64" where
  "vcr_find_closest_savestate_before_frame frame s = closest_before frame (g_seek_savestates s) 0x7FFFFFFF 0"

definition load_seek_savestate :: "u64 \<Rightarrow> 'w vcr_state \<Rightarrow> 'w vcr_state" where
  "load_seek_savestate key s = submit (Load_seek_state key) (s\<lparr>g_seek_savestate_loading := True\<rparr>)"

definition erase_from :: "u64 \<Rightarrow> 'w vcr_state \<Rightarrow> 'w vcr_state" where
  "erase_from target s =
     fold (\<lambda>k. emit (Ev_seek_savestate k)) (filter (\<lambda>k. k \<ge> target) (map fst (g_seek_savestates s)))
       (s\<lparr>g_seek_savestates := filter (\<lambda>(k, _). \<not> k \<ge> target) (g_seek_savestates s)\<rparr>)"

definition seek_backwards ::
  "'w vcr_env \<Rightarrow> u64 \<Rightarrow> bool \<Rightarrow> 'w vcr_state \<Rightarrow> (core_result \<times> 'w vcr_state) option" where
  "seek_backwards env frame warp_modify s =
    (if g_task s = task_playback then
       if seek_savestate_interval (cfg s) \<noteq> 0 then
         let s1 = emit (Ev_readonly True) (s\<lparr>cfg := (cfg s)\<lparr>vcr_readonly := True\<rparr>\<rparr>)
         in Some (Res_Ok, load_seek_savestate (vcr_find_closest_savestate_before_frame frame s1) s1)
       else do {
         (r, s1) \<leftarrow> core_vcr_start_playback env (g_movie_path s) s;
         if r \<noteq> Res_Ok then Some (r, emit Ev_seek_status (s1\<lparr>seek_to_frame := None\<rparr>))
         else Some (Res_Ok, s1) }
     else if g_task s = task_recording then
       if seek_savestate_interval (cfg s) = 0
       then Some (VCR_SeekSavestateIntervalZero, emit (Ev_dialog Seek_interval_zero) s)
       else
         let target_sample = (if warp_modify then g_warp_modify_first_difference_frame s else frame);
             s1 = (if \<not> vcr_readonly (cfg s) then erase_from target_sample s else s)
         in Some (Res_Ok, load_seek_savestate (vcr_find_closest_savestate_before_frame target_sample s1) s1)
     else Some (Res_Ok, s))"

definition vcr_begin_seek_impl ::
  "'w vcr_env \<Rightarrow> string \<Rightarrow> bool \<Rightarrow> bool \<Rightarrow> bool \<Rightarrow> 'w vcr_state \<Rightarrow> (core_result \<times> 'w vcr_state) option" where
  "vcr_begin_seek_impl env t pause_at_end resume warp_modify s =
    (if seek_to_frame s \<noteq> None then Some (VCR_SeekAlreadyRunning, s)
     else if g_seek_savestate_loading s then Some (VCR_SeekAlreadyRunning, s)
     else if g_task s = task_idle then Some (VCR_Idle, s)
     else let frame0 = compute_sample_from_seek_string t s in
       if frame0 = - 1 \<or> \<not> can_seek_to frame0 s then Some (VCR_InvalidFrame, s)
       else if pause_at_end \<and> \<not> can_seek_to (frame0 - 1) s then Some (VCR_InvalidFrame, s)
       else
         let frame = (if pause_at_end then frame0 - 1 else frame0);
             s1 = emit Ev_seek_status (s\<lparr>seek_to_frame := Some frame, g_seek_pause_at_end := pause_at_end\<rparr>)
         in if \<not> warp_modify \<and> pause_at_end \<and> size_of_int (m_current_sample s1) = frame + 1
            then Some (Res_Ok, core_vcr_stop_seek s1)
            else let s2 = (if resume then core_vr_resume_emu s1 else s1) in
              if size_of_int (m_current_sample s2) \<le> frame then Some (Res_Ok, s2)
              else seek_backwards env frame warp_modify s2)"

definition core_vcr_begin_seek :: "'w vcr_env \<Rightarrow> string \<Rightarrow> bool \<Rightarrow> 'w vcr_state \<Rightarrow> (core_result \<times> 'w vcr_state) option" where
  "core_vcr_begin_seek env t pause_at_end s = vcr_begin_seek_impl env t pause_at_end True False s"

section \<open>Warp modification\<close>

definition core_vcr_begin_warp_modify ::
  "'w vcr_env \<Rightarrow> u32 list \<Rightarrow> 'w vcr_state \<Rightarrow> (core_result \<times> 'w vcr_state) option" where
  "core_vcr_begin_warp_modify env inputs s =
    (if g_warp_modify_active s then Some (VCR_WarpModifyAlreadyRunning, s)
     else if g_task s \<noteq> task_recording then Some (VCR_WarpModifyNeedsRecordingTask, s)
     else if inputs = [] then Some (VCR_WarpModifyEmptyInputBuffer, s)
     else case vcr_find_first_input_difference (g_movie_inputs s) inputs of
       None \<Rightarrow>
         let s1 = s\<lparr>g_warp_modify_first_difference_frame := - 1\<rparr>
         in Some (Res_Ok, emit (Ev_warp_modify False) (emit (Ev_warp_modify True) s1))
     | Some d \<Rightarrow>
         let s1 = s\<lparr>g_warp_modify_first_difference_frame := of_nat d\<rparr> in
         if of_nat d > size_of_int (m_current_sample s1) then
           let s2 = s1\<lparr>g_movie_inputs := inputs,
             g_header := (g_header s1)\<lparr>length_samples := of_nat (length inputs)\<rparr>\<rparr>
           in Some (Res_Ok, emit (Ev_warp_modify False) (emit (Ev_warp_modify True) s2))
         else do {
           let target_sample = min (of_nat (length inputs)) (size_of_int (m_current_sample s1));
           (r, s2) \<leftarrow> vcr_begin_seek_impl env (decimal (unat target_sample))
             (emu_paused s1 \<or> frame_advance_outstanding s1 \<noteq> 0) False True s1;
           if r \<noteq> Res_Ok then Some (r, s2)
           else
             let s3 = s2\<lparr>g_warp_modify_active := True, g_movie_inputs := inputs,
               g_header := (g_header s2)\<lparr>length_samples := of_nat (length inputs)\<rparr>\<rparr>
             in Some (Res_Ok, core_vr_resume_emu (emit (Ev_warp_modify True) s3)) })"

definition core_vcr_get_warp_modify_first_difference_frame :: "'w vcr_state \<Rightarrow> u64" where
  "core_vcr_get_warp_modify_first_difference_frame s =
    (if g_warp_modify_active s = g_warp_modify_active s then g_warp_modify_first_difference_frame s else - 1)"

section \<open>Vertical interrupts and queries\<close>

definition vcr_on_vi :: "'w vcr_state \<Rightarrow> 'w vcr_state" where
  "vcr_on_vi s0 =
    (let s1 = s0\<lparr>m_current_vi := m_current_vi s0 + 1\<rparr>;
         s2 = (if g_task s1 = task_recording \<and> \<not> g_warp_modify_active s1
               then s1\<lparr>g_header := (g_header s1)\<lparr>length_vis := m_current_vi s1\<rparr>\<rparr> else s1)
     in if \<not> vcr_is_playing s2 then s2
        else
          let pausing_at_last = (pause_at_last_frame (cfg s2) \<and> m_current_sample s2 = length_samples (g_header s2));
              pausing_at_n = (pause_at_frame (cfg s2) \<noteq> - 1 \<and> pause_at_frame (cfg s2) \<le>s m_current_sample s2);
              s3 = (if pausing_at_last \<or> pausing_at_n then core_vr_pause_emu s2 else s2);
              s4 = (if pausing_at_last then s3\<lparr>cfg := (cfg s3)\<lparr>pause_at_last_frame := False\<rparr>\<rparr> else s3)
          in if pausing_at_n then s4\<lparr>cfg := (cfg s4)\<lparr>pause_at_frame := - 1\<rparr>\<rparr> else s4)"

definition core_vcr_get_length_samples :: "'w vcr_state \<Rightarrow> u32" where
  "core_vcr_get_length_samples s = (if g_task s = task_idle then 0xFFFFFFFF else length_samples (g_header s))"

definition core_vcr_get_length_vis :: "'w vcr_state \<Rightarrow> u32" where
  "core_vcr_get_length_vis s = (if g_task s = task_idle then 0xFFFFFFFF else length_vis (g_header s))"

definition core_vcr_get_current_vi :: "'w vcr_state \<Rightarrow> u32" where
  "core_vcr_get_current_vi s = (if g_task s = task_idle then - 1 else m_current_vi s)"

definition core_vcr_has_seek_savestate_at_frame :: "u64 \<Rightarrow> 'w vcr_state \<Rightarrow> bool" where
  "core_vcr_has_seek_savestate_at_frame frame s \<longleftrightarrow> map_of (g_seek_savestates s) frame \<noteq> None"

definition core_vcr_get_seek_savestate_frames :: "'w vcr_state \<Rightarrow> u64 list" where
  "core_vcr_get_seek_savestate_frames s = map fst (g_seek_savestates s)"

end
