(* ===== verification/Vcr_Invariant.thy ===== *)
theory Vcr_Invariant
  imports Vcr
begin

text \<open>
  The invariant of the movie engine.  The operations of the engine, among them the completion
  of the work it submits, form a step function; the invariant ties the header to the input
  buffer and holds after every sequence of steps.  The operations within a poll are
  described by what they leave alone.
\<close>

section \<open>Operations that leave the movie alone\<close>

definition same_movie :: "'w vcr_state \<Rightarrow> 'w vcr_state \<Rightarrow> bool" where
  "same_movie s s' \<longleftrightarrow> g_header s' = g_header s \<and> g_movie_inputs s' = g_movie_inputs s"

lemma same_movie_refl [simp]: "same_movie s s"
  by (simp add: same_movie_def)

lemma same_movie_trans: "same_movie s t \<Longrightarrow> same_movie t u \<Longrightarrow> same_movie s u"
  by (simp add: same_movie_def)

text \<open>The operations that start and stop movies also leave the gates of the polls alone.\<close>

definition same_core :: "'w vcr_state \<Rightarrow> 'w vcr_state \<Rightarrow> bool" where
  "same_core s s' \<longleftrightarrow> same_movie s s' \<and> g_reset_pending s' = g_reset_pending s \<and>
     g_seek_savestate_loading s' = g_seek_savestate_loading s \<and> seek_to_frame s' = seek_to_frame s"

lemma same_core_movie: "same_core s s' \<Longrightarrow> same_movie s s'"
  by (simp add: same_core_def)

lemma same_core_refl [simp]: "same_core s s"
  by (simp add: same_core_def)

lemma same_core_trans: "same_core s t \<Longrightarrow> same_core t u \<Longrightarrow> same_core s u"
  by (auto simp: same_core_def same_movie_def)

lemmas core_defs = same_core_def same_movie_def

lemma emit_fields [simp]:
  "g_header (emit e s) = g_header s" "g_movie_inputs (emit e s) = g_movie_inputs s" "g_task (emit e s) = g_task s"
  "seek_to_frame (emit e s) = seek_to_frame s" "m_current_sample (emit e s) = m_current_sample s" "cfg (emit e s) = cfg s"
  "world (emit e s) = world s" "vcr_cheats (emit e s) = vcr_cheats s" "vcr_files (emit e s) = vcr_files s"
  "g_movie_path (emit e s) = g_movie_path s" "controls (emit e s) = controls s" "vcr_tasks (emit e s) = vcr_tasks s"
  "g_seek_pause_at_end (emit e s) = g_seek_pause_at_end s" "g_warp_modify_active (emit e s) = g_warp_modify_active s"
  "g_reset_pending (emit e s) = g_reset_pending s" "g_seek_savestates (emit e s) = g_seek_savestates s"
  "g_seek_savestate_loading (emit e s) = g_seek_savestate_loading s" "m_current_vi (emit e s) = m_current_vi s"
  "vcr_reset_requested (emit e s) = vcr_reset_requested s" "emu_paused (emit e s) = emu_paused s"
  "emu_launched (emit e s) = emu_launched s" "frame_advance_outstanding (emit e s) = frame_advance_outstanding s"
  "g_warp_modify_first_difference_frame (emit e s) = g_warp_modify_first_difference_frame s"
  by (simp_all add: emit_def)

lemma submit_fields [simp]:
  "g_header (submit e s) = g_header s" "g_movie_inputs (submit e s) = g_movie_inputs s" "g_task (submit e s) = g_task s"
  "seek_to_frame (submit e s) = seek_to_frame s" "m_current_sample (submit e s) = m_current_sample s" "cfg (submit e s) = cfg s"
  "world (submit e s) = world s" "vcr_cheats (submit e s) = vcr_cheats s" "vcr_files (submit e s) = vcr_files s"
  "g_movie_path (submit e s) = g_movie_path s" "controls (submit e s) = controls s"
  "g_reset_pending (submit e s) = g_reset_pending s" "g_warp_modify_active (submit e s) = g_warp_modify_active s"
  "g_seek_savestate_loading (submit e s) = g_seek_savestate_loading s" "vcr_reset_requested (submit e s) = vcr_reset_requested s"
  "g_seek_savestates (submit e s) = g_seek_savestates s" "vcr_tasks (submit e s) = vcr_tasks s @ [e]"
  by (simp_all add: submit_def)

lemma fold_emit_fields [simp]:
  "g_header (fold (\<lambda>k. emit (f k)) ks s) = g_header s" "g_movie_inputs (fold (\<lambda>k. emit (f k)) ks s) = g_movie_inputs s"
  "g_task (fold (\<lambda>k. emit (f k)) ks s) = g_task s" "cfg (fold (\<lambda>k. emit (f k)) ks s) = cfg s"
  "world (fold (\<lambda>k. emit (f k)) ks s) = world s" "vcr_cheats (fold (\<lambda>k. emit (f k)) ks s) = vcr_cheats s"
  "vcr_files (fold (\<lambda>k. emit (f k)) ks s) = vcr_files s" "controls (fold (\<lambda>k. emit (f k)) ks s) = controls s"
  "g_movie_path (fold (\<lambda>k. emit (f k)) ks s) = g_movie_path s" "seek_to_frame (fold (\<lambda>k. emit (f k)) ks s) = seek_to_frame s"
  "g_seek_savestates (fold (\<lambda>k. emit (f k)) ks s) = g_seek_savestates s"
  "g_reset_pending (fold (\<lambda>k. emit (f k)) ks s) = g_reset_pending s"
  "g_seek_savestate_loading (fold (\<lambda>k. emit (f k)) ks s) = g_seek_savestate_loading s"
  "vcr_reset_requested (fold (\<lambda>k. emit (f k)) ks s) = vcr_reset_requested s"
  "g_warp_modify_active (fold (\<lambda>k. emit (f k)) ks s) = g_warp_modify_active s"
  by (induction ks arbitrary: s) simp_all

lemma pause_movie [simp]: "same_movie s (core_vr_pause_emu s)"
  by (simp add: core_vr_pause_emu_def same_movie_def Let_def)

lemma resume_movie [simp]: "same_movie s (core_vr_resume_emu s)"
  by (simp add: core_vr_resume_emu_def core_vr_resume_emu_impl_def same_movie_def Let_def)

lemma stop_seek_movie [simp]: "same_movie s (core_vcr_stop_seek s)"
  by (simp add: core_vcr_stop_seek_def same_movie_def Let_def)

lemmas gate_movie [simp] = pause_movie [unfolded same_movie_def] resume_movie [unfolded same_movie_def]
  stop_seek_movie [unfolded same_movie_def]

lemma stop_seek_if_needed_movie: "vcr_stop_seek_if_needed s = Some s' \<Longrightarrow> same_movie s s'"
  by (auto simp: vcr_stop_seek_if_needed_def same_movie_def Let_def split: option.splits if_splits)

lemma write_movie_core: "write_movie env s = Some (b, s') \<Longrightarrow> same_core s s'"
  by (auto simp: write_movie_def core_defs split: if_splits)

lemma write_backup_movie: "write_backup_impl env s = Some (b, s') \<Longrightarrow> same_movie s s'"
  by (auto simp: write_backup_impl_def same_movie_def)

lemma clear_seek_savestates_core [simp]: "same_core s (vcr_clear_seek_savestates s)"
  by (simp add: vcr_clear_seek_savestates_def core_defs)

lemma stop_record_core: "vcr_stop_record env s = Some (r, s') \<Longrightarrow> same_core s s'"
  by (auto simp: vcr_stop_record_def Let_def bind_rules core_defs split: if_splits
      dest!: write_movie_core)

lemma stop_playback_core: "vcr_stop_playback s = Some (r, s') \<Longrightarrow> same_core s s'"
  by (auto simp: vcr_stop_playback_def Let_def bind_rules core_defs split: if_splits)

lemma stop_all_core: "core_vcr_stop_all env s = Some (r, s') \<Longrightarrow> same_core s s'"
  using clear_seek_savestates_core [of s]
  by (auto simp: core_vcr_stop_all_def setkeys_with_zero_def Let_def core_defs split: if_splits
      dest!: stop_record_core stop_playback_core)

text \<open>Questions and notices change nothing but the world and the events.\<close>

definition asked :: "'w vcr_state \<Rightarrow> 'w vcr_state \<Rightarrow> bool" where
  "asked s s' \<longleftrightarrow> (\<exists>w es. s' = s\<lparr>world := w, vcr_events := es\<rparr>)"

lemma askedI: "s' = s\<lparr>world := w, vcr_events := es\<rparr> \<Longrightarrow> asked s s'"
  unfolding asked_def by (intro exI)

lemma asked_trans:
  assumes "asked s t" "asked t u"
  shows "asked s u"
proof -
  obtain w es where "u = t\<lparr>world := w, vcr_events := es\<rparr>" using assms(2) unfolding asked_def by (elim exE)
  then have "u = s\<lparr>world := w, vcr_events := es\<rparr>" using assms(1) by (auto simp: asked_def)
  then show ?thesis by (rule askedI)
qed

lemma asked_world [simp]: "asked s (s\<lparr>world := w\<rparr>)"
  by (rule askedI [where es = "vcr_events s"]) simp

lemma asked_refl [simp]: "asked s s"
  by (rule askedI [where w = "world s" and es = "vcr_events s"]) simp

lemma asked_emit [simp]: "asked s (emit e s)"
  by (rule askedI [where w = "world s" and es = "vcr_events s @ [e]"]) (simp add: emit_def)

lemma asked_fold_emit [simp]: "asked s (fold (\<lambda>k. emit (f k)) ks s)"
proof (induction ks arbitrary: s)
  case (Cons k ks)
  then show ?case using asked_trans [OF asked_emit] by simp blast
qed simp

lemma asked_core: "asked s s' \<Longrightarrow> same_core s s'"
  by (auto simp: asked_def core_defs)

lemma asked_fields:
  "asked s s' \<Longrightarrow> g_task s' = g_task s \<and> vcr_files s' = vcr_files s \<and> controls s' = controls s \<and> vcr_cheats s' = vcr_cheats s"
  by (auto simp: asked_def)

lemma ask_rawdata_asked: "ask_rawdata env s = (b, s') \<Longrightarrow> asked s s'"
  by (auto simp: ask_rawdata_def split: prod.splits if_splits)

lemma ask_user_asked: "ask_user env d s = (b, s') \<Longrightarrow> asked s s'"
  by (auto simp: ask_user_def split: prod.splits)

lemma controller_warnings_asked: "show_controller_warnings is h s = (b, s') \<Longrightarrow> asked s s'"
proof (induction "is" h s rule: show_controller_warnings.induct)
  case (2 i "is" h s)
  then show ?case
    by (auto simp: Let_def split: prod.splits if_splits intro: asked_trans [OF asked_fold_emit])
qed simp

lemma create_seek_savestates_movie [simp]: "same_movie s (vcr_create_seek_savestates s)"
  by (auto simp: vcr_create_seek_savestates_def vcr_create_n_frame_savestate_def purge_oldest_def same_movie_def Let_def
      split: option.split prod.split)

lemma handle_starting_movie [simp]: "same_movie s (vcr_handle_starting_tasks s)"
  by (simp add: vcr_handle_starting_tasks_def same_movie_def Let_def)

definition wiivc_check :: "'w vcr_env \<Rightarrow> movie_header \<Rightarrow> 'w vcr_state \<Rightarrow> bool \<times> 'w vcr_state" where
  "wiivc_check env h s = (if extended_version h \<noteq> 0
     then ask_if (wii_vc_emulation (cfg s) \<noteq> (if bit (extended_flags h) 0 then 1 else 0)) env Wiivc_warning s
     else (True, if extended_flags h \<noteq> 0 then emit (Ev_dialog Old_extended_nonzero) s else s))"

lemma wiivc_check_asked: "wiivc_check env h s = (b, s') \<Longrightarrow> asked s s'"
  by (auto simp: wiivc_check_def ask_if_def split: if_splits dest: ask_user_asked)

lemma playback_checks_steps:
  assumes "ask_rawdata env s = (ok1, s1)" "show_controller_warning h s1 = (ok2, s2)" "wiivc_check env h s2 = (ok3, s3)"
  shows "playback_checks env h s = (if \<not> ok1 then Some (Res_Cancelled, s1)
      else if \<not> ok2 then Some (VCR_InvalidControllers, s2) else if \<not> ok3 then Some (Res_Cancelled, s3)
      else Option.bind (rom_mismatch_dialog h (rom_info env)) (\<lambda>d.
        case (case d of None \<Rightarrow> (True, s3) | Some q \<Rightarrow> ask_user env q s3) of (ok4, s4) \<Rightarrow>
          Some (if ok4 then Res_Ok else Res_Cancelled, s4)))"
  by (simp only: playback_checks_def Let_def assms [unfolded wiivc_check_def] prod.case)

lemma playback_checks_asked:
  assumes "playback_checks env h s = Some (r, s')"
  shows "asked s s'"
proof -
  obtain ok1 s1 where 1: "ask_rawdata env s = (ok1, s1)" by fastforce
  obtain ok2 s2 where 2: "show_controller_warning h s1 = (ok2, s2)" by fastforce
  obtain ok3 s3 where 3: "wiivc_check env h s2 = (ok3, s3)" by fastforce
  have m: "asked s s1" "asked s s2" "asked s s3"
    using ask_rawdata_asked [OF 1] controller_warnings_asked [OF 2 [unfolded show_controller_warning_def]] wiivc_check_asked [OF 3]
    by (blast intro: asked_trans)+
  consider "s' \<in> {s1, s2, s3}" | q b where "ask_user env q s3 = (b, s')"
    using assms unfolding playback_checks_steps [OF 1 2 3]
    by (auto elim!: bind_SomeE split: if_split_asm option.split_asm prod.split_asm)
  then show ?thesis
    using m by cases (auto dest: ask_user_asked intro: asked_trans)
qed

lemma push_cheats_core: "push_movie_cheats env p s = Some (b, s') \<Longrightarrow> same_core s s'"
  by (auto simp: push_movie_cheats_def core_defs split: option.splits sum.splits bool.splits prod.splits
      dest!: ask_user_asked [THEN asked_core])

lemmas write_movie_movie = write_movie_core [THEN same_core_movie]
lemmas stop_all_movie = stop_all_core [THEN same_core_movie]
lemmas ask_rawdata_movie = ask_rawdata_asked [THEN asked_core, THEN same_core_movie]
lemmas playback_checks_movie = playback_checks_asked [THEN asked_core, THEN same_core_movie]
lemmas push_cheats_movie = push_cheats_core [THEN same_core_movie]

section \<open>The invariant\<close>

definition vcr_inv :: "'w vcr_state \<Rightarrow> bool" where
  "vcr_inv s \<longleftrightarrow> header_wf (g_header s) \<and> length_samples (g_header s) = of_nat (length (g_movie_inputs s))"

lemma vcr_inv_same: "same_movie s s' \<Longrightarrow> vcr_inv s' = vcr_inv s"
  by (simp add: same_movie_def vcr_inv_def)

text \<open>Plugin names fill their fields.\<close>

definition env_wf :: "'w vcr_env \<Rightarrow> bool" where
  "env_wf env \<longleftrightarrow> (case get_plugin_names env of (v, a, i, r) \<Rightarrow>
     length v = 64 \<and> length a = 64 \<and> length i = 64 \<and> length r = 64)"

lemma set_controller_wf:
  "header_wf (set_controller ctl i h) = header_wf h" "length_samples (set_controller ctl i h) = length_samples h"
  by (simp_all add: set_controller_def header_wf_def Let_def)

lemma fold_set_controller_wf:
  "header_wf (fold (set_controller ctl) is h) = header_wf h"
  "length_samples (fold (set_controller ctl) is h) = length_samples h"
  by (induction "is" arbitrary: h) (simp_all add: set_controller_wf)

lemma strncpy_s_length: "strncpy_s d src n = Some d' \<Longrightarrow> length d' = length d"
  by (auto simp: strncpy_s_def bwrite_def split: if_splits)

lemma set_rom_info_wf:
  assumes "env_wf env" "header_wf h" "set_rom_info env ctl h = Some h'"
  shows "header_wf h'" "length_samples h' = length_samples h"
proof -
  let ?h = "fold (set_controller ctl) [0..<4] (h\<lparr>vis_per_second := ucast (core_vr_get_vis_per_second (Country_code (rom_info env))),
      controller_flags := 0, num_controllers := 0\<rparr>)"
  have w: "header_wf ?h" "length_samples ?h = length_samples h"
    using assms(2) by (simp_all only: fold_set_controller_wf) (simp_all add: header_wf_def)
  obtain v a i r where p: "get_plugin_names env = (v, a, i, r)" using prod_cases4 by blast
  obtain n where n: "strncpy_s (rom_name ?h) (nom (rom_info env)) 32 = Some n"
    and h': "h' = ?h\<lparr>rom_name := n, rom_crc1 := CRC1 (rom_info env), rom_country := Country_code (rom_info env),
        video_plugin_name := v, audio_plugin_name := a, input_plugin_name := i, rsp_plugin_name := r\<rparr>"
    using assms(3) by (auto simp only: set_rom_info_def Let_def bind_rules option.inject p prod.case)
  show "length_samples h' = length_samples h" using w by (simp add: h')
  show "header_wf h'" using w(1) strncpy_s_length [OF n] assms(1) by (simp add: h' p header_wf_def env_wf_def)
qed

lemma rerecord_wf [simp]: "header_wf (set_rerecord_count v h) = header_wf h"
  "length_samples (set_rerecord_count v h) = length_samples h"
  by (simp_all add: set_rerecord_count_def header_wf_def)

lemma zero_header_wf: "header_wf zero_header"
  by (simp add: zero_header_def header_of_bytes_wf)

lemma new_movie_header_wf [simp]:
  "header_wf (new_movie_header env fl s)" "length_samples (new_movie_header env fl s) = 0"
  using zero_header_wf by (simp_all add: new_movie_header_def header_wf_def set_rerecord_count_def)

lemma announce_movie_movie [simp]: "same_movie s (announce_movie s)"
  by (simp add: announce_movie_def same_movie_def)

subsection \<open>Each operation keeps the invariant\<close>

lemma finish_start_record_inv:
  assumes "env_wf env" "vcr_inv s" "finish_start_record env auth descr s = Some (r, s')"
  shows "vcr_inv s'"
proof -
  obtain h a d where h: "set_rom_info env (controls s) (g_header s) = Some h"
    and a: "set_text 222 auth = Some a" and d: "set_text 256 descr = Some d"
    and s': "g_header s' = h\<lparr>author := a, description := d\<rparr>" "g_movie_inputs s' = g_movie_inputs s"
    using assms(3) by (auto simp: finish_start_record_def Let_def bind_rules)
  have "length a = 222" "length d = 256" using a d by (auto simp: set_text_def dest!: strncpy_s_length)
  with set_rom_info_wf [OF assms(1) _ h] assms(2) s' show ?thesis
    by (simp add: vcr_inv_def header_wf_def)
qed

lemma write_cheats_movie: "write_movie_cheats env p s = Some s' \<Longrightarrow> same_movie s s'"
  by (auto simp: write_movie_cheats_def Let_def same_movie_def split: if_splits)

lemma start_record_inv:
  assumes "env_wf env" "vcr_inv s" "core_vcr_start_record env p fl auth descr s = Some (r, s')"
  shows "vcr_inv s'"
proof (cases "write_movie_cheats env p s")
  case None
  then show ?thesis using assms(2,3) by (simp add: core_vcr_start_record_def Let_def split: if_splits)
next
  case (Some s1)
  have inv1: "vcr_inv s1" using vcr_inv_same [OF write_cheats_movie [OF Some]] assms(2) by simp
  show ?thesis
  proof (cases "core_vcr_stop_all env s1")
    case None
    then show ?thesis using assms(2,3) Some by (simp add: core_vcr_start_record_def Let_def split: if_splits)
  next
    case stop: (Some x)
    obtain r2 s2 where x: "x = (r2, s2)" by fastforce
    obtain ok s3 where ask: "ask_rawdata env (s2\<lparr>g_movie_path := p\<rparr>) = (ok, s3)" by fastforce
    have "same_movie s1 s3"
      using stop_all_movie [OF stop [unfolded x]] ask_rawdata_movie [OF ask] by (simp add: same_movie_def)
    then have inv3: "vcr_inv s3" using inv1 vcr_inv_same by blast
    define s4 where "s4 = emit (Ev_readonly False) (s3\<lparr>cfg := (cfg s3)\<lparr>vcr_readonly := False\<rparr>\<rparr>)"
    define s5 where "s5 = s4\<lparr>g_movie_inputs := [], g_header := new_movie_header env fl s4\<rparr>"
    define au where "au = (if auth = [] then text_bytes ''(no author)'' else auth)"
    define de where "de = (if descr = [] then text_bytes ''(no description)'' else descr)"
    have eq: "core_vcr_start_record env p fl auth descr s =
      (if fl \<notin> {1, 2, 4, 8} then Some (VCR_InvalidStartType, s)
       else if \<not> ok then Some (Res_Cancelled, s3)
       else if fl AND 1 \<noteq> 0 then finish_start_record env au de
           (submit (Save_movie_state (get_path_for_new_movie p ''.st'')) (s5\<lparr>g_task := task_start_recording_from_snapshot\<rparr>))
       else if fl AND 8 \<noteq> 0 then
           (case find_accompanying_file_for_movie (vcr_files s5) p [''.st'', ''.savestate''] of
              None \<Rightarrow> Some (VCR_InvalidSavestate, s5)
            | Some st \<Rightarrow> finish_start_record env au de (submit (Load_existing_state st)
                (s5\<lparr>g_header := (g_header s5)\<lparr>startFlags := 1\<rparr>, g_task := task_start_recording_from_existing_snapshot\<rparr>)))
       else finish_start_record env au de (s5\<lparr>g_task := task_start_recording_from_reset\<rparr>))"
      by (simp only: core_vcr_start_record_def Let_def Some stop x ask option.case prod.case Option.bind.simps
          s4_def s5_def au_def de_def)
    have inv5: "vcr_inv s5" by (simp add: vcr_inv_def s5_def)
    consider "s' \<in> {s, s3, s5}" | t where "finish_start_record env au de t = Some (r, s')" "vcr_inv t"
      using assms(3) inv5 unfolding eq
      by (simp add: vcr_inv_def header_wf_def split: if_split_asm option.split_asm)
    then show ?thesis
      using assms(2) inv3 inv5 finish_start_record_inv [OF assms(1)] by cases auto
  qed
qed

lemma read_movie_header_wf: "read_movie_header b = Some (Inr h) \<Longrightarrow> header_wf h"
  by (cases rule: read_movie_header_cases [of b]) auto

lemma read_inputs_length: "read_inputs b n = Some xs \<Longrightarrow> length xs = n"
  by (auto simp: read_inputs_def)

lemma begin_playback_inv:
  assumes "header_wf h" "length inputs = unat (length_samples h)" "begin_playback env p h inputs s = Some (r, s')"
  shows "vcr_inv s'"
  using assms by (auto simp: begin_playback_def Let_def bind_rules vcr_inv_def announce_movie_def split: if_splits option.splits)

lemma start_playback_inv:
  assumes "vcr_inv s" "core_vcr_start_playback env p s = Some (r, s')"
  shows "vcr_inv s'"
proof -
  obtain st s1 where start: "(if core_executing env (world s) then (Res_Ok, s)
             else case core_vr_start_rom env p (world s) of (r, w) \<Rightarrow> (r, s\<lparr>world := w\<rparr>)) = (st, s1)" by fastforce
  then have inv1: "vcr_inv s1" using assms(1) by (auto simp: vcr_inv_def split: if_splits prod.splits)
  have eq: "core_vcr_start_playback env p s = (let movie_buf = read_file_buffer (vcr_files s) p in
     if movie_buf = [] then Some (VCR_BadFile, s)
     else if st \<noteq> Res_Ok then Some (st, s1)
     else do {
         r \<leftarrow> read_movie_header movie_buf;
         case r of
           Inl e \<Rightarrow> Some (e, s1)
         | Inr h \<Rightarrow> do {
             inputs \<leftarrow> read_inputs movie_buf (unat (length_samples h));
             (res, s2) \<leftarrow> playback_checks env h s1;
             if res \<noteq> Res_Ok then Some (res, s2)
             else do {
               (ok, s3) \<leftarrow> push_movie_cheats env p s2;
               if \<not> ok then Some (Res_Cancelled, s3)
               else begin_playback env p h inputs s3 } } })"
    by (simp only: core_vcr_start_playback_def Let_def start prod.case)
  show ?thesis
    using assms inv1 unfolding eq Let_def
    by (auto elim!: bind_SomeE split: if_split_asm sum.split_asm prod.split_asm
        dest!: vcr_inv_same [OF playback_checks_movie] vcr_inv_same [OF push_cheats_movie])
      (blast intro: begin_playback_inv read_movie_header_wf read_inputs_length)
qed

lemma unfreeze_recording_inv:
  assumes "env_wf env" "vcr_inv s" "unfreeze_recording env fr lt s = Some s'"
  shows "vcr_inv s'"
proof -
  define s1 where "s1 = announce_movie (s\<lparr>g_task := task_recording\<rparr>)"
  have inv1: "vcr_inv s1" using assms(2) by (simp add: s1_def vcr_inv_def announce_movie_def)
  obtain h where h: "(if lt = task_playback then set_rom_info env (controls s1) (g_header s1) else Some (g_header s1)) = Some h"
    using assms(3) unfolding unfreeze_recording_def Let_def s1_def by (auto elim!: bind_SomeE)
  have wf: "header_wf h" "length_samples h = of_nat (length (g_movie_inputs s1))"
    using h inv1 set_rom_info_wf [OF assms(1)] by (auto simp: vcr_inv_def split: if_splits)
  define h' where "h' = set_rerecord_count (get_rerecord_count h + 1) h"
  define s2 where "s2 = emit (Ev_rerecords (get_rerecord_count h'))
       (s1\<lparr>g_header := h', cfg := (cfg s1)\<lparr>total_rerecords := total_rerecords (cfg s1) + 1\<rparr>\<rparr>)"
  define s3 where "s3 = s2\<lparr>g_header := (g_header s2)\<lparr>length_samples := frz_current_sample fr\<rparr>\<rparr>"
  have inv2: "vcr_inv s2" and wf3: "header_wf (g_header s3)" "length_samples (g_header s3) = frz_current_sample fr"
    using wf by (simp_all add: s2_def s3_def h'_def vcr_inv_def header_wf_def set_rerecord_count_def)
  have "(if g_warp_modify_active s2 then Some s2 else do {
       s4 \<leftarrow> (if vcr_backups (cfg s3) then map_option snd (write_backup_impl env s3) else Some s3);
       if unat (frz_current_sample fr) > length (frz_input_buffer fr) then None
       else map_option snd (write_movie env (s4\<lparr>g_movie_inputs := take (unat (frz_current_sample fr)) (frz_input_buffer fr)\<rparr>)) })
     = Some s'"
    using assms(3) unfolding unfreeze_recording_def Let_def s1_def [symmetric] h Option.bind.simps
      h'_def [symmetric] s2_def [symmetric] s3_def [symmetric] .
  then consider "s' = s2" | s4 b where "same_movie s3 s4" "unat (frz_current_sample fr) \<le> length (frz_input_buffer fr)"
      "write_movie env (s4\<lparr>g_movie_inputs := take (unat (frz_current_sample fr)) (frz_input_buffer fr)\<rparr>) = Some (b, s')"
    by (auto elim!: bind_SomeE split: if_split_asm dest!: write_backup_movie intro: same_movie_refl simp: not_less)
  then show ?thesis
    using inv2 wf3 by cases (auto simp: vcr_inv_def same_movie_def dest!: write_movie_movie)
qed

lemma unfreeze_inv:
  assumes "env_wf env" "vcr_inv s" "core_vcr_unfreeze env fr s = Some (r, s')"
  shows "vcr_inv s'"
proof -
  define s1 where "s1 = s\<lparr>m_current_sample := frz_current_sample fr, m_current_vi := frz_current_vi fr\<rparr>"
  have "vcr_inv s1" using assms(2) by (simp add: s1_def vcr_inv_def)
  then have rec: "unfreeze_recording env fr t s1 = Some s2 \<Longrightarrow> vcr_inv s2" for t s2
    by (rule unfreeze_recording_inv [OF assms(1)])
  have wr: "write_movie env s1 = Some (b, t) \<Longrightarrow> vcr_inv (announce_movie (t\<lparr>g_task := task_playback\<rparr>))" for b t
    using \<open>vcr_inv s1\<close> by (auto simp: vcr_inv_def announce_movie_def same_movie_def dest!: write_movie_movie)
  have fin: "vcr_inv (emit Ev_unfreeze_completed (emit Ev_frame t)) = vcr_inv t" for t :: "'a vcr_state"
    by (simp add: vcr_inv_def)
  have em: "vcr_inv (emit (Ev_current_sample x) s1)" for x using \<open>vcr_inv s1\<close> by (simp add: vcr_inv_def)
  show ?thesis
    using assms(2,3) unfolding core_vcr_unfreeze_def Let_def s1_def [symmetric]
    by (auto elim!: bind_SomeE split: if_split_asm simp: fin em dest: rec wr)
qed

lemma handle_recording_inv:
  assumes "vcr_inv s" "vcr_handle_recording env index input s = Some (x, s')"
  shows "vcr_inv s'"
  using assms unfolding vcr_handle_recording_def Let_def
  by (auto elim!: bind_SomeE split: if_split_asm prod.split_asm simp: vcr_inv_def header_wf_def)

lemma handle_playback_inv:
  assumes "vcr_inv s" "vcr_handle_playback env index input s = Some (x, s')"
  shows "vcr_inv s'"
proof -
  define t where "t = (if wait_at_movie_end (cfg s) \<and> m_current_sample s = length_samples (g_header s) - 1
                then core_vr_pause_emu s else s)"
  have inv: "vcr_inv t" using assms(1) by (simp add: t_def vcr_inv_def)
  have stop: "core_vcr_stop_all env t = Some (r, u) \<Longrightarrow> vcr_inv u" for r u
    using vcr_inv_same [OF stop_all_movie] inv by blast
  have loop: "core_vcr_start_playback env q (emit e u) = Some (r, v) \<Longrightarrow> vcr_inv u \<Longrightarrow> vcr_inv v" for q e u r v
    using start_playback_inv [of "emit e u"] by (simp add: vcr_inv_def)
  show ?thesis
    using assms unfolding vcr_handle_playback_def Let_def t_def [symmetric]
    by (auto elim!: bind_SomeE split: if_split_asm prod.split_asm dest!: stop loop) (use inv in \<open>simp_all add: vcr_inv_def\<close>)
qed

lemma poll_inv:
  assumes "vcr_inv s" "vcr_on_controller_poll env index input s = Some (x, s')"
  shows "vcr_inv s'"
proof -
  have pre: "vcr_inv (vcr_create_seek_savestates (vcr_handle_starting_tasks t))" if "vcr_stop_seek_if_needed s = Some t" for t
    using assms(1) stop_seek_if_needed_movie [OF that]
    by (simp add: vcr_inv_same [OF create_seek_savestates_movie] vcr_inv_same [OF handle_starting_movie] vcr_inv_same)
  show ?thesis
    using assms unfolding vcr_on_controller_poll_def Let_def
    by (auto elim!: bind_SomeE split: if_split_asm prod.split_asm dest!: pre
        dest: handle_recording_inv handle_playback_inv) (simp_all add: vcr_inv_def)
qed

lemma stop_after_inv: "vcr_inv s \<Longrightarrow> stop_after env d s = Some s' \<Longrightarrow> vcr_inv s'"
  by (auto simp: stop_after_def same_movie_def vcr_inv_def dest!: stop_all_movie)

lemma complete_inv:
  assumes "vcr_inv s" "complete env t ok buf s = Some s'"
  shows "vcr_inv s'"
proof -
  have reset: "vcr_inv (s\<lparr>g_reset_pending := b\<rparr>)" for b using assms(1) by (simp add: vcr_inv_def)
  consider "same_movie s s'" | d where "stop_after env d (s\<lparr>g_reset_pending := False\<rparr>) = Some s'"
    | d u where "stop_after env d s = Some u" "same_movie u s'"
    using assms(2)
    by (cases t) (auto simp: same_movie_def Let_def touch_savestate_def announce_movie_def split: if_split_asm)
  then show ?thesis
    using assms(1) stop_after_inv [OF reset] stop_after_inv [OF assms(1)] vcr_inv_same by cases blast+
qed

lemma seek_backwards_inv:
  assumes "vcr_inv s" "seek_backwards env frame wm s = Some (r, s')"
  shows "vcr_inv s'"
  using assms unfolding seek_backwards_def Let_def load_seek_savestate_def erase_from_def
  by (auto elim!: bind_SomeE split: if_split_asm prod.split_asm dest!: start_playback_inv [OF assms(1)])
    (simp_all add: vcr_inv_def)

lemma begin_seek_inv:
  assumes "vcr_inv s" "vcr_begin_seek_impl env t pause resume wm s = Some (r, s')"
  shows "vcr_inv s'"
proof -
  define frame where "frame = (if pause then compute_sample_from_seek_string t s - 1 else compute_sample_from_seek_string t s)"
  define s1 where "s1 = emit Ev_seek_status (s\<lparr>seek_to_frame := Some frame, g_seek_pause_at_end := pause\<rparr>)"
  define s2 where "s2 = (if resume then core_vr_resume_emu s1 else s1)"
  have inv: "vcr_inv s2" "vcr_inv (core_vcr_stop_seek s1)" using assms(1) by (simp_all add: s1_def s2_def vcr_inv_def)
  show ?thesis
    using assms inv seek_backwards_inv [OF inv(1)]
    unfolding vcr_begin_seek_impl_def Let_def frame_def [symmetric] s1_def [symmetric] s2_def [symmetric]
    by (auto split: if_split_asm)
qed

lemma warp_modify_inv:
  assumes "vcr_inv s" "core_vcr_begin_warp_modify env inputs s = Some (r, s')"
  shows "vcr_inv s'"
proof -
  have inv: "vcr_inv (s\<lparr>g_warp_modify_first_difference_frame := d\<rparr>)" for d using assms(1) by (simp add: vcr_inv_def)
  show ?thesis
    using assms unfolding core_vcr_begin_warp_modify_def Let_def
    by (auto elim!: bind_SomeE split: if_split_asm option.split_asm prod.split_asm dest!: begin_seek_inv [OF inv])
      (simp_all add: vcr_inv_def header_wf_def)
qed

lemma on_vi_inv: "vcr_inv s \<Longrightarrow> vcr_inv (vcr_on_vi s)"
  by (simp add: vcr_on_vi_def vcr_inv_def header_wf_def Let_def)

lemma freeze_inv: "vcr_inv s \<Longrightarrow> core_vcr_freeze env s = Some (fr, s') \<Longrightarrow> vcr_inv s'"
  unfolding core_vcr_freeze_def Let_def
  by (auto elim!: bind_SomeE split: if_split_asm prod.split_asm dest!: write_movie_movie simp: vcr_inv_same)

section \<open>Sequences of operations\<close>

text \<open>
  What the emulation thread, the user interface and the completions of submitted work call.
  \<^verbatim>\<open>Set_controls\<close> and \<^verbatim>\<open>Set_cfg\<close> are changes of the controllers and of the configuration by the
  user interface, \<^verbatim>\<open>Request_reset\<close> is the flag that \<^verbatim>\<open>core_vr_reset_rom\<close> sets while a movie is recorded.
\<close>

datatype vcr_op =
    Poll nat u32 | Vi | Complete vcr_pending bool bytes | Stop_all | Stop_seek
  | Start_record mpath u16 bytes bytes | Start_playback mpath | Freeze | Unfreeze freeze_info
  | Begin_seek string bool | Begin_warp_modify "u32 list" | Write_backup | Frame_advance u64 | Pause | Resume
  | Request_reset | Set_cfg vcr_cfg | Set_controls "nat \<Rightarrow> control"

fun vcr_step :: "'w vcr_env \<Rightarrow> vcr_op \<Rightarrow> 'w vcr_state \<Rightarrow> 'w vcr_state option" where
  "vcr_step env (Poll i x) s = map_option snd (vcr_on_controller_poll env i x s)"
| "vcr_step env Vi s = Some (vcr_on_vi s)"
| "vcr_step env (Complete t ok b) s = complete env t ok b s"
| "vcr_step env Stop_all s = map_option snd (core_vcr_stop_all env s)"
| "vcr_step env Stop_seek s = Some (core_vcr_stop_seek s)"
| "vcr_step env (Start_record p fl a d) s = map_option snd (core_vcr_start_record env p fl a d s)"
| "vcr_step env (Start_playback p) s = map_option snd (core_vcr_start_playback env p s)"
| "vcr_step env Freeze s = map_option snd (core_vcr_freeze env s)"
| "vcr_step env (Unfreeze fr) s = map_option snd (core_vcr_unfreeze env fr s)"
| "vcr_step env (Begin_seek t pause) s = map_option snd (core_vcr_begin_seek env t pause s)"
| "vcr_step env (Begin_warp_modify xs) s = map_option snd (core_vcr_begin_warp_modify env xs s)"
| "vcr_step env Write_backup s = map_option snd (core_vcr_write_backup env s)"
| "vcr_step env (Frame_advance n) s = Some (core_vr_frame_advance n s)"
| "vcr_step env Pause s = Some (core_vr_pause_emu s)"
| "vcr_step env Resume s = Some (core_vr_resume_emu s)"
| "vcr_step env Request_reset s = Some (s\<lparr>vcr_reset_requested := True\<rparr>)"
| "vcr_step env (Set_cfg c) s = Some (s\<lparr>cfg := c\<rparr>)"
| "vcr_step env (Set_controls c) s = Some (s\<lparr>controls := c\<rparr>)"

lemma vcr_step_inv:
  assumes "env_wf env" "vcr_inv s" "vcr_step env op s = Some s'"
  shows "vcr_inv s'"
proof -
  note same = vcr_inv_same [OF pause_movie] vcr_inv_same [OF resume_movie] vcr_inv_same [OF stop_seek_movie]
  have frame: "vcr_inv (core_vr_frame_advance n s)" for n
    using assms(2) by (simp add: core_vr_frame_advance_def vcr_inv_def)
  show ?thesis
    using assms(3,2) frame
    by (cases op) (auto simp: same core_vcr_write_backup_def core_vcr_begin_seek_def
        dest: poll_inv [OF assms(2)] complete_inv [OF assms(2)] vcr_inv_same [OF stop_all_movie] on_vi_inv
          start_record_inv [OF assms(1,2)] start_playback_inv [OF assms(2)] freeze_inv [OF assms(2)]
          unfreeze_inv [OF assms(1,2)] begin_seek_inv [OF assms(2)] warp_modify_inv [OF assms(2)]
          vcr_inv_same [OF write_backup_movie] split: prod.splits, simp_all add: vcr_inv_def)
qed

text \<open>The environment does not change; an engine is an environment with a state.\<close>

definition engine_inv :: "'w vcr_env \<times> 'w vcr_state \<Rightarrow> bool" where
  "engine_inv m \<longleftrightarrow> env_wf (fst m) \<and> vcr_inv (snd m)"

definition engine_step :: "vcr_op \<Rightarrow> 'w vcr_env \<times> 'w vcr_state \<Rightarrow> ('w vcr_env \<times> 'w vcr_state) option" where
  "engine_step op m = map_option (Pair (fst m)) (vcr_step (fst m) op (snd m))"

interpretation vcr_engine: invariant_steps engine_inv engine_step
  by unfold_locales (auto simp: engine_inv_def engine_step_def dest: vcr_step_inv)

lemma run_engine: "run_ops engine_step ops (env, s) = map_option (Pair env) (run_ops (vcr_step env) ops s)"
proof (induction ops arbitrary: s)
  case (Cons op ops)
  then show ?case by (cases "vcr_step env op s") (simp_all add: engine_step_def)
qed simp

lemma run_vcr_inv:
  assumes "env_wf env" "vcr_inv s" "run_ops (vcr_step env) ops s = Some s'"
  shows "vcr_inv s'"
  using vcr_engine.run_inv [of "(env, s)" ops "(env, s')"] assms by (simp add: engine_inv_def run_engine)

lemma inv_samples_le: "vcr_inv s \<Longrightarrow> unat (length_samples (g_header s)) \<le> length (g_movie_inputs s)"
  by (simp add: vcr_inv_def unat_of_nat)

lemma movie_file_inv:
  assumes "vcr_inv s"
  shows "\<exists>f. movie_file ext (g_header s) (g_movie_inputs s) = Some f"
proof -
  have "length_samples (strip_extended (g_header s)) = length_samples (g_header s)" by (simp add: strip_extended_def Let_def)
  then show ?thesis using inv_samples_le [OF assms] by (simp add: movie_file_def Let_def)
qed

lemma write_movie_impl_inv:
  assumes "vcr_inv s"
  shows "\<exists>r. write_movie_impl ext wr (g_header s) (g_movie_inputs s) p fs = Some r"
  using movie_file_inv [OF assms, of ext] by (auto simp: write_movie_impl_def)

lemma write_movie_inv:
  assumes "vcr_inv s"
  shows "\<exists>b s'. write_movie env s = Some (b, s')"
  using write_movie_impl_inv [OF assms, of "vcr_write_extended_format (cfg s)" "writable env" "g_movie_path s" "vcr_files s"]
  by (auto simp: write_movie_def)

section \<open>Frames of the operations within a poll\<close>

lemma pause_fields [simp]:
  "g_task (core_vr_pause_emu s) = g_task s" "m_current_sample (core_vr_pause_emu s) = m_current_sample s"
  "cfg (core_vr_pause_emu s) = cfg s" "world (core_vr_pause_emu s) = world s" "vcr_files (core_vr_pause_emu s) = vcr_files s"
  "g_reset_pending (core_vr_pause_emu s) = g_reset_pending s" "seek_to_frame (core_vr_pause_emu s) = seek_to_frame s"
  "g_seek_savestate_loading (core_vr_pause_emu s) = g_seek_savestate_loading s"
  "g_movie_path (core_vr_pause_emu s) = g_movie_path s" "emu_launched (core_vr_pause_emu s) = emu_launched s"
  by (simp_all add: core_vr_pause_emu_def Let_def)

lemma purge_fields [simp]:
  "g_task (purge_oldest s) = g_task s" "m_current_sample (purge_oldest s) = m_current_sample s"
  "cfg (purge_oldest s) = cfg s" "world (purge_oldest s) = world s" "vcr_files (purge_oldest s) = vcr_files s"
  "g_reset_pending (purge_oldest s) = g_reset_pending s" "seek_to_frame (purge_oldest s) = seek_to_frame s"
  "g_seek_savestate_loading (purge_oldest s) = g_seek_savestate_loading s" "g_header (purge_oldest s) = g_header s"
  "g_movie_inputs (purge_oldest s) = g_movie_inputs s" "g_warp_modify_active (purge_oldest s) = g_warp_modify_active s"
  "vcr_reset_requested (purge_oldest s) = vcr_reset_requested s" "g_movie_path (purge_oldest s) = g_movie_path s"
  by (simp_all add: purge_oldest_def split: option.split)

lemma seek_savestate_fields [simp]:
  fixes s :: "'w vcr_state"
  defines "t \<equiv> vcr_create_seek_savestates s"
  shows "g_task t = g_task s" "m_current_sample t = m_current_sample s" "cfg t = cfg s" "world t = world s"
    "vcr_files t = vcr_files s" "g_reset_pending t = g_reset_pending s" "seek_to_frame t = seek_to_frame s"
    "g_seek_savestate_loading t = g_seek_savestate_loading s" "g_header t = g_header s"
    "g_movie_inputs t = g_movie_inputs s" "g_warp_modify_active t = g_warp_modify_active s"
    "vcr_reset_requested t = vcr_reset_requested s" "g_movie_path t = g_movie_path s"
  by (simp_all add: t_def vcr_create_seek_savestates_def vcr_create_n_frame_savestate_def Let_def split: prod.split)

lemma no_starting_task:
  "g_task s \<in> {task_recording, task_playback} \<Longrightarrow> vcr_handle_starting_tasks s = s"
  by (auto simp: vcr_handle_starting_tasks_def)

lemma size_of_int_nat: "k < 2 ^ 31 \<Longrightarrow> size_of_int (of_nat k) = of_nat k"
proof -
  assume k: "k < 2 ^ 31"
  then have "sint (of_nat k :: u32) = int k"
    by (simp add: signed_of_nat signed_take_bit_int_eq_self)
  then show ?thesis by (simp add: size_of_int_def scast_eq)
qed

lemma sless_eq_nat: "m < 2 ^ 31 \<Longrightarrow> k < 2 ^ 31 \<Longrightarrow> (of_nat m :: u32) \<le>s of_nat k \<longleftrightarrow> m \<le> k"
  by (simp add: word_sle_eq signed_of_nat signed_take_bit_int_eq_self)

end
