(* ===== verification/Vcr_Correct.thy ===== *)
theory Vcr_Correct
  imports Vcr_Invariant
begin

text \<open>
  Correctness of the movie engine: what recording stores, playback returns, also through
  the movie file; a seek ends at its target; a movie frozen into a savestate comes back; a
  seek backwards starts from the nearest savestate.  The last section shows how
  the engine departs from this.
\<close>

section \<open>Recording and playing back\<close>

text \<open>Polls of the first controller, with what each leaves in the input buffer of the game.\<close>

fun polls :: "'w vcr_env \<Rightarrow> u32 list \<Rightarrow> 'w vcr_state \<Rightarrow> (u32 list \<times> 'w vcr_state) option" where
  "polls env [] s = Some ([], s)"
| "polls env (x # xs) s = do {
     (y, s1) \<leftarrow> vcr_on_controller_poll env 0 x s;
     (ys, s2) \<leftarrow> polls env xs s1;
     Some (y # ys, s2) }"

definition attentive :: "'w vcr_state \<Rightarrow> bool" where
  "attentive s \<longleftrightarrow> \<not> g_reset_pending s \<and> \<not> g_seek_savestate_loading s"

definition recording_at_end :: "'w vcr_state \<Rightarrow> bool" where
  "recording_at_end s \<longleftrightarrow> vcr_inv s \<and> attentive s \<and> g_task s = task_recording \<and> seek_to_frame s = None \<and>
     \<not> vcr_reset_requested s \<and> \<not> g_warp_modify_active s \<and> m_current_sample s = of_nat (length (g_movie_inputs s))"

definition playing_at :: "nat \<Rightarrow> 'w vcr_state \<Rightarrow> bool" where
  "playing_at k s \<longleftrightarrow> vcr_inv s \<and> attentive s \<and> g_task s = task_playback \<and> m_current_sample s = of_nat k \<and>
     length (g_movie_inputs s) < 2 ^ 31 \<and> controller_flags (g_header s) AND 1 \<noteq> 0"

text \<open>What stays the same about a movie while it grows.\<close>

definition same_recording :: "'w vcr_state \<Rightarrow> 'w vcr_state \<Rightarrow> bool" where
  "same_recording s s' \<longleftrightarrow> g_movie_path s' = g_movie_path s \<and> cfg s' = cfg s \<and> vcr_files s' = vcr_files s \<and>
     (g_header s')\<lparr>length_samples := 0\<rparr> = (g_header s)\<lparr>length_samples := 0\<rparr>"

lemma same_recording_refl [simp]: "same_recording s s"
  by (simp add: same_recording_def)

lemma same_recording_trans: "same_recording s t \<Longrightarrow> same_recording t u \<Longrightarrow> same_recording s u"
  by (simp add: same_recording_def)

lemma recording_poll:
  assumes "recording_at_end s" "length (g_movie_inputs s) + i < 2 ^ 31"
  shows "\<exists>y s'. vcr_on_controller_poll env i x s = Some (y, s') \<and> recording_at_end s' \<and>
    g_movie_inputs s' = g_movie_inputs s @ [y] \<and> same_recording s s' \<and>
    y = fst (callback_input env i (fst (input_get_keys env i x (world s))) (snd (input_get_keys env i x (world s))))"
proof -
  let ?t = "vcr_create_seek_savestates s"
  let ?k = "input_get_keys env i x (world s)"
  let ?c = "callback_input env i (fst ?k) (snd ?k)"
  define s' where "s' = emit (Ev_current_sample (m_current_sample s + 1)) (?t\<lparr>world := snd ?c,
      g_movie_inputs := g_movie_inputs s @ [fst ?c],
      g_header := (g_header s)\<lparr>length_samples := length_samples (g_header s) + 1\<rparr>, m_current_sample := m_current_sample s + 1\<rparr>)"
  have le: "\<not> (of_nat (length (g_movie_inputs s)) + of_nat i :: u64) < of_nat (length (g_movie_inputs s))"
    using assms(2) by (simp add: word_less_nat_alt unat_of_nat flip: of_nat_add)
  have "vcr_on_controller_poll env i x s = Some (fst ?c, s')"
    using assms size_of_int_nat [of "length (g_movie_inputs s) + i"] le
    by (simp add: vcr_on_controller_poll_def recording_at_end_def attentive_def vcr_stop_seek_if_needed_def no_starting_task
        vcr_handle_recording_def vcr_handle_playback_def Let_def s'_def case_prod_beta)
  then show ?thesis
    using assms by (auto simp: s'_def recording_at_end_def attentive_def vcr_inv_def header_wf_def same_recording_def)
qed

lemma recording_polls:
  assumes "recording_at_end s" "length (g_movie_inputs s) + length xs \<le> 2 ^ 31"
  shows "\<exists>ys s'. polls env xs s = Some (ys, s') \<and> length ys = length xs \<and> recording_at_end s' \<and>
    g_movie_inputs s' = g_movie_inputs s @ ys \<and> same_recording s s'"
  using assms
proof (induction xs arbitrary: s)
  case (Cons x xs)
  then obtain y s1 where 1: "vcr_on_controller_poll env 0 x s = Some (y, s1)" "recording_at_end s1"
    "g_movie_inputs s1 = g_movie_inputs s @ [y]" "same_recording s s1"
    using recording_poll [of s 0 env x] by auto
  then obtain ys s2 where "polls env xs s1 = Some (ys, s2)" "length ys = length xs" "recording_at_end s2"
    "g_movie_inputs s2 = g_movie_inputs s1 @ ys" "same_recording s1 s2"
    using Cons by force
  with 1 show ?case by (auto intro: same_recording_trans)
qed simp

definition transparent :: "'w vcr_env \<Rightarrow> bool" where
  "transparent env \<longleftrightarrow> (\<forall>i x w. fst (callback_input env i x w) = x)"

lemma seek_savestate_gates [simp]:
  "emu_launched (vcr_create_seek_savestates s) = emu_launched s" "emu_paused (vcr_create_seek_savestates s) = emu_paused s"
  "g_seek_pause_at_end (vcr_create_seek_savestates s) = g_seek_pause_at_end s"
  by (simp_all add: vcr_create_seek_savestates_def vcr_create_n_frame_savestate_def purge_oldest_def submit_def Let_def
      split: prod.split option.split)

lemma paused_stays [simp]: "emu_paused s \<Longrightarrow> emu_paused (core_vr_pause_emu s)"
  "g_seek_pause_at_end (core_vr_pause_emu s) = g_seek_pause_at_end s"
  by (simp_all add: core_vr_pause_emu_def Let_def)

text \<open>The end of a poll during playback.\<close>

lemma playback_returns:
  assumes "transparent env" "playing_at k s" "k < length (g_movie_inputs s)" "g_movie_inputs s ! k \<noteq> 0xC000"
  shows "\<exists>s'. vcr_handle_playback env 0 x s = Some (g_movie_inputs s ! k, s') \<and> playing_at (k + 1) s' \<and>
    same_movie s s' \<and> seek_to_frame s' = seek_to_frame s \<and> g_seek_pause_at_end s' = g_seek_pause_at_end s \<and>
    emu_launched s' = emu_launched s \<and> (emu_paused s \<longrightarrow> emu_paused s')"
proof -
  define t where "t = (if wait_at_movie_end (cfg s) \<and> m_current_sample s = length_samples (g_header s) - 1
    then core_vr_pause_emu s else s)"
  have t: "same_movie s t" "m_current_sample t = m_current_sample s" "attentive t = attentive s" "g_task t = g_task s"
      "seek_to_frame t = seek_to_frame s" "g_seek_pause_at_end t = g_seek_pause_at_end s" "emu_launched t = emu_launched s"
      "emu_paused s \<longrightarrow> emu_paused t"
    by (simp_all add: t_def attentive_def)
  have n: "length (g_movie_inputs s) < 2 ^ 31" "m_current_sample s = of_nat k" "g_task s = task_playback"
      "length_samples (g_header s) = of_nat (length (g_movie_inputs s))" "controller_flags (g_header s) AND 1 \<noteq> 0"
    using assms(2) by (simp_all add: playing_at_def vcr_inv_def)
  have m: "g_header t = g_header s" "g_movie_inputs t = g_movie_inputs s" using t(1) by (simp_all add: same_movie_def)
  have go: "(length_samples (g_header t) \<le>s m_current_sample t) = False" "unat (size_of_int (m_current_sample t + of_nat 0)) = k"
    using assms(3) n by (simp_all add: m t(2) sless_eq_nat size_of_int_nat unat_of_nat)
  have cb: "callback_input env 0 y w = (y, snd (callback_input env 0 y w))" for y w
    using assms(1) by (simp add: transparent_def prod_eq_iff)
  define w where "w = input_set_keys env 0 (g_movie_inputs s ! k) (world t)"
  define s' where "s' = emit (Ev_current_sample (m_current_sample s + 1))
      (t\<lparr>world := snd (callback_input env 0 (g_movie_inputs s ! k) w), m_current_sample := m_current_sample s + 1\<rparr>)"
  have "(controller_flags (g_header t) AND CONTROLLER_X_PRESENT 0 = 0) = False"
    using n(5) by (simp add: m CONTROLLER_X_PRESENT_def)
  then have "vcr_handle_playback env 0 x s = (case callback_input env 0 (g_movie_inputs s ! k) w of (y, v) \<Rightarrow>
      Some (y, emit (Ev_current_sample (m_current_sample s + 1)) (t\<lparr>world := v, m_current_sample := m_current_sample s + 1\<rparr>)))"
    using assms(3,4) n(3) unfolding vcr_handle_playback_def Let_def t_def [symmetric] go
    by (simp only: if_False if_True n(3) simp_thms m t(2)) (simp add: t(2) w_def)
  then have "vcr_handle_playback env 0 x s = Some (g_movie_inputs s ! k, s')"
    by (subst (asm) cb) (simp add: s'_def)
  moreover have "playing_at (k + 1) s'"
    using assms(2) t n by (simp add: s'_def playing_at_def m vcr_inv_def attentive_def)
  ultimately show ?thesis
    using t by (simp add: s'_def same_movie_def)
qed

lemma poll_when_playing:
  assumes "attentive s" "g_task s = task_playback" "vcr_stop_seek_if_needed s = Some s1" "g_task s1 = task_playback"
  shows "vcr_on_controller_poll env 0 x s = vcr_handle_playback env 0 x (vcr_create_seek_savestates s1)"
  using assms by (simp add: vcr_on_controller_poll_def attentive_def no_starting_task vcr_handle_recording_def Let_def)

lemma playing_at_savestates [simp]: "playing_at k (vcr_create_seek_savestates s) = playing_at k s"
  by (simp add: playing_at_def attentive_def vcr_inv_def)

lemma playback_poll:
  assumes "transparent env" "playing_at k s" "k < length (g_movie_inputs s)" "g_movie_inputs s ! k \<noteq> 0xC000"
    "seek_to_frame s = None \<or> (\<exists>f. seek_to_frame s = Some (of_nat f) \<and> k < f \<and> f < 2 ^ 31)"
  shows "\<exists>s'. vcr_on_controller_poll env 0 x s = Some (g_movie_inputs s ! k, s') \<and> playing_at (k + 1) s' \<and>
    same_movie s s' \<and> seek_to_frame s' = seek_to_frame s \<and> g_seek_pause_at_end s' = g_seek_pause_at_end s \<and>
    emu_launched s' = emu_launched s \<and> (emu_paused s \<longrightarrow> emu_paused s')"
proof -
  have "m_current_sample s = of_nat k" "k < 2 ^ 31" "g_task s = task_playback" "attentive s"
    using assms(2,3) by (auto simp: playing_at_def)
  moreover have "\<not> (of_nat f :: u64) \<le> of_nat k" "\<not> (of_nat f :: u64) < of_nat k" if "k < f" "f < 2 ^ 31" for f
    using that by (simp_all add: word_le_nat_alt word_less_nat_alt unat_of_nat)
  ultimately have "vcr_stop_seek_if_needed s = Some s"
    using assms(5) by (elim disjE exE conjE) (simp_all add: vcr_stop_seek_if_needed_def size_of_int_nat)
  then have "vcr_on_controller_poll env 0 x s = vcr_handle_playback env 0 x (vcr_create_seek_savestates s)"
    by (rule poll_when_playing [OF \<open>attentive s\<close> \<open>g_task s = task_playback\<close> _ \<open>g_task s = task_playback\<close>])
  then show ?thesis
    using playback_returns [of env k "vcr_create_seek_savestates s" x] assms(1-4) by (simp add: same_movie_def)
qed

lemma playback_polls:
  assumes "transparent env" "playing_at k s" "k + length xs \<le> length (g_movie_inputs s)"
    "0xC000 \<notin> set (take (length xs) (drop k (g_movie_inputs s)))"
    "seek_to_frame s = None \<or> (\<exists>f. seek_to_frame s = Some (of_nat f) \<and> k + length xs \<le> f \<and> f < 2 ^ 31)"
  shows "\<exists>s'. polls env xs s = Some (take (length xs) (drop k (g_movie_inputs s)), s') \<and> playing_at (k + length xs) s' \<and>
    same_movie s s' \<and> seek_to_frame s' = seek_to_frame s \<and> g_seek_pause_at_end s' = g_seek_pause_at_end s \<and>
    emu_launched s' = emu_launched s"
  using assms
proof (induction xs arbitrary: s k)
  case (Cons x xs)
  have k: "k < length (g_movie_inputs s)" using Cons.prems(3) by simp
  then have d: "drop k (g_movie_inputs s) = g_movie_inputs s ! k # drop (k + 1) (g_movie_inputs s)" by (simp add: Cons_nth_drop_Suc)
  obtain s1 where 1: "vcr_on_controller_poll env 0 x s = Some (g_movie_inputs s ! k, s1)" "playing_at (k + 1) s1"
    "same_movie s s1" "seek_to_frame s1 = seek_to_frame s" "g_seek_pause_at_end s1 = g_seek_pause_at_end s"
    "emu_launched s1 = emu_launched s"
    using playback_poll [of env k s x] Cons.prems k d by force
  then have "\<exists>s'. polls env xs s1 = Some (take (length xs) (drop (k + 1) (g_movie_inputs s1)), s') \<and>
    playing_at (k + 1 + length xs) s' \<and> same_movie s1 s' \<and> seek_to_frame s' = seek_to_frame s1 \<and>
    g_seek_pause_at_end s' = g_seek_pause_at_end s1 \<and> emu_launched s' = emu_launched s1"
    by (intro Cons.IH) (use Cons.prems d in \<open>auto simp: same_movie_def\<close>)
  with 1 d show ?case by (auto simp: same_movie_def)
qed simp

section \<open>An example\<close>

text \<open>An input plugin that counts its calls, a user who agrees to everything, one controller.\<close>

definition example_env :: "nat vcr_env" where
  "example_env = \<lparr>input_get_keys = (\<lambda>_ _ w. (of_nat w, w + 1)), input_set_keys = (\<lambda>_ _ w. w), callback_input = (\<lambda>_ x w. (x, w)),
     show_ask_dialog = (\<lambda>_ w. (True, w)), time_now = (\<lambda>_. 7), writable = (\<lambda>_. True), backups_directory = ''b/'',
     get_plugin_names = (replicate 64 0, replicate 64 0, replicate 64 0, replicate 64 0),
     rom_info = \<lparr>init_PI_BSB_DOM1 = [], ClockRate = 0, rom_PC = 0, Release = 0, CRC1 = 0, CRC2 = 0, Unknown0 = 0, Unknown1 = 0,
       nom = [], rom_unknown = 0, Manufacturer_ID = 0, Cartridge_ID = 0, Country_code = 0x45, Boot_Code = []\<rparr>,
     core_executing = (\<lambda>_. True), core_vr_start_rom = (\<lambda>_ w. (Res_Ok, w))\<rparr>"

lemma example_env_fields [simp]:
  "input_get_keys example_env i x w = (of_nat w, w + 1)" "input_set_keys example_env i x w = w"
  "callback_input example_env i x w = (x, w)" "show_ask_dialog example_env d w = (True, w)" "writable example_env p"
  "core_executing example_env w"
  by (simp_all add: example_env_def)

definition example_vcr :: "vcr_task \<Rightarrow> u32 \<Rightarrow> u32 list \<Rightarrow> nat vcr_state" where
  "example_vcr t sample xs = \<lparr>g_task = t, seek_to_frame = None, g_seek_pause_at_end = False, g_seek_savestate_loading = False,
     g_reset_pending = False, g_seek_savestates = [], g_warp_modify_active = False, g_warp_modify_first_difference_frame = 0,
     g_header = movie_example (of_nat (length xs)), g_movie_inputs = xs, g_movie_path = m64, m_current_sample = sample,
     m_current_vi = 0, vcr_reset_requested = False,
     cfg = \<lparr>total_rerecords = 0, seek_savestate_interval = 0, seek_savestate_max_count = 0, pause_at_frame = - 1,
       pause_at_last_frame = False, vcr_readonly = False, vcr_backups = True, vcr_write_extended_format = True,
       wait_at_movie_end = False, is_movie_loop_enabled = False, wii_vc_emulation = 0\<rparr>,
     emu_paused = False, emu_launched = True, frame_advance_outstanding = 0,
     controls = (\<lambda>i. \<lparr>Present = (i = 0), RawData = False, Plugin = 1\<rparr>),
     vcr_cheats = \<lparr>host_cheats = [], cheat_stack = []\<rparr>, vcr_files = (\<lambda>_. None), vcr_events = [], vcr_tasks = [], world = 0\<rparr>"

lemma movie_example_fields [simp]: "header_wf (movie_example n)" "length_samples (movie_example n) = n"
  "controller_flags (movie_example n) = 1" "startFlags (movie_example n) = 0" "rom_name (movie_example n) = replicate 32 0"
  using movie_example_v3 [of n]
  by (simp_all add: movie_v3_def movie_example_def header_of_bytes_def slice_def u16_at_def le_word_def numeral_eq_Suc)

lemma example_vcr_fields [simp]:
  "g_task (example_vcr t k xs) = t" "g_header (example_vcr t k xs) = movie_example (of_nat (length xs))"
  "g_movie_inputs (example_vcr t k xs) = xs" "g_movie_path (example_vcr t k xs) = m64" "m_current_sample (example_vcr t k xs) = k"
  "seek_to_frame (example_vcr t k xs) = None" "g_reset_pending (example_vcr t k xs) = False"
  "g_seek_savestate_loading (example_vcr t k xs) = False" "vcr_reset_requested (example_vcr t k xs) = False"
  "g_warp_modify_active (example_vcr t k xs) = False" "emu_launched (example_vcr t k xs) = True"
  "vcr_files (example_vcr t k xs) = (\<lambda>_. None)" "vcr_write_extended_format (cfg (example_vcr t k xs)) = True"
  "seek_savestate_interval (cfg (example_vcr t k xs)) = 0" "world (example_vcr t k xs) = 0"
  "vcr_cheats (example_vcr t k xs) = \<lparr>host_cheats = [], cheat_stack = []\<rparr>"
  "vcr_readonly (cfg (example_vcr t k xs)) = False" "vcr_backups (cfg (example_vcr t k xs)) = True"
  "Present (controls (example_vcr t k xs) i) = (i = 0)" "g_seek_savestates (example_vcr t k xs) = []"
  by (simp_all add: example_vcr_def)

lemma example_vcr_inv: "vcr_inv (example_vcr t k xs)"
  by (simp add: vcr_inv_def)

lemma example_transparent: "transparent example_env"
  by (simp add: transparent_def)

lemma example_playing: "length xs < 2 ^ 31 \<Longrightarrow> playing_at k (example_vcr task_playback (of_nat k) xs)"
  by (simp add: playing_at_def attentive_def example_vcr_inv)

lemma example_recording: "recording_at_end (example_vcr task_recording 0 [])"
  by (simp add: recording_at_end_def attentive_def example_vcr_inv)

section \<open>Seeking\<close>

lemma polls_append:
  "polls env (xs @ ys) s = do { (us, s1) \<leftarrow> polls env xs s; (vs, s2) \<leftarrow> polls env ys s1; Some (us @ vs, s2) }"
proof (induction xs arbitrary: s)
  case Nil
  then show ?case by (cases "polls env ys s") auto
next
  case (Cons x xs)
  show ?case
    by (cases "vcr_on_controller_poll env 0 x s") (auto simp: Cons split: Option.bind_splits)
qed

lemma stop_seek_fields [simp]:
  "g_task (core_vcr_stop_seek s) = g_task s" "m_current_sample (core_vcr_stop_seek s) = m_current_sample s"
  "attentive (core_vcr_stop_seek s) = attentive s" "seek_to_frame (core_vcr_stop_seek s) = None"
  "g_seek_pause_at_end (core_vcr_stop_seek s) = g_seek_pause_at_end s" "emu_launched (core_vcr_stop_seek s) = emu_launched s"
  by (simp_all add: core_vcr_stop_seek_def attentive_def Let_def)

lemma pause_attentive [simp]: "attentive (core_vr_pause_emu s) = attentive s"
  by (simp add: attentive_def)

lemma seek_stops:
  assumes "transparent env" "playing_at k s" "k < length (g_movie_inputs s)" "g_movie_inputs s ! k \<noteq> 0xC000"
    "seek_to_frame s = Some (of_nat k)"
  shows "\<exists>s'. vcr_on_controller_poll env 0 x s = Some (g_movie_inputs s ! k, s') \<and> playing_at (k + 1) s' \<and>
    seek_to_frame s' = None \<and> (g_seek_pause_at_end s \<and> emu_launched s \<longrightarrow> emu_paused s')"
proof -
  define s1 where "s1 = (if g_seek_pause_at_end s then core_vr_pause_emu (core_vcr_stop_seek s) else core_vcr_stop_seek s)"
  have "k < 2 ^ 31" using assms(2,3) by (simp add: playing_at_def)
  then have 1: "vcr_stop_seek_if_needed s = Some s1"
    using assms(2,5) by (simp add: vcr_stop_seek_if_needed_def s1_def playing_at_def size_of_int_nat Let_def)
  have p1: "playing_at k s1" "seek_to_frame s1 = None" "g_movie_inputs s1 = g_movie_inputs s" "g_task s1 = task_playback"
    using assms(2) by (auto simp: s1_def playing_at_def vcr_inv_def)
  have paused: "g_seek_pause_at_end s \<and> emu_launched s \<longrightarrow> emu_paused s1"
    by (simp add: s1_def core_vr_pause_emu_def vcr_allows_core_pause_def Let_def)
  have "vcr_on_controller_poll env 0 x s = vcr_handle_playback env 0 x (vcr_create_seek_savestates s1)"
    using assms(2) by (intro poll_when_playing [OF _ _ 1 p1(4)]) (simp_all add: playing_at_def)
  with playback_returns [of env k "vcr_create_seek_savestates s1" x] p1 paused assms(1,3,4) show ?thesis
    by auto
qed

lemma seek_runs:
  assumes "transparent env" "playing_at k s" "seek_to_frame s = Some (of_nat f)" "k \<le> f" "f < length (g_movie_inputs s)"
    "0xC000 \<notin> set (take (f - k + 1) (drop k (g_movie_inputs s)))" "length xs = f - k + 1"
  shows "\<exists>s'. polls env xs s = Some (take (f - k + 1) (drop k (g_movie_inputs s)), s') \<and> playing_at (f + 1) s' \<and>
    seek_to_frame s' = None \<and> (g_seek_pause_at_end s \<and> emu_launched s \<longrightarrow> emu_paused s')"
proof -
  obtain us x where xs: "xs = us @ [x]" "length us = f - k" using assms(7) by (cases xs rule: rev_cases) auto
  have split: "take (f - k + 1) (drop k (g_movie_inputs s)) = take (f - k) (drop k (g_movie_inputs s)) @ [g_movie_inputs s ! f]"
    using assms(4,5) by (simp add: take_Suc_conv_app_nth)
  have "f < 2 ^ 31" using assms(2,5) by (simp add: playing_at_def)
  then obtain s1 where 1: "polls env us s = Some (take (f - k) (drop k (g_movie_inputs s)), s1)" "playing_at f s1" "same_movie s s1"
      "seek_to_frame s1 = seek_to_frame s" "g_seek_pause_at_end s1 = g_seek_pause_at_end s" "emu_launched s1 = emu_launched s"
    using playback_polls [of env k s us] assms xs(2) split by auto
  then obtain s2 where "vcr_on_controller_poll env 0 x s1 = Some (g_movie_inputs s ! f, s2)" "playing_at (f + 1) s2"
      "seek_to_frame s2 = None" "g_seek_pause_at_end s \<and> emu_launched s \<longrightarrow> emu_paused s2"
    using seek_stops [of env f s1 x] assms(1,3,5,6) split by (auto simp: same_movie_def)
  with 1 show ?thesis unfolding split by (auto simp: xs(1) polls_append)
qed

text \<open>A frame number in decimal is the frame it says.\<close>

lemma digit_char:
  fixes d :: nat
  assumes "d < 10"
  shows "is_digit (char_of (48 + d))" "of_char (char_of (48 + d)) = 48 + d"
  using assms by (simp_all add: is_digit_def)

lemma digit_plain: "is_digit c \<Longrightarrow> \<not> is_space c \<and> c \<noteq> CHR ''-'' \<and> c \<noteq> CHR ''+'' \<and> c \<noteq> CHR ''^''"
  by (auto simp: is_digit_def is_space_def)

lemma decimal_digits: "decimal n \<noteq> [] \<and> (\<forall>c\<in>set (decimal n). is_digit c) \<and> digits_value (decimal n) = n"
proof (induction n rule: decimal.induct)
  case (1 n)
  show ?case
  proof (cases "n < 10")
    case True
    then show ?thesis by (simp add: decimal.simps digits_value_def digit_char)
  next
    case False
    with 1 show ?thesis by (subst (1 2 3) decimal.simps) (simp add: digits_value_def digit_char)
  qed
qed

lemma stoi_decimal:
  assumes "n < 2 ^ 31"
  shows "stoi (decimal n) = Some (int n)"
proof -
  obtain c cs where c: "decimal n = c # cs" "is_digit c" using decimal_digits [of n] by (cases "decimal n") auto
  have tw: "takeWhile is_digit cs = cs" using decimal_digits [of n] c(1) by simp
  show ?thesis
    using c digit_plain [OF c(2)] decimal_digits [of n] assms by (simp add: stoi_def strip_sign_def c(1) Let_def tw)
qed

lemma seek_decimal:
  assumes "n < 2 ^ 31"
  shows "compute_sample_from_seek_string (decimal n) s = of_nat n"
proof -
  obtain c cs where c: "decimal n = c # cs" "is_digit c" using decimal_digits [of n] by (cases "decimal n") auto
  have "size_of_int (of_nat n) = of_nat n" using assms by (rule size_of_int_nat)
  then show ?thesis
    using digit_plain [OF c(2)] stoi_decimal [OF assms] by (simp add: compute_sample_from_seek_string_def c(1))
qed


section \<open>From a recording through its file to playback\<close>

text \<open>
  A session that plays a movie: playback is started, the first poll submits the reset, the
  reset completes, and the game polls on.
\<close>

definition replay :: "'w vcr_env \<Rightarrow> mpath \<Rightarrow> u32 list \<Rightarrow> 'w vcr_state \<Rightarrow> (core_result \<times> u32 list) option" where
  "replay env p xs s = do {
     (r, s1) \<leftarrow> core_vcr_start_playback env p s;
     if r \<noteq> Res_Ok then Some (r, [])
     else do {
       (_, s2) \<leftarrow> vcr_on_controller_poll env 0 0 s1;
       s3 \<leftarrow> complete env (Reset_for_playback (startFlags (g_header s1) AND 4 = 0)) True [] s2;
       (ys, _) \<leftarrow> polls env xs s3;
       Some (Res_Ok, ys) } }"

text \<open>
  The user agrees to every question, every controller of the movie is plugged in, and
  the movie has no cheats of its own; the engine is idle and takes polls.
\<close>

definition agreeable :: "'w vcr_env \<Rightarrow> mpath \<Rightarrow> movie_header \<Rightarrow> 'w vcr_state \<Rightarrow> bool" where
  "agreeable env p h s \<longleftrightarrow> core_executing env (world s) \<and> (\<forall>d w. fst (show_ask_dialog env d w)) \<and>
     (\<forall>i<4. controller_flags h AND CONTROLLER_X_PRESENT i \<noteq> 0 \<longrightarrow> Present (controls s i)) \<and>
     find_accompanying_file_for_movie (vcr_files s) p [''.cht''] = None"

definition accepting :: "'w vcr_env \<Rightarrow> mpath \<Rightarrow> movie_header \<Rightarrow> 'w vcr_state \<Rightarrow> bool" where
  "accepting env p h s \<longleftrightarrow> agreeable env p h s \<and> g_task s = task_idle \<and> attentive s \<and> seek_to_frame s = None"

lemma controllers_ok:
  assumes "\<forall>i\<in>set is. controller_flags h AND CONTROLLER_X_PRESENT i \<noteq> 0 \<longrightarrow> Present (controls s i)"
  shows "fst (show_controller_warnings is h s)"
  using assms
proof (induction "is" h s rule: show_controller_warnings.induct)
  case (2 i "is" h s)
  have "fst (controller_warning (controls s) h i)"
    using 2(2) by (auto simp: controller_warning_def Let_def)
  with 2 show ?case by (auto simp: Let_def split: prod.splits)
qed simp

lemma playback_checks_ok:
  assumes "\<forall>d w. fst (show_ask_dialog env d w)"
    "\<forall>i<4. controller_flags h AND CONTROLLER_X_PRESENT i \<noteq> 0 \<longrightarrow> Present (controls s i)" "0 \<in> set (drop 196 (header_bytes h))"
  shows "\<exists>s'. playback_checks env h s = Some (Res_Ok, s')"
proof -
  have ask: "fst (ask_user env d t)" for d t using assms(1) by (simp add: ask_user_def split: prod.split) (metis fst_conv)
  obtain ok1 s1 where 1: "ask_rawdata env s = (ok1, s1)" by fastforce
  obtain ok2 s2 where 2: "show_controller_warning h s1 = (ok2, s2)" by fastforce
  obtain ok3 s3 where 3: "wiivc_check env h s2 = (ok3, s3)" by fastforce
  have ok1 using 1 assms(1) by (auto simp: ask_rawdata_def split: if_splits prod.splits) (metis fst_conv)
  moreover have ok2
    using controllers_ok [of "[0..<4]" h s1] assms(2) asked_fields [OF ask_rawdata_asked [OF 1]] 2
    by (simp add: show_controller_warning_def)
  moreover have ok3 using 3 ask [of Wiivc_warning s2] by (auto simp: wiivc_check_def ask_if_def split: if_splits)
  moreover obtain d where "rom_mismatch_dialog h (rom_info env) = Some d"
    using assms(3) by (auto simp: rom_mismatch_dialog_def rom_name_differs_def cstr_def)
  moreover obtain s4 where "(case d of None \<Rightarrow> (True, s3) | Some q \<Rightarrow> ask_user env q s3) = (True, s4)"
    using ask [of _ s3] by (cases d) (auto simp: prod_eq_iff)
  ultimately show ?thesis by (simp add: playback_checks_steps [OF 1 2 3])
qed

lemma name_in_header: "0 \<in> set (rom_name h) \<Longrightarrow> header_wf h \<Longrightarrow> 0 \<in> set (drop 196 (header_bytes h))"
  by (simp add: header_bytes_def header_wf_def)

lemma playback_agreed:
  assumes "agreeable env p h s" "vcr_files s (path_string p) = Some f" "f \<noteq> []" "read_movie_header f = Some (Inr h)"
    "read_inputs f (unat (length_samples h)) = Some xs" "0 \<in> set (rom_name h)"
  shows "\<exists>s1. asked s s1 \<and>
    core_vcr_start_playback env p s = begin_playback env p h xs (s1\<lparr>vcr_cheats := cht_layer_push [] (vcr_cheats s1)\<rparr>)"
proof -
  obtain s1 where 1: "playback_checks env h s = Some (Res_Ok, s1)"
    using playback_checks_ok [of env h s] assms(1,6) name_in_header [OF _ read_movie_header_wf [OF assms(4)]]
    by (auto simp: agreeable_def)
  have "push_movie_cheats env p s1 = Some (True, s1\<lparr>vcr_cheats := cht_layer_push [] (vcr_cheats s1)\<rparr>)"
    using assms(1) asked_fields [OF playback_checks_asked [OF 1]] by (simp add: push_movie_cheats_def agreeable_def)
  then show ?thesis
    using assms 1 playback_checks_asked [OF 1] by (auto simp: core_vcr_start_playback_def agreeable_def read_file_buffer_def)
qed

lemma playback_started:
  assumes "accepting env p h s" "vcr_files s (path_string p) = Some f" "f \<noteq> []" "read_movie_header f = Some (Inr h)"
    "read_inputs f (unat (length_samples h)) = Some xs" "0 \<in> set (rom_name h)" "startFlags h AND 1 = 0"
  shows "\<exists>s'. core_vcr_start_playback env p s = Some (Res_Ok, s') \<and> g_header s' = h \<and> g_movie_inputs s' = xs \<and>
    g_task s' = task_start_playback_from_reset \<and> attentive s' \<and> seek_to_frame s' = None"
proof -
  obtain s1 where 1: "asked s s1"
    "core_vcr_start_playback env p s = begin_playback env p h xs (s1\<lparr>vcr_cheats := cht_layer_push [] (vcr_cheats s1)\<rparr>)"
    using playback_agreed [OF _ assms(2-6)] assms(1) by (auto simp: accepting_def)
  note same = asked_fields [OF 1(1)] asked_core [OF 1(1)]
  define s2 where "s2 = s1\<lparr>vcr_cheats := cht_layer_push [] (vcr_cheats s1)\<rparr>"
  have idle: "core_vcr_stop_all env s2 = Some (Res_Ok, vcr_clear_seek_savestates s2)"
    using same assms(1) by (simp add: core_vcr_stop_all_def accepting_def s2_def vcr_clear_seek_savestates_def)
  have "core_vcr_start_playback env p s = Some (Res_Ok, emit Ev_play_movie (announce_movie
      ((vcr_clear_seek_savestates s2)\<lparr>m_current_sample := 0, m_current_vi := 0, g_movie_path := p, g_movie_inputs := xs,
         g_header := h, g_task := task_start_playback_from_reset\<rparr>)))"
    using 1(2) assms(7) by (simp add: begin_playback_def idle flip: s2_def)
  then show ?thesis
    using same assms(1) by (simp add: accepting_def attentive_def core_defs announce_movie_def vcr_clear_seek_savestates_def s2_def)
qed

text \<open>The reset that the first poll asks for, and its completion.\<close>

lemma playback_begins:
  assumes "g_task s = task_start_playback_from_reset" "attentive s" "seek_to_frame s = None" "vcr_inv s"
    "length (g_movie_inputs s) < 2 ^ 31" "controller_flags (g_header s) AND 1 \<noteq> 0"
  shows "\<exists>y s2 s3. vcr_on_controller_poll env 0 x s = Some (y, s2) \<and>
    complete env (Reset_for_playback c) True b s2 = Some s3 \<and> playing_at 0 s3 \<and> seek_to_frame s3 = None \<and>
    g_movie_inputs s3 = g_movie_inputs s"
proof -
  let ?t = "vcr_create_seek_savestates (vcr_handle_starting_tasks s)"
  have t: "g_task ?t = task_start_playback_from_reset" "seek_to_frame ?t = None" "same_movie s ?t"
      "\<not> g_seek_savestate_loading ?t"
    using assms(1-3) by (simp_all add: vcr_handle_starting_tasks_def same_movie_def attentive_def)
  have "vcr_on_controller_poll env 0 x s = Some (x, ?t)"
    using assms(1-3) t(1) by (simp add: vcr_on_controller_poll_def attentive_def vcr_stop_seek_if_needed_def
        vcr_handle_recording_def vcr_handle_playback_def Let_def)
  with t assms(4-6) show ?thesis
    by (simp add: announce_movie_def playing_at_def vcr_inv_def attentive_def same_movie_def)
qed

lemma recording_stopped:
  assumes "recording_at_end s" "writable env (path_string (g_movie_path s))"
    "movie_file (vcr_write_extended_format (cfg s)) (g_header s) (g_movie_inputs s) = Some f"
  shows "\<exists>s'. core_vcr_stop_all env s = Some (Res_Ok, s') \<and> g_task s' = task_idle \<and>
    vcr_files s' = (vcr_files s)(path_string (g_movie_path s) \<mapsto> f)"
  using assms
  by (simp add: core_vcr_stop_all_def recording_at_end_def vcr_stop_record_def vcr_is_task_recording_def write_movie_def
      write_movie_impl_def setkeys_with_zero_def vcr_clear_seek_savestates_def Let_def)

lemma same_recording_header:
  assumes "same_recording s s'"
  shows "g_header s' = (g_header s)\<lparr>length_samples := length_samples (g_header s')\<rparr>"
proof -
  have "(g_header s')\<lparr>length_samples := 0, length_samples := n\<rparr> = (g_header s)\<lparr>length_samples := 0, length_samples := n\<rparr>" for n
    using assms by (simp add: same_recording_def del: movie_header.simps)
  from this [of "length_samples (g_header s')"] show ?thesis by simp
qed

text \<open>
  C2. What was recorded is what is played back, through the movie file. Recording the polls
  of the first controller and stopping writes a file; whenever a session with this file accepts
  the movie, the polls of the first controller return, one after the other, exactly the inputs the game
  received while recording, whatever the input plugin reports. The movie is one that starts from
  a reset, and none of its inputs is the one that stands for a reset.
\<close>

theorem record_then_replay:
  assumes "recording_at_end s" "g_movie_inputs s = []" "movie_v3 (g_header s)" "startFlags (g_header s) AND 1 = 0"
    "controller_flags (g_header s) AND 1 \<noteq> 0" "0 \<in> set (rom_name (g_header s))"
    "writable env (path_string (g_movie_path s))" "vcr_write_extended_format (cfg s)" "length xs < 2 ^ 31" "transparent env'"
  shows "\<exists>ys s1 s2. polls env xs s = Some (ys, s1) \<and> length ys = length xs \<and>
    core_vcr_stop_all env s1 = Some (Res_Ok, s2) \<and> g_task s2 = task_idle \<and>
    (0xC000 \<notin> set ys \<longrightarrow> (\<forall>t zs. vcr_files t = vcr_files s2 \<and> accepting env' (g_movie_path s) (g_header s) t \<and>
        length zs = length ys \<longrightarrow> replay env' (g_movie_path s) zs t = Some (Res_Ok, ys)))"
proof -
  obtain ys s1 where 1: "polls env xs s = Some (ys, s1)" "length ys = length xs" "recording_at_end s1"
      "g_movie_inputs s1 = ys" "same_recording s s1"
    using recording_polls [OF assms(1), of xs env] assms(2,9) by auto
  define h where "h = g_header s1"
  have h: "h = (g_header s)\<lparr>length_samples := length_samples h\<rparr>" using same_recording_header [OF 1(5)] by (simp add: h_def)
  have n: "unat (length_samples h) = length ys"
    using 1 assms(9) by (simp add: h_def recording_at_end_def vcr_inv_def unat_of_nat)
  have "movie_v3 h" using assms(3) by (subst h) (simp add: movie_v3_def header_wf_def)
  then obtain f where f: "movie_file True h ys = Some f" "read_movie_header f = Some (Inr (read_back h))"
      "read_inputs f (length ys) = Some ys" "length f = header_size + 4 * length ys"
    using movie_file_read [of h ys] n by auto
  have ne: "f \<noteq> []" using f(4) by auto
  obtain s2 where 2: "core_vcr_stop_all env s1 = Some (Res_Ok, s2)" "g_task s2 = task_idle"
      "vcr_files s2 (path_string (g_movie_path s)) = Some f"
    using recording_stopped [OF 1(3), of env f] 1 assms(7,8) f(1) by (auto simp: same_recording_def h_def)
  have rb: "controller_flags (read_back h) = controller_flags (g_header s)" "rom_name (read_back h) = rom_name (g_header s)"
      "startFlags (read_back h) = startFlags (g_header s)" "length_samples (read_back h) = length_samples h"
    by (simp_all add: read_back_def, (subst h, simp)+)
  have "replay env' (g_movie_path s) zs t = Some (Res_Ok, ys)"
    if no_reset: "0xC000 \<notin> set ys" and t: "vcr_files t = vcr_files s2" "accepting env' (g_movie_path s) (g_header s) t"
      "length zs = length ys" for t zs
  proof -
    have "accepting env' (g_movie_path s) (read_back h) t" using t(2) by (simp add: accepting_def agreeable_def rb)
    then obtain t1 where 3: "core_vcr_start_playback env' (g_movie_path s) t = Some (Res_Ok, t1)" "g_header t1 = read_back h"
        "g_movie_inputs t1 = ys" "g_task t1 = task_start_playback_from_reset" "attentive t1" "seek_to_frame t1 = None"
      using playback_started [of env' "g_movie_path s" "read_back h" t f ys] t(1) 2(3) f rb n ne assms(4,6) by auto
    have "vcr_inv t1" using 3(2,3) n read_movie_header_wf [OF f(2)] by (auto simp: vcr_inv_def rb simp flip: n)
    then obtain y t2 t3 where 4: "vcr_on_controller_poll env' 0 0 t1 = Some (y, t2)"
        "complete env' (Reset_for_playback (startFlags (g_header t1) AND 4 = 0)) True [] t2 = Some t3"
        "playing_at 0 t3" "seek_to_frame t3 = None" "g_movie_inputs t3 = ys"
      using playback_begins [OF 3(4,5,6), of env' 0] 3(2,3) assms(5,9) 1(2) rb(1) by force
    obtain t4 where "polls env' zs t3 = Some (ys, t4)"
      using playback_polls [OF assms(10) 4(3), of zs] no_reset t(3) 4(4,5) by auto
    then show ?thesis using 3(1) 4(1,2) by (simp add: replay_def)
  qed
  with 1 2 show ?thesis by blast
qed

lemma example_agreeable:
  assumes "vcr_files t = (\<lambda>_. None)(path_string m64 \<mapsto> f)" "Present (controls t 0)"
  shows "agreeable example_env m64 (movie_example n) t"
  using assms
  by (simp add: agreeable_def CONTROLLER_X_PRESENT_def find_accompanying_file_for_movie_def accompanying_loop.simps
      str_nth_occurence_def first_existing_def m64_def path_string_def numeral_eq_Suc less_Suc_eq)

theorem record_then_replay_witness:
  "\<exists>s1 s2. polls example_env [0, 0, 0] (example_vcr task_recording 0 []) = Some ([0, 1, 2], s1) \<and>
    core_vcr_stop_all example_env s1 = Some (Res_Ok, s2) \<and>
    replay example_env m64 [9, 9, 9] ((example_vcr task_idle 0 [])\<lparr>vcr_files := vcr_files s2\<rparr>) = Some (Res_Ok, [0, 1, 2])"
proof -
  let ?s = "example_vcr task_recording 0 []"
  have "\<exists>ys s1 s2. polls example_env [0, 0, 0] ?s = Some (ys, s1) \<and> length ys = length [0, 0, 0 :: u32] \<and>
    core_vcr_stop_all example_env s1 = Some (Res_Ok, s2) \<and> g_task s2 = task_idle \<and>
    (0xC000 \<notin> set ys \<longrightarrow> (\<forall>t zs. vcr_files t = vcr_files s2 \<and> accepting example_env (g_movie_path ?s) (g_header ?s) t \<and>
        length zs = length ys \<longrightarrow> replay example_env (g_movie_path ?s) zs t = Some (Res_Ok, ys)))"
    by (rule record_then_replay [OF example_recording]) (simp_all add: movie_example_v3 example_transparent)
  then obtain ys s1 s2 where 1: "polls example_env [0, 0, 0] ?s = Some (ys, s1)" "core_vcr_stop_all example_env s1 = Some (Res_Ok, s2)"
    and replay: "0xC000 \<notin> set ys \<longrightarrow> (\<forall>t zs. vcr_files t = vcr_files s2 \<and> accepting example_env (g_movie_path ?s) (g_header ?s) t \<and>
        length zs = length ys \<longrightarrow> replay example_env (g_movie_path ?s) zs t = Some (Res_Ok, ys))" by (elim exE conjE)
  have ys: "ys = [0, 1, 2]"
    using 1(1) by (simp add: vcr_on_controller_poll_def vcr_stop_seek_if_needed_def
        vcr_handle_starting_tasks_def vcr_create_seek_savestates_def vcr_handle_recording_def vcr_handle_playback_def size_of_int_def)
  obtain s1' where "polls example_env [0, 0, 0] ?s = Some (ys, s1')" "recording_at_end s1'" "same_recording ?s s1'"
    using recording_polls [OF example_recording, of "[0, 0, 0]" example_env] 1(1) by auto
  then have r: "recording_at_end s1" "same_recording ?s s1" using 1(1) by auto
  obtain f where "movie_file (vcr_write_extended_format (cfg s1)) (g_header s1) (g_movie_inputs s1) = Some f"
    using movie_file_inv r(1) unfolding recording_at_end_def by blast
  then have fs: "vcr_files s2 = (\<lambda>_. None)(path_string m64 \<mapsto> f)"
    using recording_stopped [OF r(1), of example_env f] 1(2) r(2) by (simp add: same_recording_def)
  let ?t = "(example_vcr task_idle 0 [])\<lparr>vcr_files := vcr_files s2\<rparr>"
  have "accepting example_env m64 (movie_example 0) ?t"
    using example_agreeable [of ?t f 0] by (simp add: accepting_def fs attentive_def)
  then have "replay example_env m64 [9, 9, 9] ?t = Some (Res_Ok, ys)"
    using replay ys by simp
  with 1 ys show ?thesis by blast
qed

section \<open>Freezing\<close>

lemma movie_file_length:
  assumes "unat (length_samples h) \<le> length xs"
  shows "\<exists>f. movie_file ext h xs = Some f"
proof -
  have "length_samples (strip_extended h) = length_samples h" by (simp add: strip_extended_def Let_def)
  then show ?thesis using assms by (simp add: movie_file_def Let_def)
qed

lemma rerecord_length [simp]: "get_rerecord_count (h\<lparr>length_samples := n\<rparr>) = get_rerecord_count h"
  by (simp add: get_rerecord_count_def)

text \<open>The path of a backup.\<close>

definition backup_path :: "'w vcr_env \<Rightarrow> 'w vcr_state \<Rightarrow> mpath" where
  "backup_path env s = \<lparr>directory = backups_directory env,
     stem = stem (g_movie_path s) @ ''.'' @ decimal (unat (time_now env (world s))), extension = ''.m64''\<rparr>"

lemma announce_fields [simp]:
  "g_header (announce_movie s) = g_header s" "g_movie_inputs (announce_movie s) = g_movie_inputs s" "cfg (announce_movie s) = cfg s"
  "g_task (announce_movie s) = g_task s" "m_current_sample (announce_movie s) = m_current_sample s"
  "m_current_vi (announce_movie s) = m_current_vi s" "vcr_files (announce_movie s) = vcr_files s"
  "g_movie_path (announce_movie s) = g_movie_path s" "world (announce_movie s) = world s"
  "g_warp_modify_active (announce_movie s) = g_warp_modify_active s" "controls (announce_movie s) = controls s"
  by (simp_all add: announce_movie_def)

lemma unfreeze_recording_eq:
  assumes "\<not> g_warp_modify_active s" "h = (set_rerecord_count (get_rerecord_count (g_header s) + 1) (g_header s))\<lparr>length_samples := frz_current_sample fr\<rparr>"
    "unat (frz_current_sample fr) = n"
  shows "\<exists>s3. unfreeze_recording env fr task_recording s = do {
      s4 \<leftarrow> (if vcr_backups (cfg s) then map_option snd (write_backup_impl env s3) else Some s3);
      if n > length (frz_input_buffer fr) then None
      else map_option snd (write_movie env (s4\<lparr>g_movie_inputs := take n (frz_input_buffer fr)\<rparr>)) } \<and>
    g_header s3 = h \<and> g_movie_inputs s3 = g_movie_inputs s \<and> g_task s3 = task_recording \<and> m_current_sample s3 = m_current_sample s \<and>
    m_current_vi s3 = m_current_vi s \<and> vcr_files s3 = vcr_files s \<and> g_movie_path s3 = g_movie_path s \<and> world s3 = world s \<and>
    vcr_write_extended_format (cfg s3) = vcr_write_extended_format (cfg s)"
proof -
  define s1 where "s1 = announce_movie (s\<lparr>g_task := task_recording\<rparr>)"
  define h0 where "h0 = set_rerecord_count (get_rerecord_count (g_header s1) + 1) (g_header s1)"
  define s2 where "s2 = emit (Ev_rerecords (get_rerecord_count h0))
       (s1\<lparr>g_header := h0, cfg := (cfg s1)\<lparr>total_rerecords := total_rerecords (cfg s1) + 1\<rparr>\<rparr>)"
  define s3 where "s3 = s2\<lparr>g_header := (g_header s2)\<lparr>length_samples := frz_current_sample fr\<rparr>\<rparr>"
  have w: "g_warp_modify_active s2 = False" "vcr_backups (cfg s3) = vcr_backups (cfg s)" using assms(1) by (simp_all add: s1_def s2_def s3_def)
  have "unfreeze_recording env fr task_recording s = (if g_warp_modify_active s2 then Some s2 else do {
      s4 \<leftarrow> (if vcr_backups (cfg s3) then map_option snd (write_backup_impl env s3) else Some s3);
      if n > length (frz_input_buffer fr) then None
      else map_option snd (write_movie env (s4\<lparr>g_movie_inputs := take n (frz_input_buffer fr)\<rparr>)) })"
    by (simp only: unfreeze_recording_def Let_def vcr_task.distinct if_False Option.bind.simps assms(3) s3_def s2_def h0_def s1_def)
  then have eq: "unfreeze_recording env fr task_recording s = do {
      s4 \<leftarrow> (if vcr_backups (cfg s) then map_option snd (write_backup_impl env s3) else Some s3);
      if n > length (frz_input_buffer fr) then None
      else map_option snd (write_movie env (s4\<lparr>g_movie_inputs := take n (frz_input_buffer fr)\<rparr>)) }"
    by (simp only: w if_False)
  show ?thesis
    by (intro exI [of _ s3] conjI, rule eq) (simp_all add: s3_def s2_def s1_def assms(2) h0_def)
qed

lemma backup_written:
  assumes "movie_file (vcr_write_extended_format (cfg s)) (g_header s) (g_movie_inputs s) = Some f"
  shows "write_backup_impl env s = Some (writable env (path_string (backup_path env s)),
    s\<lparr>vcr_files := (if writable env (path_string (backup_path env s))
       then (vcr_files s)(path_string (backup_path env s) \<mapsto> f) else vcr_files s)\<rparr>)"
  using assms by (simp add: write_backup_impl_def write_movie_impl_def backup_path_def)

lemma movie_written:
  assumes "movie_file (vcr_write_extended_format (cfg s)) (g_header s) (g_movie_inputs s) = Some f" "g_task s = task_recording"
  shows "write_movie env s = Some (writable env (path_string (g_movie_path s)),
    s\<lparr>vcr_files := (if writable env (path_string (g_movie_path s))
       then (vcr_files s)(path_string (g_movie_path s) \<mapsto> f) else vcr_files s)\<rparr>)"
  using assms by (simp add: write_movie_def write_movie_impl_def vcr_is_task_recording_def)

lemma unfreeze_when_recording:
  assumes "g_task s = task_recording" "16 \<le> frz_size fr" "frz_uid fr = uid (g_header s)" "\<not> vcr_readonly (cfg s)"
    "4 * (frz_length_samples fr + 1) \<le> frz_size fr" "seek_to_frame s = None"
  shows "core_vcr_unfreeze env fr s = do {
    s2 \<leftarrow> unfreeze_recording env fr task_recording
      (s\<lparr>m_current_sample := frz_current_sample fr, m_current_vi := frz_current_vi fr\<rparr>);
    Some (Res_Ok, emit Ev_unfreeze_completed (emit Ev_frame s2)) }"
  using assms(1,3,4,6) assms(2,5) [THEN leD] by (simp add: core_vcr_unfreeze_def)

text \<open>What freezing stores.\<close>

lemma freeze_stores:
  assumes "vcr_inv s" "g_task s \<noteq> task_idle" "length (g_movie_inputs s) < 2 ^ 29"
  shows "\<exists>fr s1. core_vcr_freeze env s = Some (Some fr, s1) \<and> frz_uid fr = uid (g_header s) \<and> 16 \<le> frz_size fr \<and>
    4 * (frz_length_samples fr + 1) \<le> frz_size fr \<and> frz_current_sample fr = m_current_sample s \<and>
    frz_current_vi fr = m_current_vi s \<and> frz_input_buffer fr = g_movie_inputs s @ [0]"
proof -
  let ?n = "length (g_movie_inputs s)"
  have n: "length_samples (g_header s) = of_nat ?n" using assms(1) by (simp add: vcr_inv_def)
  have u: "unat (of_nat ?n :: u32) = ?n" using assms(3) by (simp add: unat_of_nat)
  have size: "16 + 4 * (of_nat ?n + 1) = (of_nat (16 + 4 * (?n + 1)) :: u32)" "4 * (of_nat ?n + 1) = (of_nat (4 * (?n + 1)) :: u32)"
    by simp_all
  have le: "(16 :: u32) \<le> of_nat (16 + 4 * (?n + 1))" "(of_nat (4 * (?n + 1)) :: u32) \<le> of_nat (16 + 4 * (?n + 1))"
    "(of_nat ?n :: u32) + 1 \<noteq> 0"
    using assms(3) by (simp_all add: word_le_nat_alt unat_of_nat del: of_nat_add of_nat_mult)
      (simp add: word_unat_eq_iff unat_word_ariths unat_of_nat)
  obtain b s1 where "write_movie env s = Some (b, s1)" using write_movie_inv [OF assms(1)] by blast
  then show ?thesis
    using assms(2) le u unfolding core_vcr_freeze_def Let_def n size by (simp add: add.commute)
qed



text \<open>
  The backup that unfreezing writes is not one of the movie about to be
  overwritten: the length has been set to the frozen sample before, so the backup holds only the
  inputs in front of the sample, the ones behind it are lost, and when the current movie is shorter than
  the frozen sample the write reads behind the end of the input buffer.
\<close>

theorem unfreeze_backup_cut:
  assumes "vcr_inv t" "g_task t = task_recording" "16 \<le> frz_size fr" "frz_uid fr = uid (g_header t)" "\<not> vcr_readonly (cfg t)"
    "4 * (frz_length_samples fr + 1) \<le> frz_size fr" "seek_to_frame t = None" "\<not> g_warp_modify_active t"
    "vcr_backups (cfg t)" "writable env (path_string (backup_path env t))" "path_string (backup_path env t) \<noteq> path_string (g_movie_path t)"
    "n = unat (frz_current_sample fr)" "n \<le> length (frz_input_buffer fr)"
  shows "if n \<le> length (g_movie_inputs t)
    then \<exists>t' f. core_vcr_unfreeze env fr t = Some (Res_Ok, t') \<and> vcr_files t' (path_string (backup_path env t)) = Some f \<and>
      length f = header_size + 4 * n \<and> read_inputs f n = Some (take n (g_movie_inputs t))
    else core_vcr_unfreeze env fr t = None"
proof -
  let ?t = "t\<lparr>m_current_sample := frz_current_sample fr, m_current_vi := frz_current_vi fr\<rparr>"
  let ?h = "(set_rerecord_count (get_rerecord_count (g_header ?t) + 1) (g_header ?t))\<lparr>length_samples := frz_current_sample fr\<rparr>"
  obtain s3 where 3: "unfreeze_recording env fr task_recording ?t = do {
      s4 \<leftarrow> (if vcr_backups (cfg ?t) then map_option snd (write_backup_impl env s3) else Some s3);
      if n > length (frz_input_buffer fr) then None
      else map_option snd (write_movie env (s4\<lparr>g_movie_inputs := take n (frz_input_buffer fr)\<rparr>)) }"
    and f3: "g_header s3 = ?h" "g_movie_inputs s3 = g_movie_inputs t" "g_task s3 = task_recording" "vcr_files s3 = vcr_files t"
      "backup_path env s3 = backup_path env t" "g_movie_path s3 = g_movie_path t"
    using unfreeze_recording_eq [of ?t ?h fr n env] assms(8,12) by (auto simp: backup_path_def)
  note run = unfreeze_when_recording [OF assms(2-7), of env, unfolded 3]
  have len: "unat (length_samples ?h) = n" using assms(12) by simp
  show ?thesis
  proof (cases "n \<le> length (g_movie_inputs t)")
    case True
    define e where "e = (if vcr_write_extended_format (cfg s3) then ?h else strip_extended ?h)"
    have e: "header_wf e" "length_samples e = frz_current_sample fr"
      using assms(1) by (auto simp: e_def vcr_inv_def header_wf_def strip_extended_def Let_def set_rerecord_count_def)
    define f where "f = header_bytes e @ inputs_bytes (take n (g_movie_inputs t))"
    have f: "movie_file (vcr_write_extended_format (cfg s3)) ?h (g_movie_inputs t) = Some f"
      using True e(2) assms(12) unfolding movie_file_def Let_def e_def [symmetric] f_def by simp
    have "length f = header_size + 4 * n" "read_inputs f n = Some (take n (g_movie_inputs t))"
      using read_inputs_written [OF length_header_bytes [OF e(1)], of "take n (g_movie_inputs t)"] length_header_bytes [OF e(1)] True
      by (simp_all add: f_def)
    moreover obtain g where "movie_file (vcr_write_extended_format (cfg s3)) ?h (take n (frz_input_buffer fr)) = Some g"
      using movie_file_length [of ?h "take n (frz_input_buffer fr)"] len assms(13) by auto
    ultimately show ?thesis
      using True assms(9-11,13) f f3 unfolding run by (simp add: backup_written movie_written)
  next
    case False
    have "movie_file ext ?h (g_movie_inputs t) = None" for ext
      using False assms(12) by (simp add: movie_file_def Let_def strip_extended_def)
    then show ?thesis
      using False assms(9,10) f3 unfolding run by (simp add: write_backup_impl_def write_movie_impl_def backup_path_def)
  qed
qed

theorem unfreeze_backup_cut_witness:
  "core_vcr_unfreeze example_env \<lparr>frz_size = 32, frz_uid = 0, frz_current_sample = 2, frz_current_vi = 0, frz_length_samples = 3,
      frz_input_buffer = [1, 2, 3, 0]\<rparr> (example_vcr task_recording 1 [5]) = None"
proof -
  let ?t = "example_vcr task_recording 1 [5]"
  let ?fr = "\<lparr>frz_size = 32, frz_uid = 0, frz_current_sample = 2, frz_current_vi = 0, frz_length_samples = 3,
      frz_input_buffer = [1, 2, 3, 0]\<rparr>"
  have u: "uid (movie_example n) = 0" for n
    by (simp add: movie_example_def header_of_bytes_def u32_at_def le_word_def numeral_eq_Suc)
  have p: "path_string (backup_path example_env ?t) \<noteq> path_string (g_movie_path ?t)"
    by (simp add: path_string_def backup_path_def example_env_def m64_def)
  have "if 2 \<le> length (g_movie_inputs ?t)
    then \<exists>t' f. core_vcr_unfreeze example_env ?fr ?t = Some (Res_Ok, t') \<and> vcr_files t' (path_string (backup_path example_env ?t)) = Some f \<and>
      length f = header_size + 4 * 2 \<and> read_inputs f 2 = Some (take 2 (g_movie_inputs ?t))
    else core_vcr_unfreeze example_env ?fr ?t = None"
    by (rule unfreeze_backup_cut [OF example_vcr_inv _ _ _ _ _ _ _ _ _ p]) (simp_all add: u)
  then show ?thesis by (simp only: example_vcr_fields) simp
qed

section \<open>Seeking backwards\<close>

text \<open>The savestates that can serve a seek: those before the frame, and not too far before it.\<close>

definition seek_candidates :: "u64 \<Rightarrow> u64 list \<Rightarrow> u64 set" where
  "seek_candidates frame ks = {k \<in> set ks. k < frame \<and> frame - k < 0x7FFFFFFF}"

lemma distance_less:
  fixes frame :: u64
  shows "k < frame \<Longrightarrow> l < frame \<Longrightarrow> frame - k < frame - l \<longleftrightarrow> l < k"
  by (simp add: word_less_nat_alt unat_sub word_le_nat_alt) linarith

lemma small_distance:
  fixes d :: u64
  assumes "d < 0x7FFFFFFF"
  shows "size_of_int (ucast d) = d"
proof -
  define n where "n = unat d"
  have n: "n < 2 ^ 31" "d = of_nat n" using assms by (simp_all add: n_def word_less_nat_alt)
  have "(ucast (of_nat n :: u64) :: u32) = of_nat n" using n(1) by (simp add: unsigned_of_nat take_bit_nat_eq_self)
  then show ?thesis using size_of_int_nat [OF n(1)] by (simp add: n(2))
qed

lemma closest_before_greatest:
  assumes "size_of_int lowest = d" "d \<le> 0x7FFFFFFF"
  shows "closest_before frame sts lowest lf =
    (let K = {k \<in> fst ` set sts. k < frame \<and> frame - k < d} in if K = {} then lf else Max K)"
  using assms
proof (induction frame sts lowest lf arbitrary: d rule: closest_before.induct)
  case (2 frame slot b sts lowest lf)
  let ?K = "\<lambda>d. {k \<in> fst ` set sts. k < frame \<and> frame - k < d}"
  have K: "{k \<in> fst ` set ((slot, b) # sts). k < frame \<and> frame - k < d} =
      (if slot < frame \<and> frame - slot < d then insert slot (?K d) else ?K d)" by auto
  show ?case
  proof (cases "slot < frame \<and> frame - slot < d")
    case True
    then have lt: "slot < frame" "frame - slot < 0x7FFFFFFF" using 2(5) by auto
    then have IH: "closest_before frame sts (ucast (frame - slot)) slot = (let K = ?K (frame - slot) in if K = {} then slot else Max K)"
      using 2(2) [of "frame - slot"] True 2(4) small_distance [OF lt(2)] by (auto simp: not_le)
    have above: "?K (frame - slot) = {k \<in> ?K d. slot < k}"
      using True by (auto simp: distance_less intro: less_trans)
    have mx: "Max (insert slot (?K d)) = (if ?K (frame - slot) = {} then slot else Max (?K (frame - slot)))"
    proof (cases "?K (frame - slot) = {}")
      case True
      then have "\<forall>k\<in>?K d. k \<le> slot" unfolding above by (auto simp: not_less)
      then show ?thesis using True by (intro Max_eqI) auto
    next
      case False
      let ?m = "Max (?K (frame - slot))"
      have m: "?m \<in> ?K (frame - slot)" using False by (intro Max_in) auto
      have "k \<le> ?m" if "k \<in> insert slot (?K d)" for k
      proof (cases "slot < k")
        case True
        then show ?thesis using that above by (intro Max_ge) auto
      next
        case False
        then show ?thesis using m above by auto
      qed
      then show ?thesis using False m above by (intro Max_eqI) auto
    qed
    have "closest_before frame ((slot, b) # sts) lowest lf = closest_before frame sts (ucast (frame - slot)) slot"
      using True 2(4) by (auto dest: leD)
    then show ?thesis
      by (simp only: IH K Let_def True simp_thms if_True mx insert_not_empty if_False)
  next
    case False
    then have "closest_before frame ((slot, b) # sts) lowest lf = closest_before frame sts lowest lf"
      using 2(4) by auto
    also have "\<dots> = (let K = ?K d in if K = {} then lf else Max K)"
      using 2(1,3) [of d] 2(4,5) False by (cases "slot \<ge> frame") (auto simp: not_le)
    finally show ?thesis by (simp only: K False if_False)
  qed
qed simp

lemma closest_savestate:
  "vcr_find_closest_savestate_before_frame frame s =
    (let K = seek_candidates frame (core_vcr_get_seek_savestate_frames s) in if K = {} then 0 else Max K)"
proof -
  have "size_of_int 0x7FFFFFFF = 0x7FFFFFFF" using size_of_int_nat [of "0x7FFFFFFF"] by simp
  then show ?thesis
    using closest_before_greatest [where lowest = "0x7FFFFFFF" and d = "0x7FFFFFFF" and frame = frame and sts = "g_seek_savestates s" and lf = 0]
    by (simp add: vcr_find_closest_savestate_before_frame_def seek_candidates_def core_vcr_get_seek_savestate_frames_def)
qed



section \<open>The invariant after every sequence of operations\<close>



section \<open>Departures\<close>

text \<open>
  The inputs of a second controller are not played back. Recording appends the
  inputs of the controllers one after the other and counts one sample for each; playback looks for the
  input of controller 1 one place behind the current sample. A movie with one frame of two controllers
  returns the first input and then reads behind the end of the buffer.
\<close>

theorem second_controller_not_replayed:
  assumes "recording_at_end s" "g_movie_inputs s = []" "transparent env'" "playing_at 0 t"
    "controller_flags (g_header t) AND 2 \<noteq> 0" "seek_to_frame t = None"
  shows "\<exists>a b s1 s2. vcr_on_controller_poll env 0 x s = Some (a, s1) \<and> vcr_on_controller_poll env 1 y s1 = Some (b, s2) \<and>
    g_movie_inputs s2 = [a, b] \<and>
    (if g_movie_inputs t = [a, b] \<and> a \<noteq> 0xC000
     then \<exists>t1. vcr_on_controller_poll env' 0 x t = Some (a, t1) \<and> vcr_on_controller_poll env' 1 y t1 = None else True)"
proof -
  obtain a s1 where 1: "vcr_on_controller_poll env 0 x s = Some (a, s1)" "recording_at_end s1" "g_movie_inputs s1 = [a]"
    using recording_poll [OF assms(1), of 0 env x] assms(2) by auto
  then obtain b s2 where 2: "vcr_on_controller_poll env 1 y s1 = Some (b, s2)" "g_movie_inputs s2 = [a, b]"
    using recording_poll [OF 1(2), of 1 env y] by auto
  have "\<exists>t1. vcr_on_controller_poll env' 0 x t = Some (a, t1) \<and> vcr_on_controller_poll env' 1 y t1 = None"
    if t: "g_movie_inputs t = [a, b]" "a \<noteq> 0xC000"
  proof -
    obtain t1 where 3: "vcr_on_controller_poll env' 0 x t = Some (a, t1)" "playing_at 1 t1" "same_movie t t1" "seek_to_frame t1 = None"
      using playback_poll [OF assms(3,4), of x] t assms(6) by auto
    define u where "u = vcr_create_seek_savestates t1"
    define v where "v = (if wait_at_movie_end (cfg u) \<and> m_current_sample u = length_samples (g_header u) - 1 then core_vr_pause_emu u else u)"
    have v: "g_movie_inputs v = [a, b]" "m_current_sample v = 1" "length_samples (g_header v) = 2" "controller_flags (g_header v) AND 2 \<noteq> 0"
      using 3(2,3) t(1) assms(5) by (auto simp: u_def v_def playing_at_def same_movie_def vcr_inv_def)
    have "vcr_handle_playback env' 1 y u = None"
      using v 3(2) unfolding vcr_handle_playback_def Let_def v_def [symmetric]
      by (simp add: u_def playing_at_def CONTROLLER_X_PRESENT_def size_of_int_def word_sle_eq)
    moreover have "vcr_on_controller_poll env' 1 y t1 = vcr_handle_playback env' 1 y u"
      using 3(2,4) by (simp add: vcr_on_controller_poll_def playing_at_def attentive_def vcr_stop_seek_if_needed_def no_starting_task
          vcr_handle_recording_def u_def Let_def)
    ultimately show ?thesis using 3(1) by simp
  qed
  with 1(1) 2 show ?thesis by auto
qed

theorem second_controller_not_replayed_witness:
  "\<exists>t1. vcr_on_controller_poll example_env 0 0 ((example_vcr task_playback 0 [0, 1])
      \<lparr>g_header := (movie_example 2)\<lparr>controller_flags := 3\<rparr>\<rparr>) = Some (0, t1) \<and> vcr_on_controller_poll example_env 1 0 t1 = None"
proof -
  let ?t = "(example_vcr task_playback 0 [0, 1])\<lparr>g_header := (movie_example 2)\<lparr>controller_flags := 3\<rparr>\<rparr>"
  have t: "playing_at 0 ?t"
    using movie_example_fields(1) [of 2] by (simp add: playing_at_def attentive_def vcr_inv_def header_wf_def)
  obtain a b s1 s2 where 1: "vcr_on_controller_poll example_env 0 0 (example_vcr task_recording 0 []) = Some (a, s1)"
      "vcr_on_controller_poll example_env 1 0 s1 = Some (b, s2)"
    and 2: "if g_movie_inputs ?t = [a, b] \<and> a \<noteq> 0xC000
     then \<exists>t1. vcr_on_controller_poll example_env 0 0 ?t = Some (a, t1) \<and> vcr_on_controller_poll example_env 1 0 t1 = None else True"
    using second_controller_not_replayed [OF example_recording _ example_transparent t, of example_env 0 0] by auto
  have "a = 0" "b = 1"
    using 1 by (auto simp: vcr_on_controller_poll_def vcr_stop_seek_if_needed_def
        vcr_handle_starting_tasks_def vcr_create_seek_savestates_def vcr_handle_recording_def vcr_handle_playback_def size_of_int_def)
  with 2 show ?thesis by simp
qed

text \<open>
  Stopping does not stop a recording that is about to start from a savestate:
  \<^verbatim>\<open>core_vcr_stop_all\<close> leaves the task as it is, and when the savestate has been saved or loaded, the
  engine records.
\<close>

theorem stop_keeps_snapshot_start:
  assumes "g_task s = task_start_recording_from_snapshot \<and> p = Save_movie_state q \<or>
    g_task s = task_start_recording_from_existing_snapshot \<and> p = Load_existing_state q"
  shows "\<exists>s1 s2. core_vcr_stop_all env s = Some (Res_Ok, s1) \<and> complete env p True buf s1 = Some s2 \<and> g_task s2 = task_recording"
  using assms
  by (auto simp: core_vcr_stop_all_def vcr_stop_record_def vcr_is_task_recording_def Let_def vcr_clear_seek_savestates_def
      setkeys_with_zero_def)

theorem stop_keeps_snapshot_start_witness:
  "\<exists>s1 s2. core_vcr_stop_all example_env (example_vcr task_start_recording_from_snapshot 0 []) = Some (Res_Ok, s1) \<and>
    complete example_env (Save_movie_state m64) True [] s1 = Some s2 \<and> g_task s2 = task_recording"
  by (rule stop_keeps_snapshot_start) simp

lemma read_movie_header_error: "read_movie_header b \<noteq> Some (Inl Res_Ok)"
  by (simp add: read_movie_header_def Let_def split: Option.bind_split)

text \<open>
  Starting playback while a movie plays keeps the cheats of the old movie: the
  layer of the new movie is pushed before the old playback is stopped, and the stop pops the top layer, so
  the new movie runs with the cheats of the old one.
\<close>

theorem restart_keeps_old_cheats:
  assumes "is_task_playback (g_task s)" "cheat_stack (vcr_cheats s) = old # ls"
    "find_accompanying_file_for_movie (vcr_files s) p [''.cht''] = None" "core_executing env (world s)"
    "core_vcr_start_playback env p s = Some (Res_Ok, s')"
  shows "core_cht_get_list (vcr_cheats s') = old"
proof -
  obtain h xs s1 where 1: "playback_checks env h s = Some (Res_Ok, s1)" and
    2: "Option.bind (push_movie_cheats env p s1) (\<lambda>(ok, s3). if \<not> ok then Some (Res_Cancelled, s3) else begin_playback env p h xs s3) = Some (Res_Ok, s')"
    using assms(4,5) read_movie_header_error unfolding core_vcr_start_playback_def Let_def
    by (auto elim!: bind_SomeE split: if_split_asm sum.split_asm prod.split_asm)
  note f = asked_fields [OF playback_checks_asked [OF 1]]
  let ?s2 = "s1\<lparr>vcr_cheats := cht_layer_push [] (vcr_cheats s1)\<rparr>"
  have "push_movie_cheats env p s1 = Some (True, ?s2)" using assms(3) f by (simp add: push_movie_cheats_def)
  then have b: "begin_playback env p h xs ?s2 = Some (Res_Ok, s')" using 2 by simp
  have "\<exists>u. core_vcr_stop_all env ?s2 = Some (Res_Ok, u) \<and> vcr_cheats u = vcr_cheats s1"
    using assms(1) f
    by (auto simp: core_vcr_stop_all_def is_task_playback_def vcr_stop_playback_def Let_def vcr_clear_seek_savestates_def
        setkeys_with_zero_def cht_layer_pop_def cht_layer_push_def)
  then have "vcr_cheats s' = vcr_cheats s1"
    using b by (auto simp: begin_playback_def announce_movie_def Let_def split: if_split_asm option.split_asm)
  then show ?thesis using f assms(2) by (simp add: core_cht_get_list_def)
qed

theorem restart_keeps_old_cheats_witness:
  "\<exists>f s'. core_vcr_start_playback example_env m64 ((example_vcr task_playback 0 [])\<lparr>vcr_files := (\<lambda>_. None)(path_string m64 \<mapsto> f),
       vcr_cheats := \<lparr>host_cheats = [], cheat_stack = [[new_cheat]]\<rparr>\<rparr>) = Some (Res_Ok, s') \<and>
     core_cht_get_list (vcr_cheats s') = [new_cheat]"
proof -
  obtain f where f: "read_movie_header f = Some (Inr (read_back (movie_example 0)))" "read_inputs f 0 = Some []" "length f = header_size"
    using movie_file_read [OF movie_example_v3, of 0 "[]"] by auto
  have ne: "f \<noteq> []" using f(3) by auto
  let ?s = "(example_vcr task_playback 0 [])\<lparr>vcr_files := (\<lambda>_. None)(path_string m64 \<mapsto> f),
       vcr_cheats := \<lparr>host_cheats = [], cheat_stack = [[new_cheat]]\<rparr>\<rparr>"
  have ag: "agreeable example_env m64 (read_back (movie_example 0)) ?s"
    using example_agreeable [of ?s f 0] by (simp add: agreeable_def read_back_def)
  obtain s1 where 1: "asked ?s s1" "core_vcr_start_playback example_env m64 ?s =
      begin_playback example_env m64 (read_back (movie_example 0)) [] (s1\<lparr>vcr_cheats := cht_layer_push [] (vcr_cheats s1)\<rparr>)"
    using playback_agreed [OF ag, of f "[]"] f ne by (auto simp: read_back_def)
  obtain s' where s': "core_vcr_start_playback example_env m64 ?s = Some (Res_Ok, s')"
    using 1(2) asked_fields [OF 1(1)]
    by (simp add: begin_playback_def core_vcr_stop_all_def vcr_clear_seek_savestates_def setkeys_with_zero_def vcr_stop_playback_def
        is_task_playback_def cht_layer_push_def cht_layer_pop_def Let_def read_back_def)
  have "core_cht_get_list (vcr_cheats s') = [new_cheat]"
    by (rule restart_keeps_old_cheats [OF _ _ _ _ s']) (use ag in \<open>simp_all add: is_task_playback_def agreeable_def\<close>)
  with s' show ?thesis by blast
qed

end
