(* ===== verification/Event_Queue.thy ===== *)
theory Event_Queue
  imports Mupen_Prelude "HOL-Library.Multiset"
begin

text \<open>
  The interrupt event queue of \<^verbatim>\<open>Core/r4300/interrupt.cpp\<close>: a singly linked
  list of events whose nodes are taken from the static pool \<^verbatim>\<open>g_pool\<close>.  A pointer
  to a node is the node's index in the pool (\<^term>\<open>None\<close> for \<^verbatim>\<open>NULL\<close>), every
  traversal is the source's loop, and an access past the end of the pool is the
  value \<^term>\<open>None\<close>.  The theory relates the linked representation to the list of
  pending events, shows that every operation refines its list-level
  specification, and proves the round trip of the queue through a savestate.
\<close>

section \<open>Data\<close>

abbreviation (input) VI_INT :: u32 where "VI_INT \<equiv> 0x001"
abbreviation (input) COMPARE_INT :: u32 where "COMPARE_INT \<equiv> 0x002"
abbreviation (input) CHECK_INT :: u32 where "CHECK_INT \<equiv> 0x004"
abbreviation (input) SI_INT :: u32 where "SI_INT \<equiv> 0x008"
abbreviation (input) PI_INT :: u32 where "PI_INT \<equiv> 0x010"
abbreviation (input) SPECIAL_INT :: u32 where "SPECIAL_INT \<equiv> 0x020"
abbreviation (input) AI_INT :: u32 where "AI_INT \<equiv> 0x040"
abbreviation (input) SP_INT :: u32 where "SP_INT \<equiv> 0x080"
abbreviation (input) DP_INT :: u32 where "DP_INT \<equiv> 0x100"

record interrupt_queue =
  iq_type :: u32
  iq_count :: u32
  iq_next :: "nat option"

text \<open>
  The file-level variables.  \<^verbatim>\<open>g_known_unused_index\<close> is \<^term>\<open>None\<close> where the
  source has \<^verbatim>\<open>SIZE_MAX\<close>; \<^verbatim>\<open>g_pool_used\<close> has one flag per \<^emph>\<open>byte\<close> of the pool
  (the source sizes it with \<^verbatim>\<open>sizeof(g_pool)\<close>), and a node takes 16 bytes on x64.
\<close>

record queue_state =
  q_head :: "nat option"
  g_pool :: "nat \<Rightarrow> interrupt_queue"
  g_pool_used :: "nat \<Rightarrow> bool"
  g_known_unused_index :: "nat option"
  SPECIAL_done :: bool
  next_interrupt :: u32

definition pool_size :: nat where "pool_size = 128"

definition sizeof_g_pool :: nat where "sizeof_g_pool = pool_size * 16"

type_synonym event = "u32 \<times> u32"

section \<open>The node pool\<close>

definition pool_alloc :: "queue_state \<Rightarrow> (nat \<times> queue_state) option" where
  "pool_alloc s = do {
     unused_index \<leftarrow> (case g_known_unused_index s of
         Some i \<Rightarrow> Some i
       | None \<Rightarrow> List.find (\<lambda>i. \<not> g_pool_used s i) [0..<sizeof_g_pool]);
     Some (unused_index, s\<lparr>g_pool_used := (g_pool_used s)(unused_index := True),
                           g_known_unused_index := None\<rparr>) }"

definition pool_free :: "nat \<Rightarrow> queue_state \<Rightarrow> queue_state" where
  "pool_free index_in_pool s = s\<lparr>g_pool_used := (g_pool_used s)(index_in_pool := False),
                                 g_known_unused_index := Some index_in_pool\<rparr>"

definition pool_clear :: "queue_state \<Rightarrow> queue_state" where
  "pool_clear s = s\<lparr>g_pool_used := (\<lambda>_. False), g_known_unused_index := None\<rparr>"

text \<open>Writing a freshly allocated node: outside \<^verbatim>\<open>g_pool\<close> the store is undefined.\<close>

definition store_node :: "nat \<Rightarrow> interrupt_queue \<Rightarrow> queue_state \<Rightarrow> queue_state option" where
  "store_node i n s = (if i < pool_size then Some (s\<lparr>g_pool := (g_pool s)(i := n)\<rparr>) else None)"

definition set_next :: "nat \<Rightarrow> nat option \<Rightarrow> queue_state \<Rightarrow> queue_state" where
  "set_next i p s = s\<lparr>g_pool := (g_pool s)(i := (g_pool s i)\<lparr>iq_next := p\<rparr>)\<rparr>"

partial_function (option) clear_walk ::
  "(nat \<Rightarrow> interrupt_queue) \<Rightarrow> nat option \<Rightarrow> nat option option" where
  "clear_walk pool p = (case p of None \<Rightarrow> Some None | Some i \<Rightarrow> clear_walk pool (iq_next (pool i)))"

definition clear_queue :: "queue_state \<Rightarrow> queue_state option" where
  "clear_queue s = do {
     p \<leftarrow> clear_walk (g_pool s) (q_head s);
     Some (pool_clear (s\<lparr>q_head := p\<rparr>)) }"

section \<open>Operations\<close>

definition before_event :: "u32 \<Rightarrow> bool \<Rightarrow> u32 \<Rightarrow> u32 \<Rightarrow> u32 \<Rightarrow> bool" where
  "before_event core_Count special_done evt1 evt2 type2 =
    (if evt1 - core_Count < 0x80000000 then
       if evt2 - core_Count < 0x80000000 then evt1 - core_Count < evt2 - core_Count
       else if core_Count - evt2 < 0x10000000 then
         (if type2 = SPECIAL_INT then special_done else False)
       else True
     else False)"

text \<open>
  The shape of every search loop of the file,
  \<^verbatim>\<open>while (aux->next != NULL && cond(aux->next)) aux = aux->next;\<close>
\<close>

partial_function (option) walk_while ::
  "(interrupt_queue \<Rightarrow> bool) \<Rightarrow> (nat \<Rightarrow> interrupt_queue) \<Rightarrow> nat \<Rightarrow> nat option" where
  "walk_while cond pool aux = (case iq_next (pool aux) of
      None \<Rightarrow> Some aux
    | Some n \<Rightarrow> if cond (pool n) then walk_while cond pool n else Some aux)"

definition get_event :: "u32 \<Rightarrow> queue_state \<Rightarrow> u32 option" where
  "get_event type s = (case q_head s of
      None \<Rightarrow> Some 0
    | Some a \<Rightarrow>
        if iq_type (g_pool s a) = type then Some (iq_count (g_pool s a))
        else do {
          aux \<leftarrow> walk_while (\<lambda>n. iq_type n \<noteq> type) (g_pool s) a;
          Some (case iq_next (g_pool s aux) of
              Some n \<Rightarrow> iq_count (g_pool s n)
            | None \<Rightarrow> 0) })"

definition add_interrupt_event :: "u32 \<Rightarrow> u32 \<Rightarrow> u32 \<Rightarrow> queue_state \<Rightarrow> queue_state option" where
  "add_interrupt_event core_Count type delay s0 =
    (let count = core_Count + delay;
         special = (type = SPECIAL_INT);
         s = (if core_Count > 0x80000000 then s0\<lparr>SPECIAL_done := False\<rparr> else s0)
     in do {
       _ \<leftarrow> get_event type s;
       case q_head s of
         None \<Rightarrow> do {
           (i, s1) \<leftarrow> pool_alloc s;
           s2 \<leftarrow> store_node i \<lparr>iq_type = type, iq_count = count, iq_next = None\<rparr> s1;
           Some (s2\<lparr>q_head := Some i, next_interrupt := count\<rparr>) }
       | Some a \<Rightarrow>
           if before_event core_Count (SPECIAL_done s) count (iq_count (g_pool s a)) (iq_type (g_pool s a))
              \<and> \<not> special
           then do {
             (i, s1) \<leftarrow> pool_alloc s;
             s2 \<leftarrow> store_node i \<lparr>iq_type = type, iq_count = count, iq_next = Some a\<rparr> s1;
             Some (s2\<lparr>q_head := Some i, next_interrupt := count\<rparr>) }
           else do {
             aux \<leftarrow> walk_while (\<lambda>n. \<not> before_event core_Count (SPECIAL_done s) count (iq_count n) (iq_type n)
                                     \<or> special) (g_pool s) a;
             case iq_next (g_pool s aux) of
               None \<Rightarrow> do {
                 (i, s1) \<leftarrow> pool_alloc s;
                 s2 \<leftarrow> store_node i \<lparr>iq_type = type, iq_count = count, iq_next = None\<rparr> s1;
                 Some (set_next aux (Some i) s2) }
             | Some _ \<Rightarrow> do {
                 aux' \<leftarrow> (if type \<noteq> SPECIAL_INT
                            then walk_while (\<lambda>n. iq_count n = count) (g_pool s) aux else Some aux);
                 (i, s1) \<leftarrow> pool_alloc s;
                 s2 \<leftarrow> store_node i
                   \<lparr>iq_type = type, iq_count = count, iq_next = iq_next (g_pool s aux')\<rparr> s1;
                 Some (set_next aux' (Some i) s2) } } })"

definition add_interrupt_event_count ::
  "u32 \<Rightarrow> u32 \<Rightarrow> u32 \<Rightarrow> queue_state \<Rightarrow> queue_state option" where
  "add_interrupt_event_count core_Count type at = add_interrupt_event core_Count type (at - core_Count)"

definition remove_interrupt_event :: "u32 \<Rightarrow> queue_state \<Rightarrow> queue_state option" where
  "remove_interrupt_event core_Count s = do {
     a \<leftarrow> q_head s;
     let aux = iq_next (g_pool s a);
     let s1 = (if iq_type (g_pool s a) = SPECIAL_INT then s\<lparr>SPECIAL_done := True\<rparr> else s);
     let s2 = (pool_free a s1)\<lparr>q_head := aux\<rparr>;
     Some (s2\<lparr>next_interrupt := (case aux of
         Some n \<Rightarrow>
           if iq_count (g_pool s2 n) > core_Count \<or> core_Count - iq_count (g_pool s2 n) < 0x80000000
           then iq_count (g_pool s2 n) else 0
       | None \<Rightarrow> 0)\<rparr>) }"

definition remove_event :: "u32 \<Rightarrow> queue_state \<Rightarrow> queue_state option" where
  "remove_event type s = (case q_head s of
      None \<Rightarrow> Some s
    | Some a \<Rightarrow>
        if iq_type (g_pool s a) = type then Some ((pool_free a s)\<lparr>q_head := iq_next (g_pool s a)\<rparr>)
        else do {
          aux \<leftarrow> walk_while (\<lambda>n. iq_type n \<noteq> type) (g_pool s) a;
          Some (case iq_next (g_pool s aux) of
              Some n \<Rightarrow> set_next aux (iq_next (g_pool s n)) (pool_free n s)
            | None \<Rightarrow> s) })"

text \<open>The loop of \<^verbatim>\<open>translate_event_queue\<close>: every remaining node is rebased in place.\<close>

partial_function (option) rebase_walk ::
  "u32 \<Rightarrow> u32 \<Rightarrow> nat option \<Rightarrow> (nat \<Rightarrow> interrupt_queue) \<Rightarrow> (nat \<Rightarrow> interrupt_queue) option" where
  "rebase_walk core_Count base aux pool = (case aux of
      None \<Rightarrow> Some pool
    | Some i \<Rightarrow> rebase_walk core_Count base (iq_next (pool i))
        (pool(i := (pool i)\<lparr>iq_count := (iq_count (pool i) - core_Count) + base\<rparr>)))"

definition translate_event_queue :: "u32 \<Rightarrow> u32 \<Rightarrow> u32 \<Rightarrow> queue_state \<Rightarrow> queue_state option" where
  "translate_event_queue core_Count core_Compare base s = do {
     s1 \<leftarrow> remove_event COMPARE_INT s;
     s2 \<leftarrow> remove_event SPECIAL_INT s1;
     pool \<leftarrow> rebase_walk core_Count base (q_head s2) (g_pool s2);
     s3 \<leftarrow> add_interrupt_event_count core_Count COMPARE_INT core_Compare (s2\<lparr>g_pool := pool\<rparr>);
     add_interrupt_event_count core_Count SPECIAL_INT 0 s3 }"

text \<open>The bytes that \<^verbatim>\<open>save_eventqueue_infos\<close> puts into its buffer.\<close>

partial_function (option) save_walk :: "(nat \<Rightarrow> interrupt_queue) \<Rightarrow> nat option \<Rightarrow> bytes \<Rightarrow> bytes option" where
  "save_walk pool aux buf = (case aux of
      None \<Rightarrow> Some (buf @ put_le32 0xFFFFFFFF)
    | Some i \<Rightarrow> save_walk pool (iq_next (pool i))
        (buf @ put_le32 (iq_type (pool i)) @ put_le32 (iq_count (pool i))))"

definition save_eventqueue_infos :: "queue_state \<Rightarrow> bytes option" where
  "save_eventqueue_infos s = (case q_head s of
      None \<Rightarrow> Some (put_le32 0xFFFFFFFF)
    | Some a \<Rightarrow> save_walk (g_pool s) (Some a) [])"

partial_function (option) load_walk :: "u32 \<Rightarrow> bytes \<Rightarrow> nat \<Rightarrow> queue_state \<Rightarrow> queue_state option" where
  "load_walk core_Count buf len s = do {
     type \<leftarrow> get_le32 buf len;
     if type = 0xFFFFFFFF then Some s
     else do {
       count \<leftarrow> get_le32 buf (len + 4);
       s1 \<leftarrow> add_interrupt_event_count core_Count type count s;
       load_walk core_Count buf (len + 8) s1 } }"

definition load_eventqueue_infos :: "u32 \<Rightarrow> bytes \<Rightarrow> queue_state \<Rightarrow> queue_state option" where
  "load_eventqueue_infos core_Count buf s = do {
     s1 \<leftarrow> clear_queue s;
     load_walk core_Count buf 0 s1 }"

section \<open>The list of pending events\<close>

text \<open>
  \<^term>\<open>path pool p is\<close>: following \<^verbatim>\<open>next\<close> from \<^term>\<open>p\<close> visits exactly the nodes
  \<^term>\<open>is\<close> and ends at \<^verbatim>\<open>NULL\<close>.  \<^term>\<open>queue_rep s is xs\<close> is the invariant of the
  component: the nodes are distinct, lie inside the pool, are exactly the ones
  marked as used (no node leaks), and hold the events \<^term>\<open>xs\<close> in order.
\<close>

fun path :: "(nat \<Rightarrow> interrupt_queue) \<Rightarrow> nat option \<Rightarrow> nat list \<Rightarrow> bool" where
  "path pool p [] = (p = None)"
| "path pool p (i # is) = (p = Some i \<and> path pool (iq_next (pool i)) is)"

definition event_at :: "(nat \<Rightarrow> interrupt_queue) \<Rightarrow> nat \<Rightarrow> event" where
  "event_at pool i = (iq_type (pool i), iq_count (pool i))"

definition queue_rep :: "queue_state \<Rightarrow> nat list \<Rightarrow> event list \<Rightarrow> bool" where
  "queue_rep s is xs \<longleftrightarrow>
     path (g_pool s) (q_head s) is \<and> distinct is \<and> xs = map (event_at (g_pool s)) is \<and>
     (\<forall>i. g_pool_used s i \<longleftrightarrow> i \<in> set is) \<and> (\<forall>i\<in>set is. i < pool_size) \<and>
     (case g_known_unused_index s of None \<Rightarrow> True | Some i \<Rightarrow> i < pool_size \<and> i \<notin> set is)"

definition queue_abs :: "queue_state \<Rightarrow> event list \<Rightarrow> bool" where
  "queue_abs s xs \<longleftrightarrow> (\<exists>is. queue_rep s is xs)"

section \<open>List-level specification\<close>

definition insert_event :: "(event \<Rightarrow> bool) \<Rightarrow> event \<Rightarrow> event list \<Rightarrow> event list" where
  "insert_event before e xs =
     takeWhile (\<lambda>x. \<not> before x) xs @ e # dropWhile (\<lambda>x. \<not> before x) xs"

definition special_after :: "u32 \<Rightarrow> bool \<Rightarrow> bool" where
  "special_after core_Count special_done = (if core_Count > 0x80000000 then False else special_done)"

definition spec_before :: "u32 \<Rightarrow> bool \<Rightarrow> u32 \<Rightarrow> u32 \<Rightarrow> event \<Rightarrow> bool" where
  "spec_before core_Count special_done type at e =
     (type \<noteq> SPECIAL_INT \<and>
      before_event core_Count (special_after core_Count special_done) at (snd e) (fst e))"

definition spec_add :: "u32 \<Rightarrow> bool \<Rightarrow> u32 \<Rightarrow> u32 \<Rightarrow> event list \<Rightarrow> event list" where
  "spec_add core_Count special_done type at xs =
     insert_event (spec_before core_Count special_done type at) (type, at) xs"

fun spec_get :: "u32 \<Rightarrow> event list \<Rightarrow> u32" where
  "spec_get type [] = 0"
| "spec_get type (x # xs) = (if fst x = type then snd x else spec_get type xs)"

fun spec_remove :: "u32 \<Rightarrow> event list \<Rightarrow> event list" where
  "spec_remove type [] = []"
| "spec_remove type (x # xs) = (if fst x = type then xs else x # spec_remove type xs)"

section \<open>Paths\<close>

lemma path_append:
  "path pool p (is @ j # js) \<Longrightarrow> path pool (Some j) (j # js)"
  by (induction "is" arbitrary: p) auto

lemma path_upd_notin [simp]:
  "i \<notin> set is \<Longrightarrow> path (pool(i := n)) p is = path pool p is"
  by (induction "is" arbitrary: p) auto

lemma path_next:
  "path pool p (is @ j # js) \<Longrightarrow> iq_next (pool j) = (case js of [] \<Rightarrow> None | k # _ \<Rightarrow> Some k)"
  by (induction "is" arbitrary: p) (cases js; auto)+

lemma path_insert_after:
  assumes "path pool p (is @ j # js)" "distinct (is @ j # js)" "i \<notin> set (is @ j # js)"
    and "n = \<lparr>iq_type = t, iq_count = c, iq_next = iq_next (pool j)\<rparr>"
  shows "path (pool(i := n, j := (pool j)\<lparr>iq_next := Some i\<rparr>)) p (is @ j # i # js)"
  using assms by (induction "is" arbitrary: p) auto

lemma path_remove_after:
  assumes "path pool p (is @ j # k # js)" "distinct (is @ j # k # js)"
  shows "path (pool(j := (pool j)\<lparr>iq_next := iq_next (pool k)\<rparr>)) p (is @ j # js)"
  using assms by (induction "is" arbitrary: p) auto

lemma event_at_next [simp]:
  "event_at (pool(j := (pool j)\<lparr>iq_next := p\<rparr>)) = event_at pool"
  by (rule ext) (simp add: event_at_def)

section \<open>Loops end and find their node\<close>

lemma walk_while_path:
  assumes "path pool (Some a) (a # is)"
  shows "walk_while cond pool a = Some (last (a # takeWhile (\<lambda>i. cond (pool i)) is))"
  using assms
proof (induction "is" arbitrary: a)
  case Nil
  then show ?case by (subst walk_while.simps) simp
next
  case (Cons i "is")
  then show ?case by (subst walk_while.simps) auto
qed

lemma clear_walk_path: "path pool p is \<Longrightarrow> clear_walk pool p = Some None"
proof (induction "is" arbitrary: p)
  case Nil
  then show ?case by (subst clear_walk.simps) simp
next
  case (Cons i "is")
  then show ?case by (subst clear_walk.simps) simp
qed

lemma save_walk_path:
  "path pool p is \<Longrightarrow> save_walk pool p buf =
     Some (buf @ concat (map (\<lambda>i. put_le32 (iq_type (pool i)) @ put_le32 (iq_count (pool i))) is)
           @ put_le32 0xFFFFFFFF)"
proof (induction "is" arbitrary: p buf)
  case Nil
  then show ?case by (subst save_walk.simps) simp
next
  case (Cons i "is")
  then show ?case by (subst save_walk.simps) simp
qed

lemma rebase_walk_path:
  assumes "path pool p is" "distinct is"
  shows "rebase_walk c base p pool = Some (\<lambda>i. if i \<in> set is
           then (pool i)\<lparr>iq_count := (iq_count (pool i) - c) + base\<rparr> else pool i)"
  using assms
proof (induction "is" arbitrary: p pool)
  case Nil
  then show ?case by (subst rebase_walk.simps) simp
next
  case (Cons i "is")
  let ?pool = "pool(i := (pool i)\<lparr>iq_count := (iq_count (pool i) - c) + base\<rparr>)"
  have "rebase_walk c base p pool = rebase_walk c base (iq_next (pool i)) ?pool"
    using Cons.prems by (subst rebase_walk.simps) simp
  also have "\<dots> = Some (\<lambda>k. if k \<in> set is
      then (?pool k)\<lparr>iq_count := (iq_count (?pool k) - c) + base\<rparr> else ?pool k)"
    by (rule Cons.IH, rule path_upd_notin [THEN iffD2]) (use Cons.prems in auto)
  also have "(\<lambda>k. if k \<in> set is then (?pool k)\<lparr>iq_count := (iq_count (?pool k) - c) + base\<rparr> else ?pool k)
      = (\<lambda>k. if k \<in> set (i # is) then (pool k)\<lparr>iq_count := (iq_count (pool k) - c) + base\<rparr> else pool k)"
    using Cons.prems by (auto simp: fun_eq_iff)
  finally show ?case .
qed

section \<open>The pool\<close>

lemma find_index_least:
  assumes "\<not> P k" "k < n"
  shows "\<exists>i\<le>k. List.find (\<lambda>i. \<not> P i) [0..<n] = Some i \<and> \<not> P i"
proof -
  define i where "i = (LEAST i. \<not> P i)"
  have i: "\<not> P i" "\<And>j. j < i \<Longrightarrow> P j"
    unfolding i_def using assms(1) by (rule LeastI, use not_less_Least in blast)
  then have "i \<le> k" using assms(1) by (meson not_le)
  moreover have "List.find (\<lambda>i. \<not> P i) [0..<n] = Some i"
    using i \<open>i \<le> k\<close> \<open>k < n\<close> by (auto simp: find_Some_iff intro!: exI [of _ i])
  ultimately show ?thesis using i(1) by blast
qed

lemma queue_rep_room:
  assumes "queue_rep s is xs" "length xs < pool_size"
  shows "\<exists>i<pool_size. \<not> g_pool_used s i"
proof -
  have "card (set is) < card {..<pool_size}"
    using assms by (auto simp: queue_rep_def distinct_card)
  then have "\<not> {..<pool_size} \<subseteq> set is"
    by (meson List.finite_set card_mono not_le)
  then show ?thesis using assms(1) by (auto simp: queue_rep_def)
qed

lemma pool_alloc_room:
  assumes "queue_rep s is xs" "length xs < pool_size"
  obtains i where "pool_alloc s = Some (i, s\<lparr>g_pool_used := (g_pool_used s)(i := True),
                                            g_known_unused_index := None\<rparr>)"
    and "i < pool_size" "i \<notin> set is"
proof (cases "g_known_unused_index s")
  case None
  obtain k where "k < pool_size" "\<not> g_pool_used s k" using queue_rep_room [OF assms] by blast
  then obtain i where "i \<le> k" "List.find (\<lambda>i. \<not> g_pool_used s i) [0..<sizeof_g_pool] = Some i"
      "\<not> g_pool_used s i"
    using find_index_least [of "g_pool_used s" k sizeof_g_pool]
    by (auto simp: sizeof_g_pool_def)
  with None \<open>k < pool_size\<close> assms(1) show thesis
    by (intro that [of i]) (auto simp: pool_alloc_def queue_rep_def)
next
  case (Some i)
  with assms(1) show thesis by (intro that [of i]) (auto simp: pool_alloc_def queue_rep_def)
qed

section \<open>Refinement of the operations\<close>

lemma spec_before_special [simp]: "spec_before c d SPECIAL_INT n e = False"
  by (simp add: spec_before_def)

lemma before_event_same_count [simp]: "\<not> before_event c d n n t"
  by (simp add: before_event_def)

lemma queue_rep_pool_cong:
  "queue_rep s is xs \<Longrightarrow> queue_rep (s\<lparr>SPECIAL_done := b\<rparr>) is xs"
  "queue_rep s is xs \<Longrightarrow> queue_rep (s\<lparr>next_interrupt := n\<rparr>) is xs"
  by (auto simp: queue_rep_def)

text \<open>Where a search loop stops: the nodes before, the node found, the nodes after.\<close>

lemma walk_while_split:
  assumes "path pool p (a # is)"
  obtains js b ks where "walk_while cond pool a = Some b" "a # is = js @ b # ks"
    "js @ [b] = a # takeWhile (\<lambda>i. cond (pool i)) is" "ks = dropWhile (\<lambda>i. cond (pool i)) is"
    "iq_next (pool b) = (case ks of [] \<Rightarrow> None | k # _ \<Rightarrow> Some k)"
proof -
  let ?tw = "takeWhile (\<lambda>i. cond (pool i)) is" and ?dw = "dropWhile (\<lambda>i. cond (pool i)) is"
  let ?js = "butlast (a # ?tw)" and ?b = "last (a # ?tw)"
  have jb: "?js @ [?b] = a # ?tw" by (rule append_butlast_last_id) simp
  have split: "a # is = ?js @ ?b # ?dw"
    using arg_cong [OF jb, of "\<lambda>l. l @ ?dw"] by simp
  have pa: "path pool (Some a) (a # is)" using assms by simp
  show thesis
    by (rule that [OF walk_while_path [OF pa] split jb refl])
       (use pa split path_next [of pool "Some a" ?js ?b ?dw] in simp)
qed

lemma queue_rep_insert_after:
  assumes "queue_rep s (js @ b # ks) xs" "i < pool_size" "i \<notin> set (js @ b # ks)"
    and "n = \<lparr>iq_type = t, iq_count = c, iq_next = iq_next (g_pool s b)\<rparr>"
    and "s1 = s\<lparr>g_pool_used := (g_pool_used s)(i := True), g_known_unused_index := None,
                g_pool := (g_pool s)(i := n)\<rparr>"
  shows "queue_rep (set_next b (Some i) s1) (js @ b # i # ks)
          (map (event_at (g_pool s)) (js @ [b]) @ (t, c) # map (event_at (g_pool s)) ks)"
proof -
  have "path ((g_pool s)(i := n, b := (g_pool s b)\<lparr>iq_next := Some i\<rparr>)) (q_head s) (js @ b # i # ks)"
    by (rule path_insert_after) (use assms in \<open>auto simp: queue_rep_def\<close>)
  moreover have "b \<noteq> i" using assms(3) by auto
  ultimately show ?thesis
    using assms by (auto simp: queue_rep_def set_next_def event_at_def)
qed

lemma queue_rep_insert_head:
  assumes "queue_rep s is xs" "i < pool_size" "i \<notin> set is"
    and "n = \<lparr>iq_type = t, iq_count = c, iq_next = q_head s\<rparr>"
    and "s1 = s\<lparr>g_pool_used := (g_pool_used s)(i := True), g_known_unused_index := None,
                g_pool := (g_pool s)(i := n)\<rparr>"
  shows "queue_rep (s1\<lparr>q_head := Some i, next_interrupt := k\<rparr>) (i # is) ((t, c) # xs)"
  using assms by (auto simp: queue_rep_def event_at_def map_upd_notin)

lemma get_event_rep:
  assumes "queue_rep s is xs"
  shows "get_event t s = Some (spec_get t xs)"
proof (cases "is")
  case Nil
  with assms show ?thesis by (auto simp: queue_rep_def get_event_def)
next
  case (Cons a js)
  have path: "path (g_pool s) (q_head s) (a # js)" and xs: "xs = map (event_at (g_pool s)) (a # js)"
    using assms Cons by (auto simp: queue_rep_def)
  obtain b ks where w: "walk_while (\<lambda>n. iq_type n \<noteq> t) (g_pool s) a = Some b"
      "ks = dropWhile (\<lambda>i. iq_type (g_pool s i) \<noteq> t) js"
      "iq_next (g_pool s b) = (case ks of [] \<Rightarrow> None | k # _ \<Rightarrow> Some k)"
    by (rule walk_while_split [OF path, of "\<lambda>n. iq_type n \<noteq> t"])
  have "spec_get t (map (event_at (g_pool s)) js) =
      (case dropWhile (\<lambda>i. iq_type (g_pool s i) \<noteq> t) js of [] \<Rightarrow> 0 | k # _ \<Rightarrow> iq_count (g_pool s k))"
    by (induction js) (auto simp: event_at_def)
  then have "spec_get t (map (event_at (g_pool s)) js) =
      (case ks of [] \<Rightarrow> 0 | k # _ \<Rightarrow> iq_count (g_pool s k))"
    by (simp add: w(2))
  with w(1,3) path xs show ?thesis
    by (cases ks) (auto simp: get_event_def event_at_def)
qed

lemma add_interrupt_event_head:
  assumes rep: "queue_rep s is xs" and room: "length xs < pool_size"
    and head: "xs = [] \<or> spec_before c (SPECIAL_done s) t (c + d) (hd xs)"
  shows "\<exists>s' js. add_interrupt_event c t d s = Some s' \<and>
           queue_rep s' js ((t, c + d) # xs) \<and>
           SPECIAL_done s' = special_after c (SPECIAL_done s) \<and> next_interrupt s' = c + d"
proof -
  define s0 where "s0 = (if c > 0x80000000 then s\<lparr>SPECIAL_done := False\<rparr> else s)"
  have rep0: "queue_rep s0 is xs" using rep by (simp add: s0_def queue_rep_pool_cong)
  have done0: "SPECIAL_done s0 = special_after c (SPECIAL_done s)"
    by (simp add: s0_def special_after_def)
  obtain i where i: "pool_alloc s0 = Some (i, s0\<lparr>g_pool_used := (g_pool_used s0)(i := True),
                                              g_known_unused_index := None\<rparr>)"
      "i < pool_size" "i \<notin> set is"
    by (rule pool_alloc_room [OF rep0 room])
  have hd: "case q_head s0 of None \<Rightarrow> True
        | Some a \<Rightarrow> before_event c (SPECIAL_done s0) (c + d) (iq_count (g_pool s0 a)) (iq_type (g_pool s0 a))
                 \<and> t \<noteq> SPECIAL_INT"
    using head rep0 by (cases "is") (auto simp: queue_rep_def event_at_def spec_before_def done0)
  let ?n = "\<lparr>iq_type = t, iq_count = c + d, iq_next = q_head s0\<rparr>"
  let ?s = "s0\<lparr>g_pool_used := (g_pool_used s0)(i := True), g_known_unused_index := None,
               g_pool := (g_pool s0)(i := ?n), q_head := Some i, next_interrupt := c + d\<rparr>"
  have "add_interrupt_event c t d s = Some ?s"
    using i get_event_rep [OF rep0] hd
    by (cases "q_head s0") (auto simp: add_interrupt_event_def Let_def s0_def [symmetric] store_node_def)
  moreover have "queue_rep ?s (i # is) ((t, c + d) # xs)"
    using queue_rep_insert_head [OF rep0 i(2,3) refl refl] by simp
  ultimately show ?thesis by (auto simp: done0)
qed

lemma add_interrupt_event_tail:
  assumes rep: "queue_rep s is (x # xs)" and room: "length (x # xs) < pool_size"
    and head: "\<not> spec_before c (SPECIAL_done s) t (c + d) x"
  shows "\<exists>s' js. add_interrupt_event c t d s = Some s' \<and>
           queue_rep s' js (x # spec_add c (SPECIAL_done s) t (c + d) xs) \<and>
           SPECIAL_done s' = special_after c (SPECIAL_done s) \<and> next_interrupt s' = next_interrupt s"
proof -
  define s0 where "s0 = (if c > 0x80000000 then s\<lparr>SPECIAL_done := False\<rparr> else s)"
  have rep0: "queue_rep s0 is (x # xs)" using rep by (simp add: s0_def queue_rep_pool_cong)
  have done0: "SPECIAL_done s0 = special_after c (SPECIAL_done s)"
    by (simp add: s0_def special_after_def)
  obtain i where i: "pool_alloc s0 = Some (i, s0\<lparr>g_pool_used := (g_pool_used s0)(i := True),
                                              g_known_unused_index := None\<rparr>)"
      "i < pool_size" "i \<notin> set is"
    by (rule pool_alloc_room [OF rep0 room])
  obtain a js where "is": "is = a # js" and path: "path (g_pool s0) (q_head s0) (a # js)"
      and x: "x = event_at (g_pool s0) a" and xs: "xs = map (event_at (g_pool s0)) js"
    using rep0 by (cases "is") (auto simp: queue_rep_def)
  let ?skip = "\<lambda>n. \<not> before_event c (SPECIAL_done s0) (c + d) (iq_count n) (iq_type n) \<or> t = SPECIAL_INT"
  have skip: "?skip (g_pool s0 k) = (\<not> spec_before c (SPECIAL_done s) t (c + d) (event_at (g_pool s0) k))" for k
    by (auto simp: spec_before_def event_at_def done0)
  obtain ls b ks where w: "walk_while ?skip (g_pool s0) a = Some b" "a # js = ls @ b # ks"
      "ls @ [b] = a # takeWhile (\<lambda>i. ?skip (g_pool s0 i)) js" "ks = dropWhile (\<lambda>i. ?skip (g_pool s0 i)) js"
      "iq_next (g_pool s0 b) = (case ks of [] \<Rightarrow> None | k # _ \<Rightarrow> Some k)"
    by (rule walk_while_split [OF path])
  have same: "walk_while (\<lambda>n. iq_count n = c + d) (g_pool s0) b = Some b" if "ks = k # ks'" for k ks'
  proof -
    have "dropWhile (\<lambda>i. ?skip (g_pool s0 i)) js = k # ks'" using w(4) that by (rule subst)
    then have "\<not> ?skip (g_pool s0 k)" unfolding dropWhile_eq_Cons_conv by (rule conjunct2)
    then have "iq_count (g_pool s0 k) \<noteq> c + d" by auto
    then show ?thesis using walk_while_path [of "g_pool s0" b ks] path w(2) that path_append by fastforce
  qed
  let ?n = "\<lparr>iq_type = t, iq_count = c + d, iq_next = iq_next (g_pool s0 b)\<rparr>"
  let ?s = "set_next b (Some i) (s0\<lparr>g_pool_used := (g_pool_used s0)(i := True),
               g_known_unused_index := None, g_pool := (g_pool s0)(i := ?n)\<rparr>)"
  have "add_interrupt_event c t d s = Some ?s"
    using i get_event_rep [OF rep0] w(1,5) same head path skip [of a]
    by (cases ks) (auto simp: add_interrupt_event_def Let_def s0_def [symmetric] store_node_def x)
  moreover have "queue_rep ?s (ls @ b # i # ks)
      (map (event_at (g_pool s0)) (ls @ [b]) @ (t, c + d) # map (event_at (g_pool s0)) ks)"
    using rep0 i unfolding "is" w(2) by (intro queue_rep_insert_after) auto
  moreover have "map (event_at (g_pool s0)) (ls @ [b]) @ (t, c + d) # map (event_at (g_pool s0)) ks
      = x # spec_add c (SPECIAL_done s) t (c + d) xs"
    unfolding w(3,4) skip x xs
    by (simp add: spec_add_def insert_event_def takeWhile_map dropWhile_map o_def)
  moreover have "SPECIAL_done ?s = special_after c (SPECIAL_done s)" by (simp add: set_next_def done0)
  moreover have "next_interrupt ?s = next_interrupt s" by (simp add: set_next_def s0_def)
  ultimately show ?thesis by metis
qed

text \<open>The contract of \<^verbatim>\<open>add_interrupt_event\<close> on the list of pending events.\<close>

lemma add_interrupt_event_abs:
  assumes "queue_abs s xs" "length xs < pool_size"
  shows "\<exists>s'. add_interrupt_event c t d s = Some s' \<and>
           queue_abs s' (spec_add c (SPECIAL_done s) t (c + d) xs) \<and>
           SPECIAL_done s' = special_after c (SPECIAL_done s) \<and>
           next_interrupt s' = (if xs = [] \<or> spec_before c (SPECIAL_done s) t (c + d) (hd xs)
                                then c + d else next_interrupt s)"
proof -
  obtain "is" where rep: "queue_rep s is xs" using assms(1) by (auto simp: queue_abs_def)
  show ?thesis
  proof (cases "xs = [] \<or> spec_before c (SPECIAL_done s) t (c + d) (hd xs)")
    case True
    then have "spec_add c (SPECIAL_done s) t (c + d) xs = (t, c + d) # xs"
      by (cases xs) (auto simp: spec_add_def insert_event_def)
    with add_interrupt_event_head [OF rep assms(2) True] True show ?thesis
      by (auto simp: queue_abs_def)
  next
    case False
    then obtain y ys where xs: "xs = y # ys" "\<not> spec_before c (SPECIAL_done s) t (c + d) y"
      by (cases xs) auto
    then have "spec_add c (SPECIAL_done s) t (c + d) xs = y # spec_add c (SPECIAL_done s) t (c + d) ys"
      by (auto simp: spec_add_def insert_event_def)
    with add_interrupt_event_tail [of s "is" y ys c t d] rep assms(2) xs show ?thesis
      by (auto simp: queue_abs_def)
  qed
qed

lemma queue_rep_free_head:
  assumes "queue_rep s (a # is) (x # xs)"
  shows "queue_rep ((pool_free a s)\<lparr>q_head := iq_next (g_pool s a)\<rparr>) is xs"
  using assms by (auto simp: queue_rep_def pool_free_def)

lemma queue_rep_free_after:
  assumes "queue_rep s (js @ b # k # ks) xs"
  shows "queue_rep (set_next b (iq_next (g_pool s k)) (pool_free k s)) (js @ b # ks)
           (map (event_at (g_pool s)) (js @ b # ks))"
proof -
  have "path ((g_pool s)(b := (g_pool s b)\<lparr>iq_next := iq_next (g_pool s k)\<rparr>)) (q_head s) (js @ b # ks)"
    by (rule path_remove_after) (use assms in \<open>auto simp: queue_rep_def\<close>)
  then show ?thesis
    using assms by (auto simp: queue_rep_def pool_free_def set_next_def)
qed

lemma remove_interrupt_event_abs:
  assumes "queue_abs s (x # xs)"
  shows "\<exists>s'. remove_interrupt_event c s = Some s' \<and> queue_abs s' xs \<and>
           SPECIAL_done s' = (SPECIAL_done s \<or> fst x = SPECIAL_INT) \<and>
           next_interrupt s' = (case xs of [] \<Rightarrow> 0
             | y # _ \<Rightarrow> if snd y > c \<or> c - snd y < 0x80000000 then snd y else 0)"
proof -
  obtain js where js: "queue_rep s js (x # xs)" using assms by (auto simp: queue_abs_def)
  then obtain a "is" where "js = a # is" by (cases js) (auto simp: queue_rep_def)
  with js have rep: "queue_rep s (a # is) (x # xs)" by simp
  then have hd: "q_head s = Some a" "x = event_at (g_pool s) a"
      "iq_next (g_pool s a) = (case is of [] \<Rightarrow> None | k # _ \<Rightarrow> Some k)"
      "xs = map (event_at (g_pool s)) is"
    using path_next [of "g_pool s" "q_head s" "[]" a "is"] by (auto simp: queue_rep_def)
  let ?s0 = "s\<lparr>SPECIAL_done := SPECIAL_done s \<or> fst x = SPECIAL_INT\<rparr>"
  let ?s1 = "(pool_free a ?s0)\<lparr>q_head := iq_next (g_pool s a)\<rparr>"
  let ?n = "case xs of [] \<Rightarrow> 0 | y # _ \<Rightarrow> if snd y > c \<or> c - snd y < 0x80000000 then snd y else 0"
  have "queue_rep ?s1 is xs"
    using queue_rep_free_head [OF queue_rep_pool_cong(1) [OF rep]] by simp
  then have "queue_abs (?s1\<lparr>next_interrupt := ?n\<rparr>) xs"
    using queue_rep_pool_cong(2) unfolding queue_abs_def by blast
  moreover have "remove_interrupt_event c s = Some (?s1\<lparr>next_interrupt := ?n\<rparr>)"
    using hd by (cases "is") (auto simp: remove_interrupt_event_def event_at_def pool_free_def)
  ultimately show ?thesis by (auto simp: pool_free_def)
qed

lemma remove_event_abs:
  assumes "queue_abs s xs"
  shows "\<exists>s'. remove_event t s = Some s' \<and> queue_abs s' (spec_remove t xs) \<and>
           SPECIAL_done s' = SPECIAL_done s \<and> next_interrupt s' = next_interrupt s"
proof -
  obtain "is" where rep: "queue_rep s is xs" using assms by (auto simp: queue_abs_def)
  show ?thesis
  proof (cases "is")
    case Nil
    with rep assms show ?thesis by (auto simp: queue_rep_def remove_event_def)
  next
    case (Cons a js)
    have path: "path (g_pool s) (q_head s) (a # js)" and xs: "xs = map (event_at (g_pool s)) (a # js)"
      using rep Cons by (auto simp: queue_rep_def)
    obtain ls b ks where w: "walk_while (\<lambda>n. iq_type n \<noteq> t) (g_pool s) a = Some b" "a # js = ls @ b # ks"
        "ls @ [b] = a # takeWhile (\<lambda>i. iq_type (g_pool s i) \<noteq> t) js"
        "ks = dropWhile (\<lambda>i. iq_type (g_pool s i) \<noteq> t) js"
        "iq_next (g_pool s b) = (case ks of [] \<Rightarrow> None | k # _ \<Rightarrow> Some k)"
      by (rule walk_while_split [OF path])
    have rem: "spec_remove t (map (event_at (g_pool s)) js) =
        map (event_at (g_pool s)) (takeWhile (\<lambda>i. iq_type (g_pool s i) \<noteq> t) js @
             tl (dropWhile (\<lambda>i. iq_type (g_pool s i) \<noteq> t) js))"
      by (induction js) (auto simp: event_at_def)
    have rem': "map (event_at (g_pool s)) (ls @ b # tl ks) = spec_remove t xs" if "iq_type (g_pool s a) \<noteq> t"
      using that rem arg_cong [OF w(3), of "\<lambda>l. map (event_at (g_pool s)) (l @ tl ks)"]
      by (simp add: xs w(4) event_at_def)
    show ?thesis
    proof (cases "iq_type (g_pool s a) = t")
      case True
      have "queue_rep ((pool_free a s)\<lparr>q_head := iq_next (g_pool s a)\<rparr>) js (spec_remove t xs)"
        using queue_rep_free_head [of s a js] rep Cons xs True by (auto simp: event_at_def)
      with True path show ?thesis by (auto simp: remove_event_def queue_abs_def pool_free_def)
    next
      case False
      show ?thesis
      proof (cases ks)
        case Nil
        have "spec_remove t xs = map (event_at (g_pool s)) (a # js)"
          unfolding w(2) using rem' [OF False] Nil by simp
        then have "spec_remove t xs = xs" by (simp only: xs)
        with assms w path False Nil show ?thesis by (auto simp: remove_event_def)
      next
        case (Cons k ks')
        have "queue_rep s (ls @ b # k # ks') xs" using rep \<open>is = a # js\<close> w(2) Cons by simp
        from queue_rep_free_after [OF this] rem' [OF False] Cons
        have "queue_abs (set_next b (iq_next (g_pool s k)) (pool_free k s)) (spec_remove t xs)"
          by (auto simp: queue_abs_def)
        moreover have "remove_event t s = Some (set_next b (iq_next (g_pool s k)) (pool_free k s))"
          using w(1,5) path False Cons by (simp add: remove_event_def)
        ultimately show ?thesis by (simp add: set_next_def pool_free_def)
      qed
    qed
  qed
qed

lemma clear_queue_abs:
  assumes "queue_abs s xs"
  shows "\<exists>s'. clear_queue s = Some s' \<and> queue_abs s' [] \<and> SPECIAL_done s' = SPECIAL_done s \<and>
           next_interrupt s' = next_interrupt s"
  using assms
  by (auto simp: queue_abs_def queue_rep_def clear_queue_def pool_clear_def clear_walk_path)

definition rebase :: "u32 \<Rightarrow> u32 \<Rightarrow> event \<Rightarrow> event" where
  "rebase c base e = (fst e, (snd e - c) + base)"

definition spec_translate :: "u32 \<Rightarrow> u32 \<Rightarrow> u32 \<Rightarrow> bool \<Rightarrow> event list \<Rightarrow> event list" where
  "spec_translate c cmp base d xs =
     spec_add c d SPECIAL_INT 0 (spec_add c d COMPARE_INT cmp
       (map (rebase c base) (spec_remove SPECIAL_INT (spec_remove COMPARE_INT xs))))"

lemma special_after_idem [simp]: "special_after c (special_after c d) = special_after c d"
  by (simp add: special_after_def)

lemma spec_before_special_after [simp]: "spec_before c (special_after c d) = spec_before c d"
  by (simp add: spec_before_def fun_eq_iff)

lemma spec_add_special_after [simp]: "spec_add c (special_after c d) = spec_add c d"
  by (simp add: spec_add_def fun_eq_iff)

lemma length_spec_add [simp]: "length (spec_add c d t n xs) = Suc (length xs)"
proof -
  have "length (takeWhile P xs) + length (dropWhile P xs) = length xs" for P :: "event \<Rightarrow> bool"
    by (metis length_append takeWhile_dropWhile_id)
  then show ?thesis by (simp add: spec_add_def insert_event_def)
qed

lemma length_spec_remove_le: "length (spec_remove t xs) \<le> length xs"
  by (induction xs) auto

lemma queue_abs_length: "queue_abs s xs \<Longrightarrow> length xs \<le> pool_size"
proof -
  assume "queue_abs s xs"
  then obtain "is" where rep: "queue_rep s is xs" by (auto simp: queue_abs_def)
  then have "set is \<subseteq> {..<pool_size}" by (auto simp: queue_rep_def)
  then have "card (set is) \<le> card {..<pool_size}" by (rule card_mono [rotated]) simp
  with rep show ?thesis by (auto simp: queue_rep_def distinct_card)
qed

lemma rebase_abs:
  assumes "queue_abs s xs"
  shows "\<exists>pool. rebase_walk c base (q_head s) (g_pool s) = Some pool \<and>
           queue_abs (s\<lparr>g_pool := pool\<rparr>) (map (rebase c base) xs)"
proof -
  obtain "is" where rep: "queue_rep s is xs" using assms by (auto simp: queue_abs_def)
  let ?pool = "\<lambda>i. if i \<in> set is
      then (g_pool s i)\<lparr>iq_count := (iq_count (g_pool s i) - c) + base\<rparr> else g_pool s i"
  have "path pool p js \<Longrightarrow> path (\<lambda>i. if i \<in> S then (pool i)\<lparr>iq_count := f i\<rparr> else pool i) p js"
    for pool p js S f by (induction js arbitrary: p) auto
  then have "queue_rep (s\<lparr>g_pool := ?pool\<rparr>) is (map (rebase c base) xs)"
    using rep by (auto simp: queue_rep_def event_at_def rebase_def)
  then show ?thesis
    using rebase_walk_path [of "g_pool s" "q_head s" "is" c base] rep
    by (auto simp: queue_rep_def queue_abs_def)
qed

lemma translate_event_queue_abs:
  assumes "queue_abs s xs" "length (spec_remove SPECIAL_INT (spec_remove COMPARE_INT xs)) + 2 \<le> pool_size"
  shows "\<exists>s'. translate_event_queue c cmp base s = Some s' \<and>
           queue_abs s' (spec_translate c cmp base (SPECIAL_done s) xs) \<and>
           SPECIAL_done s' = special_after c (SPECIAL_done s)"
proof -
  obtain s1 where s1: "remove_event COMPARE_INT s = Some s1" "queue_abs s1 (spec_remove COMPARE_INT xs)"
      "SPECIAL_done s1 = SPECIAL_done s"
    using remove_event_abs [OF assms(1)] by blast
  let ?ys = "spec_remove SPECIAL_INT (spec_remove COMPARE_INT xs)"
  obtain s2 where s2: "remove_event SPECIAL_INT s1 = Some s2" "queue_abs s2 ?ys" "SPECIAL_done s2 = SPECIAL_done s"
    using remove_event_abs [OF s1(2)] s1(3) by metis
  obtain pool where p: "rebase_walk c base (q_head s2) (g_pool s2) = Some pool"
      "queue_abs (s2\<lparr>g_pool := pool\<rparr>) (map (rebase c base) ?ys)"
    using rebase_abs [OF s2(2)] by blast
  let ?zs = "map (rebase c base) ?ys"
  have "length ?zs < pool_size" using assms(2) by simp
  then obtain s3 where s3: "add_interrupt_event_count c COMPARE_INT cmp (s2\<lparr>g_pool := pool\<rparr>) = Some s3"
      "queue_abs s3 (spec_add c (SPECIAL_done s) COMPARE_INT cmp ?zs)"
      "SPECIAL_done s3 = special_after c (SPECIAL_done s)"
    using add_interrupt_event_abs [OF p(2), of c COMPARE_INT "cmp - c"] s2(3)
    by (auto simp: add_interrupt_event_count_def)
  have "length (spec_add c (SPECIAL_done s) COMPARE_INT cmp ?zs) < pool_size" using assms(2) by simp
  then obtain s4 where "add_interrupt_event_count c SPECIAL_INT 0 s3 = Some s4"
      "queue_abs s4 (spec_translate c cmp base (SPECIAL_done s) xs)"
      "SPECIAL_done s4 = special_after c (SPECIAL_done s)"
    using add_interrupt_event_abs [OF s3(2), of c SPECIAL_INT "0 - c"] s3(3)
    by (auto simp: add_interrupt_event_count_def spec_translate_def)
  then show ?thesis
    using s1(1) s2(1) p(1) s3(1) by (simp add: translate_event_queue_def)
qed

section \<open>The queue in a savestate\<close>

definition encode_event :: "event \<Rightarrow> bytes" where
  "encode_event e = put_le32 (fst e) @ put_le32 (snd e)"

definition encode_events :: "event list \<Rightarrow> bytes" where
  "encode_events xs = concat (map encode_event xs) @ put_le32 0xFFFFFFFF"

lemma encode_events_Cons: "encode_events (e # es) = encode_event e @ encode_events es"
  by (simp add: encode_events_def)

lemma length_encode_event [simp]: "length (encode_event e) = 8"
  by (simp add: encode_event_def)

lemma length_encode_events: "length (encode_events xs) = 8 * length xs + 4"
  by (induction xs) (auto simp: encode_events_def)

lemma save_eventqueue_abs:
  assumes "queue_abs s xs"
  shows "save_eventqueue_infos s = Some (encode_events xs)"
proof -
  obtain "is" where "path (g_pool s) (q_head s) is" "xs = map (event_at (g_pool s)) is"
    using assms by (auto simp: queue_abs_def queue_rep_def)
  then show ?thesis
    using save_walk_path [of "g_pool s" "q_head s" "is" "[]"]
    by (cases "is")
       (auto simp: save_eventqueue_infos_def encode_events_def encode_event_def event_at_def o_def)
qed

fun spec_load :: "u32 \<Rightarrow> bool \<Rightarrow> event list \<Rightarrow> event list \<Rightarrow> event list" where
  "spec_load c d [] acc = acc"
| "spec_load c d (x # xs) acc = spec_load c d xs (spec_add c d (fst x) (snd x) acc)"

definition load_next :: "u32 \<Rightarrow> event list \<Rightarrow> u32 \<Rightarrow> u32" where
  "load_next c xs n = (case xs of [] \<Rightarrow> n | x # _ \<Rightarrow> snd x)"

lemma load_walk_abs:
  assumes "queue_abs s acc" "length acc + length xs \<le> pool_size" "\<forall>x\<in>set xs. fst x \<noteq> 0xFFFFFFFF"
  shows "\<exists>s'. load_walk c (pre @ encode_events xs @ post) (length pre) s = Some s' \<and>
           queue_abs s' (spec_load c (SPECIAL_done s) xs acc)"
  using assms
proof (induction xs arbitrary: s acc pre)
  case Nil
  then show ?case
    by (subst load_walk.simps) (auto simp: encode_events_def)
next
  case (Cons x xs)
  let ?buf = "pre @ encode_events (x # xs) @ post"
  have buf: "?buf = pre @ put_le32 (fst x) @ put_le32 (snd x) @ encode_events xs @ post"
    by (simp add: encode_events_Cons encode_event_def)
  have t: "get_le32 ?buf (length pre) = Some (fst x)" by (simp add: buf)
  have n: "get_le32 ?buf (length pre + 4) = Some (snd x)"
    using get_put_le32_at [of "pre @ put_le32 (fst x)" "snd x" "encode_events xs @ post"]
    by (simp add: buf)
  obtain s1 where s1: "add_interrupt_event_count c (fst x) (snd x) s = Some s1"
      "queue_abs s1 (spec_add c (SPECIAL_done s) (fst x) (snd x) acc)"
      "SPECIAL_done s1 = special_after c (SPECIAL_done s)"
    using add_interrupt_event_abs [OF Cons.prems(1), of c "fst x" "snd x - c"] Cons.prems(2)
    by (auto simp: add_interrupt_event_count_def)
  have ext: "spec_load c (special_after c d) ys zs = spec_load c d ys zs" for d ys zs
    by (induction ys arbitrary: zs) auto
  have "\<exists>s'. load_walk c ((pre @ encode_event x) @ encode_events xs @ post) (length (pre @ encode_event x)) s1
          = Some s' \<and> queue_abs s' (spec_load c (SPECIAL_done s1) xs
               (spec_add c (SPECIAL_done s) (fst x) (snd x) acc))"
    by (rule Cons.IH) (use s1(2) Cons.prems in auto)
  with s1 t n Cons.prems(3) show ?case
    by (subst load_walk.simps) (auto simp: encode_events_Cons ext)
qed

lemma load_eventqueue_abs:
  assumes "queue_abs s ys" "length xs \<le> pool_size" "\<forall>x\<in>set xs. fst x \<noteq> 0xFFFFFFFF"
  shows "\<exists>s'. load_eventqueue_infos c (encode_events xs @ post) s = Some s' \<and>
           queue_abs s' (spec_load c (SPECIAL_done s) xs [])"
proof -
  obtain s1 where "clear_queue s = Some s1" "queue_abs s1 []" "SPECIAL_done s1 = SPECIAL_done s"
    using clear_queue_abs [OF assms(1)] by blast
  with load_walk_abs [of s1 "[]" xs c "[]" post] assms(2,3) show ?thesis
    by (simp add: load_eventqueue_infos_def)
qed

section \<open>Order of the events\<close>

text \<open>
  The due time of an event relative to \<^verbatim>\<open>Count\<close>, as \<^verbatim>\<open>before_event\<close> sees it: the
  distance when the event is ahead, \<^term>\<open>-1\<close> when it is overdue, and beyond every
  distance for an event more than \<^term>\<open>2 ^ 28\<close> counts in the past and for the
  \<^verbatim>\<open>SPECIAL_INT\<close> marker that has already been handled in this turn of \<^verbatim>\<open>Count\<close>.
\<close>

definition due :: "u32 \<Rightarrow> bool \<Rightarrow> event \<Rightarrow> int" where
  "due c d e =
     (if snd e - c < 0x80000000 then uint (snd e - c)
      else if c - snd e < 0x10000000 \<and> \<not> (fst e = SPECIAL_INT \<and> special_after c d) then - 1
      else 2 ^ 32)"

lemma before_event_due:
  "before_event c (special_after c d) n (snd e) (fst e) \<longleftrightarrow> n - c < 0x80000000 \<and> uint (n - c) < due c d e"
proof -
  have "\<not> uint (n - c) < - 1" using uint_ge_0 [of "n - c"] by linarith
  then show ?thesis
    using uint_bounded [of "n - c"]
    by (auto simp: before_event_def due_def word_less_def split: if_splits)
qed

lemma sorted_insert_event:
  fixes key :: "event \<Rightarrow> int"
  assumes "sorted (map key xs)" "\<And>x. before x \<longleftrightarrow> key e < key x"
  shows "sorted (map key (insert_event before e xs))"
  using assms by (induction xs) (auto simp: insert_event_def dest: set_takeWhileD set_dropWhileD)

lemma due_add:
  assumes "t \<noteq> SPECIAL_INT" "delay < 0x80000000"
  shows "spec_before c d t (c + delay) x \<longleftrightarrow> due c d (t, c + delay) < due c d x"
  using assms by (auto simp: spec_before_def before_event_due) (auto simp: due_def)

lemma sorted_spec_add:
  assumes "sorted (map (due c d) xs)" "t \<noteq> SPECIAL_INT" "delay < 0x80000000"
  shows "sorted (map (due c d) (spec_add c d t (c + delay) xs))"
  unfolding spec_add_def using assms by (intro sorted_insert_event) (auto simp: due_add)

lemma mset_spec_add: "mset (spec_add c d t n xs) = add_mset (t, n) (mset xs)"
proof -
  have "mset (takeWhile P xs) + mset (dropWhile P xs) = mset xs" for P :: "event \<Rightarrow> bool"
    by (metis mset_append takeWhile_dropWhile_id)
  then show ?thesis by (simp add: spec_add_def insert_event_def)
qed

lemma spec_add_last:
  assumes "\<forall>y\<in>set xs. \<not> spec_before c d t n y"
  shows "spec_add c d t n xs = xs @ [(t, n)]"
proof -
  have "takeWhile (\<lambda>x. \<not> spec_before c d t n x) xs = xs" "dropWhile (\<lambda>x. \<not> spec_before c d t n x) xs = []"
    using assms by auto
  then show ?thesis by (simp add: spec_add_def insert_event_def)
qed

lemma due_not_before: "due c d y \<le> due c d x \<Longrightarrow> \<not> spec_before c d (fst x) (snd x) y"
  by (auto simp: spec_before_def before_event_due) (auto simp: due_def split: if_splits)

lemma spec_load_sorted:
  assumes "sorted (map (due c d) (acc @ xs))"
  shows "spec_load c d xs acc = acc @ xs"
  using assms
proof (induction xs arbitrary: acc)
  case (Cons x xs)
  have "\<forall>y\<in>set acc. \<not> spec_before c d (fst x) (snd x) y"
    using Cons.prems due_not_before by (auto simp: sorted_append)
  then have "spec_add c d (fst x) (snd x) acc = acc @ [x]"
    using spec_add_last by simp
  with Cons show ?case by simp
qed simp

section \<open>Sequences of queue operations\<close>

datatype queue_op =
    Add u32 u32 u32
  | Pop u32
  | Remove u32
  | Translate u32 u32 u32
  | Clear

fun queue_step :: "queue_op \<Rightarrow> queue_state \<Rightarrow> queue_state option" where
  "queue_step (Add c t d) s = add_interrupt_event c t d s"
| "queue_step (Pop c) s = remove_interrupt_event c s"
| "queue_step (Remove t) s = remove_event t s"
| "queue_step (Translate c cmp base) s = translate_event_queue c cmp base s"
| "queue_step Clear s = clear_queue s"

type_synonym spec_queue = "bool \<times> event list"

fun spec_step :: "queue_op \<Rightarrow> spec_queue \<Rightarrow> spec_queue option" where
  "spec_step (Add c t d) (dn, xs) =
     (if length xs < pool_size then Some (special_after c dn, spec_add c dn t (c + d) xs) else None)"
| "spec_step (Pop c) (dn, xs) =
     (case xs of [] \<Rightarrow> None | x # ys \<Rightarrow> Some (dn \<or> fst x = SPECIAL_INT, ys))"
| "spec_step (Remove t) (dn, xs) = Some (dn, spec_remove t xs)"
| "spec_step (Translate c cmp base) (dn, xs) =
     (if length (spec_remove SPECIAL_INT (spec_remove COMPARE_INT xs)) + 2 \<le> pool_size
      then Some (special_after c dn, spec_translate c cmp base dn xs) else None)"
| "spec_step Clear (dn, xs) = Some (dn, [])"

definition queue_rel :: "queue_state \<Rightarrow> spec_queue \<Rightarrow> bool" where
  "queue_rel s a \<longleftrightarrow> queue_abs s (snd a) \<and> SPECIAL_done s = fst a"

lemma queue_step_sim:
  assumes "queue_rel s a" "spec_step op a = Some a'"
  shows "\<exists>s'. queue_step op s = Some s' \<and> queue_rel s' a'"
proof -
  obtain dn xs where a: "a = (dn, xs)" by (cases a)
  with assms(1) have abs: "queue_abs s xs" and dn: "dn = SPECIAL_done s" by (auto simp: queue_rel_def)
  show ?thesis
  proof (cases op)
    case (Add c t d)
    with assms(2) add_interrupt_event_abs [OF abs] show ?thesis
      by (force simp: a dn queue_rel_def split: if_splits)
  next
    case (Pop c)
    with assms(2) abs remove_interrupt_event_abs [of s] show ?thesis
      by (cases xs) (force simp: a dn queue_rel_def)+
  next
    case (Remove t)
    with assms(2) remove_event_abs [OF abs, of t] show ?thesis by (auto simp: a dn queue_rel_def)
  next
    case (Translate c cmp base)
    with assms(2) translate_event_queue_abs [OF abs] show ?thesis
      by (force simp: a dn queue_rel_def split: if_splits)
  next
    case Clear
    with assms(2) clear_queue_abs [OF abs] show ?thesis by (auto simp: a dn queue_rel_def)
  qed
qed

interpretation queue_sim: simulation queue_rel queue_step spec_step
  by unfold_locales (rule queue_step_sim)

text \<open>The state before \<^verbatim>\<open>init_interrupt\<close>: static storage, no event, nothing in use.\<close>

definition queue_init :: queue_state where
  "queue_init = \<lparr>q_head = None, g_pool = (\<lambda>_. \<lparr>iq_type = 0, iq_count = 0, iq_next = None\<rparr>),
     g_pool_used = (\<lambda>_. False), g_known_unused_index = None, SPECIAL_done = False, next_interrupt = 0\<rparr>"

lemma queue_init_rel: "queue_rel queue_init (False, [])"
  by (auto simp: queue_rel_def queue_abs_def queue_rep_def queue_init_def)

lemma queue_init_abs: "queue_abs queue_init []" "SPECIAL_done queue_init = False"
  using queue_init_rel by (auto simp: queue_rel_def)

text \<open>A concrete queue with two events, used to exercise the properties.\<close>

lemma two_event_queue:
  assumes "c \<le> 0x80000000" "t \<noteq> SPECIAL_INT" "e < 0x80000000" "d \<le> e"
  shows "\<exists>s. run_ops queue_step [Add c t d, Add c u e] queue_init = Some s \<and>
             queue_abs s [(t, c + d), (u, c + e)] \<and> SPECIAL_done s = False \<and> next_interrupt s = c + d"
proof -
  obtain s1 where s1: "add_interrupt_event c t d queue_init = Some s1" "queue_abs s1 [(t, c + d)]"
      "SPECIAL_done s1 = False" "next_interrupt s1 = c + d"
    using add_interrupt_event_abs [OF queue_init_abs(1), of c t d] assms(1)
    by (auto simp: pool_size_def queue_init_abs special_after_def spec_add_def insert_event_def)
  have d31: "d < 0x80000000" using assms(3,4) by simp
  have nb: "\<not> spec_before c False u (c + e) (t, c + d)"
    using assms(4) d31 by (auto simp: spec_before_def before_event_def special_after_def)
  obtain s2 where "add_interrupt_event c u e s1 = Some s2" "queue_abs s2 [(t, c + d), (u, c + e)]"
      "SPECIAL_done s2 = False" "next_interrupt s2 = c + d"
    using add_interrupt_event_abs [OF s1(2), of c u e] assms(1) nb s1(3,4)
    by (auto simp: pool_size_def special_after_def spec_add_def insert_event_def)
  with s1(1) show ?thesis by auto
qed

lemma queue_of_length: "n \<le> pool_size \<Longrightarrow> \<exists>s xs. queue_abs s xs \<and> length xs = n"
proof (induction n)
  case 0
  then show ?case using queue_init_abs(1) by force
next
  case (Suc n)
  then obtain s xs where "queue_abs s xs" "length xs = n" by auto
  with add_interrupt_event_abs [of s xs 0 VI_INT 0] Suc.prems show ?case by fastforce
qed

lemma pool_alloc_full:
  assumes "queue_abs s xs" "length xs = pool_size"
  shows "\<exists>s'. pool_alloc s = Some (pool_size, s')"
proof -
  obtain "is" where rep: "queue_rep s is xs" using assms(1) by (auto simp: queue_abs_def)
  have "set is = {..<pool_size}"
    using rep assms(2) by (intro card_subset_eq) (auto simp: queue_rep_def distinct_card)
  with rep have used: "g_pool_used s = (\<lambda>i. i < pool_size)" and "g_known_unused_index s = None"
    by (auto simp: queue_rep_def fun_eq_iff split: option.splits)
  moreover have "List.find (\<lambda>i. \<not> g_pool_used s i) [0..<sizeof_g_pool] = Some pool_size"
    by (auto simp: used find_Some_iff sizeof_g_pool_def pool_size_def intro!: exI [of _ 128])
  ultimately show ?thesis by (simp add: pool_alloc_def)
qed

section \<open>Properties\<close>

text \<open>C1. The linked pool implements the list of pending events: every sequence
  of insertions, head removals, removals by type, rebasings and clears that the
  list-level specification performs (at most 128 events at a time) runs on the
  pool without an out-of-range access, a null dereference or a loop that does
  not end, leaks no node, and ends in a queue that holds exactly the specified
  events in the specified order.\<close>

theorem queue_ops_refine:
  assumes "queue_rel s a" "run_ops spec_step ops a = Some a'"
  shows "\<exists>s'. run_ops queue_step ops s = Some s' \<and> queue_rel s' a'"
  using assms by (rule queue_sim.run_sim)

theorem queue_ops_refine_witness:
  "\<exists>s'. run_ops queue_step [Add 0 VI_INT 5000, Add 0 AI_INT 100, Add 50 SI_INT 2000, Pop 100, Remove SI_INT]
           queue_init = Some s' \<and> queue_rel s' (False, [(VI_INT, 5000)])"
  by (rule queue_ops_refine [OF queue_init_rel]) code_simp

text \<open>C15. Inserting an event keeps the queue ordered by due time.  For every
  event other than the \<^verbatim>\<open>SPECIAL_INT\<close> marker and every delay below \<^term>\<open>2 ^ 31\<close>,
  the new queue holds the old events and the new one, is again sorted by the
  time left until each event, and \<^verbatim>\<open>next_interrupt\<close> is again the count of its head.\<close>

theorem add_interrupt_event_sorted:
  assumes "queue_abs s xs" "length xs < pool_size" "sorted (map (due c (SPECIAL_done s)) xs)"
    and "xs \<noteq> [] \<Longrightarrow> next_interrupt s = snd (hd xs)"
    and "t \<noteq> SPECIAL_INT" "delay < 0x80000000"
  shows "\<exists>s' ys. add_interrupt_event c t delay s = Some s' \<and> queue_abs s' ys \<and>
           mset ys = add_mset (t, c + delay) (mset xs) \<and>
           sorted (map (due c (SPECIAL_done s')) ys) \<and> next_interrupt s' = snd (hd ys)"
proof -
  let ?ys = "spec_add c (SPECIAL_done s) t (c + delay) xs"
  have "due c (special_after c d) = due c d" for d by (simp add: due_def fun_eq_iff)
  moreover have "hd ?ys = (if xs = [] \<or> spec_before c (SPECIAL_done s) t (c + delay) (hd xs)
                           then (t, c + delay) else hd xs)"
    by (cases xs) (auto simp: spec_add_def insert_event_def)
  moreover obtain s' where "add_interrupt_event c t delay s = Some s'" "queue_abs s' ?ys"
      "SPECIAL_done s' = special_after c (SPECIAL_done s)"
      "next_interrupt s' = (if xs = [] \<or> spec_before c (SPECIAL_done s) t (c + delay) (hd xs)
                            then c + delay else next_interrupt s)"
    using add_interrupt_event_abs [OF assms(1,2), of c t delay] by blast
  ultimately show ?thesis
    using assms(4) sorted_spec_add [OF assms(3,5,6)] mset_spec_add [of c "SPECIAL_done s" t "c + delay" xs]
    by (intro exI [of _ s'] exI [of _ ?ys]) simp
qed

theorem add_interrupt_event_sorted_witness:
  "\<exists>s' ys. add_interrupt_event 7 VI_INT 5000 queue_init = Some s' \<and> queue_abs s' ys \<and>
      mset ys = {#(VI_INT, 5007)#} \<and>
      sorted (map (due 7 (SPECIAL_done s')) ys) \<and> next_interrupt s' = snd (hd ys)"
  using add_interrupt_event_sorted [OF queue_init_abs(1), of 7 VI_INT 5000]
  by (simp add: pool_size_def)

text \<open>C16. A queue survives a savestate.  When the events are ordered for the
  \<^verbatim>\<open>Count\<close> at which they are loaded back, \<^verbatim>\<open>load_eventqueue_infos\<close> applied to
  what \<^verbatim>\<open>save_eventqueue_infos\<close> wrote (followed by anything) rebuilds the same
  list of events, whatever the queue held before.\<close>

theorem eventqueue_roundtrip:
  assumes "queue_abs s xs" "queue_abs s0 ys" "sorted (map (due c (SPECIAL_done s0)) xs)"
    and "\<forall>x\<in>set xs. fst x \<noteq> 0xFFFFFFFF"
  shows "\<exists>buf s'. save_eventqueue_infos s = Some buf \<and> length buf = 8 * length xs + 4 \<and>
           load_eventqueue_infos c (buf @ post) s0 = Some s' \<and> queue_abs s' xs"
  using save_eventqueue_abs [OF assms(1)] spec_load_sorted [of c "SPECIAL_done s0" "[]" xs] assms(3)
    load_eventqueue_abs [OF assms(2) queue_abs_length [OF assms(1)] assms(4), of c post]
  by (auto simp: length_encode_events)

theorem eventqueue_roundtrip_witness:
  "\<exists>s buf s'. queue_abs s [(VI_INT, 5000), (AI_INT, 6000)] \<and> save_eventqueue_infos s = Some buf \<and>
      length buf = 20 \<and> load_eventqueue_infos 0 (buf @ []) queue_init = Some s' \<and>
      queue_abs s' [(VI_INT, 5000), (AI_INT, 6000)]"
proof -
  obtain s where s: "queue_abs s [(VI_INT, 5000), (AI_INT, 6000)]"
    using two_event_queue [of 0 VI_INT 6000 5000 AI_INT] by auto
  show ?thesis
    using eventqueue_roundtrip [OF s queue_init_abs(1), of 0 "[]"] s
    by (auto simp: due_def)
qed

text \<open>The pool has no overflow check: its scan runs over \<^verbatim>\<open>sizeof(g_pool)\<close>
  flags instead of the 128 nodes, so with 128 events pending the allocation
  succeeds, hands out the node past the end of \<^verbatim>\<open>g_pool\<close>, and the insertion
  writes outside the array.\<close>

theorem pool_overflow:
  assumes "queue_abs s xs" "length xs = pool_size"
  shows "(\<exists>s'. pool_alloc s = Some (pool_size, s')) \<and> add_interrupt_event c t d s = None"
proof -
  define s0 where "s0 = (if c > 0x80000000 then s\<lparr>SPECIAL_done := False\<rparr> else s)"
  obtain s' where s': "pool_alloc s = Some (pool_size, s')" using pool_alloc_full [OF assms] by blast
  have "queue_abs s0 xs" using assms(1) by (auto simp: s0_def queue_abs_def dest: queue_rep_pool_cong)
  then obtain s1 where s1: "pool_alloc s0 = Some (pool_size, s1)" using pool_alloc_full assms(2) by blast
  have st: "store_node pool_size n s1 = None" for n by (simp add: store_node_def)
  have "add_interrupt_event c t d s = None"
    by (simp add: add_interrupt_event_def Let_def s0_def [symmetric] s1 st bind_eq_None_conv
          split: option.split)
  with s' show ?thesis by blast
qed

theorem pool_overflow_witness:
  "\<exists>s. (\<exists>s'. pool_alloc s = Some (pool_size, s')) \<and> add_interrupt_event 0 VI_INT 5000 s = None"
proof -
  obtain s xs where "queue_abs s xs" "length xs = pool_size" using queue_of_length [of pool_size] by auto
  then show ?thesis using pool_overflow [of s xs 0 VI_INT 5000] by blast
qed

text \<open>Rewriting \<^verbatim>\<open>Compare\<close> can leave \<^verbatim>\<open>next_interrupt\<close> stale.  The write runs
  \<^verbatim>\<open>remove_event(COMPARE_INT)\<close> and \<^verbatim>\<open>add_interrupt_event_count(COMPARE_INT, v)\<close>; when
  the old timer event was the head and the new one is not due before the next
  event, the queue starts with that next event while \<^verbatim>\<open>next_interrupt\<close> still
  holds the count of the timer event that is gone.\<close>

theorem compare_write_stale:
  assumes "queue_abs s ((COMPARE_INT, n) # (t, m) # xs)" "next_interrupt s = n" "t \<noteq> COMPARE_INT"
    and "\<not> spec_before c (SPECIAL_done s) COMPARE_INT v (t, m)"
  shows "\<exists>s1 s2 ys. remove_event COMPARE_INT s = Some s1 \<and>
           add_interrupt_event_count c COMPARE_INT v s1 = Some s2 \<and>
           queue_abs s2 ((t, m) # ys) \<and> next_interrupt s2 = n"
proof -
  obtain s1 where s1: "remove_event COMPARE_INT s = Some s1" "queue_abs s1 ((t, m) # xs)"
      "SPECIAL_done s1 = SPECIAL_done s" "next_interrupt s1 = n"
    using remove_event_abs [OF assms(1), of COMPARE_INT] assms(2) by auto
  have "length ((t, m) # xs) < pool_size" using queue_abs_length [OF assms(1)] by simp
  from add_interrupt_event_abs [OF s1(2) this, of c COMPARE_INT "v - c"] assms(4) s1(1,3,4) show ?thesis
    by (auto simp: add_interrupt_event_count_def spec_add_def insert_event_def)
qed

theorem compare_write_stale_witness:
  "\<exists>s s1 s2 ys. queue_abs s [(COMPARE_INT, 1000), (VI_INT, 5000)] \<and>
     remove_event COMPARE_INT s = Some s1 \<and>
     add_interrupt_event_count 0 COMPARE_INT 9000 s1 = Some s2 \<and>
     queue_abs s2 ((VI_INT, 5000) # ys) \<and> next_interrupt s2 = 1000"
proof -
  obtain s where s: "queue_abs s [(COMPARE_INT, 1000), (VI_INT, 5000)]" "SPECIAL_done s = False"
      "next_interrupt s = 1000"
    using two_event_queue [of 0 COMPARE_INT 5000 1000 VI_INT] by auto
  then show ?thesis
    using compare_write_stale [OF s(1,3), where c = 0 and v = 9000]
    by (auto simp: spec_before_def before_event_def)
qed

text \<open>Events can change places when a savestate is loaded.  The loader inserts the
  events while \<^verbatim>\<open>Count\<close> still has its value from before the load; a saved pair
  of an event at \<^term>\<open>n\<close> and a later one at \<^term>\<open>m\<close> is rebuilt in the opposite order
  whenever that \<^verbatim>\<open>Count\<close> lies before \<^term>\<open>m\<close> and at least \<^term>\<open>2 ^ 28\<close> past \<^term>\<open>n\<close>.\<close>

theorem load_with_stale_count:
  assumes "queue_abs s [(t, n), (u, m)]" "queue_abs s0 ys" "t \<noteq> 0xFFFFFFFF" "u \<noteq> 0xFFFFFFFF"
    and "u \<noteq> SPECIAL_INT" "m - c < 0x80000000" "\<not> n - c < 0x80000000" "\<not> c - n < 0x10000000"
  shows "\<exists>buf s'. save_eventqueue_infos s = Some buf \<and>
           load_eventqueue_infos c buf s0 = Some s' \<and> queue_abs s' [(u, m), (t, n)]"
proof -
  have "spec_load c (SPECIAL_done s0) [(t, n), (u, m)] [] = [(u, m), (t, n)]"
    using assms(5-8) by (auto simp: spec_add_def insert_event_def spec_before_def before_event_def)
  moreover have "length [(t, n), (u, m)] \<le> pool_size" by (simp add: pool_size_def)
  ultimately show ?thesis
    using save_eventqueue_abs [OF assms(1)] assms(3,4)
      load_eventqueue_abs [OF assms(2), of "[(t, n), (u, m)]" c "[]"] by auto
qed

theorem load_with_stale_count_witness:
  "\<exists>s buf s'. queue_abs s [(VI_INT, 0x1000), (COMPARE_INT, 0x30000000)] \<and>
     save_eventqueue_infos s = Some buf \<and>
     load_eventqueue_infos 0x20000000 buf queue_init = Some s' \<and>
     queue_abs s' [(COMPARE_INT, 0x30000000), (VI_INT, 0x1000)]"
proof -
  obtain s where s: "queue_abs s [(VI_INT, 0x1000), (COMPARE_INT, 0x30000000)]"
    using two_event_queue [of 0 VI_INT "0x30000000" "0x1000" COMPARE_INT] by auto
  show ?thesis
    using load_with_stale_count [OF s queue_init_abs(1), where c = "0x20000000"] s by auto
qed

text \<open>Writing \<^verbatim>\<open>Count\<close> can put the timer event behind a later event.
  \<^verbatim>\<open>translate_event_queue\<close> rebases the other events to the new \<^verbatim>\<open>Count\<close> and then
  inserts the timer event relative to the old one; with \<^verbatim>\<open>Count\<close> set back to 0,
  a timer event 100 counts ahead ends up after a vertical interrupt 1000 counts ahead.\<close>

theorem translate_misorders_compare:
  assumes "queue_abs s [(VI_INT, 5000)]"
  shows "\<exists>s'. translate_event_queue 4000 100 0 s = Some s' \<and>
           queue_abs s' [(VI_INT, 1000), (COMPARE_INT, 100), (SPECIAL_INT, 0)]"
proof -
  have "spec_translate 4000 100 0 d [(VI_INT, 5000)] = [(VI_INT, 1000), (COMPARE_INT, 100), (SPECIAL_INT, 0)]" for d
    by (simp add: spec_translate_def rebase_def spec_add_def insert_event_def spec_before_def before_event_def)
  then show ?thesis
    using translate_event_queue_abs [OF assms, where c = 4000 and cmp = 100 and base = 0] by (auto simp: pool_size_def)
qed

theorem translate_misorders_compare_witness:
  "\<exists>s s'. translate_event_queue 4000 100 0 s = Some s' \<and>
     queue_abs s' [(VI_INT, 1000), (COMPARE_INT, 100), (SPECIAL_INT, 0)]"
proof -
  obtain s where "queue_abs s [(VI_INT, 5000)]"
    using add_interrupt_event_abs [OF queue_init_abs(1), of 0 VI_INT 5000]
    by (auto simp: pool_size_def spec_add_def insert_event_def)
  from translate_misorders_compare [OF this] show ?thesis by blast
qed

end
