(* ===== verification/Cpu_State.thy ===== *)
theory Cpu_State
  imports Mupen_Prelude
begin

text \<open>
  The register state of the R4300 core as the pure interpreter sees it
  (\<^verbatim>\<open>Core/r4300/r4300.cpp\<close>, \<^verbatim>\<open>pure_interp.cpp\<close>, \<^verbatim>\<open>macros.h\<close>), the decoding of
  the instruction fields (\<^verbatim>\<open>recompile_standard_*_type\<close> in \<^verbatim>\<open>recomp.cpp\<close>) and the
  macros \<^verbatim>\<open>rrt32\<close>, \<^verbatim>\<open>sign_extended\<close>, \<^verbatim>\<open>core_Count\<close>, \<^verbatim>\<open>...\<close> that every instruction uses.
  A general register number is a 5-bit word, so every index is in range by
  construction, as it is in the source (\<^verbatim>\<open>reg + ((src >> 21) & 0x1F)\<close>).
\<close>

type_synonym regno = "5 word"

record tlb =
  tlb_mask :: u16
  tlb_vpn2 :: u32
  tlb_g :: u8
  tlb_asid :: u8
  tlb_pfn_even :: u32
  tlb_c_even :: u8
  tlb_d_even :: u8
  tlb_v_even :: u8
  tlb_pfn_odd :: u32
  tlb_c_odd :: u8
  tlb_d_odd :: u8
  tlb_v_odd :: u8
  tlb_r :: u8
  start_even :: u32
  end_even :: u32
  phys_even :: u32
  start_odd :: u32
  end_odd :: u32
  phys_odd :: u32

text \<open>\<^verbatim>\<open>MUP_ROUND_NEAREST\<close> and its siblings, the values of \<^verbatim>\<open>rounding_mode\<close>.\<close>

datatype rounding = Round_nearest | Round_trunc | Round_ceil | Round_floor

text \<open>
  \<^verbatim>\<open>fr_mode\<close> says which way the tables \<^verbatim>\<open>reg_cop1_simple\<close> and \<^verbatim>\<open>reg_cop1_double\<close> of pointers into \<^verbatim>\<open>reg_cop1_fgr_64\<close> were
  filled last.
\<close>

record r4300 =
  reg :: "regno \<Rightarrow> u64"
  hi :: u64
  lo :: u64
  llbit :: bool
  reg_cop0 :: "regno \<Rightarrow> u32"
  reg_cop1_fgr_64 :: "regno \<Rightarrow> u64"
  fr_mode :: bool
  FCR0 :: u32
  FCR31 :: u32
  local_rs :: u64
  local_rt :: u64
  local_rs32 :: u32
  interp_addr :: u32
  last_addr :: u32
  delay_slot :: bool
  skip_jump :: u32
  stop :: bool
  vr_op :: u32
  debug_count :: u64
  beq_ignore_jmp :: bool
  rounding_mode :: rounding

section \<open>Coprocessor 0 registers\<close>

abbreviation "core_Index s \<equiv> reg_cop0 s 0"
abbreviation "core_Random s \<equiv> reg_cop0 s 1"
abbreviation "core_EntryLo0 s \<equiv> reg_cop0 s 2"
abbreviation "core_EntryLo1 s \<equiv> reg_cop0 s 3"
abbreviation "core_Context s \<equiv> reg_cop0 s 4"
abbreviation "core_PageMask s \<equiv> reg_cop0 s 5"
abbreviation "core_Wired s \<equiv> reg_cop0 s 6"
abbreviation "core_BadVAddr s \<equiv> reg_cop0 s 8"
abbreviation "core_Count s \<equiv> reg_cop0 s 9"
abbreviation "core_EntryHi s \<equiv> reg_cop0 s 10"
abbreviation "core_Compare s \<equiv> reg_cop0 s 11"
abbreviation "core_Status s \<equiv> reg_cop0 s 12"
abbreviation "core_Cause s \<equiv> reg_cop0 s 13"
abbreviation "core_EPC s \<equiv> reg_cop0 s 14"
abbreviation "core_ErrorEPC s \<equiv> reg_cop0 s 30"

definition set_cop0 :: "regno \<Rightarrow> u32 \<Rightarrow> r4300 \<Rightarrow> r4300" where
  "set_cop0 i v s = s\<lparr>reg_cop0 := (reg_cop0 s)(i := v)\<rparr>"

section \<open>Instruction fields\<close>

text \<open>\<^verbatim>\<open>recompile_standard_r_type\<close>, \<^verbatim>\<open>recompile_standard_i_type\<close> and their siblings.\<close>

definition f_rs :: "u32 \<Rightarrow> regno" where "f_rs src = ucast (drop_bit 21 src AND 0x1F)"
definition f_rt :: "u32 \<Rightarrow> regno" where "f_rt src = ucast (drop_bit 16 src AND 0x1F)"
definition f_rd :: "u32 \<Rightarrow> regno" where "f_rd src = ucast (drop_bit 11 src AND 0x1F)"
definition f_sa :: "u32 \<Rightarrow> nat" where "f_sa src = unat (drop_bit 6 src AND 0x1F)"
definition f_imm :: "u32 \<Rightarrow> u16" where "f_imm src = ucast (src AND 0xFFFF)"
definition f_inst_index :: "u32 \<Rightarrow> u32" where "f_inst_index src = src AND 0x3FFFFFF"

text \<open>\<^verbatim>\<open>immediate\<close> is an \<^verbatim>\<open>int16_t\<close>: it is sign-extended wherever it is used in arithmetic.\<close>

definition imm32 :: "u32 \<Rightarrow> u32" where "imm32 src = scast (f_imm src)"
definition imm64 :: "u32 \<Rightarrow> u64" where "imm64 src = scast (f_imm src)"

section \<open>Operands\<close>

abbreviation core_rrs :: "r4300 \<Rightarrow> u64" where "core_rrs s \<equiv> reg s (f_rs (vr_op s))"
abbreviation core_rrt :: "r4300 \<Rightarrow> u64" where "core_rrt s \<equiv> reg s (f_rt (vr_op s))"
abbreviation rrs32 :: "r4300 \<Rightarrow> u32" where "rrs32 s \<equiv> ucast (core_rrs s)"
abbreviation rrt32 :: "r4300 \<Rightarrow> u32" where "rrt32 s \<equiv> ucast (core_rrt s)"
abbreviation core_rsa :: "r4300 \<Rightarrow> nat" where "core_rsa s \<equiv> f_sa (vr_op s)"

definition sext32 :: "u32 \<Rightarrow> u64" where "sext32 w = scast w"

text \<open>\<^verbatim>\<open>sign_extended(a)\<close>: \<^verbatim>\<open>a = (int64_t)((int32_t)a)\<close>.\<close>

definition sign_extended :: "u64 \<Rightarrow> u64" where "sign_extended a = sext32 (ucast a)"

definition set_rd :: "u64 \<Rightarrow> r4300 \<Rightarrow> r4300" where
  "set_rd v s = s\<lparr>reg := (reg s)(f_rd (vr_op s) := v)\<rparr>"

definition set_rt :: "u64 \<Rightarrow> r4300 \<Rightarrow> r4300" where
  "set_rt v s = s\<lparr>reg := (reg s)(f_rt (vr_op s) := v)\<rparr>"

definition pc4 :: "r4300 \<Rightarrow> r4300" where
  "pc4 s = s\<lparr>interp_addr := interp_addr s + 4\<rparr>"

text \<open>\<^verbatim>\<open>update_count\<close> with \<^verbatim>\<open>interpcore\<close> set: one count per two instructions' bytes.\<close>

definition update_count :: "r4300 \<Rightarrow> r4300" where
  "update_count s = (set_cop0 9 (core_Count s + (interp_addr s - last_addr s) div 2) s)
     \<lparr>last_addr := interp_addr s\<rparr>"

lemma sext32_sint: "sint (sext32 w) = sint w"
  by (simp add: sext32_def sint_up_scast is_up)

lemma ucast_sext32 [simp]: "ucast (sext32 w) = w"
proof (rule bit_word_eqI)
  fix n assume "n < LENGTH(32)"
  then show "bit (ucast (sext32 w) :: u32) n = bit w n"
    by (cases "n = 31") (auto simp: sext32_def bit_simps min_def)
qed

lemma sign_extended_sext32 [simp]: "sign_extended (sext32 w) = sext32 w"
  by (simp add: sign_extended_def)

lemma sign_extended_idem [simp]: "sign_extended (sign_extended a) = sign_extended a"
  by (simp add: sign_extended_def)

end
