(* ===== verification/Flashram.thy ===== *)
theory Flashram
  imports Host_Memory
begin

text \<open>
  The flash memory of a cartridge, \<^verbatim>\<open>Core/memory/flashram.cpp\<close>: the command state
  machine, the two DMA directions and the savestate block.  The backing files
  \<^verbatim>\<open>g_sram_file\<close> and \<^verbatim>\<open>g_fram_file\<close> are byte lists; a write outside \<^verbatim>\<open>flashram\<close> or
  a read outside \<^verbatim>\<open>rdram\<close> is \<^term>\<open>None\<close>.  The result carries whether \<^verbatim>\<open>stop\<close> was set.
\<close>

abbreviation (input) NOPES_MODE :: u32 where "NOPES_MODE \<equiv> 0"
abbreviation (input) ERASE_MODE :: u32 where "ERASE_MODE \<equiv> 1"
abbreviation (input) WRITE_MODE :: u32 where "WRITE_MODE \<equiv> 2"
abbreviation (input) READ_MODE :: u32 where "READ_MODE \<equiv> 3"
abbreviation (input) STATUS_MODE :: u32 where "STATUS_MODE \<equiv> 4"

abbreviation (input) flashram_size :: nat where "flashram_size \<equiv> 0x20000"
abbreviation (input) rdram_size :: nat where "rdram_size \<equiv> 0x800000"

record flash_state =
  use_flashram :: u32
  flash_mode :: u32
  flash_status :: u64
  erase_offset :: u32
  write_pointer :: u32
  flashram :: array
  g_sram_file :: bytes
  g_fram_file :: bytes

section \<open>Operations\<close>

definition init_flashram :: "flash_state \<Rightarrow> flash_state" where
  "init_flashram s = s\<lparr>flash_mode := NOPES_MODE, flash_status := 0\<rparr>"

definition flashram_status_reg :: "flash_state \<Rightarrow> u32" where
  "flashram_status_reg s = ucast (drop_bit 32 (flash_status s))"

text \<open>
  \<^verbatim>\<open>for (int32_t i = erase_offset; i < erase_offset + 128; i++) flashram[i ^ S8] = 0xff;\<close>
  The comparison is unsigned, so the loop does not run when the bound wraps.
\<close>

fun erase_loop :: "nat \<Rightarrow> u32 \<Rightarrow> u32 \<Rightarrow> array \<Rightarrow> array option" where
  "erase_loop 0 i bound fl = Some fl"
| "erase_loop (Suc n) i bound fl =
     (if i < bound then
        if unat (i XOR 3) < flashram_size
        then erase_loop n (i + 1) bound (fl(unat (i XOR 3) := 0xFF)) else None
      else Some fl)"

definition flashram_execute :: "array \<Rightarrow> flash_state \<Rightarrow> (bool \<times> flash_state) option" where
  "flashram_execute rdram s =
    (if flash_mode s = NOPES_MODE then Some (False, s)
     else if flash_mode s = ERASE_MODE then do {
       let fl = fread0 0x20000 (g_sram_file s) (flashram s);
       fl' \<leftarrow> erase_loop 128 (erase_offset s) (erase_offset s + 128) fl;
       Some (False, s\<lparr>flashram := fl', g_sram_file := fwrite0 0x20000 fl' (g_sram_file s)\<rparr>) }
     else if flash_mode s = WRITE_MODE then do {
       let fl = fread0 0x20000 (g_sram_file s) (flashram s);
       fl' \<leftarrow> copy_s8 128 rdram rdram_size (write_pointer s) fl flashram_size (erase_offset s);
       Some (False, s\<lparr>flashram := fl', g_sram_file := fwrite0 0x20000 fl' (g_sram_file s)\<rparr>) }
     else if flash_mode s = STATUS_MODE then Some (False, s)
     else Some (True, s))"

definition flashram_command :: "u32 \<Rightarrow> array \<Rightarrow> flash_state \<Rightarrow> (bool \<times> flash_state) option" where
  "flashram_command command rdram s =
    (let c = command AND 0xFF000000 in
     if c = 0x4B000000 then Some (False, s\<lparr>erase_offset := (command AND 0xFFFF) * 128\<rparr>)
     else if c = 0x78000000 then
       Some (False, s\<lparr>flash_mode := ERASE_MODE, flash_status := 0x1111800800C20000\<rparr>)
     else if c = 0xA5000000 then
       Some (False, s\<lparr>erase_offset := (command AND 0xFFFF) * 128, flash_status := 0x1111800400C20000\<rparr>)
     else if c = 0xB4000000 then Some (False, s\<lparr>flash_mode := WRITE_MODE\<rparr>)
     else if c = 0xD2000000 then do {
       (stp, s1) \<leftarrow> flashram_execute rdram s;
       Some (stp, s1\<lparr>flash_mode := NOPES_MODE\<rparr>) }
     else if c = 0xE1000000 then
       Some (False, s\<lparr>flash_mode := STATUS_MODE, flash_status := 0x1111800100C20000\<rparr>)
     else if c = 0xF0000000 then
       Some (False, s\<lparr>flash_mode := READ_MODE, flash_status := 0x11118004F0000000\<rparr>)
     else Some (False, s))"

text \<open>Word stores \<^verbatim>\<open>rdram[k] = v\<close> with the bounds of the array.\<close>

definition rdram_store :: "nat \<Rightarrow> u32 \<Rightarrow> array \<Rightarrow> array option" where
  "rdram_store k v rdram = (if 4 * k + 4 \<le> rdram_size then Some (st32 rdram (4 * k) v) else None)"

definition dma_read_flashram ::
  "u32 \<Rightarrow> u32 \<Rightarrow> u32 \<Rightarrow> array \<Rightarrow> flash_state \<Rightarrow> (bool \<times> array \<times> flash_state) option" where
  "dma_read_flashram pi_dram_addr pi_cart_addr pi_wr_len rdram s =
    (if flash_mode s = STATUS_MODE then do {
       r1 \<leftarrow> rdram_store (unat pi_dram_addr div 4) (ucast (drop_bit 32 (flash_status s))) rdram;
       r2 \<leftarrow> rdram_store (unat pi_dram_addr div 4 + 1) (ucast (flash_status s)) r1;
       Some (False, r2, s) }
     else if flash_mode s = READ_MODE then do {
       let fl = fread0 0x20000 (g_fram_file s) (flashram s);
       r \<leftarrow> copy_s8 (unat (pi_wr_len AND 0xFFFFFF) + 1) fl flashram_size
              (((pi_cart_addr - 0x08000000) AND 0xFFFF) * 2) rdram rdram_size pi_dram_addr;
       Some (False, r, s\<lparr>flashram := fl\<rparr>) }
     else Some (True, rdram, s))"

definition dma_write_flashram :: "u32 \<Rightarrow> flash_state \<Rightarrow> bool \<times> flash_state" where
  "dma_write_flashram pi_dram_addr s =
    (if flash_mode s = WRITE_MODE then (False, s\<lparr>write_pointer := pi_dram_addr\<rparr>) else (True, s))"

section \<open>The savestate block\<close>

definition put_le64 :: "u64 \<Rightarrow> bytes" where
  "put_le64 w = put_le32 (ucast w) @ put_le32 (ucast (drop_bit 32 w))"

definition get_le64 :: "bytes \<Rightarrow> nat \<Rightarrow> u64 option" where
  "get_le64 b off = do {
     l \<leftarrow> get_le32 b off;
     h \<leftarrow> get_le32 b (off + 4);
     Some (ucast l OR push_bit 32 (ucast h)) }"

definition save_flashram_infos :: "flash_state \<Rightarrow> bytes" where
  "save_flashram_infos s = put_le32 (use_flashram s) @ put_le32 (flash_mode s) @ put_le64 (flash_status s)
     @ put_le32 (erase_offset s) @ put_le32 (write_pointer s)"

definition load_flashram_infos :: "bytes \<Rightarrow> flash_state \<Rightarrow> flash_state option" where
  "load_flashram_infos buf s = do {
     u \<leftarrow> get_le32 buf 0;
     m \<leftarrow> get_le32 buf 4;
     st \<leftarrow> get_le64 buf 8;
     e \<leftarrow> get_le32 buf 16;
     w \<leftarrow> get_le32 buf 20;
     Some (s\<lparr>use_flashram := u, flash_mode := m, flash_status := st, erase_offset := e, write_pointer := w\<rparr>) }"

text \<open>One of the two loops of \<^verbatim>\<open>check_flashram_infos\<close>: \<^verbatim>\<open>i ^ S8\<close> is an \<^verbatim>\<open>int\<close>.\<close>

fun check_loop :: "nat \<Rightarrow> u32 \<Rightarrow> u32 \<Rightarrow> nat \<Rightarrow> bool" where
  "check_loop 0 i bound sz = True"
| "check_loop (Suc n) i bound sz =
     (if i < bound then
        if i XOR 3 <s 0 \<or> unat (i XOR 3) \<ge> sz then False else check_loop n (i + 1) bound sz
      else True)"

definition check_flashram_infos :: "bytes \<Rightarrow> bool option" where
  "check_flashram_infos buf = do {
     e \<leftarrow> get_le32 buf 16;
     w \<leftarrow> get_le32 buf 20;
     Some (check_loop 128 e (e + 128) flashram_size \<and> check_loop 128 w (w + 128) rdram_size) }"

section \<open>Loops\<close>

lemma erase_loop_guest:
  assumes "unat i + n \<le> flashram_size" "unat bound = unat i + n"
  shows "\<exists>fl'. erase_loop n i bound fl = Some fl' \<and>
           guest fl' = (\<lambda>a. if unat i \<le> a \<and> a < unat i + n then 0xFF else guest fl a)"
  using assms
proof (induction n arbitrary: i fl)
  case 0
  then show ?case by (auto simp: fun_eq_iff)
next
  case (Suc n)
  have i1: "unat (i + 1) = unat i + 1" by (rule unat_suc32) (use Suc.prems in simp)
  have lt: "i < bound" using Suc.prems by (simp add: word_less_nat_alt)
  have ok: "unat (i XOR 3) < flashram_size" using Suc.prems by (simp add: unat_xor3 xor3_less)
  let ?fl = "fl(unat (i XOR 3) := 0xFF)"
  have "\<exists>fl'. erase_loop n (i + 1) bound ?fl = Some fl' \<and>
           guest fl' = (\<lambda>a. if unat (i + 1) \<le> a \<and> a < unat (i + 1) + n then 0xFF else guest ?fl a)"
    by (rule Suc.IH) (use Suc.prems i1 in auto)
  moreover have "guest ?fl = (guest fl)(unat i := 0xFF)" by (simp only: unat_xor3 guest_upd)
  ultimately show ?case using lt ok i1 by (auto simp: fun_eq_iff)
qed

lemma erase_loop_oob:
  assumes "i < bound" "flashram_size \<le> unat i"
  shows "erase_loop (Suc n) i bound fl = None"
  using assms by (simp add: unat_xor3 xor3_less)

lemma check_loop_iff:
  assumes "4 dvd sz" "sz \<le> 2 ^ 31" "unat bound = unat i + n"
  shows "check_loop n i bound sz \<longleftrightarrow> n = 0 \<or> unat i + n \<le> sz"
  using assms(3)
proof (induction n arbitrary: i)
  case (Suc n)
  have i1: "unat (i + 1) = unat i + 1"
    using unat_suc32 [of i] unat32_less [of bound] Suc.prems by simp
  have lt: "i < bound" using Suc.prems by (simp add: word_less_nat_alt)
  have neg: "\<not> i XOR 3 <s 0" if "unat i < sz"
  proof -
    have "unat (i XOR 3) < 2 ^ 31" using that assms(1,2) xor3_less [of sz "unat i"] by (simp add: unat_xor3)
    then show ?thesis by (simp add: sless_zero32)
  qed
  show ?case
    using Suc.IH [of "i + 1"] Suc.prems i1 lt neg xor3_less [OF assms(1), of "unat i"]
    by (cases "unat i < sz") (auto simp: unat_xor3)
qed simp

section \<open>Command sequences\<close>

text \<open>The sequences a game issues: program one page from memory, erase one page.\<close>

definition program_page :: "u16 \<Rightarrow> u32 \<Rightarrow> array \<Rightarrow> flash_state \<Rightarrow> flash_state option" where
  "program_page page ptr rdram s = do {
     (_, s1) \<leftarrow> flashram_command 0xB4000000 rdram s;
     let (_, s2) = dma_write_flashram ptr s1;
     (_, s3) \<leftarrow> flashram_command (0xA5000000 OR ucast page) rdram s2;
     (_, s4) \<leftarrow> flashram_command 0xD2000000 rdram s3;
     Some s4 }"

definition erase_page :: "u16 \<Rightarrow> array \<Rightarrow> flash_state \<Rightarrow> flash_state option" where
  "erase_page page rdram s = do {
     (_, s1) \<leftarrow> flashram_command (0x4B000000 OR ucast page) rdram s;
     (_, s2) \<leftarrow> flashram_command 0x78000000 rdram s1;
     (_, s3) \<leftarrow> flashram_command 0xD2000000 rdram s2;
     Some s3 }"

lemma page_bits:
  fixes page :: u16
  shows "(t OR ucast page) AND 0xFFFF = (t AND 0xFFFF) OR (ucast page :: u32)"
    and "(t OR ucast page) AND 0xFF000000 = (t AND 0xFF000000 :: u32)"
proof -
  have p: "ucast page AND 0xFFFF = (ucast page :: u32)"
  proof -
    have "(0xFFFF :: u32) = mask 16" by (simp add: mask_numeral)
    then show ?thesis by (simp only: take_bit_eq_mask [symmetric]) (rule bit_word_eqI, auto simp: bit_simps dest: bit_imp_le_length)
  qed
  have "ucast page AND 0xFF000000 = (ucast page AND 0xFFFF) AND (0xFF000000 :: u32)" by (simp only: p)
  also have "\<dots> = 0" by (simp add: and.assoc)
  finally have z: "ucast page AND 0xFF000000 = (0 :: u32)" .
  show "(t OR ucast page) AND 0xFFFF = (t AND 0xFFFF) OR (ucast page :: u32)"
    by (simp only: bit.conj_disj_distrib2 p)
  show "(t OR ucast page) AND 0xFF000000 = (t AND 0xFF000000 :: u32)"
    by (simp only: bit.conj_disj_distrib2 z) simp
qed

lemma page_offset: "unat (ucast (page :: u16) * 128 :: u32) = unat page * 128"
proof -
  have "unat page < 2 ^ 16" using unsigned_less [of page, where 'a = nat] by simp
  then show ?thesis by (simp add: unat_word_ariths unsigned_ucast_eq take_bit_eq_mod)
qed

lemma program_page_steps:
  "program_page page ptr rdram s = do {
     fl' \<leftarrow> copy_s8 128 rdram rdram_size ptr (fread0 0x20000 (g_sram_file s) (flashram s))
              flashram_size (ucast page * 128);
     Some (s\<lparr>flash_mode := NOPES_MODE, flash_status := 0x1111800400C20000, erase_offset := ucast page * 128,
             write_pointer := ptr, flashram := fl', g_sram_file := fwrite0 0x20000 fl' (g_sram_file s)\<rparr>) }"
  by (cases "copy_s8 128 rdram rdram_size ptr (fread0 0x20000 (g_sram_file s) (flashram s))
              flashram_size (ucast page * 128)")
     (simp_all add: program_page_def flashram_command_def dma_write_flashram_def flashram_execute_def
        Let_def page_bits)

lemma erase_page_steps:
  "erase_page page rdram s = do {
     fl' \<leftarrow> erase_loop 128 (ucast page * 128) (ucast page * 128 + 128) (fread0 0x20000 (g_sram_file s) (flashram s));
     Some (s\<lparr>flash_mode := NOPES_MODE, flash_status := 0x1111800800C20000, erase_offset := ucast page * 128,
             flashram := fl', g_sram_file := fwrite0 0x20000 fl' (g_sram_file s)\<rparr>) }"
  by (cases "erase_loop 128 (ucast page * 128) (ucast page * 128 + 128) (fread0 0x20000 (g_sram_file s) (flashram s))")
     (simp_all add: erase_page_def flashram_command_def flashram_execute_def Let_def page_bits)

text \<open>The file behind the flash memory, seen at guest addresses.\<close>

definition file_view :: "bytes \<Rightarrow> nat \<Rightarrow> u8" where
  "file_view f a = f ! (a XOR S8)"

lemma file_view_fwrite0:
  assumes "a < flashram_size"
  shows "file_view (fwrite0 0x20000 buf f) a = guest buf a"
proof -
  have "a XOR 3 < flashram_size" using assms xor3_less [of flashram_size a] by simp
  then show ?thesis by (simp add: file_view_def fwrite0_def guest_def nth_append)
qed

lemma guest_fread0:
  assumes "a < flashram_size" "flashram_size \<le> length f"
  shows "guest (fread0 0x20000 f buf) a = file_view f a"
proof -
  have "a XOR 3 < flashram_size" using assms xor3_less [of flashram_size a] by simp
  with assms(2) show ?thesis by (simp add: file_view_def fread0_def guest_def)
qed

lemma get_put_le64: "get_le64 (pre @ put_le64 w @ post) (length pre) = Some w"
proof -
  have j: "ucast (ucast w :: u32) OR push_bit 32 (ucast (ucast (drop_bit 32 w) :: u32)) = w"
  proof (rule bit_word_eqI)
    fix n assume "n < LENGTH(64)"
    then show "bit (ucast (ucast w :: u32) OR push_bit 32 (ucast (ucast (drop_bit 32 w) :: u32)) :: u64) n = bit w n"
      by (cases "n < 32") (auto simp: bit_simps)
  qed
  have "get_le32 ((pre @ put_le32 (ucast w)) @ put_le32 (ucast (drop_bit 32 w)) @ post) (length (pre @ put_le32 (ucast w)))
      = Some (ucast (drop_bit 32 w))" by (rule get_put_le32_at)
  then show ?thesis by (simp add: get_le64_def put_le64_def j)
qed

lemma infos_fields:
  "get_le32 (save_flashram_infos s) 0 = Some (use_flashram s)"
  "get_le32 (save_flashram_infos s) 4 = Some (flash_mode s)"
  "get_le64 (save_flashram_infos s) 8 = Some (flash_status s)"
  "get_le32 (save_flashram_infos s) 16 = Some (erase_offset s)"
  "get_le32 (save_flashram_infos s) 20 = Some (write_pointer s)"
proof -
  let ?u = "put_le32 (use_flashram s)" and ?m = "put_le32 (flash_mode s)" and ?s = "put_le64 (flash_status s)"
    and ?e = "put_le32 (erase_offset s)" and ?w = "put_le32 (write_pointer s)"
  have l64: "length ?s = 8" by (simp add: put_le64_def)
  show "get_le32 (save_flashram_infos s) 0 = Some (use_flashram s)" by (simp add: save_flashram_infos_def)
  show "get_le32 (save_flashram_infos s) 4 = Some (flash_mode s)"
    using get_put_le32_at [of ?u "flash_mode s" "?s @ ?e @ ?w"] by (simp add: save_flashram_infos_def)
  show "get_le64 (save_flashram_infos s) 8 = Some (flash_status s)"
    using get_put_le64 [of "?u @ ?m" "flash_status s" "?e @ ?w"] by (simp add: save_flashram_infos_def)
  show "get_le32 (save_flashram_infos s) 16 = Some (erase_offset s)"
    using get_put_le32_at [of "?u @ ?m @ ?s" "erase_offset s" ?w] by (simp add: save_flashram_infos_def l64)
  show "get_le32 (save_flashram_infos s) 20 = Some (write_pointer s)"
    using get_put_le32_at [of "?u @ ?m @ ?s @ ?e" "write_pointer s" "[]"] by (simp add: save_flashram_infos_def l64)
qed

lemma check_loop_128:
  assumes "4 dvd sz" "sz \<le> 2 ^ 31"
  shows "check_loop 128 e (e + 128) sz \<longleftrightarrow> unat e + 128 \<le> sz \<or> 2 ^ 32 \<le> unat e + 128"
proof (cases "unat e + 128 < 2 ^ 32")
  case True
  then have "unat (e + 128) = unat e + 128" by (simp add: unat_word_ariths)
  from check_loop_iff [OF assms this] True show ?thesis by auto
next
  case False
  then have "unat (e + 128) = unat e + 128 - 2 ^ 32"
    using unat32_less [of e] by (simp add: unat_word_ariths le_mod_geq)
  then have "\<not> e < e + 128" using unat32_less [of e] by (simp add: word_less_nat_alt)
  then have "check_loop (Suc 127) e (e + 128) sz" by (simp only: check_loop.simps if_False)
  with False show ?thesis by simp
qed

section \<open>Properties\<close>


definition flash_example :: flash_state where
  "flash_example = \<lparr>use_flashram = 1, flash_mode = 0, flash_status = 0, erase_offset = 0, write_pointer = 0,
     flashram = (\<lambda>_. 0), g_sram_file = replicate 0x20000 0xFF, g_fram_file = replicate 0x20000 0xFF\<rparr>"


text \<open>What was programmed cannot be read back in the same session.  The write and
  erase commands operate on \<^verbatim>\<open>g_sram_file\<close>, a read in \<^verbatim>\<open>READ_MODE\<close> copies from
  \<^verbatim>\<open>g_fram_file\<close>: programming a page leaves the file behind reads as it was, and a
  read delivers that file's bytes.\<close>

theorem flash_read_other_file:
  assumes "program_page page ptr rdram s = Some s1" "flashram_command 0xF0000000 rdram s1 = Some (stp, s2)"
    and "flashram_size \<le> length (g_fram_file s)" "unat len < flashram_size" "unat dram + unat len < rdram_size"
  shows "\<exists>r s3. dma_read_flashram dram 0x08000000 len rdram' s2 = Some (False, r, s3) \<and>
    (\<forall>k. k \<le> unat len \<longrightarrow> guest r (unat dram + k) = file_view (g_fram_file s) k)"
proof -
  have s2: "flash_mode s2 = READ_MODE" "g_fram_file s2 = g_fram_file s"
    using assms(1,2) by (auto simp: program_page_steps flashram_command_def Let_def bind_rules)
  have "len AND 0xFFFFFF = take_bit 24 len" by (simp add: take_bit_eq_mask mask_numeral)
  then have len: "unat (len AND 0xFFFFFF) = unat len"
    using assms(4) by (simp only: unsigned_take_bit_eq) (simp add: take_bit_eq_mod)
  let ?fl = "fread0 0x20000 (g_fram_file s) (flashram s2)"
  obtain r where r: "copy_s8 (unat len + 1) ?fl flashram_size 0 rdram' rdram_size dram = Some r"
      "guest r = (\<lambda>a. if unat dram \<le> a \<and> a < unat dram + (unat len + 1)
                      then guest ?fl (a - unat dram + unat (0 :: u32)) else guest rdram' a)"
    using copy_s8_guest [of 0 "unat len + 1" flashram_size dram rdram_size ?fl rdram'] assms(4,5) by auto
  have "dma_read_flashram dram 0x08000000 len rdram' s2 = Some (False, r, s2\<lparr>flashram := ?fl\<rparr>)"
    using r(1) by (simp add: dma_read_flashram_def Let_def s2 len)
  then show ?thesis
    using r(2) assms(3,4) by (auto simp: guest_fread0)
qed

theorem flash_read_other_file_witness:
  "\<exists>s1 s2 r s3. program_page 0 0x1000 (\<lambda>_. 0x5A) flash_example = Some s1 \<and>
     flashram_command 0xF0000000 (\<lambda>_. 0x5A) s1 = Some (False, s2) \<and>
     dma_read_flashram 0x2000 0x08000000 127 (\<lambda>_. 0) s2 = Some (False, r, s3) \<and>
     guest r 0x2000 = 0xFF"
proof -
  have len: "flashram_size \<le> length (g_sram_file flash_example)" "flashram_size \<le> length (g_fram_file flash_example)"
    by (simp_all add: flash_example_def)
  obtain fl' where "copy_s8 128 (\<lambda>_. 0x5A) rdram_size 0x1000
      (fread0 0x20000 (g_sram_file flash_example) (flashram flash_example)) flashram_size (ucast (0 :: u16) * 128) = Some fl'"
    using copy_s8_guest [of "0x1000" 128 rdram_size "ucast (0 :: u16) * 128" flashram_size] by fastforce
  then obtain s1 where s1: "program_page 0 0x1000 (\<lambda>_. 0x5A) flash_example = Some s1"
    by (simp add: program_page_steps)
  obtain s2 where s2: "flashram_command 0xF0000000 (\<lambda>_. 0x5A) s1 = Some (False, s2)"
    by (simp add: flashram_command_def Let_def)
  have "file_view (g_fram_file flash_example) 0 = 0xFF" by (simp add: flash_example_def file_view_def)
  with flash_read_other_file [OF s1 s2 len(2), of 127 "0x2000" "\<lambda>_. 0"] s1 s2 show ?thesis
    by force
qed

text \<open>Erasing is bounded for the pages of the device and only for those: a page
  number below 1024 sets exactly its 128 bytes to \<^verbatim>\<open>0xFF\<close>; any other 16-bit page number,
  which the command accepts as well, writes outside the \<^verbatim>\<open>flashram\<close> array.\<close>

theorem flash_erase_page:
  assumes "flashram_size \<le> length (g_sram_file s)"
  shows "(if page < 0x400
     then \<exists>s'. erase_page page rdram s = Some s' \<and>
       (\<forall>a. a < flashram_size \<longrightarrow> file_view (g_sram_file s') a =
          (if unat page * 128 \<le> a \<and> a < unat page * 128 + 128 then 0xFF else file_view (g_sram_file s) a))
     else erase_page page rdram s = None)"
proof -
  let ?fl = "fread0 0x20000 (g_sram_file s) (flashram s)" and ?e = "ucast page * 128 :: u32"
  have page: "unat page < 2 ^ 16" using unsigned_less [of page, where 'a = nat] by simp
  have b: "unat (?e + 128) = unat page * 128 + 128"
    using page by (subst unat_word_ariths(1)) (simp add: page_offset)
  show ?thesis
  proof (cases "page < 0x400")
    case True
    then have "unat page < 0x400" by (simp add: word_less_nat_alt)
    then obtain fl' where "erase_loop 128 ?e (?e + 128) ?fl = Some fl'"
        "guest fl' = (\<lambda>a. if unat page * 128 \<le> a \<and> a < unat page * 128 + 128 then 0xFF else guest ?fl a)"
      using erase_loop_guest [of ?e 128 "?e + 128" ?fl, unfolded page_offset b] by auto
    with True assms show ?thesis
      by (auto simp: erase_page_steps file_view_fwrite0 guest_fread0)
  next
    case False
    then have "0x400 \<le> unat page" by (simp add: word_less_nat_alt)
    then have "?e < ?e + 128" "flashram_size \<le> unat ?e"
      by (simp_all add: word_less_nat_alt b page_offset)
    then have "erase_loop (Suc 127) ?e (?e + 128) ?fl = None" by (rule erase_loop_oob)
    with False show ?thesis by (simp add: erase_page_steps)
  qed
qed

theorem flash_erase_page_witness: "erase_page 0x400 (\<lambda>_. 0) flash_example = None"
  using flash_erase_page [of flash_example "0x400" "\<lambda>_. 0"] by (simp add: flash_example_def)

text \<open>The flash block of a savestate round-trips.\<close>

lemma flashram_infos_roundtrip:
  "load_flashram_infos (save_flashram_infos s) t =
     Some (t\<lparr>use_flashram := use_flashram s, flash_mode := flash_mode s, flash_status := flash_status s,
             erase_offset := erase_offset s, write_pointer := write_pointer s\<rparr>)"
  by (simp add: load_flashram_infos_def infos_fields)

text \<open>The savestate check accepts the offsets that keep the later page accesses
  inside the arrays, and also those within 128 of wrapping around, for which its loops
  do not run although a programmed page would then be written out of range.\<close>

theorem check_flashram_infos_iff:
  "check_flashram_infos (save_flashram_infos s) =
     Some ((unat (erase_offset s) + 128 \<le> flashram_size \<or> 2 ^ 32 \<le> unat (erase_offset s) + 128) \<and>
           (unat (write_pointer s) + 128 \<le> rdram_size \<or> 2 ^ 32 \<le> unat (write_pointer s) + 128))"
  by (simp add: check_flashram_infos_def infos_fields check_loop_128)

end
