(* ===== verification/Summercart.thy ===== *)
theory Summercart
  imports Host_Memory
begin

text \<open>
  The SummerCart64 flash cartridge, \<^verbatim>\<open>Core/memory/summercart.cpp\<close>: its unlock sequence and
  command register, the transfers between the SD image and the cartridge's
  buffer or the ROM, and the copies that a savestate makes of the image.  The SD
  image is a file (\<^term>\<open>None\<close> when it cannot be opened), and an access outside the
  buffer or the ROM is \<^term>\<open>None\<close>.
\<close>

section \<open>State\<close>

record summercart =
  sc_buffer :: bytes
  sc_status :: u32
  sc_data0 :: u32
  sc_data1 :: u32
  sd_sector :: u32
  cfg_rom_write :: u8
  sd_byteswap :: u8
  sc_unlock :: u8
  lock_seq :: u8
  sc_pad :: bytes

definition summercart_wf :: "summercart \<Rightarrow> bool" where
  "summercart_wf c \<longleftrightarrow> length (sc_buffer c) = 8192 \<and> length (sc_pad c) = 492"

text \<open>The texts shown by \<^verbatim>\<open>sd_error\<close>.\<close>

datatype sd_message =
    Seek1_error | Sd_read_error | Invalid_vhd | Invalid_vhd_type | Seek2_error
  | No_image_file | No_state_file

text \<open>What the component touches: its registers, the ROM, the SD image and the error dialogs.\<close>

record sc_state =
  scart :: summercart
  sc_rom :: bytes
  sd_image :: "bytes option"
  sd_errors :: "sd_message list"

definition init_summercart :: summercart where
  "init_summercart = \<lparr>sc_buffer = replicate 8192 0, sc_status = 0, sc_data0 = 0, sc_data1 = 0, sd_sector = 0,
     cfg_rom_write = 0, sd_byteswap = 0, sc_unlock = 0, lock_seq = 0, sc_pad = replicate 492 0\<rparr>"

text \<open>The structure as the bytes that \<^verbatim>\<open>fwrite\<close> and \<^verbatim>\<open>fread\<close> transfer.\<close>

definition sc_bytes :: "summercart \<Rightarrow> bytes" where
  "sc_bytes c = sc_buffer c @ put_le32 (sc_status c) @ put_le32 (sc_data0 c) @ put_le32 (sc_data1 c) @
     put_le32 (sd_sector c) @ [cfg_rom_write c, sd_byteswap c, sc_unlock c, lock_seq c] @ sc_pad c"

definition sc_of_bytes :: "bytes \<Rightarrow> summercart" where
  "sc_of_bytes b = \<lparr>sc_buffer = take 8192 b, sc_status = u32_at b 8192, sc_data0 = u32_at b 8196,
     sc_data1 = u32_at b 8200, sd_sector = u32_at b 8204, cfg_rom_write = b ! 8208, sd_byteswap = b ! 8209,
     sc_unlock = b ! 8210, lock_seq = b ! 8211, sc_pad = take 492 (drop 8212 b)\<rparr>"

section \<open>The footer of a VHD file\<close>

text \<open>The two members of \<^verbatim>\<open>struct vhd\<close> that are read, at their offsets, in big-endian order.\<close>

definition vhd_cookie :: "bytes \<Rightarrow> bytes" where
  "vhd_cookie v = take 8 v"

definition vhd_disk_size :: "bytes \<Rightarrow> u64" where
  "vhd_disk_size v = le_word (rev (take 8 (drop 40 v)))"

definition vhd_type :: "bytes \<Rightarrow> u32" where
  "vhd_type v = le_word (rev (take 4 (drop 60 v)))"

text \<open>\<^verbatim>\<open>"conectix"\<close>.\<close>

definition conectix :: bytes where
  "conectix = [0x63, 0x6F, 0x6E, 0x65, 0x63, 0x74, 0x69, 0x78]"

section \<open>Sector transfers\<close>

text \<open>The last 512 bytes of the file.\<close>

definition vhd_footer :: "bytes \<Rightarrow> bytes" where
  "vhd_footer fp = drop (length fp - 512) fp"

text \<open>\<^verbatim>\<open>sd_seek\<close>: the position in the file, or an error with its dialog.\<close>

definition sd_seek :: "summercart \<Rightarrow> bytes \<Rightarrow> sd_message list + nat" where
  "sd_seek c fp =
    (if length fp < 512 then Inl [Seek1_error]
     else let v = vhd_footer fp in
       if vhd_cookie v \<noteq> conectix then Inl [Invalid_vhd]
       else if vhd_type v \<noteq> 2 then Inl [Invalid_vhd_type]
       else if (ucast (sd_sector c) + ucast (sc_data1 c) :: u64) > vhd_disk_size v div 512 then Inl []
       else Inr (512 * unat (sd_sector c)))"

text \<open>\<^verbatim>\<open>ptr[(addr + i) ^ s] = fgetc(fp)\<close>; at the end of the file \<^verbatim>\<open>fgetc\<close> gives -1.\<close>

fun sd_fill :: "nat \<Rightarrow> u32 \<Rightarrow> u32 \<Rightarrow> bytes \<Rightarrow> bytes \<Rightarrow> bytes option" where
  "sd_fill 0 a s f ptr = Some ptr"
| "sd_fill (Suc n) a s f ptr = do {
     p \<leftarrow> bput (unat (a XOR s)) (if f = [] then 0xFF else hd f) ptr;
     sd_fill n (a + 1) s (tl f) p }"

text \<open>The bytes that \<^verbatim>\<open>fputc(ptr[(addr + i) ^ S8], fp)\<close> writes.\<close>

fun sd_dump :: "nat \<Rightarrow> u32 \<Rightarrow> bytes \<Rightarrow> bytes option" where
  "sd_dump 0 a ptr = Some []"
| "sd_dump (Suc n) a ptr = do {
     x \<leftarrow> bget ptr (unat (a XOR 3));
     xs \<leftarrow> sd_dump n (a + 1) ptr;
     Some (x # xs) }"

text \<open>Writing \<^term>\<open>d\<close> at a position of a file; a gap behind the end is filled with zeros.\<close>

definition fwrite_pos :: "nat \<Rightarrow> bytes \<Rightarrow> bytes \<Rightarrow> bytes" where
  "fwrite_pos pos d f = take pos f @ replicate (pos - length f) 0 @ d @ drop (pos + length d) f"

definition sd_read :: "sc_state \<Rightarrow> sc_state option" where
  "sd_read s =
    (let c = scart s; addr = sc_data0 c AND 0x1FFFFFFF; n = sc_data1 c; size = 512 * n in
     if n > 131072 then Some s
     else case sd_image s of
       None \<Rightarrow> Some (s\<lparr>sd_errors := sd_errors s @ [No_image_file]\<rparr>)
     | Some fp \<Rightarrow>
         (case sd_seek c fp of
            Inl e \<Rightarrow> Some (s\<lparr>sd_errors := sd_errors s @ e\<rparr>)
          | Inr pos \<Rightarrow>
              if addr \<ge> 0x1FFE0000 \<and> addr + size \<le> 0x1FFE2000 then do {
                b \<leftarrow> sd_fill (unat size) (addr - 0x1FFE0000) 3 (drop pos fp) (sc_buffer c);
                Some (s\<lparr>scart := c\<lparr>sc_buffer := b, sc_status := 0\<rparr>\<rparr>) }
              else if addr \<ge> 0x10000000 \<and> addr + size \<le> 0x14000000 then do {
                r \<leftarrow> sd_fill (unat size) (addr - 0x10000000) (3 XOR scast (sd_byteswap c)) (drop pos fp) (sc_rom s);
                Some (s\<lparr>scart := c\<lparr>sc_status := 0\<rparr>, sc_rom := r\<rparr>) }
              else Some s))"

text \<open>\<^verbatim>\<open>fopen(path, "r+b")\<close> also fails for an image that cannot be written.\<close>

definition sd_write :: "bool \<Rightarrow> sc_state \<Rightarrow> sc_state option" where
  "sd_write can_write s =
    (let c = scart s; addr = sc_data0 c AND 0x1FFFFFFF; n = sc_data1 c; size = 512 * n in
     if n > 131072 then Some s
     else case (if can_write then sd_image s else None) of
       None \<Rightarrow> Some (s\<lparr>sd_errors := sd_errors s @ [No_image_file]\<rparr>)
     | Some fp \<Rightarrow>
         (case sd_seek c fp of
            Inl e \<Rightarrow> Some (s\<lparr>sd_errors := sd_errors s @ e\<rparr>)
          | Inr pos \<Rightarrow>
              if addr \<ge> 0x1FFE0000 \<and> addr + size \<le> 0x1FFE2000 then do {
                d \<leftarrow> sd_dump (unat size) (addr - 0x1FFE0000) (sc_buffer c);
                Some (s\<lparr>scart := c\<lparr>sc_status := 0\<rparr>, sd_image := Some (fwrite_pos pos d fp)\<rparr>) }
              else if addr \<ge> 0x10000000 \<and> addr + size \<le> 0x14000000 then do {
                d \<leftarrow> sd_dump (unat size) (addr - 0x10000000) (sc_rom s);
                Some (s\<lparr>scart := c\<lparr>sc_status := 0\<rparr>, sd_image := Some (fwrite_pos pos d fp)\<rparr>) }
              else Some s))"

section \<open>Registers\<close>

definition read_summercart :: "u32 \<Rightarrow> summercart \<Rightarrow> u32" where
  "read_summercart address c =
    (let a = address AND 0xFFFC in
     if a = 0x00 then (if sc_unlock c \<noteq> 0 then sc_status c else 0)
     else if a = 0x04 then (if sc_unlock c \<noteq> 0 then sc_data0 c else 0)
     else if a = 0x08 then (if sc_unlock c \<noteq> 0 then sc_data1 c else 0)
     else if a = 0x0C then (if sc_unlock c \<noteq> 0 then 0x53437632 else 0)
     else 0)"

text \<open>The commands \<^verbatim>\<open>'c'\<close>, \<^verbatim>\<open>'C'\<close>, \<^verbatim>\<open>'i'\<close> and \<^verbatim>\<open>'I'\<close>, on registers whose status is already 0x40000000.\<close>

definition sc_config_get :: "summercart \<Rightarrow> summercart" where
  "sc_config_get c =
    (if sc_data0 c = 1 then c\<lparr>sc_data1 := scast (cfg_rom_write c), sc_status := 0\<rparr>
     else if sc_data0 c = 3 then c\<lparr>sc_data1 := 0, sc_status := 0\<rparr>
     else if sc_data0 c = 6 then c\<lparr>sc_data1 := 0, sc_status := 0\<rparr>
     else c)"

definition sc_config_set :: "summercart \<Rightarrow> summercart" where
  "sc_config_set c =
    (if sc_data0 c = 1 then
       (if sc_data1 c \<noteq> 0
        then c\<lparr>sc_data1 := scast (cfg_rom_write c), cfg_rom_write := 1, sc_status := 0\<rparr>
        else c\<lparr>sc_data1 := scast (cfg_rom_write c), cfg_rom_write := 0, sc_status := 0\<rparr>)
     else c)"

definition sc_sd_op :: "summercart \<Rightarrow> summercart" where
  "sc_sd_op c =
    (if sc_data1 c = 0 then c\<lparr>sc_status := 0\<rparr>
     else if sc_data1 c = 1 then c\<lparr>sc_status := 0\<rparr>
     else if sc_data1 c = 4 then c\<lparr>sd_byteswap := 1, sc_status := 0\<rparr>
     else if sc_data1 c = 5 then c\<lparr>sd_byteswap := 0, sc_status := 0\<rparr>
     else c)"

definition sc_command :: "bool \<Rightarrow> u32 \<Rightarrow> sc_state \<Rightarrow> sc_state option" where
  "sc_command can_write value s0 =
    (let s = s0\<lparr>scart := (scart s0)\<lparr>sc_status := 0x40000000\<rparr>\<rparr>; c = scart s in
     if value = 0x63 then Some (s\<lparr>scart := sc_config_get c\<rparr>)
     else if value = 0x43 then Some (s\<lparr>scart := sc_config_set c\<rparr>)
     else if value = 0x69 then Some (s\<lparr>scart := sc_sd_op c\<rparr>)
     else if value = 0x49 then Some (s\<lparr>scart := c\<lparr>sd_sector := sc_data0 c, sc_status := 0\<rparr>\<rparr>)
     else if value = 0x73 then sd_read s
     else if value = 0x53 then sd_write can_write s
     else Some s)"

definition sc_key :: "u32 \<Rightarrow> summercart \<Rightarrow> summercart" where
  "sc_key value c =
    (if value = 0xFFFFFFFF then c\<lparr>sc_unlock := 0\<rparr>
     else if value = 0x5F554E4C then (if lock_seq c = 0 then c\<lparr>lock_seq := 2\<rparr> else c)
     else if value = 0x4F434B5F then (if lock_seq c = 2 then c\<lparr>sc_unlock := 1, lock_seq := 0\<rparr> else c)
     else c\<lparr>lock_seq := 0\<rparr>)"

definition write_summercart :: "bool \<Rightarrow> u32 \<Rightarrow> u32 \<Rightarrow> sc_state \<Rightarrow> sc_state option" where
  "write_summercart can_write address value s =
    (let a = address AND 0xFFFC; c = scart s in
     if a = 0x00 then (if sc_unlock c \<noteq> 0 then sc_command can_write value s else Some s)
     else if a = 0x04 then Some (if sc_unlock c \<noteq> 0 then s\<lparr>scart := c\<lparr>sc_data0 := value\<rparr>\<rparr> else s)
     else if a = 0x08 then Some (if sc_unlock c \<noteq> 0 then s\<lparr>scart := c\<lparr>sc_data1 := value\<rparr>\<rparr> else s)
     else if a = 0x10 then Some (s\<lparr>scart := sc_key value c\<rparr>)
     else Some s)"

section \<open>Savestates\<close>

text \<open>
  The loop of \<^verbatim>\<open>vhd_copy\<close>: blocks of at most \<^term>\<open>n\<close> sectors go through the buffer
  \<^term>\<open>buf\<close>, which keeps its old bytes where the source ends early.
\<close>

function vhd_copy_loop :: "nat \<Rightarrow> nat \<Rightarrow> bytes \<Rightarrow> bytes \<Rightarrow> bytes \<Rightarrow> bytes \<times> bytes" where
  "vhd_copy_loop len n buf src dst =
    (if len = 0 \<or> n = 0 then (dst, src)
     else let k = min n len;
              d = take (512 * k) src;
              b = d @ drop (length d) buf
          in vhd_copy_loop (len - k) k b (drop (512 * k) src) (dst @ take (512 * k) b))"
  by pat_completeness auto
termination by (relation "measure (\<lambda>(len, _). len)") auto

declare vhd_copy_loop.simps [simp del]

text \<open>
  The footer that was read, the bytes appended to the destination and what is left of
  the source behind the copied sectors.  A source shorter than a footer is read
  from its start, because the failed \<^verbatim>\<open>fseek\<close> is not noticed.
\<close>

definition vhd_copy :: "bytes \<Rightarrow> bytes \<Rightarrow> bytes \<Rightarrow> bytes \<times> bytes \<times> bytes" where
  "vhd_copy junk_vhd junk_buf src =
    (let v = fread_at (length src - 512) src junk_vhd;
         (dst, rest) = vhd_copy_loop (unat (vhd_disk_size v div 512)) 128 junk_buf src []
     in (v, dst, rest))"

text \<open>
  \<^verbatim>\<open>save_summercart\<close> and \<^verbatim>\<open>load_summercart\<close>: the image is \<^term>\<open>sd_image\<close>, the file of the savestate is
  the last component (\<^term>\<open>None\<close> when it cannot be created).  Both copy \<^emph>\<open>from the image\<close>.
\<close>

definition save_summercart :: "bytes \<Rightarrow> bytes \<Rightarrow> bytes option \<Rightarrow> sc_state \<Rightarrow> bytes option \<times> sc_state" where
  "save_summercart junk_vhd junk_buf stf s =
    (case sd_image s of
       None \<Rightarrow> (stf, s\<lparr>sd_errors := sd_errors s @ [No_image_file]\<rparr>)
     | Some sdf \<Rightarrow>
         (case stf of
            None \<Rightarrow> (None, s\<lparr>sd_errors := sd_errors s @ [No_state_file]\<rparr>)
          | Some _ \<Rightarrow>
              let (v, d, _) = vhd_copy junk_vhd junk_buf sdf
              in (Some (d @ sc_bytes (scart s) @ v), s)))"

definition load_summercart :: "bytes \<Rightarrow> bytes \<Rightarrow> bytes option \<Rightarrow> sc_state \<Rightarrow> bytes option \<times> sc_state" where
  "load_summercart junk_vhd junk_buf sdf s =
    (case sd_image s of
       None \<Rightarrow> (sdf, s\<lparr>sd_errors := sd_errors s @ [No_state_file]\<rparr>)
     | Some stf \<Rightarrow>
         (case sdf of
            None \<Rightarrow> (None, s\<lparr>sd_errors := sd_errors s @ [No_image_file]\<rparr>)
          | Some _ \<Rightarrow>
              let (v, d, rest) = vhd_copy junk_vhd junk_buf stf
              in (Some (d @ v), s\<lparr>scart := sc_of_bytes (fread_at 0 rest (sc_bytes (scart s)))\<rparr>)))"

section \<open>Transfers as block copies\<close>

lemma sd_dump_eq:
  assumes "unat a + n \<le> length ptr" "4 dvd length ptr" "length ptr < 2 ^ 32"
  shows "sd_dump n a ptr = Some (map (\<lambda>i. ptr ! ((unat a + i) XOR 3)) [0..<n])"
  using assms(1)
proof (induction n arbitrary: a)
  case (Suc n)
  have a1: "unat (a + 1) = unat a + 1" using Suc.prems assms(3) by (intro unat_word_ariths(1) [THEN trans]) simp
  have "bget ptr (unat (a XOR 3)) = Some (ptr ! (unat a XOR 3))"
    using Suc.prems assms(2) by (simp add: bget_def unat_xor3 xor3_less)
  moreover have "sd_dump n (a + 1) ptr = Some (map (\<lambda>i. ptr ! ((unat a + Suc i) XOR 3)) [0..<n])"
    using Suc.IH [of "a + 1"] Suc.prems a1 by simp
  ultimately show ?case by (simp add: map_upt_Suc del: upt_Suc)
qed simp

lemma sd_fill_eq:
  assumes "unat a + n \<le> length ptr" "4 dvd length ptr" "length ptr < 2 ^ 32" "n \<le> length f"
  shows "\<exists>p. sd_fill n a 3 f ptr = Some p \<and> length p = length ptr \<and>
     (\<forall>j < length ptr. p ! (j XOR 3) =
        (if unat a \<le> j \<and> j < unat a + n then f ! (j - unat a) else ptr ! (j XOR 3)))"
  using assms
proof (induction n arbitrary: a f ptr)
  case (Suc n)
  have a1: "unat (a + 1) = unat a + 1" using Suc.prems by (intro unat_word_ariths(1) [THEN trans]) simp
  let ?p = "ptr[unat a XOR 3 := hd f]"
  have step: "bput (unat (a XOR 3)) (if f = [] then 0xFF else hd f) ptr = Some ?p"
    using Suc.prems by (auto simp: bput_def unat_xor3 xor3_less)
  have "\<exists>p. sd_fill n (a + 1) 3 (tl f) ?p = Some p \<and> length p = length ?p \<and> (\<forall>j < length ?p. p ! (j XOR 3) =
      (if unat (a + 1) \<le> j \<and> j < unat (a + 1) + n then tl f ! (j - unat (a + 1)) else ?p ! (j XOR 3)))"
    using Suc.prems a1 by (intro Suc.IH) auto
  then obtain p where p: "sd_fill n (a + 1) 3 (tl f) ?p = Some p" "length p = length ptr"
    "\<And>j. j < length ptr \<Longrightarrow> p ! (j XOR 3) =
       (if unat a + 1 \<le> j \<and> j < unat a + 1 + n then tl f ! (j - (unat a + 1)) else ?p ! (j XOR 3))"
    unfolding a1 length_list_update by blast
  have "p ! (j XOR 3) = (if unat a \<le> j \<and> j < unat a + Suc n then f ! (j - unat a) else ptr ! (j XOR 3))"
    if j: "j < length ptr" for j
  proof (cases "j = unat a")
    case True
    then show ?thesis using p(3) [OF j] Suc.prems j by (cases f) (auto simp: xor3_less)
  next
    case False
    then have "?p ! (j XOR 3) = ptr ! (j XOR 3)" by (simp add: xor3_eq_iff)
    moreover have "tl f ! (j - Suc (unat a)) = f ! (j - unat a)" if "unat a < j" "j < Suc (unat a + n)"
      using that Suc.prems by (subst nth_tl) (auto simp: Suc_diff_Suc)
    ultimately show ?thesis using p(3) [OF j] False by auto
  qed
  then show ?case using step p(1,2) by auto
qed auto

section \<open>Images\<close>

text \<open>A fixed VHD image: whole sectors followed by the footer that describes them.\<close>

definition fixed_vhd :: "bytes \<Rightarrow> bool" where
  "fixed_vhd fp \<longleftrightarrow> 512 \<le> length fp \<and> vhd_cookie (vhd_footer fp) = conectix \<and> vhd_type (vhd_footer fp) = 2 \<and>
     unat (vhd_disk_size (vhd_footer fp)) + 512 = length fp \<and> 512 dvd unat (vhd_disk_size (vhd_footer fp))"

lemma fwrite_pos_inside:
  assumes "pos + length d + 512 \<le> length f"
  shows "length (fwrite_pos pos d f) = length f" "vhd_footer (fwrite_pos pos d f) = vhd_footer f"
    "take (length d) (drop pos (fwrite_pos pos d f)) = d"
proof -
  show l: "length (fwrite_pos pos d f) = length f" using assms by (simp add: fwrite_pos_def)
  have "fwrite_pos pos d f = (take pos f @ d) @ drop (pos + length d) f"
    using assms by (simp add: fwrite_pos_def)
  then show "vhd_footer (fwrite_pos pos d f) = vhd_footer f"
    using assms l by (simp add: vhd_footer_def)
  show "take (length d) (drop pos (fwrite_pos pos d f)) = d" using assms by (simp add: fwrite_pos_def)
qed

lemma sd_seek_fixed:
  assumes "fixed_vhd fp" "sd_seek c fp = Inr pos"
  shows "pos = 512 * unat (sd_sector c)" "pos + 512 * unat (sc_data1 c) + 512 \<le> length fp"
proof -
  have sum: "unat (ucast (sd_sector c) + ucast (sc_data1 c) :: u64) = unat (sd_sector c) + unat (sc_data1 c)"
  proof -
    have "unat (sd_sector c) < 2 ^ 32" "unat (sc_data1 c) < 2 ^ 32" by (rule unat32_less)+
    then show ?thesis by (simp add: unat_word_ariths unsigned_ucast_eq take_bit_nat_eq_self)
  qed
  have "pos = 512 * unat (sd_sector c) \<and>
      ucast (sd_sector c) + ucast (sc_data1 c) \<le> vhd_disk_size (vhd_footer fp) div 512"
    using assms by (auto simp: sd_seek_def fixed_vhd_def Let_def not_less split: if_split_asm)
  then have p: "pos = 512 * unat (sd_sector c)"
    and le: "unat (sd_sector c) + unat (sc_data1 c) \<le> unat (vhd_disk_size (vhd_footer fp)) div 512"
    using sum by (auto simp: word_le_nat_alt unat_div)
  show "pos = 512 * unat (sd_sector c)" by (fact p)
  have "512 * (unat (vhd_disk_size (vhd_footer fp)) div 512) \<le> unat (vhd_disk_size (vhd_footer fp))" by simp
  then show "pos + 512 * unat (sc_data1 c) + 512 \<le> length fp"
    using le p assms(1) unfolding fixed_vhd_def by linarith
qed

lemma sd_seek_footer:
  assumes "length fp' = length fp" "vhd_footer fp' = vhd_footer fp"
    "sd_sector c' = sd_sector c" "sc_data1 c' = sc_data1 c"
  shows "sd_seek c' fp' = sd_seek c fp"
  using assms by (simp add: sd_seek_def Let_def)

lemma vhd_copy_loop_eq:
  "0 < n \<Longrightarrow> 512 * len \<le> length src \<Longrightarrow>
   vhd_copy_loop len n buf src dst = (dst @ take (512 * len) src, drop (512 * len) src)"
proof (induction len n buf src dst rule: vhd_copy_loop.induct)
  case (1 len n buf src dst)
  show ?case
  proof (cases "len = 0")
    case True
    then show ?thesis by (simp add: vhd_copy_loop.simps)
  next
    case False
    define k where "k = min n len"
    define b where "b = take (512 * k) src @ drop (length (take (512 * k) src)) buf"
    have nz: "\<not> (len = 0 \<or> n = 0)" using False 1(2) by simp
    have k: "0 < k" "k \<le> len" using nz by (auto simp: k_def)
    have d: "take (512 * k) b = take (512 * k) src" using 1(3) k by (simp add: b_def)
    have le: "512 * (len - k) \<le> length (drop (512 * k) src)" using 1(3) k by simp
    have "vhd_copy_loop len n buf src dst =
        vhd_copy_loop (len - k) k b (drop (512 * k) src) (dst @ take (512 * k) b)"
      unfolding vhd_copy_loop.simps [of len n] b_def Let_def if_not_P [OF nz] k_def ..
    also have "\<dots> = ((dst @ take (512 * k) b) @ take (512 * (len - k)) (drop (512 * k) src),
        drop (512 * (len - k)) (drop (512 * k) src))"
      by (rule 1(1) [OF nz k_def refl b_def k(1) le])
    also have "\<dots> = ((dst @ take (512 * k) src) @ take (512 * (len - k)) (drop (512 * k) src),
        drop (512 * (len - k)) (drop (512 * k) src))"
      unfolding d ..
    also have "\<dots> = (dst @ take (512 * len) src, drop (512 * len) src)"
    proof -
      have "512 * len = 512 * k + 512 * (len - k)" using k by simp
      then show ?thesis by (simp only: take_add drop_drop append_assoc add.commute)
    qed
    finally show ?thesis .
  qed
qed

lemma vhd_copy_fixed:
  assumes "fixed_vhd fp" "length junk_vhd = 512"
  shows "vhd_copy junk_vhd junk_buf fp = (vhd_footer fp, take (length fp - 512) fp, vhd_footer fp)"
proof -
  have "fread_at (length fp - 512) fp junk_vhd = vhd_footer fp"
    using assms by (simp add: fread_at_def vhd_footer_def fixed_vhd_def Let_def)
  moreover have "512 * unat (vhd_disk_size (vhd_footer fp) div 512) = length fp - 512"
    using assms(1) by (auto simp: fixed_vhd_def unat_div)
  moreover have "512 * unat (vhd_disk_size (vhd_footer fp) div 512) \<le> length fp" using calculation(2) by simp
  ultimately show ?thesis
    by (simp add: vhd_copy_def vhd_copy_loop_eq Let_def vhd_footer_def)
qed

section \<open>The unlock sequence\<close>

lemma run_keys:
  "run_ops (\<lambda>k. write_summercart w 0x1FFF0010 k) ks s = Some (s\<lparr>scart := fold sc_key ks (scart s)\<rparr>)"
  by (induction ks arbitrary: s) (simp_all add: write_summercart_def)

text \<open>The key sequences after which the cartridge waits for the second key, and those after which it is open.\<close>

definition keys_armed :: "u32 list \<Rightarrow> bool" where
  "keys_armed ks \<longleftrightarrow> (\<exists>ys. filter (\<lambda>k. k \<noteq> 0xFFFFFFFF) ks = ys @ [0x5F554E4C])"

definition keys_open :: "u32 list \<Rightarrow> bool" where
  "keys_open ks \<longleftrightarrow> (\<exists>xs zs. ks = xs @ 0x4F434B5F # zs \<and> 0xFFFFFFFF \<notin> set zs \<and> keys_armed xs)"

lemma keys_armed_snoc:
  "keys_armed [] = False" "keys_armed (ks @ [k]) \<longleftrightarrow> k = 0x5F554E4C \<or> k = 0xFFFFFFFF \<and> keys_armed ks"
  by (auto simp: keys_armed_def)

lemma keys_open_snoc:
  "keys_open [] = False" "keys_open (ks @ [k]) \<longleftrightarrow> k = 0x4F434B5F \<and> keys_armed ks \<or> k \<noteq> 0xFFFFFFFF \<and> keys_open ks"
proof -
  have split: "(ks @ [k] = xs @ (0x4F434B5F :: u32) # zs) \<longleftrightarrow>
      (k = 0x4F434B5F \<and> zs = [] \<and> ks = xs) \<or> (\<exists>zs'. zs = zs' @ [k] \<and> ks = xs @ 0x4F434B5F # zs')" for xs zs
    by (cases zs rule: rev_cases) auto
  show "keys_open (ks @ [k]) \<longleftrightarrow> k = 0x4F434B5F \<and> keys_armed ks \<or> k \<noteq> 0xFFFFFFFF \<and> keys_open ks"
    unfolding keys_open_def split by fastforce
qed (simp add: keys_open_def)

lemma sc_key_cases:
  "lock_seq (sc_key k c) = (if k = 0x5F554E4C then if lock_seq c = 0 then 2 else lock_seq c
     else if k = 0xFFFFFFFF then lock_seq c else if k = 0x4F434B5F \<and> lock_seq c \<noteq> 2 then lock_seq c else 0)"
  "sc_unlock (sc_key k c) = (if k = 0xFFFFFFFF then 0 else if k = 0x4F434B5F \<and> lock_seq c = 2 then 1
     else sc_unlock c)"
  by (simp_all add: sc_key_def)

lemma fold_keys:
  assumes "sc_unlock c = 0" "lock_seq c = 0"
  shows "lock_seq (fold sc_key ks c) = (if keys_armed ks then 2 else 0) \<and>
    (sc_unlock (fold sc_key ks c) \<noteq> 0 \<longleftrightarrow> keys_open ks)"
proof (induction ks rule: rev_induct)
  case Nil
  then show ?case using assms by (simp add: keys_armed_snoc keys_open_snoc)
next
  case (snoc k ks)
  then show ?case by (simp add: sc_key_cases keys_armed_snoc keys_open_snoc)
qed

lemma sc_of_sc_bytes: "summercart_wf c \<Longrightarrow> sc_of_bytes (sc_bytes c) = c"
  by (simp add: summercart_wf_def sc_of_bytes_def sc_bytes_def u32_at_def nth_append)

section \<open>Properties\<close>

lemma transfer_size:
  fixes n addr :: u32
  assumes "n \<le> 131072" "addr + 512 * n \<le> 0x1FFE2000" "0x1FFE0000 \<le> addr" "addr \<le> 0x1FFFFFFF"
  shows "unat (512 * n) = 512 * unat n" "unat (addr - 0x1FFE0000) + 512 * unat n \<le> 8192"
proof -
  have n: "unat n \<le> 131072" using assms(1) by (simp add: word_le_nat_alt)
  then show s: "unat (512 * n) = 512 * unat n" by (simp add: unat_word_ariths)
  have a: "unat addr \<le> 0x1FFFFFFF" using assms(4) by (simp add: word_le_nat_alt)
  have "unat (addr + 512 * n) = unat addr + 512 * unat n" using n a s by (simp add: unat_word_ariths)
  moreover have "unat (addr + 512 * n) \<le> 0x1FFE2000" using assms(2) by (simp add: word_le_nat_alt)
  moreover have "unat (addr - 0x1FFE0000) = unat addr - 0x1FFE0000"
    using assms(3) by (subst unat_sub) simp_all
  ultimately show "unat (addr - 0x1FFE0000) + 512 * unat n \<le> 8192"
    using assms(3) by (simp add: word_le_nat_alt)
qed

lemma mask29_le: "(w::u32) AND 0x1FFFFFFF \<le> 0x1FFFFFFF"
  by (rule word_and_le1)


text \<open>An image of one sector.\<close>

definition vhd_example :: bytes where
  "vhd_example = replicate 512 0 @ conectix @ replicate 32 0 @ [0, 0, 0, 0, 0, 0, 2, 0] @ replicate 12 0 @
     [0, 0, 0, 2] @ replicate 448 0"

lemma length_vhd_example [simp]: "length vhd_example = 1024"
  by (simp add: vhd_example_def conectix_def)

lemma vhd_example_footer:
  "vhd_footer vhd_example = conectix @ replicate 32 0 @ [0, 0, 0, 0, 0, 0, 2, 0] @ replicate 12 0 @
     [0, 0, 0, 2] @ replicate 448 0"
  unfolding vhd_footer_def length_vhd_example by (simp add: vhd_example_def)

lemma vhd_example_members:
  "vhd_cookie (vhd_footer vhd_example) = conectix" "vhd_disk_size (vhd_footer vhd_example) = 512"
  "vhd_type (vhd_footer vhd_example) = 2"
  by (simp_all add: vhd_example_footer vhd_cookie_def vhd_disk_size_def vhd_type_def conectix_def le_word_def)

lemma vhd_example_fixed: "fixed_vhd vhd_example"
  by (simp add: fixed_vhd_def vhd_example_members)

definition sc_example :: sc_state where
  "sc_example = \<lparr>scart = init_summercart\<lparr>sc_data0 := 0x1FFE0200, sc_data1 := 1, sc_unlock := 1\<rparr>, sc_rom = [],
     sd_image = Some vhd_example, sd_errors = []\<rparr>"

lemma sc_example_seek: "sd_seek (scart sc_example) vhd_example = Inr 0"
  by (simp add: sd_seek_def vhd_example_members sc_example_def init_summercart_def)


text \<open>
  Loading the SummerCart part of a savestate does the opposite of what it is for: both
  files are opened the wrong way round, so the saved file is replaced by a copy of
  the current SD image, none of its bytes is read, the registers stay as they are, and
  the first 512 bytes of the cartridge's buffer become the footer of the image.
\<close>

theorem load_summercart_overwrites:
  assumes "sd_image s = Some fp" "fixed_vhd fp" "summercart_wf (scart s)" "length junk_vhd = 512"
  shows "load_summercart junk_vhd junk_buf (Some saved) s =
     (Some fp, s\<lparr>scart := (scart s)\<lparr>sc_buffer := vhd_footer fp @ drop 512 (sc_buffer (scart s))\<rparr>\<rparr>)"
proof -
  define c where "c = (scart s)\<lparr>sc_buffer := vhd_footer fp @ drop 512 (sc_buffer (scart s))\<rparr>"
  have foot: "length (vhd_footer fp) = 512" using assms(2) by (simp add: fixed_vhd_def vhd_footer_def)
  have over: "fread_at 0 (vhd_footer fp) (sc_bytes (scart s)) = sc_bytes c"
    using foot assms(3) by (simp add: fread_at_def sc_bytes_def c_def summercart_wf_def Let_def)
  have "summercart_wf c" using foot assms(3) by (simp add: summercart_wf_def c_def)
  then have "sc_of_bytes (sc_bytes c) = c" by (rule sc_of_sc_bytes)
  moreover have "take (length fp - 512) fp @ vhd_footer fp = fp" by (simp add: vhd_footer_def)
  ultimately show ?thesis
    using assms(1) over by (simp add: load_summercart_def vhd_copy_fixed [OF assms(2,4)] c_def)
qed

theorem load_summercart_overwrites_witness:
  "load_summercart (replicate 512 0) [] (Some [1, 2, 3]) sc_example =
     (Some vhd_example, sc_example\<lparr>scart := (scart sc_example)\<lparr>sc_buffer :=
        vhd_footer vhd_example @ drop 512 (sc_buffer (scart sc_example))\<rparr>\<rparr>)"
  by (rule load_summercart_overwrites [OF _ vhd_example_fixed])
    (simp_all add: sc_example_def init_summercart_def summercart_wf_def)

text \<open>
  A locked cartridge opens exactly when the second key is written while the last
  key before it, other than the locking one, was the first key, and it has not been locked since.
\<close>

theorem summercart_unlocks:
  assumes "sc_unlock (scart s) = 0" "lock_seq (scart s) = 0"
    "run_ops (\<lambda>k. write_summercart can_write 0x1FFF0010 k) ks s = Some s'"
  shows "sc_unlock (scart s') \<noteq> 0 \<longleftrightarrow>
     (\<exists>xs zs ys. ks = xs @ 0x4F434B5F # zs \<and> 0xFFFFFFFF \<notin> set zs \<and>
        filter (\<lambda>k. k \<noteq> 0xFFFFFFFF) xs = ys @ [0x5F554E4C])"
proof -
  have "s' = s\<lparr>scart := fold sc_key ks (scart s)\<rparr>" using assms(3) run_keys by simp
  then show ?thesis using fold_keys [of "scart s" ks] assms(1,2)
    by (auto simp: keys_open_def keys_armed_def)
qed

theorem summercart_unlocks_witness:
  "sc_unlock (scart (sc_example\<lparr>scart := fold sc_key [1, 0x5F554E4C, 0x4F434B5F] init_summercart\<rparr>)) \<noteq> 0 \<longleftrightarrow>
     (\<exists>xs zs ys. [1, 0x5F554E4C, 0x4F434B5F :: u32] = xs @ 0x4F434B5F # zs \<and> 0xFFFFFFFF \<notin> set zs \<and>
        filter (\<lambda>k. k \<noteq> 0xFFFFFFFF) xs = ys @ [0x5F554E4C])"
  using summercart_unlocks [OF _ _ run_keys, of "sc_example\<lparr>scart := init_summercart\<rparr>" "[1, 0x5F554E4C, 0x4F434B5F]"]
  by (simp add: init_summercart_def)

end
