(* ===== verification/Machine.thy ===== *)
theory Machine
  imports Vcr_Invariant Event_Queue Cpu_State Flashram Summercart Pif
begin

text \<open>
  The emulated machine as one state: the processor, the interrupt queue, the registers
  of the RCP (\<^verbatim>\<open>include/core_types.h\<close>), the memories and the globals through which \<^verbatim>\<open>memory.cpp\<close>,
  \<^verbatim>\<open>dma.cpp\<close>, \<^verbatim>\<open>tlb.cpp\<close>, \<^verbatim>\<open>interrupt.cpp\<close> and \<^verbatim>\<open>exception.cpp\<close> work together, for the pure
  interpreter (\<^verbatim>\<open>interpcore\<close> set, \<^verbatim>\<open>dynacore\<close> clear).  The plugins and the host's callbacks are
  functions on this state; the value \<^term>\<open>None\<close> is undefined behaviour.
\<close>

section \<open>The registers of the RCP\<close>

record rdram_reg =
  rdram_config :: u32
  rdram_device_id :: u32
  rdram_delay :: u32
  rdram_mode :: u32
  rdram_ref_interval :: u32
  rdram_ref_row :: u32
  rdram_ras_interval :: u32
  rdram_min_interval :: u32
  rdram_addr_select :: u32
  rdram_device_manuf :: u32

record sp_reg =
  sp_mem_addr_reg :: u32
  sp_dram_addr_reg :: u32
  sp_rd_len_reg :: u32
  sp_wr_len_reg :: u32
  w_sp_status_reg :: u32
  sp_status_reg :: u32
  sp_halt :: u8
  sp_broke :: u8
  sp_dma_busy :: u8
  sp_dma_full :: u8
  sp_io_full :: u8
  sp_single_step :: u8
  sp_intr_break :: u8
  signal0 :: u8
  signal1 :: u8
  signal2 :: u8
  signal3 :: u8
  signal4 :: u8
  signal5 :: u8
  signal6 :: u8
  signal7 :: u8
  sp_dma_full_reg :: u32
  sp_dma_busy_reg :: u32
  sp_semaphore_reg :: u32

record rsp_reg =
  rsp_pc :: u32
  rsp_ibist :: u32

record dpc_reg =
  dpc_start :: u32
  dpc_end :: u32
  dpc_current :: u32
  w_dpc_status :: u32
  dpc_status :: u32
  xbus_dmem_dma :: u8
  dpc_freeze :: u8
  dpc_flush :: u8
  start_glck :: u8
  tmem_busy :: u8
  pipe_busy :: u8
  cmd_busy :: u8
  cbuf_busy :: u8
  dpc_dma_busy :: u8
  end_valid :: u8
  start_valid :: u8
  dpc_clock :: u32
  dpc_bufbusy :: u32
  dpc_pipebusy :: u32
  dpc_tmem :: u32

record dps_reg =
  dps_tbist :: u32
  dps_test_mode :: u32
  dps_buftest_addr :: u32
  dps_buftest_data :: u32

record mips_reg =
  w_mi_init_mode_reg :: u32
  mi_init_mode_reg :: u32
  init_length :: u8
  init_mode :: u8
  ebus_test_mode :: u8
  RDRAM_reg_mode :: u8
  mi_version_reg :: u32
  mi_intr_reg :: u32
  mi_intr_mask_reg :: u32
  w_mi_intr_mask_reg :: u32
  SP_intr_mask :: u8
  SI_intr_mask :: u8
  AI_intr_mask :: u8
  VI_intr_mask :: u8
  PI_intr_mask :: u8
  DP_intr_mask :: u8

record vi_reg =
  vi_status :: u32
  vi_origin :: u32
  vi_width :: u32
  vi_v_intr :: u32
  vi_current :: u32
  vi_burst :: u32
  vi_v_sync :: u32
  vi_h_sync :: u32
  vi_leap :: u32
  vi_h_start :: u32
  vi_v_start :: u32
  vi_v_burst :: u32
  vi_x_scale :: u32
  vi_y_scale :: u32
  vi_delay :: u32

record ai_reg =
  ai_dram_addr :: u32
  ai_len :: u32
  ai_control :: u32
  ai_status :: u32
  ai_dacrate :: u32
  ai_bitrate :: u32
  next_delay :: u32
  next_len :: u32
  current_delay :: u32
  current_len :: u32

record pi_reg =
  pi_dram_addr_reg :: u32
  pi_cart_addr_reg :: u32
  pi_rd_len_reg :: u32
  pi_wr_len_reg :: u32
  read_pi_status_reg :: u32
  pi_bsd_dom1_lat_reg :: u32
  pi_bsd_dom1_pwd_reg :: u32
  pi_bsd_dom1_pgs_reg :: u32
  pi_bsd_dom1_rls_reg :: u32
  pi_bsd_dom2_lat_reg :: u32
  pi_bsd_dom2_pwd_reg :: u32
  pi_bsd_dom2_pgs_reg :: u32
  pi_bsd_dom2_rls_reg :: u32

record ri_reg =
  ri_mode :: u32
  ri_config :: u32
  ri_current_load :: u32
  ri_select :: u32
  ri_refresh :: u32
  ri_latency :: u32
  ri_error :: u32
  ri_werror :: u32

record si_reg =
  si_dram_addr :: u32
  si_pif_addr_rd64b :: u32
  si_pif_addr_wr64b :: u32
  si_status :: u32

section \<open>The machine\<close>

record fb_info =
  fb_addr :: u32
  fb_size :: u32
  fb_width :: u32
  fb_height :: u32

text \<open>The configuration that the components below read.\<close>

record core_cfg =
  counter_factor :: u32
  skip_rendering_lag :: bool
  render_throttling :: bool
  fastforward_silent :: bool
  frame_skip_frequency :: u32
  is_audio_delay_enabled :: bool
  st_undo_load :: bool
  st_screenshot :: bool
  max_lag :: u32
  cfg_use_summercart :: bool

text \<open>
  Where \<^verbatim>\<open>rdword\<close> points: a general register, a 64-bit floating-point register or
  the local variable of the instruction that is executed.
\<close>

datatype rdptr = Rd_reg regno | Rd_fpr regno | Rd_local

text \<open>
  The groups of handlers of \<^verbatim>\<open>memory.cpp\<close>, each with a function for bytes, half-words, words and double words.
\<close>

datatype mem_region =
    Mem_nomem | Mem_nothing | Mem_rdram | Mem_rdramFB | Mem_rdramreg | Mem_rsp_mem | Mem_rsp_reg | Mem_rsp | Mem_dp
  | Mem_dps | Mem_mi | Mem_vi | Mem_ai | Mem_pi | Mem_ri | Mem_si | Mem_flashram_status | Mem_flashram_command
  | Mem_rom | Mem_pif | Mem_sc_reg

text \<open>
  A task of the savestate system.  Its callback is the one that \<^verbatim>\<open>savestates_create_undo_point\<close>
  made, or the wrapper around the caller's, which is identified by a number and may be null.
\<close>

datatype st_job = St_save | St_load

datatype st_medium = St_path | St_memory

datatype st_cb = Undo_callback | User_callback "nat option"

record st_task =
  job :: st_job
  medium :: st_medium
  st_path :: string
  st_buffer :: bytes
  st_callback_of :: st_cb
  ignore_warnings :: bool

datatype st_dialog = St_hash_mismatch | St_unfreeze_warning core_result | St_not_from_movie

text \<open>
  The fields are the globals of the source under their names, with these exceptions.  \<^verbatim>\<open>SP_DMEM\<close> is
  the array of 0x2000 bytes whose second half is \<^verbatim>\<open>SP_IMEM\<close>; \<^term>\<open>rd_local\<close> is the local variable
  \<^verbatim>\<open>rdword\<close> may point to; \<^verbatim>\<open>readmem\<close> and \<^verbatim>\<open>writemem\<close> hold for each 64-KiB page which group of handlers
  the four tables of reading and the four of writing functions have there; \<^term>\<open>vcr\<close> is the movie engine with the state that it shares with the rest.
\<close>

record 'w machine =
  cpu :: r4300
  queue :: queue_state
  tlb_e :: "nat \<Rightarrow> tlb"
  tlb_LUT_r :: "nat \<Rightarrow> u32"
  tlb_LUT_w :: "nat \<Rightarrow> u32"
  rdram :: array
  SP_DMEM :: array
  PIF_RAM :: bytes
  roms :: rom_state
  rdram_register :: rdram_reg
  MI_register :: mips_reg
  pi_register :: pi_reg
  sp_register :: sp_reg
  rsp_register :: rsp_reg
  si_register :: si_reg
  vi_register :: vi_reg
  ri_register :: ri_reg
  ai_register :: ai_reg
  dpc_register :: dpc_reg
  dps_register :: dps_reg
  trash :: u32
  address :: u32
  word :: u32
  g_byte :: u8
  hword :: u16
  dword :: u64
  rdword :: rdptr
  rd_local :: u64
  lastwrite :: u32
  sram :: array
  flash :: flash_state
  pif :: pif_state
  cart :: summercart
  cart_image :: "bytes option"
  cart_errors :: "sd_message list"
  vcr :: "'w vcr_state"
  next_vi :: u32
  vi_field :: u32
  lag_count :: u64
  g_total_frames :: u64
  screen_invalidated :: bool
  g_vr_frame_skipped :: bool
  g_vr_fast_forward :: bool
  frameBufferInfos :: "fb_info list"
  framebufferRead :: "nat \<Rightarrow> bool"
  readmem :: "nat \<Rightarrow> mem_region"
  writemem :: "nat \<Rightarrow> mem_region"
  firstFrameBufferSetting :: bool
  fast_memory :: bool
  cfg_total_frames :: u64
  gs_button :: bool
  g_st_old :: bool
  g_st_skip_dma :: bool
  g_tasks :: "st_task list"
  g_undo_savestate :: bytes
  g_wait_counter :: nat
  controllerRead :: nat
  g_dma_read_enabled :: bool
  CIC_Chip :: nat

text \<open>
  The plugins' entry points and the callbacks of the host.  A plugin holds pointers to the
  memories and registers, so each of them is a function on the machine; the frame-buffer
  functions of the video plugin are optional.  \<^verbatim>\<open>uninit_bytes\<close>, \<^verbatim>\<open>pc_addr\<close> and \<^verbatim>\<open>cop0_after\<close> stand for memory
  that is read without having been written: fresh allocations, \<^verbatim>\<open>PC->addr\<close> and the word behind
  \<^verbatim>\<open>reg_cop0\<close>.  \<^verbatim>\<open>host_threads\<close> is what the other threads do while the emulation sleeps.
\<close>

record 'w machine_env =
  core_cfg :: core_cfg
  vcr_plugins :: "'w vcr_env"
  input_plug :: "'w input_plugin"
  g_pif_lut :: pif_lut
  rsp_do_rsp_cycles :: "u32 \<Rightarrow> 'w machine \<Rightarrow> 'w machine"
  video_process_rdp_list :: "'w machine \<Rightarrow> 'w machine"
  video_vi_status_changed :: "'w machine \<Rightarrow> 'w machine"
  video_vi_width_changed :: "'w machine \<Rightarrow> 'w machine"
  audio_ai_len_changed :: "'w machine \<Rightarrow> 'w machine"
  audio_ai_dacrate_changed :: "system_type \<Rightarrow> 'w machine \<Rightarrow> 'w machine"
  video_fb_read :: "(u32 \<Rightarrow> 'w machine \<Rightarrow> 'w machine) option"
  video_fb_write :: "(u32 \<Rightarrow> u32 \<Rightarrow> 'w machine \<Rightarrow> 'w machine) option"
  video_fb_get_frame_buffer_info :: "('w machine \<Rightarrow> fb_info list) option"
  update_screen :: "'w machine \<Rightarrow> 'w machine"
  callback_vi :: "'w machine \<Rightarrow> 'w machine"
  callback_frame :: "'w machine \<Rightarrow> 'w machine"
  callback_interval :: "'w machine \<Rightarrow> 'w machine"
  callback_ai_len_changed :: "'w machine \<Rightarrow> 'w machine"
  callback_dacrate_changed :: "system_type \<Rightarrow> 'w machine \<Rightarrow> 'w machine"
  lag_limit_exceeded :: "'w machine \<Rightarrow> 'w machine"
  cart_writable :: bool
  st_pre_callback :: "core_result \<Rightarrow> st_task \<Rightarrow> bytes \<Rightarrow> 'w machine \<Rightarrow> 'w machine"
  st_callback :: "nat \<Rightarrow> core_result \<Rightarrow> st_task \<Rightarrow> bytes \<Rightarrow> 'w machine \<Rightarrow> 'w machine"
  st_ask :: "st_dialog \<Rightarrow> 'w machine \<Rightarrow> bool \<times> 'w machine"
  callback_save_state :: "'w machine \<Rightarrow> 'w machine"
  callback_load_state :: "'w machine \<Rightarrow> 'w machine"
  gzip_compress :: "bytes \<Rightarrow> bytes"
  st_gunzip :: "bytes \<Rightarrow> nat \<Rightarrow> deflate_result"
  mge_available :: bool
  video_capture :: "'w machine \<Rightarrow> u32 \<times> u32 \<times> bytes"
  st_sd_path :: string
  uninit_bytes :: "nat \<Rightarrow> bytes"
  pc_addr :: u32
  cop0_after :: u32
  load_screen :: "('w machine \<Rightarrow> u32 \<times> u32) \<times> (bytes \<Rightarrow> 'w machine \<Rightarrow> 'w machine)"
  host_threads :: "'w machine \<Rightarrow> 'w machine"

section \<open>Access to the parts\<close>

definition set_cause :: "u32 \<Rightarrow> 'w machine \<Rightarrow> 'w machine" where
  "set_cause v m = m\<lparr>cpu := set_cop0 13 v (cpu m)\<rparr>"

definition set_status :: "u32 \<Rightarrow> 'w machine \<Rightarrow> 'w machine" where
  "set_status v m = m\<lparr>cpu := set_cop0 12 v (cpu m)\<rparr>"

definition set_mi_intr :: "u32 \<Rightarrow> 'w machine \<Rightarrow> 'w machine" where
  "set_mi_intr v m = m\<lparr>MI_register := (MI_register m)\<lparr>mi_intr_reg := v\<rparr>\<rparr>"

definition set_stop :: "'w machine \<Rightarrow> 'w machine" where
  "set_stop m = m\<lparr>cpu := (cpu m)\<lparr>stop := True\<rparr>\<rparr>"

definition count_now :: "'w machine \<Rightarrow> 'w machine" where
  "count_now m = m\<lparr>cpu := update_count (cpu m)\<rparr>"

text \<open>The queue operations at the current value of \<^verbatim>\<open>core_Count\<close>.\<close>

definition on_queue :: "(u32 \<Rightarrow> queue_state \<Rightarrow> queue_state option) \<Rightarrow> 'w machine \<Rightarrow> 'w machine option" where
  "on_queue f m = map_option (\<lambda>q. m\<lparr>queue := q\<rparr>) (f (core_Count (cpu m)) (queue m))"

definition m_add_event :: "u32 \<Rightarrow> u32 \<Rightarrow> 'w machine \<Rightarrow> 'w machine option" where
  "m_add_event type delay = on_queue (\<lambda>c. add_interrupt_event c type delay)"

definition m_add_event_count :: "u32 \<Rightarrow> u32 \<Rightarrow> 'w machine \<Rightarrow> 'w machine option" where
  "m_add_event_count type at = on_queue (\<lambda>c. add_interrupt_event_count c type at)"

definition m_remove_interrupt_event :: "'w machine \<Rightarrow> 'w machine option" where
  "m_remove_interrupt_event = on_queue remove_interrupt_event"

text \<open>\<^verbatim>\<open>*rdword = v\<close>.\<close>

definition set_rdword :: "u64 \<Rightarrow> 'w machine \<Rightarrow> 'w machine" where
  "set_rdword v m = (case rdword m of
      Rd_reg r \<Rightarrow> m\<lparr>cpu := (cpu m)\<lparr>reg := (reg (cpu m))(r := v)\<rparr>\<rparr>
    | Rd_fpr r \<Rightarrow> m\<lparr>cpu := (cpu m)\<lparr>reg_cop1_fgr_64 := (reg_cop1_fgr_64 (cpu m))(r := v)\<rparr>\<rparr>
    | Rd_local \<Rightarrow> m\<lparr>rd_local := v\<rparr>)"

text \<open>Byte order.\<close>

definition sl :: "u32 \<Rightarrow> u32" where
  "sl mot = push_bit 24 (mot AND 0xFF) OR push_bit 8 (mot AND 0xFF00) OR
     drop_bit 8 (mot AND 0xFF0000) OR drop_bit 24 (mot AND 0xFF000000)"

definition check_register_validity :: "si_reg \<Rightarrow> bool" where
  "check_register_validity r = (\<not> (si_dram_addr r div 4 + 16 > 0x800000))"

text \<open>\<^verbatim>\<open>for (i = 0; i < 64 / 4; i++) rdram[si_register.si_dram_addr / 4 + i] = sl(PIF_RAM[i]);\<close>\<close>

fun pif_words_to_rdram :: "nat \<Rightarrow> nat \<Rightarrow> bytes \<Rightarrow> nat \<Rightarrow> array \<Rightarrow> array option" where
  "pif_words_to_rdram 0 i p k ram = Some ram"
| "pif_words_to_rdram (Suc n) i p k ram = do {
     ram1 \<leftarrow> rdram_store (k + i) (sl (u32_at p (4 * i))) ram;
     pif_words_to_rdram n (i + 1) p k ram1 }"

definition copy_pif_to_rdram :: "'w machine \<Rightarrow> 'w machine option" where
  "copy_pif_to_rdram m = map_option (\<lambda>r. m\<lparr>rdram := r\<rparr>)
     (pif_words_to_rdram 16 0 (PIF_RAM m) (unat (si_dram_addr (si_register m) div 4)) (rdram m))"

text \<open>The part of the machine that the SummerCart works on.\<close>

definition sc_view :: "'w machine \<Rightarrow> sc_state" where
  "sc_view m = \<lparr>scart = cart m, sc_rom = (case rom (roms m) of Some r \<Rightarrow> r | None \<Rightarrow> []), sd_image = cart_image m,
     sd_errors = cart_errors m\<rparr>"

definition sc_apply :: "sc_state \<Rightarrow> 'w machine \<Rightarrow> 'w machine" where
  "sc_apply s m = m\<lparr>cart := scart s, cart_image := sd_image s, cart_errors := sd_errors s,
     roms := (roms m)\<lparr>rom := map_option (\<lambda>_. sc_rom s) (rom (roms m))\<rparr>\<rparr>"

end
