(* ===== verification/Savestate_Block.thy ===== *)
theory Savestate_Block
  imports Machine
begin

text \<open>
  The fixed part of a savestate, \<^verbatim>\<open>Core/memory/savestates.cpp\<close>: the structures, memories and registers
  that \<^verbatim>\<open>generate_savestate\<close> writes one after the other and \<^verbatim>\<open>load_memory_from_buffer\<close> reads
  back.  A structure is its bytes as the compiler lays it out, with the padding zero as it is in
  static storage.
\<close>

section \<open>Reading bytes back\<close>

lemma u32_at_put_le32 [simp]: "u32_at (put_le32 a @ b) 0 = a" "u32_at (put_le32 a) 0 = a"
  by (simp_all add: u32_at_def)

lemma u32_at_skip:
  "4 \<le> n \<Longrightarrow> u32_at (put_le32 a @ b) n = u32_at b (n - 4)"
  "2 \<le> n \<Longrightarrow> u32_at (put_le16 c @ b) n = u32_at b (n - 2)"
  "1 \<le> n \<Longrightarrow> u32_at (x # b) n = u32_at b (n - 1)"
  by (simp_all add: u32_at_def drop_Cons')

lemma u16_at_put_le16 [simp]: "u16_at (put_le16 a @ b) 0 = a"
  by (simp add: u16_at_def)

lemma nth_put_le32_skip:
  "4 \<le> n \<Longrightarrow> (put_le32 a @ b) ! n = b ! (n - 4)"
  "2 \<le> n \<Longrightarrow> (put_le16 c @ b) ! n = b ! (n - 2)"
  by (simp_all add: nth_append)

lemmas struct_simps = u32_at_skip nth_put_le32_skip

definition u64_at :: "bytes \<Rightarrow> nat \<Rightarrow> u64" where
  "u64_at b off = le_word (take 8 (drop off b))"

lemma length_put_le64 [simp]: "length (put_le64 w) = 8"
  by (simp add: put_le64_def)

section \<open>Structures\<close>

definition rdram_reg_bytes :: "rdram_reg \<Rightarrow> bytes" where
  "rdram_reg_bytes r =
     put_le32 (rdram_config r) @ put_le32 (rdram_device_id r) @ put_le32 (rdram_delay r) @ put_le32 (rdram_mode r) @
     put_le32 (rdram_ref_interval r) @ put_le32 (rdram_ref_row r) @ put_le32 (rdram_ras_interval r) @
     put_le32 (rdram_min_interval r) @ put_le32 (rdram_addr_select r) @ put_le32 (rdram_device_manuf r)"

definition rdram_reg_of :: "bytes \<Rightarrow> rdram_reg" where
  "rdram_reg_of b = \<lparr>
     rdram_config = u32_at b 0, rdram_device_id = u32_at b 4, rdram_delay = u32_at b 8, rdram_mode = u32_at b 12,
     rdram_ref_interval = u32_at b 16, rdram_ref_row = u32_at b 20, rdram_ras_interval = u32_at b 24,
     rdram_min_interval = u32_at b 28, rdram_addr_select = u32_at b 32, rdram_device_manuf = u32_at b 36\<rparr>"

definition mips_reg_bytes :: "mips_reg \<Rightarrow> bytes" where
  "mips_reg_bytes r =
     put_le32 (w_mi_init_mode_reg r) @ put_le32 (mi_init_mode_reg r) @
     [init_length r, init_mode r, ebus_test_mode r, RDRAM_reg_mode r] @ put_le32 (mi_version_reg r) @
     put_le32 (mi_intr_reg r) @ put_le32 (mi_intr_mask_reg r) @ put_le32 (w_mi_intr_mask_reg r) @
     [SP_intr_mask r, SI_intr_mask r, AI_intr_mask r, VI_intr_mask r, PI_intr_mask r, DP_intr_mask r, 0, 0]"

definition mips_reg_of :: "bytes \<Rightarrow> mips_reg" where
  "mips_reg_of b = \<lparr>
     w_mi_init_mode_reg = u32_at b 0, mi_init_mode_reg = u32_at b 4, init_length = b ! 8, init_mode = b ! 9,
     ebus_test_mode = b ! 10, RDRAM_reg_mode = b ! 11, mi_version_reg = u32_at b 12, mi_intr_reg = u32_at b 16,
     mi_intr_mask_reg = u32_at b 20, w_mi_intr_mask_reg = u32_at b 24, SP_intr_mask = b ! 28, SI_intr_mask = b ! 29,
     AI_intr_mask = b ! 30, VI_intr_mask = b ! 31, PI_intr_mask = b ! 32, DP_intr_mask = b ! 33\<rparr>"

definition pi_reg_bytes :: "pi_reg \<Rightarrow> bytes" where
  "pi_reg_bytes r =
     put_le32 (pi_dram_addr_reg r) @ put_le32 (pi_cart_addr_reg r) @ put_le32 (pi_rd_len_reg r) @
     put_le32 (pi_wr_len_reg r) @ put_le32 (read_pi_status_reg r) @ put_le32 (pi_bsd_dom1_lat_reg r) @
     put_le32 (pi_bsd_dom1_pwd_reg r) @ put_le32 (pi_bsd_dom1_pgs_reg r) @ put_le32 (pi_bsd_dom1_rls_reg r) @
     put_le32 (pi_bsd_dom2_lat_reg r) @ put_le32 (pi_bsd_dom2_pwd_reg r) @ put_le32 (pi_bsd_dom2_pgs_reg r) @
     put_le32 (pi_bsd_dom2_rls_reg r)"

definition pi_reg_of :: "bytes \<Rightarrow> pi_reg" where
  "pi_reg_of b = \<lparr>
     pi_dram_addr_reg = u32_at b 0, pi_cart_addr_reg = u32_at b 4, pi_rd_len_reg = u32_at b 8,
     pi_wr_len_reg = u32_at b 12, read_pi_status_reg = u32_at b 16, pi_bsd_dom1_lat_reg = u32_at b 20,
     pi_bsd_dom1_pwd_reg = u32_at b 24, pi_bsd_dom1_pgs_reg = u32_at b 28, pi_bsd_dom1_rls_reg = u32_at b 32,
     pi_bsd_dom2_lat_reg = u32_at b 36, pi_bsd_dom2_pwd_reg = u32_at b 40, pi_bsd_dom2_pgs_reg = u32_at b 44,
     pi_bsd_dom2_rls_reg = u32_at b 48\<rparr>"

definition sp_reg_bytes :: "sp_reg \<Rightarrow> bytes" where
  "sp_reg_bytes r =
     put_le32 (sp_mem_addr_reg r) @ put_le32 (sp_dram_addr_reg r) @ put_le32 (sp_rd_len_reg r) @
     put_le32 (sp_wr_len_reg r) @ put_le32 (w_sp_status_reg r) @ put_le32 (sp_status_reg r) @
     [sp_halt r, sp_broke r, sp_dma_busy r, sp_dma_full r, sp_io_full r, sp_single_step r, sp_intr_break r,
      signal0 r, signal1 r, signal2 r, signal3 r, signal4 r, signal5 r, signal6 r, signal7 r, 0] @
     put_le32 (sp_dma_full_reg r) @ put_le32 (sp_dma_busy_reg r) @ put_le32 (sp_semaphore_reg r)"

definition sp_reg_of :: "bytes \<Rightarrow> sp_reg" where
  "sp_reg_of b = \<lparr>
     sp_mem_addr_reg = u32_at b 0, sp_dram_addr_reg = u32_at b 4, sp_rd_len_reg = u32_at b 8,
     sp_wr_len_reg = u32_at b 12, w_sp_status_reg = u32_at b 16, sp_status_reg = u32_at b 20, sp_halt = b ! 24,
     sp_broke = b ! 25, sp_dma_busy = b ! 26, sp_dma_full = b ! 27, sp_io_full = b ! 28, sp_single_step = b ! 29,
     sp_intr_break = b ! 30, signal0 = b ! 31, signal1 = b ! 32, signal2 = b ! 33, signal3 = b ! 34,
     signal4 = b ! 35, signal5 = b ! 36, signal6 = b ! 37, signal7 = b ! 38, sp_dma_full_reg = u32_at b 40,
     sp_dma_busy_reg = u32_at b 44, sp_semaphore_reg = u32_at b 48\<rparr>"

definition rsp_reg_bytes :: "rsp_reg \<Rightarrow> bytes" where
  "rsp_reg_bytes r =
     put_le32 (rsp_pc r) @ put_le32 (rsp_ibist r)"

definition rsp_reg_of :: "bytes \<Rightarrow> rsp_reg" where
  "rsp_reg_of b = \<lparr>
     rsp_pc = u32_at b 0, rsp_ibist = u32_at b 4\<rparr>"

definition si_reg_bytes :: "si_reg \<Rightarrow> bytes" where
  "si_reg_bytes r =
     put_le32 (si_dram_addr r) @ put_le32 (si_pif_addr_rd64b r) @ put_le32 (si_pif_addr_wr64b r) @
     put_le32 (si_status r)"

definition si_reg_of :: "bytes \<Rightarrow> si_reg" where
  "si_reg_of b = \<lparr>
     si_dram_addr = u32_at b 0, si_pif_addr_rd64b = u32_at b 4, si_pif_addr_wr64b = u32_at b 8,
     si_status = u32_at b 12\<rparr>"

definition vi_reg_bytes :: "vi_reg \<Rightarrow> bytes" where
  "vi_reg_bytes r =
     put_le32 (vi_status r) @ put_le32 (vi_origin r) @ put_le32 (vi_width r) @ put_le32 (vi_v_intr r) @
     put_le32 (vi_current r) @ put_le32 (vi_burst r) @ put_le32 (vi_v_sync r) @ put_le32 (vi_h_sync r) @
     put_le32 (vi_leap r) @ put_le32 (vi_h_start r) @ put_le32 (vi_v_start r) @ put_le32 (vi_v_burst r) @
     put_le32 (vi_x_scale r) @ put_le32 (vi_y_scale r) @ put_le32 (vi_delay r)"

definition vi_reg_of :: "bytes \<Rightarrow> vi_reg" where
  "vi_reg_of b = \<lparr>
     vi_status = u32_at b 0, vi_origin = u32_at b 4, vi_width = u32_at b 8, vi_v_intr = u32_at b 12,
     vi_current = u32_at b 16, vi_burst = u32_at b 20, vi_v_sync = u32_at b 24, vi_h_sync = u32_at b 28,
     vi_leap = u32_at b 32, vi_h_start = u32_at b 36, vi_v_start = u32_at b 40, vi_v_burst = u32_at b 44,
     vi_x_scale = u32_at b 48, vi_y_scale = u32_at b 52, vi_delay = u32_at b 56\<rparr>"

definition ri_reg_bytes :: "ri_reg \<Rightarrow> bytes" where
  "ri_reg_bytes r =
     put_le32 (ri_mode r) @ put_le32 (ri_config r) @ put_le32 (ri_current_load r) @ put_le32 (ri_select r) @
     put_le32 (ri_refresh r) @ put_le32 (ri_latency r) @ put_le32 (ri_error r) @ put_le32 (ri_werror r)"

definition ri_reg_of :: "bytes \<Rightarrow> ri_reg" where
  "ri_reg_of b = \<lparr>
     ri_mode = u32_at b 0, ri_config = u32_at b 4, ri_current_load = u32_at b 8, ri_select = u32_at b 12,
     ri_refresh = u32_at b 16, ri_latency = u32_at b 20, ri_error = u32_at b 24, ri_werror = u32_at b 28\<rparr>"

definition ai_reg_bytes :: "ai_reg \<Rightarrow> bytes" where
  "ai_reg_bytes r =
     put_le32 (ai_dram_addr r) @ put_le32 (ai_len r) @ put_le32 (ai_control r) @ put_le32 (ai_status r) @
     put_le32 (ai_dacrate r) @ put_le32 (ai_bitrate r) @ put_le32 (next_delay r) @ put_le32 (next_len r) @
     put_le32 (current_delay r) @ put_le32 (current_len r)"

definition ai_reg_of :: "bytes \<Rightarrow> ai_reg" where
  "ai_reg_of b = \<lparr>
     ai_dram_addr = u32_at b 0, ai_len = u32_at b 4, ai_control = u32_at b 8, ai_status = u32_at b 12,
     ai_dacrate = u32_at b 16, ai_bitrate = u32_at b 20, next_delay = u32_at b 24, next_len = u32_at b 28,
     current_delay = u32_at b 32, current_len = u32_at b 36\<rparr>"

definition dpc_reg_bytes :: "dpc_reg \<Rightarrow> bytes" where
  "dpc_reg_bytes r =
     put_le32 (dpc_start r) @ put_le32 (dpc_end r) @ put_le32 (dpc_current r) @ put_le32 (w_dpc_status r) @
     put_le32 (dpc_status r) @
     [xbus_dmem_dma r, dpc_freeze r, dpc_flush r, start_glck r, tmem_busy r, pipe_busy r, cmd_busy r, cbuf_busy r,
      dpc_dma_busy r, end_valid r, start_valid r, 0] @
     put_le32 (dpc_clock r) @ put_le32 (dpc_bufbusy r) @ put_le32 (dpc_pipebusy r) @ put_le32 (dpc_tmem r)"

definition dpc_reg_of :: "bytes \<Rightarrow> dpc_reg" where
  "dpc_reg_of b = \<lparr>
     dpc_start = u32_at b 0, dpc_end = u32_at b 4, dpc_current = u32_at b 8, w_dpc_status = u32_at b 12,
     dpc_status = u32_at b 16, xbus_dmem_dma = b ! 20, dpc_freeze = b ! 21, dpc_flush = b ! 22, start_glck = b ! 23,
     tmem_busy = b ! 24, pipe_busy = b ! 25, cmd_busy = b ! 26, cbuf_busy = b ! 27, dpc_dma_busy = b ! 28,
     end_valid = b ! 29, start_valid = b ! 30, dpc_clock = u32_at b 32, dpc_bufbusy = u32_at b 36,
     dpc_pipebusy = u32_at b 40, dpc_tmem = u32_at b 44\<rparr>"

definition dps_reg_bytes :: "dps_reg \<Rightarrow> bytes" where
  "dps_reg_bytes r =
     put_le32 (dps_tbist r) @ put_le32 (dps_test_mode r) @ put_le32 (dps_buftest_addr r) @
     put_le32 (dps_buftest_data r)"

definition dps_reg_of :: "bytes \<Rightarrow> dps_reg" where
  "dps_reg_of b = \<lparr>
     dps_tbist = u32_at b 0, dps_test_mode = u32_at b 4, dps_buftest_addr = u32_at b 8,
     dps_buftest_data = u32_at b 12\<rparr>"

definition tlb_bytes :: "tlb \<Rightarrow> bytes" where
  "tlb_bytes r =
     put_le16 (tlb_mask r) @ [0, 0] @ put_le32 (tlb_vpn2 r) @ [tlb_g r, tlb_asid r, 0, 0] @
     put_le32 (tlb_pfn_even r) @ [tlb_c_even r, tlb_d_even r, tlb_v_even r, 0] @ put_le32 (tlb_pfn_odd r) @
     [tlb_c_odd r, tlb_d_odd r, tlb_v_odd r, tlb_r r] @ put_le32 (start_even r) @ put_le32 (end_even r) @
     put_le32 (phys_even r) @ put_le32 (start_odd r) @ put_le32 (end_odd r) @ put_le32 (phys_odd r)"

definition tlb_of :: "bytes \<Rightarrow> tlb" where
  "tlb_of b = \<lparr>
     tlb_mask = u16_at b 0, tlb_vpn2 = u32_at b 4, tlb_g = b ! 8, tlb_asid = b ! 9, tlb_pfn_even = u32_at b 12,
     tlb_c_even = b ! 16, tlb_d_even = b ! 17, tlb_v_even = b ! 18, tlb_pfn_odd = u32_at b 20, tlb_c_odd = b ! 24,
     tlb_d_odd = b ! 25, tlb_v_odd = b ! 26, tlb_r = b ! 27, start_even = u32_at b 28, end_even = u32_at b 32,
     phys_even = u32_at b 36, start_odd = u32_at b 40, end_odd = u32_at b 44, phys_odd = u32_at b 48\<rparr>"


section \<open>Arrays\<close>

definition array_bytes :: "nat \<Rightarrow> array \<Rightarrow> bytes" where
  "array_bytes n a = map a [0..<n]"

definition read_array :: "bytes \<Rightarrow> array \<Rightarrow> array" where
  "read_array d a = (\<lambda>i. if i < length d then d ! i else a i)"

definition words_bytes :: "nat \<Rightarrow> (nat \<Rightarrow> u32) \<Rightarrow> bytes" where
  "words_bytes n f = concat (map (\<lambda>i. put_le32 (f i)) [0..<n])"

definition read_words :: "bytes \<Rightarrow> (nat \<Rightarrow> u32) \<Rightarrow> nat \<Rightarrow> u32" where
  "read_words d f = (\<lambda>i. if 4 * i + 4 \<le> length d then u32_at d (4 * i) else f i)"

definition regs_bytes :: "(regno \<Rightarrow> u64) \<Rightarrow> bytes" where
  "regs_bytes f = concat (map (\<lambda>i. put_le64 (f (of_nat i))) [0..<32])"

definition read_regs :: "bytes \<Rightarrow> regno \<Rightarrow> u64" where
  "read_regs d r = u64_at d (8 * unat r)"

text \<open>
  \<^verbatim>\<open>vecwrite(b, reg_cop0 + i, 8)\<close> writes every register with its successor; behind the last one it reads
  four bytes past the array, here \<^term>\<open>after\<close>.  The reader skips every second word.
\<close>

definition cop0_bytes :: "u32 \<Rightarrow> (regno \<Rightarrow> u32) \<Rightarrow> bytes" where
  "cop0_bytes after f = concat (map (\<lambda>i. put_le32 (f (of_nat i)) @
     put_le32 (if i = 31 then after else f (of_nat (i + 1)))) [0..<32])"

definition read_cop0 :: "bytes \<Rightarrow> regno \<Rightarrow> u32" where
  "read_cop0 d r = u32_at d (8 * unat r)"

definition tlbs_bytes :: "(nat \<Rightarrow> tlb) \<Rightarrow> bytes" where
  "tlbs_bytes f = concat (map (\<lambda>i. tlb_bytes (f i)) [0..<32])"

definition read_tlbs :: "bytes \<Rightarrow> (nat \<Rightarrow> tlb) \<Rightarrow> nat \<Rightarrow> tlb" where
  "read_tlbs d f = (\<lambda>i. if i < 32 then tlb_of (take 52 (drop (52 * i) d)) else f i)"

section \<open>The block\<close>

text \<open>What \<^verbatim>\<open>generate_savestate\<close> writes behind the hash of the ROM and in front of the event queue.\<close>

definition first_block :: "u32 \<Rightarrow> 'w machine \<Rightarrow> bytes" where
  "first_block after m =
     rdram_reg_bytes (rdram_register m) @ mips_reg_bytes (MI_register m) @ pi_reg_bytes (pi_register m) @
     sp_reg_bytes (sp_register m) @ rsp_reg_bytes (rsp_register m) @ si_reg_bytes (si_register m) @
     vi_reg_bytes (vi_register m) @ ri_reg_bytes (ri_register m) @ ai_reg_bytes (ai_register m) @
     dpc_reg_bytes (dpc_register m) @ dps_reg_bytes (dps_register m) @ array_bytes 0x800000 (rdram m) @
     array_bytes 0x1000 (SP_DMEM m) @ array_bytes 0x1000 (\<lambda>i. SP_DMEM m (i + 0x1000)) @ PIF_RAM m @
     save_flashram_infos (flash m) @ words_bytes 0x40000 (tlb_LUT_r m) @ words_bytes 0x40000 (tlb_LUT_w m) @
     put_le32 (if llbit (cpu m) then 1 else 0) @ regs_bytes (reg (cpu m)) @ cop0_bytes after (reg_cop0 (cpu m)) @
     put_le64 (lo (cpu m)) @ put_le64 (hi (cpu m)) @ regs_bytes (reg_cop1_fgr_64 (cpu m)) @
     put_le32 (FCR0 (cpu m)) @ put_le32 (FCR31 (cpu m)) @ tlbs_bytes (tlb_e m) @ put_le32 (interp_addr (cpu m)) @
     put_le32 (next_interrupt (queue m)) @ put_le32 (next_vi m) @ put_le32 (vi_field m)"

text \<open>\<^verbatim>\<open>memread(&p, dest, n)\<close> with the pointer as the bytes from it on.\<close>

definition mread :: "nat \<Rightarrow> bytes \<Rightarrow> (bytes \<times> bytes) option" where
  "mread n p = (if n \<le> length p then Some (take n p, drop n p) else None)"

definition load_rcp :: "bytes \<Rightarrow> 'w machine \<Rightarrow> ('w machine \<times> bytes) option" where
  "load_rcp p0 m = do {
     (d1, p1) \<leftarrow> mread 40 p0;
     (d2, p2) \<leftarrow> mread 36 p1;
     (d3, p3) \<leftarrow> mread 52 p2;
     (d4, p4) \<leftarrow> mread 52 p3;
     (d5, p5) \<leftarrow> mread 8 p4;
     (d6, p6) \<leftarrow> mread 16 p5;
     (d7, p7) \<leftarrow> mread 60 p6;
     (d8, p8) \<leftarrow> mread 32 p7;
     (d9, p9) \<leftarrow> mread 40 p8;
     (d10, p10) \<leftarrow> mread 48 p9;
     (d11, p11) \<leftarrow> mread 16 p10;
     Some (m\<lparr>rdram_register := rdram_reg_of d1, MI_register := mips_reg_of d2, pi_register := pi_reg_of d3,
             sp_register := sp_reg_of d4, rsp_register := rsp_reg_of d5, si_register := si_reg_of d6,
             vi_register := vi_reg_of d7, ri_register := ri_reg_of d8, ai_register := ai_reg_of d9,
             dpc_register := dpc_reg_of d10, dps_register := dps_reg_of d11\<rparr>, p11) }"

definition load_memories :: "bytes \<Rightarrow> 'w machine \<Rightarrow> ('w machine \<times> bytes) option" where
  "load_memories p0 m = do {
     (d1, p1) \<leftarrow> mread 0x800000 p0;
     (d2, p2) \<leftarrow> mread 0x1000 p1;
     (d3, p3) \<leftarrow> mread 0x1000 p2;
     (d4, p4) \<leftarrow> mread 0x40 p3;
     (d5, p5) \<leftarrow> mread 24 p4;
     fl \<leftarrow> load_flashram_infos d5 (flash m);
     (d6, p6) \<leftarrow> mread 0x100000 p5;
     (d7, p7) \<leftarrow> mread 0x100000 p6;
     Some (m\<lparr>rdram := read_array d1 (rdram m), SP_DMEM := read_array (d2 @ d3) (SP_DMEM m), PIF_RAM := d4, flash := fl,
             tlb_LUT_r := read_words d6 (tlb_LUT_r m), tlb_LUT_w := read_words d7 (tlb_LUT_w m)\<rparr>, p7) }"

definition load_cpu :: "bytes \<Rightarrow> 'w machine \<Rightarrow> ('w machine \<times> bytes) option" where
  "load_cpu p0 m = do {
     (d1, p1) \<leftarrow> mread 4 p0;
     (d2, p2) \<leftarrow> mread 256 p1;
     (d3, p3) \<leftarrow> mread 256 p2;
     (d4, p4) \<leftarrow> mread 8 p3;
     (d5, p5) \<leftarrow> mread 8 p4;
     (d6, p6) \<leftarrow> mread 256 p5;
     (d7, p7) \<leftarrow> mread 4 p6;
     (d8, p8) \<leftarrow> mread 4 p7;
     (d9, p9) \<leftarrow> mread 1664 p8;
     (d10, p10) \<leftarrow> mread 4 p9;
     (d11, p11) \<leftarrow> mread 4 p10;
     (d12, p12) \<leftarrow> mread 4 p11;
     (d13, p13) \<leftarrow> mread 4 p12;
     Some (m\<lparr>cpu := (cpu m)\<lparr>llbit := u32_at d1 0 \<noteq> 0, reg := read_regs d2, reg_cop0 := read_cop0 d3, lo := u64_at d4 0,
                hi := u64_at d5 0, reg_cop1_fgr_64 := read_regs d6, FCR0 := u32_at d7 0, FCR31 := u32_at d8 0,
                interp_addr := u32_at d10 0\<rparr>,
             tlb_e := read_tlbs d9 (tlb_e m), queue := (queue m)\<lparr>next_interrupt := u32_at d11 0\<rparr>,
             next_vi := u32_at d12 0, vi_field := u32_at d13 0\<rparr>, p13) }"

definition load_memory_from_buffer :: "bytes \<Rightarrow> 'w machine \<Rightarrow> 'w machine option" where
  "load_memory_from_buffer p m = do {
     (m1, p1) \<leftarrow> load_rcp p m;
     (m2, p2) \<leftarrow> load_memories p1 m1;
     (m3, _) \<leftarrow> load_cpu p2 m2;
     Some m3 }"

section \<open>Round trips\<close>

lemma length_rdram_reg_bytes [simp]: "length (rdram_reg_bytes r) = 40"
  by (simp add: rdram_reg_bytes_def)

lemma rdram_reg_of_bytes [simp]: "rdram_reg_of (rdram_reg_bytes r) = r"
  by (simp add: rdram_reg_of_def rdram_reg_bytes_def struct_simps)

lemma length_mips_reg_bytes [simp]: "length (mips_reg_bytes r) = 36"
  by (simp add: mips_reg_bytes_def)

lemma mips_reg_of_bytes [simp]: "mips_reg_of (mips_reg_bytes r) = r"
  by (simp add: mips_reg_of_def mips_reg_bytes_def struct_simps)

lemma length_pi_reg_bytes [simp]: "length (pi_reg_bytes r) = 52"
  by (simp add: pi_reg_bytes_def)

lemma pi_reg_of_bytes [simp]: "pi_reg_of (pi_reg_bytes r) = r"
  by (simp add: pi_reg_of_def pi_reg_bytes_def struct_simps)

lemma length_sp_reg_bytes [simp]: "length (sp_reg_bytes r) = 52"
  by (simp add: sp_reg_bytes_def)

lemma sp_reg_of_bytes [simp]: "sp_reg_of (sp_reg_bytes r) = r"
  by (simp add: sp_reg_of_def sp_reg_bytes_def struct_simps)

lemma length_rsp_reg_bytes [simp]: "length (rsp_reg_bytes r) = 8"
  by (simp add: rsp_reg_bytes_def)

lemma rsp_reg_of_bytes [simp]: "rsp_reg_of (rsp_reg_bytes r) = r"
  by (simp add: rsp_reg_of_def rsp_reg_bytes_def struct_simps)

lemma length_si_reg_bytes [simp]: "length (si_reg_bytes r) = 16"
  by (simp add: si_reg_bytes_def)

lemma si_reg_of_bytes [simp]: "si_reg_of (si_reg_bytes r) = r"
  by (simp add: si_reg_of_def si_reg_bytes_def struct_simps)

lemma length_vi_reg_bytes [simp]: "length (vi_reg_bytes r) = 60"
  by (simp add: vi_reg_bytes_def)

lemma vi_reg_of_bytes [simp]: "vi_reg_of (vi_reg_bytes r) = r"
  by (simp add: vi_reg_of_def vi_reg_bytes_def struct_simps)

lemma length_ri_reg_bytes [simp]: "length (ri_reg_bytes r) = 32"
  by (simp add: ri_reg_bytes_def)

lemma ri_reg_of_bytes [simp]: "ri_reg_of (ri_reg_bytes r) = r"
  by (simp add: ri_reg_of_def ri_reg_bytes_def struct_simps)

lemma length_ai_reg_bytes [simp]: "length (ai_reg_bytes r) = 40"
  by (simp add: ai_reg_bytes_def)

lemma ai_reg_of_bytes [simp]: "ai_reg_of (ai_reg_bytes r) = r"
  by (simp add: ai_reg_of_def ai_reg_bytes_def struct_simps)

lemma length_dpc_reg_bytes [simp]: "length (dpc_reg_bytes r) = 48"
  by (simp add: dpc_reg_bytes_def)

lemma dpc_reg_of_bytes [simp]: "dpc_reg_of (dpc_reg_bytes r) = r"
  by (simp add: dpc_reg_of_def dpc_reg_bytes_def struct_simps)

lemma length_dps_reg_bytes [simp]: "length (dps_reg_bytes r) = 16"
  by (simp add: dps_reg_bytes_def)

lemma dps_reg_of_bytes [simp]: "dps_reg_of (dps_reg_bytes r) = r"
  by (simp add: dps_reg_of_def dps_reg_bytes_def struct_simps)

lemma length_tlb_bytes [simp]: "length (tlb_bytes r) = 52"
  by (simp add: tlb_bytes_def)

lemma tlb_of_bytes [simp]: "tlb_of (tlb_bytes r) = r"
  by (simp add: tlb_of_def tlb_bytes_def struct_simps)


lemma mread_append [simp]: "length d = n \<Longrightarrow> mread n (d @ p) = Some (d, p)" "length d = n \<Longrightarrow> mread n d = Some (d, [])"
  by (auto simp: mread_def)

lemma length_array_bytes [simp]: "length (array_bytes n a) = n"
  by (simp add: array_bytes_def)

lemma read_array_bytes: "read_array (array_bytes n a) b = (\<lambda>i. if i < n then a i else b i)"
  by (auto simp: read_array_def array_bytes_def)

lemma read_sp_mem:
  "read_array (array_bytes 0x1000 a @ array_bytes 0x1000 (\<lambda>i. a (i + 0x1000))) b = (\<lambda>i. if i < 0x2000 then a i else b i)"
  by (auto simp: read_array_def array_bytes_def nth_append fun_eq_iff)

lemma length_uniform: "(\<And>x. x \<in> set xs \<Longrightarrow> length x = n) \<Longrightarrow> length (concat xs) = n * length xs"
  by (induction xs) auto

lemma uniform_block:
  assumes "\<And>i. i < k \<Longrightarrow> length (f i) = n" "i < k"
  shows "take n (drop (n * i) (concat (map f [0..<k]))) = f i"
  using take_drop_concat [of "map f [0..<k]" n i "[]"] assms by (auto simp: mult.commute)

lemma length_words_bytes [simp]: "length (words_bytes n f) = 4 * n"
  unfolding words_bytes_def by (subst length_uniform [of _ 4]) auto

lemma read_words_bytes: "read_words (words_bytes n f) g = (\<lambda>i. if i < n then f i else g i)"
proof
  fix i
  show "read_words (words_bytes n f) g i = (if i < n then f i else g i)"
    using uniform_block [of n "\<lambda>i. put_le32 (f i)" 4 i]
    by (auto simp: read_words_def u32_at_def words_bytes_def [symmetric])
qed

lemma length_regs_bytes [simp]: "length (regs_bytes f) = 256"
  unfolding regs_bytes_def by (subst length_uniform [of _ 8]) auto

lemma le_word_put32_append:
  "(le_word (put_le32 a @ b) :: u64) = ucast a OR push_bit 32 (le_word b)"
proof -
  have "(ucast a :: u64) = ucast (ucast a :: u8) OR push_bit 8 (ucast (ucast (drop_bit 8 a) :: u8))
      OR push_bit 16 (ucast (ucast (drop_bit 16 a) :: u8)) OR push_bit 24 (ucast (ucast (drop_bit 24 a) :: u8))"
  proof (rule bit_word_eqI)
    fix n assume n: "n < LENGTH(64)"
    then consider "n < 8" | "8 \<le> n" "n < 16" "n - 8 < 8"
      | "16 \<le> n" "n < 24" "\<not> n - 8 < 8" "n - 16 < 8"
      | "24 \<le> n" "n < 32" "\<not> n - 8 < 8" "\<not> n - 16 < 8" "n - 24 < 8"
      | "32 \<le> n" "\<not> n - 8 < 8" "\<not> n - 16 < 8" "\<not> n - 24 < 8" by force
    then show "bit (ucast a :: u64) n = bit (ucast (ucast a :: u8) OR push_bit 8 (ucast (ucast (drop_bit 8 a) :: u8))
      OR push_bit 16 (ucast (ucast (drop_bit 16 a) :: u8)) OR push_bit 24 (ucast (ucast (drop_bit 24 a) :: u8)) :: u64) n"
      using n bit_imp_le_length [of a n]
      by cases (auto simp: bit_or_iff bit_push_bit_iff bit_unsigned_iff bit_drop_bit_eq)
  qed
  then show ?thesis by (simp add: le_word_def put_le32_def push_bit_or push_bit_push_bit or.assoc)
qed

lemma le_word_put64 [simp]: "le_word (put_le64 w) = w"
proof -
  have "le_word (put_le64 w) = (ucast (ucast w :: u32) OR push_bit 32 (ucast (ucast (drop_bit 32 w) :: u32)) :: u64)"
    using le_word_put32_append [of "ucast (drop_bit 32 w)" "[]"]
    by (simp add: put_le64_def le_word_put32_append)
  also have "\<dots> = w"
  proof (rule bit_word_eqI)
    fix n assume "n < LENGTH(64)"
    then show "bit (ucast (ucast w :: u32) OR push_bit 32 (ucast (ucast (drop_bit 32 w) :: u32)) :: u64) n = bit w n"
      by (cases "n < 32") (auto simp: bit_or_iff bit_push_bit_iff bit_unsigned_iff bit_drop_bit_eq)
  qed
  finally show ?thesis .
qed

lemma u64_at_put_le64 [simp]: "u64_at (put_le64 w) 0 = w"
  by (simp add: u64_at_def)

lemma regno_less: "unat (r :: regno) < 32"
  using unsigned_less [of r, where 'a = nat] by simp

lemma read_regs_bytes [simp]: "read_regs (regs_bytes f) = f"
proof
  fix r :: regno
  show "read_regs (regs_bytes f) r = f r"
    using uniform_block [of 32 "\<lambda>i. put_le64 (f (of_nat i))" 8 "unat r"] regno_less [of r]
    by (simp add: read_regs_def u64_at_def regs_bytes_def)
qed

lemma length_cop0_bytes [simp]: "length (cop0_bytes x f) = 256"
  unfolding cop0_bytes_def by (subst length_uniform [of _ 8]) auto

lemma read_cop0_bytes [simp]: "read_cop0 (cop0_bytes x f) = f"
proof
  fix r :: regno
  let ?b = "\<lambda>i. put_le32 (f (of_nat i)) @ put_le32 (if i = 31 then x else f (of_nat (i + 1)))"
  have "take 8 (drop (8 * unat r) (cop0_bytes x f)) = ?b (unat r)"
    unfolding cop0_bytes_def by (rule uniform_block) (use regno_less [of r] in auto)
  then have "take 4 (take 8 (drop (8 * unat r) (cop0_bytes x f))) = put_le32 (f r)" by (simp del: take_take)
  then have "take 4 (drop (8 * unat r) (cop0_bytes x f)) = put_le32 (f r)" by simp
  then show "read_cop0 (cop0_bytes x f) r = f r" by (simp add: read_cop0_def u32_at_def)
qed

lemma length_tlbs_bytes [simp]: "length (tlbs_bytes f) = 1664"
  unfolding tlbs_bytes_def by (subst length_uniform [of _ 52]) auto

lemma read_tlbs_bytes: "read_tlbs (tlbs_bytes f) g = (\<lambda>i. if i < 32 then f i else g i)"
proof
  fix i
  show "read_tlbs (tlbs_bytes f) g i = (if i < 32 then f i else g i)"
    using uniform_block [of 32 "\<lambda>i. tlb_bytes (f i)" 52 i] by (auto simp: read_tlbs_def tlbs_bytes_def)
qed

lemma length_save_flashram_infos [simp]: "length (save_flashram_infos s) = 24"
  by (simp add: save_flashram_infos_def)

section \<open>The block as a whole\<close>

lemma load_rcp_block:
  "load_rcp (rdram_reg_bytes a @ mips_reg_bytes b @ pi_reg_bytes c @ sp_reg_bytes d @ rsp_reg_bytes e @ si_reg_bytes f @
     vi_reg_bytes g @ ri_reg_bytes h @ ai_reg_bytes i @ dpc_reg_bytes j @ dps_reg_bytes k @ p) m =
   Some (m\<lparr>rdram_register := a, MI_register := b, pi_register := c, sp_register := d, rsp_register := e,
     si_register := f, vi_register := g, ri_register := h, ai_register := i, dpc_register := j, dps_register := k\<rparr>, p)"
  by (simp add: load_rcp_def)

lemma load_memories_block:
  assumes "length pr = 0x40"
  shows "load_memories (array_bytes 0x800000 ram @ array_bytes 0x1000 sp @ array_bytes 0x1000 (\<lambda>i. sp (i + 0x1000)) @
     pr @ save_flashram_infos fl @ words_bytes 0x40000 lr @ words_bytes 0x40000 lw @ p) m =
   Some (m\<lparr>rdram := (\<lambda>i. if i < 0x800000 then ram i else rdram m i),
     SP_DMEM := (\<lambda>i. if i < 0x2000 then sp i else SP_DMEM m i), PIF_RAM := pr,
     flash := (flash m)\<lparr>use_flashram := use_flashram fl, flash_mode := flash_mode fl, flash_status := flash_status fl,
       erase_offset := erase_offset fl, write_pointer := write_pointer fl\<rparr>,
     tlb_LUT_r := (\<lambda>i. if i < 0x40000 then lr i else tlb_LUT_r m i),
     tlb_LUT_w := (\<lambda>i. if i < 0x40000 then lw i else tlb_LUT_w m i)\<rparr>, p)"
  using assms by (simp add: load_memories_def flashram_infos_roundtrip read_array_bytes read_sp_mem read_words_bytes)

lemma load_cpu_block:
  "load_cpu (put_le32 (if ll then 1 else 0) @ regs_bytes r @ cop0_bytes x c0 @ put_le64 l @ put_le64 h @ regs_bytes f @
     put_le32 f0 @ put_le32 f31 @ tlbs_bytes te @ put_le32 pc @ put_le32 ni @ put_le32 nv @ put_le32 vf) m =
   Some (m\<lparr>cpu := (cpu m)\<lparr>llbit := ll, reg := r, reg_cop0 := c0, lo := l, hi := h, reg_cop1_fgr_64 := f,
       FCR0 := f0, FCR31 := f31, interp_addr := pc\<rparr>,
     tlb_e := (\<lambda>i. if i < 32 then te i else tlb_e m i), queue := (queue m)\<lparr>next_interrupt := ni\<rparr>,
     next_vi := nv, vi_field := vf\<rparr>, [])"
  by (simp add: load_cpu_def read_tlbs_bytes)

text \<open>The machine \<^term>\<open>t\<close> with everything taken from \<^term>\<open>m\<close> that the block of a savestate holds.\<close>

definition restored :: "'w machine \<Rightarrow> 'w machine \<Rightarrow> 'w machine" where
  "restored m t = t\<lparr>rdram_register := rdram_register m, MI_register := MI_register m, pi_register := pi_register m,
     sp_register := sp_register m, rsp_register := rsp_register m, si_register := si_register m,
     vi_register := vi_register m, ri_register := ri_register m, ai_register := ai_register m,
     dpc_register := dpc_register m, dps_register := dps_register m,
     rdram := (\<lambda>i. if i < 0x800000 then rdram m i else rdram t i),
     SP_DMEM := (\<lambda>i. if i < 0x2000 then SP_DMEM m i else SP_DMEM t i), PIF_RAM := PIF_RAM m,
     flash := (flash t)\<lparr>use_flashram := use_flashram (flash m), flash_mode := flash_mode (flash m),
       flash_status := flash_status (flash m), erase_offset := erase_offset (flash m),
       write_pointer := write_pointer (flash m)\<rparr>,
     tlb_LUT_r := (\<lambda>i. if i < 0x40000 then tlb_LUT_r m i else tlb_LUT_r t i),
     tlb_LUT_w := (\<lambda>i. if i < 0x40000 then tlb_LUT_w m i else tlb_LUT_w t i),
     cpu := (cpu t)\<lparr>llbit := llbit (cpu m), reg := reg (cpu m), reg_cop0 := reg_cop0 (cpu m), lo := lo (cpu m),
       hi := hi (cpu m), reg_cop1_fgr_64 := reg_cop1_fgr_64 (cpu m), FCR0 := FCR0 (cpu m), FCR31 := FCR31 (cpu m),
       interp_addr := interp_addr (cpu m)\<rparr>,
     tlb_e := (\<lambda>i. if i < 32 then tlb_e m i else tlb_e t i),
     queue := (queue t)\<lparr>next_interrupt := next_interrupt (queue m)\<rparr>, next_vi := next_vi m, vi_field := vi_field m\<rparr>"

lemma load_first_block:
  assumes "length (PIF_RAM m) = 0x40"
  shows "load_memory_from_buffer (first_block x m) t = Some (restored m t)"
  unfolding load_memory_from_buffer_def first_block_def load_rcp_block
  by (simp add: load_memories_block [OF assms] load_cpu_block restored_def cong: if_cong)

lemma length_first_block:
  assumes "length (PIF_RAM m) = 0x40"
  shows "length (first_block x m) = 0xA02BB4 - 32"
  using assms by (simp add: first_block_def)

end
