(* ===== verification/Cpu_Alu.thy ===== *)
theory Cpu_Alu
  imports Cpu_State "HOL-Library.Signed_Division"
begin

text \<open>
  The arithmetic and logic instructions of the pure interpreter
  (\<^verbatim>\<open>Core/r4300/pure_interp.cpp\<close>): one definition per handler of the
  \<^verbatim>\<open>interp_special\<close> table that touches registers only, and the immediate forms.
  Signed 64-bit arithmetic that the source performs on \<^verbatim>\<open>int64_t\<close> wraps, as it
  does on every host the program builds for; the two signed divisions whose quotient
  does not fit, which trap on the host, are \<^term>\<open>None\<close>.
\<close>

section \<open>Shifts\<close>

definition SLL :: "r4300 \<Rightarrow> r4300" where
  "SLL s = pc4 (set_rd (sext32 (push_bit (core_rsa s) (rrt32 s))) s)"

definition SRL :: "r4300 \<Rightarrow> r4300" where
  "SRL s = pc4 (set_rd (sext32 (drop_bit (core_rsa s) (rrt32 s))) s)"

definition SRA :: "r4300 \<Rightarrow> r4300" where
  "SRA s = pc4 (set_rd (sext32 (signed_drop_bit (core_rsa s) (rrt32 s))) s)"

definition SLLV :: "r4300 \<Rightarrow> r4300" where
  "SLLV s = pc4 (set_rd (sext32 (push_bit (unat (rrs32 s AND 0x1F)) (rrt32 s))) s)"

definition SRLV :: "r4300 \<Rightarrow> r4300" where
  "SRLV s = pc4 (set_rd (sext32 (drop_bit (unat (rrs32 s AND 0x1F)) (rrt32 s))) s)"

definition SRAV :: "r4300 \<Rightarrow> r4300" where
  "SRAV s = pc4 (set_rd (sext32 (signed_drop_bit (unat (rrs32 s AND 0x1F)) (rrt32 s))) s)"

definition DSLLV :: "r4300 \<Rightarrow> r4300" where
  "DSLLV s = pc4 (set_rd (push_bit (unat (rrs32 s AND 0x3F)) (core_rrt s)) s)"

definition DSRLV :: "r4300 \<Rightarrow> r4300" where
  "DSRLV s = pc4 (set_rd (drop_bit (unat (rrs32 s AND 0x3F)) (core_rrt s)) s)"

definition DSRAV :: "r4300 \<Rightarrow> r4300" where
  "DSRAV s = pc4 (set_rd (signed_drop_bit (unat (rrs32 s AND 0x3F)) (core_rrt s)) s)"

definition DSLL :: "r4300 \<Rightarrow> r4300" where
  "DSLL s = pc4 (set_rd (push_bit (core_rsa s) (core_rrt s)) s)"

definition DSRL :: "r4300 \<Rightarrow> r4300" where
  "DSRL s = pc4 (set_rd (drop_bit (core_rsa s) (core_rrt s)) s)"

definition DSRA :: "r4300 \<Rightarrow> r4300" where
  "DSRA s = pc4 (set_rd (signed_drop_bit (core_rsa s) (core_rrt s)) s)"

definition DSLL32 :: "r4300 \<Rightarrow> r4300" where
  "DSLL32 s = pc4 (set_rd (push_bit (32 + core_rsa s) (core_rrt s)) s)"

definition DSRL32 :: "r4300 \<Rightarrow> r4300" where
  "DSRL32 s = pc4 (set_rd (drop_bit (32 + core_rsa s) (core_rrt s)) s)"

definition DSRA32 :: "r4300 \<Rightarrow> r4300" where
  "DSRA32 s = pc4 (set_rd (signed_drop_bit (32 + core_rsa s) (core_rrt s)) s)"

section \<open>Signed division\<close>

text \<open>\<^verbatim>\<open>/\<close> and \<^verbatim>\<open>%\<close> of C++ on signed integers truncate toward zero.\<close>

definition sdiv_c :: "'a::len word \<Rightarrow> 'a word \<Rightarrow> 'a word" where
  "sdiv_c a b = word_of_int (sint a sdiv sint b)"

definition smod_c :: "'a::len word \<Rightarrow> 'a word \<Rightarrow> 'a word" where
  "smod_c a b = word_of_int (sint a smod sint b)"

section \<open>HI and LO, multiplication and division\<close>

definition MFHI :: "r4300 \<Rightarrow> r4300" where "MFHI s = pc4 (set_rd (hi s) s)"
definition MTHI :: "r4300 \<Rightarrow> r4300" where "MTHI s = pc4 (s\<lparr>hi := core_rrs s\<rparr>)"
definition MFLO :: "r4300 \<Rightarrow> r4300" where "MFLO s = pc4 (set_rd (lo s) s)"
definition MTLO :: "r4300 \<Rightarrow> r4300" where "MTLO s = pc4 (s\<lparr>lo := core_rrs s\<rparr>)"

definition MULT :: "r4300 \<Rightarrow> r4300" where
  "MULT s = (let temp = core_rrs s * core_rrt s
             in pc4 (s\<lparr>hi := signed_drop_bit 32 temp, lo := sign_extended temp\<rparr>))"

definition MULTU :: "r4300 \<Rightarrow> r4300" where
  "MULTU s = (let temp = ucast (rrs32 s) * ucast (rrt32 s) :: u64
              in pc4 (s\<lparr>hi := signed_drop_bit 32 temp, lo := sign_extended temp\<rparr>))"

definition DIV :: "r4300 \<Rightarrow> r4300 option" where
  "DIV s = (if rrt32 s \<noteq> 0 then
       if rrs32 s = 0x80000000 \<and> rrt32 s = - 1 then None
       else Some (pc4 (s\<lparr>lo := sext32 (sdiv_c (rrs32 s) (rrt32 s)), hi := sext32 (smod_c (rrs32 s) (rrt32 s))\<rparr>))
     else Some (pc4 s))"

definition DIVU :: "r4300 \<Rightarrow> r4300" where
  "DIVU s = (if rrt32 s \<noteq> 0 then
       pc4 (s\<lparr>lo := sext32 (rrs32 s div rrt32 s), hi := sext32 (rrs32 s mod rrt32 s)\<rparr>)
     else pc4 s)"

text \<open>The 64 by 64 bit product from four 32-bit limbs, as \<^verbatim>\<open>(hi, lo)\<close>.\<close>

definition limb_product :: "u64 \<Rightarrow> u64 \<Rightarrow> u64 \<times> u64" where
  "limb_product x y =
    (let op1 = x AND 0xFFFFFFFF;
         op2 = drop_bit 32 x AND 0xFFFFFFFF;
         op3 = y AND 0xFFFFFFFF;
         op4 = drop_bit 32 y AND 0xFFFFFFFF;
         temp1 = op1 * op3;
         temp2 = drop_bit 32 temp1 + op1 * op4;
         temp3 = op2 * op3;
         temp4 = drop_bit 32 temp3 + op2 * op4;
         result1 = temp1 AND 0xFFFFFFFF;
         result2 = temp2 + (temp3 AND 0xFFFFFFFF);
         result3 = drop_bit 32 result2 + temp4;
         result4 = drop_bit 32 result3
     in ((result3 AND 0xFFFFFFFF) OR push_bit 32 result4, result1 OR push_bit 32 result2))"

definition DMULT :: "r4300 \<Rightarrow> r4300" where
  "DMULT s =
    (let neg1 = core_rrs s <s 0; neg2 = core_rrt s <s 0;
         op2 = (if neg1 then - core_rrs s else core_rrs s);
         op4 = (if neg2 then - core_rrt s else core_rrt s);
         (h, l) = limb_product op2 op4
     in pc4 (if neg1 \<noteq> neg2 then
          if l = 0 then s\<lparr>hi := NOT h + 1, lo := l\<rparr> else s\<lparr>hi := NOT h, lo := NOT l + 1\<rparr>
        else s\<lparr>hi := h, lo := l\<rparr>))"

definition DMULTU :: "r4300 \<Rightarrow> r4300" where
  "DMULTU s = (let (h, l) = limb_product (core_rrs s) (core_rrt s) in pc4 (s\<lparr>hi := h, lo := l\<rparr>))"

definition DDIV :: "r4300 \<Rightarrow> r4300 option" where
  "DDIV s = (if core_rrt s \<noteq> 0 then
       if core_rrs s = 0x8000000000000000 \<and> core_rrt s = - 1 then None
       else Some (pc4 (s\<lparr>lo := sdiv_c (core_rrs s) (core_rrt s), hi := smod_c (core_rrs s) (core_rrt s)\<rparr>))
     else Some (pc4 s))"

definition DDIVU :: "r4300 \<Rightarrow> r4300" where
  "DDIVU s = (if core_rrt s \<noteq> 0 then
       pc4 (s\<lparr>lo := core_rrs s div core_rrt s, hi := core_rrs s mod core_rrt s\<rparr>)
     else pc4 s)"

section \<open>Addition, logic, comparison\<close>

definition ADD :: "r4300 \<Rightarrow> r4300" where "ADD s = pc4 (set_rd (sext32 (rrs32 s + rrt32 s)) s)"
definition ADDU :: "r4300 \<Rightarrow> r4300" where "ADDU s = pc4 (set_rd (sext32 (rrs32 s + rrt32 s)) s)"
definition SUB :: "r4300 \<Rightarrow> r4300" where "SUB s = pc4 (set_rd (sext32 (rrs32 s - rrt32 s)) s)"
definition SUBU :: "r4300 \<Rightarrow> r4300" where "SUBU s = pc4 (set_rd (sext32 (rrs32 s - rrt32 s)) s)"
definition AND_op :: "r4300 \<Rightarrow> r4300" where "AND_op s = pc4 (set_rd (core_rrs s AND core_rrt s) s)"
definition OR_op :: "r4300 \<Rightarrow> r4300" where "OR_op s = pc4 (set_rd (core_rrs s OR core_rrt s) s)"
definition XOR_op :: "r4300 \<Rightarrow> r4300" where "XOR_op s = pc4 (set_rd (core_rrs s XOR core_rrt s) s)"
definition NOR :: "r4300 \<Rightarrow> r4300" where "NOR s = pc4 (set_rd (NOT (core_rrs s OR core_rrt s)) s)"

definition SLT :: "r4300 \<Rightarrow> r4300" where
  "SLT s = pc4 (set_rd (if core_rrs s <s core_rrt s then 1 else 0) s)"

definition SLTU :: "r4300 \<Rightarrow> r4300" where
  "SLTU s = pc4 (set_rd (if core_rrs s < core_rrt s then 1 else 0) s)"

definition DADD :: "r4300 \<Rightarrow> r4300" where "DADD s = pc4 (set_rd (core_rrs s + core_rrt s) s)"
definition DADDU :: "r4300 \<Rightarrow> r4300" where "DADDU s = pc4 (set_rd (core_rrs s + core_rrt s) s)"
definition DSUB :: "r4300 \<Rightarrow> r4300" where "DSUB s = pc4 (set_rd (core_rrs s - core_rrt s) s)"
definition DSUBU :: "r4300 \<Rightarrow> r4300" where "DSUBU s = pc4 (set_rd (core_rrs s - core_rrt s) s)"

definition TEQ :: "r4300 \<Rightarrow> r4300" where
  "TEQ s = pc4 (if core_rrs s = core_rrt s then s\<lparr>stop := True\<rparr> else s)"

section \<open>Immediate forms\<close>

definition ADDI :: "r4300 \<Rightarrow> r4300" where "ADDI s = pc4 (set_rt (sext32 (rrs32 s + imm32 (vr_op s))) s)"
definition ADDIU :: "r4300 \<Rightarrow> r4300" where "ADDIU s = pc4 (set_rt (sext32 (rrs32 s + imm32 (vr_op s))) s)"

definition SLTI :: "r4300 \<Rightarrow> r4300" where
  "SLTI s = pc4 (set_rt (if core_rrs s <s imm64 (vr_op s) then 1 else 0) s)"

definition SLTIU :: "r4300 \<Rightarrow> r4300" where
  "SLTIU s = pc4 (set_rt (if core_rrs s < imm64 (vr_op s) then 1 else 0) s)"

definition ANDI :: "r4300 \<Rightarrow> r4300" where "ANDI s = pc4 (set_rt (core_rrs s AND ucast (f_imm (vr_op s))) s)"
definition ORI :: "r4300 \<Rightarrow> r4300" where "ORI s = pc4 (set_rt (core_rrs s OR ucast (f_imm (vr_op s))) s)"
definition XORI :: "r4300 \<Rightarrow> r4300" where "XORI s = pc4 (set_rt (core_rrs s XOR ucast (f_imm (vr_op s))) s)"
definition LUI :: "r4300 \<Rightarrow> r4300" where "LUI s = pc4 (set_rt (sext32 (push_bit 16 (imm32 (vr_op s)))) s)"
definition DADDI :: "r4300 \<Rightarrow> r4300" where "DADDI s = pc4 (set_rt (core_rrs s + imm64 (vr_op s)) s)"
definition DADDIU :: "r4300 \<Rightarrow> r4300" where "DADDIU s = pc4 (set_rt (core_rrs s + imm64 (vr_op s)) s)"

text \<open>\<^verbatim>\<open>NI\<close>: an opcode that is not implemented stops the core without moving on.\<close>

definition NI :: "r4300 \<Rightarrow> r4300" where "NI s = s\<lparr>stop := True\<rparr>"

definition SYNC :: "r4300 \<Rightarrow> r4300" where "SYNC s = pc4 s"

section \<open>The product from limbs\<close>

lemma and_mask32: "x AND 0xFFFFFFFF = take_bit 32 (x::u64)"
  by (simp add: take_bit_eq_mask mask_numeral)

lemma unat_take32: "unat (take_bit 32 (x::u64)) = unat x mod 2 ^ 32"
  unfolding unsigned_take_bit_eq by (simp add: take_bit_eq_mod)

lemma unat_drop32: "unat (drop_bit 32 (x::u64)) = unat x div 2 ^ 32"
  unfolding drop_bit_eq_div by (simp add: unat_div)

lemma unat_push32: "unat (push_bit 32 (x::u64)) = unat x mod 2 ^ 32 * 2 ^ 32"
proof -
  have "unat (push_bit 32 x) = unat x * 2 ^ 32 mod (2 ^ 32 * 2 ^ 32)"
    by (simp add: push_bit_eq_mult unat_word_ariths)
  then show ?thesis by (simp only: mod_mult_mult2)
qed

lemma join32: "take_bit 32 a OR push_bit 32 (b::u64) = take_bit 32 a + push_bit 32 b"
  by (rule disjunctive_add [symmetric]) (auto simp: bit_simps)

lemma split32: "take_bit 32 a OR push_bit 32 (drop_bit 32 (a::u64)) = a"
proof (rule bit_word_eqI)
  fix n
  show "bit (take_bit 32 a OR push_bit 32 (drop_bit 32 a)) n = bit a n"
    by (cases "n < 32") (auto simp: bit_simps dest: bit_imp_le_length)
qed

lemma unat_add_small: "unat a + unat b < 2 ^ 64 \<Longrightarrow> unat (a + b :: u64) = unat a + unat b"
  by (simp add: unat_word_ariths)

lemma unat_mult_small: "unat a * unat b < 2 ^ 64 \<Longrightarrow> unat (a * b :: u64) = unat a * unat b"
  by (simp add: unat_word_ariths)

lemma limb_nat:
  fixes a b c d :: nat
  defines "B \<equiv> 2 ^ 32 :: nat"
  assumes "a < B" "b < B" "c < B" "d < B"
  defines "t1 \<equiv> a * c" and "t2 \<equiv> a * c div B + a * d" and "t3 \<equiv> b * c" and "t4 \<equiv> b * c div B + b * d"
  shows "t1 < B * B" "t2 < B * B" "t3 < B * B" "t4 < B * B" "t2 + t3 mod B < B * B"
    "(t2 + t3 mod B) div B + t4 < B * B"
    "((t2 + t3 mod B) div B + t4) * (B * B) + (t1 mod B + (t2 + t3 mod B) mod B * B) = (a + b * B) * (c + d * B)"
proof -
  have le: "x * y \<le> (B - 1) * (B - 1)" if "x < B" "y < B" for x y
    using that by (intro mult_mono) auto
  have BB: "(B - 1) * (B - 1) + (B - 1) + (B - 1) < B * B" by (simp add: B_def)
  have dv: "x * y div B < B" if "x < B" "y < B" for x y
    using le [OF that] BB by (intro less_mult_imp_div_less) simp
  note l1 = le [OF assms(2) assms(4)] and l2 = le [OF assms(2) assms(5)]
    and l3 = le [OF assms(3) assms(4)] and l4 = le [OF assms(3) assms(5)]
  have d1: "a * c div B \<le> B - 1" using dv [OF assms(2) assms(4)] by simp
  have d3: "b * c div B \<le> B - 1" using dv [OF assms(3) assms(4)] by simp
  have m: "t3 mod B \<le> B - 1" using mod_less_divisor [of B t3] by (simp add: B_def)
  show "t1 < B * B" "t2 < B * B" "t3 < B * B" "t4 < B * B"
    unfolding t1_def t2_def t3_def t4_def using l1 l2 l3 l4 d1 d3 BB by linarith+
  show r2: "t2 + t3 mod B < B * B" unfolding t2_def using l2 d1 m BB by linarith
  have "(t2 + t3 mod B) div B \<le> B - 1" using less_mult_imp_div_less [OF r2] by simp
  then show "(t2 + t3 mod B) div B + t4 < B * B" unfolding t4_def using l4 d3 BB by linarith
  define q1 r1 q3 r3 where "q1 = t1 div B" and "r1 = t1 mod B" and "q3 = t3 div B" and "r3 = t3 mod B"
  define q2 r2 where "q2 = (t2 + r3) div B" and "r2 = (t2 + r3) mod B"
  have e: "t1 = q1 * B + r1" "t3 = q3 * B + r3" "t2 + r3 = q2 * B + r2"
    by (simp_all add: q1_def r1_def q2_def r2_def q3_def r3_def)
  have t24: "t2 = q1 + a * d" "t4 = q3 + b * d"
    by (simp_all add: t2_def t4_def q1_def q3_def t1_def t3_def)
  have "(a + b * B) * (c + d * B) = t1 + (a * d) * B + t3 * B + (b * d) * (B * B)"
    by (simp add: t1_def t3_def algebra_simps)
  also have "\<dots> = r1 + (t2 + r3) * B + t4 * (B * B)"
    unfolding t24 e(1,2) by (simp add: algebra_simps)
  also have "\<dots> = (q2 + t4) * (B * B) + (r1 + r2 * B)"
    unfolding e(3) by (simp add: algebra_simps)
  finally show "((t2 + t3 mod B) div B + t4) * (B * B) + (t1 mod B + (t2 + t3 mod B) mod B * B) = (a + b * B) * (c + d * B)"
    by (simp only: r1_def r2_def q2_def r3_def)
qed

lemma limb_product_exact:
  "limb_product x y = (h, l) \<Longrightarrow> unat h * 2 ^ 64 + unat l = unat x * unat y"
proof -
  assume hl: "limb_product x y = (h, l)"
  define B :: nat where "B = 2 ^ 32"
  have B64: "18446744073709551616 = B * B" and B32: "4294967296 = B" by (simp_all add: B_def)
  define a b c d where "a = unat x mod B" and "b = unat x div B" and "c = unat y mod B" and "d = unat y div B"
  have lt: "unat z div B < B" "unat z < B * B" for z :: u64
    using unsigned_less [of z] by (auto intro!: less_mult_imp_div_less simp: B_def)
  have abcd: "a < B" "b < B" "c < B" "d < B" by (auto simp: a_def b_def c_def d_def lt) (simp_all add: B_def)
  note nat = limb_nat [OF abcd [unfolded B_def], folded B_def]
  have tk: "drop_bit 32 z AND 0xFFFFFFFF = drop_bit 32 z" for z :: u64
    unfolding and_mask32 by (rule bit_word_eqI) (auto simp: bit_simps dest: bit_imp_le_length)
  let ?op1 = "take_bit 32 x" and ?op2 = "drop_bit 32 x" and ?op3 = "take_bit 32 y" and ?op4 = "drop_bit 32 y"
  have ops: "unat ?op1 = a" "unat ?op2 = b" "unat ?op3 = c" "unat ?op4 = d"
    unfolding unat_take32 unat_drop32 by (simp_all add: a_def b_def c_def d_def B_def)
  let ?t1 = "?op1 * ?op3" and ?t3 = "?op2 * ?op3"
  have t1: "unat ?t1 = a * c" using nat(1) by (subst unat_mult_small) (simp_all add: ops B64 B32)
  have t3: "unat ?t3 = b * c" using nat(3) by (subst unat_mult_small) (simp_all add: ops B64 B32)
  have p14: "unat (?op1 * ?op4) = a * d"
    using nat(2) by (subst unat_mult_small) (simp_all add: ops B64 B32)
  have p24: "unat (?op2 * ?op4) = b * d"
    using nat(4) by (subst unat_mult_small) (simp_all add: ops B64 B32)
  let ?t2 = "drop_bit 32 ?t1 + ?op1 * ?op4" and ?t4 = "drop_bit 32 ?t3 + ?op2 * ?op4"
  have t2: "unat ?t2 = a * c div B + a * d"
    using nat(2) by (subst unat_add_small) (simp_all add: unat_drop32 t1 p14 B64 B32)
  have t4: "unat ?t4 = b * c div B + b * d"
    using nat(4) by (subst unat_add_small) (simp_all add: unat_drop32 t3 p24 B64 B32)
  let ?r2 = "?t2 + take_bit 32 ?t3"
  have r2: "unat ?r2 = a * c div B + a * d + b * c mod B"
    using nat(5) by (subst unat_add_small) (simp_all add: unat_take32 t2 t3 B64 B32)
  let ?r3 = "drop_bit 32 ?r2 + ?t4"
  have r3: "unat ?r3 = (a * c div B + a * d + b * c mod B) div B + (b * c div B + b * d)"
    using nat(6) by (subst unat_add_small) (simp_all add: unat_drop32 r2 t4 B64 B32)
  have h: "h = ?r3" and l: "l = take_bit 32 ?t1 OR push_bit 32 ?r2"
    using hl by (auto simp: limb_product_def Let_def and_mask32 tk [unfolded and_mask32] split32)
  have "a * c mod B + (a * c div B + a * d + b * c mod B) mod B * B < B * B"
  proof -
    have "m + n * B < B * B" if "m < B" "n < B" for m n
    proof -
      have "m + n * B < (n + 1) * B" using that(1) by simp
      also have "\<dots> \<le> B * B" using that(2) by (intro mult_le_mono1) simp
      finally show ?thesis .
    qed
    then show ?thesis by (simp add: B_def)
  qed
  then have "unat l = a * c mod B + (a * c div B + a * d + b * c mod B) mod B * B"
    unfolding l join32 by (subst unat_add_small) (simp_all add: unat_take32 unat_push32 t1 r2 B64 B32)
  with r3 nat(7) have "unat h * (B * B) + unat l = (a + b * B) * (c + d * B)" by (simp only: h)
  moreover have "a + b * B = unat x" "c + d * B = unat y" by (simp_all add: a_def b_def c_def d_def)
  ultimately show ?thesis by (simp add: B64)
qed


lemma sint_bounds64: "- (2 ^ 63) \<le> sint (x::u64)" "sint (x::u64) < 2 ^ 63"
  using sint_ge [of x] sint_less [of x] by simp_all

lemma uint_of_int64: "0 \<le> k \<Longrightarrow> k < 2 ^ 64 \<Longrightarrow> uint (word_of_int k :: u64) = k"
  by (simp add: uint_word_of_int)

lemma sint_of_int64: "- (2 ^ 63) \<le> k \<Longrightarrow> k < 2 ^ 63 \<Longrightarrow> sint (word_of_int k :: u64) = k"
  by (simp add: int_word_sint)

lemma abs_word: "int (unat (if x <s 0 then - x else x)) = \<bar>sint (x::u64)\<bar>"
proof (cases "x <s 0")
  case True
  then have neg: "sint x < 0" by (simp add: word_sless_alt)
  have "- x = word_of_int (- sint x)" by simp
  moreover have "uint (word_of_int (- sint x) :: u64) = - sint x"
    using neg sint_bounds64 [of x] by (intro uint_of_int64) simp_all
  ultimately have "uint (- x) = - sint x" by (simp only:)
  with True neg show ?thesis by simp
next
  case False
  then have "0 \<le> sint x" by (simp add: word_sless_alt)
  then have "uint x = sint x" using sint_bounds64 [of x] uint_of_int64 [of "sint x"] by simp
  with False \<open>0 \<le> sint x\<close> show ?thesis by simp
qed

lemma DMULT_exact: "sint (hi (DMULT s)) * 2 ^ 64 + uint (lo (DMULT s)) = sint (core_rrs s) * sint (core_rrt s)"
proof -
  let ?x = "core_rrs s" and ?y = "core_rrt s"
  let ?a = "if ?x <s 0 then - ?x else ?x" and ?b = "if ?y <s 0 then - ?y else ?y"
  obtain h l where hl: "limb_product ?a ?b = (h, l)" by fastforce
  have "int (unat h) * 2 ^ 64 + int (unat l) = int (unat ?a) * int (unat ?b)"
    using arg_cong [OF limb_product_exact [OF hl], of int]
    by (simp only: of_nat_add of_nat_mult of_nat_power of_nat_numeral)
  then have p: "uint h * 2 ^ 64 + uint l = \<bar>sint ?x\<bar> * \<bar>sint ?y\<bar>"
    unfolding abs_word by simp
  have "\<bar>sint ?x\<bar> * \<bar>sint ?y\<bar> \<le> 2 ^ 63 * 2 ^ 63"
    using sint_bounds64 [of ?x] sint_bounds64 [of ?y] by (intro mult_mono) auto
  with p have "uint h * 2 ^ 64 \<le> 2 ^ 63 * 2 ^ 63" using uint_ge_0 [of l] by linarith
  then have h: "uint h \<le> 2 ^ 62" by simp
  have sh: "sint (word_of_int k :: u64) = k" if "- (2 ^ 62) - 1 \<le> k" "k \<le> 2 ^ 62" for k
    using that by (intro sint_of_int64) simp_all
  have l: "uint l < 2 ^ 64" using uint_bounded [of l] by simp
  have neg: "NOT h + 1 = word_of_int (- uint h)" "NOT h = word_of_int (- uint h - 1)"
    by (simp_all add: not_eq_complement)
  have lneg: "uint (NOT l + 1) = 2 ^ 64 - uint l" if "l \<noteq> 0"
  proof -
    have "0 < uint l" using that by (simp add: uint_0_iff order_less_le)
    moreover have "NOT l + 1 = word_of_int (2 ^ 64 - uint l)" by (simp add: not_eq_complement)
    ultimately show ?thesis using l by (simp only: uint_of_int64)
  qed
  have sgn: "sint ?x * sint ?y = (if (?x <s 0) \<noteq> (?y <s 0) then - (\<bar>sint ?x\<bar> * \<bar>sint ?y\<bar>) else \<bar>sint ?x\<bar> * \<bar>sint ?y\<bar>)"
    by (auto simp: word_sless_alt abs_if)
  have hpos: "sint h = uint h" using sh [of "uint h"] h uint_ge_0 [of h] by simp
  let ?p = "uint h * 2 ^ 64 + uint l"
  have D: "hi (DMULT s) = (if (?x <s 0) \<noteq> (?y <s 0) then if l = 0 then NOT h + 1 else NOT h else h)"
    "lo (DMULT s) = (if (?x <s 0) \<noteq> (?y <s 0) then if l = 0 then l else NOT l + 1 else l)"
    using hl by (simp_all add: DMULT_def Let_def pc4_def)
  have "sint (NOT h + 1) = - uint h"
    unfolding neg(1) using h uint_ge_0 [of h] by (intro sh) linarith+
  moreover have "sint (NOT h) = - uint h - 1"
    unfolding neg(2) using h uint_ge_0 [of h] by (intro sh) linarith+
  ultimately have "sint (hi (DMULT s)) * 2 ^ 64 + uint (lo (DMULT s)) =
      (if (?x <s 0) \<noteq> (?y <s 0) then - ?p else ?p)"
    unfolding D by (simp add: hpos lneg)
  then show ?thesis by (simp only: sgn p)
qed

section \<open>32-bit products and quotients\<close>

lemma sint_bounds32: "- (2 ^ 31) \<le> sint (a::u32)" "sint (a::u32) < 2 ^ 31"
  using sint_ge [of a] sint_less [of a] by simp_all

lemma sint_of_int32: "- (2 ^ 31) \<le> k \<Longrightarrow> k < 2 ^ 31 \<Longrightarrow> sint (word_of_int k :: u32) = k"
  by (simp add: int_word_sint)

lemma hi_lo_of_product:
  assumes "temp = (word_of_int p :: u64)" "0 \<le> p" "p < 2 ^ 64"
  shows "uint (ucast (signed_drop_bit 32 temp) :: u32) * 2 ^ 32 + uint (ucast temp :: u32) = p"
proof -
  have t: "uint temp = p" unfolding assms(1) using assms(2,3) by (rule uint_of_int64)
  have "ucast (signed_drop_bit 32 temp) = (ucast (drop_bit 32 temp) :: u32)"
    by (rule bit_word_eqI) (auto simp: bit_simps min_def)
  moreover have "uint (ucast (drop_bit 32 temp) :: u32) = p div 2 ^ 32"
    unfolding unsigned_ucast_eq unsigned_drop_bit_eq using assms(2,3)
    by (simp add: t drop_bit_eq_div take_bit_eq_mod)
  moreover have "uint (ucast temp :: u32) = p mod 2 ^ 32"
    unfolding unsigned_ucast_eq by (simp add: t take_bit_eq_mod)
  ultimately show ?thesis by simp
qed

lemma signed_hi_lo_of_product:
  assumes "temp = (word_of_int p :: u64)" "- (2 ^ 63) \<le> p" "p < 2 ^ 63"
  shows "sint (signed_drop_bit 32 temp) * 2 ^ 32 + uint (ucast temp :: u32) = p"
proof -
  have "sint temp = p" unfolding assms(1) using assms(2,3) by (rule sint_of_int64)
  then have "sint (signed_drop_bit 32 temp) = p div 2 ^ 32"
    by (simp add: sint_signed_drop_bit_eq drop_bit_eq_div)
  moreover have "uint (ucast temp :: u32) = p mod 2 ^ 32"
    unfolding assms(1) by (simp add: uint_word_of_int mod_mod_cancel unsigned_ucast_eq take_bit_eq_mod)
  ultimately show ?thesis by simp
qed

lemma ucast_sign_extended [simp]: "(ucast (sign_extended a) :: u32) = ucast a"
  by (simp add: sign_extended_def)

lemma MULT_exact:
  assumes "core_rrs s = sext32 a" "core_rrt s = sext32 b"
  shows "sint (hi (MULT s)) * 2 ^ 32 + uint (ucast (lo (MULT s)) :: u32) = sint a * sint b"
proof -
  have "\<bar>sint a * sint b\<bar> \<le> 2 ^ 31 * 2 ^ 31"
    unfolding abs_mult using sint_bounds32 [of a] sint_bounds32 [of b] by (intro mult_mono) auto
  moreover have "core_rrs s * core_rrt s = word_of_int (sint a * sint b)"
    unfolding assms sext32_def scast_eq by (simp only: of_int_mult)
  ultimately show ?thesis
    using signed_hi_lo_of_product [of "core_rrs s * core_rrt s" "sint a * sint b"]
    by (simp add: MULT_def Let_def pc4_def)
qed

lemma MULTU_exact:
  "uint (ucast (hi (MULTU s)) :: u32) * 2 ^ 32 + uint (ucast (lo (MULTU s)) :: u32) = uint (rrs32 s) * uint (rrt32 s)"
proof -
  have lt: "uint w \<le> 2 ^ 32 - 1" for w :: u32 using uint_bounded [of w] by simp
  have "uint (rrs32 s) * uint (rrt32 s) \<le> (2 ^ 32 - 1) * (2 ^ 32 - 1)" by (intro mult_mono lt) auto
  also have "\<dots> < (2 ^ 64 :: int)" by simp
  finally have "uint (rrs32 s) * uint (rrt32 s) < 2 ^ 64" .
  moreover have "ucast (rrs32 s) * ucast (rrt32 s) = (word_of_int (uint (rrs32 s) * uint (rrt32 s)) :: u64)"
    unfolding ucast_eq [of "rrs32 s"] ucast_eq [of "rrt32 s"] by (simp only: of_int_mult)
  ultimately have "uint (ucast (signed_drop_bit 32 (ucast (rrs32 s) * ucast (rrt32 s) :: u64)) :: u32) * 2 ^ 32
      + uint (ucast (ucast (rrs32 s) * ucast (rrt32 s) :: u64) :: u32) = uint (rrs32 s) * uint (rrt32 s)"
    by (intro hi_lo_of_product) auto
  moreover have "hi (MULTU s) = signed_drop_bit 32 (ucast (rrs32 s) * ucast (rrt32 s))"
    "lo (MULTU s) = sign_extended (ucast (rrs32 s) * ucast (rrt32 s))"
    by (simp_all add: MULTU_def Let_def pc4_def)
  ultimately show ?thesis by (simp only: ucast_sign_extended)
qed

lemma sdiv_range:
  fixes a b m :: int
  assumes "- m \<le> a" "a < m" "\<not> (a = - m \<and> b = - 1)"
  shows "- m \<le> a sdiv b" "a sdiv b < m"
proof -
  have le: "- \<bar>a\<bar> \<le> a sdiv b" "a sdiv b \<le> \<bar>a\<bar>" using sdiv_int_range [of a b] by auto
  show "- m \<le> a sdiv b" using le assms by auto
  have "a sdiv b \<noteq> - a" if "a = - m"
    using that assms int_sdiv_negated_is_minus1 [of a b] by linarith
  with le assms show "a sdiv b < m" by (cases "a = - m") auto
qed

lemma smod_range:
  fixes a b m :: int
  assumes "- m \<le> a" "a < m"
  shows "- m \<le> a smod b" "a smod b < m"
proof -
  have "0 \<le> \<bar>a\<bar> mod \<bar>b\<bar>" "\<bar>a\<bar> mod \<bar>b\<bar> \<le> \<bar>a\<bar>"
    by (cases "b = 0"; simp add: zmod_le_nonneg_dividend)+
  then show "- m \<le> a smod b" "a smod b < m"
    using assms by (auto simp: smod_int_alt_def sgn_if)
qed

lemma DIV_exact:
  assumes "rrt32 s \<noteq> 0" "DIV s = Some s'"
  shows "sint (lo s') = sint (rrs32 s) sdiv sint (rrt32 s)" "sint (hi s') = sint (rrs32 s) smod sint (rrt32 s)"
proof -
  let ?a = "rrs32 s" and ?b = "rrt32 s"
  have no: "\<not> (sint ?a = - (2 ^ 31) \<and> sint ?b = - 1)"
  proof
    assume "sint ?a = - (2 ^ 31) \<and> sint ?b = - 1"
    then have "sint ?a = sint (0x80000000 :: u32)" "sint ?b = sint (- 1 :: u32)" by simp_all
    then have "?a = 0x80000000" "?b = - 1" by (auto intro: signed_word_eqI)
    with assms show False by (simp add: DIV_def)
  qed
  have s': "lo s' = sext32 (sdiv_c ?a ?b)" "hi s' = sext32 (smod_c ?a ?b)"
    using assms by (auto simp: DIV_def pc4_def split: if_splits)
  show "sint (lo s') = sint ?a sdiv sint ?b" "sint (hi s') = sint ?a smod sint ?b"
    unfolding s' sext32_sint sdiv_c_def smod_c_def
    using sdiv_range [OF sint_bounds32 no] smod_range [OF sint_bounds32, of ?a "sint ?b"]
    by (auto intro: sint_of_int32)
qed

section \<open>Properties\<close>

text \<open>C21. The 64-bit multiplications are exact.  \<^verbatim>\<open>DMULT\<close> and \<^verbatim>\<open>DMULTU\<close> build the
  128-bit product from four 32-bit limb products in 64-bit arithmetic; no partial sum
  loses a carry, and \<^verbatim>\<open>hi:lo\<close> is the signed, respectively unsigned, product for
  every pair of operands.\<close>

theorem dmult_product:
  "sint (hi (DMULT s)) * 2 ^ 64 + uint (lo (DMULT s)) = sint (core_rrs s) * sint (core_rrt s) \<and>
   unat (hi (DMULTU s)) * 2 ^ 64 + unat (lo (DMULTU s)) = unat (core_rrs s) * unat (core_rrt s)"
  using DMULT_exact [of s] limb_product_exact [of "core_rrs s" "core_rrt s"]
  by (cases "limb_product (core_rrs s) (core_rrt s)") (simp add: DMULTU_def pc4_def)

text \<open>The 32-bit multiplications are exact on canonical operands: with both
  registers holding sign-extended words, \<^verbatim>\<open>MULT\<close> leaves the signed 64-bit product
  in \<^verbatim>\<open>hi:lo\<close>; \<^verbatim>\<open>MULTU\<close> leaves the unsigned product of the low words.\<close>

theorem mult_product:
  assumes "core_rrs s = sext32 a" "core_rrt s = sext32 b"
  shows "sint (hi (MULT s)) * 2 ^ 32 + uint (ucast (lo (MULT s)) :: u32) = sint a * sint b \<and>
    uint (ucast (hi (MULTU s)) :: u32) * 2 ^ 32 + uint (ucast (lo (MULTU s)) :: u32) = uint a * uint b"
  using MULT_exact [OF assms] MULTU_exact [of s] by (simp only: assms ucast_sext32)

definition alu_example :: "u32 \<Rightarrow> u64 \<Rightarrow> u64 \<Rightarrow> r4300" where
  "alu_example opcode x y =
     \<lparr>reg = (\<lambda>i. if i = f_rs opcode then x else if i = f_rt opcode then y else 0),
      hi = 0, lo = 0, llbit = False, reg_cop0 = (\<lambda>_. 0), reg_cop1_fgr_64 = (\<lambda>_. 0), fr_mode = False,
      FCR0 = 0, FCR31 = 0, local_rs = 0, local_rt = 0, local_rs32 = 0, interp_addr = 0x80000000,
      last_addr = 0x80000000, delay_slot = False, skip_jump = 0, stop = False, vr_op = opcode,
      debug_count = 0, beq_ignore_jmp = False, rounding_mode = Round_nearest\<rparr>"

theorem mult_product_witness:
  "sint (hi (MULT (alu_example 0x01090018 (sext32 (- 3)) (sext32 7)))) * 2 ^ 32 +
     uint (ucast (lo (MULT (alu_example 0x01090018 (sext32 (- 3)) (sext32 7)))) :: u32) = - 21"
proof -
  let ?s = "alu_example 0x01090018 (sext32 (- 3)) (sext32 7)"
  have "core_rrs ?s = sext32 (- 3)" "core_rrt ?s = sext32 7"
    by (simp_all add: alu_example_def f_rs_def f_rt_def)
  from mult_product [OF this] show ?thesis by simp
qed

text \<open>Signed division is division with remainder toward zero, and its one
  undefined case is not guarded: with a non-zero divisor \<^verbatim>\<open>DIV\<close> leaves quotient and
  remainder, sign-extended, in \<^verbatim>\<open>lo\<close> and \<^verbatim>\<open>hi\<close>, except that the most negative word
  divided by \<^term>\<open>-1\<close> is an overflowing host division.\<close>

theorem div_quotient_remainder:
  assumes "rrt32 s \<noteq> 0"
  shows "(DIV s = None \<longleftrightarrow> rrs32 s = 0x80000000 \<and> rrt32 s = - 1) \<and>
    (case DIV s of None \<Rightarrow> True | Some s' \<Rightarrow>
       sint (rrs32 s) = sint (lo s') * sint (rrt32 s) + sint (hi s') \<and>
       \<bar>sint (hi s')\<bar> < \<bar>sint (rrt32 s)\<bar> \<and>
       sign_extended (lo s') = lo s' \<and> sign_extended (hi s') = hi s' \<and>
       interp_addr s' = interp_addr s + 4 \<and> reg s' = reg s)"
proof -
  have "sint w \<noteq> 0" if "w \<noteq> 0" for w :: u32
    using that signed_word_eqI [of w 0] by auto
  from this [OF assms] have "sint (rrt32 s) \<noteq> 0" .
  note range = smod_int_range [OF this, of "sint (rrs32 s)"]
  show ?thesis
  proof (cases "DIV s")
    case None
    with assms show ?thesis by (auto simp: DIV_def split: if_splits)
  next
    case (Some s')
    moreover have "sign_extended (lo s') = lo s'" "sign_extended (hi s') = hi s'"
        "interp_addr s' = interp_addr s + 4" "reg s' = reg s"
      using Some assms by (auto simp: DIV_def pc4_def split: if_splits)
    ultimately show ?thesis
      using DIV_exact [OF assms Some] sdiv_mult_smod_eq [of "sint (rrs32 s)" "sint (rrt32 s)"] range assms
      by (auto simp: DIV_def)
  qed
qed

theorem div_quotient_remainder_witness:
  "\<exists>s'. DIV (alu_example 0x0109001A (sext32 (- 7)) (sext32 2)) = Some s' \<and>
        - 7 = sint (lo s') * 2 + sint (hi s')"
proof -
  let ?s = "alu_example 0x0109001A (sext32 (- 7)) (sext32 2)"
  have r: "rrs32 ?s = - 7" "rrt32 ?s = 2" by (simp_all add: alu_example_def f_rs_def f_rt_def)
  show ?thesis
    using div_quotient_remainder [of ?s] unfolding r by (auto split: option.splits)
qed

text \<open>Register 0 is not protected.  The pure interpreter executes an instruction
  whose destination is register 0 like any other, so \<^verbatim>\<open>ADDIU\<close> with destination 0 leaves
  there the sum, where the cached interpreter and the recompiler decode the
  instruction to \<^verbatim>\<open>NOP\<close>.\<close>

theorem addiu_writes_r0:
  assumes "f_rt (vr_op s) = 0"
  shows "reg (ADDIU s) 0 = sext32 (rrs32 s + imm32 (vr_op s))"
  using assms by (simp add: ADDIU_def pc4_def set_rt_def)

theorem addiu_writes_r0_witness:
  "reg (alu_example 0x25000005 3 0) 0 = 0 \<and> reg (ADDIU (alu_example 0x25000005 3 0)) 0 = 8"
  using addiu_writes_r0 [of "alu_example 0x25000005 3 0"]
  by (simp add: alu_example_def f_rt_def f_rs_def imm32_def f_imm_def sext32_def)

end
