(* ===== verification/Machine_Example.thy ===== *)
theory Machine_Example
  imports Machine Vcr_Correct Cpu_Alu
begin

text \<open>
  A concrete machine and a concrete host, on which the theorems about the machine are instantiated:
  all memories zero, no event pending, no movie, and plugins that do nothing.
\<close>

definition example_roms :: "rom_state" where
  "example_roms = \<lparr>rom = Some [], rom_size = 0, rom_md5 = replicate 32 0x30,
     ROM_HEADER = \<lparr>init_PI_BSB_DOM1 = [], ClockRate = 0, rom_PC = 0, Release = 0, CRC1 = 0, CRC2 = 0,
     Unknown0 = 0, Unknown1 = 0, nom = [], rom_unknown = 0, Manufacturer_ID = 0, Cartridge_ID = 0,
     Country_code = 0, Boot_Code = []\<rparr>, g_sys_type = Sys_ntsc, rom_cache = []\<rparr>"

definition example_machine :: "nat machine" where
  "example_machine = \<lparr>cpu = alu_example 0 0 0, queue = queue_init,
     tlb_e = (\<lambda>_. \<lparr>tlb_mask = 0, tlb_vpn2 = 0, tlb_g = 0, tlb_asid = 0, tlb_pfn_even = 0,
     tlb_c_even = 0, tlb_d_even = 0, tlb_v_even = 0, tlb_pfn_odd = 0, tlb_c_odd = 0, tlb_d_odd = 0,
     tlb_v_odd = 0, tlb_r = 0, start_even = 0, end_even = 0, phys_even = 0, start_odd = 0, end_odd = 0,
     phys_odd = 0\<rparr>), tlb_LUT_r = (\<lambda>_. 0), tlb_LUT_w = (\<lambda>_. 0), rdram = (\<lambda>_. 0),
     SP_DMEM = (\<lambda>_. 0), PIF_RAM = replicate 64 0, roms = example_roms,
     rdram_register = \<lparr>rdram_config = 0, rdram_device_id = 0, rdram_delay = 0, rdram_mode = 0,
     rdram_ref_interval = 0, rdram_ref_row = 0, rdram_ras_interval = 0, rdram_min_interval = 0,
     rdram_addr_select = 0, rdram_device_manuf = 0\<rparr>, MI_register = \<lparr>w_mi_init_mode_reg = 0,
     mi_init_mode_reg = 0, init_length = 0, init_mode = 0, ebus_test_mode = 0, RDRAM_reg_mode = 0,
     mi_version_reg = 0, mi_intr_reg = 0, mi_intr_mask_reg = 0, w_mi_intr_mask_reg = 0, SP_intr_mask = 0,
     SI_intr_mask = 0, AI_intr_mask = 0, VI_intr_mask = 0, PI_intr_mask = 0, DP_intr_mask = 0\<rparr>,
     pi_register = \<lparr>pi_dram_addr_reg = 0, pi_cart_addr_reg = 0, pi_rd_len_reg = 0, pi_wr_len_reg = 0,
     read_pi_status_reg = 0, pi_bsd_dom1_lat_reg = 0, pi_bsd_dom1_pwd_reg = 0, pi_bsd_dom1_pgs_reg = 0,
     pi_bsd_dom1_rls_reg = 0, pi_bsd_dom2_lat_reg = 0, pi_bsd_dom2_pwd_reg = 0, pi_bsd_dom2_pgs_reg = 0,
     pi_bsd_dom2_rls_reg = 0\<rparr>, sp_register = \<lparr>sp_mem_addr_reg = 0, sp_dram_addr_reg = 0,
     sp_rd_len_reg = 0, sp_wr_len_reg = 0, w_sp_status_reg = 0, sp_status_reg = 0, sp_halt = 0, sp_broke = 0,
     sp_dma_busy = 0, sp_dma_full = 0, sp_io_full = 0, sp_single_step = 0, sp_intr_break = 0, signal0 = 0,
     signal1 = 0, signal2 = 0, signal3 = 0, signal4 = 0, signal5 = 0, signal6 = 0, signal7 = 0,
     sp_dma_full_reg = 0, sp_dma_busy_reg = 0, sp_semaphore_reg = 0\<rparr>, rsp_register = \<lparr>rsp_pc = 0,
     rsp_ibist = 0\<rparr>, si_register = \<lparr>si_dram_addr = 0, si_pif_addr_rd64b = 0,
     si_pif_addr_wr64b = 0, si_status = 0\<rparr>, vi_register = \<lparr>vi_status = 0, vi_origin = 0,
     vi_width = 0, vi_v_intr = 0, vi_current = 0, vi_burst = 0, vi_v_sync = 0, vi_h_sync = 0, vi_leap = 0,
     vi_h_start = 0, vi_v_start = 0, vi_v_burst = 0, vi_x_scale = 0, vi_y_scale = 0, vi_delay = 0\<rparr>,
     ri_register = \<lparr>ri_mode = 0, ri_config = 0, ri_current_load = 0, ri_select = 0, ri_refresh = 0,
     ri_latency = 0, ri_error = 0, ri_werror = 0\<rparr>, ai_register = \<lparr>ai_dram_addr = 0, ai_len = 0,
     ai_control = 0, ai_status = 0, ai_dacrate = 0, ai_bitrate = 0, next_delay = 0, next_len = 0,
     current_delay = 0, current_len = 0\<rparr>, dpc_register = \<lparr>dpc_start = 0, dpc_end = 0,
     dpc_current = 0, w_dpc_status = 0, dpc_status = 0, xbus_dmem_dma = 0, dpc_freeze = 0, dpc_flush = 0,
     start_glck = 0, tmem_busy = 0, pipe_busy = 0, cmd_busy = 0, cbuf_busy = 0, dpc_dma_busy = 0,
     end_valid = 0, start_valid = 0, dpc_clock = 0, dpc_bufbusy = 0, dpc_pipebusy = 0, dpc_tmem = 0\<rparr>,
     dps_register = \<lparr>dps_tbist = 0, dps_test_mode = 0, dps_buftest_addr = 0,
     dps_buftest_data = 0\<rparr>, trash = 0, address = 0, word = 0, g_byte = 0, hword = 0, dword = 0,
     rdword = Rd_reg 0, rd_local = 0, lastwrite = 0, sram = (\<lambda>_. 0), flash = flash_example,
     pif = pif_example, cart = init_summercart, cart_image = None, cart_errors = [],
     vcr = example_vcr task_idle 0 [], next_vi = 0, vi_field = 0, lag_count = 0, g_total_frames = 0,
     screen_invalidated = False, g_vr_frame_skipped = False, g_vr_fast_forward = False, frameBufferInfos = [],
     framebufferRead = (\<lambda>_. False), readmem = (\<lambda>_. Mem_nomem),
     writemem = (\<lambda>_. Mem_nomem), firstFrameBufferSetting = False, fast_memory = False,
     cfg_total_frames = 0, gs_button = False, g_st_old = False, g_st_skip_dma = False, g_tasks = [],
     g_undo_savestate = [], g_wait_counter = 0, controllerRead = 0, g_dma_read_enabled = False,
     CIC_Chip = 2\<rparr>"

definition example_core_cfg :: "core_cfg" where
  "example_core_cfg = \<lparr>counter_factor = 1, skip_rendering_lag = False, render_throttling = False,
     fastforward_silent = False, frame_skip_frequency = 1, is_audio_delay_enabled = False,
     st_undo_load = False, st_screenshot = False, max_lag = 10, cfg_use_summercart = False\<rparr>"

definition example_machine_env :: "nat machine_env" where
  "example_machine_env = \<lparr>core_cfg = example_core_cfg, vcr_plugins = example_env,
     input_plug = \<lparr>has_controller_command = False, controller_command = (\<lambda>_ p w. (p, w)),
     controller_command_end = id,
       read_controller = (\<lambda>_ p w. (p, w)), read_controller_end = id\<rparr>, g_pif_lut = [],
     rsp_do_rsp_cycles = (\<lambda>_ m. m), video_process_rdp_list = (\<lambda>m. m),
     video_vi_status_changed = (\<lambda>m. m), video_vi_width_changed = (\<lambda>m. m),
     audio_ai_len_changed = (\<lambda>m. m), audio_ai_dacrate_changed = (\<lambda>_ m. m),
     video_fb_read = None, video_fb_write = None, video_fb_get_frame_buffer_info = None,
     update_screen = (\<lambda>m. m), callback_vi = (\<lambda>m. m), callback_frame = (\<lambda>m. m),
     callback_interval = (\<lambda>m. m), callback_ai_len_changed = (\<lambda>m. m),
     callback_dacrate_changed = (\<lambda>_ m. m), lag_limit_exceeded = (\<lambda>m. m), cart_writable = False,
     st_pre_callback = (\<lambda>_ _ _ m. m), st_callback = (\<lambda>_ _ _ _ m. m),
     st_ask = (\<lambda>_ m. (True, m)), callback_save_state = (\<lambda>m. m),
     callback_load_state = (\<lambda>m. m), gzip_compress = (\<lambda>_. [0x1F, 0x8B]),
     st_gunzip = (\<lambda>_ _. Bad_data), mge_available = False, video_capture = (\<lambda>_. (0, 0, [])),
     st_sd_path = [], uninit_bytes = (\<lambda>_. []), pc_addr = 0, cop0_after = 0,
     load_screen = ((\<lambda>_. (0, 0)), (\<lambda>_ m. m)), host_threads = (\<lambda>m. m)\<rparr>"

lemma example_machine_fields [simp]:
  "cpu example_machine = alu_example 0 0 0" "queue example_machine = queue_init"
  "tlb_e example_machine = (\<lambda>_. \<lparr>tlb_mask = 0, tlb_vpn2 = 0, tlb_g = 0, tlb_asid = 0, tlb_pfn_even = 0, tlb_c_even = 0, tlb_d_even = 0, tlb_v_even = 0, tlb_pfn_odd = 0, tlb_c_odd = 0, tlb_d_odd = 0, tlb_v_odd = 0, tlb_r = 0, start_even = 0, end_even = 0, phys_even = 0, start_odd = 0, end_odd = 0, phys_odd = 0\<rparr>)"
  "tlb_LUT_r example_machine = (\<lambda>_. 0)" "tlb_LUT_w example_machine = (\<lambda>_. 0)"
  "rdram example_machine = (\<lambda>_. 0)" "SP_DMEM example_machine = (\<lambda>_. 0)"
  "PIF_RAM example_machine = replicate 64 0" "roms example_machine = example_roms"
  "rdram_register example_machine = \<lparr>rdram_config = 0, rdram_device_id = 0, rdram_delay = 0, rdram_mode = 0, rdram_ref_interval = 0, rdram_ref_row = 0, rdram_ras_interval = 0, rdram_min_interval = 0, rdram_addr_select = 0, rdram_device_manuf = 0\<rparr>"
  "MI_register example_machine = \<lparr>w_mi_init_mode_reg = 0, mi_init_mode_reg = 0, init_length = 0, init_mode = 0, ebus_test_mode = 0, RDRAM_reg_mode = 0, mi_version_reg = 0, mi_intr_reg = 0, mi_intr_mask_reg = 0, w_mi_intr_mask_reg = 0, SP_intr_mask = 0, SI_intr_mask = 0, AI_intr_mask = 0, VI_intr_mask = 0, PI_intr_mask = 0, DP_intr_mask = 0\<rparr>"
  "pi_register example_machine = \<lparr>pi_dram_addr_reg = 0, pi_cart_addr_reg = 0, pi_rd_len_reg = 0, pi_wr_len_reg = 0, read_pi_status_reg = 0, pi_bsd_dom1_lat_reg = 0, pi_bsd_dom1_pwd_reg = 0, pi_bsd_dom1_pgs_reg = 0, pi_bsd_dom1_rls_reg = 0, pi_bsd_dom2_lat_reg = 0, pi_bsd_dom2_pwd_reg = 0, pi_bsd_dom2_pgs_reg = 0, pi_bsd_dom2_rls_reg = 0\<rparr>"
  "sp_register example_machine = \<lparr>sp_mem_addr_reg = 0, sp_dram_addr_reg = 0, sp_rd_len_reg = 0, sp_wr_len_reg = 0, w_sp_status_reg = 0, sp_status_reg = 0, sp_halt = 0, sp_broke = 0, sp_dma_busy = 0, sp_dma_full = 0, sp_io_full = 0, sp_single_step = 0, sp_intr_break = 0, signal0 = 0, signal1 = 0, signal2 = 0, signal3 = 0, signal4 = 0, signal5 = 0, signal6 = 0, signal7 = 0, sp_dma_full_reg = 0, sp_dma_busy_reg = 0, sp_semaphore_reg = 0\<rparr>"
  "rsp_register example_machine = \<lparr>rsp_pc = 0, rsp_ibist = 0\<rparr>"
  "si_register example_machine = \<lparr>si_dram_addr = 0, si_pif_addr_rd64b = 0, si_pif_addr_wr64b = 0, si_status = 0\<rparr>"
  "vi_register example_machine = \<lparr>vi_status = 0, vi_origin = 0, vi_width = 0, vi_v_intr = 0, vi_current = 0, vi_burst = 0, vi_v_sync = 0, vi_h_sync = 0, vi_leap = 0, vi_h_start = 0, vi_v_start = 0, vi_v_burst = 0, vi_x_scale = 0, vi_y_scale = 0, vi_delay = 0\<rparr>"
  "ri_register example_machine = \<lparr>ri_mode = 0, ri_config = 0, ri_current_load = 0, ri_select = 0, ri_refresh = 0, ri_latency = 0, ri_error = 0, ri_werror = 0\<rparr>"
  "ai_register example_machine = \<lparr>ai_dram_addr = 0, ai_len = 0, ai_control = 0, ai_status = 0, ai_dacrate = 0, ai_bitrate = 0, next_delay = 0, next_len = 0, current_delay = 0, current_len = 0\<rparr>"
  "dpc_register example_machine = \<lparr>dpc_start = 0, dpc_end = 0, dpc_current = 0, w_dpc_status = 0, dpc_status = 0, xbus_dmem_dma = 0, dpc_freeze = 0, dpc_flush = 0, start_glck = 0, tmem_busy = 0, pipe_busy = 0, cmd_busy = 0, cbuf_busy = 0, dpc_dma_busy = 0, end_valid = 0, start_valid = 0, dpc_clock = 0, dpc_bufbusy = 0, dpc_pipebusy = 0, dpc_tmem = 0\<rparr>"
  "dps_register example_machine = \<lparr>dps_tbist = 0, dps_test_mode = 0, dps_buftest_addr = 0, dps_buftest_data = 0\<rparr>"
  "trash example_machine = 0" "address example_machine = 0" "word example_machine = 0"
  "g_byte example_machine = 0" "hword example_machine = 0" "dword example_machine = 0"
  "rdword example_machine = Rd_reg 0" "rd_local example_machine = 0" "lastwrite example_machine = 0"
  "sram example_machine = (\<lambda>_. 0)" "flash example_machine = flash_example"
  "pif example_machine = pif_example" "cart example_machine = init_summercart"
  "cart_image example_machine = None" "cart_errors example_machine = []"
  "vcr example_machine = example_vcr task_idle 0 []" "next_vi example_machine = 0" "vi_field example_machine = 0"
  "lag_count example_machine = 0" "g_total_frames example_machine = 0"
  "screen_invalidated example_machine = False" "g_vr_frame_skipped example_machine = False"
  "g_vr_fast_forward example_machine = False" "frameBufferInfos example_machine = []"
  "framebufferRead example_machine = (\<lambda>_. False)" "readmem example_machine = (\<lambda>_. Mem_nomem)"
  "writemem example_machine = (\<lambda>_. Mem_nomem)" "firstFrameBufferSetting example_machine = False"
  "fast_memory example_machine = False" "cfg_total_frames example_machine = 0"
  "gs_button example_machine = False" "g_st_old example_machine = False" "g_st_skip_dma example_machine = False"
  "g_tasks example_machine = []" "g_undo_savestate example_machine = []" "g_wait_counter example_machine = 0"
  "controllerRead example_machine = 0" "g_dma_read_enabled example_machine = False"
  "CIC_Chip example_machine = 2"
  by (simp_all add: example_machine_def)

lemma example_core_cfg_fields [simp]:
  "counter_factor example_core_cfg = 1" "skip_rendering_lag example_core_cfg = False"
  "render_throttling example_core_cfg = False" "fastforward_silent example_core_cfg = False"
  "frame_skip_frequency example_core_cfg = 1" "is_audio_delay_enabled example_core_cfg = False"
  "st_undo_load example_core_cfg = False" "st_screenshot example_core_cfg = False"
  "max_lag example_core_cfg = 10" "cfg_use_summercart example_core_cfg = False"
  by (simp_all add: example_core_cfg_def)

lemma example_machine_env_fields [simp]:
  "core_cfg example_machine_env = example_core_cfg" "vcr_plugins example_machine_env = example_env"
  "input_plug example_machine_env = \<lparr>has_controller_command = False, controller_command = (\<lambda>_ p w. (p, w)), controller_command_end = id,
       read_controller = (\<lambda>_ p w. (p, w)), read_controller_end = id\<rparr>"
  "g_pif_lut example_machine_env = []" "rsp_do_rsp_cycles example_machine_env = (\<lambda>_ m. m)"
  "video_process_rdp_list example_machine_env = (\<lambda>m. m)"
  "video_vi_status_changed example_machine_env = (\<lambda>m. m)"
  "video_vi_width_changed example_machine_env = (\<lambda>m. m)"
  "audio_ai_len_changed example_machine_env = (\<lambda>m. m)"
  "audio_ai_dacrate_changed example_machine_env = (\<lambda>_ m. m)" "video_fb_read example_machine_env = None"
  "video_fb_write example_machine_env = None" "video_fb_get_frame_buffer_info example_machine_env = None"
  "update_screen example_machine_env = (\<lambda>m. m)" "callback_vi example_machine_env = (\<lambda>m. m)"
  "callback_frame example_machine_env = (\<lambda>m. m)"
  "callback_interval example_machine_env = (\<lambda>m. m)"
  "callback_ai_len_changed example_machine_env = (\<lambda>m. m)"
  "callback_dacrate_changed example_machine_env = (\<lambda>_ m. m)"
  "lag_limit_exceeded example_machine_env = (\<lambda>m. m)" "cart_writable example_machine_env = False"
  "st_pre_callback example_machine_env = (\<lambda>_ _ _ m. m)"
  "st_callback example_machine_env = (\<lambda>_ _ _ _ m. m)"
  "st_ask example_machine_env = (\<lambda>_ m. (True, m))"
  "callback_save_state example_machine_env = (\<lambda>m. m)"
  "callback_load_state example_machine_env = (\<lambda>m. m)"
  "gzip_compress example_machine_env = (\<lambda>_. [0x1F, 0x8B])"
  "st_gunzip example_machine_env = (\<lambda>_ _. Bad_data)" "mge_available example_machine_env = False"
  "video_capture example_machine_env = (\<lambda>_. (0, 0, []))" "st_sd_path example_machine_env = []"
  "uninit_bytes example_machine_env = (\<lambda>_. [])" "pc_addr example_machine_env = 0"
  "cop0_after example_machine_env = 0"
  "load_screen example_machine_env = ((\<lambda>_. (0, 0)), (\<lambda>_ m. m))"
  "host_threads example_machine_env = (\<lambda>m. m)"
  by (simp_all add: example_machine_env_def)

lemma example_roms_fields [simp]:
  "rom example_roms = Some []" "rom_size example_roms = 0" "rom_md5 example_roms = replicate 32 0x30"
  "ROM_HEADER example_roms = \<lparr>init_PI_BSB_DOM1 = [], ClockRate = 0, rom_PC = 0, Release = 0, CRC1 = 0, CRC2 = 0, Unknown0 = 0, Unknown1 = 0, nom = [], rom_unknown = 0, Manufacturer_ID = 0, Cartridge_ID = 0, Country_code = 0, Boot_Code = []\<rparr>"
  "g_sys_type example_roms = Sys_ntsc" "rom_cache example_roms = []"
  by (simp_all add: example_roms_def)

end
