(* ===== verification/Interrupts.thy ===== *)
theory Interrupts
  imports Machine_Example
begin

text \<open>
  Interrupts and exceptions of the processor: \<^verbatim>\<open>Core/r4300/exception.cpp\<close> and the part of
  \<^verbatim>\<open>interrupt.cpp\<close> that uses the queue of pending events (\<^verbatim>\<open>init_interrupt\<close>, \<^verbatim>\<open>check_interrupt\<close>,
  \<^verbatim>\<open>gen_interrupt\<close>), for the pure interpreter.  Sleeping until the next video interrupt is
  due (\<^verbatim>\<open>timer_new_vi\<close>) has no effect on the state and is left out.
\<close>

section \<open>Exceptions\<close>

text \<open>The common end of an exception: a branch in whose delay slot it happened must not jump.\<close>

definition skip_in_delay_slot :: "'w machine \<Rightarrow> 'w machine" where
  "skip_in_delay_slot m =
    (if delay_slot (cpu m)
     then m\<lparr>cpu := (cpu m)\<lparr>skip_jump := interp_addr (cpu m)\<rparr>, queue := (queue m)\<lparr>next_interrupt := 0\<rparr>\<rparr>
     else m)"

definition exception_general :: "'w machine \<Rightarrow> 'w machine" where
  "exception_general m =
    (let c1 = update_count (cpu m);
         c2 = set_cop0 12 (core_Status c1 OR 2) c1;
         c3 = set_cop0 14 (interp_addr c2) c2;
         c4 = (if delay_slot c3
               then set_cop0 14 (core_EPC c3 - 4) (set_cop0 13 (core_Cause c3 OR 0x80000000) c3)
               else set_cop0 13 (core_Cause c3 AND 0x7FFFFFFF) c3);
         c5 = c4\<lparr>interp_addr := 0x80000180, last_addr := 0x80000180\<rparr>
     in skip_in_delay_slot (m\<lparr>cpu := c5\<rparr>))"

text \<open>The search of \<^verbatim>\<open>TLB_refill_exception\<close> for an entry that covers the address, valid or not.\<close>

definition tlb_covers :: "(nat \<Rightarrow> tlb) \<Rightarrow> u32 \<Rightarrow> bool" where
  "tlb_covers e a \<longleftrightarrow> (\<exists>i\<in>set [0..<32]. (start_even (e i) \<le> a \<and> a \<le> end_even (e i)) \<or>
     (start_odd (e i) \<le> a \<and> a \<le> end_odd (e i)))"

definition usual_handler :: "(nat \<Rightarrow> tlb) \<Rightarrow> u32 \<Rightarrow> bool" where
  "usual_handler e a \<longleftrightarrow> (a \<ge> 0x80000000 \<and> a < 0xC0000000) \<or> tlb_covers e a"

definition TLB_refill_exception :: "u32 \<Rightarrow> nat \<Rightarrow> 'w machine \<Rightarrow> 'w machine" where
  "TLB_refill_exception a w m =
    (let c0 = (if w \<noteq> 2 then update_count (cpu m) else cpu m);
         c1 = set_cop0 13 (if w = 1 then 12 else 8) c0;
         c2 = set_cop0 8 a c1;
         c3 = set_cop0 4 ((core_Context c2 AND 0xFF80000F) OR (drop_bit 9 a AND 0x007FFFF0)) c2;
         c4 = set_cop0 10 (a AND 0xFFFFE000) c3;
         c5 = (if core_Status c4 AND 2 \<noteq> 0 then c4\<lparr>interp_addr := 0x80000180\<rparr>
               else let d1 = set_cop0 14 (interp_addr c4) c4;
                        d2 = set_cop0 12 (core_Status d1 OR 2) d1
                    in d2\<lparr>interp_addr := (if usual_handler (tlb_e m) a then 0x80000180 else 0x80000000)\<rparr>);
         c6 = (if delay_slot c5
               then set_cop0 14 (core_EPC c5 - 4) (set_cop0 13 (core_Cause c5 OR 0x80000000) c5)
               else set_cop0 13 (core_Cause c5 AND 0x7FFFFFFF) c5);
         c7 = (if w \<noteq> 2 then set_cop0 14 (core_EPC c6 - 4) c6 else c6)
     in skip_in_delay_slot (m\<lparr>cpu := c7\<lparr>last_addr := interp_addr c7\<rparr>\<rparr>))"

section \<open>Pending interrupts\<close>

definition rcp_pending :: "'w machine \<Rightarrow> bool" where
  "rcp_pending m \<longleftrightarrow> mi_intr_reg (MI_register m) AND mi_intr_mask_reg (MI_register m) \<noteq> 0"

text \<open>The fake event that \<^verbatim>\<open>check_interrupt\<close> puts in front of the queue.\<close>

definition push_check_int :: "u32 \<Rightarrow> queue_state \<Rightarrow> queue_state option" where
  "push_check_int now s = do {
     (i, s1) \<leftarrow> pool_alloc s;
     s2 \<leftarrow> store_node i \<lparr>iq_type = CHECK_INT, iq_count = now, iq_next = q_head s\<rparr> s1;
     Some (s2\<lparr>q_head := Some i, next_interrupt := now\<rparr>) }"

definition check_interrupt :: "'w machine \<Rightarrow> 'w machine option" where
  "check_interrupt m =
    (let m1 = (if rcp_pending m then set_cause ((core_Cause (cpu m) OR 0x400) AND 0xFFFFFF83) m
               else set_cause (core_Cause (cpu m) AND NOT 0x400) m)
     in if core_Status (cpu m1) AND 7 \<noteq> 1 then Some m1
        else if core_Status (cpu m1) AND core_Cause (cpu m1) AND 0xFF00 \<noteq> 0 then on_queue push_check_int m1
        else Some m1)"

definition init_interrupt :: "'w machine \<Rightarrow> 'w machine option" where
  "init_interrupt m = do {
     let m1 = m\<lparr>next_vi := 5000, vi_register := (vi_register m)\<lparr>vi_delay := 5000\<rparr>, vi_field := 0,
                queue := (queue m)\<lparr>SPECIAL_done := True, next_interrupt := 5000\<rparr>\<rparr>;
     q \<leftarrow> clear_queue (queue m1);
     m2 \<leftarrow> m_add_event_count VI_INT (next_vi m1) (m1\<lparr>queue := q\<rparr>);
     m_add_event_count SPECIAL_INT 0 m2 }"

section \<open>Taking an event\<close>

definition timer_new_vi :: "'w machine_env \<Rightarrow> 'w machine \<Rightarrow> 'w machine" where
  "timer_new_vi env m =
    (if max_lag (core_cfg env) \<noteq> 0 \<and> lag_count m \<ge> scast (max_lag (core_cfg env)) then lag_limit_exceeded env m else m)"

text \<open>Whether the screen is drawn at a video interrupt.\<close>

definition screen_update_due :: "core_cfg \<Rightarrow> 'w machine \<Rightarrow> bool" where
  "screen_update_due c m =
    (let skip = (skip_rendering_lag c \<and> lag_count m > 1) \<or> g_vr_frame_skipped m
     in if render_throttling c then (if screen_invalidated m then \<not> skip else False) else True)"

definition vi_interrupt :: "'w machine_env \<Rightarrow> 'w machine \<Rightarrow> 'w machine option" where
  "vi_interrupt env m = do {
     let m1 = m\<lparr>lag_count := lag_count m + 1\<rparr>;
     let m2 = (if screen_update_due (core_cfg env) m1 \<or> frame_advance_outstanding (vcr m1) \<noteq> 0
               then (update_screen env m1)\<lparr>screen_invalidated := False\<rparr> else m1);
     let m3 = callback_vi env m2;
     let m4 = timer_new_vi env (m3\<lparr>vcr := vcr_on_vi (vcr m3)\<rparr>);
     let d = (if vi_v_sync (vi_register m4) = 0 then 500000
              else (vi_v_sync (vi_register m4) + 1) * (1500 * counter_factor (core_cfg env)));
     let m5 = m4\<lparr>vi_register := (vi_register m4)\<lparr>vi_delay := d\<rparr>, next_vi := next_vi m4 + d,
                 vi_field := (if vi_status (vi_register m4) AND 0x40 \<noteq> 0 then 1 - vi_field m4 else 0)\<rparr>;
     m6 \<leftarrow> m_remove_interrupt_event m5;
     m7 \<leftarrow> m_add_event_count VI_INT (next_vi m6) m6;
     Some (set_mi_intr (mi_intr_reg (MI_register m7) OR 0x08) m7) }"

definition compare_interrupt :: "'w machine \<Rightarrow> 'w machine option" where
  "compare_interrupt m = do {
     m1 \<leftarrow> m_remove_interrupt_event m;
     let m2 = m1\<lparr>cpu := set_cop0 9 (core_Count (cpu m1) + 2) (cpu m1)\<rparr>;
     m3 \<leftarrow> m_add_event_count COMPARE_INT (core_Compare (cpu m2)) m2;
     Some (m3\<lparr>cpu := set_cop0 9 (core_Count (cpu m3) - 2) (cpu m3)\<rparr>) }"

definition ai_interrupt :: "'w machine \<Rightarrow> 'w machine option" where
  "ai_interrupt m =
    (if ai_status (ai_register m) AND 0x80000000 \<noteq> 0 then do {
       ai_event \<leftarrow> get_event AI_INT (queue m);
       m1 \<leftarrow> m_remove_interrupt_event m;
       let a = ai_register m1;
       let m2 = m1\<lparr>ai_register := a\<lparr>ai_status := ai_status a AND NOT 0x80000000,
                     current_delay := next_delay a, current_len := next_len a\<rparr>\<rparr>;
       m3 \<leftarrow> m_add_event_count AI_INT (ai_event + next_delay (ai_register m2)) m2;
       Some (set_mi_intr (mi_intr_reg (MI_register m3) OR 0x04) m3) }
     else do {
       m1 \<leftarrow> m_remove_interrupt_event m;
       let m2 = m1\<lparr>ai_register := (ai_register m1)\<lparr>ai_status := ai_status (ai_register m1) AND NOT 0x40000000\<rparr>\<rparr>;
       Some (set_mi_intr (mi_intr_reg (MI_register m2) OR 0x04) m2) })"

text \<open>
  The switch of \<^verbatim>\<open>gen_interrupt\<close> on the type of the first event.  The flag is \<^term>\<open>False\<close> where the
  case returns at once.
\<close>

definition take_event :: "'w machine_env \<Rightarrow> u32 \<Rightarrow> 'w machine \<Rightarrow> (bool \<times> 'w machine) option" where
  "take_event env type m =
    (if type = SPECIAL_INT then
       if core_Count (cpu m) > 0x10000000 then Some (False, m)
       else do {
         m1 \<leftarrow> m_remove_interrupt_event m;
         m2 \<leftarrow> m_add_event_count SPECIAL_INT 0 m1;
         Some (False, m2) }
     else if type = VI_INT then map_option (Pair True) (vi_interrupt env m)
     else if type = COMPARE_INT then map_option (Pair True) (compare_interrupt m)
     else if type = CHECK_INT then map_option (Pair True) (m_remove_interrupt_event m)
     else if type = SI_INT then do {
       p \<leftarrow> bput 0x3F 0 (PIF_RAM m);
       m1 \<leftarrow> m_remove_interrupt_event (m\<lparr>PIF_RAM := p\<rparr>);
       let m2 = set_mi_intr (mi_intr_reg (MI_register m1) OR 0x02) m1;
       Some (True, m2\<lparr>si_register := (si_register m2)\<lparr>si_status := si_status (si_register m2) OR 0x1000\<rparr>\<rparr>) }
     else if type = PI_INT then do {
       m1 \<leftarrow> m_remove_interrupt_event m;
       let m2 = set_mi_intr (mi_intr_reg (MI_register m1) OR 0x10) m1;
       Some (True, m2\<lparr>pi_register := (pi_register m2)
         \<lparr>read_pi_status_reg := read_pi_status_reg (pi_register m2) AND NOT 3\<rparr>\<rparr>) }
     else if type = AI_INT then map_option (Pair True) (ai_interrupt m)
     else if type = SP_INT then do {
       m1 \<leftarrow> m_remove_interrupt_event m;
       let m2 = m1\<lparr>sp_register := (sp_register m1)\<lparr>sp_status_reg := sp_status_reg (sp_register m1) OR 0x303,
                     signal2 := 1, sp_broke := 1, sp_halt := 1\<rparr>\<rparr>;
       if sp_intr_break (sp_register m2) = 0 then Some (False, m2)
       else Some (True, set_mi_intr (mi_intr_reg (MI_register m2) OR 0x01) m2) }
     else if type = DP_INT then do {
       m1 \<leftarrow> m_remove_interrupt_event m;
       let m2 = m1\<lparr>dpc_register := (dpc_register m1)
                     \<lparr>dpc_status := (dpc_status (dpc_register m1) AND NOT 2) OR 0x81\<rparr>\<rparr>;
       Some (True, set_mi_intr (mi_intr_reg (MI_register m2) OR 0x20) m2) }
     else map_option (Pair True) (m_remove_interrupt_event m))"

text \<open>The end of \<^verbatim>\<open>gen_interrupt\<close>: whether the processor takes the exception now.\<close>

definition deliver_interrupt :: "u32 \<Rightarrow> 'w machine \<Rightarrow> 'w machine" where
  "deliver_interrupt type m =
    (let m1 = (if type = COMPARE_INT then set_cause ((core_Cause (cpu m) OR 0x8000) AND 0xFFFFFF83) m else m)
     in if type \<noteq> CHECK_INT then
          if rcp_pending m1 then
            let m2 = set_cause ((core_Cause (cpu m1) OR 0x400) AND 0xFFFFFF83) m1
            in if core_Status (cpu m2) AND 7 \<noteq> 1 then m2
               else if core_Status (cpu m2) AND core_Cause (cpu m2) AND 0xFF00 = 0 then m2
               else exception_general m2
          else m1
        else exception_general m1)"

text \<open>
  \<^verbatim>\<open>gen_interrupt\<close>.  When the emulation has been stopped it calls \<^verbatim>\<open>longjmp\<close> on a buffer that only the
  dynamic recompiler has set up, which the interpreters never do: undefined.
\<close>

definition gen_interrupt :: "'w machine_env \<Rightarrow> 'w machine \<Rightarrow> 'w machine option" where
  "gen_interrupt env m =
    (if stop (cpu m) then None
     else do {
       a \<leftarrow> q_head (queue m);
       let n = g_pool (queue m) a;
       if skip_jump (cpu m) \<noteq> 0 then
         Some (m\<lparr>queue := (queue m)\<lparr>next_interrupt :=
                   (if iq_count n > core_Count (cpu m) \<or> core_Count (cpu m) - iq_count n < 0x80000000
                    then iq_count n else 0)\<rparr>,
                 cpu := (cpu m)\<lparr>interp_addr := skip_jump (cpu m), last_addr := skip_jump (cpu m), skip_jump := 0\<rparr>\<rparr>)
       else do {
         (go_on, m1) \<leftarrow> take_event env (iq_type n) m;
         Some (if go_on then deliver_interrupt (iq_type n) m1 else m1) } })"

text \<open>\<^verbatim>\<open>if (next_interrupt <= core_Count) gen_interrupt();\<close>\<close>

definition gen_interrupt_if_due :: "'w machine_env \<Rightarrow> 'w machine \<Rightarrow> 'w machine option" where
  "gen_interrupt_if_due env m =
    (if next_interrupt (queue m) \<le> core_Count (cpu m) then gen_interrupt env m else Some m)"

section \<open>The queue of a machine\<close>

lemma m_remove_abs:
  assumes "queue_abs (queue m) (x # xs)"
  obtains q where "m_remove_interrupt_event m = Some (m\<lparr>queue := q\<rparr>)" "queue_abs q xs"
  using remove_interrupt_event_abs [OF assms, of "core_Count (cpu m)"]
  by (auto simp: m_remove_interrupt_event_def on_queue_def)

lemma m_add_abs:
  assumes "queue_abs (queue m) xs" "length xs < pool_size"
  obtains q where "m_add_event_count t n m = Some (m\<lparr>queue := q\<rparr>)"
    "queue_abs q (spec_add (core_Count (cpu m)) (SPECIAL_done (queue m)) t n xs)"
  using add_interrupt_event_abs [OF assms, of "core_Count (cpu m)" t "n - core_Count (cpu m)"]
  by (auto simp: m_add_event_count_def on_queue_def add_interrupt_event_count_def)

lemma push_check_int_abs:
  assumes "queue_abs s xs" "length xs < pool_size"
  shows "\<exists>s'. push_check_int c s = Some s' \<and> queue_abs s' ((CHECK_INT, c) # xs) \<and> next_interrupt s' = c"
proof -
  obtain "is" where rep: "queue_rep s is xs" using assms(1) by (auto simp: queue_abs_def)
  from pool_alloc_room [OF this assms(2)] obtain i where i: "pool_alloc s = Some (i, s\<lparr>g_pool_used := (g_pool_used s)(i := True),
      g_known_unused_index := None\<rparr>)" "i < pool_size" "i \<notin> set is" .
  from queue_rep_insert_head [OF rep i(2,3) refl refl, where t = CHECK_INT and c = c and k = c] show ?thesis
    using i(1,2) by (auto simp: push_check_int_def store_node_def queue_abs_def)
qed

lemma queue_abs_next [simp]: "queue_abs (q\<lparr>next_interrupt := n\<rparr>) xs = queue_abs q xs"
  by (simp add: queue_abs_def queue_rep_def)

lemma queue_abs_head:
  assumes "queue_abs q (x # xs)"
  obtains a where "q_head q = Some a" "iq_type (g_pool q a) = fst x"
  using assms by (auto simp: queue_abs_def queue_rep_def event_at_def Cons_eq_map_conv)

text \<open>How many events of a type are pending.\<close>

definition occurs :: "u32 \<Rightarrow> event list \<Rightarrow> nat" where
  "occurs t xs = length (filter (\<lambda>e. fst e = t) xs)"

lemma occurs_simps [simp]: "occurs t [] = 0" "occurs t (x # xs) = (if fst x = t then Suc (occurs t xs) else occurs t xs)"
  by (simp_all add: occurs_def)

lemma occurs_spec_add [simp]: "occurs t (spec_add c d u n xs) = (if u = t then Suc (occurs t xs) else occurs t xs)"
proof -
  have "occurs t ys = size (filter_mset (\<lambda>e. fst e = t) (mset ys))" for ys
    by (simp add: occurs_def flip: mset_filter)
  then show ?thesis by (simp add: mset_spec_add)
qed

text \<open>The events that every handler puts back: the video interrupt, the timer and the wrap-around marker.\<close>

definition keeps_periodic :: "event list \<Rightarrow> event list \<Rightarrow> bool" where
  "keeps_periodic xs ys \<longleftrightarrow> (\<forall>t\<in>{VI_INT, COMPARE_INT, SPECIAL_INT}. occurs t ys = occurs t xs)"

text \<open>The callbacks of a video interrupt do not touch the event queue.\<close>

definition vi_callbacks_quiet :: "'w machine_env \<Rightarrow> bool" where
  "vi_callbacks_quiet env \<longleftrightarrow> (\<forall>m. queue (update_screen env m) = queue m \<and> queue (callback_vi env m) = queue m \<and>
     queue (lag_limit_exceeded env m) = queue m)"

lemma queue_timer_new_vi [simp]: "vi_callbacks_quiet env \<Longrightarrow> queue (timer_new_vi env m) = queue m"
  by (simp add: timer_new_vi_def vi_callbacks_quiet_def)

lemma queue_set [simp]: "queue (set_mi_intr v m) = queue m" "queue (set_cause v m) = queue m"
  by (simp_all add: set_mi_intr_def set_cause_def)

lemma queue_deliver [simp]: "queue_abs (queue (deliver_interrupt t m)) xs = queue_abs (queue m) xs"
  by (simp add: deliver_interrupt_def exception_general_def skip_in_delay_slot_def Let_def)

lemma remove_then_add:
  assumes "queue_abs (queue m) (x # xs)"
  obtains q where "m_remove_interrupt_event m = Some (m\<lparr>queue := q\<rparr>)" "queue_abs q xs" "length xs < pool_size"
proof -
  have "length xs < pool_size" using queue_abs_length [OF assms] by simp
  with m_remove_abs [OF assms] that show thesis by blast
qed

lemma vi_interrupt_queue:
  assumes "vi_callbacks_quiet env" "queue_abs (queue m) ((VI_INT, n) # xs)"
  shows "\<exists>m' ys. vi_interrupt env m = Some m' \<and> queue_abs (queue m') ys \<and> keeps_periodic ((VI_INT, n) # xs) ys"
proof -
  define m5 where "m5 = (let m1 = m\<lparr>lag_count := lag_count m + 1\<rparr>;
      m2 = (if screen_update_due (core_cfg env) m1 \<or> frame_advance_outstanding (vcr m1) \<noteq> 0
               then (update_screen env m1)\<lparr>screen_invalidated := False\<rparr> else m1);
      m3 = callback_vi env m2;
      m4 = timer_new_vi env (m3\<lparr>vcr := vcr_on_vi (vcr m3)\<rparr>);
      d = (if vi_v_sync (vi_register m4) = 0 then 500000
              else (vi_v_sync (vi_register m4) + 1) * (1500 * counter_factor (core_cfg env)))
     in m4\<lparr>vi_register := (vi_register m4)\<lparr>vi_delay := d\<rparr>, next_vi := next_vi m4 + d,
                 vi_field := (if vi_status (vi_register m4) AND 0x40 \<noteq> 0 then 1 - vi_field m4 else 0)\<rparr>)"
  have run: "vi_interrupt env m = do {
     m6 \<leftarrow> m_remove_interrupt_event m5;
     m7 \<leftarrow> m_add_event_count VI_INT (next_vi m6) m6;
     Some (set_mi_intr (mi_intr_reg (MI_register m7) OR 0x08) m7) }"
    unfolding vi_interrupt_def m5_def Let_def by (rule refl)
  have "queue m5 = queue m" using assms(1) unfolding m5_def Let_def by (simp add: vi_callbacks_quiet_def)
  with assms(2) obtain q where q: "m_remove_interrupt_event m5 = Some (m5\<lparr>queue := q\<rparr>)" "queue_abs q xs" "length xs < pool_size"
    using remove_then_add [of m5 "(VI_INT, n)" xs] by auto
  then obtain q' where "m_add_event_count VI_INT (next_vi m5) (m5\<lparr>queue := q\<rparr>) = Some (m5\<lparr>queue := q'\<rparr>)"
      "queue_abs q' (spec_add (core_Count (cpu m5)) (SPECIAL_done q) VI_INT (next_vi m5) xs)"
    using m_add_abs [of "m5\<lparr>queue := q\<rparr>" xs VI_INT "next_vi m5"] by auto
  with q(1) show ?thesis by (auto simp: run keeps_periodic_def)
qed

lemma compare_interrupt_queue:
  assumes "queue_abs (queue m) ((COMPARE_INT, n) # xs)"
  shows "\<exists>m' ys. compare_interrupt m = Some m' \<and> queue_abs (queue m') ys \<and> keeps_periodic ((COMPARE_INT, n) # xs) ys"
proof -
  obtain q where q: "m_remove_interrupt_event m = Some (m\<lparr>queue := q\<rparr>)" "queue_abs q xs" "length xs < pool_size"
    using remove_then_add [OF assms] .
  define m2 where "m2 = (let m1 = m\<lparr>queue := q\<rparr> in m1\<lparr>cpu := set_cop0 9 (core_Count (cpu m1) + 2) (cpu m1)\<rparr>)"
  have "queue m2 = q" by (simp add: m2_def)
  then obtain q' where "m_add_event_count COMPARE_INT (core_Compare (cpu m2)) m2 = Some (m2\<lparr>queue := q'\<rparr>)"
      "queue_abs q' (spec_add (core_Count (cpu m2)) (SPECIAL_done q) COMPARE_INT (core_Compare (cpu m2)) xs)"
    using m_add_abs [of m2 xs COMPARE_INT "core_Compare (cpu m2)"] q(2,3) by auto
  with q(1) show ?thesis by (auto simp: compare_interrupt_def Let_def keeps_periodic_def m2_def)
qed

lemma ai_interrupt_queue:
  assumes "queue_abs (queue m) ((AI_INT, n) # xs)"
  shows "\<exists>m' ys. ai_interrupt m = Some m' \<and> queue_abs (queue m') ys \<and> keeps_periodic ((AI_INT, n) # xs) ys"
proof -
  obtain q where q: "m_remove_interrupt_event m = Some (m\<lparr>queue := q\<rparr>)" "queue_abs q xs" "length xs < pool_size"
    using remove_then_add [OF assms] .
  have g: "get_event AI_INT (queue m) = Some n"
    using assms get_event_rep [of "queue m" _ "(AI_INT, n) # xs" AI_INT] unfolding queue_abs_def by auto
  define m2 where "m2 = (let m1 = m\<lparr>queue := q\<rparr>; a = ai_register m1 in m1\<lparr>ai_register := a\<lparr>ai_status := ai_status a AND NOT 0x80000000,
    current_delay := next_delay a, current_len := next_len a\<rparr>\<rparr>)"
  have "queue m2 = q" by (simp add: m2_def Let_def)
  then obtain q' where "m_add_event_count AI_INT (n + next_delay (ai_register m2)) m2 = Some (m2\<lparr>queue := q'\<rparr>)"
      "queue_abs q' (spec_add (core_Count (cpu m2)) (SPECIAL_done q) AI_INT (n + next_delay (ai_register m2)) xs)"
    using m_add_abs [of m2 xs AI_INT "n + next_delay (ai_register m2)"] q(2,3) by auto
  with q g show ?thesis by (auto simp: ai_interrupt_def Let_def keeps_periodic_def m2_def)
qed

lemma take_special_queue:
  assumes "queue_abs (queue m) ((SPECIAL_INT, n) # xs)"
  shows "\<exists>b m' ys. take_event env SPECIAL_INT m = Some (b, m') \<and> queue_abs (queue m') ys \<and>
    keeps_periodic ((SPECIAL_INT, n) # xs) ys"
proof -
  obtain q where q: "m_remove_interrupt_event m = Some (m\<lparr>queue := q\<rparr>)" "queue_abs q xs" "length xs < pool_size"
    using remove_then_add [OF assms] .
  then obtain q' where "m_add_event_count SPECIAL_INT 0 (m\<lparr>queue := q\<rparr>) = Some (m\<lparr>queue := q'\<rparr>)"
      "queue_abs q' (spec_add (core_Count (cpu m)) (SPECIAL_done q) SPECIAL_INT 0 xs)"
    using m_add_abs [of "m\<lparr>queue := q\<rparr>" xs SPECIAL_INT 0] by auto
  moreover have "keeps_periodic ((SPECIAL_INT, n) # xs) ((SPECIAL_INT, n) # xs)" by (simp add: keeps_periodic_def)
  ultimately show ?thesis using q(1) assms by (auto simp: take_event_def keeps_periodic_def)
qed

lemma take_other_queue:
  assumes "queue_abs (queue m) (x # xs)" "fst x \<notin> {VI_INT, COMPARE_INT, SPECIAL_INT, AI_INT}" "length (PIF_RAM m) = 0x40"
  shows "\<exists>b m' ys. take_event env (fst x) m = Some (b, m') \<and> queue_abs (queue m') ys \<and> keeps_periodic (x # xs) ys"
proof -
  obtain q where q: "m_remove_interrupt_event m = Some (m\<lparr>queue := q\<rparr>)" "queue_abs q xs"
    using m_remove_abs [OF assms(1)] .
  have "queue_abs (queue (m\<lparr>PIF_RAM := p\<rparr>)) (x # xs)" for p using assms(1) by simp
  from m_remove_abs [OF this] obtain q' where "m_remove_interrupt_event (m\<lparr>PIF_RAM := (PIF_RAM m)[0x3F := 0]\<rparr>) =
      Some (m\<lparr>PIF_RAM := (PIF_RAM m)[0x3F := 0], queue := q'\<rparr>)" "queue_abs q' xs"
    by (auto simp: m_remove_interrupt_event_def on_queue_def)
  then show ?thesis using q assms(2,3) by (auto simp: take_event_def keeps_periodic_def bput_def Let_def)
qed

lemma take_event_queue:
  assumes "vi_callbacks_quiet env" "queue_abs (queue m) (x # xs)" "length (PIF_RAM m) = 0x40"
  shows "\<exists>b m' ys. take_event env (fst x) m = Some (b, m') \<and> queue_abs (queue m') ys \<and> keeps_periodic (x # xs) ys"
proof -
  obtain t n where x: "x = (t, n)" by fastforce
  consider "t = VI_INT" | "t = COMPARE_INT" | "t = SPECIAL_INT" | "t = AI_INT" | "t \<notin> {VI_INT, COMPARE_INT, SPECIAL_INT, AI_INT}"
    by auto
  then show ?thesis
  proof cases
    case 1
    then show ?thesis using vi_interrupt_queue [OF assms(1), of m n xs] assms(2) x by (auto simp: take_event_def)
  next
    case 2
    then show ?thesis using compare_interrupt_queue [of m n xs] assms(2) x by (auto simp: take_event_def)
  next
    case 3
    then show ?thesis using take_special_queue [of m n xs] assms(2) x by auto
  next
    case 4
    then show ?thesis using ai_interrupt_queue [of m n xs] assms(2) x by (auto simp: take_event_def)
  next
    case 5
    then show ?thesis using take_other_queue [OF assms(2) _ assms(3)] x by auto
  qed
qed

section \<open>Properties\<close>

text \<open>
  C34. While the emulation runs, taking an interrupt always succeeds and never loses a
  periodic event: the number of pending video, timer and wrap-around events is unchanged, so the
  queue the processor waits on does not run dry.  The host's callbacks are assumed to leave
  the queue alone.
\<close>

theorem gen_interrupt_keeps_periodic:
  assumes "vi_callbacks_quiet env" "queue_abs (queue m) xs" "xs \<noteq> []" "length (PIF_RAM m) = 0x40" "\<not> stop (cpu m)"
  shows "\<exists>m' ys. gen_interrupt env m = Some m' \<and> queue_abs (queue m') ys \<and>
    (\<forall>t\<in>{VI_INT, COMPARE_INT, SPECIAL_INT}. occurs t ys = occurs t xs)"
proof -
  obtain x zs where xs: "xs = x # zs" using assms(3) by (cases xs) auto
  with assms(2) obtain a where a: "q_head (queue m) = Some a" "iq_type (g_pool (queue m) a) = fst x"
    using queue_abs_head by blast
  obtain b m' ys where t: "take_event env (fst x) m = Some (b, m')" "queue_abs (queue m') ys" "keeps_periodic (x # zs) ys"
    using take_event_queue [OF assms(1) _ assms(4)] assms(2) unfolding xs by blast
  show ?thesis
  proof (cases "skip_jump (cpu m) = 0")
    case True
    then have "gen_interrupt env m = Some (if b then deliver_interrupt (fst x) m' else m')"
      using a t(1) assms(5) by (simp add: gen_interrupt_def)
    moreover have "queue_abs (queue (if b then deliver_interrupt (fst x) m' else m')) ys" using t(2) by simp
    ultimately show ?thesis using t(3) unfolding keeps_periodic_def xs by blast
  next
    case False
    then show ?thesis using a assms(2,5) by (auto simp: gen_interrupt_def Let_def)
  qed
qed

theorem gen_interrupt_keeps_periodic_witness:
  "\<exists>q m' ys. queue_abs q [(VI_INT, 5000)] \<and> gen_interrupt example_machine_env (example_machine\<lparr>queue := q\<rparr>) = Some m' \<and>
     queue_abs (queue m') ys \<and> occurs VI_INT ys = 1"
proof -
  obtain q where q: "queue_abs q [(VI_INT, 5000)]"
    using add_interrupt_event_abs [OF queue_init_abs(1), of 0 VI_INT 5000]
    by (auto simp: pool_size_def queue_init_abs spec_add_def insert_event_def)
  with gen_interrupt_keeps_periodic [of example_machine_env "example_machine\<lparr>queue := q\<rparr>" "[(VI_INT, 5000)]"] show ?thesis
    by (auto simp: vi_callbacks_quiet_def alu_example_def)
qed

text \<open>
  C9. An interrupt of the coprocessor that becomes pending while interrupts are enabled is
  taken at the next check: the fake event is taken from the queue again, which leaves the pending
  events as they were, and the processor continues at the exception vector with the old
  address in EPC and the interrupt shown in Cause.
\<close>

theorem pending_interrupt_taken:
  assumes "queue_abs (queue m) xs" "length xs < 128" "rcp_pending m"
    and "core_Status (cpu m) AND 7 = 1" "core_Status (cpu m) AND 0x400 \<noteq> 0"
    and "\<not> stop (cpu m)" "skip_jump (cpu m) = 0" "\<not> delay_slot (cpu m)"
  shows "\<exists>m1 m2. check_interrupt m = Some m1 \<and> gen_interrupt_if_due env m1 = Some m2 \<and> queue_abs (queue m2) xs \<and>
    interp_addr (cpu m2) = 0x80000180 \<and> core_EPC (cpu m2) = interp_addr (cpu m) \<and>
    core_Status (cpu m2) = core_Status (cpu m) OR 2 \<and> core_Cause (cpu m2) AND 0x8000047C = 0x400"
proof -
  let ?c = "(core_Cause (cpu m) OR 0x400) AND 0xFFFFFF83"
  define m0 where "m0 = set_cause ?c m"
  have f: "cpu m0 = set_cop0 13 ?c (cpu m)" "queue m0 = queue m" by (simp_all add: m0_def set_cause_def)
  have "bit (core_Status (cpu m)) 10" using assms(5) and_exp_eq_0_iff_not_bit [of "core_Status (cpu m)" 10] by simp
  then have "bit (core_Status (cpu m) AND ?c AND 0xFF00) 10" by (simp add: bit_simps bit_numeral_rec)
  then have "core_Status (cpu m) AND ?c AND 0xFF00 \<noteq> 0" by (metis bit_0_eq bot_apply bot_bool_def)
  then have ck: "check_interrupt m = on_queue push_check_int m0"
    using assms(3,4) by (simp add: check_interrupt_def m0_def set_cause_def set_cop0_def)
  obtain q where q: "push_check_int (core_Count (cpu m0)) (queue m) = Some q" "queue_abs q ((CHECK_INT, core_Count (cpu m0)) # xs)"
      "next_interrupt q = core_Count (cpu m0)"
    using push_check_int_abs [OF assms(1)] assms(2) by (auto simp: pool_size_def)
  let ?m1 = "m0\<lparr>queue := q\<rparr>"
  obtain a where a: "q_head q = Some a" "iq_type (g_pool q a) = CHECK_INT" using queue_abs_head [OF q(2)] by auto
  obtain q' where q': "m_remove_interrupt_event ?m1 = Some (m0\<lparr>queue := q'\<rparr>)" "queue_abs q' xs"
    using m_remove_abs [of ?m1 "(CHECK_INT, core_Count (cpu m0))" xs] q(2) by auto
  have "gen_interrupt_if_due env ?m1 = Some (exception_general (m0\<lparr>queue := q'\<rparr>))"
    using q(3) a q'(1) assms(6,7) f
    by (simp add: gen_interrupt_if_due_def gen_interrupt_def take_event_def deliver_interrupt_def set_cop0_def Let_def)
  moreover have "check_interrupt m = Some ?m1" using ck q(1) f by (simp add: on_queue_def)
  moreover have "(((x OR 0x400) AND 0xFFFFFF83) AND 0x7FFFFFFF) AND 0x8000047C = 0x400" for x :: u32
  proof -
    have "(((x OR 0x400) AND 0xFFFFFF83) AND 0x7FFFFFFF) AND 0x8000047C = (x OR 0x400) AND 0x400" by (simp add: and.assoc)
    also have "\<dots> = 0x400" by (simp add: bit_eq_iff bit_simps)
    finally show ?thesis .
  qed
  ultimately show ?thesis
    using q'(2) f assms(8)
    by (auto simp: exception_general_def skip_in_delay_slot_def set_cop0_def update_count_def Let_def)
qed

theorem pending_interrupt_taken_witness:
  "\<exists>m1 m2. check_interrupt (set_status 0x401 (set_mi_intr 8 (example_machine
      \<lparr>MI_register := (MI_register example_machine)\<lparr>mi_intr_mask_reg := 8\<rparr>\<rparr>))) = Some m1 \<and>
    gen_interrupt_if_due example_machine_env m1 = Some m2 \<and> interp_addr (cpu m2) = 0x80000180 \<and> core_EPC (cpu m2) = 0x80000000"
  using pending_interrupt_taken [of "set_status 0x401 (set_mi_intr 8 (example_machine
      \<lparr>MI_register := (MI_register example_machine)\<lparr>mi_intr_mask_reg := 8\<rparr>\<rparr>))" "[]" example_machine_env]
  by (auto simp: set_status_def set_mi_intr_def rcp_pending_def queue_init_abs alu_example_def set_cop0_def)

end
