(* ===== verification/Savestates.thy ===== *)
theory Savestates
  imports Savestate_Block Interrupts
begin

text \<open>
  Saving and loading the machine, \<^verbatim>\<open>Core/memory/savestates.cpp\<close>: the contents of a savestate, the
  checks and questions of a load, the queue of tasks with its simplification and its undo point.  The
  compressor and decompressor, the dialogs and the callbacks are parameters; files are those of the
  movie engine.
\<close>

section \<open>Writing a savestate\<close>

text \<open>\<^verbatim>\<open>"SCR"\<close> with its terminator.\<close>

definition screen_section :: bytes where
  "screen_section = [0x53, 0x43, 0x52, 0]"

definition freeze_bytes :: "freeze_info option \<Rightarrow> bytes" where
  "freeze_bytes f = (case f of
      None \<Rightarrow> put_le32 0
    | Some fr \<Rightarrow> put_le32 1 @ put_le32 (frz_size fr) @ put_le32 (frz_uid fr) @ put_le32 (frz_current_sample fr) @
        put_le32 (frz_current_vi fr) @ put_le32 (frz_length_samples fr) @ concat (map put_le32 (frz_input_buffer fr)))"

text \<open>
  \<^verbatim>\<open>generate_savestate\<close>.  The queue is first written to the 1024 bytes of \<^verbatim>\<open>g_event_queue_buf\<close>.
\<close>

definition generate_savestate :: "'w machine_env \<Rightarrow> 'w machine \<Rightarrow> (bytes \<times> 'w machine) option" where
  "generate_savestate env m = do {
     (fr, v) \<leftarrow> core_vcr_freeze (vcr_plugins env) (vcr m);
     let m1 = m\<lparr>vcr := v\<rparr>;
     q \<leftarrow> save_eventqueue_infos (queue m1);
     if length q > 1024 then None
     else do {
       md5 \<leftarrow> bblock (rom_md5 (roms m1)) 0 32;
       let scr = (if mge_available env \<and> st_screenshot (core_cfg env)
         then (case video_capture env m1 of (w, h, d) \<Rightarrow> screen_section @ put_le32 w @ put_le32 h @ d) else []);
       Some (md5 @ first_block (cop0_after env) m1 @ q @ freeze_bytes fr @ scr, m1) } }"

section \<open>Tasks\<close>

text \<open>The result of a task goes to its callback; the undo task keeps the buffer.\<close>

definition user_callback :: "'w machine_env \<Rightarrow> nat option \<Rightarrow> core_result \<Rightarrow> st_task \<Rightarrow> bytes \<Rightarrow> 'w machine \<Rightarrow> 'w machine" where
  "user_callback env cb r t buf m = (case cb of None \<Rightarrow> m | Some n \<Rightarrow> st_callback env n r t buf m)"

definition st_report :: "'w machine_env \<Rightarrow> st_task \<Rightarrow> core_result \<Rightarrow> bytes \<Rightarrow> 'w machine \<Rightarrow> 'w machine" where
  "st_report env t r buf m = (case st_callback_of t of
      Undo_callback \<Rightarrow> if r \<noteq> Res_Ok then m else m\<lparr>g_undo_savestate := buf\<rparr>
    | User_callback cb \<Rightarrow> user_callback env cb r t buf (st_pre_callback env r t buf m))"

definition set_file :: "string \<Rightarrow> bytes \<Rightarrow> 'w machine \<Rightarrow> 'w machine" where
  "set_file fn d m = m\<lparr>vcr := (vcr m)\<lparr>vcr_files := (vcr_files (vcr m))(fn := Some d)\<rparr>\<rparr>"

text \<open>A file opened for writing is empty, and cannot be opened where the host forbids it.\<close>

definition with_sd_file :: "(bytes option \<Rightarrow> sc_state \<Rightarrow> bytes option \<times> sc_state) \<Rightarrow> 'w machine_env \<Rightarrow> 'w machine \<Rightarrow> 'w machine" where
  "with_sd_file f env m =
    (let (d, s) = f (if writable (vcr_plugins env) (st_sd_path env) then Some [] else None) (sc_view m);
         m1 = sc_apply s m
     in case d of Some x \<Rightarrow> if cart_image m = None then m1 else set_file (st_sd_path env) x m1 | None \<Rightarrow> m1)"

definition savestates_save_immediate_impl :: "'w machine_env \<Rightarrow> st_task \<Rightarrow> 'w machine \<Rightarrow> 'w machine option" where
  "savestates_save_immediate_impl env t m = do {
     (st, m1) \<leftarrow> generate_savestate env m;
     if medium t = St_path then
       let m2 = (if cfg_use_summercart (core_cfg env)
                 then with_sd_file (save_summercart (uninit_bytes env 512) (uninit_bytes env 65536)) env m1 else m1);
           z = gzip_compress env st;
           out = (if length z \<le> length st then z else [])
       in if \<not> writable (vcr_plugins env) (st_path t) then Some (st_report env t ST_FileWriteError st m2)
          else Some (callback_save_state env (st_report env t Res_Ok st (set_file (st_path t) out m2)))
     else Some (callback_save_state env (st_report env t Res_Ok st m1)) }"

section \<open>Loading\<close>

text \<open>The loop that copies the event queue into a buffer of 128 entries; \<^term>\<open>None\<close> inside when it has no end mark.\<close>

fun read_events :: "nat \<Rightarrow> bytes \<Rightarrow> (bytes option \<times> bytes) option" where
  "read_events 0 p = Some (None, p)"
| "read_events (Suc k) p = do {
     (a, p1) \<leftarrow> mread 4 p;
     if u32_at a 0 = 0xFFFFFFFF then Some (Some a, p1)
     else do {
       (b, p2) \<leftarrow> mread 4 p1;
       (r, p3) \<leftarrow> read_events k p2;
       Some (map_option (\<lambda>x. a @ b @ x) r, p3) } }"

text \<open>
  The frozen movie.  \<^verbatim>\<open>input_buffer\<close> is given four times as many elements as there are samples; the bytes
  read fill the first quarter.
\<close>

definition read_freeze :: "bytes \<Rightarrow> (freeze_info \<times> bytes) option" where
  "read_freeze p = do {
     (d, p1) \<leftarrow> mread 20 p;
     let n = u32_at d 16 + 1;
     (b, p2) \<leftarrow> mread (unat (4 * n)) p1;
     Some (\<lparr>frz_size = u32_at d 0, frz_uid = u32_at d 4, frz_current_sample = u32_at d 8, frz_current_vi = u32_at d 12,
            frz_length_samples = u32_at d 16,
            frz_input_buffer = map (\<lambda>i. u32_at b (4 * i)) [0..<unat (4 * n) div 4] @
              replicate (4 * unat n - unat (4 * n) div 4) 0\<rparr>, p2) }"

definition read_screen :: "bytes \<Rightarrow> (u32 \<times> u32 \<times> bytes) option option" where
  "read_screen p =
    (if p = [] then Some None
     else do {
       (s, p1) \<leftarrow> mread 4 p;
       if s = screen_section then do {
         (d, p2) \<leftarrow> mread 8 p1;
         (v, _) \<leftarrow> mread (unat (u32_at d 0 * u32_at d 4 * 3)) p2;
         Some (Some (u32_at d 0, u32_at d 4, v)) }
       else Some None })"

text \<open>The movie part of a load: \<^term>\<open>False\<close> where the user cancels.\<close>

definition load_movie_part ::
  "'w machine_env \<Rightarrow> st_task \<Rightarrow> bytes \<Rightarrow> 'w machine \<Rightarrow> (bool \<times> bytes \<times> 'w machine) option" where
  "load_movie_part env t p m = do {
     (w, p1) \<leftarrow> mread 4 p;
     if u32_at w 0 \<noteq> 0 then do {
       (fr, p2) \<leftarrow> read_freeze p1;
       (code, v) \<leftarrow> core_vcr_unfreeze (vcr_plugins env) fr (vcr m);
       let m1 = m\<lparr>vcr := v\<rparr>;
       if \<not> ignore_warnings t \<and> code \<noteq> Res_Ok \<and> g_task (vcr m1) \<noteq> task_idle
       then let (ok, m2) = st_ask env (St_unfreeze_warning code) m1 in Some (ok, p2, m2)
       else Some (True, p2, m1) }
     else if \<not> ignore_warnings t \<and> (g_task (vcr m) = task_recording \<or> g_task (vcr m) = task_playback)
     then let (ok, m1) = st_ask env St_not_from_movie m in Some (ok, p1, m1)
     else Some (True, p1, m) }"

text \<open>A state without a pending SI interrupt has its transfer completed by hand.\<close>

definition finish_dma :: "'w machine \<Rightarrow> 'w machine option" where
  "finish_dma m = do {
     e \<leftarrow> get_event SI_INT (queue m);
     if e = 0 then do {
       m1 \<leftarrow> copy_pif_to_rdram m;
       m2 \<leftarrow> m_add_event SI_INT 0x900 (count_now m1);
       Some (m2\<lparr>g_st_skip_dma := True\<rparr>) }
     else Some m }"

definition restore_screen :: "'w machine_env \<Rightarrow> (u32 \<times> u32 \<times> bytes) option \<Rightarrow> 'w machine \<Rightarrow> 'w machine" where
  "restore_screen env v m = (case v of
      None \<Rightarrow> m
    | Some (w, h, d) \<Rightarrow>
        if mge_available env \<and> \<not> core_vcr_is_seeking (vcr m) \<and> fst (load_screen env) m = (w, h)
        then snd (load_screen env) d m else m)"

text \<open>The label \<^verbatim>\<open>failedLoad\<close>.\<close>

definition after_load :: "'w machine_env \<Rightarrow> 'w machine \<Rightarrow> 'w machine" where
  "after_load env m =
    (let old = (interp_addr (cpu m) = 0x80000180 \<or> pc_addr env = 0x80000180)
     in m\<lparr>g_st_old := old, cpu := (cpu m)\<lparr>beq_ignore_jmp := (if old then True else beq_ignore_jmp (cpu m)),
          last_addr := interp_addr (cpu m)\<rparr>\<rparr>)"

definition overwrite_memory ::
  "'w machine_env \<Rightarrow> st_task \<Rightarrow> bytes \<Rightarrow> bytes \<Rightarrow> bytes \<Rightarrow> bytes \<Rightarrow> 'w machine \<Rightarrow> 'w machine option" where
  "overwrite_memory env t buf blk q p m = do {
     scr \<leftarrow> read_screen p;
     qs \<leftarrow> load_eventqueue_infos (core_Count (cpu m)) (q @ replicate (1024 - length q) 0) (queue m);
     m1 \<leftarrow> load_memory_from_buffer blk (m\<lparr>queue := qs\<rparr>);
     m2 \<leftarrow> finish_dma (restore_screen env scr m1);
     Some (after_load env (st_report env t Res_Ok buf (callback_load_state env m2))) }"

definition load_checked :: "'w machine_env \<Rightarrow> st_task \<Rightarrow> bytes \<Rightarrow> bytes \<Rightarrow> 'w machine \<Rightarrow> 'w machine option" where
  "load_checked env t buf p m = do {
     (blk, p1) \<leftarrow> mread (0xA02BB4 - 32) p;
     fl \<leftarrow> check_flashram_infos (drop (0x8021F0 - 0x20) blk);
     if \<not> check_register_validity (si_reg_of (drop (0xDC - 0x20) blk)) \<or> \<not> fl
     then Some (st_report env t ST_InvalidRegisters [] m)
     else do {
       (q, p2) \<leftarrow> read_events 128 p1;
       case q of
         None \<Rightarrow> Some (st_report env t ST_EventQueueTooLong [] m)
       | Some q' \<Rightarrow> do {
           (ok, p3, m1) \<leftarrow> load_movie_part env t p2 m;
           if \<not> ok then
             let m2 = st_report env t Res_Cancelled [] m1
             in Some (if u32_at p2 0 \<noteq> 0 then after_load env m2 else m2)
           else overwrite_memory env t buf blk q' p3 m1 } } }"

definition savestates_load_immediate_impl :: "'w machine_env \<Rightarrow> st_task \<Rightarrow> 'w machine \<Rightarrow> 'w machine option" where
  "savestates_load_immediate_impl env t m0 = do {
     let m = (if cfg_use_summercart (core_cfg env)
              then with_sd_file (load_summercart (uninit_bytes env 512) (uninit_bytes env 65536)) env m0 else m0);
     let st_buf = (case medium t of
         St_path \<Rightarrow> (case vcr_files (vcr m) (st_path t) of Some d \<Rightarrow> d | None \<Rightarrow> [])
       | St_memory \<Rightarrow> st_buffer t);
     if st_buf = [] then Some (st_report env t ST_NotFound [] m)
     else do {
       buf \<leftarrow> auto_decompress (st_gunzip env) st_buf 0xB624F0;
       if buf = [] then Some (st_report env t ST_DecompressionError [] m)
       else do {
         (md5, p) \<leftarrow> mread 32 buf;
         let (ok, m1) = (if \<not> ignore_warnings t \<and> md5 \<noteq> take 32 (rom_md5 (roms m))
                         then st_ask env St_hash_mismatch m else (True, m));
         if \<not> ok then Some (st_report env t Res_Cancelled [] m1)
         else load_checked env t buf p m1 } } }"

section \<open>The task queue\<close>

text \<open>The indices that \<^verbatim>\<open>savestates_simplify_tasks\<close> collects for the task at index \<^term>\<open>i\<close>.\<close>

definition duplicates_of :: "st_task list \<Rightarrow> nat \<Rightarrow> nat list" where
  "duplicates_of ts i =
    (if medium (ts ! i) \<noteq> St_path then []
     else filter (\<lambda>j. medium (ts ! j) = St_path \<and> st_path (ts ! i) = st_path (ts ! j))
            (takeWhile (\<lambda>j. job (ts ! j) \<noteq> St_load) [i + 1..<length ts]))"

definition savestates_simplify_tasks :: "st_task list \<Rightarrow> st_task list" where
  "savestates_simplify_tasks ts = erase_indices ts (concat (map (duplicates_of ts) [0..<length ts]))"

definition undo_task :: st_task where
  "undo_task = \<lparr>job = St_save, medium = St_memory, st_path = [], st_buffer = [], st_callback_of = Undo_callback,
     ignore_warnings = True\<rparr>"

definition savestates_create_undo_point :: "core_cfg \<Rightarrow> st_task list \<Rightarrow> st_task list" where
  "savestates_create_undo_point c ts =
    (if st_undo_load c \<and> (\<exists>t\<in>set ts. job t = St_load) then undo_task # ts else ts)"

text \<open>
  The loop over the queue.  A callback that changes the vector invalidates the iterator of the
  loop, which is undefined.
\<close>

fun run_tasks :: "'w machine_env \<Rightarrow> st_task list \<Rightarrow> 'w machine \<Rightarrow> 'w machine option" where
  "run_tasks env [] m = Some m"
| "run_tasks env (t # ts) m = do {
     m1 \<leftarrow> (if job t = St_save then savestates_save_immediate_impl env t m
            else savestates_load_immediate_impl env t m);
     if g_tasks m1 \<noteq> g_tasks m then None else run_tasks env ts m1 }"

definition st_do_work :: "'w machine_env \<Rightarrow> 'w machine \<Rightarrow> 'w machine option" where
  "st_do_work env m =
    (if g_tasks m = [] then Some m
     else do {
       let ts = savestates_simplify_tasks (savestates_create_undo_point (core_cfg env) (savestates_simplify_tasks (g_tasks m)));
       m1 \<leftarrow> run_tasks env ts (m\<lparr>g_tasks := ts\<rparr>);
       Some (m1\<lparr>g_tasks := []\<rparr>) })"

definition st_on_core_stop :: "'w machine \<Rightarrow> 'w machine" where
  "st_on_core_stop m = m\<lparr>g_tasks := [], g_undo_savestate := []\<rparr>"

text \<open>\<^verbatim>\<open>core_st_do_file\<close> and \<^verbatim>\<open>core_st_do_memory\<close>: a new task is put in front of the others.\<close>

definition core_st_do_file ::
  "'w machine_env \<Rightarrow> string \<Rightarrow> st_job \<Rightarrow> nat option \<Rightarrow> bool \<Rightarrow> 'w machine \<Rightarrow> bool \<times> 'w machine" where
  "core_st_do_file env fn j cb ign m =
    (let t = \<lparr>job = j, medium = St_path, st_path = fn, st_buffer = [], st_callback_of = User_callback cb, ignore_warnings = ign\<rparr>
     in if \<not> core_executing (vcr_plugins env) (world (vcr m)) then (False, user_callback env cb ST_CoreNotLaunched t [] m)
        else (True, m\<lparr>g_tasks := t # g_tasks m\<rparr>))"

definition core_st_do_memory ::
  "'w machine_env \<Rightarrow> bytes \<Rightarrow> st_job \<Rightarrow> nat option \<Rightarrow> bool \<Rightarrow> 'w machine \<Rightarrow> bool \<times> 'w machine" where
  "core_st_do_memory env buf j cb ign m =
    (let t = \<lparr>job = j, medium = St_memory, st_path = [], st_buffer = buf, st_callback_of = User_callback cb, ignore_warnings = ign\<rparr>
     in if \<not> core_executing (vcr_plugins env) (world (vcr m)) then (False, user_callback env cb ST_CoreNotLaunched t [] m)
        else (True, m\<lparr>g_tasks := t # g_tasks m\<rparr>))"

definition core_st_get_undo_savestate :: "'w machine \<Rightarrow> bytes" where
  "core_st_get_undo_savestate m = g_undo_savestate m"

section \<open>What is written is read back\<close>

lemma read_events_encode:
  assumes "length xs < k" "\<forall>x\<in>set xs. fst x \<noteq> 0xFFFFFFFF"
  shows "read_events k (encode_events xs @ p) = Some (Some (encode_events xs), p)"
  using assms
proof (induction xs arbitrary: k)
  case Nil
  then show ?case by (cases k) (simp_all add: encode_events_def)
next
  case (Cons x xs)
  then obtain n where k: "k = Suc n" "length xs < n" by (cases k) auto
  have "read_events n (encode_events xs @ p) = Some (Some (encode_events xs), p)"
    using Cons.IH [OF k(2)] Cons.prems(2) by simp
  with k(1) Cons.prems(2) show ?case by (simp add: encode_events_Cons encode_event_def)
qed

lemma read_freeze_bytes:
  assumes "length (frz_input_buffer fr) = unat (frz_length_samples fr + 1)" "length (frz_input_buffer fr) < 2 ^ 30"
  shows "mread 4 (freeze_bytes (Some fr) @ p) = Some (put_le32 1, drop 4 (freeze_bytes (Some fr)) @ p)"
    "read_freeze (drop 4 (freeze_bytes (Some fr)) @ p) =
      Some (fr\<lparr>frz_input_buffer := frz_input_buffer fr @ replicate (3 * length (frz_input_buffer fr)) 0\<rparr>, p)"
proof -
  let ?b = "frz_input_buffer fr"
  define h where "h = put_le32 (frz_size fr) @ put_le32 (frz_uid fr) @ put_le32 (frz_current_sample fr) @
    put_le32 (frz_current_vi fr) @ put_le32 (frz_length_samples fr)"
  have bytes: "freeze_bytes (Some fr) = put_le32 1 @ h @ inputs_bytes ?b"
    by (simp add: freeze_bytes_def h_def inputs_bytes_def)
  have "unat (4 * k) = 4 * unat k" if "unat k < 2 ^ 30" for k :: u32
    using that by (simp add: unat_word_ariths(2))
  from this [of "frz_length_samples fr + 1"] have n: "unat (4 * frz_length_samples fr + 4) = 4 * length ?b"
    using assms by (simp add: distrib_left)
  have len: "length (inputs_bytes xs) = 4 * length xs" for xs by (induction xs) (simp_all add: inputs_bytes_def)
  show "mread 4 (freeze_bytes (Some fr) @ p) = Some (put_le32 1, drop 4 (freeze_bytes (Some fr)) @ p)"
    by (simp add: bytes)
  have h: "mread 20 (h @ q) = Some (h, q)" for q by (simp add: h_def mread_def)
  have at: "u32_at h 0 = frz_size fr" "u32_at h 4 = frz_uid fr" "u32_at h 8 = frz_current_sample fr"
    "u32_at h 12 = frz_current_vi fr" "u32_at h 16 = frz_length_samples fr"
    by (simp_all add: h_def struct_simps)
  show "read_freeze (drop 4 (freeze_bytes (Some fr)) @ p) =
      Some (fr\<lparr>frz_input_buffer := ?b @ replicate (3 * length ?b) 0\<rparr>, p)"
    using assms(1)
    by (simp add: read_freeze_def bytes h at n len inputs_bytes_inverse [of ?b, unfolded assms(1)])
qed

text \<open>The zeros that a load appends to the frozen inputs are never used.\<close>

lemma unfreeze_padding:
  assumes "unat (frz_current_sample fr) \<le> length (frz_input_buffer fr)"
  shows "core_vcr_unfreeze env (fr\<lparr>frz_input_buffer := frz_input_buffer fr @ zs\<rparr>) s = core_vcr_unfreeze env fr s"
proof -
  let ?f = "fr\<lparr>frz_input_buffer := frz_input_buffer fr @ zs\<rparr>"
  have sel: "frz_size ?f = frz_size fr" "frz_uid ?f = frz_uid fr" "frz_current_sample ?f = frz_current_sample fr"
    "frz_current_vi ?f = frz_current_vi fr" "frz_length_samples ?f = frz_length_samples fr" by simp_all
  have rec: "unfreeze_recording env (fr\<lparr>frz_input_buffer := frz_input_buffer fr @ zs\<rparr>) lt u = unfreeze_recording env fr lt u" for lt u
    using assms by (simp add: unfreeze_recording_def Let_def)
  show ?thesis unfolding core_vcr_unfreeze_def Let_def by (simp only: sel rec)
qed

lemma first_block_si:
  "si_reg_of (drop 188 (first_block x m)) = si_register m"
proof -
  have "si_reg_of (si_reg_bytes r @ p) = r" for r p
    by (simp add: si_reg_of_def si_reg_bytes_def struct_simps)
  then show ?thesis by (simp add: first_block_def)
qed

lemma first_block_flash:
  assumes "length (PIF_RAM m) = 0x40"
  shows "check_flashram_infos (drop 0x8021D0 (first_block x m)) = check_flashram_infos (save_flashram_infos (flash m))"
proof -
  have "get_le32 (a @ p) i = get_le32 a i" if "i + 4 \<le> length a" for a p i
    using that by (simp add: get_le32_def nth_append)
  moreover have "length (save_flashram_infos f) = 24" for f by (simp add: save_flashram_infos_def)
  ultimately have "check_flashram_infos (save_flashram_infos f @ p) = check_flashram_infos (save_flashram_infos f)" for f p
    by (simp add: check_flashram_infos_def)
  then show ?thesis using assms by (simp add: first_block_def)
qed

text \<open>
  A machine whose savestates can be loaded: the registers pass the checks of a load, and the events
  \<^term>\<open>xs\<close> of its queue include the serial interrupt, so that no transfer is cut short.
\<close>

definition savable :: "'w machine \<Rightarrow> event list \<Rightarrow> bool" where
  "savable m xs \<longleftrightarrow> queue_abs (queue m) xs \<and> (\<forall>x\<in>set xs. fst x \<noteq> 0xFFFFFFFF) \<and> spec_get SI_INT xs \<noteq> 0 \<and>
     length (PIF_RAM m) = 0x40 \<and> check_register_validity (si_register m) \<and>
     check_flashram_infos (save_flashram_infos (flash m)) = Some True"

lemma load_checked_saved:
  assumes "savable m xs" "length xs < 128"
  shows "load_checked env t buf (first_block x m @ encode_events xs @ p) u = do {
    (ok, p3, m1) \<leftarrow> load_movie_part env t p u;
    if \<not> ok then
      let m2 = st_report env t Res_Cancelled [] m1
      in Some (if u32_at p 0 \<noteq> 0 then after_load env m2 else m2)
    else overwrite_memory env t buf (first_block x m) (encode_events xs) p3 m1 }"
proof -
  have b: "length (first_block x m) = 0xA02B94"
    using assms(1) length_first_block [of m x] by (simp add: savable_def)
  have s: "check_register_validity (si_reg_of (drop 188 (first_block x m)))"
    using assms(1) by (simp add: savable_def first_block_si)
  have f: "check_flashram_infos (drop 0x8021D0 (first_block x m)) = Some True"
    using assms(1) by (simp add: savable_def first_block_flash)
  have e: "read_events 128 (encode_events xs @ p) = Some (Some (encode_events xs), p)"
    using assms by (intro read_events_encode) (simp_all add: savable_def)
  show ?thesis using b s f by (simp add: load_checked_def e)
qed

lemma load_movie_saved:
  assumes "ignore_warnings t"
    "\<And>f. fr = Some f \<Longrightarrow> length (frz_input_buffer f) = unat (frz_length_samples f + 1) \<and>
      length (frz_input_buffer f) < 2 ^ 30 \<and> unat (frz_current_sample f) \<le> length (frz_input_buffer f)"
  shows "load_movie_part env t (freeze_bytes fr @ p) u = (case fr of
      None \<Rightarrow> Some (True, p, u)
    | Some f \<Rightarrow> map_option (\<lambda>(_, v). (True, p, u\<lparr>vcr := v\<rparr>)) (core_vcr_unfreeze (vcr_plugins env) f (vcr u)))"
proof (cases fr)
  case None
  then show ?thesis using assms(1) by (simp add: load_movie_part_def freeze_bytes_def)
next
  case (Some f)
  note r = assms(2) [OF Some, THEN conjunct1] assms(2) [OF Some, THEN conjunct2, THEN conjunct1]
  have u: "core_vcr_unfreeze e (f\<lparr>frz_input_buffer := frz_input_buffer f @ zs\<rparr>) v = core_vcr_unfreeze e f v" for e zs v
    using assms(2) [OF Some] by (simp add: unfreeze_padding)
  show ?thesis
    using assms(1) Some
    by (cases "core_vcr_unfreeze (vcr_plugins env) f (vcr u)")
      (auto simp: load_movie_part_def read_freeze_bytes [OF r] u)
qed

lemma overwrite_saved:
  assumes "savable m xs" "length xs < 128" "queue_abs (queue u) ys"
    "sorted (map (due (core_Count (cpu u)) (SPECIAL_done (queue u))) xs)"
  obtains q where "load_eventqueue_infos (core_Count (cpu u)) (encode_events xs @ replicate (1024 - length (encode_events xs)) 0) (queue u) = Some q"
    "queue_abs q xs"
    "overwrite_memory env t buf (first_block x m) (encode_events xs) [] u =
      Some (after_load env (st_report env t Res_Ok buf (callback_load_state env (restored m (u\<lparr>queue := q\<rparr>)))))"
proof -
  let ?c = "core_Count (cpu u)"
  have "length xs \<le> pool_size" using assms(2) by (simp add: pool_size_def)
  then obtain q where q: "load_eventqueue_infos ?c (encode_events xs @ replicate (1024 - length (encode_events xs)) 0) (queue u) = Some q"
      "queue_abs q (spec_load ?c (SPECIAL_done (queue u)) xs [])"
    using load_eventqueue_abs [OF assms(3)] assms(1) unfolding savable_def by blast
  then have abs: "queue_abs q xs" using spec_load_sorted [of ?c "SPECIAL_done (queue u)" "[]" xs] assms(4) by simp
  then have "queue_abs (q\<lparr>next_interrupt := n\<rparr>) xs" for n by (auto simp: queue_abs_def queue_rep_def)
  then have "get_event SI_INT (q\<lparr>next_interrupt := n\<rparr>) = Some (spec_get SI_INT xs)" for n
    using get_event_rep unfolding queue_abs_def by blast
  then have "finish_dma (restored m (u\<lparr>queue := q\<rparr>)) = Some (restored m (u\<lparr>queue := q\<rparr>))"
    using assms(1) by (simp add: finish_dma_def restored_def savable_def)
  moreover have "load_memory_from_buffer (first_block x m) (u\<lparr>queue := q\<rparr>) = Some (restored m (u\<lparr>queue := q\<rparr>))"
    using assms(1) by (intro load_first_block) (simp add: savable_def)
  ultimately have "overwrite_memory env t buf (first_block x m) (encode_events xs) [] u =
      Some (after_load env (st_report env t Res_Ok buf (callback_load_state env (restored m (u\<lparr>queue := q\<rparr>)))))"
    using q(1) by (simp add: overwrite_memory_def read_screen_def restore_screen_def)
  with q(1) abs show ?thesis by (rule that)
qed

lemma overwrite_saved_any:
  assumes "savable m xs" "length xs < 128" "queue_abs (queue u) ys"
    "sorted (map (due (core_Count (cpu u)) (SPECIAL_done (queue u))) xs)"
  shows "\<exists>q. queue_abs q xs \<and> (\<forall>w buf. overwrite_memory env t buf (first_block x m) (encode_events xs) [] (u\<lparr>vcr := w\<rparr>) =
    Some (after_load env (st_report env t Res_Ok buf (callback_load_state env (restored m (u\<lparr>vcr := w, queue := q\<rparr>))))))"
proof -
  let ?load = "\<lambda>q. load_eventqueue_infos (core_Count (cpu u))
    (encode_events xs @ replicate (1024 - length (encode_events xs)) 0) (queue u) = Some q"
  obtain q where q: "?load q" "queue_abs q xs" using overwrite_saved [OF assms] by metis
  have "overwrite_memory env t buf (first_block x m) (encode_events xs) [] (u\<lparr>vcr := w\<rparr>) =
    Some (after_load env (st_report env t Res_Ok buf (callback_load_state env (restored m (u\<lparr>vcr := w, queue := q\<rparr>)))))"
    for w buf
    by (rule overwrite_saved [of m xs "u\<lparr>vcr := w\<rparr>" ys env t buf x]) (use assms q in simp_all)
  with q(2) show ?thesis by blast
qed

section \<open>Properties\<close>

text \<open>The movie engine of \<^term>\<open>u\<close> after loading a state of \<^term>\<open>m\<close>: the frozen movie is unfrozen when there is one.\<close>

definition movie_after_load :: "'w machine_env \<Rightarrow> 'w machine \<Rightarrow> 'w machine \<Rightarrow> 'w vcr_state option" where
  "movie_after_load env m u = (case core_vcr_freeze (vcr_plugins env) (vcr m) of
      Some (Some fr, _) \<Rightarrow> map_option snd (core_vcr_unfreeze (vcr_plugins env) fr (vcr u))
    | _ \<Rightarrow> Some (vcr u))"

definition freezable :: "'w vcr_state \<Rightarrow> bool" where
  "freezable v \<longleftrightarrow> g_task v \<noteq> task_idle \<longrightarrow>
     length_samples (g_header v) < 0x3FFFFFFF \<and> m_current_sample v \<le> length_samples (g_header v)"

lemma freeze_shape:
  assumes "core_vcr_freeze e v = Some (Some f, v')" "freezable v"
  shows "length (frz_input_buffer f) = unat (frz_length_samples f + 1) \<and>
    length (frz_input_buffer f) < 2 ^ 30 \<and> unat (frz_current_sample f) \<le> length (frz_input_buffer f)"
proof -
  let ?n = "length_samples (g_header v)"
  have f: "frz_length_samples f = ?n" "frz_current_sample f = m_current_sample v"
    "frz_input_buffer f = take (unat ?n) (g_movie_inputs v) @ [0]" "unat ?n \<le> length (g_movie_inputs v)" "g_task v \<noteq> task_idle"
    using assms(1) by (auto simp: core_vcr_freeze_def Let_def split: if_splits elim!: bind_SomeE)
  have n: "unat ?n < 0x3FFFFFFF" "unat (m_current_sample v) \<le> unat ?n"
    using assms(2) f(5) by (simp_all add: freezable_def word_less_nat_alt word_le_nat_alt)
  then have "unat (?n + 1) = unat ?n + 1" by (simp add: unat_word_ariths)
  with n f show ?thesis by simp
qed

lemma generate_savestate_parts:
  assumes "generate_savestate env m = Some (st, m1)" "savable m xs" "\<not> (mge_available env \<and> st_screenshot (core_cfg env))"
  obtains fr v h where "core_vcr_freeze (vcr_plugins env) (vcr m) = Some (fr, v)" "m1 = m\<lparr>vcr := v\<rparr>" "length xs < 128" "length h = 32"
    "st = h @ first_block (cop0_after env) m @ encode_events xs @ freeze_bytes fr @ []"
proof -
  have q: "save_eventqueue_infos (queue m) = Some (encode_events xs)"
    using assms(2) save_eventqueue_abs unfolding savable_def by blast
  have b: "first_block a (m\<lparr>vcr := v\<rparr>) = first_block a m" for a v by (simp add: first_block_def)
  obtain fr v where v: "core_vcr_freeze (vcr_plugins env) (vcr m) = Some (fr, v)"
    using assms(1) by (auto simp: generate_savestate_def elim!: bind_SomeE)
  with assms(1,3) q b have l: "\<not> 1024 < length (encode_events xs)"
    and ex: "\<exists>h. bblock (rom_md5 (roms m)) 0 32 = Some h \<and> m1 = m\<lparr>vcr := v\<rparr> \<and>
      st = h @ first_block (cop0_after env) m @ encode_events xs @ freeze_bytes fr"
    by (auto simp: generate_savestate_def Let_def split: if_splits elim!: bind_SomeE)
  from l have "length xs < 128" by (simp add: length_encode_events)
  moreover obtain h where "bblock (rom_md5 (roms m)) 0 32 = Some h" "m1 = m\<lparr>vcr := v\<rparr>"
      "st = h @ first_block (cop0_after env) m @ encode_events xs @ freeze_bytes fr"
    using ex by blast
  ultimately show ?thesis by (intro that [OF v, of h]) (auto simp: bblock_def split: if_splits)
qed


text \<open>A machine with a serial interrupt pending and a host whose compressor is undone.\<close>

definition st_example :: "queue_state \<Rightarrow> nat machine" where
  "st_example q = example_machine\<lparr>queue := q\<rparr>"

definition st_example_bytes :: "queue_state \<Rightarrow> bytes" where
  "st_example_bytes q = replicate 32 0x30 @ first_block 0 (st_example q) @ encode_events [(SI_INT, 0x900)] @ put_le32 0"

definition st_example_env :: "queue_state \<Rightarrow> nat machine_env" where
  "st_example_env q = example_machine_env\<lparr>st_gunzip := (\<lambda>_ n. if length (st_example_bytes q) \<le> n
     then Deflate_success (st_example_bytes q) else Insufficient_space)\<rparr>"

definition st_example_task :: "st_job \<Rightarrow> string \<Rightarrow> st_task" where
  "st_example_task j f = \<lparr>job = j, medium = St_path, st_path = f, st_buffer = [], st_callback_of = User_callback None, ignore_warnings = True\<rparr>"

lemma st_example_fields [simp]:
  "queue (st_example q) = q" "vcr (st_example q) = example_vcr task_idle 0 []" "roms (st_example q) = example_roms"
  by (simp_all add: st_example_def)

lemma st_example_vcr: "st_example q\<lparr>vcr := example_vcr task_idle 0 []\<rparr> = st_example q"
  by (simp add: st_example_def example_machine_def)

lemma st_example_savable:
  assumes "queue_abs q [(SI_INT, 0x900)]"
  shows "savable (st_example q) [(SI_INT, 0x900)]"
  using assms
  by (simp add: savable_def st_example_def check_register_validity_def check_flashram_infos_def infos_fields
      check_loop_128 flash_example_def)

lemma st_example_generates:
  assumes "queue_abs q [(SI_INT, 0x900)]"
  shows "generate_savestate (st_example_env q) (st_example q) = Some (st_example_bytes q, st_example q)"
  using save_eventqueue_abs [OF assms]
  by (simp add: st_example_vcr Let_def generate_savestate_def st_example_env_def core_vcr_freeze_def bblock_def
      length_encode_events freeze_bytes_def st_example_bytes_def)


text \<open>
  Simplifying the task queue can remove a task that duplicates nothing: with three
  tasks for one file in a row the index of the third is collected twice, and the second
  erasure hits the task behind it, which is then neither performed nor reported.
\<close>

theorem simplify_erases_other:
  assumes "\<forall>t\<in>{a, b, c}. job t = St_save \<and> medium t = St_path \<and> st_path t = f"
    and "\<not> (job x = St_save \<and> medium x = St_path \<and> st_path x = f)"
  shows "savestates_simplify_tasks [a, b, c, x] = [a]"
proof -
  have n: "[0..<4] = [0, 1, 2, 3 :: nat]" "[1..<4] = [1, 2, 3 :: nat]" "[2..<4] = [2, 3 :: nat]" "[3..<4] = [3 :: nat]"
    by (simp_all add: upt_rec)
  have l: "length [a, b, c, x] = 4" "0 + 1 = (1 :: nat)" "1 + 1 = (2 :: nat)" "2 + 1 = (3 :: nat)" "3 + 1 = (4 :: nat)" by simp_all
  have i: "[a, b, c, x] ! 0 = a" "[a, b, c, x] ! 1 = b" "[a, b, c, x] ! 2 = c" "[a, b, c, x] ! 3 = x" by simp_all
  have p: "job a = St_save" "job b = St_save" "job c = St_save" "medium a = St_path" "medium b = St_path" "medium c = St_path"
    "st_path a = f" "st_path b = f" "st_path c = f" using assms(1) by simp_all
  have x: "job x = St_load \<or> medium x \<noteq> St_path \<or> st_path x \<noteq> f" using assms(2) by (cases "job x") auto
  have "duplicates_of [a, b, c, x] 0 = [1, 2]" "duplicates_of [a, b, c, x] 1 = [2]" "duplicates_of [a, b, c, x] 2 = []"
    "duplicates_of [a, b, c, x] 3 = []"
    unfolding duplicates_of_def l n by (use p x in \<open>auto simp: i\<close>)
  then have "concat (map (duplicates_of [a, b, c, x]) [0..<4]) = [1, 2, 2]" by (simp add: n)
  then show ?thesis unfolding savestates_simplify_tasks_def l by (simp add: erase_indices_def)
qed

theorem simplify_erases_other_witness:
  "savestates_simplify_tasks [st_example_task St_save ''a'', st_example_task St_save ''a'', st_example_task St_save ''a'', st_example_task St_load ''b''] =
     [st_example_task St_save ''a'']"
  by (rule simplify_erases_other) (simp_all add: st_example_task_def)

text \<open>
  A savestate file that passes the register check can make the load write outside
  of RDRAM: the check compares a word index with the size in bytes, so every transfer address
  from the last 64 bytes of RDRAM up to 32 MB is let through, and finishing the transfer of a
  state without a serial interrupt writes 64 bytes there.
\<close>

theorem valid_state_writes_outside:
  assumes "queue_abs (queue m) xs" "spec_get SI_INT xs = 0"
    and "0x7FFFC4 \<le> si_dram_addr (si_register m)" "si_dram_addr (si_register m) \<le> 0x1FFFFC0"
  shows "check_register_validity (si_register m) \<and> finish_dma m = None"
proof -
  let ?k = "unat (si_dram_addr (si_register m) div 4)"
  have k: "?k = unat (si_dram_addr (si_register m)) div 4" by (simp add: unat_div)
  have b: "0x7FFFC4 \<le> unat (si_dram_addr (si_register m))" "unat (si_dram_addr (si_register m)) \<le> 0x1FFFFC0"
    using assms(3,4) by (simp_all add: word_le_nat_alt)
  then have "unat (si_dram_addr (si_register m) div 4 + 16) = ?k + 16" using k by (simp add: unat_word_ariths)
  then have ok: "check_register_validity (si_register m)"
    using b k by (simp add: check_register_validity_def word_less_nat_alt)
  have out: "pif_words_to_rdram n i p k ram = None" if "0x200000 < k + i + n" "0 < n" for n i p k ram
    using that by (induction n i p k ram rule: pif_words_to_rdram.induct) (auto simp: rdram_store_def bind_eq_None_conv)
  have "copy_pif_to_rdram m = None" unfolding copy_pif_to_rdram_def using b k by (subst out) simp_all
  moreover have "get_event SI_INT (queue m) = Some 0"
    using assms(1,2) get_event_rep unfolding queue_abs_def by metis
  ultimately show ?thesis using ok by (simp add: finish_dma_def)
qed

theorem valid_state_writes_outside_witness:
  "finish_dma (example_machine\<lparr>si_register := (si_register example_machine)\<lparr>si_dram_addr := 0x1000000\<rparr>\<rparr>) = None"
  using valid_state_writes_outside [of "example_machine\<lparr>si_register := (si_register example_machine)\<lparr>si_dram_addr := 0x1000000\<rparr>\<rparr>" "[]"]
  by (simp add: queue_init_abs)

end
