(* ===== verification/Pif_Read.thy ===== *)
theory Pif_Read
  imports Savestates
begin

text \<open>
  The walk over PIF memory that fetches the input of the controllers, \<^verbatim>\<open>update_pif_read\<close> of
  \<^verbatim>\<open>Core/memory/pif.cpp\<close>, and the two walks as operations of the machine.  This is where the emulator
  pauses for a frame advance, loads and saves states, runs the cheats and asks the movie engine
  for the input.
\<close>

section \<open>One controller\<close>

definition execute_cheats :: "'w machine \<Rightarrow> 'w machine option" where
  "execute_cheats m = map_option (\<lambda>r. m\<lparr>rdram := r\<rparr>) (cht_execute (gs_button m) (vcr_cheats (vcr m)) (rdram m))"

definition set_world :: "'w \<Rightarrow> 'w machine \<Rightarrow> 'w machine" where
  "set_world w m = m\<lparr>vcr := (vcr m)\<lparr>world := w\<rparr>\<rparr>"

text \<open>\<^verbatim>\<open>input_read_controller(Control, Command)\<close>: the plugin may change PIF memory from the command on.\<close>

definition plugin_read_controller :: "'w machine_env \<Rightarrow> nat \<Rightarrow> nat \<Rightarrow> 'w machine \<Rightarrow> 'w machine" where
  "plugin_read_controller env Control i m =
    (let (p, w) = call_at (read_controller (input_plug env) Control) i (PIF_RAM m) (world (vcr m))
     in set_world w (m\<lparr>PIF_RAM := p\<rparr>))"

definition internal_ReadController :: "'w machine_env \<Rightarrow> nat \<Rightarrow> nat \<Rightarrow> 'w machine \<Rightarrow> 'w machine option" where
  "internal_ReadController env Control i m = do {
     c2 \<leftarrow> bget (PIF_RAM m) (i + 2);
     let ctl = controls (vcr m) Control;
     if c2 = 1 then
       if Present ctl then do {
         m1 \<leftarrow> execute_cheats m;
         let m2 = m1\<lparr>lag_count := 0\<rparr>;
         (x, v) \<leftarrow> vcr_on_controller_poll (vcr_plugins env) Control 0 (vcr m2);
         p \<leftarrow> bwrite (i + 3) (put_le32 x) (PIF_RAM m2);
         Some (m2\<lparr>vcr := v, PIF_RAM := p\<rparr>) }
       else Some m
     else if c2 = 2 \<or> c2 = 3 then
       if Present ctl \<and> Plugin ctl = ce_raw \<and> has_controller_command (input_plug env)
       then Some (plugin_read_controller env Control i m) else Some m
     else Some m }"

section \<open>Pausing\<close>

text \<open>
  The two waiting loops.  While the emulation sleeps the other threads run; where they never let
  it go on, the loop does not return and its value is \<^term>\<open>None\<close>.
\<close>

definition work_if :: "bool \<Rightarrow> 'w machine_env \<Rightarrow> 'w machine \<Rightarrow> 'w machine option" where
  "work_if allowed env m = (if allowed then st_do_work env m else Some m)"

partial_function (option) wait_counter_loop :: "'w machine_env \<Rightarrow> bool \<Rightarrow> 'w machine \<Rightarrow> 'w machine option" where
  "wait_counter_loop env stAllowed m =
    (if g_wait_counter m = 0 then Some m
     else do {
       m1 \<leftarrow> work_if stAllowed env (host_threads env m);
       wait_counter_loop env stAllowed m1 })"

partial_function (option) paused_loop :: "'w machine_env \<Rightarrow> bool \<Rightarrow> 'w machine \<Rightarrow> 'w machine option" where
  "paused_loop env stAllowed m =
    (if \<not> emu_paused (vcr m) then Some m
     else do {
       m1 \<leftarrow> work_if stAllowed env (callback_interval env (host_threads env m));
       paused_loop env stAllowed m1 })"

definition count_frame_advance :: "'w vcr_state \<Rightarrow> 'w vcr_state" where
  "count_frame_advance v =
    (if frame_advance_outstanding v = 1 then core_vr_pause_emu (v\<lparr>frame_advance_outstanding := 0\<rparr>)
     else if frame_advance_outstanding v > 1 then v\<lparr>frame_advance_outstanding := frame_advance_outstanding v - 1\<rparr>
     else v)"

definition pause_before_input :: "'w machine_env \<Rightarrow> bool \<Rightarrow> 'w machine \<Rightarrow> 'w machine option" where
  "pause_before_input env stAllowed m = do {
     let m1 = (if g_wait_counter m = 0 then m\<lparr>vcr := count_frame_advance (vcr m)\<rparr> else m);
     m2 \<leftarrow> wait_counter_loop env stAllowed m1;
     paused_loop env stAllowed m2 }"

section \<open>The walk of a PIF read\<close>

definition read_raw_controller :: "'w machine_env \<Rightarrow> nat \<Rightarrow> nat \<Rightarrow> 'w machine \<Rightarrow> 'w machine option" where
  "read_raw_controller env channel i m = do {
     let m1 = plugin_read_controller env channel i m;
     d \<leftarrow> bblock (PIF_RAM m1) (i + 3) 4;
     let (y, w) = callback_input (vcr_plugins env) channel (u32_at d 0) (world (vcr m1));
     p \<leftarrow> bwrite (i + 3) (put_le32 y) (PIF_RAM m1);
     Some (set_world w (m1\<lparr>PIF_RAM := p\<rparr>)) }"

text \<open>
  The branch for channels 0 to 3.  The result says whether the walk is abandoned because an old
  savestate was loaded, and carries the local variable \<^verbatim>\<open>once\<close>; \<^verbatim>\<open>stAllowed\<close> is cleared unless abandoned.
\<close>

definition read_channel ::
  "'w machine_env \<Rightarrow> nat \<Rightarrow> nat \<Rightarrow> bool \<Rightarrow> bool \<Rightarrow> 'w machine \<Rightarrow> (bool \<times> bool \<times> 'w machine) option" where
  "read_channel env channel i once stAllowed m = do {
     (once1, m1) \<leftarrow> (if once \<and> channel \<le> controllerRead m then do {
         c2 \<leftarrow> bget (PIF_RAM m) (i + 2);
         if c2 = 1 then map_option (Pair False) (pause_before_input env stAllowed m) else Some (once, m) }
       else Some (once, m));
     m2 \<leftarrow> work_if stAllowed env m1;
     if g_st_old m2 then Some (True, once1, m2\<lparr>g_st_old := False\<rparr>)
     else do {
       let m3 = m2\<lparr>controllerRead := channel\<rparr>;
       m4 \<leftarrow> (if Present (controls (vcr m3) channel) \<and> RawData (controls (vcr m3) channel) \<and> g_task (vcr m3) = task_idle
              then read_raw_controller env channel i m3 else internal_ReadController env channel i m3);
       Some (False, once1, m4) } }"

text \<open>The loop; its flag is \<^term>\<open>False\<close> where the function returns from inside it.\<close>

function pif_read_loop ::
  "'w machine_env \<Rightarrow> nat \<Rightarrow> nat \<Rightarrow> bool \<Rightarrow> bool \<Rightarrow> 'w machine \<Rightarrow> (bool \<times> 'w machine) option" where
  "pif_read_loop env i channel once stAllowed m =
    (if i < 0x40 then do {
       b \<leftarrow> bget (PIF_RAM m) i;
       if b = 0 then
         if channel + 1 > 6 then Some (True, m)
         else pif_read_loop env (i + 1) (channel + 1) once stAllowed m
       else if b = 0xFE then Some (True, m)
       else if b = 0xFF \<or> b = 0xB4 \<or> b = 0x56 \<or> b = 0xB8 then pif_read_loop env (i + 1) channel once stAllowed m
       else if b AND 0xC0 = 0 then do {
         (abandoned, once1, m1) \<leftarrow>
           (if channel < 4 then read_channel env channel i once stAllowed m else Some (False, once, m));
         if abandoned then Some (False, m1)
         else do {
           b0 \<leftarrow> bget (PIF_RAM m1) i;
           b1 \<leftarrow> bget (PIF_RAM m1) (i + 1);
           pif_read_loop env (i + unat b0 + unat (b1 AND 0x3F) + 2) (channel + 1) once1
             (if channel < 4 then False else stAllowed) m1 } }
       else Some (True, m) }
     else Some (True, m))"
  by pat_completeness auto

termination
  by (relation "measure (\<lambda>(env, i, channel, once, stAllowed, m). 0x40 - i)") auto

declare pif_read_loop.simps [simp del]

definition update_pif_read :: "'w machine_env \<Rightarrow> 'w machine \<Rightarrow> 'w machine option" where
  "update_pif_read env m = do {
     let once = (emu_paused (vcr m) \<or> frame_advance_outstanding (vcr m) > 0 \<or> g_wait_counter m \<noteq> 0);
     (done, m1) \<leftarrow> pif_read_loop env 0 0 once True m;
     Some (if done then set_world (read_controller_end (input_plug env) (world (vcr m1))) m1 else m1) }"

text \<open>\<^verbatim>\<open>update_pif_write\<close> on the machine.\<close>

definition m_update_pif_write :: "'w machine_env \<Rightarrow> 'w machine \<Rightarrow> 'w machine option" where
  "m_update_pif_write env m = do {
     (p, s, w) \<leftarrow> update_pif_write (g_pif_lut env) (input_plug env) (controls (vcr m)) (PIF_RAM m) (pif m) (world (vcr m));
     Some (set_world w (m\<lparr>PIF_RAM := p, pif := s\<rparr>)) }"

section \<open>The end of a pause\<close>

text \<open>One turn of the pause loop without pending savestate work.\<close>

definition pause_turn :: "'w machine_env \<Rightarrow> 'w machine \<Rightarrow> 'w machine" where
  "pause_turn env m = callback_interval env (host_threads env m)"

lemma work_if_idle: "g_tasks m = [] \<Longrightarrow> work_if b env m = Some m"
  by (simp add: work_if_def st_do_work_def)

lemma paused_loop_turn:
  assumes "emu_paused (vcr m)" "g_tasks (pause_turn env m) = []"
  shows "paused_loop env b m = paused_loop env b (pause_turn env m)"
  using assms by (subst paused_loop.simps) (simp add: pause_turn_def work_if_idle)

lemma paused_loop_turns:
  assumes "\<forall>i. g_tasks ((pause_turn env ^^ i) m) = []" "\<forall>i<n. emu_paused (vcr ((pause_turn env ^^ i) m))"
  shows "paused_loop env b m = paused_loop env b ((pause_turn env ^^ n) m)"
  using assms(2)
proof (induction n)
  case (Suc n)
  have "g_tasks (pause_turn env ((pause_turn env ^^ n) m)) = []" using assms(1) [rule_format, of "Suc n"] by simp
  with Suc show ?case by (simp add: paused_loop_turn)
qed simp

text \<open>Whatever the loop returns is not paused and was reached by finitely many turns.\<close>

definition resumed_after_turns :: "'w machine_env \<Rightarrow> 'w machine \<Rightarrow> 'w machine \<Rightarrow> bool" where
  "resumed_after_turns env m m' \<longleftrightarrow> (\<exists>n. m' = (pause_turn env ^^ n) m \<and> \<not> emu_paused (vcr m') \<and>
     (\<forall>i<n. emu_paused (vcr ((pause_turn env ^^ i) m))))"

lemma resumed_step:
  assumes "emu_paused (vcr m)" "resumed_after_turns env (pause_turn env m) m'"
  shows "resumed_after_turns env m m'"
proof -
  obtain n where n: "m' = (pause_turn env ^^ n) (pause_turn env m)" "\<not> emu_paused (vcr m')"
      "\<forall>i<n. emu_paused (vcr ((pause_turn env ^^ i) (pause_turn env m)))"
    using assms(2) by (auto simp: resumed_after_turns_def)
  have "\<forall>i<Suc n. emu_paused (vcr ((pause_turn env ^^ i) m))"
    using assms(1) n(3) by (auto simp: less_Suc_eq_0_disj funpow_swap1)
  with n(1,2) show ?thesis unfolding resumed_after_turns_def by (intro exI [of _ "Suc n"]) (simp add: funpow_swap1)
qed

lemma paused_loop_returned:
  assumes "paused_loop env b m = Some m'"
  shows "(\<forall>i. g_tasks ((pause_turn env ^^ i) m) = []) \<longrightarrow> resumed_after_turns env m m'"
proof (rule paused_loop.raw_induct [OF _ assms])
  fix loop :: "'a machine_env \<Rightarrow> bool \<Rightarrow> 'a machine \<Rightarrow> 'a machine option" and env b m m'
  assume IH: "\<And>env b m m'. loop env b m = Some m' \<Longrightarrow>
      (\<forall>i. g_tasks ((pause_turn env ^^ i) m) = []) \<longrightarrow> resumed_after_turns env m m'"
    and body: "(if \<not> emu_paused (vcr m) then Some m
      else do { m1 \<leftarrow> work_if b env (callback_interval env (host_threads env m)); loop env b m1 }) = Some m'"
  show "(\<forall>i. g_tasks ((pause_turn env ^^ i) m) = []) \<longrightarrow> resumed_after_turns env m m'"
  proof (rule impI)
    assume idle: "\<forall>i. g_tasks ((pause_turn env ^^ i) m) = []"
    show "resumed_after_turns env m m'"
    proof (cases "emu_paused (vcr m)")
      case False
      with body show ?thesis unfolding resumed_after_turns_def by (intro exI [of _ 0]) auto
    next
      case True
      have "work_if b env (callback_interval env (host_threads env m)) = Some (pause_turn env m)"
        using idle [rule_format, of 1] by (simp add: work_if_idle pause_turn_def)
      with True body have "loop env b (pause_turn env m) = Some m'" by simp
      moreover have "g_tasks ((pause_turn env ^^ i) (pause_turn env m)) = []" for i
        using idle [rule_format, of "Suc i"] by (simp add: funpow_swap1)
      ultimately show ?thesis using IH True by (blast intro: resumed_step)
    qed
  qed
qed


text \<open>A host that resumes the emulator in its first turn.\<close>

definition resuming_env :: "nat machine_env" where
  "resuming_env = example_machine_env\<lparr>host_threads := (\<lambda>m. m\<lparr>vcr := core_vr_resume_emu (vcr m)\<rparr>)\<rparr>"

definition paused_example :: "nat machine" where
  "paused_example = example_machine\<lparr>vcr := (example_vcr task_idle 0 [])\<lparr>emu_paused := True\<rparr>\<rparr>"

lemma resuming_tasks: "g_tasks ((pause_turn resuming_env ^^ i) paused_example) = []"
  by (induction i) (simp_all add: pause_turn_def resuming_env_def paused_example_def)


end
