(* ===== verification/Dma.thy ===== *)
theory Dma
  imports Pif_Read
begin

text \<open>
  The transfers between RDRAM and the cartridge, the RSP memories and the PIF, \<^verbatim>\<open>Core/memory/dma.cpp\<close>,
  for the pure interpreter.  Every array has its size, and an access outside it is \<^term>\<open>None\<close>.
\<close>

section \<open>Buffers as arrays\<close>

definition byte_array :: "bytes \<Rightarrow> array" where
  "byte_array xs i = xs ! i"

text \<open>The copy loops that stop at the end of either side.\<close>

fun copy_until :: "nat \<Rightarrow> array \<Rightarrow> nat \<Rightarrow> u32 \<Rightarrow> u32 \<Rightarrow> array \<Rightarrow> nat \<Rightarrow> u32 \<Rightarrow> u32 \<Rightarrow> array option" where
  "copy_until 0 src ssz slast soff dst dsz dlast doff = Some dst"
| "copy_until (Suc n) src ssz slast soff dst dsz dlast doff =
     (if soff > slast \<or> doff > dlast then Some dst
      else if unat (soff XOR 3) < ssz \<and> unat (doff XOR 3) < dsz
      then copy_until n src ssz slast (soff + 1) (dst(unat (doff XOR 3) := src (unat (soff XOR 3)))) dsz dlast (doff + 1)
      else None)"

section \<open>The peripheral interface\<close>

definition stop_if :: "bool \<Rightarrow> 'w machine \<Rightarrow> 'w machine" where
  "stop_if b m = (if b then set_stop m else m)"

text \<open>The common end: the busy bits and the interrupt at the end of the transfer.\<close>

definition pi_finish :: "u32 \<Rightarrow> u32 \<Rightarrow> 'w machine \<Rightarrow> 'w machine option" where
  "pi_finish busy delay m = m_add_event PI_INT delay (count_now
     (m\<lparr>pi_register := (pi_register m)\<lparr>read_pi_status_reg := read_pi_status_reg (pi_register m) OR busy\<rparr>\<rparr>))"

definition read_sram_file :: "'w machine \<Rightarrow> array" where
  "read_sram_file m = fread0 0x8000 (g_sram_file (flash m)) (sram m)"

definition dma_to_sram :: "'w machine \<Rightarrow> 'w machine option" where
  "dma_to_sram m = do {
     s \<leftarrow> copy_s8 (unat (pi_rd_len_reg (pi_register m) AND 0xFFFFFF) + 1) (rdram m) rdram_size
            (pi_dram_addr_reg (pi_register m)) (read_sram_file m) 0x8000 (pi_cart_addr_reg (pi_register m) - 0x08000000);
     Some (m\<lparr>sram := s, flash := (flash m)\<lparr>g_sram_file := fwrite0 0x8000 s (g_sram_file (flash m)), use_flashram := - 1\<rparr>\<rparr>) }"

definition rom_bytes :: "'w machine \<Rightarrow> bytes" where
  "rom_bytes m = (case rom (roms m) of Some r \<Rightarrow> r | None \<Rightarrow> [])"

definition dma_to_summercart :: "u32 \<Rightarrow> 'w machine \<Rightarrow> 'w machine option" where
  "dma_to_summercart longueur m =
    (let a = pi_cart_addr_reg (pi_register m); d = pi_dram_addr_reg (pi_register m); buf = sc_buffer (cart m) in
     if a \<ge> 0x1ffe0000 \<and> a < 0x1fff0000 then
       map_option (\<lambda>b. m\<lparr>cart := (cart m)\<lparr>sc_buffer := array_bytes (length buf) b\<rparr>\<rparr>)
         (copy_until (unat longueur) (rdram m) rdram_size 0x7FFFFF d (byte_array buf) (length buf) 0x1FFF (a - 0x1ffe0000))
     else if a \<ge> 0x10000000 \<and> a < 0x14000000 \<and> cfg_rom_write (cart m) \<noteq> 0 then do {
       let r = rom_bytes m;
       b \<leftarrow> copy_until (unat longueur) (rdram m) rdram_size 0x7FFFFF d (byte_array r) (length r) 0x3FFFFFF (a - 0x10000000);
       Some (m\<lparr>roms := (roms m)\<lparr>rom := map_option (\<lambda>_. array_bytes (length r) b) (rom (roms m))\<rparr>\<rparr>) }
     else Some m)"

definition dma_pi_read :: "'w machine_env \<Rightarrow> 'w machine \<Rightarrow> 'w machine option" where
  "dma_pi_read env m =
    (let a = pi_cart_addr_reg (pi_register m) in
     if a \<ge> 0x08000000 \<and> a < 0x08010000 then
       if use_flashram (flash m) \<noteq> 1 then do {
         m1 \<leftarrow> dma_to_sram m;
         pi_finish 1 0x1000 m1 }
       else
         let (stp, f) = dma_write_flashram (pi_dram_addr_reg (pi_register m)) (flash m)
         in pi_finish 1 0x1000 (stop_if stp (m\<lparr>flash := f\<rparr>))
     else if cfg_use_summercart (core_cfg env) then do {
       let longueur = (pi_rd_len_reg (pi_register m) AND 0xFFFFFF) + 1;
       m1 \<leftarrow> dma_to_summercart longueur m;
       pi_finish 1 (longueur div 8) m1 }
     else pi_finish 1 0x1000 m)"

definition dma_from_sram :: "'w machine \<Rightarrow> 'w machine option" where
  "dma_from_sram m = do {
     let s = read_sram_file m;
     r \<leftarrow> copy_s8 (unat (pi_wr_len_reg (pi_register m) AND 0xFFFFFF) + 1) s 0x8000
            ((pi_cart_addr_reg (pi_register m) - 0x08000000) AND 0xFFFF) (rdram m) rdram_size
            (pi_dram_addr_reg (pi_register m));
     Some (m\<lparr>rdram := r, sram := s, flash := (flash m)\<lparr>use_flashram := - 1\<rparr>\<rparr>) }"

definition dma_from_save :: "'w machine \<Rightarrow> 'w machine option" where
  "dma_from_save m =
    (let p = pi_register m in
     if use_flashram (flash m) \<noteq> 1 then dma_from_sram m
     else do {
       (stp, r, f) \<leftarrow> dma_read_flashram (pi_dram_addr_reg p) (pi_cart_addr_reg p) (pi_wr_len_reg p) (rdram m) (flash m);
       Some (stop_if stp (m\<lparr>rdram := r, flash := f\<rparr>)) })"

text \<open>
  The length of a transfer from the ROM: cut at the end of the ROM, then at the last byte of
  RDRAM.  \<^verbatim>\<open>rom_size\<close> has 64 bits and the sums 32.
\<close>

definition rom_dma_length :: "'w machine \<Rightarrow> u32" where
  "rom_dma_length m =
    (let p = pi_register m;
         i = (pi_cart_addr_reg p - 0x10000000) AND 0x3FFFFFF;
         l0 = (pi_wr_len_reg p AND 0xFFFFFF) + 1;
         l1 = (if unat (i + l0) > rom_size (roms m) then of_nat (rom_size (roms m)) - i else l0)
     in if pi_dram_addr_reg p + l1 > 0x7FFFFF then 0x7FFFFF - pi_dram_addr_reg p else l1)"

text \<open>The loop of the interpreters; with reads disabled the memory is filled.\<close>

definition dma_from_rom :: "u32 \<Rightarrow> 'w machine \<Rightarrow> 'w machine option" where
  "dma_from_rom longueur m = do {
     let p = pi_register m;
     let r = rom_bytes m;
     ram \<leftarrow> (if g_dma_read_enabled m
       then copy_s8 (unat longueur) (byte_array r) (length r) ((pi_cart_addr_reg p - 0x10000000) AND 0x3FFFFFF)
              (rdram m) rdram_size (pi_dram_addr_reg p)
       else copy_s8 (unat longueur) (\<lambda>_. 0xFF) (2 ^ 32) 0 (rdram m) rdram_size (pi_dram_addr_reg p));
     Some (m\<lparr>rdram := ram\<rparr>) }"

text \<open>Early in the boot the size of the memory is written where the boot code looks for it.\<close>

definition boot_memory_size :: "'w machine \<Rightarrow> 'w machine option" where
  "boot_memory_size m =
    (if debug_count (cpu m) + ucast (core_Count (cpu m)) < 0x100000 then
       if CIC_Chip m \<in> {1, 2, 3, 6} then map_option (\<lambda>r. m\<lparr>rdram := r\<rparr>) (rdram_store (0x318 div 4) 0x800000 (rdram m))
       else if CIC_Chip m = 5 then map_option (\<lambda>r. m\<lparr>rdram := r\<rparr>) (rdram_store (0x3F0 div 4) 0x800000 (rdram m))
       else Some m
     else Some m)"

definition dma_pi_write :: "'w machine_env \<Rightarrow> 'w machine \<Rightarrow> 'w machine option" where
  "dma_pi_write env m =
    (let p = pi_register m; a = pi_cart_addr_reg p; longueur = (pi_wr_len_reg p AND 0xFFFFFF) + 1 in
     if a < 0x10000000 then
       if a \<ge> 0x08000000 \<and> a < 0x08010000 then do {
         m1 \<leftarrow> dma_from_save m;
         pi_finish 1 0x1000 m1 }
       else pi_finish 1 0x1000 m
     else if cfg_use_summercart (core_cfg env) \<and> a \<ge> 0x1ffe0000 \<and> a < 0x1fff0000 then do {
       r \<leftarrow> copy_until (unat longueur) (byte_array (sc_buffer (cart m))) (length (sc_buffer (cart m))) 0x1FFF
              (a - 0x1ffe0000) (rdram m) rdram_size 0x7FFFFF (pi_dram_addr_reg p);
       pi_finish 1 (longueur div 8) (m\<lparr>rdram := r\<rparr>) }
     else if a \<ge> 0x1fc00000 then pi_finish 1 0x1000 m
     else
       let l = rom_dma_length m in
       if unat ((a - 0x10000000) AND 0x3FFFFFF) > rom_size (roms m) \<or> pi_dram_addr_reg p > 0x7FFFFF
       then pi_finish 3 (l div 8) m
       else do {
         m1 \<leftarrow> dma_from_rom l m;
         m2 \<leftarrow> boot_memory_size m1;
         pi_finish 3 (l div 8) m2 })"

section \<open>The RSP memories\<close>

text \<open>\<^verbatim>\<open>SP_IMEM\<close> is the second half of the array \<^verbatim>\<open>SP_DMEM\<close>.\<close>

definition sp_offset :: "'w machine \<Rightarrow> u32" where
  "sp_offset m =
    (let a = sp_mem_addr_reg (sp_register m)
     in if a AND 0x1000 > 0 then 0x1000 + (a AND 0xFFF) else a AND 0xFFF)"

definition dma_sp_write :: "'w machine \<Rightarrow> 'w machine option" where
  "dma_sp_write m = map_option (\<lambda>d. m\<lparr>SP_DMEM := d\<rparr>)
     (copy_s8 (unat (sp_rd_len_reg (sp_register m) AND 0xFFF) + 1) (rdram m) rdram_size
        (sp_dram_addr_reg (sp_register m) AND 0xFFFFFF) (SP_DMEM m) 0x2000 (sp_offset m))"

definition dma_sp_read :: "'w machine \<Rightarrow> 'w machine option" where
  "dma_sp_read m = map_option (\<lambda>r. m\<lparr>rdram := r\<rparr>)
     (copy_s8 (unat (sp_wr_len_reg (sp_register m) AND 0xFFF) + 1) (SP_DMEM m) 0x2000 (sp_offset m)
        (rdram m) rdram_size (sp_dram_addr_reg (sp_register m) AND 0xFFFFFF))"

section \<open>The serial interface\<close>

text \<open>\<^verbatim>\<open>for (i = 0; i < 64 / 4; i++) PIF_RAM[i] = sl(rdram[si_register.si_dram_addr / 4 + i]);\<close>\<close>

definition copy_rdram_to_pif :: "'w machine \<Rightarrow> 'w machine option" where
  "copy_rdram_to_pif m =
    (let k = unat (si_dram_addr (si_register m) div 4)
     in if 4 * (k + 16) \<le> rdram_size
        then Some (m\<lparr>PIF_RAM := concat (map (\<lambda>i. put_le32 (sl (ld32 (rdram m) (4 * (k + i))))) [0..<16])\<rparr>) else None)"

definition si_finish :: "'w machine \<Rightarrow> 'w machine option" where
  "si_finish m = m_add_event SI_INT 0x900 (count_now m)"

definition dma_si_write :: "'w machine_env \<Rightarrow> 'w machine \<Rightarrow> 'w machine option" where
  "dma_si_write env m0 = do {
     let m = stop_if (si_pif_addr_wr64b (si_register m0) \<noteq> 0x1FC007C0) m0;
     if \<not> check_register_validity (si_register m) then Some (set_stop m)
     else do {
       m1 \<leftarrow> copy_rdram_to_pif m;
       m2 \<leftarrow> m_update_pif_write env m1;
       si_finish m2 } }"

definition dma_si_read :: "'w machine_env \<Rightarrow> 'w machine \<Rightarrow> 'w machine option" where
  "dma_si_read env m0 = do {
     m \<leftarrow> update_pif_read env (stop_if (si_pif_addr_rd64b (si_register m0) \<noteq> 0x1FC007C0) m0);
     if \<not> check_register_validity (si_register m) then Some (set_stop m)
     else do {
       m1 \<leftarrow> copy_pif_to_rdram m;
       m2 \<leftarrow> (if g_st_skip_dma m1 then Some m1 else si_finish m1);
       Some (m2\<lparr>g_st_skip_dma := False\<rparr>) } }"

section \<open>PIF memory in RDRAM\<close>

lemma sl_bytes:
  fixes b0 b1 b2 b3 :: u8
  defines "w \<equiv> sl (le_word [b0, b1, b2, b3])"
  shows "ucast w = b3" "ucast (drop_bit 8 w) = b2" "ucast (drop_bit 16 w) = b1" "ucast (drop_bit 24 w) = b0"
proof -
  have masks: "(0xFF :: u32) = mask 8" "(0xFF00 :: u32) = push_bit 8 (mask 8)" "(0xFF0000 :: u32) = push_bit 16 (mask 8)"
    "(0xFF000000 :: u32) = push_bit 24 (mask 8)"
    by (simp_all add: mask_eq_exp_minus_1 push_bit_eq_mult)
  have off: "bit c n \<longleftrightarrow> False" if "8 \<le> n" for c :: u8 and n
    using that bit_imp_le_length [of c n] by auto
  have le: "bit (le_word [b0, b1, b2, b3] :: u32) n = (if n < 8 then bit b0 n else if n < 16 then bit b1 (n - 8)
      else if n < 24 then bit b2 (n - 16) else n < 32 \<and> bit b3 (n - 24))" for n
    by (cases "n < 8"; cases "n < 16"; cases "n < 24"; cases "n < 32") (auto simp: le_word_def bit_simps off)
  have b: "bit w n = (if n < 8 then bit b3 n else if n < 16 then bit b2 (n - 8) else if n < 24 then bit b1 (n - 16)
      else n < 32 \<and> bit b0 (n - 24))" for n
    by (cases "n < 8"; cases "n < 16"; cases "n < 24"; cases "n < 32") (auto simp: w_def sl_def masks bit_simps le)
  show "ucast w = b3" "ucast (drop_bit 8 w) = b2" "ucast (drop_bit 16 w) = b1" "ucast (drop_bit 24 w) = b0"
    by (auto intro!: bit_word_eqI simp: bit_simps b)
qed

lemma four_bytes:
  assumes "k + 4 \<le> length p"
  shows "take 4 (drop k p) = [p ! k, p ! (k + 1), p ! (k + 2), p ! (k + 3)]"
  by (rule nth_equalityI) (use assms in \<open>auto simp: nth_Cons numeral_eq_Suc less_Suc_eq split: nat.split\<close>)

lemma st32_other: "a < k \<or> k + 4 \<le> a \<Longrightarrow> st32 m k w a = m a"
  by (auto simp: st32_def)

lemma guest_st32_sl:
  assumes "4 * i + 4 \<le> length p"
  shows "guest (st32 ram (4 * q) (sl (u32_at p (4 * i)))) =
    (\<lambda>a. if a div 4 = q then p ! (4 * i + a mod 4) else guest ram a)"
proof (rule ext)
  fix a :: nat
  define w where "w = sl (u32_at p (4 * i))"
  have w: "ucast w = p ! (4 * i + 3)" "ucast (drop_bit 8 w) = p ! (4 * i + 2)"
      "ucast (drop_bit 16 w) = p ! (4 * i + 1)" "ucast (drop_bit 24 w) = p ! (4 * i)"
    using four_bytes [OF assms] by (simp_all add: w_def u32_at_def sl_bytes)
  have a: "a XOR 3 = 4 * (a div 4) + (3 - a mod 4)" by (rule xor3_nat)
  have r: "a mod 4 = 0 \<or> a mod 4 = 1 \<or> a mod 4 = 2 \<or> a mod 4 = 3" by linarith
  show "guest (st32 ram (4 * q) (sl (u32_at p (4 * i)))) a = (if a div 4 = q then p ! (4 * i + a mod 4) else guest ram a)"
  proof (cases "a div 4 = q")
    case True
    with r show ?thesis unfolding w_def [symmetric] guest_def a by (elim disjE) (simp_all add: st32_def w)
  next
    case False
    then have "4 * (a div 4) + (3 - a mod 4) < 4 * q \<or> 4 * q + 4 \<le> 4 * (a div 4) + (3 - a mod 4)" by linarith
    with False show ?thesis unfolding guest_def a by (simp add: st32_other)
  qed
qed

lemma pif_words_guest:
  assumes "length p = 64" "i + n \<le> 16" "4 * (k + 16) \<le> rdram_size"
  shows "\<exists>ram'. pif_words_to_rdram n i p k ram = Some ram' \<and>
    guest ram' = (\<lambda>a. if 4 * (k + i) \<le> a \<and> a < 4 * (k + i + n) then p ! (a - 4 * k) else guest ram a)"
  using assms
proof (induction n arbitrary: i ram)
  case (Suc n)
  let ?ram = "st32 ram (4 * (k + i)) (sl (u32_at p (4 * i)))"
  obtain ram' where r: "pif_words_to_rdram n (i + 1) p k ?ram = Some ram'"
      "guest ram' = (\<lambda>a. if 4 * (k + (i + 1)) \<le> a \<and> a < 4 * (k + (i + 1) + n) then p ! (a - 4 * k) else guest ?ram a)"
    using Suc.IH [of "i + 1" ?ram] Suc.prems by auto
  have g: "guest ?ram = (\<lambda>a. if a div 4 = k + i then p ! (4 * i + a mod 4) else guest ram a)"
    by (rule guest_st32_sl) (use Suc.prems in simp)
  have q: "a div 4 = k + i \<longleftrightarrow> 4 * (k + i) \<le> a \<and> a < 4 * (k + i) + 4" for a :: nat by presburger
  have "4 * i + a mod 4 = a - 4 * k" if "a div 4 = k + i" for a :: nat
    using that mult_div_mod_eq [of 4 a] by linarith
  then have "guest ram' = (\<lambda>a. if 4 * (k + i) \<le> a \<and> a < 4 * (k + i + Suc n) then p ! (a - 4 * k) else guest ram a)"
    unfolding r(2) g by (auto simp: fun_eq_iff q)
  moreover have "rdram_store (k + i) (sl (u32_at p (4 * i))) ram = Some ?ram"
    using Suc.prems by (simp add: rdram_store_def)
  ultimately show ?case using r(1) by simp
qed (auto simp: fun_eq_iff)

lemma copy_pif_guest:
  assumes "length (PIF_RAM m) = 64" "unat (si_dram_addr (si_register m)) + 64 \<le> rdram_size" "4 dvd unat (si_dram_addr (si_register m))"
  obtains r where "copy_pif_to_rdram m = Some (m\<lparr>rdram := r\<rparr>)"
    "\<And>j. j < 64 \<Longrightarrow> guest r (unat (si_dram_addr (si_register m)) + j) = PIF_RAM m ! j"
proof -
  let ?a = "unat (si_dram_addr (si_register m))"
  have k: "4 * unat (si_dram_addr (si_register m) div 4) = ?a" using assms(3) by (simp add: unat_div_distrib)
  obtain r where r: "pif_words_to_rdram 16 0 (PIF_RAM m) (unat (si_dram_addr (si_register m) div 4)) (rdram m) = Some r"
      "guest r = (\<lambda>a. if 4 * (unat (si_dram_addr (si_register m) div 4) + 0) \<le> a \<and>
         a < 4 * (unat (si_dram_addr (si_register m) div 4) + 0 + 16)
         then PIF_RAM m ! (a - 4 * unat (si_dram_addr (si_register m) div 4)) else guest (rdram m) a)"
    using pif_words_guest [of "PIF_RAM m" 0 16 "unat (si_dram_addr (si_register m) div 4)" "rdram m"] assms k by auto
  show thesis
  proof (rule that)
    show "copy_pif_to_rdram m = Some (m\<lparr>rdram := r\<rparr>)" by (simp add: copy_pif_to_rdram_def r(1))
    show "guest r (?a + j) = PIF_RAM m ! j" if "j < 64" for j
      unfolding r(2) using that k by simp
  qed
qed

lemma m_add_event_abs:
  assumes "queue_abs (queue m) xs" "length xs < pool_size"
  obtains q where "m_add_event t d m = Some (m\<lparr>queue := q\<rparr>)"
    "queue_abs q (spec_add (core_Count (cpu m)) (SPECIAL_done (queue m)) t (core_Count (cpu m) + d) xs)"
  using add_interrupt_event_abs [OF assms, of "core_Count (cpu m)" t d]
  by (auto simp: m_add_event_def on_queue_def)

section \<open>A poll of the first controller\<close>

text \<open>Nothing holds the emulator up and no savestate work is pending.\<close>

definition undisturbed :: "'w machine \<Rightarrow> bool" where
  "undisturbed m \<longleftrightarrow> \<not> emu_paused (vcr m) \<and> frame_advance_outstanding (vcr m) = 0 \<and> g_wait_counter m = 0 \<and>
     g_tasks m = [] \<and> \<not> g_st_old m"

text \<open>The command block of a game that reads one controller.\<close>

definition read_block :: "bytes \<Rightarrow> bytes \<Rightarrow> bytes" where
  "read_block d rest = [0xFF, 1, 4, 1] @ d @ 0xFE # rest"

lemma update_pif_read_block:
  assumes "undisturbed m" "PIF_RAM m = read_block d rest" "length d = 4" "Present (controls (vcr m) 0)" "g_task (vcr m) \<noteq> task_idle"
    "execute_cheats m = Some m" "vcr_on_controller_poll (vcr_plugins env) 0 0 (vcr m) = Some (x, v)"
  shows "update_pif_read env m = Some (m\<lparr>lag_count := 0, controllerRead := 0, PIF_RAM := read_block (put_le32 x) rest,
    vcr := v\<lparr>world := read_controller_end (input_plug env) (world v)\<rparr>\<rparr>)"
proof -
  let ?m3 = "m\<lparr>controllerRead := 0\<rparr>"
  let ?m4 = "m\<lparr>lag_count := 0, controllerRead := 0, PIF_RAM := read_block (put_le32 x) rest, vcr := v\<rparr>"
  have c: "execute_cheats ?m3 = Some ?m3"
    using assms(6) by (cases m) (auto simp: execute_cheats_def)
  have w: "bwrite 4 (put_le32 x) (read_block d rest) = Some (read_block (put_le32 x) rest)"
    using assms(3) by (simp add: bwrite_def read_block_def)
  have "internal_ReadController env 0 1 ?m3 = Some ?m4"
    using assms(2,3,4,7) w by (simp add: internal_ReadController_def bget_def) (simp add: read_block_def c)
  then have ch: "read_channel env 0 1 False True m = Some (False, False, ?m4)"
    using assms(1,5) by (simp add: read_channel_def undisturbed_def work_if_idle)
  have b: "read_block e rest ! 0 = 0xFF" "read_block e rest ! 1 = 1" "read_block e rest ! 2 = 4"
      "read_block e rest ! 8 = 0xFE" "length (read_block e rest) = 9 + length rest" if len: "length e = 4" for e
  proof -
    obtain e0 e1 e2 e3 where "e = [e0, e1, e2, e3]"
      using len by (auto simp: length_Suc_conv numeral_eq_Suc)
    then show "read_block e rest ! 0 = 0xFF" "read_block e rest ! 1 = 1" "read_block e rest ! 2 = 4"
        "read_block e rest ! 8 = 0xFE" "length (read_block e rest) = 9 + length rest"
      by (simp_all add: read_block_def)
  qed
  have g: "bget (PIF_RAM m) 0 = Some 0xFF" "bget (PIF_RAM m) 1 = Some 1"
      "bget (read_block (put_le32 x) rest) 1 = Some 1" "bget (read_block (put_le32 x) rest) 2 = Some 4"
      "bget (read_block (put_le32 x) rest) 8 = Some 0xFE"
    using assms(2,3) by (simp_all add: bget_def b del: One_nat_def)
  have l8: "pif_read_loop env 8 1 False False ?m4 = Some (True, ?m4)"
    by (subst pif_read_loop.simps) (simp add: g)
  have l1: "pif_read_loop env 1 0 False True m = Some (True, ?m4)"
    by (subst pif_read_loop.simps) (simp add: g ch l8 del: One_nat_def)
  have loop: "pif_read_loop env 0 0 False True m = Some (True, ?m4)"
    by (subst pif_read_loop.simps) (simp add: g l1 del: One_nat_def)
  show ?thesis
    using assms(1) loop by (simp add: update_pif_read_def undisturbed_def set_world_def)
qed

lemma playing_at_world [simp]: "playing_at k (v\<lparr>world := w\<rparr>) = playing_at k v"
  by (simp add: playing_at_def attentive_def vcr_inv_def)

lemma execute_no_cheats: "core_cht_get_list (vcr_cheats (vcr m)) = [] \<Longrightarrow> execute_cheats m = Some m"
  by (simp add: execute_cheats_def cht_execute_def)

text \<open>C5. The input of a movie reaches the game: while a movie is played back and nothing holds the emulator
  up, the serial transfer that ends a controller read of the game puts the next sample of the
  movie into RDRAM behind the command, in the byte order of the game, advances the movie by one
  sample, marks the frame as no lag frame and schedules the serial interrupt 0x900 counts later.\<close>

theorem movie_input_in_rdram:
  fixes m :: "'w machine" and env :: "'w machine_env"
  defines "a \<equiv> unat (si_dram_addr (si_register m))" and "c \<equiv> core_Count (update_count (cpu m))"
  assumes "transparent (vcr_plugins env)" "playing_at k (vcr m)" "seek_to_frame (vcr m) = None"
    "k < length (g_movie_inputs (vcr m))" "g_movie_inputs (vcr m) ! k \<noteq> 0xC000"
    "undisturbed m" "Present (controls (vcr m) 0)" "core_cht_get_list (vcr_cheats (vcr m)) = []"
    "PIF_RAM m = read_block d rest" "length d = 4" "length rest = 55"
    "si_pif_addr_rd64b (si_register m) = 0x1FC007C0" "a + 64 \<le> rdram_size" "4 dvd a"
    "queue_abs (queue m) xs" "length xs < pool_size" "\<not> g_st_skip_dma m"
  shows "\<exists>m'. dma_si_read env m = Some m' \<and> playing_at (k + 1) (vcr m') \<and> lag_count m' = 0 \<and>
    (\<forall>j<4. guest (rdram m') (a + 4 + j) = put_le32 (g_movie_inputs (vcr m) ! k) ! j) \<and>
    queue_abs (queue m') (spec_add c (SPECIAL_done (queue m)) SI_INT (c + 0x900) xs)"
proof -
  let ?x = "g_movie_inputs (vcr m) ! k"
  obtain v where v: "vcr_on_controller_poll (vcr_plugins env) 0 0 (vcr m) = Some (?x, v)" "playing_at (k + 1) v"
    using playback_poll [OF assms(3,4,6,7), of 0] assms(5) by blast
  define m1 where "m1 = m\<lparr>lag_count := 0, controllerRead := 0, PIF_RAM := read_block (put_le32 ?x) rest,
    vcr := v\<lparr>world := read_controller_end (input_plug env) (world v)\<rparr>\<rparr>"
  have "g_task (vcr m) \<noteq> task_idle" using assms(4) by (simp add: playing_at_def)
  from update_pif_read_block [OF assms(8,11,12,9) this execute_no_cheats [OF assms(10)] v(1)]
  have r: "update_pif_read env m = Some m1" unfolding m1_def .
  have si: "si_register m1 = si_register m" "cpu m1 = cpu m" "queue m1 = queue m" "g_st_skip_dma m1 = g_st_skip_dma m"
    by (simp_all add: m1_def)
  have ok: "check_register_validity (si_register m1)"
    using assms(15) by (simp add: si check_register_validity_def a_def word_less_nat_alt unat_word_ariths unat_div_distrib)
  obtain ram where ram: "copy_pif_to_rdram m1 = Some (m1\<lparr>rdram := ram\<rparr>)"
      "\<And>j. j < 64 \<Longrightarrow> guest ram (a + j) = PIF_RAM m1 ! j"
    using copy_pif_guest [of m1] assms(13,15,16) unfolding si a_def by (auto simp: m1_def read_block_def)
  have "queue_abs (queue (count_now (m1\<lparr>rdram := ram\<rparr>))) xs" using assms(17) by (simp add: count_now_def si)
  then obtain q where q: "si_finish (m1\<lparr>rdram := ram\<rparr>) = Some ((count_now (m1\<lparr>rdram := ram\<rparr>))\<lparr>queue := q\<rparr>)"
      "queue_abs q (spec_add c (SPECIAL_done (queue m)) SI_INT (c + 0x900) xs)"
    using m_add_event_abs [OF _ assms(18), of "count_now (m1\<lparr>rdram := ram\<rparr>)" SI_INT "0x900"]
    by (auto simp: si_finish_def c_def count_now_def si)
  have "guest ram (a + 4 + j) = put_le32 ?x ! j" if "j < 4" for j
    using ram(2) [of "4 + j"] that by (simp add: m1_def read_block_def nth_append add.assoc)
  moreover have "dma_si_read env m = Some ((count_now (m1\<lparr>rdram := ram\<rparr>))\<lparr>queue := q, g_st_skip_dma := False\<rparr>)"
    using r ok ram(1) q(1) assms(14,19) by (simp add: dma_si_read_def stop_if_def si)
  ultimately show ?thesis using q(2) v(2) by (simp add: count_now_def m1_def)
qed

definition playing_example :: "nat machine" where
  "playing_example = example_machine\<lparr>vcr := example_vcr task_playback 0 [0x8000], PIF_RAM := read_block (replicate 4 0) (replicate 55 0),
     si_register := \<lparr>si_dram_addr = 0x100, si_pif_addr_rd64b = 0x1FC007C0, si_pif_addr_wr64b = 0, si_status = 0\<rparr>\<rparr>"

theorem movie_input_in_rdram_witness:
  "\<exists>m'. dma_si_read example_machine_env playing_example = Some m' \<and> m_current_sample (vcr m') = 1 \<and>
     (\<forall>j<4. guest (rdram m') (0x104 + j) = put_le32 0x8000 ! j)"
proof -
  have "playing_at 0 (vcr playing_example)"
    using example_playing [of "[0x8000]" 0] by (simp add: playing_example_def)
  with movie_input_in_rdram [of example_machine_env 0 playing_example "replicate 4 0" "replicate 55 0" "[]"] queue_init_abs(1)
  show ?thesis
    by (auto simp: playing_example_def example_transparent undisturbed_def core_cht_get_list_def example_vcr_def
      pool_size_def playing_at_def)
qed

section \<open>Transfers from the ROM\<close>

text \<open>How many bytes a transfer from the ROM moves.\<close>

lemma rom_dma_length_min:
  fixes m :: "'w machine"
  defines "p \<equiv> pi_register m"
  defines "i \<equiv> unat ((pi_cart_addr_reg p - 0x10000000) AND 0x3FFFFFF)" and "d \<equiv> unat (pi_dram_addr_reg p)"
    and "n \<equiv> unat (pi_wr_len_reg p AND 0xFFFFFF) + 1"
  assumes "rom_size (roms m) \<le> 0x4000000" "i \<le> rom_size (roms m)" "d \<le> 0x7FFFFF"
  shows "unat (rom_dma_length m) = min (min n (rom_size (roms m) - i)) (0x7FFFFF - d)"
proof -
  define iw where "iw = (pi_cart_addr_reg p - 0x10000000) AND 0x3FFFFFF"
  define l0 where "l0 = (pi_wr_len_reg p AND 0xFFFFFF) + 1"
  define rs where "rs = rom_size (roms m)"
  define l1 where "l1 = (if unat (iw + l0) > rs then of_nat rs - iw else l0)"
  have i: "unat iw = i" by (simp add: iw_def i_def)
  have masked: "unat (x AND 0xFFFFFF) < 2 ^ 24" for x :: u32
  proof -
    have "x AND 0xFFFFFF = take_bit 24 x" by (simp add: take_bit_eq_mask mask_eq_exp_minus_1)
    then show ?thesis using take_bit_nat_less_exp [of 24 "unat x"] by (simp add: unsigned_take_bit_eq)
  qed
  have rs: "rs \<le> 0x4000000" "i \<le> rs" using assms(5,6) by (simp_all add: rs_def)
  have l0: "unat l0 = n" using masked [of "pi_wr_len_reg p"] by (simp add: l0_def n_def unat_word_ariths)
  have n: "n \<le> 2 ^ 24" using masked [of "pi_wr_len_reg p"] by (simp add: n_def)
  have "unat (iw + l0) = i + n" using rs n by (simp add: unat_word_ariths i l0)
  moreover have "unat (of_nat rs - iw :: u32) = rs - i"
    using rs by (subst unat_sub) (simp_all add: word_le_nat_alt i unat_of_nat)
  ultimately have l1: "unat l1 = min n (rs - i)" using rs by (auto simp: l1_def l0)
  have "unat (pi_dram_addr_reg p + l1) = d + min n (rs - i)"
    using assms(7) rs by (simp add: unat_word_ariths l1 d_def)
  moreover have "unat (0x7FFFFF - pi_dram_addr_reg p) = 0x7FFFFF - d"
    using assms(7) by (subst unat_sub) (simp_all add: word_le_nat_alt d_def)
  moreover have "rom_dma_length m = (if pi_dram_addr_reg p + l1 > 0x7FFFFF then 0x7FFFFF - pi_dram_addr_reg p else l1)"
    by (simp add: rom_dma_length_def Let_def l1_def l0_def iw_def rs_def p_def)
  ultimately show ?thesis using l1 by (auto simp: word_less_nat_alt rs_def min_def split: if_splits)
qed

text \<open>C14. A transfer from the ROM copies, in the order of the game's addresses, as many bytes as were asked
  for but never past the end of the ROM nor past the last byte but one of RDRAM, leaves the rest
  of RDRAM alone, sets both busy bits and schedules the interrupt: whatever the registers hold,
  nothing outside the two memories is touched.\<close>

theorem rom_dma_copies:
  fixes m :: "'w machine" and env :: "'w machine_env"
  defines "p \<equiv> pi_register m" and "c \<equiv> core_Count (update_count (cpu m))"
  defines "i \<equiv> unat ((pi_cart_addr_reg p - 0x10000000) AND 0x3FFFFFF)" and "d \<equiv> unat (pi_dram_addr_reg p)"
  defines "n \<equiv> min (min (unat (pi_wr_len_reg p AND 0xFFFFFF) + 1) (rom_size (roms m) - i)) (0x7FFFFF - d)"
  assumes "pi_cart_addr_reg p \<ge> 0x10000000" "pi_cart_addr_reg p < 0x1fc00000" "g_dma_read_enabled m"
    "rom (roms m) = Some r" "length r = rom_size (roms m)" "4 dvd rom_size (roms m)" "rom_size (roms m) \<le> 0x4000000"
    "i \<le> rom_size (roms m)" "d \<le> 0x7FFFFF" "debug_count (cpu m) + ucast (core_Count (cpu m)) \<ge> 0x100000"
    "queue_abs (queue m) xs" "length xs < pool_size"
  shows "\<exists>m'. dma_pi_write env m = Some m' \<and>
    guest (rdram m') = (\<lambda>a. if d \<le> a \<and> a < d + n then guest (byte_array r) (a - d + i) else guest (rdram m) a) \<and>
    read_pi_status_reg (pi_register m') = read_pi_status_reg p OR 3 \<and>
    queue_abs (queue m') (spec_add c (SPECIAL_done (queue m)) PI_INT (c + of_nat n div 8) xs)"
proof -
  have l: "unat (rom_dma_length m) = n"
    using rom_dma_length_min [of m] assms(12,13,14) by (simp add: n_def i_def d_def p_def)
  then have lw: "rom_dma_length m = of_nat n" by (metis of_nat_unat ucast_id)
  have "\<exists>ram. copy_s8 n (byte_array r) (length r) ((pi_cart_addr_reg p - 0x10000000) AND 0x3FFFFFF) (rdram m) rdram_size
       (pi_dram_addr_reg p) = Some ram \<and>
     guest ram = (\<lambda>a. if unat (pi_dram_addr_reg p) \<le> a \<and> a < unat (pi_dram_addr_reg p) + n
       then guest (byte_array r) (a - unat (pi_dram_addr_reg p) + unat ((pi_cart_addr_reg p - 0x10000000) AND 0x3FFFFFF))
       else guest (rdram m) a)"
    by (rule copy_s8_guest) (use assms(10-14) in \<open>auto simp: n_def i_def d_def\<close>)
  then obtain ram where ram: "copy_s8 n (byte_array r) (length r) ((pi_cart_addr_reg p - 0x10000000) AND 0x3FFFFFF)
      (rdram m) rdram_size (pi_dram_addr_reg p) = Some ram"
      "guest ram = (\<lambda>a. if d \<le> a \<and> a < d + n then guest (byte_array r) (a - d + i) else guest (rdram m) a)"
    unfolding d_def i_def by blast
  define m1 where "m1 = m\<lparr>rdram := ram\<rparr>"
  have from_rom: "dma_from_rom (rom_dma_length m) m = Some m1"
    using assms(8,9) ram(1) by (simp add: dma_from_rom_def l rom_bytes_def m1_def p_def)
  have "\<not> debug_count (cpu m1) + ucast (core_Count (cpu m1)) < 0x100000" using assms(15) by (simp add: m1_def not_less)
  then have boot: "boot_memory_size m1 = Some m1" by (simp add: boot_memory_size_def)
  define m2 where "m2 = count_now (m1\<lparr>pi_register := (pi_register m1)\<lparr>read_pi_status_reg := read_pi_status_reg (pi_register m1) OR 3\<rparr>\<rparr>)"
  have "queue_abs (queue m2) xs" using assms(16) by (simp add: m2_def m1_def count_now_def)
  then obtain q where q: "m_add_event PI_INT (of_nat n div 8) m2 = Some (m2\<lparr>queue := q\<rparr>)"
      "queue_abs q (spec_add (core_Count (cpu m2)) (SPECIAL_done (queue m2)) PI_INT (core_Count (cpu m2) + of_nat n div 8) xs)"
    using m_add_event_abs [OF _ assms(17)] by blast
  have "\<not> pi_cart_addr_reg p < 0x10000000" "\<not> 0x1ffe0000 \<le> pi_cart_addr_reg p" "\<not> 0x1fc00000 \<le> pi_cart_addr_reg p"
    "\<not> pi_dram_addr_reg p > 0x7FFFFF" using assms(6,7,14) by (auto simp: word_le_nat_alt word_less_nat_alt d_def)
  then have "dma_pi_write env m = Some (m2\<lparr>queue := q\<rparr>)"
    using from_rom boot q(1) assms(13)
    by (simp add: dma_pi_write_def Let_def p_def [symmetric] i_def [symmetric] pi_finish_def lw m2_def)
  then show ?thesis using ram(2) q(2) by (simp add: m2_def m1_def count_now_def p_def c_def)
qed

definition rom_dma_example :: "nat machine" where
  "rom_dma_example = example_machine\<lparr>roms := example_roms\<lparr>rom := Some [1, 2, 3, 4, 5, 6, 7, 8], rom_size := 8\<rparr>,
     g_dma_read_enabled := True, cpu := (alu_example 0 0 0)\<lparr>debug_count := 0x100000\<rparr>,
     pi_register := (pi_register example_machine)\<lparr>pi_cart_addr_reg := 0x10000004, pi_dram_addr_reg := 0x400, pi_wr_len_reg := 15\<rparr>\<rparr>"

theorem rom_dma_copies_witness:
  "\<exists>m'. dma_pi_write example_machine_env rom_dma_example = Some m' \<and>
     map (guest (rdram m')) [0x400, 0x401, 0x402, 0x403, 0x404] = [8, 7, 6, 5, 0]"
proof -
  let ?m = rom_dma_example
  have "debug_count (alu_example 0 0 0) = 0 \<and> reg_cop0 (alu_example 0 0 0) 9 = 0" by (simp add: alu_example_def)
  then have "debug_count (cpu ?m) + ucast (core_Count (cpu ?m)) \<ge> 0x100000" by (simp add: rom_dma_example_def)
  with rom_dma_copies [of ?m "[1, 2, 3, 4, 5, 6, 7, 8]" "[]" example_machine_env]
  obtain m' where m': "dma_pi_write example_machine_env ?m = Some m'"
      "guest (rdram m') = (\<lambda>a. if 0x400 \<le> a \<and> a < 0x404
        then guest (byte_array [1, 2, 3, 4, 5, 6, 7, 8]) (a - 0x400 + 4) else guest (\<lambda>_. 0) a)"
    using queue_init_abs(1) by (auto simp: rom_dma_example_def pool_size_def cong: if_cong)
  from m'(2) have "map (guest (rdram m')) [0x400, 0x401, 0x402, 0x403, 0x404] = [8, 7, 6, 5, 0]"
    by simp (simp add: guest_def byte_array_def)
  with m'(1) show ?thesis by (intro exI [of _ m'] conjI)
qed

end
