(* ===== verification/Rcp.thy ===== *)
theory Rcp
  imports Dma
begin

text \<open>
  The registers of the RCP behind their addresses, \<^verbatim>\<open>Core/memory/memory.cpp\<close>: the tables of pointers to
  the registers, the status registers whose bits set and clear flags, the start of an RSP task, and
  the handlers that read and write each group of registers as bytes, half-words, words and double
  words.
\<close>

section \<open>Pointers to registers\<close>

datatype width = W8 | W16 | W32 | W64

definition address_low :: "'w machine \<Rightarrow> nat" where
  "address_low m = unat (address m AND 0xFFFF)"

text \<open>A \<^verbatim>\<open>uint32_t*\<close> into the machine: how to read and how to write what it points to.\<close>

type_synonym 'w regptr = "('w machine \<Rightarrow> u32) \<times> (u32 \<Rightarrow> 'w machine \<Rightarrow> 'w machine)"

definition field_ptr ::
  "('w machine \<Rightarrow> 'r) \<Rightarrow> (('r \<Rightarrow> 'r) \<Rightarrow> 'w machine \<Rightarrow> 'w machine) \<Rightarrow> ('r \<Rightarrow> u32) \<Rightarrow> ((u32 \<Rightarrow> u32) \<Rightarrow> 'r \<Rightarrow> 'r) \<Rightarrow> 'w regptr" where
  "field_ptr g gu f fu = (\<lambda>m. f (g m), \<lambda>v. gu (fu (\<lambda>_. v)))"

definition trash_ptr :: "'w regptr" where
  "trash_ptr = (trash, \<lambda>v m. m\<lparr>trash := v\<rparr>)"

text \<open>
  A table of 0xFFFF pointers: the registers at their offsets, \<^verbatim>\<open>&trash\<close> from the first free offset on, null
  in between.
\<close>

definition reg_table :: "(nat \<times> 'w regptr) list \<Rightarrow> nat \<Rightarrow> nat \<Rightarrow> 'w regptr option" where
  "reg_table rs n i = (if i < n then map_of rs i else if i < 0xFFFF then Some trash_ptr else None)"

text \<open>The part of a register that an address selects, read into and written from the global variables.\<close>

definition load_part :: "width \<Rightarrow> nat \<Rightarrow> u32 \<Rightarrow> u64 option" where
  "load_part w low v = (case w of
      W8 \<Rightarrow> Some (ucast (ucast (drop_bit (8 * (low mod 4 XOR S8)) v) :: u8))
    | W16 \<Rightarrow> if low mod 4 XOR S16 \<le> 2 then Some (ucast (ucast (drop_bit (8 * (low mod 4 XOR S16)) v) :: u16)) else None
    | W32 \<Rightarrow> Some (ucast v)
    | W64 \<Rightarrow> Some (push_bit 32 (ucast v)))"

definition put_bits :: "nat \<Rightarrow> nat \<Rightarrow> u32 \<Rightarrow> u32 \<Rightarrow> u32" where
  "put_bits k n v old = (old AND NOT (push_bit k (mask n))) OR push_bit k v"

definition store_part :: "width \<Rightarrow> 'w machine \<Rightarrow> u32 \<Rightarrow> u32 option" where
  "store_part w m old =
    (let l = address_low m mod 4 in case w of
      W8 \<Rightarrow> Some (put_bits (8 * (l XOR S8)) 8 (ucast (g_byte m)) old)
    | W16 \<Rightarrow> if l XOR S16 \<le> 2 then Some (put_bits (8 * (l XOR S16)) 16 (ucast (hword m)) old) else None
    | W32 \<Rightarrow> Some (word m)
    | W64 \<Rightarrow> Some (ucast (drop_bit 32 (dword m))))"

definition dword_low :: "'w machine \<Rightarrow> u32" where
  "dword_low m = ucast (dword m)"

text \<open>The four ways to read and to write through a table of pointers.\<close>

definition read_reg :: "(nat \<Rightarrow> 'w regptr option) \<Rightarrow> width \<Rightarrow> 'w machine \<Rightarrow> 'w machine option" where
  "read_reg tab w m =
    (let low = address_low m in
     if w = W64 then do {
       a \<leftarrow> tab low;
       b \<leftarrow> tab (low + 4);
       Some (set_rdword (push_bit 32 (ucast (fst a m)) OR ucast (fst b m)) m) }
     else do {
       r \<leftarrow> tab (if w = W32 then low else low AND 0xfffc);
       v \<leftarrow> load_part w low (fst r m);
       Some (set_rdword v m) })"

definition write_reg :: "(nat \<Rightarrow> 'w regptr option) \<Rightarrow> width \<Rightarrow> 'w machine \<Rightarrow> 'w machine option" where
  "write_reg tab w m =
    (let low = address_low m in
     if w = W64 then do {
       a \<leftarrow> tab low;
       b \<leftarrow> tab (low + 4);
       Some (snd b (dword_low m) (snd a (ucast (drop_bit 32 (dword m))) m)) }
     else do {
       r \<leftarrow> tab (if w = W32 then low else low AND 0xfffc);
       v \<leftarrow> store_part w m (fst r m);
       Some (snd r v m) })"

text \<open>
  \<^verbatim>\<open>case r: case r + 1: ...\<close> in the handlers of bytes, \<^verbatim>\<open>case r: case r + 2:\<close> in those of half-words and \<^verbatim>\<open>case r:\<close>
  otherwise.
\<close>

definition selects :: "width \<Rightarrow> nat \<Rightarrow> 'w machine \<Rightarrow> bool" where
  "selects w r m = (case w of
      W8 \<Rightarrow> address_low m \<in> {r, r + 1, r + 2, r + 3}
    | W16 \<Rightarrow> address_low m \<in> {r, r + 2}
    | W32 \<Rightarrow> address_low m = r
    | W64 \<Rightarrow> address_low m = r)"

section \<open>The tables\<close>

definition readrdramreg :: "nat \<Rightarrow> 'w regptr option" where
  "readrdramreg = (let p = field_ptr rdram_register rdram_register_update in reg_table
    [(0x0, p rdram_config rdram_config_update), (0x4, p rdram_device_id rdram_device_id_update),
     (0x8, p rdram_delay rdram_delay_update), (0xc, p rdram_mode rdram_mode_update),
     (0x10, p rdram_ref_interval rdram_ref_interval_update), (0x14, p rdram_ref_row rdram_ref_row_update),
     (0x18, p rdram_ras_interval rdram_ras_interval_update), (0x1c, p rdram_min_interval rdram_min_interval_update),
     (0x20, p rdram_addr_select rdram_addr_select_update), (0x24, p rdram_device_manuf rdram_device_manuf_update)] 0x28)"

definition readrspreg :: "nat \<Rightarrow> 'w regptr option" where
  "readrspreg = (let p = field_ptr sp_register sp_register_update in reg_table
    [(0x0, p sp_mem_addr_reg sp_mem_addr_reg_update), (0x4, p sp_dram_addr_reg sp_dram_addr_reg_update),
     (0x8, p sp_rd_len_reg sp_rd_len_reg_update), (0xc, p sp_wr_len_reg sp_wr_len_reg_update),
     (0x10, p sp_status_reg sp_status_reg_update), (0x14, p sp_dma_full_reg sp_dma_full_reg_update),
     (0x18, p sp_dma_busy_reg sp_dma_busy_reg_update), (0x1c, p sp_semaphore_reg sp_semaphore_reg_update)] 0x20)"

definition readrsp :: "nat \<Rightarrow> 'w regptr option" where
  "readrsp = (let p = field_ptr rsp_register rsp_register_update in reg_table
    [(0x0, p rsp_pc rsp_pc_update), (0x4, p rsp_ibist rsp_ibist_update)] 0x8)"

definition readdp :: "nat \<Rightarrow> 'w regptr option" where
  "readdp = (let p = field_ptr dpc_register dpc_register_update in reg_table
    [(0x0, p dpc_start dpc_start_update), (0x4, p dpc_end dpc_end_update), (0x8, p dpc_current dpc_current_update),
     (0xc, p dpc_status dpc_status_update), (0x10, p dpc_clock dpc_clock_update), (0x14, p dpc_bufbusy dpc_bufbusy_update),
     (0x18, p dpc_pipebusy dpc_pipebusy_update), (0x1c, p dpc_tmem dpc_tmem_update)] 0x20)"

definition readdps :: "nat \<Rightarrow> 'w regptr option" where
  "readdps = (let p = field_ptr dps_register dps_register_update in reg_table
    [(0x0, p dps_tbist dps_tbist_update), (0x4, p dps_test_mode dps_test_mode_update),
     (0x8, p dps_buftest_addr dps_buftest_addr_update), (0xc, p dps_buftest_data dps_buftest_data_update)] 0x10)"

definition readmi :: "nat \<Rightarrow> 'w regptr option" where
  "readmi = (let p = field_ptr MI_register MI_register_update in reg_table
    [(0x0, p mi_init_mode_reg mi_init_mode_reg_update), (0x4, p mi_version_reg mi_version_reg_update),
     (0x8, p mi_intr_reg mi_intr_reg_update), (0xc, p mi_intr_mask_reg mi_intr_mask_reg_update)] 0x10)"

definition readvi :: "nat \<Rightarrow> 'w regptr option" where
  "readvi = (let p = field_ptr vi_register vi_register_update in reg_table
    [(0x0, p vi_status vi_status_update), (0x4, p vi_origin vi_origin_update), (0x8, p vi_width vi_width_update),
     (0xc, p vi_v_intr vi_v_intr_update), (0x10, p vi_current vi_current_update), (0x14, p vi_burst vi_burst_update),
     (0x18, p vi_v_sync vi_v_sync_update), (0x1c, p vi_h_sync vi_h_sync_update), (0x20, p vi_leap vi_leap_update),
     (0x24, p vi_h_start vi_h_start_update), (0x28, p vi_v_start vi_v_start_update), (0x2c, p vi_v_burst vi_v_burst_update),
     (0x30, p vi_x_scale vi_x_scale_update), (0x34, p vi_y_scale vi_y_scale_update)] 0x38)"

definition readai :: "nat \<Rightarrow> 'w regptr option" where
  "readai = (let p = field_ptr ai_register ai_register_update in reg_table
    [(0x0, p ai_dram_addr ai_dram_addr_update), (0x4, p ai_len ai_len_update), (0x8, p ai_control ai_control_update),
     (0xc, p ai_status ai_status_update), (0x10, p ai_dacrate ai_dacrate_update), (0x14, p ai_bitrate ai_bitrate_update)] 0x18)"

definition readpi :: "nat \<Rightarrow> 'w regptr option" where
  "readpi = (let p = field_ptr pi_register pi_register_update in reg_table
    [(0x0, p pi_dram_addr_reg pi_dram_addr_reg_update), (0x4, p pi_cart_addr_reg pi_cart_addr_reg_update),
     (0x8, p pi_rd_len_reg pi_rd_len_reg_update), (0xc, p pi_wr_len_reg pi_wr_len_reg_update),
     (0x10, p read_pi_status_reg read_pi_status_reg_update), (0x14, p pi_bsd_dom1_lat_reg pi_bsd_dom1_lat_reg_update),
     (0x18, p pi_bsd_dom1_pwd_reg pi_bsd_dom1_pwd_reg_update), (0x1c, p pi_bsd_dom1_pgs_reg pi_bsd_dom1_pgs_reg_update),
     (0x20, p pi_bsd_dom1_rls_reg pi_bsd_dom1_rls_reg_update), (0x24, p pi_bsd_dom2_lat_reg pi_bsd_dom2_lat_reg_update),
     (0x28, p pi_bsd_dom2_pwd_reg pi_bsd_dom2_pwd_reg_update), (0x2c, p pi_bsd_dom2_pgs_reg pi_bsd_dom2_pgs_reg_update),
     (0x30, p pi_bsd_dom2_rls_reg pi_bsd_dom2_rls_reg_update)] 0x34)"

definition readri :: "nat \<Rightarrow> 'w regptr option" where
  "readri = (let p = field_ptr ri_register ri_register_update in reg_table
    [(0x0, p ri_mode ri_mode_update), (0x4, p ri_config ri_config_update), (0x8, p ri_current_load ri_current_load_update),
     (0xc, p ri_select ri_select_update), (0x10, p ri_refresh ri_refresh_update), (0x14, p ri_latency ri_latency_update),
     (0x18, p ri_error ri_error_update), (0x1c, p ri_werror ri_werror_update)] 0x20)"

text \<open>The offset 0xC is never assigned: it stays null.\<close>

definition readsi :: "nat \<Rightarrow> 'w regptr option" where
  "readsi = (let p = field_ptr si_register si_register_update in reg_table
    [(0x0, p si_dram_addr si_dram_addr_update), (0x4, p si_pif_addr_rd64b si_pif_addr_rd64b_update), (0x8, trash_ptr),
     (0x10, p si_pif_addr_wr64b si_pif_addr_wr64b_update), (0x14, trash_ptr), (0x18, p si_status si_status_update)] 0x1c)"

section \<open>Status registers\<close>

text \<open>\<^verbatim>\<open>if (w & clr) x = 0; if (w & st) x = 1;\<close> and \<^verbatim>\<open>x << n\<close> for a \<^verbatim>\<open>char\<close>.\<close>

definition set_clear :: "u32 \<Rightarrow> u32 \<Rightarrow> u32 \<Rightarrow> u8 \<Rightarrow> u8" where
  "set_clear clr st w x = (if w AND st \<noteq> 0 then 1 else if w AND clr \<noteq> 0 then 0 else x)"

definition flag_bit :: "nat \<Rightarrow> u8 \<Rightarrow> u32" where
  "flag_bit n x = push_bit n (scast x)"

definition update_MI_init_mode_reg :: "'w machine \<Rightarrow> 'w machine option" where
  "update_MI_init_mode_reg m = do {
     let r = MI_register m;
     let w = w_mi_init_mode_reg r;
     let m1 = m\<lparr>MI_register := r\<lparr>init_length := ucast (w AND 0x7F), init_mode := set_clear 0x80 0x100 w (init_mode r),
                  ebus_test_mode := set_clear 0x200 0x400 w (ebus_test_mode r)\<rparr>\<rparr>;
     m2 \<leftarrow> (if w AND 0x800 \<noteq> 0 then check_interrupt (set_mi_intr (mi_intr_reg (MI_register m1) AND 0xFFFFFFDF) m1)
            else Some m1);
     let r2 = (MI_register m2)\<lparr>RDRAM_reg_mode := set_clear 0x1000 0x2000 w (RDRAM_reg_mode (MI_register m2))\<rparr>;
     Some (m2\<lparr>MI_register := r2\<lparr>mi_init_mode_reg := flag_bit 0 (init_length r2) OR flag_bit 7 (init_mode r2) OR
       flag_bit 8 (ebus_test_mode r2) OR flag_bit 9 (RDRAM_reg_mode r2)\<rparr>\<rparr>) }"

definition mi_mask_of :: "mips_reg \<Rightarrow> u32" where
  "mi_mask_of r = flag_bit 0 (SP_intr_mask r) OR flag_bit 1 (SI_intr_mask r) OR flag_bit 2 (AI_intr_mask r) OR
     flag_bit 3 (VI_intr_mask r) OR flag_bit 4 (PI_intr_mask r) OR flag_bit 5 (DP_intr_mask r)"

definition update_MI_intr_mask_reg :: "'w machine \<Rightarrow> 'w machine" where
  "update_MI_intr_mask_reg m =
    (let r = MI_register m; w = w_mi_intr_mask_reg r;
         r1 = r\<lparr>SP_intr_mask := set_clear 0x1 0x2 w (SP_intr_mask r), SI_intr_mask := set_clear 0x4 0x8 w (SI_intr_mask r),
                AI_intr_mask := set_clear 0x10 0x20 w (AI_intr_mask r), VI_intr_mask := set_clear 0x40 0x80 w (VI_intr_mask r),
                PI_intr_mask := set_clear 0x100 0x200 w (PI_intr_mask r), DP_intr_mask := set_clear 0x400 0x800 w (DP_intr_mask r)\<rparr>
     in m\<lparr>MI_register := r1\<lparr>mi_intr_mask_reg := mi_mask_of r1\<rparr>\<rparr>)"

definition update_DPC :: "'w machine \<Rightarrow> 'w machine" where
  "update_DPC m =
    (let r = dpc_register m; w = w_dpc_status r;
         r1 = r\<lparr>xbus_dmem_dma := set_clear 0x1 0x2 w (xbus_dmem_dma r), dpc_freeze := set_clear 0x4 0x8 w (dpc_freeze r),
                dpc_flush := set_clear 0x10 0x20 w (dpc_flush r)\<rparr>
     in m\<lparr>dpc_register := r1\<lparr>dpc_status := flag_bit 0 (xbus_dmem_dma r1) OR flag_bit 1 (dpc_freeze r1) OR
       flag_bit 2 (dpc_flush r1) OR flag_bit 3 (start_glck r1) OR flag_bit 4 (tmem_busy r1) OR flag_bit 5 (pipe_busy r1) OR
       flag_bit 6 (cmd_busy r1) OR flag_bit 7 (cbuf_busy r1) OR flag_bit 8 (dpc_dma_busy r1) OR flag_bit 9 (end_valid r1) OR
       flag_bit 10 (start_valid r1)\<rparr>\<rparr>)"

definition sp_status_of :: "sp_reg \<Rightarrow> u32" where
  "sp_status_of r = flag_bit 0 (sp_halt r) OR flag_bit 1 (sp_broke r) OR flag_bit 2 (sp_dma_busy r) OR
     flag_bit 3 (sp_dma_full r) OR flag_bit 4 (sp_io_full r) OR flag_bit 5 (sp_single_step r) OR flag_bit 6 (sp_intr_break r) OR
     flag_bit 7 (signal0 r) OR flag_bit 8 (signal1 r) OR flag_bit 9 (signal2 r) OR flag_bit 10 (signal3 r) OR
     flag_bit 11 (signal4 r) OR flag_bit 12 (signal5 r) OR flag_bit 13 (signal6 r) OR flag_bit 14 (signal7 r)"

text \<open>The flags of the RSP, with its interrupt cleared and then raised in between.\<close>

definition update_sp_flags :: "'w machine \<Rightarrow> 'w machine option" where
  "update_sp_flags m = do {
     let w = w_sp_status_reg (sp_register m);
     let m1 = m\<lparr>sp_register := (sp_register m)\<lparr>sp_halt := set_clear 0x1 0x2 w (sp_halt (sp_register m)),
                  sp_broke := (if w AND 0x4 \<noteq> 0 then 0 else sp_broke (sp_register m))\<rparr>\<rparr>;
     m2 \<leftarrow> (if w AND 0x8 \<noteq> 0 then check_interrupt (set_mi_intr (mi_intr_reg (MI_register m1) AND 0xFFFFFFFE) m1) else Some m1);
     m3 \<leftarrow> (if w AND 0x10 \<noteq> 0 then check_interrupt (set_mi_intr (mi_intr_reg (MI_register m2) OR 1) m2) else Some m2);
     let r = sp_register m3;
     let r1 = r\<lparr>sp_single_step := set_clear 0x20 0x40 w (sp_single_step r), sp_intr_break := set_clear 0x80 0x100 w (sp_intr_break r),
                signal0 := set_clear 0x200 0x400 w (signal0 r), signal1 := set_clear 0x800 0x1000 w (signal1 r),
                signal2 := set_clear 0x2000 0x4000 w (signal2 r), signal3 := set_clear 0x8000 0x10000 w (signal3 r),
                signal4 := set_clear 0x20000 0x40000 w (signal4 r), signal5 := set_clear 0x80000 0x100000 w (signal5 r),
                signal6 := set_clear 0x200000 0x400000 w (signal6 r), signal7 := set_clear 0x800000 0x1000000 w (signal7 r)\<rparr>;
     Some (m3\<lparr>sp_register := r1\<lparr>sp_status_reg := sp_status_of r1\<rparr>\<rparr>) }"

section \<open>Frame buffers\<close>

definition fb_available :: "'w machine_env \<Rightarrow> bool" where
  "fb_available env \<longleftrightarrow> video_fb_get_frame_buffer_info env \<noteq> None \<and> video_fb_read env \<noteq> None \<and> video_fb_write env \<noteq> None"

definition fb_first_set :: "'w machine \<Rightarrow> bool" where
  "fb_first_set m \<longleftrightarrow> frameBufferInfos m \<noteq> [] \<and> fb_addr (hd (frameBufferInfos m)) \<noteq> 0"

text \<open>The first and the last byte of a frame buffer, as \<^verbatim>\<open>int32_t\<close>.\<close>

definition fb_start :: "fb_info \<Rightarrow> int" where
  "fb_start f = sint (fb_addr f AND 0x7FFFFF)"

definition fb_end :: "fb_info \<Rightarrow> int" where
  "fb_end f = sint ((fb_addr f AND 0x7FFFFF) + fb_width f * fb_height f * fb_size f - 1)"

text \<open>The handlers of the pages that a frame buffer touches, cached and uncached.\<close>

definition set_fb_pages :: "mem_region \<Rightarrow> fb_info \<Rightarrow> 'w machine \<Rightarrow> 'w machine option" where
  "set_fb_pages r f m =
    (let s = fb_start f div 0x10000; e = fb_end f div 0x10000;
         hit = (\<lambda>p. (0x8000 + s \<le> int p \<and> int p \<le> 0x8000 + e) \<or> (0xa000 + s \<le> int p \<and> int p \<le> 0xa000 + e))
     in if s \<le> e \<and> 0xa000 + e \<ge> 0xFFFF then None
        else Some (m\<lparr>readmem := (\<lambda>p. if hit p then r else readmem m p), writemem := (\<lambda>p. if hit p then r else writemem m p)\<rparr>))"

text \<open>
  The pages of 4 KiB that are marked as drawn: the loop counts pages and compares them with the
  byte addresses of the frame buffer.  \<^verbatim>\<open>framebufferRead\<close> has 0x800 entries.
\<close>

definition mark_fb_read :: "fb_info \<Rightarrow> 'w machine \<Rightarrow> 'w machine option" where
  "mark_fb_read f m =
    (let s = fb_start f div 0x10000 * 16; e = fb_end f div 0x10000 * 16
     in if s \<le> e \<and> e \<ge> 0x800 then None
        else Some (m\<lparr>framebufferRead := (\<lambda>j. if s \<le> int j \<and> int j \<le> e
          then fb_start f \<le> int j \<and> int j \<le> fb_end f else framebufferRead m j)\<rparr>))"

definition unprotect_fb :: "fb_info \<Rightarrow> 'w machine \<Rightarrow> 'w machine option" where
  "unprotect_fb f m = (if fb_addr f = 0 then Some m else set_fb_pages Mem_rdram f m)"

definition protect_fb :: "fb_info \<Rightarrow> 'w machine \<Rightarrow> 'w machine option" where
  "protect_fb f m =
    (if fb_addr f = 0 then Some m
     else do {
       m1 \<leftarrow> set_fb_pages Mem_rdramFB f m;
       m2 \<leftarrow> mark_fb_read f m1;
       Some (if firstFrameBufferSetting m2 then m2\<lparr>firstFrameBufferSetting := False, fast_memory := False\<rparr> else m2) })"

section \<open>The start of an RSP task\<close>

definition is_frame_skipped :: "core_cfg \<Rightarrow> 'w machine \<Rightarrow> bool" where
  "is_frame_skipped c m =
    (if frame_advance_outstanding (vcr m) > 1 then True
     else if \<not> render_throttling c then False
     else if core_vcr_is_seeking (vcr m) then True
     else if \<not> g_vr_fast_forward m then False
     else if frame_skip_frequency c = 0 then True
     else if frame_skip_frequency c = 1 then False
     else g_total_frames m mod scast (frame_skip_frequency c) \<noteq> 0)"

text \<open>The RSP runs with its program counter inside the instruction memory; the upper bits are put back.\<close>

definition set_rsp_pc :: "u32 \<Rightarrow> 'w machine \<Rightarrow> 'w machine" where
  "set_rsp_pc v m = m\<lparr>rsp_register := (rsp_register m)\<lparr>rsp_pc := v\<rparr>\<rparr>"

definition run_rsp :: "'w machine_env \<Rightarrow> bool \<Rightarrow> u32 \<Rightarrow> 'w machine \<Rightarrow> 'w machine" where
  "run_rsp env go save_pc m =
    (let m1 = (if go then rsp_do_rsp_cycles env 100 m else m)
     in set_rsp_pc (rsp_pc (rsp_register m1) OR save_pc) m1)"

definition rsp_started :: "u32 \<Rightarrow> u32 \<Rightarrow> 'w machine \<Rightarrow> 'w machine" where
  "rsp_started mi sp m = count_now ((set_mi_intr (mi_intr_reg (MI_register m) AND NOT mi) m)
     \<lparr>sp_register := (sp_register m)\<lparr>sp_status_reg := sp_status_reg (sp_register m) AND NOT sp\<rparr>\<rparr>)"

definition display_task :: "'w machine_env \<Rightarrow> u32 \<Rightarrow> 'w machine \<Rightarrow> 'w machine option" where
  "display_task env save_pc m = do {
     m1 \<leftarrow> (if fb_available env \<and> fb_first_set m then run_ops unprotect_fb (frameBufferInfos m) m else Some m);
     let m2 = (set_rsp_pc (rsp_pc (rsp_register m1) AND 0xFFF) m1)
       \<lparr>g_total_frames := g_total_frames m1 + 1, cfg_total_frames := cfg_total_frames m1 + 1\<rparr>;
     let m3 = m2\<lparr>g_vr_frame_skipped := is_frame_skipped (core_cfg env) m2\<rparr>;
     let m4 = callback_frame env (run_rsp env (\<not> g_vr_frame_skipped m3) save_pc m3);
     m5 \<leftarrow> m_add_event SP_INT 1000 (rsp_started 0x21 0x303 m4);
     m6 \<leftarrow> m_add_event DP_INT 1000 m5;
     case video_fb_get_frame_buffer_info env of
       None \<Rightarrow> Some m6
     | Some get \<Rightarrow>
         if \<not> fb_available env then Some m6
         else let m7 = m6\<lparr>frameBufferInfos := get m6\<rparr>
           in if fb_first_set m7 then run_ops protect_fb (frameBufferInfos m7) m7 else Some m7 }"

definition other_task :: "'w machine_env \<Rightarrow> u32 \<Rightarrow> u32 \<Rightarrow> u32 \<Rightarrow> 'w machine \<Rightarrow> 'w machine option" where
  "other_task env save_pc sp delay m = m_add_event SP_INT delay (rsp_started 0x1 sp
     (run_rsp env (\<not> g_vr_fast_forward m \<or> \<not> fastforward_silent (core_cfg env)) save_pc
        (set_rsp_pc (rsp_pc (rsp_register m) AND 0xFFF) m)))"

definition update_SP :: "'w machine_env \<Rightarrow> 'w machine \<Rightarrow> 'w machine option" where
  "update_SP env m = do {
     m1 \<leftarrow> update_sp_flags m;
     let w = w_sp_status_reg (sp_register m1);
     if w AND 0x1 = 0 \<and> w AND 0x4 = 0 then Some m1
     else if sp_halt (sp_register m1) = 0 \<and> sp_broke (sp_register m1) = 0 then
       let save_pc = rsp_pc (rsp_register m1) AND NOT 0xFFF; task = ld32 (SP_DMEM m1) 0xFC0
       in if task = 1 then display_task env save_pc m1
          else if task = 2 then other_task env save_pc 0x303 4000 m1
          else other_task env save_pc 0x203 0 m1
     else Some m1 }"

end
