(* ===== verification/Rcp_Access.thy ===== *)
theory Rcp_Access
  imports Rcp
begin

text \<open>
  The handlers of \<^verbatim>\<open>Core/memory/memory.cpp\<close> that read and write the registers of the RCP: for each group
  the functions for words, bytes, half-words and double words, as one function of the width.
\<close>

section \<open>Groups without side effects\<close>

definition read_rdramreg :: "width \<Rightarrow> 'w machine \<Rightarrow> 'w machine option" where
  "read_rdramreg = read_reg readrdramreg"

definition write_rdramreg :: "width \<Rightarrow> 'w machine \<Rightarrow> 'w machine option" where
  "write_rdramreg = write_reg readrdramreg"

definition read_rsp :: "width \<Rightarrow> 'w machine \<Rightarrow> 'w machine option" where
  "read_rsp = read_reg readrsp"

definition write_rsp :: "width \<Rightarrow> 'w machine \<Rightarrow> 'w machine option" where
  "write_rsp = write_reg readrsp"

definition read_dps :: "width \<Rightarrow> 'w machine \<Rightarrow> 'w machine option" where
  "read_dps = read_reg readdps"

definition write_dps :: "width \<Rightarrow> 'w machine \<Rightarrow> 'w machine option" where
  "write_dps = write_reg readdps"

definition read_ri :: "width \<Rightarrow> 'w machine \<Rightarrow> 'w machine option" where
  "read_ri = read_reg readri"

definition write_ri :: "width \<Rightarrow> 'w machine \<Rightarrow> 'w machine option" where
  "write_ri = write_reg readri"

definition read_dp :: "width \<Rightarrow> 'w machine \<Rightarrow> 'w machine option" where
  "read_dp = read_reg readdp"

definition read_mi :: "width \<Rightarrow> 'w machine \<Rightarrow> 'w machine option" where
  "read_mi = read_reg readmi"

definition read_pi :: "width \<Rightarrow> 'w machine \<Rightarrow> 'w machine option" where
  "read_pi = read_reg readpi"

definition read_si :: "width \<Rightarrow> 'w machine \<Rightarrow> 'w machine option" where
  "read_si = read_reg readsi"

section \<open>RSP\<close>

definition set_semaphore :: "u32 \<Rightarrow> 'w machine \<Rightarrow> 'w machine" where
  "set_semaphore v m = m\<lparr>sp_register := (sp_register m)\<lparr>sp_semaphore_reg := v\<rparr>\<rparr>"

definition read_rsp_reg :: "width \<Rightarrow> 'w machine \<Rightarrow> 'w machine option" where
  "read_rsp_reg w m = do {
     m1 \<leftarrow> read_reg readrspreg w m;
     Some (if (if w = W64 then address_low m1 = 0x18 else selects w 0x1c m1) then set_semaphore 1 m1 else m1) }"

definition set_w_sp_status :: "u32 \<Rightarrow> 'w machine \<Rightarrow> 'w machine" where
  "set_w_sp_status v m = m\<lparr>sp_register := (sp_register m)\<lparr>w_sp_status_reg := v\<rparr>\<rparr>"

text \<open>A status written as a byte or a half-word is stored without taking effect.\<close>

definition write_rsp_reg :: "'w machine_env \<Rightarrow> width \<Rightarrow> 'w machine \<Rightarrow> 'w machine option" where
  "write_rsp_reg env w m =
    (if w = W64 then
       if address_low m = 0x10 then update_SP env (set_w_sp_status (ucast (drop_bit 32 (dword m))) m)
       else if address_low m = 0x18 then Some (set_semaphore 0 m)
       else do {
         m1 \<leftarrow> write_reg readrspreg W64 m;
         if address_low m1 = 0x8 then do { m2 \<leftarrow> dma_sp_write m1; dma_sp_read m2 } else Some m1 }
     else if selects w 0x10 m then do {
       v \<leftarrow> store_part w m (w_sp_status_reg (sp_register m));
       if w = W32 then update_SP env (set_w_sp_status v m) else Some (set_w_sp_status v m) }
     else if selects w 0x14 m \<or> selects w 0x18 m then Some m
     else do {
       m1 \<leftarrow> write_reg readrspreg w m;
       if selects w 0x8 m1 then dma_sp_write m1
       else if selects w 0xc m1 then dma_sp_read m1
       else if selects w 0x1c m1 then Some (set_semaphore 0 m1)
       else Some m1 })"

section \<open>RDP commands\<close>

definition set_w_dpc_status :: "u32 \<Rightarrow> 'w machine \<Rightarrow> 'w machine" where
  "set_w_dpc_status v m = m\<lparr>dpc_register := (dpc_register m)\<lparr>w_dpc_status := v\<rparr>\<rparr>"

definition dpc_begin :: "'w machine \<Rightarrow> 'w machine" where
  "dpc_begin m = m\<lparr>dpc_register := (dpc_register m)\<lparr>dpc_current := dpc_start (dpc_register m)\<rparr>\<rparr>"

definition dpc_process :: "'w machine_env \<Rightarrow> 'w machine \<Rightarrow> 'w machine option" where
  "dpc_process env m =
    (let m1 = video_process_rdp_list env m in check_interrupt (set_mi_intr (mi_intr_reg (MI_register m1) OR 0x20) m1))"

definition write_dp :: "'w machine_env \<Rightarrow> width \<Rightarrow> 'w machine \<Rightarrow> 'w machine option" where
  "write_dp env w m =
    (if w = W64 then
       if address_low m = 0x8 then Some (update_DPC (set_w_dpc_status (dword_low m) m))
       else if address_low m = 0x10 \<or> address_low m = 0x18 then Some m
       else do {
         m1 \<leftarrow> write_reg readdp W64 m;
         if address_low m1 = 0x0 then dpc_process env (dpc_begin m1) else Some m1 }
     else if selects w 0xc m then do {
       v \<leftarrow> store_part w m (w_dpc_status (dpc_register m));
       Some (update_DPC (set_w_dpc_status v m)) }
     else if selects w 0x8 m \<or> selects w 0x10 m \<or> selects w 0x14 m \<or> selects w 0x18 m \<or> selects w 0x1c m then Some m
     else do {
       m1 \<leftarrow> write_reg readdp w m;
       if selects w 0x0 m1 then Some (dpc_begin m1)
       else if selects w 0x4 m1 then dpc_process env m1
       else Some m1 })"

section \<open>MIPS interface\<close>

definition set_w_mi_init_mode :: "u32 \<Rightarrow> 'w machine \<Rightarrow> 'w machine" where
  "set_w_mi_init_mode v m = m\<lparr>MI_register := (MI_register m)\<lparr>w_mi_init_mode_reg := v\<rparr>\<rparr>"

definition set_w_mi_intr_mask :: "u32 \<Rightarrow> 'w machine \<Rightarrow> 'w machine" where
  "set_w_mi_intr_mask v m = m\<lparr>MI_register := (MI_register m)\<lparr>w_mi_intr_mask_reg := v\<rparr>\<rparr>"

definition mi_mask_written :: "'w machine_env \<Rightarrow> u32 \<Rightarrow> 'w machine \<Rightarrow> 'w machine option" where
  "mi_mask_written env v m = do {
     m1 \<leftarrow> check_interrupt (update_MI_intr_mask_reg (set_w_mi_intr_mask v m));
     gen_interrupt_if_due env (count_now m1) }"

definition write_mi :: "'w machine_env \<Rightarrow> width \<Rightarrow> 'w machine \<Rightarrow> 'w machine option" where
  "write_mi env w m =
    (if w = W64 then
       if address_low m = 0x0 then update_MI_init_mode_reg (set_w_mi_init_mode (ucast (drop_bit 32 (dword m))) m)
       else if address_low m = 0x8 then mi_mask_written env (dword_low m) m
       else Some m
     else if selects w 0x0 m then do {
       v \<leftarrow> store_part w m (w_mi_init_mode_reg (MI_register m));
       update_MI_init_mode_reg (set_w_mi_init_mode v m) }
     else if selects w 0xc m then do {
       v \<leftarrow> store_part w m (w_mi_intr_mask_reg (MI_register m));
       mi_mask_written env v m }
     else Some m)"

section \<open>Video interface\<close>

text \<open>\<^verbatim>\<open>vi_current\<close> is computed from the time until the next video interrupt when it is read.\<close>

definition update_vi_current :: "'w machine \<Rightarrow> 'w machine" where
  "update_vi_current m0 =
    (let m = count_now m0; v = (vi_delay (vi_register m) - (next_vi m - core_Count (cpu m))) div 1500
     in m\<lparr>vi_register := (vi_register m)\<lparr>vi_current := (v AND NOT 1) OR vi_field m\<rparr>\<rparr>)"

definition read_vi :: "width \<Rightarrow> 'w machine \<Rightarrow> 'w machine option" where
  "read_vi w m = read_reg readvi w (if selects w 0x10 m then update_vi_current m else m)"

definition set_vi_status :: "'w machine_env \<Rightarrow> u32 \<Rightarrow> 'w machine \<Rightarrow> 'w machine" where
  "set_vi_status env v m =
    (if vi_status (vi_register m) \<noteq> v
     then video_vi_status_changed env (m\<lparr>vi_register := (vi_register m)\<lparr>vi_status := v\<rparr>\<rparr>) else m)"

definition set_vi_width :: "'w machine_env \<Rightarrow> u32 \<Rightarrow> 'w machine \<Rightarrow> 'w machine" where
  "set_vi_width env v m =
    (if vi_width (vi_register m) \<noteq> v
     then video_vi_width_changed env (m\<lparr>vi_register := (vi_register m)\<lparr>vi_width := v\<rparr>\<rparr>) else m)"

definition clear_mi_intr :: "u32 \<Rightarrow> 'w machine \<Rightarrow> 'w machine option" where
  "clear_mi_intr msk m = check_interrupt (set_mi_intr (mi_intr_reg (MI_register m) AND msk) m)"

text \<open>A byte or half-word written to \<^verbatim>\<open>vi_width\<close> replaces a part of \<^verbatim>\<open>vi_status\<close>.\<close>

definition write_vi :: "'w machine_env \<Rightarrow> width \<Rightarrow> 'w machine \<Rightarrow> 'w machine option" where
  "write_vi env w m =
    (if w = W64 then
       let h = ucast (drop_bit 32 (dword m)); l = dword_low m in
       if address_low m = 0x0 then
         let m1 = set_vi_status env h m in Some (m1\<lparr>vi_register := (vi_register m1)\<lparr>vi_origin := l\<rparr>\<rparr>)
       else if address_low m = 0x8 then
         let m1 = set_vi_width env h m in Some (m1\<lparr>vi_register := (vi_register m1)\<lparr>vi_v_intr := l\<rparr>\<rparr>)
       else if address_low m = 0x10 then do {
         m1 \<leftarrow> clear_mi_intr 0xFFFFFFF7 m;
         Some (m1\<lparr>vi_register := (vi_register m1)\<lparr>vi_burst := l\<rparr>\<rparr>) }
       else write_reg readvi W64 m
     else if selects w 0x0 m then map_option (\<lambda>v. set_vi_status env v m) (store_part w m (vi_status (vi_register m)))
     else if selects w 0x8 m then map_option (\<lambda>v. set_vi_width env v m) (store_part w m (vi_status (vi_register m)))
     else if selects w 0x10 m then clear_mi_intr 0xFFFFFFF7 m
     else write_reg readvi w m)"

section \<open>Audio interface\<close>

text \<open>
  The bytes that are still to be played: a product of 64-bit integers, undefined where it
  overflows.
\<close>

definition ai_remaining :: "'w machine \<Rightarrow> u32 \<Rightarrow> u64 option" where
  "ai_remaining m left =
    (let p = unat left * unat (current_len (ai_register m))
     in if p < 2 ^ 63 then Some (of_nat (p div unat (current_delay (ai_register m)))) else None)"

definition ai_length :: "bool \<Rightarrow> 'w machine \<Rightarrow> u64 option" where
  "ai_length checked m = do {
     e \<leftarrow> get_event AI_INT (queue m);
     let left = e - core_Count (cpu m);
     if current_delay (ai_register m) \<noteq> 0 \<and> e \<noteq> 0 \<and> (checked \<longrightarrow> left < 0x80000000) then ai_remaining m left else Some 0 }"

definition read_ai :: "width \<Rightarrow> 'w machine \<Rightarrow> 'w machine option" where
  "read_ai w m =
    (if w = W64 then
       if address_low m = 0x0 then do {
         let m1 = count_now m;
         v \<leftarrow> ai_length False m1;
         Some (set_rdword (v OR push_bit 32 (ucast (ai_dram_addr (ai_register m1)))) m1) }
       else read_reg readai W64 m
     else if selects w 0x4 m then do {
       let m1 = count_now m;
       v \<leftarrow> ai_length (w = W32) m1;
       if w = W32 then Some (set_rdword v m1)
       else map_option (\<lambda>x. set_rdword x m1) (load_part w (address_low m1) (ucast v)) }
     else read_reg readai w m)"

abbreviation (input) is_pal_country :: "u16 \<Rightarrow> bool" where
  "is_pal_country c \<equiv> c \<in> {0x44, 0x46, 0x49, 0x50, 0x53, 0x55, 0x58, 0x59}"

abbreviation (input) is_ntsc_country :: "u16 \<Rightarrow> bool" where
  "is_ntsc_country c \<equiv> c \<in> {0x37, 0x41, 0x45, 0x4a}"

text \<open>
  How long the buffer plays.  The function for words divides the clock by the sample rate first, the
  others multiply by it.
\<close>

definition ai_delay_word :: "'w machine \<Rightarrow> u32 option" where
  "ai_delay_word m =
    (let c = Country_code (ROM_HEADER (roms m)) AND 0xFF; a = ai_register m; d = ai_dacrate a + 1;
         n = ucast (ai_len a) * ucast (vi_delay (vi_register m)) :: u64;
         by = (\<lambda>clk k. if d = 0 then None
           else let f = clk div d in Some (if f \<noteq> 0 then ucast (n * k div ucast (f * 4)) else 0))
     in if is_pal_country c then by 49656530 50 else if is_ntsc_country c then by 48681812 60 else Some 0)"

definition ai_delay_part :: "'w machine \<Rightarrow> u32" where
  "ai_delay_part m =
    (let c = Country_code (ROM_HEADER (roms m)) AND 0xFF; a = ai_register m;
         n = ucast (ai_len a) * ucast (ai_dacrate a + 1) * ucast (vi_delay (vi_register m)) :: u64
     in if is_pal_country c then ucast (n * 50 div 49656530)
        else if is_ntsc_country c then ucast (n * 60 div 48681812) else 0)"

text \<open>Queue the buffer behind the one that plays, or start it.\<close>

definition ai_start :: "u32 \<Rightarrow> u32 \<Rightarrow> 'w machine \<Rightarrow> 'w machine option" where
  "ai_start delay event_delay m =
    (let a = ai_register m in
     if ai_status a AND 0x40000000 \<noteq> 0
     then Some (m\<lparr>ai_register := a\<lparr>next_delay := delay, next_len := ai_len a, ai_status := ai_status a OR 0x80000000\<rparr>\<rparr>)
     else do {
       m1 \<leftarrow> m_add_event AI_INT event_delay
         (count_now (m\<lparr>ai_register := a\<lparr>current_delay := delay, current_len := ai_len a\<rparr>\<rparr>));
       Some (m1\<lparr>ai_register := (ai_register m1)\<lparr>ai_status := ai_status (ai_register m1) OR 0x40000000\<rparr>\<rparr>) })"

definition ai_len_written :: "'w machine_env \<Rightarrow> u32 \<Rightarrow> 'w machine \<Rightarrow> 'w machine" where
  "ai_len_written env v m =
     callback_ai_len_changed env (audio_ai_len_changed env (m\<lparr>ai_register := (ai_register m)\<lparr>ai_len := v\<rparr>\<rparr>))"

definition set_ai_dacrate :: "'w machine_env \<Rightarrow> u32 \<Rightarrow> 'w machine \<Rightarrow> 'w machine" where
  "set_ai_dacrate env v m =
    (if ai_dacrate (ai_register m) \<noteq> v then
       let m1 = audio_ai_dacrate_changed env (g_sys_type (roms m)) (m\<lparr>ai_register := (ai_register m)\<lparr>ai_dacrate := v\<rparr>\<rparr>)
       in callback_dacrate_changed env (g_sys_type (roms m1)) m1
     else m)"

definition delay_if_enabled :: "'w machine_env \<Rightarrow> u32 \<Rightarrow> u32" where
  "delay_if_enabled env d = (if is_audio_delay_enabled (core_cfg env) then d else 0)"

text \<open>\<^verbatim>\<open>write_ai\<close>, \<^verbatim>\<open>write_aib\<close> and \<^verbatim>\<open>write_aih\<close>; only the function for bytes ignores the setting of the audio delay.\<close>

definition write_ai_word :: "'w machine_env \<Rightarrow> 'w machine \<Rightarrow> 'w machine option" where
  "write_ai_word env m =
    (if address_low m = 0x4 then do {
       let m1 = ai_len_written env (word m) m;
       d0 \<leftarrow> ai_delay_word m1;
       let d = delay_if_enabled env d0;
       ai_start d d m1 }
     else if address_low m = 0xc then clear_mi_intr 0xFFFFFFFB m
     else if address_low m = 0x10 then Some (set_ai_dacrate env (word m) m)
     else write_reg readai W32 m)"

definition write_ai_part :: "'w machine_env \<Rightarrow> width \<Rightarrow> 'w machine \<Rightarrow> 'w machine option" where
  "write_ai_part env w m =
    (if selects w 0x4 m then do {
       v \<leftarrow> store_part w m (ai_len (ai_register m));
       let m1 = ai_len_written env v m;
       let d = (if w = W8 then ai_delay_part m1 else delay_if_enabled env (ai_delay_part m1));
       ai_start d (d div 2) m1 }
     else if selects w 0xc m then clear_mi_intr 0xFFFFFFFB m
     else if selects w 0x10 m
     then map_option (\<lambda>v. set_ai_dacrate env v m) (store_part w m (ai_dacrate (ai_register m)))
     else write_reg readai w m)"

definition write_ai_dword :: "'w machine_env \<Rightarrow> 'w machine \<Rightarrow> 'w machine option" where
  "write_ai_dword env m =
    (let h = ucast (drop_bit 32 (dword m)); l = dword_low m in
     if address_low m = 0x0 then
       let m1 = ai_len_written env l (m\<lparr>ai_register := (ai_register m)\<lparr>ai_dram_addr := h\<rparr>\<rparr>);
           d = delay_if_enabled env (ai_delay_part m1)
       in ai_start d (d div 2) m1
     else if address_low m = 0x8 then clear_mi_intr 0xFFFFFFFB (m\<lparr>ai_register := (ai_register m)\<lparr>ai_control := h\<rparr>\<rparr>)
     else if address_low m = 0x10 then
       let m1 = set_ai_dacrate env h m in Some (m1\<lparr>ai_register := (ai_register m1)\<lparr>ai_bitrate := l\<rparr>\<rparr>)
     else write_reg readai W64 m)"

definition write_ai :: "'w machine_env \<Rightarrow> width \<Rightarrow> 'w machine \<Rightarrow> 'w machine option" where
  "write_ai env w m = (case w of W32 \<Rightarrow> write_ai_word env m | W64 \<Rightarrow> write_ai_dword env m | _ \<Rightarrow> write_ai_part env w m)"

section \<open>Peripheral interface\<close>

definition set_pi_rd_len :: "u32 \<Rightarrow> 'w machine \<Rightarrow> 'w machine" where
  "set_pi_rd_len v m = m\<lparr>pi_register := (pi_register m)\<lparr>pi_rd_len_reg := v\<rparr>\<rparr>"

definition set_pi_wr_len :: "u32 \<Rightarrow> 'w machine \<Rightarrow> 'w machine" where
  "set_pi_wr_len v m = m\<lparr>pi_register := (pi_register m)\<lparr>pi_wr_len_reg := v\<rparr>\<rparr>"

definition pi_status_written :: "bool \<Rightarrow> 'w machine \<Rightarrow> 'w machine option" where
  "pi_status_written clr m = clear_mi_intr (if clr then 0xFFFFFFEF else 0xFFFFFFFF) m"

text \<open>The registers of the two domains have eight bits, at 0x14 to 0x30.\<close>

definition pi_domain :: "nat \<Rightarrow> bool" where
  "pi_domain r \<longleftrightarrow> r \<in> {0x14, 0x18, 0x1c, 0x20, 0x24, 0x28, 0x2c, 0x30}"

text \<open>
  The functions for bytes, half-words and double words test the global variable \<^verbatim>\<open>word\<close>, which a store
  of their width does not set.
\<close>

definition write_pi_word :: "'w machine_env \<Rightarrow> 'w machine \<Rightarrow> 'w machine option" where
  "write_pi_word env m =
    (let low = address_low m in
     if low = 0x8 then dma_pi_read env (set_pi_rd_len (word m) m)
     else if low = 0xc then dma_pi_write env (set_pi_wr_len (word m) m)
     else if low = 0x10 then pi_status_written (word m AND 2 \<noteq> 0) m
     else if pi_domain low then do { r \<leftarrow> readpi low; Some (snd r (word m AND 0xFF) m) }
     else write_reg readpi W32 m)"

definition write_pi_part :: "'w machine_env \<Rightarrow> width \<Rightarrow> 'w machine \<Rightarrow> 'w machine option" where
  "write_pi_part env w m =
    (let low = address_low m in
     if selects w 0x8 m then do {
       v \<leftarrow> store_part w m (pi_rd_len_reg (pi_register m));
       dma_pi_read env (set_pi_rd_len v m) }
     else if selects w 0xc m then do {
       v \<leftarrow> store_part w m (pi_wr_len_reg (pi_register m));
       dma_pi_write env (set_pi_wr_len v m) }
     else if selects w 0x10 m then pi_status_written (word m \<noteq> 0) m
     else if w = W8 \<and> (pi_domain low \<or> pi_domain (low - 1) \<or> pi_domain (low - 2)) then Some m
     else if w = W16 \<and> pi_domain (low - 2) then do {
       r \<leftarrow> readpi (low AND 0xfffc);
       Some (snd r (put_bits (8 * (low mod 4 XOR S16)) 16 (ucast (hword m AND 0xFF)) (fst r m)) m) }
     else if w = W16 \<and> pi_domain low then Some m
     else write_reg readpi w m)"

definition write_pi_dword :: "'w machine_env \<Rightarrow> 'w machine \<Rightarrow> 'w machine option" where
  "write_pi_dword env m =
    (let low = address_low m; h = ucast (drop_bit 32 (dword m)); l = dword_low m in
     if low = 0x8 then do {
       m1 \<leftarrow> dma_pi_read env (set_pi_rd_len h m);
       dma_pi_write env (set_pi_wr_len (dword_low m1) m1) }
     else if low = 0x10 then do {
       m1 \<leftarrow> pi_status_written (word m \<noteq> 0) m;
       r \<leftarrow> readpi (low + 4);
       Some (snd r (l AND 0xFF) m1) }
     else if low \<in> {0x18, 0x20, 0x28, 0x30} then do {
       r \<leftarrow> readpi low;
       s \<leftarrow> readpi (low + 4);
       Some (snd s (l AND 0xFF) (snd r (h AND 0xFF) m)) }
     else write_reg readpi W64 m)"

definition write_pi :: "'w machine_env \<Rightarrow> width \<Rightarrow> 'w machine \<Rightarrow> 'w machine option" where
  "write_pi env w m = (case w of W32 \<Rightarrow> write_pi_word env m | W64 \<Rightarrow> write_pi_dword env m | _ \<Rightarrow> write_pi_part env w m)"

section \<open>Serial interface\<close>

definition set_si_dram :: "u32 \<Rightarrow> 'w machine \<Rightarrow> 'w machine" where
  "set_si_dram v m = m\<lparr>si_register := (si_register m)\<lparr>si_dram_addr := v\<rparr>\<rparr>"

definition set_si_rd :: "u32 \<Rightarrow> 'w machine \<Rightarrow> 'w machine" where
  "set_si_rd v m = m\<lparr>si_register := (si_register m)\<lparr>si_pif_addr_rd64b := v\<rparr>\<rparr>"

definition set_si_wr :: "u32 \<Rightarrow> 'w machine \<Rightarrow> 'w machine" where
  "set_si_wr v m = m\<lparr>si_register := (si_register m)\<lparr>si_pif_addr_wr64b := v\<rparr>\<rparr>"

definition si_status_written :: "'w machine \<Rightarrow> 'w machine option" where
  "si_status_written m =
    (let m1 = set_mi_intr (mi_intr_reg (MI_register m) AND 0xFFFFFFFD) m
     in check_interrupt (m1\<lparr>si_register := (si_register m1)\<lparr>si_status := si_status (si_register m1) AND NOT 0x1000\<rparr>\<rparr>))"

definition write_si :: "'w machine_env \<Rightarrow> width \<Rightarrow> 'w machine \<Rightarrow> 'w machine option" where
  "write_si env w m =
    (let s = si_register m in
     if w = W64 then
       if address_low m = 0x0
       then dma_si_read env (set_si_rd (dword_low m) (set_si_dram (ucast (drop_bit 32 (dword m))) m))
       else if address_low m = 0x10 then dma_si_write env (set_si_wr (ucast (drop_bit 32 (dword m))) m)
       else if address_low m = 0x18 then si_status_written m
       else Some m
     else if selects w 0x0 m then map_option (\<lambda>v. set_si_dram v m) (store_part w m (si_dram_addr s))
     else if selects w 0x4 m then do {
       v \<leftarrow> store_part w m (si_pif_addr_rd64b s);
       dma_si_read env (set_si_rd v m) }
     else if selects w 0x10 m then do {
       v \<leftarrow> store_part w m (si_pif_addr_wr64b s);
       dma_si_write env (set_si_wr v m) }
     else if selects w 0x18 m then si_status_written m
     else Some m)"

end
