(* ===== verification/Tlb.thy ===== *)
theory Tlb
  imports Interrupts
begin

text \<open>
  The translation look-aside buffer, \<^verbatim>\<open>Core/memory/tlb.cpp\<close> and the TLB instructions of
  \<^verbatim>\<open>pure_interp.cpp\<close>: 32 entries of two pages each, and the two tables \<^verbatim>\<open>tlb_LUT_r\<close> and
  \<^verbatim>\<open>tlb_LUT_w\<close> with one word per 4-KiB page that every access goes through.
\<close>

section \<open>Translation\<close>

definition page_of :: "u32 \<Rightarrow> nat" where
  "page_of a = unat a div 0x1000"

text \<open>The look-up, without the exception that a miss raises.\<close>

definition tlb_lookup :: "nat \<Rightarrow> u32 \<Rightarrow> 'w machine \<Rightarrow> u32 option" where
  "tlb_lookup w a m =
    (let crc = CRC1 (ROM_HEADER (roms m)); lut = (if w = 1 then tlb_LUT_w m else tlb_LUT_r m) (page_of a)
     in if a \<ge> 0x7F000000 \<and> a < 0x80000000 \<and> crc = sl 0xDCBC50D1 then Some (0xB0034B30 + (a AND 0xFFFFFF))
        else if a \<ge> 0x7F000000 \<and> a < 0x80000000 \<and> crc = sl 0x0414CA61 then Some (0xB00329F0 + (a AND 0xFFFFFF))
        else if a \<ge> 0x7F000000 \<and> a < 0x80000000 \<and> crc = sl 0xA24F4CF1 then Some (0xB0034B70 + (a AND 0xFFFFFF))
        else if lut \<noteq> 0 then Some ((lut AND 0xFFFFF000) OR (a AND 0xFFF))
        else None)"

definition virtual_to_physical_address :: "u32 \<Rightarrow> nat \<Rightarrow> 'w machine \<Rightarrow> u32 \<times> 'w machine" where
  "virtual_to_physical_address a w m = (case tlb_lookup w a m of
      Some p \<Rightarrow> (p, m)
    | None \<Rightarrow> (0, TLB_refill_exception a w m))"

text \<open>Whether the instruction at an address is a no-operation, for the idle-loop detection of the branches.\<close>

definition probe_nop :: "u32 \<Rightarrow> 'w machine \<Rightarrow> bool" where
  "probe_nop adr m =
    (case (if adr < 0x80000000 \<or> adr > 0xC0000000 then
             if tlb_LUT_r m (page_of adr) \<noteq> 0
             then Some ((tlb_LUT_r m (page_of adr) AND 0xFFFFF000) OR (adr AND 0xFFF)) else None
           else Some adr) of
       None \<Rightarrow> False
     | Some a \<Rightarrow>
         if a \<ge> 0xA4000000 \<and> a < 0xA4001000 then ld32 (SP_DMEM m) (4 * (unat (a AND 0xFFF) div 4)) = 0
         else if a \<ge> 0x80000000 \<and> a < 0x80800000 then ld32 (rdram m) (4 * (unat (a AND 0x7FFFFF) div 4)) = 0
         else False)"

section \<open>Writing an entry\<close>

text \<open>The loops \<^verbatim>\<open>for (i = start; i < end; i++) tlb_LUT[i >> 12] = f(i);\<close>\<close>

fun lut_fill :: "nat \<Rightarrow> u32 \<Rightarrow> (u32 \<Rightarrow> u32) \<Rightarrow> (nat \<Rightarrow> u32) \<Rightarrow> nat \<Rightarrow> u32" where
  "lut_fill 0 i f lut = lut"
| "lut_fill (Suc n) i f lut = lut_fill n (i + 1) f (lut(page_of i := f i))"

definition lut_loop :: "u32 \<Rightarrow> u32 \<Rightarrow> (u32 \<Rightarrow> u32) \<Rightarrow> (nat \<Rightarrow> u32) \<Rightarrow> nat \<Rightarrow> u32" where
  "lut_loop start fin = lut_fill (unat fin - unat start) start"

definition unmap_half :: "u8 \<Rightarrow> u8 \<Rightarrow> u32 \<Rightarrow> u32 \<Rightarrow> 'w machine \<Rightarrow> 'w machine" where
  "unmap_half v d start fin m =
    (if v \<noteq> 0 then
       let m1 = m\<lparr>tlb_LUT_r := lut_loop start fin (\<lambda>_. 0) (tlb_LUT_r m)\<rparr>
       in if d \<noteq> 0 then m1\<lparr>tlb_LUT_w := lut_loop start fin (\<lambda>_. 0) (tlb_LUT_w m1)\<rparr> else m1
     else m)"

definition map_half :: "u8 \<Rightarrow> u8 \<Rightarrow> u32 \<Rightarrow> u32 \<Rightarrow> u32 \<Rightarrow> 'w machine \<Rightarrow> 'w machine" where
  "map_half v d start fin phys m =
    (if v \<noteq> 0 \<and> start < fin \<and> \<not> (start \<ge> 0x80000000 \<and> fin < 0xC0000000) \<and> phys < 0x20000000 then
       let f = (\<lambda>i. 0x80000000 OR (phys + (i - start)));
           m1 = m\<lparr>tlb_LUT_r := lut_loop start fin f (tlb_LUT_r m)\<rparr>
       in if d \<noteq> 0 then m1\<lparr>tlb_LUT_w := lut_loop start fin f (tlb_LUT_w m1)\<rparr> else m1
     else m)"

text \<open>The new contents of an entry, from the registers that \<^verbatim>\<open>TLBWI\<close> and \<^verbatim>\<open>TLBWR\<close> read.\<close>

definition new_tlb :: "r4300 \<Rightarrow> tlb \<Rightarrow> tlb" where
  "new_tlb c e =
    (let mask = ucast (drop_bit 13 (core_PageMask c AND 0x1FFE000));
         vpn2 = drop_bit 13 (core_EntryHi c AND 0xFFFFE000);
         pfn0 = drop_bit 6 (core_EntryLo0 c AND 0x3FFFFFC0);
         pfn1 = drop_bit 6 (core_EntryLo1 c AND 0x3FFFFFC0);
         s0 = push_bit 13 vpn2;
         e0 = s0 + push_bit 12 (scast (mask :: u16)) + 0xFFF;
         s1 = e0 + 1
     in e\<lparr>tlb_g := ucast (core_EntryLo0 c AND core_EntryLo1 c AND 1), tlb_pfn_even := pfn0, tlb_pfn_odd := pfn1,
          tlb_c_even := ucast (drop_bit 3 (core_EntryLo0 c AND 0x38)),
          tlb_c_odd := ucast (drop_bit 3 (core_EntryLo1 c AND 0x38)),
          tlb_d_even := ucast (drop_bit 2 (core_EntryLo0 c AND 4)),
          tlb_d_odd := ucast (drop_bit 2 (core_EntryLo1 c AND 4)),
          tlb_v_even := ucast (drop_bit 1 (core_EntryLo0 c AND 2)),
          tlb_v_odd := ucast (drop_bit 1 (core_EntryLo1 c AND 2)),
          tlb_asid := ucast (core_EntryHi c AND 0xFF), tlb_vpn2 := vpn2, tlb_mask := mask,
          start_even := s0, end_even := e0, phys_even := push_bit 12 pfn0,
          start_odd := s1, end_odd := s1 + push_bit 12 (scast mask) + 0xFFF, phys_odd := push_bit 12 pfn1\<rparr>)"

definition tlb_write :: "nat \<Rightarrow> 'w machine \<Rightarrow> 'w machine option" where
  "tlb_write k m =
    (if k < 32 then
       let old = tlb_e m k;
           m1 = unmap_half (tlb_v_even old) (tlb_d_even old) (start_even old) (end_even old) m;
           m2 = unmap_half (tlb_v_odd old) (tlb_d_odd old) (start_odd old) (end_odd old) m1;
           e = new_tlb (cpu m) old;
           m3 = m2\<lparr>tlb_e := (tlb_e m2)(k := e)\<rparr>;
           m4 = map_half (tlb_v_even e) (tlb_d_even e) (start_even e) (end_even e) (phys_even e) m3
       in Some (map_half (tlb_v_odd e) (tlb_d_odd e) (start_odd e) (end_odd e) (phys_odd e) m4)
     else None)"

section \<open>Instructions\<close>

definition m_pc4 :: "'w machine \<Rightarrow> 'w machine" where
  "m_pc4 m = m\<lparr>cpu := pc4 (cpu m)\<rparr>"

definition TLBR :: "'w machine \<Rightarrow> 'w machine" where
  "TLBR m =
    (let c = cpu m; e = tlb_e m (unat (core_Index c AND 0x1F));
         c1 = set_cop0 5 (push_bit 13 (scast (tlb_mask e))) c;
         c2 = set_cop0 10 (push_bit 13 (tlb_vpn2 e) OR ucast (tlb_asid e)) c1;
         c3 = set_cop0 2 (push_bit 6 (tlb_pfn_even e) OR push_bit 3 (scast (tlb_c_even e)) OR
                push_bit 2 (scast (tlb_d_even e)) OR push_bit 1 (scast (tlb_v_even e)) OR scast (tlb_g e)) c2;
         c4 = set_cop0 3 (push_bit 6 (tlb_pfn_odd e) OR push_bit 3 (scast (tlb_c_odd e)) OR
                push_bit 2 (scast (tlb_d_odd e)) OR push_bit 1 (scast (tlb_v_odd e)) OR scast (tlb_g e)) c3
     in m_pc4 (m\<lparr>cpu := c4\<rparr>))"

definition TLBWI :: "'w machine \<Rightarrow> 'w machine option" where
  "TLBWI m = map_option m_pc4 (tlb_write (unat (core_Index (cpu m) AND 0x3F)) m)"

text \<open>\<^verbatim>\<open>core_Count / 2 % (32 - core_Wired)\<close> divides by zero when \<^verbatim>\<open>Wired\<close> is 32.\<close>

definition TLBWR :: "'w machine \<Rightarrow> 'w machine option" where
  "TLBWR m =
    (let c = update_count (cpu m) in
     if core_Wired c = 32 then None
     else let r = (core_Count c div 2) mod (32 - core_Wired c) + core_Wired c
          in map_option m_pc4 (tlb_write (unat r) (m\<lparr>cpu := set_cop0 1 r c\<rparr>)))"

definition tlb_matches :: "u32 \<Rightarrow> tlb \<Rightarrow> bool" where
  "tlb_matches ehi e \<longleftrightarrow>
    (tlb_vpn2 e AND NOT (scast (tlb_mask e))) = (drop_bit 13 (ehi AND 0xFFFFE000) AND NOT (scast (tlb_mask e))) \<and>
    (tlb_g e \<noteq> 0 \<or> ucast (tlb_asid e) = ehi AND 0xFF)"

definition TLBP :: "'w machine \<Rightarrow> 'w machine" where
  "TLBP m =
    (let c = cpu m; c1 = set_cop0 0 (core_Index c OR 0x80000000) c in
     m_pc4 (m\<lparr>cpu := (case List.find (\<lambda>i. tlb_matches (core_EntryHi c) (tlb_e m i)) [0..<32] of
        Some i \<Rightarrow> set_cop0 0 (of_nat i) c1
      | None \<Rightarrow> c1)\<rparr>))"

definition ERET :: "'w machine_env \<Rightarrow> 'w machine \<Rightarrow> 'w machine option" where
  "ERET env m = do {
     let m1 = count_now m;
     let c = cpu m1;
     let m2 = (if core_Status c AND 4 \<noteq> 0 then set_stop m1
               else m1\<lparr>cpu := (set_cop0 12 (core_Status c AND 0xFFFFFFFD) c)\<lparr>interp_addr := core_EPC c\<rparr>\<rparr>);
     m3 \<leftarrow> check_interrupt (m2\<lparr>cpu := (cpu m2)\<lparr>llbit := False\<rparr>\<rparr>);
     gen_interrupt_if_due env (m3\<lparr>cpu := (cpu m3)\<lparr>last_addr := interp_addr (cpu m3)\<rparr>\<rparr>) }"

section \<open>Pages\<close>

lemma page_of_drop: "page_of a = page_of b \<longleftrightarrow> drop_bit 12 a = drop_bit 12 b"
proof -
  have "page_of a = unat (drop_bit 12 a)" for a
    by (simp add: page_of_def drop_bit_eq_div unat_div)
  then show ?thesis by (simp only: word_unat_eq_iff [symmetric])
qed

lemma page_masks: "(0xFFF :: u32) = mask 12" "(0xFFFFF000 :: u32) = NOT (mask 12)"
  by (simp_all add: mask_eq_exp_minus_1)

text \<open>Addresses of the same page differ in the low bits only, also after a page-aligned displacement.\<close>

lemma page_translate:
  fixes a b phys start :: u32
  assumes "page_of a = page_of b" "take_bit 12 phys = 0" "take_bit 12 start = 0"
  shows "((0x80000000 OR (phys + (b - start))) AND 0xFFFFF000) OR (a AND 0xFFF) = 0x80000000 OR (phys + (a - start))"
proof -
  define c where "c = phys + (push_bit 12 (drop_bit 12 a) - start)"
  have "2 ^ 12 dvd push_bit 12 (drop_bit 12 a)" by (simp add: push_bit_eq_mult)
  then have c0: "take_bit 12 c = 0"
    using assms(2,3) unfolding c_def take_bit_eq_0_iff by (intro dvd_add dvd_diff)
  have cb: "bit c n \<Longrightarrow> 12 \<le> n" for n
    using bit_take_bit_iff [of 12 c n] c0 by (simp add: not_less)
  have split: "phys + (x - start) = c OR take_bit 12 x" if "drop_bit 12 x = drop_bit 12 a" for x
  proof -
    have "x = push_bit 12 (drop_bit 12 a) + take_bit 12 x"
      using bits_ident [of 12 x] that by simp
    then have "phys + (x - start) = c + take_bit 12 x" unfolding c_def by (metis add.assoc add_diff_eq diff_add_eq)
    also have "\<dots> = c OR take_bit 12 x"
      by (rule disjunctive_add) (auto simp: bit_take_bit_iff dest: cb)
    finally show ?thesis .
  qed
  have "drop_bit 12 b = drop_bit 12 a" using assms(1) by (simp add: page_of_drop)
  note ab = split [OF this] split [OF refl]
  define k where "k = (0x80000000 :: u32)"
  have k: "n < 12 \<Longrightarrow> \<not> bit k n" for n using bit_exp_iff [of 31 n, where ?'a = u32] by (auto simp: k_def)
  have cn: "n < 12 \<Longrightarrow> \<not> bit c n" for n using cb [of n] by auto
  have "((k OR (c OR take_bit 12 b)) AND NOT (mask 12)) OR (a AND mask 12) = k OR (c OR take_bit 12 a)"
  proof (rule bit_word_eqI)
    fix n
    show "bit (((k OR (c OR take_bit 12 b)) AND NOT (mask 12)) OR (a AND mask 12)) n = bit (k OR (c OR take_bit 12 a)) n"
      if "n < LENGTH(32)"
      using that k [of n] cn [of n] by (cases "n < 12") (simp_all add: bit_or_iff bit_and_iff bit_not_iff bit_take_bit_iff bit_mask_iff)
  qed
  then show ?thesis unfolding page_masks ab k_def .
qed

section \<open>The look-up tables\<close>

definition covered :: "u32 \<Rightarrow> u32 \<Rightarrow> nat \<Rightarrow> bool" where
  "covered start fin p \<longleftrightarrow> (\<exists>a. start \<le> a \<and> a < fin \<and> page_of a = p)"

lemma lut_fill_cases:
  "if \<exists>j<n. page_of (i + of_nat j) = p
   then \<exists>j<n. page_of (i + of_nat j) = p \<and> lut_fill n i f lut p = f (i + of_nat j)
   else lut_fill n i f lut p = lut p"
proof (induction n arbitrary: i lut)
  case (Suc n)
  have ex: "(\<exists>j<Suc n. P (i + of_nat j)) \<longleftrightarrow> P i \<or> (\<exists>j<n. P (i + 1 + of_nat j))" for P :: "u32 \<Rightarrow> bool"
    by (auto simp: less_Suc_eq_0_disj add.assoc)
  define l where "l = lut(page_of i := f i)"
  have l: "lut_fill (Suc n) i f lut = lut_fill n (i + 1) f l" "l p = (if page_of i = p then f i else lut p)"
    by (auto simp: l_def)
  show ?case
    using Suc [of "i + 1" l] l(2)
    unfolding l(1) ex [of "\<lambda>a. page_of a = p"] ex [of "\<lambda>a. page_of a = p \<and> lut_fill n (i + 1) f l p = f a"]
    by (auto split: if_splits)
qed simp

lemma lut_loop_cases:
  "if covered start fin p
   then \<exists>a. start \<le> a \<and> a < fin \<and> page_of a = p \<and> lut_loop start fin f lut p = f a
   else lut_loop start fin f lut p = lut p"
proof -
  have ex: "(\<exists>j<unat fin - unat start. P (start + of_nat j)) \<longleftrightarrow> (\<exists>a. start \<le> a \<and> a < fin \<and> P a)" for P
  proof
    assume "\<exists>j<unat fin - unat start. P (start + of_nat j)"
    then obtain j where j: "j < unat fin - unat start" "P (start + of_nat j)" by blast
    then have "unat (start + of_nat j) = unat start + j"
      using unat32_less [of fin] by (simp add: unat_word_ariths unat_of_nat)
    then show "\<exists>a. start \<le> a \<and> a < fin \<and> P a"
      using j by (intro exI [of _ "start + of_nat j"]) (simp add: word_le_nat_alt word_less_nat_alt)
  next
    assume "\<exists>a. start \<le> a \<and> a < fin \<and> P a"
    then obtain a where a: "start \<le> a" "a < fin" "P a" by blast
    then have "start + of_nat (unat a - unat start) = a"
      by (simp add: word_le_nat_alt of_nat_diff)
    with a show "\<exists>j<unat fin - unat start. P (start + of_nat j)"
      by (intro exI [of _ "unat a - unat start"]) (simp add: word_le_nat_alt word_less_nat_alt)
  qed
  show ?thesis
    using lut_fill_cases [of "unat fin - unat start" start p f lut]
    unfolding lut_loop_def covered_def ex [of "\<lambda>a. page_of a = p"]
      ex [of "\<lambda>a. page_of a = p \<and> lut_fill (unat fin - unat start) start f lut p = f a"] .
qed

lemma lut_loop_zero: "lut_loop start fin (\<lambda>_. 0) lut p = (if covered start fin p then 0 else lut p)"
  using lut_loop_cases [of start fin p "\<lambda>_. 0" lut] by (auto split: if_splits)

lemma unmap_half_luts:
  "tlb_LUT_r (unmap_half v d s f m) p = (if v \<noteq> 0 \<and> covered s f p then 0 else tlb_LUT_r m p)"
  "tlb_LUT_w (unmap_half v d s f m) p = (if v \<noteq> 0 \<and> d \<noteq> 0 \<and> covered s f p then 0 else tlb_LUT_w m p)"
  by (simp_all add: unmap_half_def lut_loop_zero Let_def)

lemma unmap_half_tlb [simp]: "tlb_e (unmap_half v d s f m) = tlb_e m" "cpu (unmap_half v d s f m) = cpu m"
  by (simp_all add: unmap_half_def Let_def)

lemma map_half_tlb [simp]: "tlb_e (map_half v d s f ph m) = tlb_e m" "cpu (map_half v d s f ph m) = cpu m"
    "roms (map_half v d s f ph m) = roms m"
  by (simp_all add: map_half_def Let_def)

definition half_maps :: "u8 \<Rightarrow> u32 \<Rightarrow> u32 \<Rightarrow> u32 \<Rightarrow> nat \<Rightarrow> u32 \<Rightarrow> bool" where
  "half_maps v start fin phys p x \<longleftrightarrow>
     v \<noteq> 0 \<and> (\<exists>a. start \<le> a \<and> a < fin \<and> page_of a = p \<and> x = 0x80000000 OR (phys + (a - start)))"

lemma half_maps_covered: "half_maps v s f ph p x \<Longrightarrow> v \<noteq> 0 \<and> covered s f p"
  by (auto simp: half_maps_def covered_def)

lemma map_half_luts:
  "half_maps v s f ph p (tlb_LUT_r (map_half v d s f ph m) p) \<or> tlb_LUT_r (map_half v d s f ph m) p = tlb_LUT_r m p"
  "d \<noteq> 0 \<and> half_maps v s f ph p (tlb_LUT_w (map_half v d s f ph m) p) \<or> tlb_LUT_w (map_half v d s f ph m) p = tlb_LUT_w m p"
  using lut_loop_cases [of s f p "\<lambda>i. 0x80000000 OR (ph + (i - s))" "tlb_LUT_r m"]
    lut_loop_cases [of s f p "\<lambda>i. 0x80000000 OR (ph + (i - s))" "tlb_LUT_w m"]
  by (auto simp: map_half_def half_maps_def Let_def split: if_splits)

section \<open>Soundness of the tables\<close>

definition entry_maps :: "nat \<Rightarrow> tlb \<Rightarrow> nat \<Rightarrow> u32 \<Rightarrow> bool" where
  "entry_maps w e p x \<longleftrightarrow>
     (w = 1 \<longrightarrow> tlb_d_even e \<noteq> 0) \<and> half_maps (tlb_v_even e) (start_even e) (end_even e) (phys_even e) p x \<or>
     (w = 1 \<longrightarrow> tlb_d_odd e \<noteq> 0) \<and> half_maps (tlb_v_odd e) (start_odd e) (end_odd e) (phys_odd e) p x"

text \<open>Both pages of a valid entry start and end at page boundaries.\<close>

definition half_aligned :: "u8 \<Rightarrow> u32 \<Rightarrow> u32 \<Rightarrow> u32 \<Rightarrow> bool" where
  "half_aligned v start fin phys \<longleftrightarrow>
     (v \<noteq> 0 \<longrightarrow> take_bit 12 start = 0 \<and> take_bit 12 (fin + 1) = 0 \<and> take_bit 12 phys = 0)"

definition tlb_wf :: "tlb \<Rightarrow> bool" where
  "tlb_wf e \<longleftrightarrow> half_aligned (tlb_v_even e) (start_even e) (end_even e) (phys_even e) \<and>
     half_aligned (tlb_v_odd e) (start_odd e) (end_odd e) (phys_odd e)"

text \<open>Every word of the tables that is not zero comes from an entry that maps the page.\<close>

definition lut_sound :: "'w machine \<Rightarrow> bool" where
  "lut_sound m \<longleftrightarrow> (\<forall>i<32. tlb_wf (tlb_e m i)) \<and>
     (\<forall>p. tlb_LUT_r m p \<noteq> 0 \<longrightarrow> (\<exists>i<32. entry_maps 0 (tlb_e m i) p (tlb_LUT_r m p))) \<and>
     (\<forall>p. tlb_LUT_w m p \<noteq> 0 \<longrightarrow> (\<exists>i<32. entry_maps 1 (tlb_e m i) p (tlb_LUT_w m p)))"

lemma new_tlb_wf: "tlb_wf (new_tlb c e)"
proof -
  have "(8192 :: u32) = 4096 * 2" by simp
  then have "(4096 :: u32) dvd 8192" by (rule dvdI)
  then have a: "2 ^ 12 dvd (push_bit 13 x :: u32)" "2 ^ 12 dvd (push_bit 12 x :: u32)" for x
    by (simp_all add: push_bit_eq_mult dvd_mult)
  obtain x y p q where n: "start_even (new_tlb c e) = push_bit 13 x" "end_even (new_tlb c e) = push_bit 13 x + push_bit 12 y + 0xFFF"
      "phys_even (new_tlb c e) = push_bit 12 p" "start_odd (new_tlb c e) = end_even (new_tlb c e) + 1"
      "end_odd (new_tlb c e) = start_odd (new_tlb c e) + push_bit 12 y + 0xFFF" "phys_odd (new_tlb c e) = push_bit 12 q"
    unfolding new_tlb_def Let_def by (cases e) (simp only: tlb.simps; blast)
  have "z + 0xFFF + 1 = z + 4096" for z :: u32 by simp
  then have fin: "2 ^ 12 dvd z \<Longrightarrow> 2 ^ 12 dvd z + 0xFFF + 1" for z :: u32 by (simp add: dvd_add)
  show ?thesis
    unfolding tlb_wf_def half_aligned_def take_bit_eq_0_iff n
    by (rule conjI | rule impI | rule fin | rule a | rule dvd_add)+
qed

lemma tlb_write_sound:
  assumes "lut_sound m" "tlb_write k m = Some m'"
  shows "lut_sound m'"
proof -
  define old where "old = tlb_e m k"
  define e where "e = new_tlb (cpu m) old"
  define m2 where "m2 = unmap_half (tlb_v_odd old) (tlb_d_odd old) (start_odd old) (end_odd old)
    (unmap_half (tlb_v_even old) (tlb_d_even old) (start_even old) (end_even old) m)"
  define m3 where "m3 = m2\<lparr>tlb_e := (tlb_e m2)(k := e)\<rparr>"
  define m4 where "m4 = map_half (tlb_v_even e) (tlb_d_even e) (start_even e) (end_even e) (phys_even e) m3"
  have k: "k < 32" and m': "m' = map_half (tlb_v_odd e) (tlb_d_odd e) (start_odd e) (end_odd e) (phys_odd e) m4"
    using assms(2) by (auto simp: tlb_write_def m4_def m3_def m2_def e_def old_def Let_def split: if_splits)
  have tlb: "tlb_e m' = (tlb_e m)(k := e)" by (simp add: m' m4_def m3_def m2_def)
  have m3_luts: "tlb_LUT_r m3 = tlb_LUT_r m2" "tlb_LUT_w m3 = tlb_LUT_w m2" by (simp_all add: m3_def)
  have unmapped: "\<exists>i<32. i \<noteq> k \<and> entry_maps w (tlb_e m i) p x"
    if "\<exists>i<32. entry_maps w (tlb_e m i) p x" "\<not> entry_maps w old p x" for w p x
    using that old_def by blast
  have r3: "tlb_LUT_r m3 p \<noteq> 0 \<Longrightarrow> \<exists>i<32. i \<noteq> k \<and> entry_maps 0 (tlb_e m i) p (tlb_LUT_r m3 p)" for p
    using assms(1) unmapped [of 0 p "tlb_LUT_r m p"]
    by (auto simp: m3_luts m2_def unmap_half_luts lut_sound_def entry_maps_def dest: half_maps_covered split: if_splits)
  have w3: "tlb_LUT_w m3 p \<noteq> 0 \<Longrightarrow> \<exists>i<32. i \<noteq> k \<and> entry_maps 1 (tlb_e m i) p (tlb_LUT_w m3 p)" for p
    using assms(1) unmapped [of 1 p "tlb_LUT_w m p"]
    by (auto simp: m3_luts m2_def unmap_half_luts lut_sound_def entry_maps_def dest: half_maps_covered split: if_splits)
  have r': "entry_maps 0 e p (tlb_LUT_r m' p) \<or> tlb_LUT_r m' p = tlb_LUT_r m3 p" for p
    using map_half_luts(1) [where v = "tlb_v_odd e" and s = "start_odd e" and f = "end_odd e" and ph = "phys_odd e" and p = p and d = "tlb_d_odd e" and m = m4]
      map_half_luts(1) [where v = "tlb_v_even e" and s = "start_even e" and f = "end_even e" and ph = "phys_even e" and p = p and d = "tlb_d_even e" and m = m3]
    by (auto simp: m' entry_maps_def simp flip: m4_def)
  have w': "entry_maps 1 e p (tlb_LUT_w m' p) \<or> tlb_LUT_w m' p = tlb_LUT_w m3 p" for p
    using map_half_luts(2) [where v = "tlb_v_odd e" and s = "start_odd e" and f = "end_odd e" and ph = "phys_odd e" and p = p and d = "tlb_d_odd e" and m = m4]
      map_half_luts(2) [where v = "tlb_v_even e" and s = "start_even e" and f = "end_even e" and ph = "phys_even e" and p = p and d = "tlb_d_even e" and m = m3]
    by (auto simp: m' entry_maps_def simp flip: m4_def)
  have "\<forall>i<32. tlb_wf (tlb_e m' i)" using assms(1) by (simp add: tlb lut_sound_def e_def new_tlb_wf)
  moreover have "\<exists>i<32. entry_maps 0 (tlb_e m' i) p (tlb_LUT_r m' p)" if "tlb_LUT_r m' p \<noteq> 0" for p
    using r' [of p] r3 [of p] that k unfolding tlb by (metis fun_upd_apply)
  moreover have "\<exists>i<32. entry_maps 1 (tlb_e m' i) p (tlb_LUT_w m' p)" if "tlb_LUT_w m' p \<noteq> 0" for p
    using w' [of p] w3 [of p] that k unfolding tlb by (metis fun_upd_apply)
  ultimately show ?thesis by (simp add: lut_sound_def)
qed

text \<open>What the processor does to the TLB: the two writing instructions, with arbitrary registers in between.\<close>

datatype tlb_op = Tlb_write_index | Tlb_write_random | Tlb_registers r4300

fun tlb_step :: "tlb_op \<Rightarrow> 'w machine \<Rightarrow> 'w machine option" where
  "tlb_step Tlb_write_index m = TLBWI m"
| "tlb_step Tlb_write_random m = TLBWR m"
| "tlb_step (Tlb_registers c) m = Some (m\<lparr>cpu := c\<rparr>)"

lemma lut_sound_cpu [simp]: "lut_sound (m\<lparr>cpu := c\<rparr>) = lut_sound m" "lut_sound (m_pc4 m) = lut_sound m"
  by (simp_all add: lut_sound_def m_pc4_def)

interpretation tlb_run: invariant_steps lut_sound tlb_step
proof
  fix m m' :: "'a machine" and op
  assume "lut_sound m" "tlb_step op m = Some m'"
  then show "lut_sound m'"
    by (cases op) (auto simp: TLBWI_def TLBWR_def Let_def split: if_splits dest!: tlb_write_sound [rotated])
qed

section \<open>Properties\<close>

text \<open>An address and its translation by one half of an entry.\<close>

definition half_translates :: "u8 \<Rightarrow> u32 \<Rightarrow> u32 \<Rightarrow> u32 \<Rightarrow> u32 \<Rightarrow> u32 \<Rightarrow> bool" where
  "half_translates v start fin phys a pa \<longleftrightarrow> v \<noteq> 0 \<and> start \<le> a \<and> a \<le> fin \<and> pa = 0x80000000 OR (phys + (a - start))"

definition tlb_translates :: "nat \<Rightarrow> tlb \<Rightarrow> u32 \<Rightarrow> u32 \<Rightarrow> bool" where
  "tlb_translates w e a pa \<longleftrightarrow>
     (w = 1 \<longrightarrow> tlb_d_even e \<noteq> 0) \<and> half_translates (tlb_v_even e) (start_even e) (end_even e) (phys_even e) a pa \<or>
     (w = 1 \<longrightarrow> tlb_d_odd e \<noteq> 0) \<and> half_translates (tlb_v_odd e) (start_odd e) (end_odd e) (phys_odd e) a pa"

lemma page_nat:
  fixes a b :: nat
  assumes "a div 0x1000 = b div 0x1000"
  shows "s mod 0x1000 = 0 \<Longrightarrow> s \<le> b \<Longrightarrow> s \<le> a" "(f + 1) mod 0x1000 = 0 \<Longrightarrow> b < f \<Longrightarrow> a \<le> f"
proof -
  assume "s mod 0x1000 = 0" "s \<le> b"
  then have "s = s div 0x1000 * 0x1000" "s div 0x1000 \<le> a div 0x1000" using assms by (auto intro: div_le_mono)
  then show "s \<le> a" using div_times_less_eq_dividend [of a "0x1000"] by linarith
next
  assume "(f + 1) mod 0x1000 = 0" "b < f"
  then have k: "f + 1 = (f + 1) div 0x1000 * 0x1000" by auto
  have "b < (f + 1) div 0x1000 * 0x1000" using k \<open>b < f\<close> by linarith
  then have "a < (f + 1) div 0x1000 * 0x1000" using assms by (metis div_less_iff_less_mult zero_less_numeral)
  then show "a \<le> f" using k by linarith
qed

lemma page_bounds:
  fixes a b start fin :: u32
  assumes "page_of a = page_of b" "start \<le> b" "b < fin" "take_bit 12 start = 0" "take_bit 12 (fin + 1) = 0"
  shows "start \<le> a" "a \<le> fin"
proof -
  have t: "take_bit 12 x = 0 \<longleftrightarrow> unat x mod 0x1000 = 0" for x :: u32
    by (simp add: take_bit_eq_mod word_unat_eq_iff unat_mod)
  have d: "unat a div 0x1000 = unat b div 0x1000" using assms(1) by (simp add: page_of_def)
  have "unat start mod 0x1000 = 0" "unat start \<le> unat b" using assms(2,4) t by (simp_all add: word_le_nat_alt)
  then have "unat start \<le> unat a" using d page_nat by metis
  then show "start \<le> a" by (simp add: word_le_nat_alt)
  show "a \<le> fin"
  proof (cases "fin + 1 = 0")
    case True
    then have "fin = - 1" by (simp add: eq_neg_iff_add_eq_0)
    then show ?thesis by simp
  next
    case False
    then have "(unat fin + 1) mod 2 ^ 32 \<noteq> 0" by (simp add: unat_word_ariths word_unat_eq_iff)
    then have "unat fin + 1 \<noteq> 2 ^ 32" by (metis mod_self)
    then have "unat fin + 1 < 2 ^ 32" using unat32_less [of fin] by simp
    then have "unat (fin + 1) = unat fin + 1" by (rule unat_suc32)
    then have "(unat fin + 1) mod 0x1000 = 0" using assms(5) t by metis
    moreover have "unat b < unat fin" using assms(3) by (simp add: word_less_nat_alt)
    ultimately have "unat a \<le> unat fin" using d page_nat by metis
    then show ?thesis by (simp add: word_le_nat_alt)
  qed
qed

lemma lut_entry_translates:
  assumes "tlb_wf e" "entry_maps w e (page_of a) x"
  shows "tlb_translates w e a ((x AND 0xFFFFF000) OR (a AND 0xFFF))"
proof -
  have "half_translates v s f ph a ((x AND 0xFFFFF000) OR (a AND 0xFFF))"
    if maps: "half_maps v s f ph (page_of a) x" and wf: "half_aligned v s f ph" for v s f ph
  proof -
    obtain b where b: "v \<noteq> 0" "s \<le> b" "b < f" "page_of b = page_of a" "x = 0x80000000 OR (ph + (b - s))"
      using maps by (auto simp: half_maps_def)
    then have al: "take_bit 12 s = 0" "take_bit 12 (f + 1) = 0" "take_bit 12 ph = 0" using wf by (simp_all add: half_aligned_def)
    show ?thesis
      unfolding half_translates_def b(5) page_translate [OF b(4) [symmetric] al(3,1)]
      using b(1) page_bounds [OF b(4) [symmetric] b(2,3) al(1,2)] by simp
  qed
  with assms show ?thesis by (auto simp: entry_maps_def tlb_translates_def tlb_wf_def)
qed

lemma lookup_normal:
  assumes "\<not> (0x7F000000 \<le> a \<and> a < 0x80000000)"
  shows "tlb_lookup w a m = (if (if w = 1 then tlb_LUT_w m else tlb_LUT_r m) (page_of a) = 0 then None
    else Some (((if w = 1 then tlb_LUT_w m else tlb_LUT_r m) (page_of a) AND 0xFFFFF000) OR (a AND 0xFFF)))"
  unfolding tlb_lookup_def Let_def using assms by (simp only: if_False conj_assoc [symmetric] if_not_P simp_thms) simp

lemma lookup_sound:
  assumes "lut_sound m" "tlb_lookup w a m = Some pa" "\<not> (0x7F000000 \<le> a \<and> a < 0x80000000)"
  shows "\<exists>i<32. tlb_translates w (tlb_e m i) a pa"
proof -
  let ?lut = "(if w = 1 then tlb_LUT_w m else tlb_LUT_r m) (page_of a)"
  have l: "?lut \<noteq> 0" "pa = (?lut AND 0xFFFFF000) OR (a AND 0xFFF)"
    using assms(2,3) by (auto simp: tlb_lookup_def Let_def split: if_splits)
  have "w \<noteq> 1 \<Longrightarrow> entry_maps w e p x = entry_maps 0 e p x" for e p x by (simp add: entry_maps_def)
  then have "\<exists>i<32. entry_maps w (tlb_e m i) (page_of a) ?lut"
    using assms(1) l(1) unfolding lut_sound_def by (cases "w = 1") simp_all
  then show ?thesis using lut_entry_translates assms(1) l(2) unfolding lut_sound_def by blast
qed

lemma lut_loop_out: "\<not> covered s f p \<Longrightarrow> lut_loop s f g lut p = lut p"
  using lut_loop_cases [of s f p g lut] by simp

lemma aligned_nat: "take_bit 12 x = 0 \<longleftrightarrow> unat (x :: u32) mod 0x1000 = 0"
  by (simp add: take_bit_eq_mod word_unat_eq_iff unat_mod)

lemma last_page_covered:
  assumes "s < f" "s \<le> a" "a \<le> f" "take_bit 12 (f + 1 :: u32) = 0"
  shows "covered s f (page_of a)"
proof (cases "a < f")
  case True
  then show ?thesis using assms(2) by (auto simp: covered_def)
next
  case False
  then have f: "a = f" using assms(3) by simp
  have "unat f \<noteq> 0" using assms(1) by (auto simp: word_less_nat_alt)
  then have f1: "unat (f - 1) = unat f - 1" by (simp add: unat_minus_one unat_eq_0)
  have "(unat f + 1) mod 0x1000 = 0"
    using assms(4) unat_word_ariths(1) [of f 1] by (simp add: aligned_nat mod_mod_cancel)
  then obtain q where "unat f + 1 = 0x1000 * q" by (metis dvdE mod_eq_0_iff_dvd)
  then have "(unat f - 1) div 0x1000 = unat f div 0x1000" by (cases q) simp_all
  then have "page_of (f - 1) = page_of a" using f f1 by (simp add: page_of_def)
  moreover have "s \<le> f - 1" "f - 1 < f" using assms(1) f1 \<open>unat f \<noteq> 0\<close> by (simp_all add: word_le_nat_alt word_less_nat_alt)
  ultimately show ?thesis by (auto simp: covered_def)
qed

lemma next_page_not_covered:
  assumes "f < 0xFFFFFFFF" "a \<le> f" "take_bit 12 (f + 1 :: u32) = 0"
  shows "\<not> covered (f + 1) g (page_of a)"
proof
  assume "covered (f + 1) g (page_of a)"
  then obtain b where b: "f + 1 \<le> b" "unat a div 0x1000 = unat b div 0x1000" by (auto simp: covered_def page_of_def)
  have f1: "unat (f + 1) = unat f + 1" using assms(1) by (intro unat_suc32) (simp add: word_less_nat_alt)
  have "unat (f + 1) \<le> unat a"
    using page_nat(1) [OF b(2)] b(1) assms(3) by (simp only: aligned_nat word_le_nat_alt)
  then show False using f1 assms(2) by (simp add: word_le_nat_alt)
qed

lemma tlb_write_lookup:
  assumes "tlb_write k m = Some m'" "e = tlb_e m' k" "tlb_v_even e \<noteq> 0" "start_even e < end_even e" "end_even e < 0xFFFFFFFF"
    and "\<not> (0x80000000 \<le> start_even e \<and> end_even e < 0xC0000000)" "phys_even e < 0x20000000"
    and "start_even e \<le> a" "a \<le> end_even e" "\<not> (0x7F000000 \<le> a \<and> a < 0x80000000)" "w = 1 \<longrightarrow> tlb_d_even e \<noteq> 0"
  shows "tlb_lookup w a m' = Some (0x80000000 OR (phys_even e + (a - start_even e)))"
proof -
  obtain m3 where m': "m' = map_half (tlb_v_odd e) (tlb_d_odd e) (start_odd e) (end_odd e) (phys_odd e)
      (map_half (tlb_v_even e) (tlb_d_even e) (start_even e) (end_even e) (phys_even e) m3)" and e: "e = new_tlb (cpu m) (tlb_e m k)"
    using assms(1,2) by (auto simp: tlb_write_def Let_def split: if_splits)
  note wf = new_tlb_wf [of "cpu m" "tlb_e m k", folded e]
  have odd: "start_odd e = end_even e + 1" unfolding e new_tlb_def Let_def by (cases "tlb_e m k") (simp only: tlb.simps)
  let ?p = "page_of a" and ?lut = "lut_loop (start_even e) (end_even e) (\<lambda>i. 0x80000000 OR (phys_even e + (i - start_even e)))"
  have wf_e: "take_bit 12 (start_even e) = 0" "take_bit 12 (end_even e + 1) = 0" "take_bit 12 (phys_even e) = 0"
    using wf assms(3) by (simp_all add: tlb_wf_def half_aligned_def)
  have even: "covered (start_even e) (end_even e) ?p"
    using assms(4,8,9) wf_e(2) by (rule last_page_covered)
  have "\<not> covered (start_odd e) (end_odd e) ?p"
    using assms(5,9) wf_e(2) unfolding odd by (rule next_page_not_covered)
  then have "(if w = 1 then tlb_LUT_w m' else tlb_LUT_r m') ?p =
      ?lut (if w = 1 then tlb_LUT_w m3 else tlb_LUT_r m3) ?p"
    using assms(3,4,6,7,11) by (simp add: m' map_half_def Let_def lut_loop_out)
  moreover obtain b where "page_of b = ?p" "?lut (if w = 1 then tlb_LUT_w m3 else tlb_LUT_r m3) ?p = 0x80000000 OR (phys_even e + (b - start_even e))"
    using even lut_loop_cases [of "start_even e" "end_even e" ?p "\<lambda>i. 0x80000000 OR (phys_even e + (i - start_even e))"
        "if w = 1 then tlb_LUT_w m3 else tlb_LUT_r m3"]
    by auto
  moreover have "0x80000000 OR x \<noteq> 0" for x :: u32 by (simp add: or_eq_0_iff)
  ultimately show ?thesis
    using assms(10) page_translate [of a b "phys_even e" "start_even e"] wf_e by (simp add: lookup_normal)
qed

text \<open>
  C8. Whatever entries a program writes, with TLBWI and TLBWR in any order and with
  overlapping pages, a translation that the tables deliver is one that a valid entry of the
  TLB defines, and for a write one that the entry allows.
\<close>

theorem tlb_translation_sound:
  assumes "lut_sound m0" "run_ops tlb_step ops m0 = Some m" "tlb_lookup w a m = Some pa"
    "\<not> (0x7F000000 \<le> a \<and> a < 0x80000000)"
  shows "\<exists>i<32. tlb_translates w (tlb_e m i) a pa"
  using tlb_run.run_inv [OF assms(1,2)] assms(3,4) by (rule lookup_sound)

lemma lookup_pc4 [simp]: "tlb_lookup w a (m_pc4 m) = tlb_lookup w a m"
  by (simp add: m_pc4_def tlb_lookup_def cong: if_cong)

definition tlb_example_cpu :: r4300 where
  "tlb_example_cpu = (alu_example 0 0 0)\<lparr>reg_cop0 := (\<lambda>_. 0)(0 := 3, 10 := 0x2000, 2 := 0x4007)\<rparr>"

lemma tlb_example_new:
  "tlb_v_even (new_tlb tlb_example_cpu e) = 1" "tlb_d_even (new_tlb tlb_example_cpu e) = 1"
  "start_even (new_tlb tlb_example_cpu e) = 0x2000" "end_even (new_tlb tlb_example_cpu e) = 0x2FFF"
  "phys_even (new_tlb tlb_example_cpu e) = 0x100000"
  by (simp_all add: new_tlb_def tlb_example_cpu_def)

lemma tlb_write_entry: "tlb_write k m = Some m' \<Longrightarrow> k < 32 \<and> tlb_e m' k = new_tlb (cpu m) (tlb_e m k)"
  by (auto simp: tlb_write_def Let_def split: if_splits)

lemma tlb_write_some: "k < 32 \<Longrightarrow> \<exists>m'. tlb_write k m = Some m'"
  by (simp add: tlb_write_def Let_def)

lemma tlb_example_write:
  obtains m' where "tlb_write 3 (example_machine\<lparr>cpu := tlb_example_cpu\<rparr>) = Some m'"
    "tlb_e m' 3 = new_tlb tlb_example_cpu (tlb_e example_machine 3)" "tlb_lookup 0 0x2010 (m_pc4 m') = Some 0x80100010"
proof -
  let ?m = "example_machine\<lparr>cpu := tlb_example_cpu\<rparr>"
  obtain m' where m': "tlb_write 3 ?m = Some m'" using tlb_write_some [of 3 ?m] by auto
  have e: "tlb_e m' 3 = new_tlb tlb_example_cpu (tlb_e example_machine 3)" using tlb_write_entry [OF m'] by simp
  have "tlb_lookup 0 0x2010 m' = Some (0x80000000 OR (phys_even (tlb_e m' 3) + (0x2010 - start_even (tlb_e m' 3))))"
    by (rule tlb_write_lookup [OF m' refl]) (simp_all add: e tlb_example_new del: example_machine_fields)
  then have "tlb_lookup 0 0x2010 (m_pc4 m') = Some 0x80100010"
    by (simp add: e tlb_example_new del: example_machine_fields)
  with m' e that show thesis by blast
qed

lemma example_lut_sound: "lut_sound example_machine"
  by (simp add: lut_sound_def tlb_wf_def half_aligned_def)

theorem tlb_translation_sound_witness:
  "\<exists>m i. run_ops tlb_step [Tlb_registers tlb_example_cpu, Tlb_write_index] example_machine = Some m \<and> i < 32 \<and>
     tlb_translates 0 (tlb_e m i) 0x2010 0x80100010"
proof -
  obtain m' where m': "tlb_write 3 (example_machine\<lparr>cpu := tlb_example_cpu\<rparr>) = Some m'"
      "tlb_e m' 3 = new_tlb tlb_example_cpu (tlb_e example_machine 3)" "tlb_lookup 0 0x2010 (m_pc4 m') = Some 0x80100010"
    using tlb_example_write .
  have "core_Index tlb_example_cpu = 3" by (simp add: tlb_example_cpu_def)
  then have run: "run_ops tlb_step [Tlb_registers tlb_example_cpu, Tlb_write_index] example_machine = Some (m_pc4 m')"
    using m'(1) by (simp add: TLBWI_def bind_rules)
  then show ?thesis using tlb_translation_sound [OF example_lut_sound run m'(3)] by auto
qed

text \<open>
  C35. An entry that TLBWI has written is used at once: every address of its even
  page translates to the same offset in the physical page, for writing too when the entry is dirty.
\<close>

theorem tlbwi_translates:
  assumes "TLBWI m = Some m'" "e = tlb_e m' (unat (core_Index (cpu m) AND 0x3F))"
    and "tlb_v_even e \<noteq> 0" "start_even e < end_even e" "end_even e < 0xFFFFFFFF"
    and "\<not> (0x80000000 \<le> start_even e \<and> end_even e < 0xC0000000)" "phys_even e < 0x20000000"
    and "start_even e \<le> a" "a \<le> end_even e" "\<not> (0x7F000000 \<le> a \<and> a < 0x80000000)" "w = 1 \<longrightarrow> tlb_d_even e \<noteq> 0"
  shows "tlb_lookup w a m' = Some (0x80000000 OR (phys_even e + (a - start_even e)))"
proof -
  obtain n where n: "tlb_write (unat (core_Index (cpu m) AND 0x3F)) m = Some n" "m' = m_pc4 n"
    using assms(1) by (auto simp: TLBWI_def)
  have "tlb_lookup w a n = Some (0x80000000 OR (phys_even e + (a - start_even e)))"
    by (rule tlb_write_lookup [OF n(1) _ assms(3-11)]) (simp add: assms(2) n(2) m_pc4_def)
  then show ?thesis by (simp add: n(2))
qed

theorem tlbwi_translates_witness:
  "\<exists>m'. TLBWI (example_machine\<lparr>cpu := tlb_example_cpu\<rparr>) = Some m' \<and> tlb_lookup 1 0x2FFC m' = Some 0x80100FFC"
proof -
  obtain m' where m': "tlb_write 3 (example_machine\<lparr>cpu := tlb_example_cpu\<rparr>) = Some m'"
      "tlb_e m' 3 = new_tlb tlb_example_cpu (tlb_e example_machine 3)" "tlb_lookup 0 0x2010 (m_pc4 m') = Some 0x80100010"
    using tlb_example_write .
  have i: "core_Index tlb_example_cpu = 3" by (simp add: tlb_example_cpu_def)
  then have run: "TLBWI (example_machine\<lparr>cpu := tlb_example_cpu\<rparr>) = Some (m_pc4 m')" using m'(1) by (simp add: TLBWI_def)
  have e: "tlb_e (m_pc4 m') 3 = new_tlb tlb_example_cpu (tlb_e example_machine 3)" using m'(2) by (simp add: m_pc4_def)
  have "tlb_lookup 1 0x2FFC (m_pc4 m') = Some (0x80000000 OR
      (phys_even (tlb_e (m_pc4 m') 3) + (0x2FFC - start_even (tlb_e (m_pc4 m') 3))))"
    by (rule tlbwi_translates [OF run]) (simp_all add: i e tlb_example_new del: example_machine_fields)
  with run show ?thesis by (simp add: e tlb_example_new del: example_machine_fields)
qed

lemma small_char:
  assumes "x < (0x80 :: u32)"
  shows "(scast (ucast x :: u8) :: u32) = x"
proof -
  have x: "uint x < 0x80" using assms by (simp add: word_less_def)
  then have u: "uint (ucast x :: u8) = uint x" by (simp add: unsigned_ucast_eq take_bit_int_eq_self)
  moreover have "- 128 \<le> uint x" using uint_ge_0 [of x] by linarith
  ultimately have "sint (ucast x :: u8) = uint x" using x by (simp add: signed_take_bit_int_eq_self sint_uint)
  then show ?thesis by (simp add: scast_eq)
qed

lemma small_short:
  assumes "x < (0x8000 :: u32)"
  shows "(scast (ucast x :: u16) :: u32) = x"
proof -
  have x: "uint x < 0x8000" using assms by (simp add: word_less_def)
  then have u: "uint (ucast x :: u16) = uint x" by (simp add: unsigned_ucast_eq take_bit_int_eq_self)
  moreover have "- 32768 \<le> uint x" using uint_ge_0 [of x] by linarith
  ultimately have "sint (ucast x :: u16) = uint x" using x by (simp add: signed_take_bit_int_eq_self sint_uint)
  then show ?thesis by (simp add: scast_eq)
qed

lemma field_bits:
  fixes l k :: u32
  assumes "take_bit n k = 0"
  shows "push_bit n (drop_bit n (l AND k)) = l AND k"
    "drop_bit n k < 0x80 \<Longrightarrow> push_bit n (scast (ucast (drop_bit n (l AND k)) :: u8)) = l AND k"
proof -
  have "take_bit n (l AND k) = 0" using assms by simp
  then show p: "push_bit n (drop_bit n (l AND k)) = l AND k" using bits_ident [of n "l AND k"] by simp
  assume "drop_bit n k < 0x80"
  then have "drop_bit n (l AND k) < 0x80" using word_and_le1 [of "drop_bit n l" "drop_bit n k"]
    by (simp only: drop_bit_and)
  then show "push_bit n (scast (ucast (drop_bit n (l AND k)) :: u8)) = l AND k" using p by (simp only: small_char)
qed

lemma entry_lo_bits:
  fixes l g :: u32
  shows "push_bit 6 (drop_bit 6 (l AND 0x3FFFFFC0)) OR push_bit 3 (scast (ucast (drop_bit 3 (l AND 0x38)) :: u8)) OR
      push_bit 2 (scast (ucast (drop_bit 2 (l AND 4)) :: u8)) OR push_bit 1 (scast (ucast (drop_bit 1 (l AND 2)) :: u8)) OR g =
    (l AND 0x3FFFFFFE) OR g"
proof -
  have "take_bit 6 (0x3FFFFFC0 :: u32) = 0" "take_bit 3 (0x38 :: u32) = 0" "take_bit 2 (4 :: u32) = 0" "take_bit 1 (2 :: u32) = 0"
    "drop_bit 3 (0x38 :: u32) < 0x80" "drop_bit 2 (4 :: u32) < 0x80" "drop_bit 1 (2 :: u32) < 0x80"
    by simp_all
  note f = field_bits(1) [OF this(1)] field_bits(2) [OF this(2,5)] field_bits(2) [OF this(3,6)] field_bits(2) [OF this(4,7)]
  have "(l AND 0x3FFFFFC0) OR (l AND 0x38) OR (l AND 4) OR (l AND 2) = l AND 0x3FFFFFFE"
    by (simp flip: bit.conj_disj_distrib)
  then show ?thesis unfolding f by (simp add: or.assoc [symmetric])
qed

lemma index_in_range:
  fixes i :: u32
  assumes "unat (i AND 0x3F) < 32"
  shows "i AND 0x1F = i AND 0x3F"
proof -
  have m: "(0x3F :: u32) = mask 6" "(0x1F :: u32) = mask 5" by (simp_all add: mask_eq_exp_minus_1)
  have "unat (take_bit 6 i) < 32" using assms by (simp add: m flip: take_bit_eq_mask)
  then have "take_bit 5 (take_bit 6 i) = take_bit 6 i" by (simp only: take_bit_eq_mod [of 5] word_unat_eq_iff unat_mod) simp
  then show ?thesis by (simp add: m flip: take_bit_eq_mask)
qed

text \<open>
  Reading an entry back with TLBR returns what TLBWI stored: the page mask, the
  virtual page with its address space, and both physical pages with their attributes, the global
  bit being that of both halves together.
\<close>

theorem tlbr_reads_tlbwi:
  assumes "TLBWI m = Some m'" "c = cpu m" "c' = cpu (TLBR m')"
  shows "core_PageMask c' = core_PageMask c AND 0x1FFE000 \<and> core_EntryHi c' = core_EntryHi c AND 0xFFFFE0FF \<and>
    core_EntryLo0 c' = (core_EntryLo0 c AND 0x3FFFFFFE) OR (core_EntryLo0 c AND core_EntryLo1 c AND 1) \<and>
    core_EntryLo1 c' = (core_EntryLo1 c AND 0x3FFFFFFE) OR (core_EntryLo0 c AND core_EntryLo1 c AND 1)"
proof -
  obtain n where n: "tlb_write (unat (core_Index c AND 0x3F)) m = Some n" "m' = m_pc4 n"
    using assms(1,2) by (auto simp: TLBWI_def)
  let ?e = "new_tlb c (tlb_e m (unat (core_Index c AND 0x3F)))"
  have k: "unat (core_Index c AND 0x3F) < 32" "tlb_e n (unat (core_Index c AND 0x3F)) = ?e"
    using tlb_write_entry [OF n(1)] assms(2) by simp_all
  have "cpu n = c" using n(1) assms(2) by (auto simp: tlb_write_def Let_def split: if_splits)
  then have i: "tlb_e m' (unat (core_Index (cpu m') AND 0x1F)) = ?e"
    using k n(2) by (simp add: m_pc4_def pc4_def index_in_range)
  have g: "scast (ucast (core_EntryLo0 c AND core_EntryLo1 c AND 1) :: u8) = core_EntryLo0 c AND core_EntryLo1 c AND 1"
    by (rule small_char) (rule order.strict_trans1 [OF order.trans [OF word_and_le1 word_and_le1]], simp)
  have "drop_bit 13 (core_PageMask c AND 0x1FFE000) < 0x8000"
    using word_and_le1 [of "drop_bit 13 (core_PageMask c)" "drop_bit 13 0x1FFE000"]
    by (simp only: drop_bit_and) (erule order.strict_trans1, simp)
  then have mask: "push_bit 13 (scast (ucast (drop_bit 13 (core_PageMask c AND 0x1FFE000)) :: u16)) = core_PageMask c AND 0x1FFE000"
    using field_bits(1) [of 13 "0x1FFE000" "core_PageMask c"] by (simp only: small_short) simp
  have m8: "(0xFF :: u32) = mask 8" by (simp add: mask_eq_exp_minus_1)
  have "ucast (ucast (core_EntryHi c AND 0xFF) :: u8) = core_EntryHi c AND 0xFF"
    unfolding m8 take_bit_eq_mask [symmetric] by (simp add: word_unat_eq_iff unsigned_ucast_eq unsigned_take_bit_eq)
  then have hi: "push_bit 13 (drop_bit 13 (core_EntryHi c AND 0xFFFFE000)) OR ucast (ucast (core_EntryHi c AND 0xFF) :: u8) =
      core_EntryHi c AND 0xFFFFE0FF"
    using field_bits(1) [of 13 "0xFFFFE000" "core_EntryHi c"] by (simp flip: bit.conj_disj_distrib)
  have fields: "tlb_mask ?e = ucast (drop_bit 13 (core_PageMask c AND 0x1FFE000))" "tlb_vpn2 ?e = drop_bit 13 (core_EntryHi c AND 0xFFFFE000)"
    "tlb_asid ?e = ucast (core_EntryHi c AND 0xFF)" "tlb_g ?e = ucast (core_EntryLo0 c AND core_EntryLo1 c AND 1)"
    "tlb_pfn_even ?e = drop_bit 6 (core_EntryLo0 c AND 0x3FFFFFC0)" "tlb_pfn_odd ?e = drop_bit 6 (core_EntryLo1 c AND 0x3FFFFFC0)"
    "tlb_c_even ?e = ucast (drop_bit 3 (core_EntryLo0 c AND 0x38))" "tlb_c_odd ?e = ucast (drop_bit 3 (core_EntryLo1 c AND 0x38))"
    "tlb_d_even ?e = ucast (drop_bit 2 (core_EntryLo0 c AND 4))" "tlb_d_odd ?e = ucast (drop_bit 2 (core_EntryLo1 c AND 4))"
    "tlb_v_even ?e = ucast (drop_bit 1 (core_EntryLo0 c AND 2))" "tlb_v_odd ?e = ucast (drop_bit 1 (core_EntryLo1 c AND 2))"
    unfolding new_tlb_def Let_def by (cases "tlb_e m (unat (core_Index c AND 0x3F))"; simp only: tlb.simps)+
  have "reg_cop0 c' = (reg_cop0 (cpu m'))(5 := push_bit 13 (scast (tlb_mask ?e)), 10 := push_bit 13 (tlb_vpn2 ?e) OR ucast (tlb_asid ?e),
      2 := push_bit 6 (tlb_pfn_even ?e) OR push_bit 3 (scast (tlb_c_even ?e)) OR
                push_bit 2 (scast (tlb_d_even ?e)) OR push_bit 1 (scast (tlb_v_even ?e)) OR scast (tlb_g ?e),
      3 := push_bit 6 (tlb_pfn_odd ?e) OR push_bit 3 (scast (tlb_c_odd ?e)) OR
                push_bit 2 (scast (tlb_d_odd ?e)) OR push_bit 1 (scast (tlb_v_odd ?e)) OR scast (tlb_g ?e))"
    unfolding assms(3) TLBR_def Let_def i by (simp add: m_pc4_def pc4_def set_cop0_def)
  note cop0 = this [unfolded fields entry_lo_bits mask hi g]
  show ?thesis by (simp add: cop0)
qed

theorem tlbr_reads_tlbwi_witness:
  "\<exists>m'. TLBWI (example_machine\<lparr>cpu := tlb_example_cpu\<rparr>) = Some m' \<and> core_EntryLo0 (cpu (TLBR m')) = 0x4006"
proof -
  have i: "core_Index tlb_example_cpu = 3" by (simp add: tlb_example_cpu_def)
  obtain m' where m': "tlb_write 3 (example_machine\<lparr>cpu := tlb_example_cpu\<rparr>) = Some m'"
    using tlb_write_some [of 3 "example_machine\<lparr>cpu := tlb_example_cpu\<rparr>"] by auto
  then have "TLBWI (example_machine\<lparr>cpu := tlb_example_cpu\<rparr>) = Some (m_pc4 m')" using i by (simp add: TLBWI_def)
  with tlbr_reads_tlbwi [OF this refl refl] show ?thesis by (simp add: tlb_example_cpu_def)
qed

text \<open>
  C36. TLBWI takes six bits of Index although there are 32 entries: it stays inside the
  table exactly when bit 5 is clear, while TLBWR with a Wired register below 32 always does,
  and with Wired equal to 32 divides by zero.
\<close>

theorem tlb_write_bounds:
  "(TLBWI m = None \<longleftrightarrow> bit (core_Index (cpu m)) 5) \<and>
   (if core_Wired (cpu m) < 32 then TLBWR m \<noteq> None
    else if core_Wired (cpu m) = 32 then TLBWR m = None else True)"
proof -
  have m6: "(0x3F :: u32) = mask 6" by (simp add: mask_eq_exp_minus_1)
  have "unat (i AND 0x3F) < 32 \<longleftrightarrow> \<not> bit i 5" for i :: u32
  proof -
    have m5: "(0x1F :: u32) = mask 5" by (simp add: mask_eq_exp_minus_1)
    have "unat (take_bit 5 i) < 32" by (simp add: take_bit_eq_mod unat_mod)
    moreover have "take_bit 6 i = take_bit 5 i" if "\<not> bit i 5"
    proof (rule bit_word_eqI)
      fix n :: nat
      have "n < 6 \<longleftrightarrow> n < 5 \<or> n = 5" by linarith
      then show "bit (take_bit 6 i) n = bit (take_bit 5 i) n" using that by (auto simp: bit_take_bit_iff)
    qed
    moreover have "\<not> bit i 5" if "take_bit 5 i = take_bit 6 i"
      using arg_cong [OF that, of "\<lambda>x. bit x 5"] by (simp add: bit_take_bit_iff)
    ultimately show ?thesis
      using index_in_range [of i] unfolding m6 m5 take_bit_eq_mask [symmetric] by metis
  qed
  then have 1: "TLBWI m = None \<longleftrightarrow> bit (core_Index (cpu m)) 5"
    by (simp add: TLBWI_def tlb_write_def Let_def)
  have w: "core_Wired (update_count (cpu m)) = core_Wired (cpu m)" by (simp add: update_count_def set_cop0_def)
  have "unat (x mod (32 - core_Wired (cpu m)) + core_Wired (cpu m)) < 32" if "core_Wired (cpu m) < 32" for x
  proof -
    have d: "unat (32 - core_Wired (cpu m)) = 32 - unat (core_Wired (cpu m))" "unat (core_Wired (cpu m)) < 32"
      using that by (simp_all add: unat_sub word_less_nat_alt word_le_nat_alt)
    then have "unat x mod (32 - unat (core_Wired (cpu m))) < 32 - unat (core_Wired (cpu m))" by simp
    then have "unat x mod (32 - unat (core_Wired (cpu m))) + unat (core_Wired (cpu m)) < 32" using d(2) by linarith
    then show ?thesis using d by (simp add: unat_word_ariths(1) unat_mod)
  qed
  then have "TLBWR m \<noteq> None" if "core_Wired (cpu m) < 32"
    using that by (auto simp: TLBWR_def w tlb_write_def Let_def)
  moreover have "TLBWR m = None" if "core_Wired (cpu m) = 32" using that by (simp add: TLBWR_def w)
  ultimately show ?thesis using 1 by simp
qed

lemma update_count_same: "last_addr c = interp_addr c \<Longrightarrow> update_count c = c"
  by (cases c) (simp add: update_count_def set_cop0_def)

text \<open>
  C37. Returning from an exception continues where it was raised: when no interrupt is pending
  afterwards, ERET restores the address and the Status register, wherever the processor was,
  and only the link bit is cleared.
\<close>

theorem exception_eret_returns:
  assumes "core_Status (cpu m) AND 6 = 0" "\<not> delay_slot (cpu m)" "\<not> rcp_pending m"
    and "core_Status (cpu m) AND core_Cause (cpu m) AND 0xFB00 = 0"
    and "core_Count (cpu (count_now m)) < next_interrupt (queue m)"
  shows "\<exists>m'. ERET env (exception_general m) = Some m' \<and> interp_addr (cpu m') = interp_addr (cpu m) \<and>
    core_Status (cpu m') = core_Status (cpu m) \<and> reg (cpu m') = reg (cpu m) \<and> queue m' = queue m \<and> \<not> llbit (cpu m')"
proof -
  define c where "c = update_count (cpu m)"
  let ?S = "core_Status (cpu m)"
  have c: "core_Status c = ?S" "core_Cause c = core_Cause (cpu m)" "interp_addr c = interp_addr (cpu m)" "reg c = reg (cpu m)"
    "delay_slot c = delay_slot (cpu m)" "core_Count c = core_Count (cpu (count_now m))"
    by (simp_all add: c_def update_count_def set_cop0_def count_now_def)
  define d where "d = c\<lparr>reg_cop0 := (reg_cop0 c)(12 := ?S OR 2, 14 := interp_addr (cpu m), 13 := core_Cause c AND 0x7FFFFFFF),
    interp_addr := 0x80000180, last_addr := 0x80000180\<rparr>"
  have ex: "exception_general m = m\<lparr>cpu := d\<rparr>"
    using assms(2) c by (simp add: exception_general_def skip_in_delay_slot_def Let_def set_cop0_def d_def flip: c_def)
  have "?S AND 6 AND 4 = 0" "?S AND 6 AND 2 = 0" using assms(1) by (simp_all only: and.assoc [symmetric] and_zero_eq zero_and_eq)
  then have b: "?S AND 4 = 0" "?S AND 2 = 0" by simp_all
  have "(0xFFFFFFFD OR 2 :: u32) = - 1" by simp
  then have "?S = ?S AND (0xFFFFFFFD OR 2)" by (simp only: and.right_neutral)
  also have "\<dots> = ?S AND 0xFFFFFFFD" by (simp only: bit.conj_disj_distrib b(2) or.right_neutral)
  finally have s: "?S AND 0xFFFFFFFD = ?S" by simp
  then have e: "(?S OR 2) AND 0xFFFFFFFD = ?S" by (simp add: bit.conj_disj_distrib2)
  have q: "?S AND ((core_Cause (cpu m) AND 0x7FFFFFFF) AND NOT 0x400) AND 0xFF00 = 0" using assms(4) by (simp add: and.assoc)
  define m1 where "m1 = m\<lparr>cpu := d\<lparr>reg_cop0 := (reg_cop0 d)(12 := ?S), interp_addr := interp_addr (cpu m), llbit := False\<rparr>\<rparr>"
  have ds: "core_Status d = ?S OR 2" "core_EPC d = interp_addr (cpu m)" by (simp_all add: d_def)
  have b4: "(?S OR 2) AND 4 = 0" using b(1) by (simp add: bit.conj_disj_distrib2)
  have "update_count d = d" by (rule update_count_same) (simp add: d_def)
  then have "ERET env (m\<lparr>cpu := d\<rparr>) =
      check_interrupt m1 \<bind> (\<lambda>m3. gen_interrupt_if_due env (m3\<lparr>cpu := (cpu m3)\<lparr>last_addr := interp_addr (cpu m3)\<rparr>\<rparr>))"
    using ds b4 e by (simp add: ERET_def count_now_def m1_def set_cop0_def Let_def)
  moreover have "check_interrupt m1 = Some (set_cause (core_Cause (cpu m1) AND NOT 0x400) m1)"
    using assms(3) q c(2) by (simp add: check_interrupt_def rcp_pending_def m1_def d_def set_cause_def set_cop0_def Let_def)
  ultimately show ?thesis
    using assms(5) [folded not_le] c(4,6) unfolding ex by (simp add: gen_interrupt_if_due_def m1_def d_def set_cause_def set_cop0_def)
qed

theorem exception_eret_returns_witness:
  "\<exists>m'. ERET example_machine_env (exception_general (example_machine\<lparr>queue := queue_init\<lparr>next_interrupt := 5\<rparr>\<rparr>)) = Some m' \<and>
     interp_addr (cpu m') = 0x80000000"
  using exception_eret_returns [of "example_machine\<lparr>queue := queue_init\<lparr>next_interrupt := 5\<rparr>\<rparr>" example_machine_env]
  by (auto simp: alu_example_def rcp_pending_def count_now_def update_count_def set_cop0_def)

end
