(* ===== verification/Memory_Map.thy ===== *)
theory Memory_Map
  imports Rcp_Access Tlb
begin

text \<open>
  The memory map of \<^verbatim>\<open>Core/memory/memory.cpp\<close>: the handlers of the memories, the tables that \<^verbatim>\<open>init_memory\<close>
  fills with one group of handlers per 64-KiB page, and the accesses of the processor through
  these tables.  \<^verbatim>\<open>EMU64_DEBUG\<close> is not defined.  An access outside a memory is \<^term>\<open>None\<close>.
\<close>

section \<open>Arrays of host words\<close>

text \<open>
  A guest access to an array of \<^term>\<open>sz\<close> bytes: words as they are, bytes and half-words at the swizzled
  offset, double words as two words.
\<close>

definition array_read :: "width \<Rightarrow> array \<Rightarrow> nat \<Rightarrow> nat \<Rightarrow> u64 option" where
  "array_read w arr sz a = (case w of
      W8 \<Rightarrow> if a XOR S8 < sz then Some (ucast (arr (a XOR S8))) else None
    | W16 \<Rightarrow> if (a XOR S16) + 2 \<le> sz then Some (ucast (ld16 arr (a XOR S16))) else None
    | W32 \<Rightarrow> if a + 4 \<le> sz then Some (ucast (ld32 arr a)) else None
    | W64 \<Rightarrow> if a + 8 \<le> sz then Some (push_bit 32 (ucast (ld32 arr a)) OR ucast (ld32 arr (a + 4))) else None)"

definition array_write :: "width \<Rightarrow> 'w machine \<Rightarrow> array \<Rightarrow> nat \<Rightarrow> nat \<Rightarrow> array option" where
  "array_write w m arr sz a = (case w of
      W8 \<Rightarrow> if a XOR S8 < sz then Some (arr(a XOR S8 := g_byte m)) else None
    | W16 \<Rightarrow> if (a XOR S16) + 2 \<le> sz then Some (st16 arr (a XOR S16) (hword m)) else None
    | W32 \<Rightarrow> if a + 4 \<le> sz then Some (st32 arr a (word m)) else None
    | W64 \<Rightarrow> if a + 8 \<le> sz then Some (st32 (st32 arr a (ucast (drop_bit 32 (dword m)))) (a + 4) (dword_low m)) else None)"

section \<open>Memories\<close>

definition read_nothing :: "width \<Rightarrow> 'w machine \<Rightarrow> 'w machine" where
  "read_nothing w m = set_rdword (if w = W32 \<and> address m = 0xa5000508 then 0xFFFFFFFF else 0) m"

definition read_rdram :: "width \<Rightarrow> 'w machine \<Rightarrow> 'w machine option" where
  "read_rdram w m = map_option (\<lambda>v. set_rdword v m) (array_read w (rdram m) rdram_size (unat (address m AND 0xFFFFFF)))"

definition write_rdram :: "width \<Rightarrow> 'w machine \<Rightarrow> 'w machine option" where
  "write_rdram w m = map_option (\<lambda>r. m\<lparr>rdram := r\<rparr>) (array_write w m (rdram m) rdram_size (unat (address m AND 0xFFFFFF)))"

text \<open>Whether the address lies in a frame buffer; the comparison is unsigned.\<close>

definition fb_hit :: "fb_info \<Rightarrow> 'w machine \<Rightarrow> bool" where
  "fb_hit f m \<longleftrightarrow>
    (let s = fb_addr f AND 0x7FFFFF; a = address m AND 0x7FFFFF
     in fb_addr f \<noteq> 0 \<and> a \<ge> s \<and> a \<le> s + fb_width f * fb_height f * fb_size f - 1)"

definition fb_page :: "'w machine \<Rightarrow> nat" where
  "fb_page m = unat (drop_bit 12 (address m AND 0x7FFFFF))"

definition fb_before_read :: "'w machine_env \<Rightarrow> fb_info \<Rightarrow> 'w machine \<Rightarrow> 'w machine option" where
  "fb_before_read env f m =
    (if fb_hit f m \<and> framebufferRead m (fb_page m) then do {
       rd \<leftarrow> video_fb_read env;
       let m1 = rd (address m) m;
       Some (m1\<lparr>framebufferRead := (framebufferRead m1)(fb_page m1 := False)\<rparr>) }
     else Some m)"

definition read_rdramFB :: "'w machine_env \<Rightarrow> width \<Rightarrow> 'w machine \<Rightarrow> 'w machine option" where
  "read_rdramFB env w m = do {
     m1 \<leftarrow> run_ops (fb_before_read env) (frameBufferInfos m) m;
     read_rdram w m1 }"

definition fb_before_write :: "'w machine_env \<Rightarrow> width \<Rightarrow> fb_info \<Rightarrow> 'w machine \<Rightarrow> 'w machine option" where
  "fb_before_write env w f m =
    (if fb_hit f m then do {
       wr \<leftarrow> video_fb_write env;
       Some (case w of W8 \<Rightarrow> wr (address m XOR 3) 1 m | W16 \<Rightarrow> wr (address m XOR 2) 2 m
             | W32 \<Rightarrow> wr (address m) 4 m | W64 \<Rightarrow> wr (address m) 8 m) }
     else Some m)"

definition write_rdramFB :: "'w machine_env \<Rightarrow> width \<Rightarrow> 'w machine \<Rightarrow> 'w machine option" where
  "write_rdramFB env w m = do {
     m1 \<leftarrow> run_ops (fb_before_write env w) (frameBufferInfos m) m;
     write_rdram w m1 }"

definition read_flashram_status :: "width \<Rightarrow> 'w machine \<Rightarrow> 'w machine" where
  "read_flashram_status w m =
    (if w = W32 \<and> use_flashram (flash m) \<noteq> - 1 \<and> address_low m = 0
     then (set_rdword (ucast (flashram_status_reg (flash m))) m)\<lparr>flash := (flash m)\<lparr>use_flashram := 1\<rparr>\<rparr> else m)"

definition write_flashram_command :: "width \<Rightarrow> 'w machine \<Rightarrow> 'w machine option" where
  "write_flashram_command w m =
    (if w = W32 \<and> use_flashram (flash m) \<noteq> - 1 \<and> address_low m = 0 then do {
       (stp, f) \<leftarrow> flashram_command (word m) (rdram m) (flash m);
       Some (stop_if stp (m\<lparr>flash := f\<lparr>use_flashram := 1\<rparr>\<rparr>)) }
     else Some m)"

text \<open>A word written to the ROM is returned by the next read of a word, whatever its address.\<close>

definition rom_word :: "u32 \<Rightarrow> 'w machine \<Rightarrow> u32 option" where
  "rom_word a m = map_option (\<lambda>b. u32_at b 0) (bblock (rom_bytes m) (unat (a AND 0x03FFFFFF)) 4)"

definition read_rom :: "width \<Rightarrow> 'w machine \<Rightarrow> 'w machine option" where
  "read_rom w m = (case w of
      W8 \<Rightarrow> map_option (\<lambda>b. set_rdword (ucast b) m) (bget (rom_bytes m) (unat ((address m XOR 3) AND 0x03FFFFFF)))
    | W16 \<Rightarrow> map_option (\<lambda>b. set_rdword (ucast (u16_at b 0)) m) (bblock (rom_bytes m) (unat ((address m XOR 2) AND 0x03FFFFFF)) 2)
    | W32 \<Rightarrow> if lastwrite m \<noteq> 0 then Some ((set_rdword (ucast (lastwrite m)) m)\<lparr>lastwrite := 0\<rparr>)
        else map_option (\<lambda>v. set_rdword (ucast v) m) (rom_word (address m) m)
    | W64 \<Rightarrow> do {
        a \<leftarrow> rom_word (address m) m;
        b \<leftarrow> rom_word (address m + 4) m;
        Some (set_rdword (push_bit 32 (ucast a) OR ucast b) m) })"

definition write_rom :: "width \<Rightarrow> 'w machine \<Rightarrow> 'w machine" where
  "write_rom w m = (if w = W32 then m\<lparr>lastwrite := word m\<rparr> else m)"

text \<open>\<^verbatim>\<open>PIF_RAMb + (a & 0x7FF) - 0x7C0\<close>.\<close>

definition pif_offset :: "u32 \<Rightarrow> nat option" where
  "pif_offset a = (let i = unat (a AND 0x7FF) in if i \<ge> 0x7C0 then Some (i - 0x7C0) else None)"

definition pif_word :: "u32 \<Rightarrow> 'w machine \<Rightarrow> u32 option" where
  "pif_word a m = do { i \<leftarrow> pif_offset a; b \<leftarrow> bblock (PIF_RAM m) i 4; Some (sl (u32_at b 0)) }"

definition pif_byte :: "u32 \<Rightarrow> 'w machine \<Rightarrow> u8 option" where
  "pif_byte a m = do { i \<leftarrow> pif_offset a; bget (PIF_RAM m) i }"

definition read_pif :: "width \<Rightarrow> 'w machine \<Rightarrow> 'w machine option" where
  "read_pif w m = (case w of
      W8 \<Rightarrow> map_option (\<lambda>b. set_rdword (ucast b) m) (pif_byte (address m) m)
    | W16 \<Rightarrow> do {
        h \<leftarrow> pif_byte (address m) m;
        l \<leftarrow> pif_byte (address m + 1) m;
        Some (set_rdword (push_bit 8 (ucast h) OR ucast l) m) }
    | W32 \<Rightarrow> map_option (\<lambda>v. set_rdword (ucast v) m) (pif_word (address m) m)
    | W64 \<Rightarrow> do {
        a \<leftarrow> pif_word (address m) m;
        b \<leftarrow> pif_word (address m + 4) m;
        Some (set_rdword (push_bit 32 (ucast a) OR ucast b) m) })"

definition pif_put :: "u32 \<Rightarrow> bytes \<Rightarrow> 'w machine \<Rightarrow> 'w machine option" where
  "pif_put a b m = do { i \<leftarrow> pif_offset a; p \<leftarrow> bwrite i b (PIF_RAM m); Some (m\<lparr>PIF_RAM := p\<rparr>) }"

text \<open>The last byte of PIF memory is the command.\<close>

definition pif_command_written :: "'w machine_env \<Rightarrow> 'w machine \<Rightarrow> 'w machine option" where
  "pif_command_written env m = do {
     c \<leftarrow> bget (PIF_RAM m) 0x3F;
     if c = 0x08 then do {
       p \<leftarrow> bput 0x3F 0 (PIF_RAM m);
       si_finish (m\<lparr>PIF_RAM := p\<rparr>) }
     else m_update_pif_write env m }"

text \<open>A double word stores both halves at the same place.\<close>

definition write_pif :: "'w machine_env \<Rightarrow> width \<Rightarrow> 'w machine \<Rightarrow> 'w machine option" where
  "write_pif env w m = do {
     m1 \<leftarrow> (case w of
        W8 \<Rightarrow> pif_put (address m) [g_byte m] m
      | W16 \<Rightarrow> pif_put (address m) [ucast (drop_bit 8 (hword m))] m \<bind> pif_put (address m + 1) [ucast (hword m)]
      | W32 \<Rightarrow> pif_put (address m) (put_le32 (sl (word m))) m
      | W64 \<Rightarrow> pif_put (address m) (put_le32 (sl (ucast (drop_bit 32 (dword m))))) m \<bind>
          pif_put (address m) (put_le32 (sl (dword_low m))));
     if address m1 AND 0x7FF = (case w of W8 \<Rightarrow> 0x7FF | W16 \<Rightarrow> 0x7FE | W32 \<Rightarrow> 0x7FC | W64 \<Rightarrow> 0x7F8)
     then pif_command_written env m1 else Some m1 }"

definition read_sc_reg :: "width \<Rightarrow> 'w machine \<Rightarrow> 'w machine" where
  "read_sc_reg w m =
    (let a = address m; v = read_summercart a (cart m) in case w of
      W8 \<Rightarrow> set_rdword (ucast (drop_bit (unat (push_bit 3 (a AND 3))) v AND 0xFF)) m
    | W16 \<Rightarrow> set_rdword (ucast (drop_bit (unat (push_bit 3 (a AND 2))) v AND 0xFFFF)) m
    | W32 \<Rightarrow> set_rdword (ucast v) m
    | W64 \<Rightarrow> set_stop m)"

definition write_sc_reg :: "'w machine_env \<Rightarrow> width \<Rightarrow> 'w machine \<Rightarrow> 'w machine option" where
  "write_sc_reg env w m =
    (let a = address m;
         v = (case w of
             W8 \<Rightarrow> push_bit (unat (push_bit 3 (NOT a AND 3))) (ucast (g_byte m))
           | W16 \<Rightarrow> push_bit (unat (push_bit 3 (NOT a AND 2))) (ucast (hword m))
           | W32 \<Rightarrow> word m
           | W64 \<Rightarrow> ucast (drop_bit 32 (dword m)))
     in map_option (\<lambda>s. sc_apply s m) (write_summercart (cart_writable env) a v (sc_view m)))"

section \<open>Accesses\<close>

text \<open>
  A page without memory: the address is translated and the access made again, unless the
  translation failed.
\<close>

definition translate_access :: "nat \<Rightarrow> 'w machine \<Rightarrow> bool \<times> 'w machine" where
  "translate_access w m =
    (let (a, m1) = virtual_to_physical_address (address m) w m in (a \<noteq> 0, m1\<lparr>address := a\<rparr>))"

text \<open>One step of a read: the flag says whether it goes on at the translated address.\<close>

definition finished :: "'w machine option \<Rightarrow> (bool \<times> 'w machine) option" where
  "finished = map_option (Pair False)"

definition read_step :: "'w machine_env \<Rightarrow> width \<Rightarrow> 'w machine \<Rightarrow> (bool \<times> 'w machine) option" where
  "read_step env w m =
    (if unat (drop_bit 16 (address m)) \<ge> 0xFFFF then None
     else case readmem m (unat (drop_bit 16 (address m))) of
       Mem_nomem \<Rightarrow> Some (translate_access 0 m)
     | Mem_nothing \<Rightarrow> finished (Some (read_nothing w m))
     | Mem_rdram \<Rightarrow> finished (read_rdram w m)
     | Mem_rdramFB \<Rightarrow> finished (read_rdramFB env w m)
     | Mem_rdramreg \<Rightarrow> finished (read_rdramreg w m)
     | Mem_rsp_mem \<Rightarrow>
         if address_low m < 0x2000
         then finished (map_option (\<lambda>v. set_rdword v m) (array_read w (SP_DMEM m) 0x2000 (address_low m)))
         else Some (translate_access 0 m)
     | Mem_rsp_reg \<Rightarrow> finished (read_rsp_reg w m)
     | Mem_rsp \<Rightarrow> finished (read_rsp w m)
     | Mem_dp \<Rightarrow> finished (read_dp w m)
     | Mem_dps \<Rightarrow> finished (read_dps w m)
     | Mem_mi \<Rightarrow> finished (read_mi w m)
     | Mem_vi \<Rightarrow> finished (read_vi w m)
     | Mem_ai \<Rightarrow> finished (read_ai w m)
     | Mem_pi \<Rightarrow> finished (read_pi w m)
     | Mem_ri \<Rightarrow> finished (read_ri w m)
     | Mem_si \<Rightarrow> finished (read_si w m)
     | Mem_flashram_status \<Rightarrow> finished (Some (read_flashram_status w m))
     | Mem_flashram_command \<Rightarrow> finished (Some (read_nothing w m))
     | Mem_rom \<Rightarrow> finished (read_rom w m)
     | Mem_pif \<Rightarrow> finished (read_pif w m)
     | Mem_sc_reg \<Rightarrow> finished (Some (read_sc_reg w m)))"

partial_function (option) read_memory :: "'w machine_env \<Rightarrow> width \<Rightarrow> 'w machine \<Rightarrow> 'w machine option" where
  "read_memory env w m = do {
     (again, m1) \<leftarrow> read_step env w m;
     if again then read_memory env w m1 else Some m1 }"

text \<open>A double word written behind the memories of the RSP is read instead.\<close>

definition write_step :: "'w machine_env \<Rightarrow> width \<Rightarrow> 'w machine \<Rightarrow> (bool \<times> 'w machine) option" where
  "write_step env w m =
    (if unat (drop_bit 16 (address m)) \<ge> 0xFFFF then None
     else case writemem m (unat (drop_bit 16 (address m))) of
       Mem_nomem \<Rightarrow> Some (translate_access 1 m)
     | Mem_nothing \<Rightarrow> finished (Some m)
     | Mem_rdram \<Rightarrow> finished (write_rdram w m)
     | Mem_rdramFB \<Rightarrow> finished (write_rdramFB env w m)
     | Mem_rdramreg \<Rightarrow> finished (write_rdramreg w m)
     | Mem_rsp_mem \<Rightarrow>
         if address_low m < 0x2000
         then finished (map_option (\<lambda>d. m\<lparr>SP_DMEM := d\<rparr>) (array_write w m (SP_DMEM m) 0x2000 (address_low m)))
         else if w = W64
         then (case translate_access 0 m of (again, m1) \<Rightarrow> finished (if again then read_memory env W64 m1 else Some m1))
         else Some (translate_access 1 m)
     | Mem_rsp_reg \<Rightarrow> finished (write_rsp_reg env w m)
     | Mem_rsp \<Rightarrow> finished (write_rsp w m)
     | Mem_dp \<Rightarrow> finished (write_dp env w m)
     | Mem_dps \<Rightarrow> finished (write_dps w m)
     | Mem_mi \<Rightarrow> finished (write_mi env w m)
     | Mem_vi \<Rightarrow> finished (write_vi env w m)
     | Mem_ai \<Rightarrow> finished (write_ai env w m)
     | Mem_pi \<Rightarrow> finished (write_pi env w m)
     | Mem_ri \<Rightarrow> finished (write_ri w m)
     | Mem_si \<Rightarrow> finished (write_si env w m)
     | Mem_flashram_status \<Rightarrow> finished (Some m)
     | Mem_flashram_command \<Rightarrow> finished (write_flashram_command w m)
     | Mem_rom \<Rightarrow> finished (Some (write_rom w m))
     | Mem_pif \<Rightarrow> finished (write_pif env w m)
     | Mem_sc_reg \<Rightarrow> finished (write_sc_reg env w m))"

partial_function (option) write_memory :: "'w machine_env \<Rightarrow> width \<Rightarrow> 'w machine \<Rightarrow> 'w machine option" where
  "write_memory env w m = do {
     (again, m1) \<leftarrow> write_step env w m;
     if again then write_memory env w m1 else Some m1 }"

end
