(* ===== verification/Memory_Init.thy ===== *)
theory Memory_Init
  imports Memory_Map
begin

text \<open>
  \<^verbatim>\<open>init_memory\<close> of \<^verbatim>\<open>Core/memory/memory.cpp\<close>, block by block: the pages of each memory and group of registers in
  the cached (0x8000) and the uncached (0xa000) segment, and the contents after a reset.
\<close>

section \<open>Filling the tables\<close>

text \<open>\<^verbatim>\<open>for (i = a; i < a + n; i++) readmem[i] = ...\<close>, and the same for writing.\<close>

definition set_pages :: "nat \<Rightarrow> nat \<Rightarrow> mem_region \<Rightarrow> (nat \<Rightarrow> mem_region) \<Rightarrow> nat \<Rightarrow> mem_region" where
  "set_pages a n r t = (\<lambda>p. if a \<le> p \<and> p < a + n then r else t p)"

definition pages_r :: "nat \<Rightarrow> nat \<Rightarrow> mem_region \<Rightarrow> 'w machine \<Rightarrow> 'w machine" where
  "pages_r a n r m = m\<lparr>readmem := set_pages a n r (readmem m)\<rparr>"

definition pages_w :: "nat \<Rightarrow> nat \<Rightarrow> mem_region \<Rightarrow> 'w machine \<Rightarrow> 'w machine" where
  "pages_w a n r m = m\<lparr>writemem := set_pages a n r (writemem m)\<rparr>"

definition both_pages :: "nat \<Rightarrow> nat \<Rightarrow> mem_region \<Rightarrow> 'w machine \<Rightarrow> 'w machine" where
  "both_pages i n r m = pages_w (0xa000 + i) n r (pages_w (0x8000 + i) n r (pages_r (0xa000 + i) n r (pages_r (0x8000 + i) n r m)))"

section \<open>The blocks\<close>

definition init_hash_tables :: "'w machine \<Rightarrow> 'w machine" where
  "init_hash_tables m =
    m\<lparr>readmem := \<lambda>_. Mem_nomem, writemem := \<lambda>_. Mem_nomem\<rparr>"

definition init_rdram :: "'w machine \<Rightarrow> 'w machine" where
  "init_rdram m =
    both_pages 0x80 (0x3F0 - 0x80) Mem_nothing (both_pages 0 0x80 Mem_rdram (m\<lparr>rdram := \<lambda>_. 0\<rparr>))"

definition init_rdram_registers :: "'w machine \<Rightarrow> 'w machine" where
  "init_rdram_registers m =
    both_pages 0x3F1 0xF Mem_nothing (both_pages 0x3F0 1 Mem_rdramreg (m\<lparr>rdram_register :=
      \<lparr>rdram_config = 0, rdram_device_id = 0, rdram_delay = 0, rdram_mode = 0,
       rdram_ref_interval = 0, rdram_ref_row = 0, rdram_ras_interval = 0, rdram_min_interval = 0,
       rdram_addr_select = 0, rdram_device_manuf = 0\<rparr>\<rparr>))"

definition init_rsp_memory :: "'w machine \<Rightarrow> 'w machine" where
  "init_rsp_memory m =
    both_pages 0x401 3 Mem_nothing (both_pages 0x400 1 Mem_rsp_mem (m\<lparr>SP_DMEM := \<lambda>_. 0\<rparr>))"

definition init_rsp_registers :: "'w machine \<Rightarrow> 'w machine" where
  "init_rsp_registers m =
    both_pages 0x405 3 Mem_nothing (both_pages 0x404 1 Mem_rsp_reg (m\<lparr>sp_register :=
      \<lparr>sp_mem_addr_reg = 0, sp_dram_addr_reg = 0, sp_rd_len_reg = 0, sp_wr_len_reg = 0,
       w_sp_status_reg = 0, sp_status_reg = 1, sp_halt = 1, sp_broke = 0, sp_dma_busy = 0,
       sp_dma_full = 0, sp_io_full = 0, sp_single_step = 0, sp_intr_break = 0, signal0 = 0,
       signal1 = 0, signal2 = 0, signal3 = 0, signal4 = 0, signal5 = 0, signal6 = 0, signal7 = 0,
       sp_dma_full_reg = 0, sp_dma_busy_reg = 0, sp_semaphore_reg = 0\<rparr>\<rparr>))"

definition init_rsp :: "'w machine \<Rightarrow> 'w machine" where
  "init_rsp m =
    both_pages 0x409 7 Mem_nothing (both_pages 0x408 1 Mem_rsp (m\<lparr>rsp_register := \<lparr>rsp_pc = 0, rsp_ibist = 0\<rparr>\<rparr>))"

definition init_dp :: "'w machine \<Rightarrow> 'w machine" where
  "init_dp m =
    both_pages 0x411 0xF Mem_nothing (both_pages 0x410 1 Mem_dp (m\<lparr>dpc_register :=
      \<lparr>dpc_start = 0, dpc_end = 0, dpc_current = 0, w_dpc_status = 0, dpc_status = 0,
       xbus_dmem_dma = 0, dpc_freeze = 0, dpc_flush = 0, start_glck = 0, tmem_busy = 0,
       pipe_busy = 0, cmd_busy = 0, cbuf_busy = 0, dpc_dma_busy = 0, end_valid = 0, start_valid = 0,
       dpc_clock = 0, dpc_bufbusy = 0, dpc_pipebusy = 0, dpc_tmem = 0\<rparr>\<rparr>))"

definition init_dps :: "'w machine \<Rightarrow> 'w machine" where
  "init_dps m =
    both_pages 0x421 0xF Mem_nothing (both_pages 0x420 1 Mem_dps (m\<lparr>dps_register :=
      \<lparr>dps_tbist = 0, dps_test_mode = 0, dps_buftest_addr = 0, dps_buftest_data = 0\<rparr>\<rparr>))"

text \<open>The functions that read are entered at page 0xa830 instead of 0x8430.\<close>

definition init_mi :: "'w machine \<Rightarrow> 'w machine" where
  "init_mi m =
    both_pages 0x431 0xF Mem_nothing
      (m\<lparr>readmem := (readmem m)(0xa830 := Mem_mi, 0xa430 := Mem_mi),
       writemem := (writemem m)(0x8430 := Mem_mi, 0xa430 := Mem_mi), MI_register :=
      \<lparr>w_mi_init_mode_reg = 0, mi_init_mode_reg = 0, init_length = 0, init_mode = 0,
       ebus_test_mode = 0, RDRAM_reg_mode = 0, mi_version_reg = 0x02020102, mi_intr_reg = 0,
       mi_intr_mask_reg = 0, w_mi_intr_mask_reg = 0, SP_intr_mask = 0, SI_intr_mask = 0,
       AI_intr_mask = 0, VI_intr_mask = 0, PI_intr_mask = 0, DP_intr_mask = 0\<rparr>\<rparr>)"

definition init_vi :: "'w machine \<Rightarrow> 'w machine" where
  "init_vi m =
    both_pages 0x441 0xF Mem_nothing (both_pages 0x440 1 Mem_vi (m\<lparr>vi_register := (vi_register m)
      \<lparr>vi_status := 0, vi_origin := 0, vi_width := 0, vi_v_intr := 0, vi_current := 0, vi_burst := 0,
       vi_v_sync := 0, vi_h_sync := 0, vi_leap := 0, vi_h_start := 0, vi_v_start := 0, vi_v_burst := 0,
       vi_x_scale := 0, vi_y_scale := 0\<rparr>\<rparr>))"

definition init_ai :: "'w machine \<Rightarrow> 'w machine" where
  "init_ai m =
    both_pages 0x451 0xF Mem_nothing (both_pages 0x450 1 Mem_ai (m\<lparr>ai_register :=
      \<lparr>ai_dram_addr = 0, ai_len = 0, ai_control = 0, ai_status = 0, ai_dacrate = 0, ai_bitrate = 0,
       next_delay = 0, next_len = 0, current_delay = 0, current_len = 0\<rparr>\<rparr>))"

definition init_pi :: "'w machine \<Rightarrow> 'w machine" where
  "init_pi m =
    both_pages 0x461 0xF Mem_nothing (both_pages 0x460 1 Mem_pi (m\<lparr>pi_register :=
      \<lparr>pi_dram_addr_reg = 0, pi_cart_addr_reg = 0, pi_rd_len_reg = 0, pi_wr_len_reg = 0,
       read_pi_status_reg = 0, pi_bsd_dom1_lat_reg = 0, pi_bsd_dom1_pwd_reg = 0,
       pi_bsd_dom1_pgs_reg = 0, pi_bsd_dom1_rls_reg = 0, pi_bsd_dom2_lat_reg = 0,
       pi_bsd_dom2_pwd_reg = 0, pi_bsd_dom2_pgs_reg = 0, pi_bsd_dom2_rls_reg = 0\<rparr>\<rparr>))"

definition init_ri :: "'w machine \<Rightarrow> 'w machine" where
  "init_ri m =
    both_pages 0x471 0xF Mem_nothing (both_pages 0x470 1 Mem_ri (m\<lparr>ri_register :=
      \<lparr>ri_mode = 0, ri_config = 0, ri_current_load = 0, ri_select = 0, ri_refresh = 0,
       ri_latency = 0, ri_error = 0, ri_werror = 0\<rparr>\<rparr>))"

definition init_si :: "'w machine \<Rightarrow> 'w machine" where
  "init_si m =
    both_pages 0x481 (0x800 - 0x481) Mem_nothing (both_pages 0x480 1 Mem_si (m\<lparr>si_register :=
      \<lparr>si_dram_addr = 0, si_pif_addr_rd64b = 0, si_pif_addr_wr64b = 0, si_status = 0\<rparr>\<rparr>))"

definition init_flash_area :: "'w machine \<Rightarrow> 'w machine" where
  "init_flash_area m =
    both_pages 0x802 (0x1000 - 0x802) Mem_nothing
      (pages_w 0xa801 1 Mem_flashram_command (pages_w 0x8801 1 Mem_flashram_command
      (both_pages 0x801 1 Mem_nothing (both_pages 0x800 1 Mem_flashram_status m))))"

text \<open>
  The pages of the ROM; writing is entered only in the uncached segment.  A ROM of more than
  0x4FFF pages would be entered behind the tables.
\<close>

definition init_rom_area :: "'w machine \<Rightarrow> 'w machine option" where
  "init_rom_area m =
    (let n = drop_bit 16 (rom_size (roms m)) in
     if 0xb000 + n > 0xFFFF then None
     else Some (both_pages (0x1000 + n) (0xfc0 - n) Mem_nothing
       (pages_w 0x9000 n Mem_nothing (pages_w 0xb000 n Mem_rom
       (pages_r 0xb000 n Mem_rom (pages_r 0x9000 n Mem_rom m))))))"

definition init_pif_area :: "'w machine \<Rightarrow> 'w machine" where
  "init_pif_area m =
    both_pages 0x1fc1 0x3f Mem_nothing (both_pages 0x1fc0 1 Mem_pif (m\<lparr>PIF_RAM := replicate 64 0\<rparr>))"

definition init_sc_area :: "'w machine_env \<Rightarrow> 'w machine \<Rightarrow> 'w machine" where
  "init_sc_area env m =
    (if cfg_use_summercart (core_cfg env) then (both_pages 0x1fff 1 Mem_sc_reg m)\<lparr>cart := init_summercart\<rparr> else m)"

definition init_memory :: "'w machine_env \<Rightarrow> 'w machine \<Rightarrow> 'w machine option" where
  "init_memory env m0 = do {
     let m1 = init_rdram (init_hash_tables (m0\<lparr>g_total_frames := 0, lag_count := 0\<rparr>));
     let m2 = init_rsp (init_rsp_registers (init_rsp_memory (init_rdram_registers m1)));
     let m3 = init_vi (init_mi (init_dps (init_dp m2)));
     let m4 = init_flash_area (init_si (init_ri (init_pi (init_ai m3))));
     m5 \<leftarrow> init_rom_area m4;
     let m6 = init_sc_area env (init_pif_area m5);
     fbs \<leftarrow> (case frameBufferInfos m6 of f # fs \<Rightarrow> Some (f\<lparr>fb_addr := 0\<rparr> # fs) | [] \<Rightarrow> None);
     Some (m6\<lparr>flash := init_flashram ((flash m6)\<lparr>use_flashram := 0\<rparr>), frameBufferInfos := fbs,
       fast_memory := True, firstFrameBufferSetting := True\<rparr>) }"

end
