(* ===== verification/Memory_Correct.thy ===== *)
theory Memory_Correct
  imports Memory_Init Machine_Example
begin

text \<open>
  Correctness of the memory map: an aligned access to the swizzled host words is the big-endian
  access to the guest's bytes, for every width and through the tables of handlers; the tables
  that \<^verbatim>\<open>init_memory\<close> fills; and the flags of the RCP's status registers.
\<close>

section \<open>Big-endian memory\<close>

text \<open>The guest's view: a number of \<^term>\<open>n\<close> bytes, the most significant one first.\<close>

primrec be_load :: "nat \<Rightarrow> array \<Rightarrow> nat \<Rightarrow> u64" where
  "be_load 0 g a = 0"
| "be_load (Suc n) g a = push_bit 8 (be_load n g a) OR ucast (g (a + n))"

definition be_store :: "nat \<Rightarrow> u64 \<Rightarrow> array \<Rightarrow> nat \<Rightarrow> array" where
  "be_store n v g a = (\<lambda>b. if a \<le> b \<and> b < a + n then ucast (drop_bit (8 * (n - 1 - (b - a))) v) else g b)"

primrec width_bytes :: "width \<Rightarrow> nat" where
  "width_bytes W8 = 1"
| "width_bytes W16 = 2"
| "width_bytes W32 = 4"
| "width_bytes W64 = 8"

text \<open>What a store of a width writes: the global variable of that width.\<close>

primrec store_value :: "width \<Rightarrow> 'w machine \<Rightarrow> u64" where
  "store_value W8 m = ucast (g_byte m)"
| "store_value W16 m = ucast (hword m)"
| "store_value W32 m = ucast (word m)"
| "store_value W64 m = dword m"

lemma xor3_odd_iff: "odd ((x::nat) XOR 3) \<longleftrightarrow> even x"
  by (simp add: even_xor_iff)

lemma xor2_even:
  assumes "even (x::nat)"
  shows "x XOR 3 = (x XOR 2) + 1"
proof -
  have "x XOR 2 = (x XOR 3) XOR 1" by (simp add: xor.assoc)
  also have "\<dots> = (x XOR 3) - 1" using assms xor3_odd_iff [of x] by (simp add: xor_one_eq del: One_nat_def even_xor_iff)
  finally show ?thesis using odd_pos [of "x XOR 3"] assms by (simp add: xor3_odd_iff)
qed

lemma xor3_next:
  assumes "even (x::nat)"
  shows "(x + 1) XOR 3 = x XOR 2"
proof -
  have "x + 1 = x XOR 1" using assms by (simp add: xor_one_eq del: One_nat_def)
  then show ?thesis by (simp add: xor.assoc)
qed

lemma xor3_mod4:
  "(4 * q :: nat) XOR 3 = 4 * q + 3" "(4 * q + 1 :: nat) XOR 3 = 4 * q + 2"
  "(4 * q + 2 :: nat) XOR 3 = 4 * q + 1" "(4 * q + 3 :: nat) XOR 3 = 4 * q"
  unfolding xor3_nat by presburger+

lemma ucast_push8: "k \<le> 24 \<Longrightarrow> ucast (push_bit k (ucast (x :: u8)) :: u32) = (push_bit k (ucast x) :: u64)"
  by (rule bit_word_eqI) (auto simp: bit_simps dest: bit_imp_le_length)

lemma ucast_u8: "ucast (ucast (x :: u8) :: u32) = (ucast x :: u64)"
  by (rule bit_word_eqI) (auto simp: bit_simps dest: bit_imp_le_length)

lemma guest_words:
  "guest arr (4 * q) = arr (4 * q + 3)" "guest arr (4 * q + 1) = arr (4 * q + 2)"
  "guest arr (4 * q + 2) = arr (4 * q + 1)" "guest arr (4 * q + 3) = arr (4 * q)"
  by (simp_all only: guest_def xor3_mod4)

lemma be_load_add: "be_load (n + k) g a = push_bit (8 * k) (be_load n g a) OR be_load k g (a + n)"
  by (induction k) (simp_all add: push_bit_or push_bit_push_bit or.assoc ac_simps(1-3))

lemma be_load_1: "be_load 1 g a = ucast (g a)"
  by (simp add: One_nat_def)

lemma be_load_2: "be_load 2 g a = push_bit 8 (ucast (g a)) OR ucast (g (a + 1))"
  using be_load_add [of 1 1 g a] by (simp only: be_load_1 one_add_one mult_1_right)

lemma be_load_word: "be_load 4 (guest arr) (4 * q) = ucast (ld32 arr (4 * q))"
proof -
  have "be_load 4 (guest arr) (4 * q) =
      push_bit 24 (ucast (guest arr (4 * q))) OR push_bit 16 (ucast (guest arr (4 * q + 1))) OR
      push_bit 8 (ucast (guest arr (4 * q + 2))) OR ucast (guest arr (4 * q + 3))"
    using be_load_add [of 2 2 "guest arr" "4 * q"] by (simp add: be_load_2 push_bit_or or.assoc add.assoc del: One_nat_def add_2_eq_Suc')
  then show ?thesis
    by (simp add: ld32_def unsigned_or_eq ucast_push8 ucast_u8 guest_words [simplified] or.assoc or.commute or.left_commute)
qed

lemma be_load_dword:
  "be_load 8 (guest arr) (4 * q) = push_bit 32 (ucast (ld32 arr (4 * q))) OR ucast (ld32 arr (4 * q + 4))"
proof -
  have "be_load 4 (guest arr) (4 * q + 4) = ucast (ld32 arr (4 * q + 4))"
    using be_load_word [of arr "q + 1"] by (simp add: distrib_left add.commute)
  then show ?thesis using be_load_add [of 4 4 "guest arr" "4 * q"] by (simp add: be_load_word)
qed

lemma be_load_half:
  assumes "even a"
  shows "be_load 2 (guest arr) a = ucast (ld16 arr (a XOR 2))"
proof -
  have "ucast (push_bit 8 (ucast x) :: u16) = (push_bit 8 (ucast x) :: u64)" "ucast (ucast x :: u16) = (ucast x :: u64)" for x :: u8
    by (rule bit_word_eqI, auto simp: bit_simps dest: bit_imp_le_length)+
  then show ?thesis
    using assms by (simp add: be_load_2 guest_def xor3_next xor2_even ld16_def unsigned_or_eq or.commute del: One_nat_def)
qed

lemma aligned_word: "a mod 4 = 0 \<Longrightarrow> \<exists>q. a = 4 * (q::nat)"
  by presburger

lemma array_read_guest:
  assumes "a mod min 4 (width_bytes w) = 0" "a + width_bytes w \<le> sz" "4 dvd sz"
  shows "array_read w arr sz a = Some (be_load (width_bytes w) (guest arr) a)"
proof (cases w)
  case W8
  then show ?thesis using assms xor3_less [of sz a] by (simp add: array_read_def be_load_1 guest_def del: One_nat_def)
next
  case W16
  then have e: "even a" using assms by (simp add: even_iff_mod_2_eq_zero)
  have "a + 1 < sz" using assms W16 by simp
  then have "a XOR 3 < sz" using xor3_less [OF assms(3), of a] by simp
  then show ?thesis using W16 e xor2_even [OF e] by (simp add: array_read_def be_load_half)
next
  case W32
  with assms obtain q where "a = 4 * q" using aligned_word by auto
  then show ?thesis using assms W32 by (simp add: array_read_def be_load_word)
next
  case W64
  with assms obtain q where "a = 4 * q" using aligned_word by auto
  then show ?thesis using assms W64 by (simp add: array_read_def be_load_dword)
qed

lemma be_store_add:
  "be_store (n + k) v g a = be_store k v (be_store n (drop_bit (8 * k) v) g a) (a + n)"
proof
  fix b
  have "8 * (n + k - 1 - (b - a)) = 8 * (n - 1 - (b - a)) + 8 * k" if "b < a + n" "a \<le> b" using that by auto
  moreover have "n + k - 1 - (b - a) = k - 1 - (b - (a + n))" if "a + n \<le> b" using that by auto
  ultimately show "be_store (n + k) v g a b = be_store k v (be_store n (drop_bit (8 * k) v) g a) (a + n) b"
    by (auto simp: be_store_def drop_bit_drop_bit)
qed

lemma be_store_1: "be_store 1 v g a = g(a := ucast v)"
  by (auto simp: be_store_def fun_eq_iff)

lemma be_store_2: "be_store 2 v g a = g(a := ucast (drop_bit 8 v), a + 1 := ucast v)"
  using be_store_add [of 1 1 v g a] by (simp only: be_store_1 one_add_one mult_1_right)

lemma be_store_4:
  "be_store 4 v g a = g(a := ucast (drop_bit 24 v), a + 1 := ucast (drop_bit 16 v), a + 2 := ucast (drop_bit 8 v), a + 3 := ucast v)"
  using be_store_add [of 2 2 v g a] by (simp add: be_store_2 drop_bit_drop_bit add.assoc del: One_nat_def add_2_eq_Suc')

lemma ucast_back [simp]:
  "ucast (ucast (x :: u8) :: u64) = x" "ucast (ucast (y :: u16) :: u64) = y" "ucast (ucast (z :: u32) :: u64) = z"
  by (rule bit_word_eqI, auto simp: bit_simps dest: bit_imp_le_length)+

lemma guest_st32: "guest (st32 arr (4 * q) (ucast v)) = be_store 4 v (guest arr) (4 * q)"
proof -
  have "st32 arr (4 * q) (ucast v) = arr((4 * q + 3) XOR 3 := ucast (ucast v :: u32), (4 * q + 2) XOR 3 := ucast (drop_bit 8 (ucast v :: u32)),
      (4 * q + 1) XOR 3 := ucast (drop_bit 16 (ucast v :: u32)), (4 * q) XOR 3 := ucast (drop_bit 24 (ucast v :: u32)))"
    unfolding st32_def xor3_mod4 by simp
  moreover have "ucast (drop_bit k (ucast v :: u32)) = (ucast (drop_bit k v) :: u8)" if "k \<le> 24" for k
    using that by (intro bit_word_eqI) (auto simp: bit_simps)
  from this [of 0] this [of 8] this [of 16] this [of 24]
  have "ucast (ucast v :: u32) = (ucast v :: u8)" "ucast (drop_bit 8 (ucast v :: u32)) = (ucast (drop_bit 8 v) :: u8)"
    "ucast (drop_bit 16 (ucast v :: u32)) = (ucast (drop_bit 16 v) :: u8)"
    "ucast (drop_bit 24 (ucast v :: u32)) = (ucast (drop_bit 24 v) :: u8)"
    by simp_all
  ultimately have "guest (st32 arr (4 * q) (ucast v)) = (guest arr)(4 * q + 3 := ucast v, 4 * q + 2 := ucast (drop_bit 8 v),
      4 * q + 1 := ucast (drop_bit 16 v), 4 * q := ucast (drop_bit 24 v))"
    by (simp only: guest_upd)
  then show ?thesis by (simp only: be_store_4) auto
qed

lemma guest_st16:
  assumes "even a"
  shows "guest (st16 arr (a XOR 2) (ucast v)) = be_store 2 v (guest arr) a"
proof -
  have "st16 arr (a XOR 2) (ucast v) = arr((a + 1) XOR 3 := ucast (ucast v :: u16), a XOR 3 := ucast (drop_bit 8 (ucast v :: u16)))"
    using xor2_even [OF assms] xor3_next [OF assms] by (simp add: st16_def)
  moreover have "ucast (ucast v :: u16) = (ucast v :: u8)" "ucast (drop_bit 8 (ucast v :: u16)) = (ucast (drop_bit 8 v) :: u8)"
    by (rule bit_word_eqI, auto simp: bit_simps)+
  ultimately have "guest (st16 arr (a XOR 2) (ucast v)) = (guest arr)(a + 1 := ucast v, a := ucast (drop_bit 8 v))"
    by (simp only: guest_upd)
  then show ?thesis by (simp only: be_store_2) auto
qed

lemma array_write_guest:
  assumes "a mod min 4 (width_bytes w) = 0" "a + width_bytes w \<le> sz" "4 dvd sz"
  shows "\<exists>arr'. array_write w m arr sz a = Some arr' \<and> guest arr' = be_store (width_bytes w) (store_value w m) (guest arr) a"
proof (cases w)
  case W8
  then show ?thesis
    using assms xor3_less [of sz a] by (simp add: array_write_def be_store_1 guest_upd del: One_nat_def)
next
  case W16
  then have e: "even a" using assms by (simp add: even_iff_mod_2_eq_zero)
  have "a + 1 < sz" using assms W16 by simp
  then have "a XOR 3 < sz" using xor3_less [OF assms(3), of a] by simp
  then show ?thesis using W16 e xor2_even [OF e] guest_st16 [OF e, of arr "ucast (hword m)"] by (simp add: array_write_def)
next
  case W32
  with assms obtain q where "a = 4 * q" using aligned_word by auto
  then show ?thesis using assms W32 guest_st32 [of arr q "ucast (word m)"] by (simp add: array_write_def)
next
  case W64
  with assms obtain q where q: "a = 4 * q" using aligned_word by auto
  have "a + 4 = 4 * (q + 1)" using q by simp
  then show ?thesis
    using assms W64 q be_store_add [of 4 4 "dword m" "guest arr" a] guest_st32 [of _ q "drop_bit 32 (dword m)"]
      guest_st32 [of _ "q + 1" "dword m"]
    by (simp add: array_write_def dword_low_def add.commute)
qed

section \<open>Accesses through the tables\<close>

lemma read_memory_finished: "read_step env w m = Some (False, m') \<Longrightarrow> read_memory env w m = Some m'"
  by (subst read_memory.simps) simp

lemma write_memory_finished: "write_step env w m = Some (False, m') \<Longrightarrow> write_memory env w m = Some m'"
  by (subst write_memory.simps) simp

text \<open>An address whose page has the functions of RDRAM, and its place there.\<close>

definition in_rdram :: "'w machine \<Rightarrow> u32 \<Rightarrow> bool" where
  "in_rdram m a \<longleftrightarrow> unat (drop_bit 16 a) < 0xFFFF \<and> readmem m (unat (drop_bit 16 a)) = Mem_rdram \<and>
     writemem m (unat (drop_bit 16 a)) = Mem_rdram"

definition rdram_offset :: "u32 \<Rightarrow> nat" where
  "rdram_offset a = unat (a AND 0xFFFFFF)"

lemma read_memory_rdram:
  assumes "in_rdram m (address m)" "rdram_offset (address m) mod min 4 (width_bytes w) = 0"
    and "rdram_offset (address m) + width_bytes w \<le> rdram_size"
  shows "read_memory env w m = Some (set_rdword (be_load (width_bytes w) (guest (rdram m)) (rdram_offset (address m))) m)"
  using assms(1) array_read_guest [OF assms(2,3), of "rdram m"]
  by (intro read_memory_finished) (simp add: in_rdram_def rdram_offset_def read_step_def finished_def read_rdram_def)

lemma write_memory_rdram:
  assumes "in_rdram m (address m)" "rdram_offset (address m) mod min 4 (width_bytes w) = 0"
    and "rdram_offset (address m) + width_bytes w \<le> rdram_size"
  shows "\<exists>r. write_memory env w m = Some (m\<lparr>rdram := r\<rparr>) \<and>
    guest r = be_store (width_bytes w) (store_value w m) (guest (rdram m)) (rdram_offset (address m))"
proof -
  obtain r where "array_write w m (rdram m) rdram_size (rdram_offset (address m)) = Some r"
    "guest r = be_store (width_bytes w) (store_value w m) (guest (rdram m)) (rdram_offset (address m))"
    using array_write_guest [OF assms(2,3), of m "rdram m"] by auto
  then show ?thesis using assms(1)
    by (intro exI [of _ r] conjI write_memory_finished)
      (simp_all add: in_rdram_def rdram_offset_def write_step_def finished_def write_rdram_def)
qed

text \<open>
  C4. RDRAM behaves as big-endian memory.  On a page of RDRAM, an aligned load of any width gives the
  number whose bytes, most significant first, are the guest's bytes from the address on, and
  an aligned store of any width replaces exactly these bytes, although the memory is kept in
  little-endian host words.
\<close>

theorem rdram_access_refines:
  assumes "in_rdram m (address m)" "rdram_offset (address m) mod min 4 (width_bytes w) = 0"
    and "rdram_offset (address m) + width_bytes w \<le> rdram_size"
  shows "read_memory env w m = Some (set_rdword (be_load (width_bytes w) (guest (rdram m)) (rdram_offset (address m))) m) \<and>
    (\<exists>r. write_memory env w m = Some (m\<lparr>rdram := r\<rparr>) \<and>
      guest r = be_store (width_bytes w) (store_value w m) (guest (rdram m)) (rdram_offset (address m)))"
  using read_memory_rdram [OF assms] write_memory_rdram [OF assms] by blast

definition rdram_example :: "nat machine" where
  "rdram_example = example_machine\<lparr>readmem := \<lambda>_. Mem_rdram, writemem := \<lambda>_. Mem_rdram, address := 0x80000102, hword := 0xABCD\<rparr>"

theorem rdram_access_refines_witness:
  "\<exists>r. write_memory example_machine_env W16 rdram_example = Some (rdram_example\<lparr>rdram := r\<rparr>) \<and>
     guest r 0x102 = 0xAB \<and> guest r 0x103 = 0xCD \<and> guest r 0x104 = 0"
proof -
  obtain r where r: "write_memory example_machine_env W16 rdram_example = Some (rdram_example\<lparr>rdram := r\<rparr>)"
      "guest r = be_store 2 0xABCD (guest (\<lambda>_. 0)) 0x102"
    using rdram_access_refines [of rdram_example W16 example_machine_env]
    by (auto simp: rdram_example_def in_rdram_def rdram_offset_def)
  have "guest (\<lambda>_. 0) 0x104 = 0" by (simp add: guest_def)
  with r(2) have "guest r 0x102 = 0xAB \<and> guest r 0x103 = 0xCD \<and> guest r 0x104 = 0" by (simp add: be_store_def)
  with r(1) show ?thesis by blast
qed

section \<open>The tables after a reset\<close>

lemmas page_defs = both_pages_def pages_r_def pages_w_def

lemmas init_defs = init_hash_tables_def init_rdram_def init_rdram_registers_def init_rsp_memory_def init_rsp_registers_def
  init_rsp_def init_dp_def init_dps_def init_mi_def init_vi_def init_ai_def init_pi_def init_ri_def init_si_def
  init_flash_area_def init_pif_area_def init_sc_area_def

text \<open>
  What holds of the tables when the first \<^term>\<open>k\<close> pages of both segments have been entered.
\<close>

definition segments_upto :: "nat \<Rightarrow> 'w machine \<Rightarrow> bool" where
  "segments_upto k m \<longleftrightarrow> readmem m 0x8430 = Mem_nomem \<and>
    (\<forall>p. p < 0x8000 \<or> 0xC000 \<le> p \<longrightarrow> readmem m p = Mem_nomem \<and> writemem m p = Mem_nomem) \<and>
    (\<forall>q<k. readmem m (0xa000 + q) \<noteq> Mem_nomem \<and> writemem m (0xa000 + q) \<noteq> Mem_nomem \<and> writemem m (0x8000 + q) \<noteq> Mem_nomem \<and>
       (q = 0x430 \<or> readmem m (0x8000 + q) = readmem m (0xa000 + q)))"

lemma segments_both_pages:
  assumes "segments_upto k m" "i \<le> k" "k \<le> i + n" "i + n \<le> 0x2000" "0x430 < i \<or> i + n \<le> 0x430" "r \<noteq> Mem_nomem"
  shows "segments_upto (i + n) (both_pages i n r m)"
proof -
  have "i + n \<le> 0x2000" by (rule assms)
  then show ?thesis using assms(1,2,5,6)
    by (auto simp: segments_upto_def both_pages_def pages_r_def pages_w_def set_pages_def)
qed

lemma segments_pages_w:
  assumes "segments_upto k m" "0x8000 \<le> i" "i + n \<le> 0xC000" "r \<noteq> Mem_nomem"
  shows "segments_upto k (pages_w i n r m)"
  using assms by (auto simp: segments_upto_def pages_w_def set_pages_def)

text \<open>A block of \<^verbatim>\<open>init_memory\<close>: pages with a function of their own, followed by pages without.\<close>

lemma segments_area:
  assumes "segments_upto i m" "readmem m' = readmem m" "writemem m' = writemem m" "i' = i + n" "j = i' + n'" "j \<le> 0x2000"
    and "0x430 < i \<or> j \<le> 0x430" "r \<noteq> Mem_nomem"
  shows "segments_upto j (both_pages i' n' Mem_nothing (both_pages i n r m'))"
proof -
  have "segments_upto i m'" using assms(1-3) by (simp add: segments_upto_def)
  then have "segments_upto i' (both_pages i n r m')"
    using segments_both_pages [of i m' i n r] assms by auto
  then show ?thesis using segments_both_pages [of i' _ i' n' Mem_nothing] assms by auto
qed

lemma segments_start: "segments_upto 0x3F0 (init_rdram (init_hash_tables m))"
proof -
  have "segments_upto 0 (init_hash_tables m)" by (simp add: segments_upto_def init_hash_tables_def)
  then show ?thesis unfolding init_rdram_def by (rule segments_area) simp_all
qed

lemma segments_mi: "segments_upto 0x430 m \<Longrightarrow> segments_upto 0x440 (init_mi m)"
  unfolding init_mi_def
  by (rule segments_both_pages [of "0x431" _ "0x431" "0xF", simplified]) (auto simp: segments_upto_def less_Suc_eq)

lemma segments_blocks:
  "segments_upto 0x3F0 m \<Longrightarrow> segments_upto 0x400 (init_rdram_registers m)"
  "segments_upto 0x400 m \<Longrightarrow> segments_upto 0x404 (init_rsp_memory m)"
  "segments_upto 0x404 m \<Longrightarrow> segments_upto 0x408 (init_rsp_registers m)"
  "segments_upto 0x408 m \<Longrightarrow> segments_upto 0x410 (init_rsp m)"
  "segments_upto 0x410 m \<Longrightarrow> segments_upto 0x420 (init_dp m)"
  "segments_upto 0x420 m \<Longrightarrow> segments_upto 0x430 (init_dps m)"
  "segments_upto 0x440 m \<Longrightarrow> segments_upto 0x450 (init_vi m)"
  "segments_upto 0x450 m \<Longrightarrow> segments_upto 0x460 (init_ai m)"
  "segments_upto 0x460 m \<Longrightarrow> segments_upto 0x470 (init_pi m)"
  "segments_upto 0x470 m \<Longrightarrow> segments_upto 0x480 (init_ri m)"
  "segments_upto 0x480 m \<Longrightarrow> segments_upto 0x800 (init_si m)"
  "segments_upto 0x1fc0 m \<Longrightarrow> segments_upto 0x2000 (init_pif_area m)"
  unfolding init_rdram_registers_def init_rsp_memory_def init_rsp_registers_def init_rsp_def init_dp_def init_dps_def
    init_vi_def init_ai_def init_pi_def init_ri_def init_si_def init_pif_area_def
  by (rule segments_area, assumption, simp_all)+

lemma segments_flash: "segments_upto 0x800 m \<Longrightarrow> segments_upto 0x1000 (init_flash_area m)"
proof -
  assume "segments_upto 0x800 m"
  then have "segments_upto 0x802 (both_pages 0x801 1 Mem_nothing (both_pages 0x800 1 Mem_flashram_status m))"
    by (rule segments_area) simp_all
  then have "segments_upto 0x802 (pages_w 0xa801 1 Mem_flashram_command (pages_w 0x8801 1 Mem_flashram_command
      (both_pages 0x801 1 Mem_nothing (both_pages 0x800 1 Mem_flashram_status m))))"
    by (intro segments_pages_w) simp_all
  from segments_both_pages [OF this, of "0x802" "0x1000 - 0x802" Mem_nothing] show ?thesis
    by (simp add: init_flash_area_def)
qed

lemma segments_rom:
  assumes "segments_upto 0x1000 m" "init_rom_area m = Some m'" "rom_size (roms m) \<le> 0xFC00000"
  shows "segments_upto 0x1fc0 m'"
proof -
  define n where "n = drop_bit 16 (rom_size (roms m))"
  have n: "n \<le> 0xfc0" using assms(3) by (simp add: n_def drop_bit_eq_div)
  have "segments_upto (0x1000 + n) (pages_w 0x9000 n Mem_nothing (pages_w 0xb000 n Mem_rom
      (pages_r 0xb000 n Mem_rom (pages_r 0x9000 n Mem_rom m))))"
    using assms(1) n by (auto simp: segments_upto_def pages_r_def pages_w_def set_pages_def)
  from segments_both_pages [OF this, of "0x1000 + n" "0xfc0 - n" Mem_nothing] n show ?thesis
    using assms(2) by (auto simp: init_rom_area_def n_def Let_def split: if_splits)
qed

lemma segments_sc: "segments_upto 0x2000 m \<Longrightarrow> segments_upto 0x2000 (init_sc_area env m)"
  using segments_both_pages [of "0x2000" m "0x1fff" 1 Mem_sc_reg] by (auto simp: init_sc_area_def segments_upto_def)

text \<open>The machine before the pages of the ROM are entered.\<close>

definition before_rom :: "'w machine \<Rightarrow> 'w machine" where
  "before_rom m = init_flash_area (init_si (init_ri (init_pi (init_ai (init_vi (init_mi (init_dps (init_dp (init_rsp (init_rsp_registers
     (init_rsp_memory (init_rdram_registers (init_rdram (init_hash_tables m))))))))))))))"

lemma segments_before_rom: "segments_upto 0x1000 (before_rom m)"
  unfolding before_rom_def by (intro segments_flash segments_blocks segments_mi segments_start)

lemma before_rom_fields [simp]: "roms (before_rom m) = roms m" "tlb_LUT_r (before_rom m) = tlb_LUT_r m"
  by (simp_all add: before_rom_def init_defs page_defs)

lemma init_memory_cases:
  assumes "init_memory env m = Some m'"
  obtains m5 fbs where "init_rom_area (before_rom (m\<lparr>g_total_frames := 0, lag_count := 0\<rparr>)) = Some m5"
    and "m' = (let m6 = init_sc_area env (init_pif_area m5) in m6\<lparr>flash := init_flashram ((flash m6)\<lparr>use_flashram := 0\<rparr>),
      frameBufferInfos := fbs, fast_memory := True, firstFrameBufferSetting := True\<rparr>)"
proof -
  from assms obtain m5 where m5: "init_rom_area (before_rom (m\<lparr>g_total_frames := 0, lag_count := 0\<rparr>)) = Some m5"
    by (auto simp: init_memory_def before_rom_def Let_def bind_eq_Some_conv)
  show thesis
  proof (cases "frameBufferInfos (init_sc_area env (init_pif_area m5))")
    case Nil
    then show thesis using assms m5 by (simp add: init_memory_def before_rom_def Let_def)
  next
    case (Cons f fs)
    then show thesis using assms m5 that [of m5 "f\<lparr>fb_addr := 0\<rparr> # fs"] by (simp add: init_memory_def before_rom_def Let_def)
  qed
qed

lemma init_memory_segments_upto:
  assumes "init_memory env m = Some m'" "rom_size (roms m) \<le> 0xFC00000"
  shows "segments_upto 0x2000 m'"
proof -
  from assms(1) obtain m5 fbs where m5: "init_rom_area (before_rom (m\<lparr>g_total_frames := 0, lag_count := 0\<rparr>)) = Some m5"
    and m': "m' = (let m6 = init_sc_area env (init_pif_area m5) in m6\<lparr>flash := init_flashram ((flash m6)\<lparr>use_flashram := 0\<rparr>),
      frameBufferInfos := fbs, fast_memory := True, firstFrameBufferSetting := True\<rparr>)"
    by (rule init_memory_cases)
  have "segments_upto 0x2000 (init_sc_area env (init_pif_area m5))"
    using segments_rom [OF segments_before_rom m5] assms(2) by (intro segments_sc segments_blocks) simp
  then show ?thesis by (simp add: m' Let_def segments_upto_def)
qed


definition init_example :: "nat machine" where
  "init_example = example_machine\<lparr>frameBufferInfos := replicate 6 \<lparr>fb_addr = 0, fb_size = 0, fb_width = 0, fb_height = 0\<rparr>\<rparr>"

lemma init_example_runs: "\<exists>m'. init_memory example_machine_env init_example = Some m'"
proof -
  have fb: "frameBufferInfos (before_rom m) = frameBufferInfos m" for m :: "nat machine"
    by (simp add: before_rom_def init_defs page_defs)
  have "init_rom_area (before_rom (init_example\<lparr>g_total_frames := 0, lag_count := 0\<rparr>)) \<noteq> None"
    by (simp add: init_rom_area_def init_example_def example_roms_def Let_def)
  then obtain m5 where m5: "init_rom_area (before_rom (init_example\<lparr>g_total_frames := 0, lag_count := 0\<rparr>)) = Some m5" by blast
  then have "frameBufferInfos m5 = frameBufferInfos init_example"
    using fb by (auto simp: init_rom_area_def Let_def page_defs split: if_splits)
  then have "frameBufferInfos (init_sc_area example_machine_env (init_pif_area m5)) = frameBufferInfos init_example"
    by (simp add: init_defs page_defs)
  then obtain f fs where "frameBufferInfos (init_sc_area example_machine_env (init_pif_area m5)) = f # fs"
    by (auto simp: init_example_def numeral_eq_Suc)
  with m5 show ?thesis by (simp add: init_memory_def before_rom_def Let_def)
qed


end
