(* ===== verification/Cpu_Memory.thy ===== *)
theory Cpu_Memory
  imports Memory_Correct
begin

text \<open>
  The loads and stores of the pure interpreter, \<^verbatim>\<open>Core/r4300/pure_interp.cpp\<close>: the aligned accesses of every
  width, the unaligned pairs, load linked and store conditional, and the accesses of
  coprocessor 1.
\<close>

section \<open>Access to memory\<close>

text \<open>\<^verbatim>\<open>core_iimmediate + irs32\<close>\<close>

definition ls_addr :: "r4300 \<Rightarrow> u32" where
  "ls_addr c = imm32 (vr_op c) + rrs32 c"

abbreviation irt :: "'w machine \<Rightarrow> u64" where
  "irt m \<equiv> core_rrt (cpu m)"

definition set_irt :: "u64 \<Rightarrow> 'w machine \<Rightarrow> 'w machine" where
  "set_irt v m = m\<lparr>cpu := set_rt v (cpu m)\<rparr>"

text \<open>\<^verbatim>\<open>rdword = &core_irt\<close>, or the address of a local variable.\<close>

definition irt_ptr :: "'w machine \<Rightarrow> rdptr" where
  "irt_ptr m = Rd_reg (f_rt (vr_op (cpu m)))"

definition read_to :: "'w machine_env \<Rightarrow> width \<Rightarrow> rdptr \<Rightarrow> u32 \<Rightarrow> 'w machine \<Rightarrow> 'w machine option" where
  "read_to env w p a m = read_memory env w (m\<lparr>address := a, rdword := p\<rparr>)"

definition store_word :: "'w machine_env \<Rightarrow> u32 \<Rightarrow> 'w machine \<Rightarrow> 'w machine option" where
  "store_word env v m = write_memory env W32 (m\<lparr>word := v\<rparr>)"

definition store_dword :: "'w machine_env \<Rightarrow> u64 \<Rightarrow> 'w machine \<Rightarrow> 'w machine option" where
  "store_dword env v m = write_memory env W64 (m\<lparr>dword := v\<rparr>)"

section \<open>Aligned loads and stores\<close>

text \<open>\<^verbatim>\<open>sign_extendedb(a)\<close> and \<^verbatim>\<open>sign_extendedh(a)\<close>\<close>

definition sign_extendedb :: "u64 \<Rightarrow> u64" where
  "sign_extendedb a = scast (ucast a :: u8)"

definition sign_extendedh :: "u64 \<Rightarrow> u64" where
  "sign_extendedh a = scast (ucast a :: u16)"

definition load_rt :: "'w machine_env \<Rightarrow> width \<Rightarrow> (u64 \<Rightarrow> u64) \<Rightarrow> 'w machine \<Rightarrow> 'w machine option" where
  "load_rt env w ext m0 = do {
     let m = m_pc4 m0;
     m1 \<leftarrow> read_to env w (irt_ptr m) (ls_addr (cpu m)) m;
     Some (set_irt (ext (irt m1)) m1) }"

definition LB :: "'w machine_env \<Rightarrow> 'w machine \<Rightarrow> 'w machine option" where
  "LB env = load_rt env W8 sign_extendedb"

definition LH :: "'w machine_env \<Rightarrow> 'w machine \<Rightarrow> 'w machine option" where
  "LH env = load_rt env W16 sign_extendedh"

definition LW :: "'w machine_env \<Rightarrow> 'w machine \<Rightarrow> 'w machine option" where
  "LW env = load_rt env W32 sign_extended"

text \<open>The unsigned loads and \<^verbatim>\<open>LD\<close> leave what the memory stored.\<close>

definition load_raw :: "'w machine_env \<Rightarrow> width \<Rightarrow> 'w machine \<Rightarrow> 'w machine option" where
  "load_raw env w m0 = (let m = m_pc4 m0 in read_to env w (irt_ptr m) (ls_addr (cpu m)) m)"

definition LBU :: "'w machine_env \<Rightarrow> 'w machine \<Rightarrow> 'w machine option" where
  "LBU env = load_raw env W8"

definition LHU :: "'w machine_env \<Rightarrow> 'w machine \<Rightarrow> 'w machine option" where
  "LHU env = load_raw env W16"

definition LWU :: "'w machine_env \<Rightarrow> 'w machine \<Rightarrow> 'w machine option" where
  "LWU env = load_raw env W32"

definition LD :: "'w machine_env \<Rightarrow> 'w machine \<Rightarrow> 'w machine option" where
  "LD env = load_raw env W64"

definition SB :: "'w machine_env \<Rightarrow> 'w machine \<Rightarrow> 'w machine option" where
  "SB env m0 = (let m = m_pc4 m0 in
     write_memory env W8 (m\<lparr>address := ls_addr (cpu m), g_byte := ucast (irt m AND 0xFF)\<rparr>))"

definition SH :: "'w machine_env \<Rightarrow> 'w machine \<Rightarrow> 'w machine option" where
  "SH env m0 = (let m = m_pc4 m0 in
     write_memory env W16 (m\<lparr>address := ls_addr (cpu m), hword := ucast (irt m AND 0xFFFF)\<rparr>))"

definition SW :: "'w machine_env \<Rightarrow> 'w machine \<Rightarrow> 'w machine option" where
  "SW env m0 = (let m = m_pc4 m0 in
     write_memory env W32 (m\<lparr>address := ls_addr (cpu m), word := ucast (irt m AND 0xFFFFFFFF)\<rparr>))"

definition SD :: "'w machine_env \<Rightarrow> 'w machine \<Rightarrow> 'w machine option" where
  "SD env m0 = (let m = m_pc4 m0 in write_memory env W64 (m\<lparr>address := ls_addr (cpu m), dword := irt m\<rparr>))"

definition LL :: "'w machine_env \<Rightarrow> 'w machine \<Rightarrow> 'w machine option" where
  "LL env m = map_option (\<lambda>m1. m1\<lparr>cpu := (cpu m1)\<lparr>llbit := True\<rparr>\<rparr>) (load_rt env W32 sign_extended m)"

definition SC :: "'w machine_env \<Rightarrow> 'w machine \<Rightarrow> 'w machine option" where
  "SC env m0 =
    (let m = m_pc4 m0 in
     if llbit (cpu m) then do {
       m1 \<leftarrow> store_word env (ucast (irt m AND 0xFFFFFFFF)) (m\<lparr>address := ls_addr (cpu m)\<rparr>);
       Some (set_irt 1 (m1\<lparr>cpu := (cpu m1)\<lparr>llbit := False\<rparr>\<rparr>)) }
     else Some (set_irt 0 m))"

section \<open>Unaligned loads and stores\<close>

text \<open>
  The switches over the low bits of the address: the local variable starts as zero, and the address
  of the aligned word is used for every access but those that the source makes at the address itself.
\<close>

definition read_local :: "'w machine_env \<Rightarrow> width \<Rightarrow> u32 \<Rightarrow> 'w machine \<Rightarrow> 'w machine option" where
  "read_local env w a m = read_to env w Rd_local a (m\<lparr>rd_local := 0\<rparr>)"

definition LWL :: "'w machine_env \<Rightarrow> 'w machine \<Rightarrow> 'w machine option" where
  "LWL env m0 = do {
     let m = m_pc4 m0;
     let a = ls_addr (cpu m);
     let k = unat (a AND 3);
     m1 \<leftarrow> (if k = 0 then read_to env W32 (irt_ptr m) a m
            else map_option (\<lambda>m1. set_irt ((irt m1 AND mask (8 * k)) OR push_bit (8 * k) (rd_local m1)) m1)
              (read_local env W32 (a AND 0xFFFFFFFC) m));
     Some (set_irt (sign_extended (irt m1)) m1) }"

definition LWR :: "'w machine_env \<Rightarrow> 'w machine \<Rightarrow> 'w machine option" where
  "LWR env m0 =
    (let m = m_pc4 m0; a = ls_addr (cpu m); k = unat (a AND 3); b = a AND 0xFFFFFFFC in
     if k = 3 then map_option (\<lambda>m1. set_irt (sign_extended (irt m1)) m1) (read_to env W32 (irt_ptr m) b m)
     else map_option (\<lambda>m1. set_irt ((irt m1 AND NOT (mask (8 * (k + 1)))) OR
         (drop_bit (24 - 8 * k) (rd_local m1) AND mask (8 * (k + 1)))) m1)
       (read_local env W32 b m))"

definition LDL :: "'w machine_env \<Rightarrow> 'w machine \<Rightarrow> 'w machine option" where
  "LDL env m0 =
    (let m = m_pc4 m0; a = ls_addr (cpu m); k = unat (a AND 7) in
     if k = 0 then read_to env W64 (irt_ptr m) a m
     else map_option (\<lambda>m1. set_irt ((irt m1 AND mask (8 * k)) OR push_bit (8 * k) (rd_local m1)) m1)
       (read_local env W64 (a AND 0xFFFFFFF8) m))"

definition LDR :: "'w machine_env \<Rightarrow> 'w machine \<Rightarrow> 'w machine option" where
  "LDR env m0 =
    (let m = m_pc4 m0; a = ls_addr (cpu m); k = unat (a AND 7); b = a AND 0xFFFFFFF8 in
     if k = 7 then read_to env W64 (irt_ptr m) b m
     else map_option (\<lambda>m1. set_irt ((irt m1 AND NOT (mask (8 * (k + 1)))) OR drop_bit (56 - 8 * k) (rd_local m1)) m1)
       (read_local env W64 b m))"

definition SWL :: "'w machine_env \<Rightarrow> 'w machine \<Rightarrow> 'w machine option" where
  "SWL env m0 =
    (let m = m_pc4 m0; a = ls_addr (cpu m); k = unat (a AND 3); b = a AND 0xFFFFFFFC in
     if k = 0 then store_word env (ucast (irt m)) (m\<lparr>address := b\<rparr>)
     else if k = 3 then write_memory env W8 (m\<lparr>address := a, g_byte := ucast (drop_bit 24 (irt m))\<rparr>)
     else do {
       m1 \<leftarrow> read_local env W32 b m;
       store_word env (drop_bit (8 * k) (ucast (irt m1)) OR (ucast (rd_local m1) AND NOT (mask (32 - 8 * k)))) m1 })"

definition SWR :: "'w machine_env \<Rightarrow> 'w machine \<Rightarrow> 'w machine option" where
  "SWR env m0 =
    (let m = m_pc4 m0; a = ls_addr (cpu m); k = unat (a AND 3); b = a AND 0xFFFFFFFC in
     if k = 3 then store_word env (ucast (irt m)) (m\<lparr>address := b\<rparr>)
     else do {
       m1 \<leftarrow> read_local env W32 b m;
       store_word env (push_bit (24 - 8 * k) (ucast (irt m1)) OR (ucast (rd_local m1) AND mask (24 - 8 * k))) m1 })"

definition SDL :: "'w machine_env \<Rightarrow> 'w machine \<Rightarrow> 'w machine option" where
  "SDL env m0 =
    (let m = m_pc4 m0; a = ls_addr (cpu m); k = unat (a AND 7); b = a AND 0xFFFFFFF8 in
     if k = 0 then store_dword env (irt m) (m\<lparr>address := b\<rparr>)
     else do {
       m1 \<leftarrow> read_local env W64 b m;
       store_dword env (drop_bit (8 * k) (irt m1) OR (rd_local m1 AND NOT (mask (64 - 8 * k)))) m1 })"

definition SDR :: "'w machine_env \<Rightarrow> 'w machine \<Rightarrow> 'w machine option" where
  "SDR env m0 =
    (let m = m_pc4 m0; a = ls_addr (cpu m); k = unat (a AND 7); b = a AND 0xFFFFFFF8 in
     if k = 7 then store_dword env (irt m) (m\<lparr>address := b\<rparr>)
     else do {
       m1 \<leftarrow> read_local env W64 b m;
       store_dword env (push_bit (56 - 8 * k) (irt m1) OR (rd_local m1 AND mask (56 - 8 * k))) m1 })"

section \<open>Coprocessor 1\<close>

text \<open>
  The registers through the tables of pointers: 32 of 64 bits, or pairs of halves.  The table of double
  pointers keeps its entries for odd numbers when the mode changes to halves.
\<close>

definition cop1_simple :: "regno \<Rightarrow> r4300 \<Rightarrow> u32" where
  "cop1_simple i c =
    (if fr_mode c then ucast (reg_cop1_fgr_64 c i)
     else if bit i 0 then ucast (drop_bit 32 (reg_cop1_fgr_64 c (drop_bit 1 i))) else ucast (reg_cop1_fgr_64 c (drop_bit 1 i)))"

definition set_cop1_simple :: "regno \<Rightarrow> u32 \<Rightarrow> r4300 \<Rightarrow> r4300" where
  "set_cop1_simple i v c =
    (let j = (if fr_mode c then i else drop_bit 1 i); old = reg_cop1_fgr_64 c j
     in c\<lparr>reg_cop1_fgr_64 := (reg_cop1_fgr_64 c)(j :=
       if \<not> fr_mode c \<and> bit i 0 then push_bit 32 (ucast v) OR (old AND mask 32) else (old AND NOT (mask 32)) OR ucast v)\<rparr>)"

definition cop1_double :: "regno \<Rightarrow> r4300 \<Rightarrow> regno" where
  "cop1_double i c = (if fr_mode c \<or> bit i 0 then i else drop_bit 1 i)"

text \<open>The exception of a coprocessor that is switched off; the instruction is abandoned.\<close>

definition unless_cop1_unusable :: "('w machine \<Rightarrow> 'w machine option) \<Rightarrow> 'w machine \<Rightarrow> 'w machine option" where
  "unless_cop1_unusable f m =
    (if core_Status (cpu m) AND 0x20000000 = 0 then Some (exception_general (set_cause (11 * 4 OR 0x10000000) m)) else f m)"

text \<open>\<^verbatim>\<open>temp\<close> is not initialised: a load that fails leaves what the stack held.\<close>

definition LWC1 :: "'w machine_env \<Rightarrow> 'w machine \<Rightarrow> 'w machine option" where
  "LWC1 env = unless_cop1_unusable (\<lambda>m0. do {
     let m = m_pc4 m0;
     m1 \<leftarrow> read_to env W32 Rd_local (ls_addr (cpu m)) (m\<lparr>rd_local := u64_at (uninit_bytes env 8) 0\<rparr>);
     Some (m1\<lparr>cpu := set_cop1_simple (f_rt (vr_op (cpu m1))) (ucast (rd_local m1)) (cpu m1)\<rparr>) })"

definition LDC1 :: "'w machine_env \<Rightarrow> 'w machine \<Rightarrow> 'w machine option" where
  "LDC1 env = unless_cop1_unusable (\<lambda>m0.
     let m = m_pc4 m0 in read_to env W64 (Rd_fpr (cop1_double (f_rt (vr_op (cpu m))) (cpu m))) (ls_addr (cpu m)) m)"

definition SWC1 :: "'w machine_env \<Rightarrow> 'w machine \<Rightarrow> 'w machine option" where
  "SWC1 env = unless_cop1_unusable (\<lambda>m0.
     let m = m_pc4 m0 in store_word env (cop1_simple (f_rt (vr_op (cpu m))) (cpu m)) (m\<lparr>address := ls_addr (cpu m)\<rparr>))"

definition SDC1 :: "'w machine_env \<Rightarrow> 'w machine \<Rightarrow> 'w machine option" where
  "SDC1 env = unless_cop1_unusable (\<lambda>m0.
     let m = m_pc4 m0 in store_dword env (reg_cop1_fgr_64 (cpu m) (cop1_double (f_rt (vr_op (cpu m))) (cpu m))) (m\<lparr>address := ls_addr (cpu m)\<rparr>))"

end
