(* ===== verification/Ieee.thy ===== *)
theory Ieee
  imports Cpu_State "HOL-Library.Log_Nat"
begin

text \<open>
  The floating-point arithmetic of the host that the floating-point instructions are written in
  (\<^verbatim>\<open>float\<close>, \<^verbatim>\<open>double\<close>, \<^verbatim>\<open>fesetround\<close>, \<^verbatim>\<open>sqrt\<close>, \<^verbatim>\<open>_mm_cvtss_si32\<close>, \<^verbatim>\<open>...\<close>): IEEE 754 binary formats as bit
  patterns.  A finite pattern stands for a rational number, and an operation rounds the exact
  result in the given direction.  Which NaN an operation returns is left open by the language: it
  is an argument.
\<close>

section \<open>Formats\<close>

record fformat =
  frac_bits :: nat
  exp_bits :: nat

definition binary32 :: fformat where "binary32 = \<lparr>frac_bits = 23, exp_bits = 8\<rparr>"
definition binary64 :: fformat where "binary64 = \<lparr>frac_bits = 52, exp_bits = 11\<rparr>"

definition f_bias :: "fformat \<Rightarrow> int" where "f_bias F = 2 ^ (exp_bits F - 1) - 1"
definition f_sign_bit :: "fformat \<Rightarrow> nat" where "f_sign_bit F = 2 ^ (frac_bits F + exp_bits F)"
definition f_sign :: "fformat \<Rightarrow> nat \<Rightarrow> bool" where "f_sign F b \<longleftrightarrow> b \<ge> f_sign_bit F"
definition f_mag :: "fformat \<Rightarrow> nat \<Rightarrow> nat" where "f_mag F b = b mod f_sign_bit F"

text \<open>The magnitude of the infinities: larger magnitudes are the NaNs.\<close>

definition inf_mag :: "fformat \<Rightarrow> nat" where "inf_mag F = (2 ^ exp_bits F - 1) * 2 ^ frac_bits F"

definition f_isnan :: "fformat \<Rightarrow> nat \<Rightarrow> bool" where "f_isnan F b \<longleftrightarrow> f_mag F b > inf_mag F"
definition f_isinf :: "fformat \<Rightarrow> nat \<Rightarrow> bool" where "f_isinf F b \<longleftrightarrow> f_mag F b = inf_mag F"
definition f_iszero :: "fformat \<Rightarrow> nat \<Rightarrow> bool" where "f_iszero F b \<longleftrightarrow> f_mag F b = 0"
definition f_finite :: "fformat \<Rightarrow> nat \<Rightarrow> bool" where "f_finite F b \<longleftrightarrow> f_mag F b < inf_mag F"
definition f_denormal :: "fformat \<Rightarrow> nat \<Rightarrow> bool" where "f_denormal F b \<longleftrightarrow> 0 < f_mag F b \<and> f_mag F b < 2 ^ frac_bits F"

definition with_sign :: "fformat \<Rightarrow> bool \<Rightarrow> nat \<Rightarrow> nat" where
  "with_sign F s g = (if s then f_sign_bit F + g else g)"

definition f_neg :: "fformat \<Rightarrow> nat \<Rightarrow> nat" where "f_neg F b = with_sign F (\<not> f_sign F b) (f_mag F b)"
definition f_abs :: "fformat \<Rightarrow> nat \<Rightarrow> nat" where "f_abs F b = f_mag F b"

text \<open>The exponent of the last place, for a biased exponent, and the number a magnitude stands for.\<close>

definition f_ulp :: "fformat \<Rightarrow> int \<Rightarrow> rat" where "f_ulp F E = 2 powi (E - f_bias F - int (frac_bits F))"

definition mag_value :: "fformat \<Rightarrow> nat \<Rightarrow> rat" where
  "mag_value F g = (let E = max 1 (g div 2 ^ frac_bits F) in of_nat (g - (E - 1) * 2 ^ frac_bits F) * f_ulp F (int E))"

definition f_value :: "fformat \<Rightarrow> nat \<Rightarrow> rat" where
  "f_value F b = (if f_sign F b then - mag_value F (f_mag F b) else mag_value F (f_mag F b))"

section \<open>Comparison\<close>

definition f_key :: "fformat \<Rightarrow> nat \<Rightarrow> int" where
  "f_key F b = (if f_sign F b then - int (f_mag F b) else int (f_mag F b))"

definition f_eq :: "fformat \<Rightarrow> nat \<Rightarrow> nat \<Rightarrow> bool" where
  "f_eq F a b \<longleftrightarrow> \<not> f_isnan F a \<and> \<not> f_isnan F b \<and> f_key F a = f_key F b"

definition f_lt :: "fformat \<Rightarrow> nat \<Rightarrow> nat \<Rightarrow> bool" where
  "f_lt F a b \<longleftrightarrow> \<not> f_isnan F a \<and> \<not> f_isnan F b \<and> f_key F a < f_key F b"

definition f_le :: "fformat \<Rightarrow> nat \<Rightarrow> nat \<Rightarrow> bool" where
  "f_le F a b \<longleftrightarrow> \<not> f_isnan F a \<and> \<not> f_isnan F b \<and> f_key F a \<le> f_key F b"

section \<open>Rounding\<close>

definition round_half_even :: "rat \<Rightarrow> int" where
  "round_half_even x = (let q = \<lfloor>x\<rfloor>; d = x - of_int q
     in if d < 1 / 2 then q else if d > 1 / 2 then q + 1 else if even q then q else q + 1)"

definition round_int :: "rounding \<Rightarrow> rat \<Rightarrow> int" where
  "round_int r x = (case r of
      Round_nearest \<Rightarrow> round_half_even x
    | Round_trunc \<Rightarrow> if x < 0 then \<lceil>x\<rceil> else \<lfloor>x\<rfloor>
    | Round_ceil \<Rightarrow> \<lceil>x\<rceil>
    | Round_floor \<Rightarrow> \<lfloor>x\<rfloor>)"

text \<open>The direction for the magnitude of a negative number.\<close>

definition mirror :: "bool \<Rightarrow> rounding \<Rightarrow> rounding" where
  "mirror s r = (if s then (case r of Round_ceil \<Rightarrow> Round_floor | Round_floor \<Rightarrow> Round_ceil | _ \<Rightarrow> r) else r)"

definition ilog2 :: "rat \<Rightarrow> int" where
  "ilog2 x = (let (n, d) = quotient_of x; k = int (floorlog 2 (nat n)) - int (floorlog 2 (nat d))
     in if 2 powi k \<le> x then k else k - 1)"

text \<open>The magnitude after rounding: one past the largest finite one stands for an overflow.\<close>

definition overflow_mag :: "fformat \<Rightarrow> rounding \<Rightarrow> nat" where
  "overflow_mag F r = (if r = Round_trunc \<or> r = Round_floor then inf_mag F - 1 else inf_mag F)"

definition round_mag :: "fformat \<Rightarrow> rounding \<Rightarrow> rat \<Rightarrow> nat" where
  "round_mag F r x =
    (let E = max 1 (ilog2 x + f_bias F);
         q = round_int r (x / f_ulp F E);
         g = nat ((E - 1) * 2 ^ frac_bits F + q)
     in if g \<ge> inf_mag F then overflow_mag F r else g)"

definition f_round :: "fformat \<Rightarrow> rounding \<Rightarrow> rat \<Rightarrow> nat" where
  "f_round F r x = with_sign F (x < 0) (round_mag F (mirror (x < 0) r) \<bar>x\<bar>)"

section \<open>Operations\<close>

definition f_add :: "fformat \<Rightarrow> (nat list \<Rightarrow> nat) \<Rightarrow> rounding \<Rightarrow> nat \<Rightarrow> nat \<Rightarrow> nat" where
  "f_add F nan r a b =
    (if f_isnan F a \<or> f_isnan F b then nan [a, b]
     else if f_isinf F a then if f_isinf F b \<and> f_sign F a \<noteq> f_sign F b then nan [a, b] else a
     else if f_isinf F b then b
     else let x = f_value F a + f_value F b
          in if x = 0 then with_sign F (if f_sign F a = f_sign F b then f_sign F a else r = Round_floor) 0
             else f_round F r x)"

definition f_sub :: "fformat \<Rightarrow> (nat list \<Rightarrow> nat) \<Rightarrow> rounding \<Rightarrow> nat \<Rightarrow> nat \<Rightarrow> nat" where
  "f_sub F nan r a b = f_add F (\<lambda>_. nan [a, b]) r a (f_neg F b)"

definition f_mul :: "fformat \<Rightarrow> (nat list \<Rightarrow> nat) \<Rightarrow> rounding \<Rightarrow> nat \<Rightarrow> nat \<Rightarrow> nat" where
  "f_mul F nan r a b =
    (let s = (f_sign F a \<noteq> f_sign F b)
     in if f_isnan F a \<or> f_isnan F b \<or> f_isinf F a \<and> f_iszero F b \<or> f_iszero F a \<and> f_isinf F b then nan [a, b]
        else if f_isinf F a \<or> f_isinf F b then with_sign F s (inf_mag F)
        else if f_iszero F a \<or> f_iszero F b then with_sign F s 0
        else f_round F r (f_value F a * f_value F b))"

definition f_div :: "fformat \<Rightarrow> (nat list \<Rightarrow> nat) \<Rightarrow> rounding \<Rightarrow> nat \<Rightarrow> nat \<Rightarrow> nat" where
  "f_div F nan r a b =
    (let s = (f_sign F a \<noteq> f_sign F b)
     in if f_isnan F a \<or> f_isnan F b \<or> f_isinf F a \<and> f_isinf F b \<or> f_iszero F a \<and> f_iszero F b then nan [a, b]
        else if f_isinf F a \<or> f_iszero F b then with_sign F s (inf_mag F)
        else if f_iszero F a \<or> f_isinf F b then with_sign F s 0
        else f_round F r (f_value F a / f_value F b))"

fun isqrt :: "nat \<Rightarrow> nat" where
  "isqrt n = (if n = 0 then 0 else let r = 2 * isqrt (n div 4) in if (r + 1) * (r + 1) \<le> n then r + 1 else r)"

declare isqrt.simps [simp del]

text \<open>The root of a positive number, which is never as small as a denormal number: \<^verbatim>\<open>y\<close> is its square in units in the last place.\<close>

definition sqrt_mag :: "fformat \<Rightarrow> rounding \<Rightarrow> rat \<Rightarrow> nat" where
  "sqrt_mag F r x =
    (let E = ilog2 x div 2 + f_bias F;
         y = x / (f_ulp F E * f_ulp F E);
         q = isqrt (nat \<lfloor>y\<rfloor>);
         up = (case r of
             Round_nearest \<Rightarrow> (of_nat q + 1 / 2) * (of_nat q + 1 / 2) < y \<or> (of_nat q + 1 / 2) * (of_nat q + 1 / 2) = y \<and> odd q
           | Round_ceil \<Rightarrow> of_nat q * of_nat q < y
           | _ \<Rightarrow> False)
     in nat ((E - 1) * 2 ^ frac_bits F) + (if up then q + 1 else q))"

definition f_sqrt :: "fformat \<Rightarrow> (nat list \<Rightarrow> nat) \<Rightarrow> rounding \<Rightarrow> nat \<Rightarrow> nat" where
  "f_sqrt F nan r a =
    (if f_isnan F a then nan [a]
     else if f_iszero F a then a
     else if f_sign F a then nan [a]
     else if f_isinf F a then a
     else sqrt_mag F r (f_value F a))"

section \<open>Conversions\<close>

text \<open>To an integer of \<^verbatim>\<open>w\<close> bits: what does not fit gives the smallest one and the invalid-operation exception.\<close>

definition f_to_int :: "fformat \<Rightarrow> rounding \<Rightarrow> nat \<Rightarrow> nat \<Rightarrow> int \<times> bool" where
  "f_to_int F r w b =
    (let i = round_int r (f_value F b)
     in if \<not> f_finite F b \<or> i < - (2 ^ (w - 1)) \<or> i \<ge> 2 ^ (w - 1) then (- (2 ^ (w - 1)), True) else (i, False))"

definition int_to_f :: "fformat \<Rightarrow> rounding \<Rightarrow> int \<Rightarrow> nat" where
  "int_to_f F r i = (if i = 0 then 0 else f_round F r (of_int i))"

definition f_convert :: "fformat \<Rightarrow> fformat \<Rightarrow> (nat list \<Rightarrow> nat) \<Rightarrow> rounding \<Rightarrow> nat \<Rightarrow> nat" where
  "f_convert F G nan r b =
    (if f_isnan F b then nan [b]
     else if f_isinf F b then with_sign G (f_sign F b) (inf_mag G)
     else if f_iszero F b then with_sign G (f_sign F b) 0
     else f_round G r (f_value F b))"

section \<open>Magnitudes are ordered as the numbers they stand for\<close>

lemma f_ulp_pos [simp]: "0 < f_ulp F E"
  by (simp add: f_ulp_def)

lemma f_ulp_Suc: "f_ulp F (E + 1) = 2 * f_ulp F E"
proof -
  have e: "E + 1 - f_bias F - int (frac_bits F) = (E - f_bias F - int (frac_bits F)) + 1" by simp
  show ?thesis unfolding f_ulp_def e by (subst power_int_add_1) simp_all
qed

lemma mag_value_0 [simp]: "mag_value F 0 = 0"
  by (simp add: mag_value_def Let_def)

lemma mag_value_at:
  assumes "g = (E - 1) * 2 ^ frac_bits F + n" "1 \<le> E" "n < 2 * 2 ^ frac_bits F" "E = 1 \<or> 2 ^ frac_bits F \<le> n"
  shows "mag_value F g = of_nat n * f_ulp F (int E)"
proof -
  let ?P = "2 ^ frac_bits F :: nat"
  have m: "max 1 (g div ?P) = E"
  proof (cases "n < ?P")
    case True
    with assms have "E = 1" "g div ?P = 0" by auto
    then show ?thesis by simp
  next
    case False
    then obtain k where k: "n = ?P + k" using le_Suc_ex [of ?P n] by auto
    with assms(3) have "k < ?P" by simp
    obtain E' where "E = Suc E'" using assms(2) by (cases E) auto
    with assms(1) k have "g = E * ?P + k" by simp
    with \<open>k < ?P\<close> have "g div ?P = E" by simp
    with assms(2) show ?thesis by simp
  qed
  show ?thesis unfolding mag_value_def Let_def m by (simp add: assms(1))
qed

lemma mag_split:
  fixes g :: nat
  obtains E n where "g = (E - 1) * 2 ^ frac_bits F + n" "1 \<le> E" "n < 2 * 2 ^ frac_bits F" "E = 1 \<or> 2 ^ frac_bits F \<le> n"
    "E = max 1 (g div 2 ^ frac_bits F)"
proof -
  let ?P = "2 ^ frac_bits F :: nat"
  have g: "g = g div ?P * ?P + g mod ?P" "g mod ?P < ?P" by (simp_all only: div_mult_mod_eq mod_less_divisor zero_less_power zero_less_numeral)
  show thesis
  proof (cases "g div ?P = 0")
    case True
    with g show thesis using that [of 1 g] by simp
  next
    case False
    then obtain E' where E': "g div ?P = Suc E'" by (cases "g div ?P") auto
    have "g = (Suc E' - 1) * ?P + (?P + g mod ?P)" using g(1) unfolding E' by simp
    moreover have "?P + g mod ?P < 2 * ?P" "Suc E' = max 1 (g div ?P)" using g(2) by (simp_all add: E')
    ultimately show thesis using that [of "Suc E'" "?P + g mod ?P"] by (simp only: le_add1 disj_commute simp_thms le_SucI One_nat_def Suc_le_mono zero_le)
  qed
qed

lemma mag_value_Suc: "mag_value F g < mag_value F (Suc g)"
proof -
  obtain E n where s: "g = (E - 1) * 2 ^ frac_bits F + n" "1 \<le> E" "n < 2 * 2 ^ frac_bits F" "E = 1 \<or> 2 ^ frac_bits F \<le> n"
    by (rule mag_split)
  note v = mag_value_at [OF s]
  show ?thesis
  proof (cases "Suc n < 2 * 2 ^ frac_bits F")
    case True
    with s have "mag_value F (Suc g) = of_nat (Suc n) * f_ulp F (int E)" by (intro mag_value_at) auto
    then show ?thesis by (simp add: v algebra_simps)
  next
    case False
    with s(3) have n: "Suc n = 2 * 2 ^ frac_bits F" by simp
    have "Suc g = (E - 1) * 2 ^ frac_bits F + 2 * 2 ^ frac_bits F" using s(1) n by simp
    also have "\<dots> = (Suc E - 1) * 2 ^ frac_bits F + 2 ^ frac_bits F" using s(2) by (cases E) simp_all
    finally have "mag_value F (Suc g) = of_nat (2 ^ frac_bits F) * f_ulp F (int (Suc E))" by (intro mag_value_at) auto
    also have "\<dots> = of_nat (Suc n) * f_ulp F (int E)"
      unfolding n using f_ulp_Suc [of F "int E"] by (simp add: algebra_simps)
    finally show ?thesis by (simp add: v algebra_simps)
  qed
qed

lemma mag_value_mono: "strict_mono (mag_value F)"
  by (simp add: strict_mono_Suc_iff mag_value_Suc)

lemma mag_value_less [simp]: "mag_value F g < mag_value F h \<longleftrightarrow> g < h"
  by (rule strict_mono_less [OF mag_value_mono])

lemma mag_value_eq [simp]: "mag_value F g = mag_value F h \<longleftrightarrow> g = h"
  by (rule strict_mono_eq [OF mag_value_mono])

lemma mag_value_pos [simp]: "0 < mag_value F g \<longleftrightarrow> 0 < g" "0 \<le> mag_value F g" "mag_value F g = 0 \<longleftrightarrow> g = 0"
  using mag_value_less [of F 0 g] mag_value_eq [of F g 0] strict_mono_less_eq [OF mag_value_mono, of F 0 g] by simp_all

lemma f_value_less: "f_value F a < f_value F b \<longleftrightarrow> f_key F a < f_key F b"
proof -
  have "\<not> mag_value F x < - mag_value F y" for x y
    using mag_value_pos(2) [of F x] mag_value_pos(2) [of F y] by linarith
  moreover have "- mag_value F x < mag_value F y \<longleftrightarrow> 0 < x \<or> 0 < y" for x y
    using mag_value_pos(1,2) [of F x] mag_value_pos(1,2) [of F y] by linarith
  ultimately show ?thesis by (auto simp: f_value_def f_key_def)
qed

lemma f_value_eq: "f_value F a = f_value F b \<longleftrightarrow> f_key F a = f_key F b"
  using f_value_less [of F a b] f_value_less [of F b a] by linarith

section \<open>Rounding a representable number\<close>

lemma powi2_less: "(2 :: rat) powi a < 2 powi b \<longleftrightarrow> a < b"
  using power_int_strict_increasing [of a b "2 :: rat"] power_int_increasing [of b a "2 :: rat"]
  by (meson leD linorder_le_less_linear one_le_numeral one_less_numeral_iff semiring_norm(76))

lemma floorlog_powi:
  assumes "0 < n"
  shows "2 powi (int (floorlog 2 n) - 1) \<le> (of_nat n :: rat)" "(of_nat n :: rat) < 2 powi int (floorlog 2 n)"
proof -
  have b: "2 ^ (floorlog 2 n - 1) \<le> n" "n < 2 ^ floorlog 2 n" "0 < floorlog 2 n"
    using floorlog_bounds [of n 2] assms by (simp_all add: floorlog_def)
  have e: "int (floorlog 2 n) - 1 = int (floorlog 2 n - 1)" using b(3) by simp
  have "(of_nat (2 ^ (floorlog 2 n - 1)) :: rat) \<le> of_nat n" "(of_nat n :: rat) < of_nat (2 ^ floorlog 2 n)"
    using b(1,2) by (simp_all only: of_nat_le_iff of_nat_less_iff)
  then show "2 powi (int (floorlog 2 n) - 1) \<le> (of_nat n :: rat)" "(of_nat n :: rat) < 2 powi int (floorlog 2 n)"
    unfolding e by (simp_all only: of_nat_power of_nat_numeral power_int_of_nat)
qed

lemma ilog2_bounds:
  assumes "0 < x"
  shows "2 powi (ilog2 x) \<le> x" "x < 2 powi (ilog2 x + 1)"
proof -
  obtain n d where q: "quotient_of x = (n, d)" by fastforce
  have x: "x = of_int n / of_int d" and d: "0 < d" using quotient_of_div [OF q] quotient_of_denom_pos [OF q] by auto
  with assms have n: "0 < n" by (simp add: zero_less_divide_iff)
  define a where "a = int (floorlog 2 (nat n))"
  define b where "b = int (floorlog 2 (nat d))"
  have nb: "2 powi (a - 1) \<le> (of_int n :: rat)" "(of_int n :: rat) < 2 powi a"
    using floorlog_powi [of "nat n"] n by (simp_all add: a_def)
  have db: "2 powi (b - 1) \<le> (of_int d :: rat)" "(of_int d :: rat) < 2 powi b"
    using floorlog_powi [of "nat d"] d by (simp_all add: b_def)
  have dp: "(0 :: rat) < of_int d" using d by simp
  have "2 powi (a - 1 - b) * of_int d \<le> 2 powi (a - 1 - b) * (2 powi b :: rat)" using db(2) by (intro mult_left_mono) auto
  also have "\<dots> = 2 powi (a - 1)" by (simp add: power_int_add [symmetric])
  finally have low: "2 powi (a - b - 1) \<le> x" using nb(1) dp by (simp add: x pos_le_divide_eq algebra_simps)
  have "2 powi a = 2 powi (a - b + 1) * (2 powi (b - 1) :: rat)" by (simp add: power_int_add [symmetric])
  also have "\<dots> \<le> 2 powi (a - b + 1) * of_int d" using db(1) by (intro mult_left_mono) auto
  finally have high: "x < 2 powi (a - b + 1)" using nb(2) dp by (simp add: x pos_divide_less_eq)
  have e: "ilog2 x = (if 2 powi (a - b) \<le> x then a - b else a - b - 1)" by (simp add: ilog2_def q a_def b_def)
  show "2 powi (ilog2 x) \<le> x" "x < 2 powi (ilog2 x + 1)" using low high by (auto simp: e)
qed

lemma ilog2_unique:
  assumes "2 powi k \<le> x" "x < 2 powi (k + 1)"
  shows "ilog2 x = k"
proof -
  have "(0 :: rat) < 2 powi k" by simp
  with assms(1) have "0 < x" by linarith
  note b = ilog2_bounds [OF this]
  have "(2 :: rat) powi k < 2 powi (ilog2 x + 1)" "(2 :: rat) powi ilog2 x < 2 powi (k + 1)" using assms b by linarith+
  then have "k < ilog2 x + 1" "ilog2 x < k + 1" by (simp_all only: powi2_less)
  then show ?thesis by simp
qed

lemma ilog2_less: "0 < x \<Longrightarrow> x < 2 powi k \<Longrightarrow> ilog2 x < k"
  using ilog2_bounds(1) [of x] powi2_less [of "ilog2 x" k] by linarith

lemma round_int_of_int [simp]: "round_int r (of_int i) = i"
  by (cases r) (simp_all add: round_int_def round_half_even_def)

lemma mag_value_exponent:
  assumes "0 < g" "g = (E - 1) * 2 ^ frac_bits F + n" "1 \<le> E" "n < 2 * 2 ^ frac_bits F" "E = 1 \<or> 2 ^ frac_bits F \<le> n"
  shows "max 1 (ilog2 (mag_value F g) + f_bias F) = int E"
proof -
  have v: "mag_value F g = of_nat n * f_ulp F (int E)" by (rule mag_value_at [OF assms(2-5)])
  have P: "of_nat (2 ^ frac_bits F) * f_ulp F (int E) = 2 powi (int E - f_bias F)"
  proof -
    have "(of_nat (2 ^ frac_bits F) :: rat) = 2 powi int (frac_bits F)" by simp
    then have "of_nat (2 ^ frac_bits F) * f_ulp F (int E) = 2 powi (int (frac_bits F) + (int E - f_bias F - int (frac_bits F)))"
      unfolding f_ulp_def by (subst power_int_add) simp_all
    then show ?thesis by simp
  qed
  have up: "mag_value F g < 2 powi (int E - f_bias F + 1)"
  proof -
    have "(of_nat n :: rat) < of_nat (2 * 2 ^ frac_bits F)" using assms(4) by (simp only: of_nat_less_iff)
    then have "mag_value F g < of_nat (2 * 2 ^ frac_bits F) * f_ulp F (int E)" unfolding v by (rule mult_strict_right_mono) simp
    also have "\<dots> = 2 powi (int E - f_bias F + 1)" using P power_int_add_1 [of "2 :: rat" "int E - f_bias F"] by simp
    finally show ?thesis .
  qed
  show ?thesis
  proof (cases "2 ^ frac_bits F \<le> n")
    case True
    then have "(of_nat (2 ^ frac_bits F) :: rat) \<le> of_nat n" by (simp only: of_nat_le_iff)
    then have "2 powi (int E - f_bias F) \<le> mag_value F g" unfolding v P [symmetric] by (rule mult_right_mono) (simp add: less_imp_le)
    from ilog2_unique [OF this up] assms(3) show ?thesis by simp
  next
    case False
    with assms(5) have E: "E = 1" by simp
    have "(of_nat n :: rat) < of_nat (2 ^ frac_bits F)" using False by (simp only: of_nat_less_iff)
    then have "mag_value F g < of_nat (2 ^ frac_bits F) * f_ulp F (int E)" unfolding v by (rule mult_strict_right_mono) simp
    then have "mag_value F g < 2 powi (1 - f_bias F)" using P by (simp add: E)
    from ilog2_less [OF _ this] assms(1) have "ilog2 (mag_value F g) < 1 - f_bias F" by simp
    then show ?thesis by (simp add: E)
  qed
qed

text \<open>A number that the format has is not changed by rounding, in any direction.\<close>

lemma round_mag_exact:
  assumes "g < inf_mag F" "0 < g"
  shows "round_mag F r (mag_value F g) = g"
proof -
  obtain E n where s: "g = (E - 1) * 2 ^ frac_bits F + n" "1 \<le> E" "n < 2 * 2 ^ frac_bits F" "E = 1 \<or> 2 ^ frac_bits F \<le> n"
    by (rule mag_split)
  have "mag_value F g / f_ulp F (int E) = of_int (int n)"
    using f_ulp_pos [of F "int E"] by (simp add: mag_value_at [OF s] less_imp_neq [symmetric])
  then have "round_int r (mag_value F g / f_ulp F (int E)) = int n" by (simp only: round_int_of_int)
  moreover have "nat ((int E - 1) * 2 ^ frac_bits F + int n) = g"
    using s(1,2) by (simp add: nat_eq_iff of_nat_diff)
  ultimately show ?thesis using assms(1) by (simp add: round_mag_def mag_value_exponent [OF assms(2) s] Let_def)
qed

lemma f_round_exact:
  assumes "f_finite F b" "f_mag F b \<noteq> 0" "b < 2 * f_sign_bit F"
  shows "f_round F r (f_value F b) = b"
proof -
  have "f_value F b < 0 \<longleftrightarrow> f_sign F b" "\<bar>f_value F b\<bar> = mag_value F (f_mag F b)"
    using assms(2) by (auto simp: f_value_def not_less)
  moreover have "with_sign F (f_sign F b) (f_mag F b) = b"
    using assms(3) by (auto simp: with_sign_def f_sign_def f_mag_def le_mod_geq)
  ultimately show ?thesis using assms(1,2) by (simp add: f_round_def f_finite_def round_mag_exact)
qed

section \<open>Integers that fit the significand\<close>

lemma int_representable:
  assumes "0 < n" "n < 2 * 2 ^ frac_bits F" "0 < f_bias F" "int (frac_bits F) + f_bias F + 1 < 2 ^ exp_bits F"
  obtains g where "mag_value F g = of_nat n" "0 < g" "g < inf_mag F"
proof -
  define k where "k = floorlog 2 n - 1"
  have b: "2 ^ k \<le> n" "n < 2 ^ Suc k"
    using floorlog_bounds [of n 2] assms(1) by (simp_all add: k_def floorlog_def)
  have "(2 :: nat) ^ k < 2 ^ Suc (frac_bits F)" using b(1) assms(2) by simp
  then have k: "k \<le> frac_bits F" by (metis less_Suc_eq_le nat_power_less_imp_less pos2)
  then obtain j where j: "frac_bits F = k + j" using le_Suc_ex by blast
  define E where "E = k + nat (f_bias F)"
  have E: "1 \<le> E" "int E = int k + f_bias F" using assms(3) by (simp_all add: E_def)
  have p: "(2 :: nat) ^ frac_bits F = 2 ^ k * 2 ^ j" by (simp add: j power_add)
  have m: "2 ^ frac_bits F \<le> n * 2 ^ j" "n * 2 ^ j < 2 * 2 ^ frac_bits F" using b unfolding p by simp_all
  define g where "g = (E - 1) * 2 ^ frac_bits F + n * 2 ^ j"
  have "mag_value F g = of_nat (n * 2 ^ j) * f_ulp F (int E)" using E(1) m by (intro mag_value_at) (simp_all add: g_def)
  also have "f_ulp F (int E) = 2 powi (- int j)" by (simp add: f_ulp_def E(2) j)
  finally have v: "mag_value F g = of_nat n" by (simp add: power_int_minus)
  have "g < (E - 1) * 2 ^ frac_bits F + 2 * 2 ^ frac_bits F" using m(2) by (simp add: g_def)
  also have "\<dots> = (E + 1) * 2 ^ frac_bits F" using E(1) by (cases E) simp_all
  also have "\<dots> \<le> (2 ^ exp_bits F - 1) * 2 ^ frac_bits F"
  proof (rule mult_le_mono1)
    have "int (E + 1) < 2 ^ exp_bits F" using assms(4) E(2) k by simp
    then have "int (E + 1) < int (2 ^ exp_bits F)" by simp
    then show "E + 1 \<le> 2 ^ exp_bits F - 1" by (simp only: of_nat_less_iff)
  qed
  finally have "g < inf_mag F" by (simp add: inf_mag_def)
  moreover have "0 < g" using assms(1) by (simp add: g_def)
  ultimately show thesis using v that by blast
qed

lemma with_sign_parts:
  assumes "g < f_sign_bit F"
  shows "f_sign F (with_sign F s g) = s" "f_mag F (with_sign F s g) = g"
  using assms by (auto simp: with_sign_def f_sign_def f_mag_def)

lemma inf_mag_less: "inf_mag F < f_sign_bit F"
  by (simp add: inf_mag_def f_sign_bit_def power_add mult.commute)

lemma round_mag_le: "round_mag F r x \<le> inf_mag F"
  by (simp add: round_mag_def overflow_mag_def Let_def)

lemma with_sign_bound: "g < f_sign_bit F \<Longrightarrow> with_sign F s g < 2 * f_sign_bit F"
  by (simp add: with_sign_def)

lemma f_round_bound: "f_round F r x < 2 * f_sign_bit F"
  unfolding f_round_def by (rule with_sign_bound) (rule le_less_trans [OF round_mag_le inf_mag_less])

lemma int_to_f_bound: "int_to_f F r i < 2 * f_sign_bit F"
  by (simp add: int_to_f_def f_round_bound) (simp add: f_sign_bit_def)

lemma int_to_f_value:
  assumes "\<bar>i\<bar> < 2 * 2 ^ frac_bits F" "0 < f_bias F" "int (frac_bits F) + f_bias F + 1 < 2 ^ exp_bits F"
  shows "f_finite F (int_to_f F r i)" "f_value F (int_to_f F r i) = of_int i"
proof -
  have "f_finite F (int_to_f F r i) \<and> f_value F (int_to_f F r i) = of_int i"
  proof (cases "i = 0")
    case True
    have "exp_bits F \<noteq> 0" using assms(2) by (cases "exp_bits F") (simp_all add: f_bias_def)
    then have "(1 :: nat) < 2 ^ exp_bits F" using one_less_power [of "2 :: nat" "exp_bits F"] by simp
    then have "0 < inf_mag F" by (simp add: inf_mag_def)
    with True show ?thesis by (simp add: int_to_f_def f_finite_def f_mag_def f_value_def f_sign_def f_sign_bit_def)
  next
    case False
    then have n: "0 < nat \<bar>i\<bar>" by simp
    have "nat \<bar>i\<bar> < 2 * 2 ^ frac_bits F" using assms(1) by (simp add: nat_less_iff)
    from int_representable [OF n this assms(2,3)] obtain g where
      g: "mag_value F g = of_nat (nat \<bar>i\<bar>)" "0 < g" "g < inf_mag F" by blast
    have "\<bar>of_int i\<bar> = mag_value F g" unfolding g(1) by simp
    then have r: "int_to_f F r i = with_sign F (i < 0) g"
      using False g(2,3) by (simp add: int_to_f_def f_round_def round_mag_exact)
    have "g < f_sign_bit F" using g(3) inf_mag_less [of F] by linarith
    note p = with_sign_parts [OF this]
    show ?thesis using g False unfolding r by (simp add: f_finite_def f_value_def p)
  qed
  then show "f_finite F (int_to_f F r i)" "f_value F (int_to_f F r i) = of_int i" by simp_all
qed

lemma f_to_int_of_int:
  assumes "f_finite F b" "f_value F b = of_int i" "- (2 ^ (w - 1)) \<le> i" "i < 2 ^ (w - 1)"
  shows "f_to_int F r w b = (i, False)"
  using assms by (simp add: f_to_int_def)

end
