(* ===== verification/Cpu_Fpu.thy ===== *)
theory Cpu_Fpu
  imports Cpu_Memory Ieee
begin

text \<open>
  The floating-point instructions of the pure interpreter (\<^verbatim>\<open>Core/r4300/pure_interp.cpp\<close>, the tables
  \<^verbatim>\<open>interp_cop1_s\<close>, \<^verbatim>\<open>interp_cop1_d\<close>, \<^verbatim>\<open>interp_cop1_w\<close> and \<^verbatim>\<open>interp_cop1_l\<close>) with the checks for exceptions of
  \<^verbatim>\<open>cop1_helpers.h\<close> and \<^verbatim>\<open>cop1_helpers.cpp\<close>, in the 64-bit build (\<^verbatim>\<open>_M_X64\<close>).  Each instruction that rounds sets the
  host's rounding mode first, so the mode is an argument of the operation and not part of the state.  The
  instructions of one shape are one definition with the operation as an argument.
\<close>

section \<open>Configuration and host\<close>

record 'w fpu_env =
  float_exception_emulation :: bool
  wii_vc_emulation :: bool
  host_nan :: "fformat \<Rightarrow> nat list \<Rightarrow> nat"
  ask_float_exception :: "'w machine \<Rightarrow> nat \<times> 'w machine"
  submit_close_rom :: "'w machine \<Rightarrow> 'w machine"

text \<open>The user is asked whether to close the ROM, which another thread then does, and the exception is raised in any case.\<close>

definition fail_float :: "'w fpu_env \<Rightarrow> 'w machine \<Rightarrow> 'w machine" where
  "fail_float fe m = (case ask_float_exception fe m of (choice, m1) \<Rightarrow>
     let m2 = exception_general (set_cause (15 * 4) m1)
     in if choice = 0 then submit_close_rom fe m2 else m2)"

section \<open>Operands\<close>

datatype fmt = Fmt_S | Fmt_D

fun fmt_of :: "fmt \<Rightarrow> fformat" where
  "fmt_of Fmt_S = binary32"
| "fmt_of Fmt_D = binary64"

definition f_ft :: "'w machine \<Rightarrow> regno" where "f_ft m = f_rt (vr_op (cpu m))"
definition f_fs :: "'w machine \<Rightarrow> regno" where "f_fs m = f_rd (vr_op (cpu m))"
definition f_fd :: "'w machine \<Rightarrow> regno" where "f_fd m = ucast (drop_bit 6 (vr_op (cpu m)) AND 0x1F)"

fun fp_get :: "fmt \<Rightarrow> regno \<Rightarrow> 'w machine \<Rightarrow> nat" where
  "fp_get Fmt_S i m = unat (cop1_simple i (cpu m))"
| "fp_get Fmt_D i m = unat (reg_cop1_fgr_64 (cpu m) (cop1_double i (cpu m)))"

definition set_cop1_double :: "regno \<Rightarrow> u64 \<Rightarrow> r4300 \<Rightarrow> r4300" where
  "set_cop1_double i v c = c\<lparr>reg_cop1_fgr_64 := (reg_cop1_fgr_64 c)(cop1_double i c := v)\<rparr>"

fun fp_put :: "fmt \<Rightarrow> regno \<Rightarrow> nat \<Rightarrow> 'w machine \<Rightarrow> 'w machine" where
  "fp_put Fmt_S i v m = m\<lparr>cpu := set_cop1_simple i (of_nat v) (cpu m)\<rparr>"
| "fp_put Fmt_D i v m = m\<lparr>cpu := set_cop1_double i (of_nat v) (cpu m)\<rparr>"

text \<open>
  A conversion writes an integer of 32 or 64 bits through a pointer of either table.  In the mode with 16 registers
  the pointer to an odd simple register is the upper half of an element, and 64 bits there reach into the next one.
\<close>

fun put_int :: "nat \<Rightarrow> fmt \<Rightarrow> regno \<Rightarrow> int \<Rightarrow> r4300 \<Rightarrow> r4300" where
  "put_int w Fmt_D i v c =
    (let old = reg_cop1_fgr_64 c (cop1_double i c)
     in set_cop1_double i (if w = 64 then word_of_int v else (old AND NOT (mask 32)) OR ucast (word_of_int v :: u32)) c)"
| "put_int w Fmt_S i v c =
    (if w = 32 then set_cop1_simple i (word_of_int v) c
     else let x = word_of_int v :: u64; g = reg_cop1_fgr_64 c; j = drop_bit 1 i
       in if fr_mode c then c\<lparr>reg_cop1_fgr_64 := g(i := x)\<rparr>
          else if \<not> bit i 0 then c\<lparr>reg_cop1_fgr_64 := g(j := x)\<rparr>
          else c\<lparr>reg_cop1_fgr_64 := g(j := push_bit 32 x OR (g j AND mask 32),
                 j + 1 := (g (j + 1) AND NOT (mask 32)) OR drop_bit 32 x)\<rparr>)"

section \<open>The checks\<close>

definition largest_denormal :: "fformat \<Rightarrow> nat" where
  "largest_denormal F = 2 ^ frac_bits F - 1"

definition bad_input :: "'w fpu_env \<Rightarrow> fformat \<Rightarrow> nat \<Rightarrow> bool" where
  "bad_input fe F x \<longleftrightarrow> float_exception_emulation fe \<and> \<not> f_lt F (largest_denormal F) (f_abs F x) \<and> \<not> f_eq F x 0"

definition check_output :: "'w fpu_env \<Rightarrow> fmt \<Rightarrow> 'w machine \<Rightarrow> 'w machine" where
  "check_output fe t m =
    (let F = fmt_of t; x = fp_get t (f_fd m) m
     in if float_exception_emulation fe \<and> \<not> f_lt F (largest_denormal F) (f_abs F x) then
          if f_isnan F x then fail_float fe m
          else m_pc4 (fp_put t (f_fd m) (with_sign F (f_sign F x) 0) m)
        else m_pc4 m)"

section \<open>Arithmetic\<close>

definition fp_binary :: "'w fpu_env \<Rightarrow> fmt \<Rightarrow> (fformat \<Rightarrow> (nat list \<Rightarrow> nat) \<Rightarrow> rounding \<Rightarrow> nat \<Rightarrow> nat \<Rightarrow> nat) \<Rightarrow> 'w machine \<Rightarrow> 'w machine" where
  "fp_binary fe t f m =
    (let F = fmt_of t; a = fp_get t (f_fs m) m; b = fp_get t (f_ft m) m
     in if bad_input fe F a then fail_float fe m
        else if bad_input fe F b then fail_float fe m
        else check_output fe t (fp_put t (f_fd m) (f F (host_nan fe F) (rounding_mode (cpu m)) a b) m))"

definition arith_S :: "'w fpu_env \<Rightarrow> (fformat \<Rightarrow> (nat list \<Rightarrow> nat) \<Rightarrow> rounding \<Rightarrow> nat \<Rightarrow> nat \<Rightarrow> nat) \<Rightarrow> 'w machine \<Rightarrow> 'w machine" where
  "arith_S fe f = fp_binary fe Fmt_S f"

definition arith_D :: "'w fpu_env \<Rightarrow> (fformat \<Rightarrow> (nat list \<Rightarrow> nat) \<Rightarrow> rounding \<Rightarrow> nat \<Rightarrow> nat \<Rightarrow> nat) \<Rightarrow> 'w machine \<Rightarrow> 'w machine" where
  "arith_D fe f = fp_binary fe Fmt_D f"

definition fp_sqrt :: "'w fpu_env \<Rightarrow> fmt \<Rightarrow> 'w machine \<Rightarrow> 'w machine" where
  "fp_sqrt fe t m =
    (let F = fmt_of t; a = fp_get t (f_fs m) m
     in if bad_input fe F a then fail_float fe m
        else check_output fe t (fp_put t (f_fd m) (f_sqrt F (host_nan fe F) (rounding_mode (cpu m)) a) m))"

definition SQRT_S :: "'w fpu_env \<Rightarrow> 'w machine \<Rightarrow> 'w machine" where "SQRT_S fe = fp_sqrt fe Fmt_S"
definition SQRT_D :: "'w fpu_env \<Rightarrow> 'w machine \<Rightarrow> 'w machine" where "SQRT_D fe = fp_sqrt fe Fmt_D"

text \<open>\<^verbatim>\<open>fabs\<close> and the negation only change the sign; \<^verbatim>\<open>MOV\<close> copies without a check.\<close>

definition fp_unary :: "'w fpu_env \<Rightarrow> fmt \<Rightarrow> (fformat \<Rightarrow> nat \<Rightarrow> nat) \<Rightarrow> 'w machine \<Rightarrow> 'w machine" where
  "fp_unary fe t f m =
    (let F = fmt_of t; a = fp_get t (f_fs m) m
     in if bad_input fe F a then fail_float fe m else m_pc4 (fp_put t (f_fd m) (f F a) m))"

definition ABS_S :: "'w fpu_env \<Rightarrow> 'w machine \<Rightarrow> 'w machine" where "ABS_S fe = fp_unary fe Fmt_S f_abs"
definition NEG_S :: "'w fpu_env \<Rightarrow> 'w machine \<Rightarrow> 'w machine" where "NEG_S fe = fp_unary fe Fmt_S f_neg"
definition MOV_S :: "'w machine \<Rightarrow> 'w machine" where "MOV_S m = m_pc4 (fp_put Fmt_S (f_fd m) (fp_get Fmt_S (f_fs m) m) m)"
definition ABS_D :: "'w fpu_env \<Rightarrow> 'w machine \<Rightarrow> 'w machine" where "ABS_D fe = fp_unary fe Fmt_D f_abs"
definition NEG_D :: "'w fpu_env \<Rightarrow> 'w machine \<Rightarrow> 'w machine" where "NEG_D fe = fp_unary fe Fmt_D f_neg"
definition MOV_D :: "'w machine \<Rightarrow> 'w machine" where "MOV_D m = m_pc4 (fp_put Fmt_D (f_fd m) (fp_get Fmt_D (f_fs m) m) m)"

section \<open>Conversions\<close>

definition fp_to_int :: "'w fpu_env \<Rightarrow> fmt \<Rightarrow> (r4300 \<Rightarrow> rounding) \<Rightarrow> nat \<Rightarrow> fmt \<Rightarrow> 'w machine \<Rightarrow> 'w machine" where
  "fp_to_int fe t r w dest m =
    (let F = fmt_of t; a = fp_get t (f_fs m) m
     in if bad_input fe F a then fail_float fe m
        else case f_to_int F (r (cpu m)) w a of (i, invalid) \<Rightarrow>
          let m1 = m\<lparr>cpu := put_int w dest (f_fd m) i (cpu m)\<rparr>
          in if float_exception_emulation fe \<and> invalid then fail_float fe m1 else m_pc4 m1)"

text \<open>\<^verbatim>\<open>ROUND\<close>, \<^verbatim>\<open>TRUNC\<close>, \<^verbatim>\<open>CEIL\<close> and \<^verbatim>\<open>FLOOR\<close> to \<^verbatim>\<open>L\<close> and \<^verbatim>\<open>W\<close>: the destination is always in the table of the double registers.\<close>

definition rounded_S :: "'w fpu_env \<Rightarrow> rounding \<Rightarrow> nat \<Rightarrow> 'w machine \<Rightarrow> 'w machine" where
  "rounded_S fe r w = fp_to_int fe Fmt_S (\<lambda>_. r) w Fmt_D"

definition rounded_D :: "'w fpu_env \<Rightarrow> rounding \<Rightarrow> nat \<Rightarrow> 'w machine \<Rightarrow> 'w machine" where
  "rounded_D fe r w = fp_to_int fe Fmt_D (\<lambda>_. r) w Fmt_D"

text \<open>\<^verbatim>\<open>CVT_W_S\<close> and \<^verbatim>\<open>CVT_L_S\<close> write through the table of the simple registers, \<^verbatim>\<open>CVT_W_D\<close> and \<^verbatim>\<open>CVT_L_D\<close> through the other.\<close>

definition CVT_WL_S :: "'w fpu_env \<Rightarrow> nat \<Rightarrow> 'w machine \<Rightarrow> 'w machine" where
  "CVT_WL_S fe w = fp_to_int fe Fmt_S rounding_mode w Fmt_S"

definition CVT_WL_D :: "'w fpu_env \<Rightarrow> nat \<Rightarrow> 'w machine \<Rightarrow> 'w machine" where
  "CVT_WL_D fe w = fp_to_int fe Fmt_D rounding_mode w Fmt_D"

definition CVT_D_S :: "'w fpu_env \<Rightarrow> 'w machine \<Rightarrow> 'w machine" where
  "CVT_D_S fe m =
    (let a = fp_get Fmt_S (f_fs m) m
     in if bad_input fe binary32 a then fail_float fe m
        else m_pc4 (fp_put Fmt_D (f_fd m) (f_convert binary32 binary64 (host_nan fe binary64) Round_nearest a) m))"

definition CVT_S_D :: "'w fpu_env \<Rightarrow> 'w machine \<Rightarrow> 'w machine" where
  "CVT_S_D fe m =
    (let a = fp_get Fmt_D (f_fs m) m; r = (if wii_vc_emulation fe then Round_trunc else rounding_mode (cpu m))
     in if bad_input fe binary64 a then fail_float fe m
        else check_output fe Fmt_S (fp_put Fmt_S (f_fd m) (f_convert binary64 binary32 (host_nan fe binary32) r a) m))"

definition CVT_S_W :: "'w machine \<Rightarrow> 'w machine" where
  "CVT_S_W m = m_pc4 (fp_put Fmt_S (f_fd m) (int_to_f binary32 (rounding_mode (cpu m)) (sint (cop1_simple (f_fs m) (cpu m)))) m)"

definition CVT_D_W :: "'w machine \<Rightarrow> 'w machine" where
  "CVT_D_W m = m_pc4 (fp_put Fmt_D (f_fd m) (int_to_f binary64 (rounding_mode (cpu m)) (sint (cop1_simple (f_fs m) (cpu m)))) m)"

definition CVT_S_L :: "'w machine \<Rightarrow> 'w machine" where
  "CVT_S_L m = m_pc4 (fp_put Fmt_S (f_fd m) (int_to_f binary32 (rounding_mode (cpu m))
     (sint (reg_cop1_fgr_64 (cpu m) (cop1_double (f_fs m) (cpu m))))) m)"

definition CVT_D_L :: "'w machine \<Rightarrow> 'w machine" where
  "CVT_D_L m = m_pc4 (fp_put Fmt_D (f_fd m) (int_to_f binary64 (rounding_mode (cpu m))
     (sint (reg_cop1_fgr_64 (cpu m) (cop1_double (f_fs m) (cpu m))))) m)"

section \<open>Comparisons\<close>

definition set_flag :: "bool \<Rightarrow> 'w machine \<Rightarrow> 'w machine" where
  "set_flag b m = m\<lparr>cpu := (cpu m)\<lparr>FCR31 := (if b then FCR31 (cpu m) OR 0x800000 else FCR31 (cpu m) AND NOT 0x800000)\<rparr>\<rparr>"

text \<open>The conditions \<^verbatim>\<open>F\<close>, \<^verbatim>\<open>UN\<close>, \<^verbatim>\<open>EQ\<close>, \<^verbatim>\<open>UEQ\<close>, \<^verbatim>\<open>OLT\<close>, \<^verbatim>\<open>ULT\<close>, \<^verbatim>\<open>OLE\<close>, \<^verbatim>\<open>ULE\<close>.\<close>

definition quiet_conditions :: "fformat \<Rightarrow> (nat \<Rightarrow> nat \<Rightarrow> bool) list" where
  "quiet_conditions F =
    [\<lambda>a b. False,
     \<lambda>a b. f_isnan F a \<or> f_isnan F b,
     \<lambda>a b. \<not> f_isnan F a \<and> \<not> f_isnan F b \<and> f_eq F a b,
     \<lambda>a b. f_isnan F a \<or> f_isnan F b \<or> f_eq F a b,
     \<lambda>a b. \<not> f_isnan F a \<and> \<not> f_isnan F b \<and> f_lt F a b,
     \<lambda>a b. f_isnan F a \<or> f_isnan F b \<or> f_lt F a b,
     \<lambda>a b. \<not> f_isnan F a \<and> \<not> f_isnan F b \<and> f_le F a b,
     \<lambda>a b. f_isnan F a \<or> f_isnan F b \<or> f_le F a b]"

text \<open>\<^verbatim>\<open>SF\<close>, \<^verbatim>\<open>NGLE\<close>, \<^verbatim>\<open>SEQ\<close>, \<^verbatim>\<open>NGL\<close>, \<^verbatim>\<open>LT\<close>, \<^verbatim>\<open>NGE\<close>, \<^verbatim>\<open>LE\<close>, \<^verbatim>\<open>NGT\<close>: with a NaN the emulation stops.\<close>

definition signalling_conditions :: "fformat \<Rightarrow> (nat \<Rightarrow> nat \<Rightarrow> bool) list" where
  "signalling_conditions F = [\<lambda>a b. False, \<lambda>a b. False, f_eq F, f_eq F, f_lt F, f_lt F, f_le F, f_le F]"

definition quiet_compare :: "fmt \<Rightarrow> nat \<Rightarrow> 'w machine \<Rightarrow> 'w machine" where
  "quiet_compare t k m = m_pc4 (set_flag ((quiet_conditions (fmt_of t) ! k) (fp_get t (f_fs m) m) (fp_get t (f_ft m) m)) m)"

definition signalling_compare :: "fmt \<Rightarrow> nat \<Rightarrow> 'w machine \<Rightarrow> 'w machine" where
  "signalling_compare t k m =
    (let F = fmt_of t; a = fp_get t (f_fs m) m; b = fp_get t (f_ft m) m;
         m1 = (if f_isnan F a \<or> f_isnan F b then set_stop m else m)
     in m_pc4 (set_flag ((signalling_conditions F ! k) a b) m1))"

definition C_quiet_S :: "nat \<Rightarrow> 'w machine \<Rightarrow> 'w machine" where "C_quiet_S = quiet_compare Fmt_S"
definition C_signalling_S :: "nat \<Rightarrow> 'w machine \<Rightarrow> 'w machine" where "C_signalling_S = signalling_compare Fmt_S"
definition C_quiet_D :: "nat \<Rightarrow> 'w machine \<Rightarrow> 'w machine" where "C_quiet_D = quiet_compare Fmt_D"
definition C_signalling_D :: "nat \<Rightarrow> 'w machine \<Rightarrow> 'w machine" where "C_signalling_D = signalling_compare Fmt_D"

section \<open>The tables\<close>

definition m_NI :: "'w machine \<Rightarrow> 'w machine" where "m_NI = set_stop"

definition interp_cop1_s :: "'w fpu_env \<Rightarrow> ('w machine \<Rightarrow> 'w machine) list" where
  "interp_cop1_s fe =
    [arith_S fe f_add, arith_S fe f_sub, arith_S fe f_mul, arith_S fe f_div, SQRT_S fe, ABS_S fe, MOV_S, NEG_S fe,
     rounded_S fe Round_nearest 64, rounded_S fe Round_trunc 64, rounded_S fe Round_ceil 64, rounded_S fe Round_floor 64,
     rounded_S fe Round_nearest 32, rounded_S fe Round_trunc 32, rounded_S fe Round_ceil 32, rounded_S fe Round_floor 32]
    @ replicate 17 m_NI
    @ [CVT_D_S fe, m_NI, m_NI, CVT_WL_S fe 32, CVT_WL_S fe 64] @ replicate 10 m_NI
    @ map C_quiet_S [0..<8] @ map C_signalling_S [0..<8]"

definition interp_cop1_d :: "'w fpu_env \<Rightarrow> ('w machine \<Rightarrow> 'w machine) list" where
  "interp_cop1_d fe =
    [arith_D fe f_add, arith_D fe f_sub, arith_D fe f_mul, arith_D fe f_div, SQRT_D fe, ABS_D fe, MOV_D, NEG_D fe,
     rounded_D fe Round_nearest 64, rounded_D fe Round_trunc 64, rounded_D fe Round_ceil 64, rounded_D fe Round_floor 64,
     rounded_D fe Round_nearest 32, rounded_D fe Round_trunc 32, rounded_D fe Round_ceil 32, rounded_D fe Round_floor 32]
    @ replicate 16 m_NI
    @ [CVT_S_D fe, m_NI, m_NI, m_NI, CVT_WL_D fe 32, CVT_WL_D fe 64] @ replicate 10 m_NI
    @ map C_quiet_D [0..<8] @ map C_signalling_D [0..<8]"

definition interp_cop1_w :: "('w machine \<Rightarrow> 'w machine) list" where
  "interp_cop1_w = replicate 32 m_NI @ [CVT_S_W, CVT_D_W] @ replicate 30 m_NI"

definition interp_cop1_l :: "('w machine \<Rightarrow> 'w machine) list" where
  "interp_cop1_l = replicate 32 m_NI @ [CVT_S_L, CVT_D_L] @ replicate 30 m_NI"

end
