(* ===== verification/Cpu_Interp.thy ===== *)
theory Cpu_Interp
  imports Cpu_Fpu Cpu_Alu
begin

text \<open>
  The rest of the pure interpreter, \<^verbatim>\<open>Core/r4300/pure_interp.cpp\<close>: the moves of the coprocessors, the branches with
  their delay slots, the dispatch tables, the fetch and the loop.
\<close>

section \<open>Coprocessor 0\<close>

definition f_nrd :: "'w machine \<Rightarrow> regno" where
  "f_nrd m = f_rd (vr_op (cpu m))"

definition put_cop0 :: "regno \<Rightarrow> u32 \<Rightarrow> 'w machine \<Rightarrow> 'w machine" where
  "put_cop0 i v m = m\<lparr>cpu := set_cop0 i v (cpu m)\<rparr>"

definition MFC0 :: "'w machine \<Rightarrow> 'w machine" where
  "MFC0 m =
    (let m1 = (if f_nrd m = 1 then set_stop m else m)
     in m_pc4 (set_irt (sext32 (reg_cop0 (cpu m1) (f_nrd m1))) m1))"

definition MTC0_Count :: "'w machine_env \<Rightarrow> 'w machine \<Rightarrow> 'w machine option" where
  "MTC0_Count env m = do {
     m1 \<leftarrow> gen_interrupt_if_due env (count_now m);
     let c = cpu m1;
     let m2 = m1\<lparr>cpu := c\<lparr>debug_count := debug_count c + ucast (core_Count c)\<rparr>\<rparr>;
     q \<leftarrow> translate_event_queue (core_Count c) (reg_cop0 c 11) (ucast (irt m2)) (queue m2);
     let m3 = put_cop0 9 (ucast (irt m2)) (m2\<lparr>queue := q\<rparr>);
     Some (m3\<lparr>cpu := (cpu m3)\<lparr>debug_count := debug_count (cpu m3) - ucast (core_Count (cpu m3))\<rparr>\<rparr>) }"

definition MTC0_Compare :: "'w machine \<Rightarrow> 'w machine option" where
  "MTC0_Compare m = do {
     let m1 = count_now m;
     q \<leftarrow> remove_event COMPARE_INT (queue m1);
     m2 \<leftarrow> m_add_event_count COMPARE_INT (ucast (irt m1)) (m1\<lparr>queue := q\<rparr>);
     let m3 = put_cop0 11 (ucast (irt m2)) m2;
     Some (put_cop0 13 (core_Cause (cpu m3) AND 0xFFFF7FFF) m3) }"

text \<open>The interrupts that a new status enables are taken at the next instruction.\<close>

definition MTC0_Status :: "'w machine_env \<Rightarrow> 'w machine \<Rightarrow> 'w machine option" where
  "MTC0_Status env m = do {
     let v = (ucast (irt m) :: u32);
     let m1 = m\<lparr>cpu := (set_cop0 12 v (cpu m))\<lparr>fr_mode := (if v AND 0x04000000 \<noteq> core_Status (cpu m) AND 0x04000000
                 then v AND 0x04000000 \<noteq> 0 else fr_mode (cpu m))\<rparr>\<rparr>;
     m2 \<leftarrow> check_interrupt (m_pc4 m1);
     m3 \<leftarrow> gen_interrupt_if_due env (count_now m2);
     Some (m3\<lparr>cpu := (cpu m3)\<lparr>interp_addr := interp_addr (cpu m3) - 4\<rparr>\<rparr>) }"

definition MTC0 :: "'w machine_env \<Rightarrow> 'w machine \<Rightarrow> 'w machine option" where
  "MTC0 env m =
    (let r = f_nrd m; v = ucast (irt m) :: u32; c = cpu m in map_option m_pc4
      (if r = 0 then let m1 = put_cop0 0 (v AND 0x8000003F) m in Some (stop_if (core_Index (cpu m1) AND 0x3F > 31) m1)
       else if r = 1 then Some m
       else if r = 2 then Some (put_cop0 2 (v AND 0x3FFFFFFF) m)
       else if r = 3 then Some (put_cop0 3 (v AND 0x3FFFFFFF) m)
       else if r = 4 then Some (put_cop0 4 ((v AND 0xFF800000) OR (core_Context c AND 0x007FFFF0)) m)
       else if r = 5 then Some (put_cop0 5 (v AND 0x01FFE000) m)
       else if r = 6 then Some (put_cop0 1 31 (put_cop0 6 v m))
       else if r = 8 then Some m
       else if r = 9 then MTC0_Count env m
       else if r = 10 then Some (put_cop0 10 (v AND 0xFFFFE0FF) m)
       else if r = 11 then MTC0_Compare m
       else if r = 12 then MTC0_Status env m
       else if r = 13 then Some (if irt m \<noteq> 0 then set_stop m else put_cop0 13 0 m)
       else if r = 14 then Some (put_cop0 14 v m)
       else if r = 15 then Some m
       else if r = 16 then Some (put_cop0 16 v m)
       else if r = 18 then Some (put_cop0 18 v m)
       else if r = 19 then Some (put_cop0 19 v m)
       else if r = 27 then Some m
       else if r = 28 then Some (put_cop0 28 (v AND 0x0FFFFFC0) m)
       else if r = 29 then Some (put_cop0 29 0 m)
       else Some (set_stop m)))"

section \<open>Coprocessor 1\<close>

definition MFC1 :: "r4300 \<Rightarrow> r4300" where
  "MFC1 c = pc4 (set_rt (sext32 (cop1_simple (f_rd (vr_op c)) c)) c)"

definition DMFC1 :: "r4300 \<Rightarrow> r4300" where
  "DMFC1 c = pc4 (set_rt (reg_cop1_fgr_64 c (cop1_double (f_rd (vr_op c)) c)) c)"

definition CFC1 :: "r4300 \<Rightarrow> r4300" where
  "CFC1 c = pc4 (if f_rd (vr_op c) = 31 then set_rt (sext32 (FCR31 c)) c
     else if f_rd (vr_op c) = 0 then set_rt (sext32 (FCR0 c)) c else c)"

definition MTC1 :: "r4300 \<Rightarrow> r4300" where
  "MTC1 c = pc4 (set_cop1_simple (f_rd (vr_op c)) (rrt32 c) c)"

definition DMTC1 :: "r4300 \<Rightarrow> r4300" where
  "DMTC1 c = pc4 (c\<lparr>reg_cop1_fgr_64 := (reg_cop1_fgr_64 c)(cop1_double (f_rd (vr_op c)) c := core_rrt c)\<rparr>)"

definition CTC1 :: "r4300 \<Rightarrow> r4300" where
  "CTC1 c =
    (let c1 = (if f_rd (vr_op c) = 31 then c\<lparr>FCR31 := rrt32 c\<rparr> else c); r = FCR31 c1 AND 3
     in pc4 (c1\<lparr>rounding_mode := (if r = 0 then Round_nearest else if r = 1 then Round_trunc
          else if r = 2 then Round_ceil else Round_floor)\<rparr>))"

section \<open>Branches\<close>

text \<open>
  What an instruction leaves: the machine after it, or for a taken delay slot the machine before
  the slot and what remains to be done after it.
\<close>

datatype 'w outcome = Completed "'w machine" | Delayed "'w machine" "'w machine \<Rightarrow> 'w machine option"

text \<open>\<^verbatim>\<open>interp_addr += 4; delay_slot = 1; ... update_count(); delay_slot = 0;\<close>\<close>

definition with_slot :: "'w machine \<Rightarrow> ('w machine \<Rightarrow> 'w machine option) \<Rightarrow> 'w outcome" where
  "with_slot m rest = Delayed (m\<lparr>cpu := (pc4 (cpu m))\<lparr>delay_slot := True\<rparr>\<rparr>)
     (\<lambda>m1. rest (m1\<lparr>cpu := (update_count (cpu m1))\<lparr>delay_slot := False\<rparr>\<rparr>))"

text \<open>\<^verbatim>\<open>last_addr = interp_addr; if (next_interrupt <= core_Count) gen_interrupt();\<close>\<close>

definition end_branch :: "'w machine_env \<Rightarrow> 'w machine \<Rightarrow> 'w machine option" where
  "end_branch env m = gen_interrupt_if_due env (m\<lparr>cpu := (cpu m)\<lparr>last_addr := interp_addr (cpu m)\<rparr>\<rparr>)"

definition jump_to :: "u32 \<Rightarrow> 'w machine \<Rightarrow> 'w machine" where
  "jump_to a m = m\<lparr>cpu := (cpu m)\<lparr>interp_addr := a\<rparr>\<rparr>"

text \<open>\<^verbatim>\<open>interp_addr += (local_immediate - 1) * 4\<close>, and the test for a branch to itself.\<close>

definition branch_by :: "u32 \<Rightarrow> 'w machine \<Rightarrow> 'w machine" where
  "branch_by i m = jump_to (interp_addr (cpu m) + (i - 1) * 4) m"

definition to_itself :: "u32 \<Rightarrow> 'w machine \<Rightarrow> bool" where
  "to_itself i m \<longleftrightarrow> interp_addr (cpu m) + (i + 1) * 4 = interp_addr (cpu m)"

text \<open>\<^verbatim>\<open>SKIP_IDLE\<close>: the flag says whether the instruction returns.\<close>

definition skip_idle :: "'w machine \<Rightarrow> bool \<times> 'w machine" where
  "skip_idle m =
    (if probe_nop (interp_addr (cpu m) + 4) m then
       let m1 = count_now m; skip = next_interrupt (queue m1) - core_Count (cpu m1)
       in if sint skip > 3 then (True, put_cop0 9 (core_Count (cpu m1) + (skip AND 0xFFFFFFFC)) m1) else (False, m1)
     else (False, m))"

definition idle_or :: "bool \<Rightarrow> 'w machine \<Rightarrow> ('w machine \<Rightarrow> 'w outcome option) \<Rightarrow> 'w outcome option" where
  "idle_or b m rest = (case (if b then skip_idle m else (False, m)) of (ret, m1) \<Rightarrow> if ret then Some (Completed m1) else rest m1)"

text \<open>
  A branch whose delay slot is always executed.  The first condition guards the idle loop, the second one
  is tested after the slot, on the global variables that the slot may have changed.
\<close>

definition branch :: "'w machine_env \<Rightarrow> bool \<Rightarrow> ('w machine \<Rightarrow> bool) \<Rightarrow> 'w machine \<Rightarrow> 'w outcome option" where
  "branch env idle taken m =
    (let i = imm32 (vr_op (cpu m)) in idle_or (to_itself i m \<and> idle) m
      (\<lambda>m1. Some (with_slot m1 (\<lambda>m2. end_branch env (if taken m2 then branch_by i m2 else m2)))))"

text \<open>A likely branch, which executes its slot only when it is taken; the flag says whether the time is counted otherwise.\<close>

definition branch_likely :: "'w machine_env \<Rightarrow> bool \<Rightarrow> bool \<Rightarrow> 'w machine \<Rightarrow> 'w outcome option" where
  "branch_likely env counts taken m =
    (let i = imm32 (vr_op (cpu m)) in idle_or (to_itself i m \<and> taken) m
      (\<lambda>m1. if taken then Some (with_slot m1 (\<lambda>m2. end_branch env (branch_by i m2)))
         else let m2 = jump_to (interp_addr (cpu m1) + 8) m1
              in map_option Completed (end_branch env (if counts then count_now m2 else m2))))"

definition set_locals :: "'w machine \<Rightarrow> 'w machine" where
  "set_locals m = m\<lparr>cpu := (cpu m)\<lparr>local_rs := core_rrs (cpu m), local_rt := core_rrt (cpu m)\<rparr>\<rparr>"

definition set_local_rs :: "'w machine \<Rightarrow> 'w machine" where
  "set_local_rs m = m\<lparr>cpu := (cpu m)\<lparr>local_rs := core_rrs (cpu m)\<rparr>\<rparr>"

definition branch_rs :: "'w machine_env \<Rightarrow> (u64 \<Rightarrow> bool) \<Rightarrow> 'w machine \<Rightarrow> 'w outcome option" where
  "branch_rs env P m0 = (let m = set_local_rs m0 in branch env (P (local_rs (cpu m))) (\<lambda>m2. P (local_rs (cpu m2))) m)"

definition likely_rs :: "'w machine_env \<Rightarrow> bool \<Rightarrow> (u64 \<Rightarrow> bool) \<Rightarrow> 'w machine \<Rightarrow> 'w outcome option" where
  "likely_rs env counts P m0 = (let m = set_local_rs m0 in branch_likely env counts (P (core_rrs (cpu m))) m)"

text \<open>The branches that link: the return address is written first, and nothing else happens when it replaces the operand.\<close>

definition link31 :: "'w machine \<Rightarrow> 'w machine" where
  "link31 m = m\<lparr>cpu := (cpu m)\<lparr>reg := (reg (cpu m))(31 := ucast (interp_addr (cpu m) + 8))\<rparr>\<rparr>"

definition branch_al :: "'w machine_env \<Rightarrow> (u64 \<Rightarrow> bool) \<Rightarrow> 'w machine \<Rightarrow> 'w outcome option" where
  "branch_al env P m0 =
    (let m = link31 (set_local_rs m0) in
     if f_rs (vr_op (cpu m)) \<noteq> 31 then branch env (P (local_rs (cpu m))) (\<lambda>m2. P (local_rs (cpu m2))) m
     else map_option Completed (end_branch env m))"

definition likely_al :: "'w machine_env \<Rightarrow> (u64 \<Rightarrow> bool) \<Rightarrow> 'w machine \<Rightarrow> 'w outcome option" where
  "likely_al env P m0 =
    (let m = link31 (set_local_rs m0) in
     if f_rs (vr_op (cpu m)) \<noteq> 31 then branch_likely env False (P (local_rs (cpu m))) m
     else map_option Completed (end_branch env m))"

definition BLTZ :: "'w machine_env \<Rightarrow> 'w machine \<Rightarrow> 'w outcome option" where "BLTZ env = branch_rs env (\<lambda>v. sint v < 0)"
definition BGEZ :: "'w machine_env \<Rightarrow> 'w machine \<Rightarrow> 'w outcome option" where "BGEZ env = branch_rs env (\<lambda>v. sint v \<ge> 0)"
definition BLTZL :: "'w machine_env \<Rightarrow> 'w machine \<Rightarrow> 'w outcome option" where "BLTZL env = likely_rs env False (\<lambda>v. sint v < 0)"
definition BGEZL :: "'w machine_env \<Rightarrow> 'w machine \<Rightarrow> 'w outcome option" where "BGEZL env = likely_rs env False (\<lambda>v. sint v \<ge> 0)"
definition BLTZAL :: "'w machine_env \<Rightarrow> 'w machine \<Rightarrow> 'w outcome option" where "BLTZAL env = branch_al env (\<lambda>v. sint v < 0)"
definition BGEZAL :: "'w machine_env \<Rightarrow> 'w machine \<Rightarrow> 'w outcome option" where "BGEZAL env = branch_al env (\<lambda>v. sint v \<ge> 0)"
definition BLTZALL :: "'w machine_env \<Rightarrow> 'w machine \<Rightarrow> 'w outcome option" where "BLTZALL env = likely_al env (\<lambda>v. sint v < 0)"
definition BGEZALL :: "'w machine_env \<Rightarrow> 'w machine \<Rightarrow> 'w outcome option" where "BGEZALL env = likely_al env (\<lambda>v. sint v \<ge> 0)"
definition BLEZ :: "'w machine_env \<Rightarrow> 'w machine \<Rightarrow> 'w outcome option" where "BLEZ env = branch_rs env (\<lambda>v. sint v \<le> 0)"

text \<open>\<^verbatim>\<open>BGTZ\<close> tests for the idle loop when it is not taken.\<close>

definition BGTZ :: "'w machine_env \<Rightarrow> 'w machine \<Rightarrow> 'w outcome option" where
  "BGTZ env m0 = (let m = set_local_rs m0 in
     branch env (sint (local_rs (cpu m)) \<le> 0) (\<lambda>m2. sint (local_rs (cpu m2)) > 0) m)"

definition BLEZL :: "'w machine_env \<Rightarrow> 'w machine \<Rightarrow> 'w outcome option" where "BLEZL env = likely_rs env True (\<lambda>v. sint v \<le> 0)"
definition BGTZL :: "'w machine_env \<Rightarrow> 'w machine \<Rightarrow> 'w outcome option" where "BGTZL env = likely_rs env True (\<lambda>v. sint v > 0)"

definition BEQ :: "'w machine_env \<Rightarrow> 'w machine \<Rightarrow> 'w outcome option" where
  "BEQ env m0 = (let m = set_locals m0; c = cpu m in
     branch env (local_rs c = local_rt c) (\<lambda>m2. local_rs (cpu m2) = local_rt (cpu m2) \<and> \<not> beq_ignore_jmp (cpu m2)) m)"

definition BNE :: "'w machine_env \<Rightarrow> 'w machine \<Rightarrow> 'w outcome option" where
  "BNE env m0 = (let m = set_locals m0; c = cpu m in
     branch env (local_rs c \<noteq> local_rt c) (\<lambda>m2. local_rs (cpu m2) \<noteq> local_rt (cpu m2)) m)"

definition BEQL :: "'w machine_env \<Rightarrow> 'w machine \<Rightarrow> 'w outcome option" where
  "BEQL env m0 = (let m = set_locals m0 in branch_likely env True (local_rs (cpu m) = local_rt (cpu m)) m)"

definition BNEL :: "'w machine_env \<Rightarrow> 'w machine \<Rightarrow> 'w outcome option" where
  "BNEL env m0 = (let m = set_locals m0 in branch_likely env True (local_rs (cpu m) \<noteq> local_rt (cpu m)) m)"

definition cop1_flag :: "'w machine \<Rightarrow> bool" where
  "cop1_flag m \<longleftrightarrow> FCR31 (cpu m) AND 0x800000 \<noteq> 0"

definition BC1F :: "'w machine_env \<Rightarrow> 'w machine \<Rightarrow> 'w outcome option" where
  "BC1F env m = branch env (\<not> cop1_flag m) (\<lambda>m2. \<not> cop1_flag m2) m"

definition BC1T :: "'w machine_env \<Rightarrow> 'w machine \<Rightarrow> 'w outcome option" where
  "BC1T env m = branch env (cop1_flag m) cop1_flag m"

definition BC1FL :: "'w machine_env \<Rightarrow> 'w machine \<Rightarrow> 'w outcome option" where
  "BC1FL env m = branch_likely env False (\<not> cop1_flag m) m"

definition BC1TL :: "'w machine_env \<Rightarrow> 'w machine \<Rightarrow> 'w outcome option" where
  "BC1TL env m = branch_likely env False (cop1_flag m) m"

definition jump_target :: "'w machine \<Rightarrow> u32" where
  "jump_target m = push_bit 2 (f_inst_index (vr_op (cpu m))) OR (interp_addr (cpu m) AND 0xF0000000)"

definition J :: "'w machine_env \<Rightarrow> 'w machine \<Rightarrow> 'w outcome option" where
  "J env m = (let a = jump_target m in idle_or (a = interp_addr (cpu m)) m
     (\<lambda>m1. Some (with_slot m1 (\<lambda>m2. end_branch env (jump_to a m2)))))"

text \<open>A jump that links does neither when an exception in the slot has claimed the jump.\<close>

definition link_and_jump :: "regno \<Rightarrow> u32 \<Rightarrow> 'w machine \<Rightarrow> 'w machine" where
  "link_and_jump r a m =
    (if skip_jump (cpu m) = 0
     then jump_to a (m\<lparr>cpu := (cpu m)\<lparr>reg := (reg (cpu m))(r := sext32 (interp_addr (cpu m)))\<rparr>\<rparr>) else m)"

definition JAL :: "'w machine_env \<Rightarrow> 'w machine \<Rightarrow> 'w outcome option" where
  "JAL env m = (let a = jump_target m in idle_or (a = interp_addr (cpu m)) m
     (\<lambda>m1. Some (with_slot m1 (\<lambda>m2. end_branch env (link_and_jump 31 a m2)))))"

definition set_local_rs32 :: "'w machine \<Rightarrow> 'w machine" where
  "set_local_rs32 m = m\<lparr>cpu := (cpu m)\<lparr>local_rs32 := rrs32 (cpu m)\<rparr>\<rparr>"

definition JR :: "'w machine_env \<Rightarrow> 'w machine \<Rightarrow> 'w outcome option" where
  "JR env m = Some (with_slot (set_local_rs32 m) (\<lambda>m2. end_branch env (jump_to (local_rs32 (cpu m2)) m2)))"

text \<open>The register to link to is fixed before the slot.\<close>

definition JALR :: "'w machine_env \<Rightarrow> 'w machine \<Rightarrow> 'w outcome option" where
  "JALR env m = (let dest = f_rd (vr_op (cpu m)) in
     Some (with_slot (set_local_rs32 m) (\<lambda>m2. end_branch env (link_and_jump dest (local_rs32 (cpu m2)) m2))))"

definition SYSCALL :: "'w machine \<Rightarrow> 'w machine" where
  "SYSCALL m = exception_general (set_cause (8 * 4) m)"

section \<open>Dispatch\<close>

type_synonym 'w instr = "'w machine \<Rightarrow> 'w outcome option"

text \<open>Instructions on the registers, on the machine, and those that may fail.\<close>

definition op_c :: "(r4300 \<Rightarrow> r4300) \<Rightarrow> 'w instr" where
  "op_c f m = Some (Completed (m\<lparr>cpu := f (cpu m)\<rparr>))"

definition op_o :: "(r4300 \<Rightarrow> r4300 option) \<Rightarrow> 'w instr" where
  "op_o f m = map_option (\<lambda>c. Completed (m\<lparr>cpu := c\<rparr>)) (f (cpu m))"

definition op_p :: "('w machine \<Rightarrow> 'w machine) \<Rightarrow> 'w instr" where
  "op_p f m = Some (Completed (f m))"

definition op_m :: "('w machine \<Rightarrow> 'w machine option) \<Rightarrow> 'w instr" where
  "op_m f m = map_option Completed (f m)"

text \<open>The bits of the instruction that index a table.\<close>

definition op_bits :: "nat \<Rightarrow> u32 \<Rightarrow> 'w machine \<Rightarrow> nat" where
  "op_bits k msk m = unat (drop_bit k (vr_op (cpu m)) AND msk)"

definition interp_special :: "'w machine_env \<Rightarrow> 'w instr list" where
  "interp_special env =
    [op_c SLL, op_c NI, op_c SRL, op_c SRA, op_c SLLV, op_c NI, op_c SRLV, op_c SRAV, JR env, JALR env, op_c NI, op_c NI,
     op_p SYSCALL, op_c NI, op_c NI, op_c SYNC, op_c MFHI, op_c MTHI, op_c MFLO, op_c MTLO, op_c DSLLV, op_c NI, op_c DSRLV,
     op_c DSRAV, op_c MULT, op_c MULTU, op_o DIV, op_c DIVU, op_c DMULT, op_c DMULTU, op_o DDIV, op_c DDIVU, op_c ADD,
     op_c ADDU, op_c SUB, op_c SUBU, op_c AND_op, op_c OR_op, op_c XOR_op, op_c NOR, op_c NI, op_c NI, op_c SLT, op_c SLTU,
     op_c DADD, op_c DADDU, op_c DSUB, op_c DSUBU, op_c NI, op_c NI, op_c NI, op_c NI, op_c TEQ, op_c NI, op_c NI, op_c NI,
     op_c DSLL, op_c NI, op_c DSRL, op_c DSRA, op_c DSLL32, op_c NI, op_c DSRL32, op_c DSRA32]"

definition SPECIAL :: "'w machine_env \<Rightarrow> 'w instr" where
  "SPECIAL env m = (interp_special env ! op_bits 0 0x3F m) m"

definition interp_regimm :: "'w machine_env \<Rightarrow> 'w instr list" where
  "interp_regimm env =
    [BLTZ env, BGEZ env, BLTZL env, BGEZL env, op_c NI, op_c NI, op_c NI, op_c NI, op_c NI, op_c NI, op_c NI, op_c NI,
     op_c NI, op_c NI, op_c NI, op_c NI, BLTZAL env, BGEZAL env, BLTZALL env, BGEZALL env, op_c NI, op_c NI, op_c NI,
     op_c NI, op_c NI, op_c NI, op_c NI, op_c NI, op_c NI, op_c NI, op_c NI, op_c NI]"

definition REGIMM :: "'w machine_env \<Rightarrow> 'w instr" where
  "REGIMM env m = (interp_regimm env ! op_bits 16 0x1F m) m"

definition interp_tlb :: "'w machine_env \<Rightarrow> 'w instr list" where
  "interp_tlb env =
    [op_c NI, op_p TLBR, op_m TLBWI, op_c NI, op_c NI, op_c NI, op_m TLBWR, op_c NI, op_p TLBP, op_c NI, op_c NI, op_c NI,
     op_c NI, op_c NI, op_c NI, op_c NI, op_c NI, op_c NI, op_c NI, op_c NI, op_c NI, op_c NI, op_c NI, op_c NI,
     op_m (ERET env), op_c NI, op_c NI, op_c NI, op_c NI, op_c NI, op_c NI, op_c NI, op_c NI, op_c NI, op_c NI, op_c NI,
     op_c NI, op_c NI, op_c NI, op_c NI, op_c NI, op_c NI, op_c NI, op_c NI, op_c NI, op_c NI, op_c NI, op_c NI, op_c NI,
     op_c NI, op_c NI, op_c NI, op_c NI, op_c NI, op_c NI, op_c NI, op_c NI, op_c NI, op_c NI, op_c NI, op_c NI, op_c NI,
     op_c NI, op_c NI]"

definition TLB_op :: "'w machine_env \<Rightarrow> 'w instr" where
  "TLB_op env m = (interp_tlb env ! op_bits 0 0x3F m) m"

definition interp_cop0 :: "'w machine_env \<Rightarrow> 'w instr list" where
  "interp_cop0 env =
    [op_p MFC0, op_c NI, op_c NI, op_c NI, op_m (MTC0 env), op_c NI, op_c NI, op_c NI, op_c NI, op_c NI, op_c NI, op_c NI,
     op_c NI, op_c NI, op_c NI, op_c NI, TLB_op env, op_c NI, op_c NI, op_c NI, op_c NI, op_c NI, op_c NI, op_c NI, op_c NI,
     op_c NI, op_c NI, op_c NI, op_c NI, op_c NI, op_c NI, op_c NI]"

definition COP0 :: "'w machine_env \<Rightarrow> 'w instr" where
  "COP0 env m = (interp_cop0 env ! op_bits 21 0x1F m) m"

definition interp_cop1_bc :: "'w machine_env \<Rightarrow> 'w instr list" where
  "interp_cop1_bc env =
    [BC1F env, BC1T env, BC1FL env, BC1TL env]"

definition BC_op :: "'w machine_env \<Rightarrow> 'w instr" where
  "BC_op env m = (interp_cop1_bc env ! op_bits 16 3 m) m"

definition S_op :: "'w fpu_env \<Rightarrow> 'w instr" where
  "S_op fpu m = op_p (interp_cop1_s fpu ! op_bits 0 0x3F m) m"

definition D_op :: "'w fpu_env \<Rightarrow> 'w instr" where
  "D_op fpu m = op_p (interp_cop1_d fpu ! op_bits 0 0x3F m) m"

definition W_op :: "'w instr" where
  "W_op m = op_p (interp_cop1_w ! op_bits 0 0x3F m) m"

definition L_op :: "'w instr" where
  "L_op m = op_p (interp_cop1_l ! op_bits 0 0x3F m) m"

definition interp_cop1 :: "'w machine_env \<Rightarrow> 'w fpu_env \<Rightarrow> 'w instr list" where
  "interp_cop1 env fpu =
    [op_c MFC1, op_c DMFC1, op_c CFC1, op_c NI, op_c MTC1, op_c DMTC1, op_c CTC1, op_c NI, BC_op env, op_c NI, op_c NI,
     op_c NI, op_c NI, op_c NI, op_c NI, op_c NI, S_op fpu, D_op fpu, op_c NI, op_c NI, W_op, L_op, op_c NI,
     op_c NI, op_c NI, op_c NI, op_c NI, op_c NI, op_c NI, op_c NI, op_c NI, op_c NI]"

definition COP1 :: "'w machine_env \<Rightarrow> 'w fpu_env \<Rightarrow> 'w instr" where
  "COP1 env fpu m =
    (if core_Status (cpu m) AND 0x20000000 = 0
     then Some (Completed (exception_general (set_cause (11 * 4 OR 0x10000000) m)))
     else (interp_cop1 env fpu ! op_bits 21 0x1F m) m)"

definition interp_ops :: "'w machine_env \<Rightarrow> 'w fpu_env \<Rightarrow> 'w instr list" where
  "interp_ops env fpu =
    [SPECIAL env, REGIMM env, J env, JAL env, BEQ env, BNE env, BLEZ env, BGTZ env, op_c ADDI, op_c ADDIU, op_c SLTI,
     op_c SLTIU, op_c ANDI, op_c ORI, op_c XORI, op_c LUI, COP0 env, COP1 env fpu, op_c NI, op_c NI, BEQL env, BNEL env,
     BLEZL env, BGTZL env, op_c DADDI, op_c DADDIU, op_m (LDL env), op_m (LDR env), op_c NI, op_c NI, op_c NI, op_c NI,
     op_m (LB env), op_m (LH env), op_m (LWL env), op_m (LW env), op_m (LBU env), op_m (LHU env), op_m (LWR env),
     op_m (LWU env), op_m (SB env), op_m (SH env), op_m (SWL env), op_m (SW env), op_m (SDL env), op_m (SDR env),
     op_m (SWR env), op_c pc4, op_m (LL env), op_m (LWC1 env), op_c NI, op_c NI, op_c NI, op_m (LDC1 env), op_c NI,
     op_m (LD env), op_m (SC env), op_m (SWC1 env), op_c NI, op_c NI, op_c NI, op_m (SDC1 env), op_c NI, op_m (SD env)]"

section \<open>The loop\<close>

definition set_op :: "u32 \<Rightarrow> 'w machine \<Rightarrow> 'w machine" where
  "set_op v m = m\<lparr>cpu := (cpu m)\<lparr>vr_op := v\<rparr>\<rparr>"

text \<open>The fetch from the direct-mapped segments; elsewhere there the emulation stops.\<close>

definition fetch_direct :: "'w machine \<Rightarrow> 'w machine option" where
  "fetch_direct m =
    (let a = interp_addr (cpu m) in
     if a < 0x80800000 then
       if unat (a AND 0xFFFFFF) + 4 \<le> rdram_size then Some (set_op (ld32 (rdram m) (unat (a AND 0xFFFFFF))) m) else None
     else if a \<ge> 0xa4000000 \<and> a < 0xa4001000 then Some (set_op (ld32 (SP_DMEM m) (4 * (unat (a AND 0xFFF) div 4))) m)
     else if a > 0xb0000000 then
       map_option (\<lambda>b. set_op (u32_at b 0) m) (bblock (rom_bytes m) (4 * (unat (a AND 0xFFFFFFF) div 4)) 4)
     else Some (set_stop m))"

partial_function (option) prefetch :: "'w machine \<Rightarrow> 'w machine option" where
  "prefetch m =
    (let a = interp_addr (cpu m) in
     if a \<ge> 0x80000000 \<and> a < 0xc0000000 then fetch_direct m
     else case virtual_to_physical_address a 2 m of (phys, m1) \<Rightarrow>
       if phys \<noteq> 0 then do {
         m2 \<leftarrow> prefetch (jump_to phys m1);
         Some (jump_to a m2) }
       else prefetch m1)"

text \<open>\<^verbatim>\<open>prefetch(); interp_ops[(vr_op >> 26) & 0x3F]();\<close>, with the instructions in delay slots nested.\<close>

partial_function (option) execute :: "'w machine_env \<Rightarrow> 'w fpu_env \<Rightarrow> 'w machine \<Rightarrow> 'w machine option" where
  "execute env fpu m = do {
     m1 \<leftarrow> prefetch m;
     r \<leftarrow> (interp_ops env fpu ! op_bits 26 0x3F m1) m1;
     case r of
       Completed m2 \<Rightarrow> Some m2
     | Delayed m2 rest \<Rightarrow> do { m3 \<leftarrow> execute env fpu m2; rest m3 } }"

partial_function (option) interp_loop :: "'w machine_env \<Rightarrow> 'w fpu_env \<Rightarrow> 'w machine \<Rightarrow> 'w machine option" where
  "interp_loop env fpu m =
    (if stop (cpu m) then Some m
     else do {
       m1 \<leftarrow> execute env fpu m;
       interp_loop env fpu (m1\<lparr>cpu := (cpu m1)\<lparr>beq_ignore_jmp := False\<rparr>\<rparr>) })"

text \<open>The debugger is not active: it would only wait between two instructions.\<close>

definition pure_interpreter :: "'w machine_env \<Rightarrow> 'w fpu_env \<Rightarrow> 'w machine \<Rightarrow> 'w machine option" where
  "pure_interpreter env fpu m =
     interp_loop env fpu (m\<lparr>cpu := (cpu m)\<lparr>interp_addr := 0xa4000040, stop := False, last_addr := 0xa4000040\<rparr>\<rparr>)"

end
