(* ===== verification/Fpu_Correct.thy ===== *)
theory Fpu_Correct
  imports Cpu_Fpu
begin

text \<open>
  Properties of the floating-point instructions: the comparisons are those of the numbers, integers survive
  the conversion to a double and back, the emulation of floating-point exceptions keeps denormal
  numbers and NaNs out of the registers, and the destination of the rounding instructions is wrong
  for the odd registers of the 16-register mode.
\<close>

section \<open>Registers\<close>

definition example_fpu :: "nat fpu_env" where
  "example_fpu = \<lparr>float_exception_emulation = True, wii_vc_emulation = False, host_nan = (\<lambda>F _. inf_mag F + 1),
     ask_float_exception = (\<lambda>m. (1, m)), submit_close_rom = (\<lambda>m. m)\<rparr>"

lemma cpu_m_pc4 [simp]:
  "reg_cop1_fgr_64 (cpu (m_pc4 m)) = reg_cop1_fgr_64 (cpu m)" "fr_mode (cpu (m_pc4 m)) = fr_mode (cpu m)"
  "vr_op (cpu (m_pc4 m)) = vr_op (cpu m)" "rounding_mode (cpu (m_pc4 m)) = rounding_mode (cpu m)"
  "FCR31 (cpu (m_pc4 m)) = FCR31 (cpu m)" "stop (cpu (m_pc4 m)) = stop (cpu m)"
  by (simp_all add: m_pc4_def pc4_def)

lemma set_simple_other [simp]:
  "fr_mode (set_cop1_simple i v c) = fr_mode c" "vr_op (set_cop1_simple i v c) = vr_op c"
  "fr_mode (set_cop1_double i w c) = fr_mode c" "vr_op (set_cop1_double i w c) = vr_op c"
  "rounding_mode (set_cop1_simple i v c) = rounding_mode c" "rounding_mode (set_cop1_double i w c) = rounding_mode c"
  by (simp_all add: set_cop1_simple_def set_cop1_double_def Let_def)

lemma fields_pc4 [simp]: "f_fd (m_pc4 m) = f_fd m" "f_fs (m_pc4 m) = f_fs m" "f_ft (m_pc4 m) = f_ft m"
  by (simp_all add: f_fd_def f_fs_def f_ft_def)

lemma fields_put [simp]: "f_fd (fp_put t i v m) = f_fd m" "f_fs (fp_put t i v m) = f_fs m" "f_ft (fp_put t i v m) = f_ft m"
  by (cases t; simp add: f_fd_def f_fs_def f_ft_def)+

lemma cop1_double_set [simp]: "cop1_double j (set_cop1_double i w c) = cop1_double j c"
  by (simp add: cop1_double_def)

lemma low_half: "ucast ((x AND NOT (mask 32)) OR ucast (v :: u32) :: u64) = v"
  by (rule bit_word_eqI) (auto simp: bit_simps)

lemma high_half: "ucast (drop_bit 32 (push_bit 32 (ucast (v :: u32)) OR (x AND mask 32) :: u64)) = v"
  by (rule bit_word_eqI) (auto simp: bit_simps)

lemma cop1_simple_set [simp]: "cop1_simple i (set_cop1_simple i v c) = v"
  by (auto simp: cop1_simple_def set_cop1_simple_def Let_def low_half high_half simp del: drop_bit_or drop_bit_and)

lemma fp_get_pc4 [simp]: "fp_get t i (m_pc4 m) = fp_get t i m"
  by (cases t) (simp_all add: cop1_simple_def cop1_double_def)

fun fmt_width :: "fmt \<Rightarrow> nat" where
  "fmt_width Fmt_S = 32"
| "fmt_width Fmt_D = 64"

lemma fp_get_put [simp]: "v < 2 ^ fmt_width t \<Longrightarrow> fp_get t i (fp_put t i v m) = v"
  by (cases t) (simp_all add: set_cop1_double_def unsigned_of_nat take_bit_nat_eq_self cop1_double_def)

lemma fmt_bounds:
  "f_sign_bit (fmt_of Fmt_S) = 2 ^ 31" "f_sign_bit (fmt_of Fmt_D) = 2 ^ 63"
  "f_sign_bit (fmt_of t) * 2 = 2 ^ fmt_width t"
  by (cases t; simp add: f_sign_bit_def binary32_def binary64_def)+

section \<open>Comparisons\<close>

definition fp_unordered :: "fmt \<Rightarrow> nat \<Rightarrow> nat \<Rightarrow> bool" where
  "fp_unordered t a b \<longleftrightarrow> f_isnan (fmt_of t) a \<or> f_isnan (fmt_of t) b"

text \<open>The number of a condition: bit 0 stands for unordered, bit 1 for equal and bit 2 for less.\<close>

definition condition_holds :: "fmt \<Rightarrow> nat \<Rightarrow> nat \<Rightarrow> nat \<Rightarrow> bool" where
  "condition_holds t k a b \<longleftrightarrow> (if fp_unordered t a b then odd k
     else odd (k div 2) \<and> f_value (fmt_of t) a = f_value (fmt_of t) b \<or> odd (k div 4) \<and> f_value (fmt_of t) a < f_value (fmt_of t) b)"

lemma f_le_iff: "f_le F a b \<longleftrightarrow> f_lt F a b \<or> f_eq F a b"
  by (auto simp: f_le_def f_lt_def f_eq_def)

lemma flag_set [simp]: "bit (FCR31 (cpu (set_flag b m))) 23 = b"
  by (simp add: set_flag_def bit_or_iff bit_and_iff bit_not_iff)

lemma less8: "k < 8 \<Longrightarrow> k = 0 \<or> k = 1 \<or> k = 2 \<or> k = 3 \<or> k = 4 \<or> k = 5 \<or> k = 6 \<or> k = (7 :: nat)"
  by auto

lemma quiet_condition: "k < 8 \<Longrightarrow> (quiet_conditions (fmt_of t) ! k) a b = condition_holds t k a b"
  by (drule less8, elim disjE)
    (auto simp: quiet_conditions_def condition_holds_def fp_unordered_def f_value_eq f_value_less f_le_iff
      f_lt_def f_eq_def)

lemma signalling_condition:
  "k < 8 \<Longrightarrow> (signalling_conditions (fmt_of t) ! k) a b = (\<not> fp_unordered t a b \<and> condition_holds t k a b)"
  by (drule less8, elim disjE)
    (auto simp: signalling_conditions_def condition_holds_def fp_unordered_def f_value_eq f_value_less f_le_iff
      f_lt_def f_eq_def)

text \<open>What a quiet and a signalling comparison with condition \<^verbatim>\<open>k\<close> have to do to a machine.\<close>

definition compares_as_defined :: "fmt \<Rightarrow> nat \<Rightarrow> ('w machine \<Rightarrow> 'w machine) \<Rightarrow> ('w machine \<Rightarrow> 'w machine) \<Rightarrow> 'w machine \<Rightarrow> bool" where
  "compares_as_defined t k quiet signalling m \<longleftrightarrow>
    (let a = fp_get t (f_fs m) m; b = fp_get t (f_ft m) m
     in (bit (FCR31 (cpu (quiet m))) 23 \<longleftrightarrow> condition_holds t k a b) \<and>
        (bit (FCR31 (cpu (signalling m))) 23 \<longleftrightarrow> \<not> fp_unordered t a b \<and> condition_holds t k a b) \<and>
        stop (cpu (quiet m)) = stop (cpu m) \<and>
        stop (cpu (signalling m)) = (stop (cpu m) \<or> fp_unordered t a b))"

lemma compare_generic:
  assumes "k < 8"
  shows "compares_as_defined t k (quiet_compare t k) (signalling_compare t k) m"
  using assms
  by (simp add: compares_as_defined_def quiet_compare_def signalling_compare_def quiet_condition signalling_condition Let_def)
    (simp add: set_flag_def set_stop_def fp_unordered_def)

text \<open>C12. The sixteen comparisons of each format set the condition flag exactly as the architecture defines them.
  The number of the condition says in its three low bits whether the flag is set for unordered, for equal and for
  smaller operands; unordered means that one of them is a NaN, and otherwise the rational numbers that the
  bit patterns stand for are compared, so that the two zeros are equal.  The signalling half does the same
  without NaNs and with a NaN clears the flag and stops the emulation, which the quiet half never does.\<close>

theorem fp_compare_values:
  assumes "k < 8"
  shows "compares_as_defined Fmt_S k (C_quiet_S k) (C_signalling_S k) m \<and>
    compares_as_defined Fmt_D k (C_quiet_D k) (C_signalling_D k) m"
  using compare_generic [OF assms, of Fmt_S m] compare_generic [OF assms, of Fmt_D m]
  by (simp add: C_quiet_S_def C_signalling_S_def C_quiet_D_def C_signalling_D_def)

text \<open>An instruction with the operands \<^verbatim>\<open>f2\<close> and \<^verbatim>\<open>f4\<close> and the destination \<^verbatim>\<open>f6\<close>, with 32 registers.\<close>

definition fp_example :: "u64 \<Rightarrow> u64 \<Rightarrow> nat machine" where
  "fp_example x y = example_machine\<lparr>cpu := (cpu example_machine)\<lparr>fr_mode := True, rounding_mode := Round_nearest,
     reg_cop1_fgr_64 := (\<lambda>i. if i = 2 then x else if i = 4 then y else 0), vr_op := 0x00041180, stop := False\<rparr>\<rparr>"

lemma fp_example_simps [simp]:
  "f_fs (fp_example x y) = 2" "f_ft (fp_example x y) = 4" "f_fd (fp_example x y) = 6"
  "fr_mode (cpu (fp_example x y))" "rounding_mode (cpu (fp_example x y)) = Round_nearest" "\<not> stop (cpu (fp_example x y))"
  "reg_cop1_fgr_64 (cpu (fp_example x y)) = (\<lambda>i. if i = 2 then x else if i = 4 then y else 0)"
  "vr_op (cpu (fp_example x y)) = 0x00041180"
  by (simp_all add: fp_example_def f_fs_def f_ft_def f_fd_def f_rd_def f_rt_def)

text \<open>The witness compares minus zero with zero, and a NaN with zero.\<close>

theorem fp_compare_values_witness:
  "bit (FCR31 (cpu (C_quiet_S 2 (fp_example 0x80000000 0)))) 23 \<and>
   \<not> bit (FCR31 (cpu (C_quiet_S 6 (fp_example 0x7FC00000 0)))) 23 \<and>
   stop (cpu (C_signalling_S 6 (fp_example 0x7FC00000 0)))"
proof -
  have g: "fp_get Fmt_S 2 (fp_example x y) = unat (ucast x :: u32)" "fp_get Fmt_S 4 (fp_example x y) = unat (ucast y :: u32)" for x y
    by (simp_all add: cop1_simple_def)
  have "condition_holds Fmt_S 2 0x80000000 0" "\<not> condition_holds Fmt_S 6 0x7FC00000 0" "fp_unordered Fmt_S 0x7FC00000 0"
    by (simp_all add: condition_holds_def fp_unordered_def f_isnan_def f_value_def f_mag_def f_sign_def f_sign_bit_def inf_mag_def binary32_def)
  with fp_compare_values [of 2 "fp_example 0x80000000 0"] fp_compare_values [of 6 "fp_example 0x7FC00000 0"]
  show ?thesis by (simp add: compares_as_defined_def Let_def g del: fp_get.simps)
qed

section \<open>Integers\<close>

lemma binary64_int:
  "\<bar>i\<bar> < 2 ^ 53 \<Longrightarrow> f_finite binary64 (int_to_f binary64 r i)"
  "\<bar>i\<bar> < 2 ^ 53 \<Longrightarrow> f_value binary64 (int_to_f binary64 r i) = of_int i"
  using int_to_f_value [of i binary64 r] by (simp_all add: binary64_def f_bias_def)

lemma sint32_bounds: "- (2 ^ 31) \<le> sint (v :: u32)" "sint (v :: u32) < 2 ^ 31"
  using sint_greater_eq [of v] sint_less [of v] by simp_all

lemma denormal_below_one: "mag_value binary64 (largest_denormal binary64) < 1"
  by (simp add: mag_value_def largest_denormal_def binary64_def f_ulp_def f_bias_def Let_def power_int_minus)

lemma int_is_good_input:
  assumes "\<bar>i\<bar> < 2 ^ 53"
  shows "\<not> bad_input fe binary64 (int_to_f binary64 r i)"
proof -
  let ?x = "int_to_f binary64 r i"
  note x = binary64_int [OF assms, of r]
  have nn: "\<not> f_isnan binary64 ?x" using x(1) by (simp add: f_isnan_def f_finite_def)
  have mv: "mag_value binary64 (f_mag binary64 ?x) = \<bar>of_int i\<bar>"
    unfolding x(2) [symmetric] by (simp add: f_value_def abs_of_nonneg)
  show ?thesis
  proof (cases "i = 0")
    case True
    have "f_eq binary64 0 0" by (simp add: f_eq_def f_isnan_def f_mag_def)
    then show ?thesis using True by (simp add: bad_input_def int_to_f_def)
  next
    case False
    then have "(1 :: rat) \<le> \<bar>of_int i\<bar>" by (simp add: of_int_abs [symmetric] del: of_int_abs)
    with denormal_below_one have "mag_value binary64 (largest_denormal binary64) < mag_value binary64 (f_mag binary64 ?x)"
      unfolding mv by linarith
    then have l: "largest_denormal binary64 < f_mag binary64 ?x" by simp
    have b: "f_mag binary64 ?x < f_sign_bit binary64" by (simp add: f_mag_def f_sign_bit_def)
    with l have s: "f_mag binary64 (largest_denormal binary64) = largest_denormal binary64" "\<not> f_sign binary64 (largest_denormal binary64)"
        "f_mag binary64 (f_mag binary64 ?x) = f_mag binary64 ?x" "\<not> f_sign binary64 (f_mag binary64 ?x)"
      by (simp_all add: f_mag_def f_sign_def)
    have "f_lt binary64 (largest_denormal binary64) (f_abs binary64 ?x)"
      using nn l s(4) unfolding f_lt_def f_key_def f_isnan_def f_abs_def s(1-3) by simp
    then show ?thesis by (simp add: bad_input_def)
  qed
qed

text \<open>C18. A 32-bit integer survives the conversion to a double and back: \<^verbatim>\<open>CVT.D.W\<close> followed by \<^verbatim>\<open>CVT.W.D\<close> of its result gives
  the integer again, for every integer, in every rounding mode, with and without the emulation of
  floating-point exceptions (none is raised), when the last destination is an even register or all 32
  registers are in use.\<close>

theorem int_double_roundtrip:
  fixes m :: "'w machine" and fe :: "'w fpu_env" and op2 :: u32
  defines "m1 \<equiv> CVT_D_W m"
  defines "m2 \<equiv> m1\<lparr>cpu := (cpu m1)\<lparr>vr_op := op2\<rparr>\<rparr>"
  assumes "f_fs m2 = f_fd m" "fr_mode (cpu m) \<or> \<not> bit (f_fd m2) 0"
  shows "cop1_simple (f_fd m2) (cpu (CVT_WL_D fe 32 m2)) = cop1_simple (f_fs m) (cpu m) \<and>
    interp_addr (cpu (CVT_WL_D fe 32 m2)) = interp_addr (cpu m) + 8"
proof -
  let ?v = "cop1_simple (f_fs m) (cpu m)" and ?r = "rounding_mode (cpu m)"
  let ?x = "int_to_f binary64 ?r (sint ?v)"
  have i: "\<bar>sint ?v\<bar> < 2 ^ 53" using sint32_bounds [of ?v] by simp
  have cpu2: "cpu m2 = (set_cop1_double (f_fd m) (of_nat ?x) (cpu m))\<lparr>interp_addr := interp_addr (cpu m) + 4, vr_op := op2\<rparr>"
    by (simp add: m2_def m1_def CVT_D_W_def m_pc4_def pc4_def set_cop1_double_def)
  have "?x < 2 ^ 64" using int_to_f_bound [of binary64 ?r "sint ?v"] by (simp add: f_sign_bit_def binary64_def)
  then have x: "fp_get Fmt_D (f_fs m2) m2 = ?x"
    by (simp add: assms(3) cpu2 cop1_double_def set_cop1_double_def unsigned_of_nat take_bit_nat_eq_self)
  have "f_to_int binary64 (rounding_mode (cpu m2)) 32 ?x = (sint ?v, False)"
    using f_to_int_of_int [OF binary64_int [OF i]] sint32_bounds [of ?v] by simp
  then have c: "CVT_WL_D fe 32 m2 = m_pc4 (m2\<lparr>cpu := put_int 32 Fmt_D (f_fd m2) (sint ?v) (cpu m2)\<rparr>)"
    by (simp add: CVT_WL_D_def fp_to_int_def x int_is_good_input [OF i] Let_def del: fp_get.simps put_int.simps)
  have fr: "fr_mode (cpu m2) = fr_mode (cpu m)" "interp_addr (cpu m2) = interp_addr (cpu m) + 4"
    by (simp_all add: cpu2)
  show ?thesis using assms(4)
    by (auto simp: c fr m_pc4_def pc4_def set_cop1_double_def cop1_double_def cop1_simple_def low_half Let_def)
qed

definition int_example :: "nat machine" where
  "int_example = fp_example 0x80000001 0"

text \<open>\<^verbatim>\<open>CVT.D.W f6, f2\<close> and \<^verbatim>\<open>CVT.W.D f8, f6\<close>.\<close>

theorem int_double_roundtrip_witness:
  "cop1_simple 8 (cpu (CVT_WL_D example_fpu 32 ((CVT_D_W int_example)\<lparr>cpu := (cpu (CVT_D_W int_example))\<lparr>vr_op := 0x00003200\<rparr>\<rparr>))) = 0x80000001"
proof -
  let ?m2 = "(CVT_D_W int_example)\<lparr>cpu := (cpu (CVT_D_W int_example))\<lparr>vr_op := 0x00003200\<rparr>\<rparr>"
  have f: "f_fs ?m2 = 6" "f_fd ?m2 = 8" "f_fd int_example = 6" "fr_mode (cpu int_example)"
    "cop1_simple (f_fs int_example) (cpu int_example) = 0x80000001"
    by (simp_all add: f_fs_def f_fd_def f_rd_def int_example_def cop1_simple_def fp_example_def)
  then show ?thesis using int_double_roundtrip [where m = int_example and ?op2.0 = "0x00003200" and fe = example_fpu] by simp
qed

section \<open>The emulation of floating-point exceptions\<close>

lemma check_output_normal:
  assumes "float_exception_emulation fe"
  shows "(\<exists>m1. check_output fe t m = fail_float fe m1) \<or>
    (let x = fp_get t (f_fd (check_output fe t m)) (check_output fe t m) in \<not> f_isnan (fmt_of t) x \<and> \<not> f_denormal (fmt_of t) x)"
proof -
  let ?F = "fmt_of t" and ?x = "fp_get t (f_fd m) m"
  have z: "with_sign ?F s 0 < 2 ^ fmt_width t" "f_mag ?F (with_sign ?F s 0) = 0" for s
    using fmt_bounds(3) [of t] with_sign_parts(2) [of 0 ?F s] with_sign_bound [of 0 ?F s] by (simp_all add: f_sign_bit_def mult.commute)
  consider (big) "f_lt ?F (largest_denormal ?F) (f_abs ?F ?x)"
    | (nan) "\<not> f_lt ?F (largest_denormal ?F) (f_abs ?F ?x)" "f_isnan ?F ?x"
    | (small) "\<not> f_lt ?F (largest_denormal ?F) (f_abs ?F ?x)" "\<not> f_isnan ?F ?x" by blast
  then show ?thesis
  proof cases
    case big
    have d: "f_mag ?F (f_mag ?F ?x) = f_mag ?F ?x" "\<not> f_sign ?F (f_mag ?F ?x)"
      by (simp_all add: f_mag_def f_sign_def not_le f_sign_bit_def)
    have l: "f_mag ?F (largest_denormal ?F) = largest_denormal ?F" "\<not> f_sign ?F (largest_denormal ?F)"
      by (cases t; simp add: f_mag_def f_sign_def f_sign_bit_def largest_denormal_def binary32_def binary64_def)+
    from big have "largest_denormal ?F < f_mag ?F ?x" "\<not> f_isnan ?F ?x"
      using d(2) l(2) unfolding f_lt_def f_key_def f_isnan_def f_abs_def d(1) l(1) by simp_all
    moreover from this(1) have "\<not> f_denormal ?F ?x" by (auto simp: f_denormal_def largest_denormal_def)
    ultimately show ?thesis using big assms by (simp add: check_output_def Let_def)
  next
    case nan
    then show ?thesis using assms by (auto simp: check_output_def Let_def)
  next
    case small
    then show ?thesis using assms z by (simp add: check_output_def Let_def f_denormal_def f_isnan_def)
  qed
qed

text \<open>C19. With the emulation of floating-point exceptions on, an addition, subtraction, multiplication, division or square
  root never completes with a denormal number or a NaN: either the floating-point exception is raised, or
  the destination holds a normal number, a zero or an infinity.  A denormal result is replaced by a zero.\<close>

theorem float_emulation_no_denormals:
  fixes m :: "'w machine" and fe :: "'w fpu_env"
  assumes "float_exception_emulation fe" "i \<in> {0, 1, 2, 3, 4}"
  shows "(let m' = (interp_cop1_s fe ! i) m; x = fp_get Fmt_S (f_fd m') m'
      in (\<exists>m1. m' = fail_float fe m1) \<or> \<not> f_isnan binary32 x \<and> \<not> f_denormal binary32 x) \<and>
    (let m' = (interp_cop1_d fe ! i) m; x = fp_get Fmt_D (f_fd m') m'
      in (\<exists>m1. m' = fail_float fe m1) \<or> \<not> f_isnan binary64 x \<and> \<not> f_denormal binary64 x)"
proof -
  have b: "(\<exists>m1. fp_binary fe t f m = fail_float fe m1) \<or> (\<exists>m1. fp_binary fe t f m = check_output fe t m1)" for t f
    unfolding fp_binary_def Let_def
    by (cases "bad_input fe (fmt_of t) (fp_get t (f_fs m) m) \<or> bad_input fe (fmt_of t) (fp_get t (f_ft m) m)") (auto simp del: fp_get.simps fp_put.simps)
  have q: "(\<exists>m1. fp_sqrt fe t m = fail_float fe m1) \<or> (\<exists>m1. fp_sqrt fe t m = check_output fe t m1)" for t
    unfolding fp_sqrt_def Let_def
    by (cases "bad_input fe (fmt_of t) (fp_get t (f_fs m) m)") (auto simp del: fp_get.simps fp_put.simps)
  have c: "(\<exists>m1. m' = fail_float fe m1) \<or> \<not> f_isnan (fmt_of t) (fp_get t (f_fd m') m') \<and> \<not> f_denormal (fmt_of t) (fp_get t (f_fd m') m')"
    if "(\<exists>m1. m' = fail_float fe m1) \<or> (\<exists>m1. m' = check_output fe t m1)" for m' t
    using that check_output_normal [OF assms(1), of t] unfolding Let_def by metis
  have "interp_cop1_s fe ! i \<in> {fp_binary fe Fmt_S f_add, fp_binary fe Fmt_S f_sub, fp_binary fe Fmt_S f_mul, fp_binary fe Fmt_S f_div, fp_sqrt fe Fmt_S}"
    "interp_cop1_d fe ! i \<in> {fp_binary fe Fmt_D f_add, fp_binary fe Fmt_D f_sub, fp_binary fe Fmt_D f_mul, fp_binary fe Fmt_D f_div, fp_sqrt fe Fmt_D}"
    using assms(2) by (auto simp: interp_cop1_s_def interp_cop1_d_def arith_S_def arith_D_def SQRT_S_def SQRT_D_def simp del: upt_conv_Cons upt_rec_numeral)
  then have "(\<exists>m1. (interp_cop1_s fe ! i) m = fail_float fe m1) \<or> (\<exists>m1. (interp_cop1_s fe ! i) m = check_output fe Fmt_S m1)"
    "(\<exists>m1. (interp_cop1_d fe ! i) m = fail_float fe m1) \<or> (\<exists>m1. (interp_cop1_d fe ! i) m = check_output fe Fmt_D m1)"
    using b q by (elim insertE emptyE; simp only:)+
  from this [THEN c] show ?thesis unfolding Let_def fmt_of.simps by blast
qed

text \<open>The smallest normal number above two to the -126 minus that: the exact result is the smallest denormal number.\<close>

theorem float_emulation_no_denormals_witness:
  "let m' = (interp_cop1_s example_fpu ! 0) (fp_example 0x00800001 0x80800000); x = fp_get Fmt_S (f_fd m') m'
   in (\<exists>m1. m' = fail_float example_fpu m1) \<or> \<not> f_isnan binary32 x \<and> \<not> f_denormal binary32 x"
  by (rule float_emulation_no_denormals [THEN conjunct1]) (simp_all add: example_fpu_def)

text \<open>In the mode with 16 registers the instructions that round to an integer lose their result when the destination
  is odd: \<^verbatim>\<open>ROUND.W.S\<close>, \<^verbatim>\<open>TRUNC.W.S\<close>, \<^verbatim>\<open>CEIL.W.S\<close> and \<^verbatim>\<open>FLOOR.W.S\<close> write through the table of the double registers, and the register that \<^verbatim>\<open>MFC1\<close>
  and \<^verbatim>\<open>SWC1\<close> read is unchanged; \<^verbatim>\<open>CVT.W.S\<close>, which writes through the other table, delivers the integer.\<close>

theorem rounded_odd_register_lost:
  fixes m :: "'w machine" and fe :: "'w fpu_env"
  assumes "\<not> fr_mode (cpu m)" "bit (f_fd m) 0" "\<not> float_exception_emulation fe"
  shows "cop1_simple (f_fd m) (cpu (rounded_S fe r 32 m)) = cop1_simple (f_fd m) (cpu m) \<and>
    cop1_simple (f_fd m) (cpu (CVT_WL_S fe 32 m)) =
      word_of_int (fst (f_to_int binary32 (rounding_mode (cpu m)) 32 (fp_get Fmt_S (f_fs m) m)))"
proof -
  have "drop_bit 1 i \<noteq> i" if "bit i 0" for i :: regno
  proof
    assume "drop_bit 1 i = i"
    then have e: "bit i (Suc n) = bit i n" for n by (metis bit_drop_bit_eq comp_apply plus_1_eq_Suc)
    have "bit i 5" using that by (simp add: e numeral_eq_Suc)
    then show False using bit_imp_le_length [of i 5] by simp
  qed
  with assms(2) have "f_fd m \<noteq> drop_bit 1 (f_fd m)" by metis
  with assms have "cop1_simple (f_fd m) (cpu (rounded_S fe r 32 m)) = cop1_simple (f_fd m) (cpu m)"
    by (simp add: rounded_S_def fp_to_int_def bad_input_def Let_def m_pc4_def pc4_def set_cop1_double_def
      cop1_double_def cop1_simple_def split: prod.split)
  moreover have "cop1_simple (f_fd m) (cpu (CVT_WL_S fe 32 m)) =
      word_of_int (fst (f_to_int binary32 (rounding_mode (cpu m)) 32 (fp_get Fmt_S (f_fs m) m)))"
  proof -
    have p: "cop1_simple i (pc4 c) = cop1_simple i c" for i c by (simp add: cop1_simple_def pc4_def)
    show ?thesis using assms(3)
      by (simp add: CVT_WL_S_def fp_to_int_def bad_input_def Let_def m_pc4_def p split: prod.split)
  qed
  ultimately show ?thesis ..
qed

definition odd_example :: "nat machine" where
  "odd_example = (fp_example 0x40490FDB 0)\<lparr>cpu := (cpu (fp_example 0x40490FDB 0))\<lparr>fr_mode := False,
     reg_cop1_fgr_64 := (\<lambda>i. if i = 1 then 0x40490FDB else 0), vr_op := 0x00001040\<rparr>\<rparr>"

text \<open>\<^verbatim>\<open>TRUNC.W.S f1, f2\<close> with an approximation of pi in \<^verbatim>\<open>f2\<close>.\<close>

theorem rounded_odd_register_lost_witness:
  "cop1_simple 1 (cpu (rounded_S (example_fpu\<lparr>float_exception_emulation := False\<rparr>) Round_trunc 32 odd_example)) = 0"
proof -
  have o1: "\<not> fr_mode (cpu odd_example)" "f_fd odd_example = 1" by (simp_all add: odd_example_def f_fd_def)
  then have "cop1_simple 1 (cpu odd_example) = 0" by (simp add: cop1_simple_def odd_example_def)
  then show ?thesis
    using rounded_odd_register_lost [of odd_example "example_fpu\<lparr>float_exception_emulation := False\<rparr>" Round_trunc] o1 by simp
qed

end
