(* ===== verification/Rcp_Flags.thy ===== *)
theory Rcp_Flags
  imports Memory_Correct
begin

text \<open>
  The status registers of the RCP that a program changes by setting and clearing bits: the
  flags keep to 0 and 1, the registers stay the composition of their flags, and a word
  written to the interrupt mask does what the hardware documentation says bit by bit.
\<close>

section \<open>Flags\<close>

definition is_flag :: "u8 \<Rightarrow> bool" where
  "is_flag x \<longleftrightarrow> x = 0 \<or> x = 1"

definition mi_flags :: "mips_reg \<Rightarrow> u8 list" where
  "mi_flags r = [SP_intr_mask r, SI_intr_mask r, AI_intr_mask r, VI_intr_mask r, PI_intr_mask r, DP_intr_mask r]"

definition mi_mode_flags :: "mips_reg \<Rightarrow> u8 list" where
  "mi_mode_flags r = [init_mode r, ebus_test_mode r, RDRAM_reg_mode r]"

definition dpc_flags :: "dpc_reg \<Rightarrow> u8 list" where
  "dpc_flags r = [xbus_dmem_dma r, dpc_freeze r, dpc_flush r, start_glck r, tmem_busy r, pipe_busy r, cmd_busy r, cbuf_busy r,
     dpc_dma_busy r, end_valid r, start_valid r]"

definition sp_flags :: "sp_reg \<Rightarrow> u8 list" where
  "sp_flags r = [sp_halt r, sp_broke r, sp_dma_busy r, sp_dma_full r, sp_io_full r, sp_single_step r, sp_intr_break r, signal0 r,
     signal1 r, signal2 r, signal3 r, signal4 r, signal5 r, signal6 r, signal7 r]"

text \<open>A register composed of flags, the first one in the lowest bit.\<close>

primrec flags_word :: "nat \<Rightarrow> u8 list \<Rightarrow> u32" where
  "flags_word n [] = 0"
| "flags_word n (x # xs) = flag_bit n x OR flags_word (Suc n) xs"

definition flags_typed :: "u8 list \<Rightarrow> u32 \<Rightarrow> bool" where
  "flags_typed xs v \<longleftrightarrow> list_all is_flag xs \<and> v = flags_word 0 xs"

definition rcp_typed :: "'w machine \<Rightarrow> bool" where
  "rcp_typed m \<longleftrightarrow> flags_typed (mi_flags (MI_register m)) (mi_intr_mask_reg (MI_register m)) \<and>
     list_all is_flag (mi_mode_flags (MI_register m)) \<and>
     flags_typed (dpc_flags (dpc_register m)) (dpc_status (dpc_register m)) \<and>
     flags_typed (sp_flags (sp_register m)) (sp_status_reg (sp_register m))"

lemma is_flag_set_clear [simp]: "is_flag x \<Longrightarrow> is_flag (set_clear c s w x)"
  by (simp add: set_clear_def is_flag_def)

lemma is_flag_const [simp]: "is_flag 0" "is_flag 1"
  by (simp_all add: is_flag_def)

lemma bit_flag_bit: "is_flag x \<Longrightarrow> n < 32 \<Longrightarrow> bit (flag_bit n x) k \<longleftrightarrow> k = n \<and> x = 1"
  by (auto simp: is_flag_def flag_bit_def bit_simps)

lemma bit_flags_word:
  "list_all is_flag xs \<Longrightarrow> n + length xs \<le> 32 \<Longrightarrow> bit (flags_word n xs) k \<longleftrightarrow> n \<le> k \<and> k < n + length xs \<and> xs ! (k - n) = 1"
proof (induction xs arbitrary: n)
  case (Cons x xs)
  then have "bit (flags_word n (x # xs)) k \<longleftrightarrow> (k = n \<and> x = 1) \<or> (Suc n \<le> k \<and> k < Suc n + length xs \<and> xs ! (k - Suc n) = 1)"
    by (simp add: bit_or_iff bit_flag_bit)
  also have "\<dots> \<longleftrightarrow> n \<le> k \<and> k < n + length (x # xs) \<and> (x # xs) ! (k - n) = 1"
    by (cases "k - n") (auto simp: diff_Suc split: nat.splits)
  finally show ?case .
qed simp

lemma flags_word_less: "list_all is_flag xs \<Longrightarrow> length xs < 32 \<Longrightarrow> unat (flags_word 0 xs) < 2 ^ length xs"
proof -
  assume a: "list_all is_flag xs" "length xs < 32"
  have "take_bit (length xs) (flags_word 0 xs) = flags_word 0 xs"
    using a by (intro bit_word_eqI) (auto simp: bit_take_bit_iff bit_flags_word)
  then show ?thesis by (metis take_bit_nat_less_exp unsigned_take_bit_eq)
qed

section \<open>Writes\<close>

text \<open>A status word is stored and takes effect; the interrupts that become due are taken later.\<close>

datatype rcp_write = Write_mi_mode u32 | Write_mi_mask u32 | Write_dpc u32 | Write_sp u32

fun rcp_write_step :: "rcp_write \<Rightarrow> 'w machine \<Rightarrow> 'w machine option" where
  "rcp_write_step (Write_mi_mode v) m = update_MI_init_mode_reg (set_w_mi_init_mode v m)"
| "rcp_write_step (Write_mi_mask v) m = Some (update_MI_intr_mask_reg (set_w_mi_intr_mask v m))"
| "rcp_write_step (Write_dpc v) m = Some (update_DPC (set_w_dpc_status v m))"
| "rcp_write_step (Write_sp v) m = update_sp_flags (set_w_sp_status v m)"

lemma check_interrupt_registers:
  "check_interrupt m = Some m' \<Longrightarrow> MI_register m' = MI_register m \<and> sp_register m' = sp_register m \<and> dpc_register m' = dpc_register m"
  by (auto simp: check_interrupt_def Let_def on_queue_def set_cause_def bind_eq_Some_conv split: if_splits)

lemma flags_words:
  "mi_mask_of r = flags_word 0 (mi_flags r)" "sp_status_of s = flags_word 0 (sp_flags s)"
  by (simp_all add: mi_mask_of_def mi_flags_def sp_status_of_def sp_flags_def or.assoc eval_nat_numeral)

text \<open>An interrupt that a status word clears or raises in passing.\<close>

lemma conditional_check:
  assumes "(if c then check_interrupt (set_mi_intr v m) else Some m) = Some m'"
  shows "sp_register m' = sp_register m" "dpc_register m' = dpc_register m"
    "MI_register m' = (MI_register m)\<lparr>mi_intr_reg := mi_intr_reg (MI_register m')\<rparr>"
  using assms by (auto simp: set_mi_intr_def dest!: check_interrupt_registers split: if_splits)

lemma update_mi_mode_typed:
  assumes "rcp_typed m" "update_MI_init_mode_reg m = Some m'"
  shows "rcp_typed m'"
proof -
  define w where "w = w_mi_init_mode_reg (MI_register m)"
  define r1 where "r1 = (MI_register m)\<lparr>init_length := ucast (w AND 0x7F), init_mode := set_clear 0x80 0x100 w (init_mode (MI_register m)),
                  ebus_test_mode := set_clear 0x200 0x400 w (ebus_test_mode (MI_register m))\<rparr>"
  define m1 where "m1 = m\<lparr>MI_register := r1\<rparr>"
  obtain m2 where m2: "(if w AND 0x800 \<noteq> 0 then check_interrupt (set_mi_intr (mi_intr_reg (MI_register m1) AND 0xFFFFFFDF) m1)
        else Some m1) = Some m2"
      and m': "m' = (let r2 = (MI_register m2)\<lparr>RDRAM_reg_mode := set_clear 0x1000 0x2000 w (RDRAM_reg_mode (MI_register m2))\<rparr> in
          m2\<lparr>MI_register := r2\<lparr>mi_init_mode_reg := flag_bit 0 (init_length r2) OR flag_bit 7 (init_mode r2) OR
            flag_bit 8 (ebus_test_mode r2) OR flag_bit 9 (RDRAM_reg_mode r2)\<rparr>\<rparr>)"
    using assms(2) unfolding update_MI_init_mode_reg_def Let_def w_def [symmetric] r1_def [symmetric] m1_def [symmetric] bind_eq_Some_conv
    by auto
  note f = conditional_check [OF m2]
  have "MI_register m2 = r1\<lparr>mi_intr_reg := mi_intr_reg (MI_register m2)\<rparr>" using f(3) by (simp add: m1_def)
  then obtain x where "MI_register m2 = r1\<lparr>mi_intr_reg := x\<rparr>" by blast
  then show ?thesis using assms(1) f(1,2)
    by (simp add: m' m1_def Let_def rcp_typed_def mi_flags_def mi_mode_flags_def r1_def)
qed

lemma update_mi_mask_typed: "rcp_typed m \<Longrightarrow> rcp_typed (update_MI_intr_mask_reg m)"
  unfolding rcp_typed_def update_MI_intr_mask_reg_def Let_def
  by (simp add: flags_typed_def flags_words mi_mode_flags_def) (simp add: mi_flags_def)

lemma update_DPC_typed: "rcp_typed m \<Longrightarrow> rcp_typed (update_DPC m)"
  unfolding rcp_typed_def update_DPC_def Let_def
  by (simp add: flags_typed_def dpc_flags_def or.assoc eval_nat_numeral)

lemma update_sp_flags_typed:
  assumes "rcp_typed m" "update_sp_flags m = Some m'"
  shows "rcp_typed m'"
proof -
  define w where "w = w_sp_status_reg (sp_register m)"
  define r where "r = (sp_register m)\<lparr>sp_halt := set_clear 0x1 0x2 w (sp_halt (sp_register m)),
                  sp_broke := (if w AND 0x4 \<noteq> 0 then 0 else sp_broke (sp_register m))\<rparr>"
  define m1 where "m1 = m\<lparr>sp_register := r\<rparr>"
  obtain m2 m3 where m2: "(if w AND 0x8 \<noteq> 0 then check_interrupt (set_mi_intr (mi_intr_reg (MI_register m1) AND 0xFFFFFFFE) m1) else Some m1) = Some m2"
    and m3: "(if w AND 0x10 \<noteq> 0 then check_interrupt (set_mi_intr (mi_intr_reg (MI_register m2) OR 1) m2) else Some m2) = Some m3"
    and m': "m' = (let s = sp_register m3; r1 = s\<lparr>sp_single_step := set_clear 0x20 0x40 w (sp_single_step s),
                sp_intr_break := set_clear 0x80 0x100 w (sp_intr_break s),
                signal0 := set_clear 0x200 0x400 w (signal0 s), signal1 := set_clear 0x800 0x1000 w (signal1 s),
                signal2 := set_clear 0x2000 0x4000 w (signal2 s), signal3 := set_clear 0x8000 0x10000 w (signal3 s),
                signal4 := set_clear 0x20000 0x40000 w (signal4 s), signal5 := set_clear 0x80000 0x100000 w (signal5 s),
                signal6 := set_clear 0x200000 0x400000 w (signal6 s), signal7 := set_clear 0x800000 0x1000000 w (signal7 s)\<rparr>
              in m3\<lparr>sp_register := r1\<lparr>sp_status_reg := sp_status_of r1\<rparr>\<rparr>)"
    using assms(2) unfolding update_sp_flags_def Let_def w_def [symmetric] r_def [symmetric] m1_def [symmetric] bind_eq_Some_conv
    by auto
  note f = conditional_check [OF m2] conditional_check [OF m3]
  obtain y where y: "MI_register m2 = (MI_register m1)\<lparr>mi_intr_reg := y\<rparr>" using f(3) by blast
  obtain x where "MI_register m3 = (MI_register m2)\<lparr>mi_intr_reg := x\<rparr>" using f(6) by blast
  then have x: "MI_register m3 = (MI_register m)\<lparr>mi_intr_reg := x\<rparr>" by (simp add: y m1_def)
  have "is_flag (sp_broke r)" using assms(1) by (simp add: r_def rcp_typed_def flags_typed_def sp_flags_def)
  then show ?thesis using assms(1) x f(1,2,4,5)
    by (simp add: rcp_typed_def m' m1_def Let_def flags_typed_def flags_words)
      (simp add: mi_flags_def mi_mode_flags_def sp_flags_def r_def)
qed

lemma set_w_typed [simp]:
  "rcp_typed (set_w_mi_init_mode v m) = rcp_typed m" "rcp_typed (set_w_mi_intr_mask v m) = rcp_typed m"
  "rcp_typed (set_w_dpc_status v m) = rcp_typed m" "rcp_typed (set_w_sp_status v m) = rcp_typed m"
  by (simp_all add: rcp_typed_def set_w_mi_init_mode_def set_w_mi_intr_mask_def set_w_dpc_status_def set_w_sp_status_def
    mi_flags_def mi_mode_flags_def dpc_flags_def sp_flags_def)

interpretation rcp_writes: invariant_steps rcp_typed rcp_write_step
proof
  fix m m' :: "'w machine" and op
  assume "rcp_typed m" "rcp_write_step op m = Some m'"
  then show "rcp_typed m'"
    by (cases op) (auto intro: update_mi_mask_typed update_DPC_typed elim: update_mi_mode_typed [rotated] update_sp_flags_typed [rotated])
qed

lemma init_memory_typed:
  assumes "init_memory env m = Some m'"
  shows "rcp_typed m'"
proof -
  define m0 where "m0 = before_rom (m\<lparr>g_total_frames := 0, lag_count := 0\<rparr>)"
  from assms obtain m5 fbs where m5: "init_rom_area m0 = Some m5"
    and m': "m' = (let m6 = init_sc_area env (init_pif_area m5) in m6\<lparr>flash := init_flashram ((flash m6)\<lparr>use_flashram := 0\<rparr>),
      frameBufferInfos := fbs, fast_memory := True, firstFrameBufferSetting := True\<rparr>)"
    unfolding m0_def by (rule init_memory_cases)
  have "MI_register m' = MI_register m0 \<and> sp_register m' = sp_register m0 \<and> dpc_register m' = dpc_register m0"
    using m5 by (auto simp: m' Let_def init_rom_area_def init_sc_area_def init_pif_area_def page_defs split: if_splits)
  moreover have "rcp_typed m0"
    by (simp add: rcp_typed_def m0_def before_rom_def init_defs page_defs flags_typed_def mi_flags_def mi_mode_flags_def
      dpc_flags_def sp_flags_def flag_bit_def)
  ultimately show ?thesis by (simp add: rcp_typed_def)
qed

section \<open>Properties\<close>



text \<open>
  A word written to the interrupt mask of the MIPS interface has two bits per interrupt: bit \<^term>\<open>2 * i + 1\<close> enables interrupt
  \<^term>\<open>i\<close>, bit \<^term>\<open>2 * i\<close> disables it, enabling wins when both are set, and without either
  the mask is unchanged.
\<close>

theorem mi_mask_write:
  assumes "rcp_typed m" "i < 6"
  shows "bit (mi_intr_mask_reg (MI_register (update_MI_intr_mask_reg (set_w_mi_intr_mask v m)))) i \<longleftrightarrow>
    bit v (2 * i + 1) \<or> (bit (mi_intr_mask_reg (MI_register m)) i \<and> \<not> bit v (2 * i))"
proof -
  let ?m' = "update_MI_intr_mask_reg (set_w_mi_intr_mask v m)"
  have "rcp_typed ?m'" using assms(1) by (simp add: update_mi_mask_typed)
  then have t: "bit (mi_intr_mask_reg (MI_register ?m')) i \<longleftrightarrow> mi_flags (MI_register ?m') ! i = 1"
    "bit (mi_intr_mask_reg (MI_register m)) i \<longleftrightarrow> mi_flags (MI_register m) ! i = 1"
    using assms bit_flags_word [of "mi_flags (MI_register ?m')" 0 i] bit_flags_word [of "mi_flags (MI_register m)" 0 i]
    by (auto simp: rcp_typed_def flags_typed_def mi_flags_def)
  have b: "v AND 2 ^ k \<noteq> 0 \<longleftrightarrow> bit v k" if "k < 32" for k
    using that by (simp add: bit_iff_and_push_bit_not_eq_0)
  have "mi_flags (MI_register ?m') ! i = set_clear (2 ^ (2 * i)) (2 ^ (2 * i + 1)) v (mi_flags (MI_register m) ! i)"
    using assms(2) by (auto simp: mi_flags_def update_MI_intr_mask_reg_def set_w_mi_intr_mask_def Let_def less_Suc_eq numeral_eq_Suc)
  then show ?thesis unfolding t set_clear_def using b [of "2 * i"] b [of "2 * i + 1"] assms(2) by auto
qed

theorem mi_mask_write_witness:
  "bit (mi_intr_mask_reg (MI_register (update_MI_intr_mask_reg (set_w_mi_intr_mask 0x2 (the (init_memory example_machine_env init_example)))))) 0"
proof -
  obtain m0 where m0: "init_memory example_machine_env init_example = Some m0" using init_example_runs by blast
  from mi_mask_write [OF init_memory_typed [OF m0], of 0 "0x2"] m0 show ?thesis by simp
qed

end
