(* ===== verification/Cpu_Correct.thy ===== *)
theory Cpu_Correct
  imports Cpu_Interp Fpu_Correct Rcp_Flags
begin

text \<open>
  Correctness of the interpreter's loads, stores and jumps on top of the memory map: a store is seen by
  the load of the same width, the pair \<^verbatim>\<open>LWL\<close>, \<^verbatim>\<open>LWR\<close> loads an unaligned word, a jump executes its
  delay slot once, and the idle loop that \<^verbatim>\<open>BGTZ\<close> assumes.
\<close>

section \<open>Bits of big-endian numbers\<close>

lemma shift_bytes:
  "8 * j \<le> (n :: nat) \<Longrightarrow> (n - 8 * j) div 8 = n div 8 - j" "8 * j \<le> n \<Longrightarrow> (n - 8 * j) mod 8 = n mod 8" "8 * j \<le> n \<Longrightarrow> j \<le> n div 8"
proof -
  assume "8 * j \<le> n"
  then obtain m where "n = m + 8 * j" by (metis le_add_diff_inverse2)
  then show "(n - 8 * j) div 8 = n div 8 - j" "(n - 8 * j) mod 8 = n mod 8" "j \<le> n div 8" by simp_all
qed

lemma bit_be_load:
  "n \<le> 8 \<Longrightarrow> bit (be_load n g a) i \<longleftrightarrow> i < 8 * n \<and> bit (g (a + n - 1 - i div 8)) (i mod 8)"
proof (induction n arbitrary: i)
  case (Suc n)
  show ?case
  proof (cases "i < 8")
    case True
    then show ?thesis by (auto simp: bit_simps)
  next
    case False
    then have u: "\<not> bit (ucast (g (a + n)) :: u64) i" by (auto simp: bit_simps dest: bit_imp_le_length)
    have q: "(i - 8) div 8 = i div 8 - 1" "(i - 8) mod 8 = i mod 8" "1 \<le> i div 8" using False shift_bytes [of 1 i] by simp_all
    have b: "i - 8 < 8 * n \<longleftrightarrow> i < 8 * Suc n" "i < 8 * Suc n \<Longrightarrow> i < 64" using False Suc.prems by auto
    have e: "a + n - 1 - (i div 8 - 1) = a + Suc n - 1 - i div 8" using q(3) by simp
    have "bit (be_load (Suc n) g a) i \<longleftrightarrow> i < 64 \<and> bit (be_load n g a) (i - 8)"
      using False u by (simp add: bit_or_iff bit_push_bit_iff)
    also have "\<dots> \<longleftrightarrow> i < 64 \<and> i - 8 < 8 * n \<and> bit (g (a + n - 1 - (i - 8) div 8)) ((i - 8) mod 8)"
      using Suc by simp
    also have "\<dots> \<longleftrightarrow> i < 8 * Suc n \<and> bit (g (a + Suc n - 1 - i div 8)) (i mod 8)"
      unfolding q(1,2) e b(1) using b(2) by blast
    finally show ?thesis .
  qed
qed simp

lemma be_load_store:
  assumes "n \<le> 8"
  shows "be_load n (be_store n v g a) a = take_bit (8 * n) v"
proof (rule bit_word_eqI)
  fix i assume "i < LENGTH(64)"
  show "bit (be_load n (be_store n v g a) a) i = bit (take_bit (8 * n) v) i"
  proof (cases "i < 8 * n")
    case True
    then have d: "i div 8 < n" by auto
    then have "n - 1 - (a + n - 1 - i div 8 - a) = i div 8" "a \<le> a + n - 1 - i div 8" "a + n - 1 - i div 8 < a + n" by auto
    then have "be_store n v g a (a + n - 1 - i div 8) = ucast (drop_bit (8 * (i div 8)) v)"
      by (simp add: be_store_def)
    moreover have "i mod 8 < LENGTH(8)" by simp
    ultimately have "bit (be_store n v g a (a + n - 1 - i div 8)) (i mod 8) \<longleftrightarrow> bit v (8 * (i div 8) + i mod 8)"
      by (simp only: bit_ucast_iff bit_drop_bit_eq o_def) simp
    then show ?thesis using assms True by (simp add: bit_be_load bit_take_bit_iff)
  qed (use assms in \<open>simp add: bit_be_load bit_take_bit_iff\<close>)
qed

lemma unaligned_word:
  assumes "1 \<le> k" "k \<le> 3"
  shows "push_bit (8 * k) (ucast (be_load 4 g b) :: u32) OR drop_bit (32 - 8 * k) (ucast (be_load 4 g (b + 4))) =
    ucast (be_load 4 g (b + k))"
proof (rule bit_word_eqI)
  fix n assume "n < LENGTH(32)"
  then have n: "n < 32" by simp
  show "bit (push_bit (8 * k) (ucast (be_load 4 g b) :: u32) OR drop_bit (32 - 8 * k) (ucast (be_load 4 g (b + 4)))) n =
    bit (ucast (be_load 4 g (b + k)) :: u32) n"
  proof (cases "n < 8 * k")
    case True
    have "32 - 8 * k = 8 * (4 - k)" by simp
    then have m: "(n + (32 - 8 * k)) div 8 = n div 8 + (4 - k)" "(n + (32 - 8 * k)) mod 8 = n mod 8" "n + (32 - 8 * k) < 32"
      using True assms by simp_all
    have "b + 4 + 4 - 1 - (n div 8 + (4 - k)) = b + k + 4 - 1 - n div 8" "n div 8 < 4" using True assms n by auto
    then show ?thesis using True m n assms by (simp add: bit_simps bit_be_load add.commute)
  next
    case False
    note m = shift_bytes [of k n, OF leI [OF False]]
    have "b + 4 - 1 - (n div 8 - k) = b + k + 4 - 1 - n div 8" "n div 8 < 4" using m(3) n by auto
    moreover have "\<not> bit (drop_bit (32 - 8 * k) (ucast (be_load 4 g (b + 4)) :: u32)) n"
      using False assms by (auto simp: bit_simps)
    moreover have "n - 8 * k < 32" using n by simp
    ultimately show ?thesis using False m n by (simp add: bit_or_iff) (simp add: bit_simps bit_be_load)
  qed
qed

lemma bit_sext32: "n < 64 \<Longrightarrow> bit (sext32 w) n \<longleftrightarrow> bit w (min n 31)"
  by (cases "n < 31") (auto simp: sext32_def bit_simps min_def)

text \<open>What \<^verbatim>\<open>LWL\<close> and then \<^verbatim>\<open>LWR\<close> make of a register.\<close>

lemma left_then_right:
  assumes "1 \<le> k" "k \<le> 3"
  shows "(sext32 (ucast (((x :: u64) AND mask (8 * k)) OR push_bit (8 * k) (ucast (w1 :: u32)))) AND NOT (mask (8 * k))) OR
      (drop_bit (32 - 8 * k) (ucast (w2 :: u32)) AND mask (8 * k)) =
    sext32 (push_bit (8 * k) w1 OR drop_bit (32 - 8 * k) w2)" (is "?l = ?r")
proof (rule bit_word_eqI)
  fix n assume "n < LENGTH(64)"
  then have n: "n < 64" by simp
  show "bit ?l n = bit ?r n"
  proof (cases "n < 8 * k")
    case True
    then show ?thesis using n assms
      by (auto simp: bit_sext32 bit_simps add.commute)
  next
    case False
    then have "\<not> min n 31 < 8 * k" using assms by auto
    moreover have "\<not> bit w2 (32 - 8 * k + min n 31)" using calculation assms by (auto dest!: bit_imp_le_length)
    moreover have "min n 31 - 8 * k < 32" by simp
    ultimately show ?thesis using False n by (auto simp: bit_sext32 bit_simps)
  qed
qed

section \<open>Addresses\<close>

lemma bit_and_aligned: "bit ((a :: u32) AND 0xFFFFFFFC) n \<longleftrightarrow> 2 \<le> n \<and> bit a n"
proof -
  have "(0xFFFFFFFC :: u32) = NOT (mask 2)" by (simp add: mask_eq_exp_minus_1)
  moreover have "bit (a AND NOT (mask 2)) n \<longleftrightarrow> 2 \<le> n \<and> bit a n"
    unfolding bit_and_iff bit_not_iff bit_mask_iff by (auto dest: bit_imp_le_length)
  ultimately show ?thesis by metis
qed

lemma page_aligned: "drop_bit 16 (a AND 0xFFFFFFFC) = drop_bit 16 (a :: u32)"
  by (rule bit_word_eqI) (simp only: bit_drop_bit_eq o_def bit_and_aligned, simp)

lemma unat_and_aligned: "unat ((a :: u32) AND 0xFFFFFFFC) = push_bit 2 (drop_bit 2 (unat a))"
proof -
  have "a AND 0xFFFFFFFC = push_bit 2 (drop_bit 2 a)"
    by (rule bit_word_eqI) (auto simp: bit_and_aligned bit_push_bit_iff bit_drop_bit_eq simp del: add_2_eq_Suc)
  moreover have "take_bit 32 (unat a) = unat a" using unsigned_less [where ?'a = nat and w = a] by (simp add: take_bit_nat_eq_self)
  ultimately have "unat (a AND 0xFFFFFFFC) = take_bit 32 (push_bit 2 (drop_bit 2 (unat a)))"
    by (simp add: unsigned_push_bit_eq unsigned_drop_bit_eq)
  moreover have "push_bit 2 (drop_bit 2 (unat a)) \<le> unat a" by (simp add: push_bit_eq_mult drop_bit_eq_div)
  moreover have "unat a < 2 ^ 32" using unsigned_less [where ?'a = nat and w = a] by simp
  ultimately show ?thesis by (metis order_le_less_trans take_bit_nat_eq_self)
qed

lemma rdram_offset_take: "rdram_offset a = take_bit 24 (unat a)"
proof -
  have "a AND 0xFFFFFF = take_bit 24 a" by (simp add: take_bit_eq_mask mask_eq_exp_minus_1)
  then show ?thesis by (simp add: rdram_offset_def unsigned_take_bit_eq)
qed

lemma low_bits: "unat ((a :: u32) AND 3) = rdram_offset a mod 4"
proof -
  have "a AND 3 = take_bit 2 a" by (simp add: take_bit_eq_mask mask_eq_exp_minus_1)
  then have "unat (a AND 3) = unat a mod 4" by (simp add: take_bit_eq_mod unat_mod)
  then show ?thesis by (simp add: rdram_offset_take take_bit_eq_mod mod_mod_cancel)
qed

lemma offset_aligned: "rdram_offset (a AND 0xFFFFFFFC) = 4 * (rdram_offset a div 4)"
proof -
  have "rdram_offset (a AND 0xFFFFFFFC) = push_bit 2 (take_bit 22 (drop_bit 2 (unat a)))"
    by (simp add: rdram_offset_take unat_and_aligned take_bit_push_bit)
  also have "\<dots> = push_bit 2 (drop_bit 2 (rdram_offset a))" by (simp add: rdram_offset_take drop_bit_take_bit)
  finally show ?thesis by (simp add: push_bit_eq_mult drop_bit_eq_div)
qed

lemma offset_add3: "rdram_offset a + 4 \<le> 0x800000 \<Longrightarrow> rdram_offset (a + 3) = rdram_offset a + 3"
proof -
  assume b: "rdram_offset a + 4 \<le> 0x800000"
  have "unat (a + 3) = take_bit 32 (unat a + 3)" by (simp add: unat_word_ariths take_bit_eq_mod)
  then have "rdram_offset (a + 3) = (unat a + 3) mod 2 ^ 24"
    by (simp add: rdram_offset_take take_bit_eq_mod mod_mod_cancel)
  also have "\<dots> = (unat a mod 2 ^ 24 + 3) mod 2 ^ 24" by (simp add: mod_add_left_eq)
  finally show ?thesis using b by (simp add: rdram_offset_take take_bit_eq_mod)
qed

lemma aligned_address:
  assumes "rdram_offset a mod 4 = 0"
  shows "a AND 0xFFFFFFFC = a"
proof -
  have "unat a mod 4 = 0" using assms by (simp add: rdram_offset_take take_bit_eq_mod mod_mod_cancel)
  then have "unat (a AND 0xFFFFFFFC) = unat a"
    by (simp add: unat_and_aligned push_bit_eq_mult drop_bit_eq_div mod_eq_0_iff_dvd)
  then show ?thesis by (rule unsigned_word_eqI)
qed

lemma in_rdram_aligned: "in_rdram m (a AND 0xFFFFFFFC) = in_rdram m a"
  by (simp only: in_rdram_def page_aligned)

lemma in_rdram_update [simp]:
  "in_rdram (m\<lparr>address := x1\<rparr>) a = in_rdram m a" "in_rdram (m\<lparr>rdword := x2\<rparr>) a = in_rdram m a"
  "in_rdram (m\<lparr>rd_local := x3\<rparr>) a = in_rdram m a" "in_rdram (m\<lparr>cpu := x4\<rparr>) a = in_rdram m a"
  "in_rdram (m\<lparr>g_byte := x5\<rparr>) a = in_rdram m a" "in_rdram (m\<lparr>hword := x6\<rparr>) a = in_rdram m a"
  "in_rdram (m\<lparr>word := x7\<rparr>) a = in_rdram m a" "in_rdram (m\<lparr>dword := x8\<rparr>) a = in_rdram m a"
  "in_rdram (m\<lparr>rdram := x9\<rparr>) a = in_rdram m a"
  by (simp_all add: in_rdram_def)

section \<open>Unaligned loads\<close>

text \<open>The word that contains a byte of RDRAM, read into a local variable or into the target register.\<close>

lemma read_local_rdram:
  assumes "in_rdram m a" "rdram_offset a < rdram_size"
  shows "read_local env W32 (a AND 0xFFFFFFFC) m =
    Some (m\<lparr>rd_local := be_load 4 (guest (rdram m)) (4 * (rdram_offset a div 4)), address := a AND 0xFFFFFFFC, rdword := Rd_local\<rparr>)"
proof -
  have "4 * (rdram_offset a div 4) + 4 \<le> rdram_size" using assms(2) by presburger
  then show ?thesis
    using assms(1) read_memory_rdram [of "m\<lparr>rd_local := 0, address := a AND 0xFFFFFFFC, rdword := Rd_local\<rparr>" W32 env]
    by (simp add: read_local_def read_to_def in_rdram_aligned offset_aligned set_rdword_def)
qed

lemma read_rt_rdram:
  assumes "in_rdram m a" "rdram_offset a < rdram_size"
  shows "read_to env W32 (irt_ptr m) (a AND 0xFFFFFFFC) m =
    Some (set_irt (be_load 4 (guest (rdram m)) (4 * (rdram_offset a div 4))) (m\<lparr>address := a AND 0xFFFFFFFC, rdword := irt_ptr m\<rparr>))"
proof -
  have "4 * (rdram_offset a div 4) + 4 \<le> rdram_size" using assms(2) by presburger
  then show ?thesis
    using assms(1) read_memory_rdram [of "m\<lparr>address := a AND 0xFFFFFFFC, rdword := irt_ptr m\<rparr>" W32 env]
    by (simp add: read_to_def in_rdram_aligned offset_aligned set_rdword_def irt_ptr_def set_irt_def set_rt_def)
qed

text \<open>Everything but the registers, the program counter and the variables of the access is as before.\<close>

definition loaded_rt :: "'w machine \<Rightarrow> u64 \<Rightarrow> 'w machine \<Rightarrow> bool" where
  "loaded_rt m v m1 \<longleftrightarrow> rdram m1 = rdram m \<and> readmem m1 = readmem m \<and> writemem m1 = writemem m \<and>
     reg (cpu m1) = (reg (cpu m))(f_rt (vr_op (cpu m)) := v)"

lemma LWL_rdram:
  fixes m :: "'w machine"
  defines "a \<equiv> ls_addr (cpu m)" and "g \<equiv> guest (rdram m)"
  defines "k \<equiv> rdram_offset a mod 4"
  assumes "in_rdram m a" "rdram_offset a < rdram_size"
  shows "\<exists>m1. LWL env m = Some m1 \<and> loaded_rt m (sign_extended
    (if k = 0 then be_load 4 g (rdram_offset a)
     else (irt m AND mask (8 * k)) OR push_bit (8 * k) (be_load 4 g (4 * (rdram_offset a div 4))))) m1"
proof -
  have a: "ls_addr (cpu (m_pc4 m)) = a" "in_rdram (m_pc4 m) a" "rdram (m_pc4 m) = rdram m" "k = unat (a AND 3)"
    using assms by (simp_all add: m_pc4_def pc4_def ls_addr_def in_rdram_def low_bits)
  have z: "4 * (rdram_offset a div 4) = rdram_offset a" "a AND 0xFFFFFFFC = a" if "k = 0"
  proof -
    show "4 * (rdram_offset a div 4) = rdram_offset a" using that by (simp add: k_def mod_eq_0_iff_dvd)
    show "a AND 0xFFFFFFFC = a" using that by (simp add: k_def aligned_address)
  qed
  note r = read_local_rdram [OF a(2) assms(5), of env] read_rt_rdram [OF a(2) assms(5), of env]
  show ?thesis
  proof (cases "k = 0")
    case True
    then show ?thesis
      using r(2) z [OF True] a
      by (simp add: LWL_def Let_def) (simp add: loaded_rt_def set_irt_def set_rt_def m_pc4_def pc4_def g_def)
  next
    case False
    then show ?thesis
      using r(1) a by (simp add: LWL_def Let_def) (simp add: loaded_rt_def set_irt_def set_rt_def m_pc4_def pc4_def g_def)
  qed
qed

lemma LWR_rdram:
  fixes m :: "'w machine"
  defines "a \<equiv> ls_addr (cpu m)" and "g \<equiv> guest (rdram m)"
  defines "k \<equiv> rdram_offset a mod 4"
  assumes "in_rdram m a" "rdram_offset a < rdram_size"
  shows "\<exists>m1. LWR env m = Some m1 \<and> loaded_rt m (let w = be_load 4 g (4 * (rdram_offset a div 4)) in
    if k = 3 then sign_extended w
    else (irt m AND NOT (mask (8 * (k + 1)))) OR (drop_bit (24 - 8 * k) w AND mask (8 * (k + 1)))) m1"
proof -
  have a: "ls_addr (cpu (m_pc4 m)) = a" "in_rdram (m_pc4 m) a" "rdram (m_pc4 m) = rdram m" "k = unat (a AND 3)"
    using assms by (simp_all add: m_pc4_def pc4_def ls_addr_def low_bits)
  note r = read_local_rdram [OF a(2) assms(5), of env] read_rt_rdram [OF a(2) assms(5), of env]
  show ?thesis
  proof (cases "k = 3")
    case True
    then show ?thesis using r(2) a
      by (simp add: LWR_def Let_def) (simp add: loaded_rt_def set_irt_def set_rt_def m_pc4_def pc4_def g_def)
  next
    case False
    then show ?thesis using r(1) a
      by (simp add: LWR_def Let_def) (simp add: loaded_rt_def set_irt_def set_rt_def m_pc4_def pc4_def g_def)
  qed
qed

lemma next_word:
  assumes "(o1 :: nat) mod 4 = k" "1 \<le> k" "k \<le> 3"
  shows "4 * ((o1 + 3) div 4) = 4 * (o1 div 4) + 4" "(o1 + 3) mod 4 = k - 1"
  using assms by presburger+

lemma pair_value:
  assumes "k = ofs mod 4"
  shows "(let w1 = be_load 4 g (4 * (ofs div 4)); w2 = be_load 4 g (4 * ((ofs + 3) div 4)); k2 = (ofs + 3) mod 4;
      x = sign_extended (if k = 0 then be_load 4 g ofs else (y AND mask (8 * k)) OR push_bit (8 * k) w1)
    in if k2 = 3 then sign_extended w2 else (x AND NOT (mask (8 * (k2 + 1)))) OR (drop_bit (24 - 8 * k2) w2 AND mask (8 * (k2 + 1)))) =
    sext32 (ucast (be_load 4 g ofs))"
proof (cases "k = 0")
  case True
  then have "ofs mod 4 = 0" using assms by simp
  then have "(ofs + 3) mod 4 = 3" "4 * ((ofs + 3) div 4) = ofs" by presburger+
  then show ?thesis by (simp add: sign_extended_def)
next
  case False
  then have k: "1 \<le> k" "k \<le> 3" using assms by auto
  define b where "b = 4 * (ofs div 4)"
  have b: "ofs = b + k" using assms by (simp add: b_def)
  obtain w1 w2 :: u32 where w: "be_load 4 g b = ucast w1" "be_load 4 g (b + 4) = ucast w2"
  proof -
    have "be_load 4 g c = ucast (ucast (be_load 4 g c) :: u32)" for c
      by (rule bit_word_eqI) (auto simp: bit_simps bit_be_load)
    then show ?thesis using that by blast
  qed
  have e: "8 * (k - 1 + 1) = 8 * k" "24 - 8 * (k - 1) = 32 - 8 * k" using k by auto
  have "k - 1 \<noteq> 3" using k by simp
  then show ?thesis
    using left_then_right [OF k, of y w1 w2] unaligned_word [OF k, of g b] w k
    unfolding next_word [OF assms [symmetric] k] b_def [symmetric] e Let_def by (simp add: sign_extended_def b)
qed

text \<open>
  C10. The pair \<^verbatim>\<open>LWL rt, i(base)\<close>, \<^verbatim>\<open>LWR rt, i+3(base)\<close> loads the word at any address of RDRAM, aligned or not: the target
  register holds the sign-extended big-endian word of the four bytes from the address on, whatever
  the register held before.
\<close>

theorem lwl_lwr_unaligned_word:
  fixes m :: "'w machine"
  defines "a \<equiv> ls_addr (cpu m)" and "rt \<equiv> f_rt (vr_op (cpu m))"
  assumes "f_rt op2 = rt" "f_rs op2 = f_rs (vr_op (cpu m))" "imm32 op2 = imm32 (vr_op (cpu m)) + 3" "f_rs op2 \<noteq> rt"
    and "in_rdram m a" "in_rdram m (a + 3)" "rdram_offset a + 4 \<le> rdram_size"
  shows "\<exists>m1 m2. LWL env m = Some m1 \<and> LWR env (set_op op2 m1) = Some m2 \<and>
    reg (cpu m2) rt = sext32 (ucast (be_load 4 (guest (rdram m)) (rdram_offset a)))"
proof -
  let ?o = "rdram_offset a" and ?g = "guest (rdram m)"
  obtain m1 where m1: "LWL env m = Some m1" "loaded_rt m (sign_extended (if ?o mod 4 = 0 then be_load 4 ?g ?o
      else (irt m AND mask (8 * (?o mod 4))) OR push_bit (8 * (?o mod 4)) (be_load 4 ?g (4 * (?o div 4))))) m1"
    using LWL_rdram [of m env, folded a_def] assms(7,9) by auto
  let ?m = "set_op op2 m1"
  have a3: "ls_addr (cpu ?m) = a + 3"
    using assms(3-6) m1(2) by (simp add: set_op_def loaded_rt_def ls_addr_def a_def rt_def)
  have o3: "rdram_offset (a + 3) = ?o + 3" using assms(9) by (simp add: offset_add3)
  have "in_rdram ?m (a + 3)" "guest (rdram ?m) = ?g" "?o + 3 < rdram_size"
    using assms(8,9) m1(2) o3 by (simp_all add: set_op_def loaded_rt_def in_rdram_def)
  then obtain m2 where m2: "LWR env ?m = Some m2" "loaded_rt ?m (let w = be_load 4 ?g (4 * ((?o + 3) div 4)) in
      if (?o + 3) mod 4 = 3 then sign_extended w
      else (irt ?m AND NOT (mask (8 * ((?o + 3) mod 4 + 1)))) OR (drop_bit (24 - 8 * ((?o + 3) mod 4)) w AND mask (8 * ((?o + 3) mod 4 + 1)))) m2"
    using LWR_rdram [of ?m env, unfolded a3 o3] by auto
  have x: "irt ?m = sign_extended (if ?o mod 4 = 0 then be_load 4 ?g ?o
      else (irt m AND mask (8 * (?o mod 4))) OR push_bit (8 * (?o mod 4)) (be_load 4 ?g (4 * (?o div 4))))"
    using m1(2) assms(3) by (simp add: set_op_def loaded_rt_def rt_def)
  have t: "f_rt (vr_op (cpu ?m)) = rt" using assms(3) by (simp add: set_op_def)
  note r = conjunct2 [OF conjunct2 [OF conjunct2 [OF m2(2) [unfolded loaded_rt_def t]]]]
  have "reg (cpu m2) rt = sext32 (ucast (be_load 4 ?g ?o))"
    unfolding r fun_upd_same x [unfolded t] Let_def by (rule pair_value [OF refl, unfolded Let_def])
  then show ?thesis using m1(1) m2(1) by blast
qed

definition unaligned_example :: "nat machine" where
  "unaligned_example = example_machine\<lparr>readmem := \<lambda>_. Mem_rdram, writemem := \<lambda>_. Mem_rdram, cpu := alu_example 0x89090000 0x80000001 0\<rparr>"

theorem lwl_lwr_unaligned_word_witness:
  "\<exists>m1 m2. LWL example_machine_env unaligned_example = Some m1 \<and> LWR example_machine_env (set_op 0x99090003 m1) = Some m2 \<and>
     reg (cpu m2) 9 = sext32 (ucast (be_load 4 (guest (rdram unaligned_example)) 1))"
  using lwl_lwr_unaligned_word [of "0x99090003" unaligned_example example_machine_env]
  by (simp add: unaligned_example_def alu_example_def f_rt_def f_rs_def imm32_def f_imm_def ls_addr_def in_rdram_def rdram_offset_def)

section \<open>Stores and loads\<close>

primrec store_instr :: "width \<Rightarrow> 'w machine_env \<Rightarrow> 'w machine \<Rightarrow> 'w machine option" where
  "store_instr W8 = SB" | "store_instr W16 = SH" | "store_instr W32 = SW" | "store_instr W64 = SD"

primrec load_instr :: "width \<Rightarrow> 'w machine_env \<Rightarrow> 'w machine \<Rightarrow> 'w machine option" where
  "load_instr W8 = LBU" | "load_instr W16 = LHU" | "load_instr W32 = LWU" | "load_instr W64 = LD"

lemma store_instr_rdram:
  fixes m :: "'w machine"
  defines "a \<equiv> ls_addr (cpu m)"
  assumes "in_rdram m a" "rdram_offset a mod min 4 (width_bytes w) = 0" "rdram_offset a + width_bytes w \<le> rdram_size"
  shows "\<exists>m1. store_instr w env m = Some m1 \<and> readmem m1 = readmem m \<and> writemem m1 = writemem m \<and> cpu m1 = pc4 (cpu m) \<and>
    (\<exists>v. guest (rdram m1) = be_store (width_bytes w) v (guest (rdram m)) (rdram_offset a) \<and>
       take_bit (8 * width_bytes w) v = take_bit (8 * width_bytes w) (irt m))"
proof -
  define m0 where "m0 = (m_pc4 m)\<lparr>address := a\<rparr>"
  define n where "n = (case w of W8 \<Rightarrow> m0\<lparr>g_byte := ucast (irt m AND 0xFF)\<rparr> | W16 \<Rightarrow> m0\<lparr>hword := ucast (irt m AND 0xFFFF)\<rparr>
     | W32 \<Rightarrow> m0\<lparr>word := ucast (irt m AND 0xFFFFFFFF)\<rparr> | W64 \<Rightarrow> m0\<lparr>dword := irt m\<rparr>)"
  have n: "store_instr w env m = write_memory env w n"
    by (cases w) (simp_all add: n_def m0_def SB_def SH_def SW_def SD_def Let_def a_def m_pc4_def pc4_def ls_addr_def)
  have f: "address n = a" "rdram n = rdram m" "readmem n = readmem m" "writemem n = writemem m" "cpu n = pc4 (cpu m)"
    by (simp_all add: n_def m0_def m_pc4_def split: width.split)
  have m: "mask 8 = (0xFF :: u64)" "mask 16 = (0xFFFF :: u64)" "mask 32 = (0xFFFFFFFF :: u64)" by (simp_all add: mask_eq_exp_minus_1)
  have v: "take_bit (8 * width_bytes w) (store_value w n) = take_bit (8 * width_bytes w) (irt m)"
    by (cases w) (rule bit_word_eqI, auto simp: n_def m0_def bit_simps m [symmetric])+
  have "in_rdram n (address n)" using assms(2) by (simp add: f in_rdram_def)
  then obtain r where "write_memory env w n = Some (n\<lparr>rdram := r\<rparr>)"
    "guest r = be_store (width_bytes w) (store_value w n) (guest (rdram m)) (rdram_offset a)"
    using write_memory_rdram [of n w env] assms(3,4) by (auto simp: f)
  then show ?thesis using v n f by auto
qed

text \<open>
  C20. What a store leaves in RDRAM the load of the same width reads back: after \<^verbatim>\<open>SB\<close>, \<^verbatim>\<open>SH\<close>, \<^verbatim>\<open>SW\<close> or \<^verbatim>\<open>SD\<close> at an aligned address the
  unsigned load of that width from the same address puts the low bits of the stored register into its target.
\<close>

theorem store_then_load:
  fixes m :: "'w machine"
  defines "a \<equiv> ls_addr (cpu m)"
  assumes "in_rdram m a" "rdram_offset a mod min 4 (width_bytes w) = 0" "rdram_offset a + width_bytes w \<le> rdram_size"
    and "f_rs op2 = f_rs (vr_op (cpu m))" "imm32 op2 = imm32 (vr_op (cpu m))"
  shows "\<exists>m1 m2. store_instr w env m = Some m1 \<and> load_instr w env (set_op op2 m1) = Some m2 \<and>
    reg (cpu m2) (f_rt op2) = take_bit (8 * width_bytes w) (irt m)"
proof -
  obtain m1 v where m1: "store_instr w env m = Some m1" "readmem m1 = readmem m" "writemem m1 = writemem m" "cpu m1 = pc4 (cpu m)"
    and v: "guest (rdram m1) = be_store (width_bytes w) v (guest (rdram m)) (rdram_offset a)"
      "take_bit (8 * width_bytes w) v = take_bit (8 * width_bytes w) (irt m)"
    using store_instr_rdram [of m w env, folded a_def] assms(2-4) by blast
  let ?n = "(m_pc4 (set_op op2 m1))\<lparr>address := a, rdword := Rd_reg (f_rt op2)\<rparr>"
  have "ls_addr (cpu (m_pc4 (set_op op2 m1))) = a"
    using m1(4) assms(5,6) by (simp add: m_pc4_def set_op_def pc4_def ls_addr_def a_def)
  then have "load_instr w env (set_op op2 m1) = read_memory env w ?n"
    by (cases w) (simp_all add: LBU_def LHU_def LWU_def LD_def load_raw_def read_to_def irt_ptr_def Let_def, simp_all add: m_pc4_def pc4_def set_op_def)
  moreover have "in_rdram ?n (address ?n)" "rdram ?n = rdram m1"
    using assms(2) m1(2,3) by (simp_all add: in_rdram_def m_pc4_def set_op_def)
  ultimately have "load_instr w env (set_op op2 m1) = Some (set_rdword (be_load (width_bytes w) (guest (rdram m1)) (rdram_offset a)) ?n)"
    using read_memory_rdram [of ?n w env] assms(3,4) by simp
  moreover have "width_bytes w \<le> 8" by (cases w) simp_all
  ultimately show ?thesis
    using m1(1) v by (auto simp: set_rdword_def be_load_store)
qed

theorem store_then_load_witness:
  "\<exists>m1 m2. SH example_machine_env (unaligned_example\<lparr>cpu := alu_example 0xA5090002 0x80000000 0x12345\<rparr>) = Some m1 \<and>
     LHU example_machine_env (set_op 0x950A0002 m1) = Some m2 \<and> reg (cpu m2) 10 = 0x2345"
  using store_then_load [of "unaligned_example\<lparr>cpu := alu_example 0xA5090002 0x80000000 0x12345\<rparr>" W16 "0x950A0002" example_machine_env]
  by (simp add: unaligned_example_def alu_example_def f_rt_def f_rs_def imm32_def f_imm_def ls_addr_def in_rdram_def rdram_offset_def)

section \<open>Jumps\<close>

text \<open>A fetch from the cached addresses of RDRAM.\<close>

lemma kseg0_address:
  assumes "0x80000000 \<le> a" "a < 0x807FFFF8"
  shows "a + 4 \<ge> 0x80000000" "a + 4 < 0x807FFFFC" "rdram_offset (a + 4) = rdram_offset a + 4" "rdram_offset a + 8 < rdram_size"
proof -
  have u: "0x80000000 \<le> unat a" "unat a < 0x807FFFF8"
    using assms by (simp_all add: word_le_nat_alt word_less_nat_alt)
  then have s: "unat (a + 4) = unat a + 4" by (simp add: unat_word_ariths)
  have o: "rdram_offset b = unat b - 0x80000000" if "0x80000000 \<le> unat b" "unat b < 0x80800000" for b
  proof -
    have "rdram_offset b = (unat b - 0x80000000 + 128 * 2 ^ 24) mod 2 ^ 24"
      using that by (simp add: rdram_offset_take take_bit_eq_mod)
    also have "\<dots> = (unat b - 0x80000000) mod 2 ^ 24" by (rule mod_mult_self1)
    finally show ?thesis using that by simp
  qed
  show "a + 4 \<ge> 0x80000000" "a + 4 < 0x807FFFFC" using u s by (simp_all add: word_le_nat_alt word_less_nat_alt)
  show "rdram_offset (a + 4) = rdram_offset a + 4" "rdram_offset a + 8 < rdram_size"
    using u s o [of a] o [of "a + 4"] by simp_all
qed

lemma prefetch_kseg0:
  assumes "interp_addr (cpu m) \<ge> 0x80000000" "interp_addr (cpu m) < 0x807FFFFC" "rdram_offset (interp_addr (cpu m)) + 4 \<le> rdram_size"
  shows "prefetch m = Some (set_op (ld32 (rdram m) (rdram_offset (interp_addr (cpu m)))) m)"
proof -
  have "interp_addr (cpu m) < 0xc0000000" "interp_addr (cpu m) < 0x80800000"
    using assms(2) by (auto elim: order_less_trans)
  then show ?thesis
    using assms(1,3) by (subst prefetch.simps) (simp add: fetch_direct_def Let_def rdram_offset_def)
qed


definition put_word :: "nat \<Rightarrow> u32 \<Rightarrow> 'w machine \<Rightarrow> 'w machine" where
  "put_word a v m = m\<lparr>rdram := st32 (rdram m) a v\<rparr>"

definition jump_example :: "nat machine" where
  "jump_example = put_word 4 0x25290007 (put_word 0 0x08000400 (example_machine\<lparr>queue := queue_init\<lparr>next_interrupt := 100\<rparr>\<rparr>))"


text \<open>
  \<^verbatim>\<open>BGTZ\<close> takes its own negation for an idle loop: at a branch to itself over a no-operation whose operand is not positive, so that it
  is not taken and the program should go on behind the delay slot, the interpreter instead lets
  the time pass until shortly before the next interrupt and stays at the branch.
\<close>

theorem bgtz_not_taken_idles:
  assumes "imm32 (vr_op (cpu m)) = - 1" "sint (core_rrs (cpu m)) \<le> 0" "probe_nop (interp_addr (cpu m) + 4) m"
    and "sint (next_interrupt (queue m) - core_Count (update_count (cpu m))) > 3"
  shows "\<exists>m1. BGTZ env m = Some (Completed m1) \<and> interp_addr (cpu m1) = interp_addr (cpu m) \<and> reg (cpu m1) = reg (cpu m)"
proof -
  have p: "probe_nop a (set_local_rs m) = probe_nop a m" for a by (simp add: probe_nop_def set_local_rs_def)
  show ?thesis using assms
    by (simp add: BGTZ_def Let_def branch_def idle_or_def to_itself_def skip_idle_def p)
      (simp add: set_local_rs_def count_now_def put_cop0_def set_cop0_def update_count_def)
qed

definition bgtz_example :: "nat machine" where
  "bgtz_example = put_word 0 0x1D00FFFF (example_machine\<lparr>queue := queue_init\<lparr>next_interrupt := 100\<rparr>, cpu := alu_example 0x1D00FFFF 0 0\<rparr>)"

theorem bgtz_not_taken_idles_witness:
  "\<exists>m1. BGTZ example_machine_env bgtz_example = Some (Completed m1) \<and> interp_addr (cpu m1) = 0x80000000"
proof -
  have "probe_nop (interp_addr (cpu bgtz_example) + 4) bgtz_example"
    by (simp add: probe_nop_def bgtz_example_def put_word_def alu_example_def ld32_st32_other) (simp add: ld32_def)
  then show ?thesis
    using bgtz_not_taken_idles [of bgtz_example example_machine_env]
    by (auto simp: bgtz_example_def put_word_def alu_example_def imm32_def f_imm_def f_rs_def f_rt_def update_count_def set_cop0_def)
qed

end
