(* ===== verification/Boot.thy ===== *)
theory Boot
  imports Cpu_Interp
begin

text \<open>
  The start of the emulated machine and the clearing of its save data: \<^verbatim>\<open>core_start\<close> and
  \<^verbatim>\<open>clear_save_data\<close> of \<^verbatim>\<open>Core/r4300/r4300.cpp\<close>, for the pure interpreter (\<^verbatim>\<open>core_type\<close> 2).
  \<^verbatim>\<open>core_start\<close> puts the processor in the state in which the console's boot ROM leaves it, which
  depends on the lockout chip (CIC) that the game's boot code was written for, and runs the
  interpreter; \<^verbatim>\<open>core_boot\<close> is the part up to the interpreter.  The array \<^verbatim>\<open>reg_cop1_fgr_32\<close>, which
  nothing reads, is left out.
\<close>

section \<open>The processor after power-on\<close>

definition put_array :: "nat \<Rightarrow> bytes \<Rightarrow> array \<Rightarrow> array" where
  "put_array off d b = (\<lambda>i. if off \<le> i \<and> i < off + length d then d ! (i - off) else b i)"

definition copy_boot_code :: "'w machine \<Rightarrow> 'w machine option" where
  "copy_boot_code m = do {
     d \<leftarrow> bblock (rom_bytes m) 0x40 0xFBC;
     Some (m\<lparr>SP_DMEM := put_array 0x40 d (SP_DMEM m)\<rparr>) }"

definition zero_tlb :: tlb where
  "zero_tlb = \<lparr>tlb_mask = 0, tlb_vpn2 = 0, tlb_g = 0, tlb_asid = 0, tlb_pfn_even = 0, tlb_c_even = 0,
     tlb_d_even = 0, tlb_v_even = 0, tlb_pfn_odd = 0, tlb_c_odd = 0, tlb_d_odd = 0, tlb_v_odd = 0, tlb_r = 0,
     start_even = 0, end_even = 0, phys_even = 0, start_odd = 0, end_odd = 0, phys_odd = 0\<rparr>"

text \<open>Both \<^verbatim>\<open>memset\<close> calls after the loop name \<^verbatim>\<open>tlb_LUT_r\<close>.\<close>

definition reset_tlb :: "'w machine \<Rightarrow> 'w machine" where
  "reset_tlb m = m\<lparr>tlb_e := (\<lambda>i. if i < 32 then zero_tlb else tlb_e m i), tlb_LUT_r := (\<lambda>_. 0)\<rparr>"

definition set_gprs :: "(regno \<times> u64) list \<Rightarrow> r4300 \<Rightarrow> r4300" where
  "set_gprs rs c = fold (\<lambda>(i, v) d. d\<lparr>reg := (reg d)(i := v)\<rparr>) rs c"

definition reset_cpu :: "r4300 \<Rightarrow> r4300" where
  "reset_cpu c =
    (let c1 = c\<lparr>debug_count := 0, delay_slot := False, stop := False, reg := (\<lambda>_. 0), reg_cop0 := (\<lambda>_. 0),
                reg_cop1_fgr_64 := (\<lambda>_. 0), fr_mode := True, llbit := False, hi := 0, lo := 0, FCR0 := 0x511, FCR31 := 0\<rparr>;
         c2 = set_gprs [(6, 0xFFFFFFFFA4001F0C), (7, 0xFFFFFFFFA4001F08), (8, 0xC0), (10, 0x40),
                (11, 0xFFFFFFFFA4000040), (29, 0xFFFFFFFFA4001FF0)] c1
     in fold (\<lambda>(i, v). set_cop0 i v) [(1, 31), (12, 0x34000000), (16, 0x6e463), (15, 0xb00), (9, 0x5000), (13, 0x5C),
          (4, 0x7FFFF0), (14, 0xFFFFFFFF), (8, 0xFFFFFFFF), (30, 0xFFFFFFFF)] c2)"

section \<open>The lockout chip\<close>

definition boot_crc :: "array \<Rightarrow> int" where
  "boot_crc d = sum_list (map (\<lambda>i. uint (ld32 d (4 * i))) [0x40 div 4..<0x1000 div 4])"

definition cic_of_crc :: "int \<Rightarrow> nat" where
  "cic_of_crc crc =
    (if crc = 0x000000D0027FDF31 \<or> crc = 0x000000CFFB631223 then 1
     else if crc = 0x000000D057C85244 then 2
     else if crc = 0x000000D6497E414B then 3
     else if crc = 0x0000011A49F60E96 then 5
     else if crc = 0x000000D6D5BE5580 then 6
     else 2)"

text \<open>\<^verbatim>\<open>SP_IMEM\<close> is the second half of the array \<^verbatim>\<open>SP_DMEM\<close>.\<close>

definition put_imem :: "(nat \<times> u32) list \<Rightarrow> 'w machine \<Rightarrow> 'w machine" where
  "put_imem ws m = m\<lparr>SP_DMEM := fold (\<lambda>(i, v) d. st32 d (0x1000 + 4 * i) v) ws (SP_DMEM m)\<rparr>"

definition put_regs :: "(regno \<times> u64) list \<Rightarrow> 'w machine \<Rightarrow> 'w machine" where
  "put_regs rs m = m\<lparr>cpu := set_gprs rs (cpu m)\<rparr>"

definition pal_boot :: "nat \<Rightarrow> 'w machine \<Rightarrow> 'w machine" where
  "pal_boot cic m = put_regs [(23, 6), (31, 0xFFFFFFFFA4001554)]
    (if cic = 2 then put_regs [(5, 0xFFFFFFFFC0F1D859), (14, 0x2DE108EA)] m
     else if cic = 3 then put_regs [(5, 0xFFFFFFFFD4646273), (14, 0x1AF99984)] m
     else if cic = 5 then put_regs [(5, 0xFFFFFFFFDECAAAD1), (14, 0x0CF85C13), (24, 2)] (put_imem [(1, 0xBDA807FC)] m)
     else if cic = 6 then put_regs [(5, 0xFFFFFFFFB04DC903), (14, 0x1AF99984), (24, 2)] m
     else m)"

definition ntsc_boot :: "nat \<Rightarrow> 'w machine \<Rightarrow> 'w machine" where
  "ntsc_boot cic m = put_regs [(20, 1), (24, 3), (31, 0xFFFFFFFFA4001550)]
    (if cic = 2 then put_regs [(5, 0xFFFFFFFFC95973D5), (14, 0x2449A366)] m
     else if cic = 3 then put_regs [(5, 0xFFFFFFFF95315A28), (14, 0x5BACA1DF)] m
     else if cic = 5 then put_regs [(5, 0x5493FB9A), (14, 0xFFFFFFFFC2C20384)] (put_imem [(1, 0x8DA807FC)] m)
     else if cic = 6 then put_regs [(5, 0xFFFFFFFFE067221F), (14, 0x5CD2B70F)] m
     else m)"

definition cic_boot :: "nat \<Rightarrow> 'w machine \<Rightarrow> 'w machine" where
  "cic_boot cic m =
    (if cic = 1 then put_regs [(22, 0x3F)] m
     else if cic = 2 then put_regs [(1, 1), (2, 0x0EBDA536), (3, 0x0EBDA536), (4, 0xA536), (12, 0xFFFFFFFFED10D0B3),
       (13, 0x1402A4CC), (15, 0x3103E121), (22, 0x3F), (25, 0xFFFFFFFF9DEBB54F)] m
     else if cic = 3 then put_regs [(1, 1), (2, 0x49A5EE96), (3, 0x49A5EE96), (4, 0xEE96), (12, 0xFFFFFFFFCE9DFBF7),
       (13, 0xFFFFFFFFCE9DFBF7), (15, 0x18B63D28), (22, 0x78), (25, 0xFFFFFFFF825B21C9)] m
     else if cic = 5 then put_regs [(2, 0xFFFFFFFFF58B0FBF), (3, 0xFFFFFFFFF58B0FBF), (4, 0x0FBF), (12, 0xFFFFFFFF9651F81E),
       (13, 0x2D42AAC5), (15, 0x56584D60), (22, 0x91), (25, 0xFFFFFFFFCDCE565F)]
       (put_imem [(0, 0x3C0DBFC0), (2, 0x25AD07C0), (3, 0x31080080), (4, 0x5500FFFC), (5, 0x3C0DBFC0), (6, 0x8DA80024), (7, 0x3C0BB000)] m)
     else if cic = 6 then put_regs [(2, 0xFFFFFFFFA95930A4), (3, 0xFFFFFFFFA95930A4), (4, 0x30A4), (12, 0xFFFFFFFFBCB59510),
       (13, 0xFFFFFFFFBCB59510), (15, 0x7A3C07F4), (22, 0x85), (25, 0x465E3F72)] m
     else m)"

definition pal_country :: "'w machine \<Rightarrow> bool" where
  "pal_country m \<longleftrightarrow> Country_code (ROM_HEADER (roms m)) AND 0xFF \<in> set [0x44, 0x46, 0x49, 0x50, 0x53, 0x55, 0x58, 0x59]"

section \<open>Starting the core\<close>

definition core_boot :: "'w machine \<Rightarrow> 'w machine option" where
  "core_boot m = do {
     m1 \<leftarrow> copy_boot_code m;
     let m2 = reset_tlb (m1\<lparr>cpu := reset_cpu (cpu m1)\<rparr>);
     let cic = cic_of_crc (boot_crc (SP_DMEM m2));
     let m3 = m2\<lparr>CIC_Chip := cic\<rparr>;
     let m4 = cic_boot cic (if pal_country m3 then pal_boot cic m3 else ntsc_boot cic m3);
     init_interrupt (m4\<lparr>cpu := (cpu m4)\<lparr>rounding_mode := Round_nearest, last_addr := 0xa4000040\<rparr>\<rparr>) }"

definition core_start :: "'w machine_env \<Rightarrow> 'w fpu_env \<Rightarrow> 'w machine \<Rightarrow> 'w machine option" where
  "core_start env fpu m = do {
     m1 \<leftarrow> core_boot m;
     m2 \<leftarrow> pure_interpreter env fpu m1;
     Some (m2\<lparr>cpu := (cpu m2)\<lparr>debug_count := debug_count (cpu m2) + ucast (core_Count (cpu m2))\<rparr>\<rparr>) }"

section \<open>Clearing the save data\<close>

text \<open>The four files are opened for update, created empty when missing, and written from their start.\<close>

definition clear_save_data :: "'w machine \<Rightarrow> 'w machine" where
  "clear_save_data m =
    (let m1 = m\<lparr>sram := (\<lambda>_. 0)\<rparr>;
         m2 = m1\<lparr>flash := (flash m1)\<lparr>g_sram_file := fwrite0 0x8000 (sram m1) (g_sram_file (flash m1))\<rparr>\<rparr>;
         p1 = (pif m2)\<lparr>eeprom := replicate 0x800 0\<rparr>;
         p2 = p1\<lparr>g_eeprom_file := fwrite_start (eeprom p1) (g_eeprom_file p1)\<rparr>;
         p3 = p2\<lparr>mempack := replicate 4 (replicate 0x8000 0)\<rparr>
     in m2\<lparr>pif := p3\<lparr>g_mpak_file := fwrite_start (concat (map (take 0x800) (mempack p3))) (g_mpak_file p3)\<rparr>\<rparr>)"

section \<open>Properties\<close>

lemma special_goes_last: "spec_add c d SPECIAL_INT n [e] = [e, (SPECIAL_INT, n)]"
  by (simp add: spec_add_def insert_event_def)

lemma init_interrupt_abs:
  assumes "queue_abs (queue m) xs"
  obtains q where "init_interrupt m = Some (m\<lparr>next_vi := 5000, vi_register := (vi_register m)\<lparr>vi_delay := 5000\<rparr>,
      vi_field := 0, queue := q\<rparr>)"
    "queue_abs q [(VI_INT, 5000), (SPECIAL_INT, 0)]" "next_interrupt q = 5000"
proof -
  let ?c = "core_Count (cpu m)"
  have "queue_abs ((queue m)\<lparr>SPECIAL_done := True, next_interrupt := 5000\<rparr>) xs"
    using assms by (auto simp: queue_abs_def queue_rep_def)
  from clear_queue_abs [OF this] obtain q0 where q0: "clear_queue ((queue m)\<lparr>SPECIAL_done := True, next_interrupt := 5000\<rparr>) = Some q0"
      "queue_abs q0 []" by blast
  obtain q1 where q1: "add_interrupt_event ?c VI_INT (5000 - ?c) q0 = Some q1" "queue_abs q1 [(VI_INT, 5000)]" "next_interrupt q1 = 5000"
    using add_interrupt_event_abs [OF q0(2), of ?c VI_INT "5000 - ?c"] by (auto simp: pool_size_def spec_add_def insert_event_def)
  obtain q2 where q2: "add_interrupt_event ?c SPECIAL_INT (0 - ?c) q1 = Some q2"
      "queue_abs q2 [(VI_INT, 5000), (SPECIAL_INT, 0)]" "next_interrupt q2 = 5000"
    using add_interrupt_event_abs [OF q1(2), of ?c SPECIAL_INT "0 - ?c"] q1(3) by (auto simp: pool_size_def special_goes_last)
  have "init_interrupt m = Some (m\<lparr>next_vi := 5000, vi_register := (vi_register m)\<lparr>vi_delay := 5000\<rparr>, vi_field := 0, queue := q2\<rparr>)"
    using q0(1) q1(1) q2(1) by (simp add: init_interrupt_def m_add_event_count_def on_queue_def add_interrupt_event_count_def)
  with q2(2,3) show thesis using that by blast
qed

lemma put_simps [simp]:
  "queue (put_regs rs m) = queue m" "queue (put_imem ws m) = queue m"
  "SP_DMEM (put_regs rs m) = SP_DMEM m" "cpu (put_imem ws m) = cpu m"
  "CIC_Chip (put_regs rs m) = CIC_Chip m" "CIC_Chip (put_imem ws m) = CIC_Chip m"
  "tlb_e (put_regs rs m) = tlb_e m" "tlb_e (put_imem ws m) = tlb_e m"
  "tlb_LUT_r (put_regs rs m) = tlb_LUT_r m" "tlb_LUT_r (put_imem ws m) = tlb_LUT_r m"
  "tlb_LUT_w (put_regs rs m) = tlb_LUT_w m" "tlb_LUT_w (put_imem ws m) = tlb_LUT_w m"
  "roms (put_regs rs m) = roms m" "roms (put_imem ws m) = roms m"
  by (simp_all add: put_regs_def put_imem_def)

lemma set_gprs_Cons [simp]: "set_gprs [] c = c" "set_gprs ((i, v) # rs) c = set_gprs rs (c\<lparr>reg := (reg c)(i := v)\<rparr>)"
  by (simp_all add: set_gprs_def)

lemma reg_set_gprs: "reg (set_gprs rs c) = fold (\<lambda>(i, v) f. f(i := v)) rs (reg c)"
  by (induction rs arbitrary: c) auto

lemma cop0_set_gprs [simp]: "reg_cop0 (set_gprs rs c) = reg_cop0 c"
  by (induction rs arbitrary: c) auto

lemma put_regs_cpu [simp]: "reg_cop0 (cpu (put_regs rs m)) = reg_cop0 (cpu m)"
  "reg (cpu (put_regs rs m)) = fold (\<lambda>(i, v) f. f(i := v)) rs (reg (cpu m))"
  by (simp_all add: put_regs_def reg_set_gprs)

lemma fold_st32_below: "i < 0x1000 \<Longrightarrow> fold (\<lambda>(k, v) d. st32 d (0x1000 + 4 * k) v) ws d i = d i"
  by (induction ws arbitrary: d) (auto simp: st32_def)

lemma put_imem_dmem [simp]: "i < 0x1000 \<Longrightarrow> SP_DMEM (put_imem ws m) i = SP_DMEM m i"
  by (simp add: put_imem_def fold_st32_below)

lemmas boot_defs = cic_boot_def pal_boot_def ntsc_boot_def

lemma boot_keeps:
  "queue (cic_boot c m) = queue m" "queue (pal_boot c m) = queue m" "queue (ntsc_boot c m) = queue m"
  "CIC_Chip (cic_boot c m) = CIC_Chip m" "CIC_Chip (pal_boot c m) = CIC_Chip m" "CIC_Chip (ntsc_boot c m) = CIC_Chip m"
  "tlb_e (cic_boot c m) = tlb_e m" "tlb_e (pal_boot c m) = tlb_e m" "tlb_e (ntsc_boot c m) = tlb_e m"
  "tlb_LUT_r (cic_boot c m) = tlb_LUT_r m" "tlb_LUT_r (pal_boot c m) = tlb_LUT_r m" "tlb_LUT_r (ntsc_boot c m) = tlb_LUT_r m"
  "tlb_LUT_w (cic_boot c m) = tlb_LUT_w m" "tlb_LUT_w (pal_boot c m) = tlb_LUT_w m" "tlb_LUT_w (ntsc_boot c m) = tlb_LUT_w m"
  "roms (cic_boot c m) = roms m" "roms (pal_boot c m) = roms m" "roms (ntsc_boot c m) = roms m"
  "reg_cop0 (cpu (cic_boot c m)) = reg_cop0 (cpu m)" "reg_cop0 (cpu (pal_boot c m)) = reg_cop0 (cpu m)"
  "reg_cop0 (cpu (ntsc_boot c m)) = reg_cop0 (cpu m)"
  by (simp_all add: boot_defs)

lemma boot_dmem:
  assumes "i < 0x1000"
  shows "SP_DMEM (cic_boot c m) i = SP_DMEM m i" "SP_DMEM (pal_boot c m) i = SP_DMEM m i" "SP_DMEM (ntsc_boot c m) i = SP_DMEM m i"
  using assms by (simp_all add: boot_defs)

text \<open>The machine just before the interrupt queue is set up.\<close>

definition booted :: "'w machine \<Rightarrow> 'w machine \<Rightarrow> bool" where
  "booted m m4 \<longleftrightarrow> init_interrupt m4 = core_boot m \<and> queue m4 = queue m \<and>
     tlb_e m4 = (\<lambda>i. if i < 32 then zero_tlb else tlb_e m i) \<and> tlb_LUT_r m4 = (\<lambda>_. 0) \<and> tlb_LUT_w m4 = tlb_LUT_w m \<and>
     roms m4 = roms m \<and> core_Count (cpu m4) = 0x5000 \<and>
     CIC_Chip m4 \<in> {1, 2, 3, 5, 6} \<and>
     reg (cpu m4) 22 = (if CIC_Chip m4 = 3 then 0x78 else if CIC_Chip m4 = 5 then 0x91 else if CIC_Chip m4 = 6 then 0x85 else 0x3F) \<and>
     reg (cpu m4) 20 = (if pal_country m then 0 else 1) \<and> reg (cpu m4) 0 = 0 \<and>
     (\<forall>i. 0x40 \<le> i \<and> i < 0xFFC \<longrightarrow> SP_DMEM m4 i = rom_bytes m ! i)"

lemma reset_cpu_regs:
  "reg (reset_cpu c) 0 = 0" "reg (reset_cpu c) 20 = 0" "reg (reset_cpu c) 22 = 0" "core_Count (reset_cpu c) = 0x5000"
  by (simp_all add: reset_cpu_def Let_def set_cop0_def)

lemma core_boot_cases:
  assumes "0xFFC \<le> length (rom_bytes m)"
  shows "\<exists>m4. booted m m4"
proof -
  let ?d = "put_array 0x40 (take 0xFBC (drop 0x40 (rom_bytes m))) (SP_DMEM m)"
  define m2 where "m2 = reset_tlb (m\<lparr>SP_DMEM := ?d, cpu := reset_cpu (cpu m)\<rparr>)"
  define cic where "cic = cic_of_crc (boot_crc (SP_DMEM m2))"
  define m3 where "m3 = m2\<lparr>CIC_Chip := cic\<rparr>"
  define m4 where "m4 = cic_boot cic (if pal_country m3 then pal_boot cic m3 else ntsc_boot cic m3)"
  define m5 where "m5 = m4\<lparr>cpu := (cpu m4)\<lparr>rounding_mode := Round_nearest, last_addr := 0xa4000040\<rparr>\<rparr>"
  have "copy_boot_code m = Some (m\<lparr>SP_DMEM := ?d\<rparr>)" using assms by (simp add: copy_boot_code_def bblock_def)
  then have "core_boot m = init_interrupt m5"
    by (simp add: core_boot_def m5_def m4_def m3_def cic_def m2_def Let_def)
  moreover have "cic \<in> {1, 2, 3, 5, 6}" by (simp add: cic_def cic_of_crc_def)
  moreover have "reg (cpu m5) 22 = (if cic = 3 then 0x78 else if cic = 5 then 0x91 else if cic = 6 then 0x85 else 0x3F)"
    and "reg (cpu m5) 20 = (if pal_country m3 then 0 else 1)" and "reg (cpu m5) 0 = 0"
    using \<open>cic \<in> _\<close> by (auto simp: m5_def m4_def boot_defs m3_def m2_def reset_tlb_def reset_cpu_regs)
  moreover have "pal_country m3 = pal_country m" by (simp add: m3_def m2_def reset_tlb_def pal_country_def)
  moreover have "SP_DMEM m5 i = rom_bytes m ! i" if "0x40 \<le> i" "i < 0xFFC" for i
    using that assms by (simp add: m5_def m4_def m3_def m2_def reset_tlb_def boot_dmem put_array_def)
  ultimately have "booted m m5"
    by (simp add: booted_def m5_def m4_def boot_keeps m3_def m2_def reset_tlb_def reset_cpu_regs cong: if_cong)
  then show ?thesis ..
qed

lemma core_boot_runs:
  assumes "queue_abs (queue m) xs" "0xFFC \<le> length (rom_bytes m)"
  obtains m4 m' q where "booted m m4" "core_boot m = Some m'"
    "m' = m4\<lparr>next_vi := 5000, vi_register := (vi_register m4)\<lparr>vi_delay := 5000\<rparr>, vi_field := 0, queue := q\<rparr>"
    "queue_abs q [(VI_INT, 5000), (SPECIAL_INT, 0)]" "next_interrupt q = 5000"
proof -
  obtain m4 where m4: "booted m m4" using core_boot_cases [OF assms(2)] by blast
  then have q: "queue_abs (queue m4) xs" and b: "core_boot m = init_interrupt m4" using assms(1) by (simp_all add: booted_def)
  from init_interrupt_abs [OF q] show thesis using m4 that unfolding b by blast
qed

lemma core_boot_room: "core_boot m = Some m' \<Longrightarrow> 0xFFC \<le> length (rom_bytes m)"
  by (auto simp: core_boot_def copy_boot_code_def bblock_def split: if_splits)

lemma init_interrupt_keeps:
  "init_interrupt m = Some m' \<Longrightarrow> tlb_e m' = tlb_e m \<and> tlb_LUT_r m' = tlb_LUT_r m \<and> tlb_LUT_w m' = tlb_LUT_w m \<and> roms m' = roms m"
  by (auto simp: init_interrupt_def m_add_event_count_def on_queue_def split: Option.bind_splits)

text \<open>The machine of the examples with a cartridge of zeros, just long enough to boot from.\<close>

definition boot_example :: "nat machine" where
  "boot_example = example_machine\<lparr>roms := example_roms\<lparr>rom := Some (replicate 0x1000 0)\<rparr>\<rparr>"

lemma boot_example_rom: "0xFFC \<le> length (rom_bytes boot_example)" "\<exists>xs. queue_abs (queue boot_example) xs"
  using queue_init_abs(1) by (auto simp: boot_example_def rom_bytes_def)



text \<open>C40. A reset forgets every translation for reads but keeps those for writes: \<^verbatim>\<open>core_start\<close> empties the
  TLB and clears \<^verbatim>\<open>tlb_LUT_r\<close> twice and \<^verbatim>\<open>tlb_LUT_w\<close> never.  After it no mapped address can be read, each
  can be written exactly where it could before, and the tables agree with the empty TLB only if nothing was
  writable before.  (The addresses of the three games with a built-in mapping are left out.)\<close>

theorem reset_keeps_write_translations:
  assumes "core_boot m = Some m'" "\<not> (0x7F000000 \<le> a \<and> a < 0x80000000)"
  shows "tlb_lookup 0 a m' = None \<and> tlb_lookup 1 a m' = tlb_lookup 1 a m \<and>
    (lut_sound m' \<longleftrightarrow> (\<forall>p. tlb_LUT_w m p = 0))"
proof -
  obtain m4 where m4: "booted m m4" using core_boot_cases [OF core_boot_room [OF assms(1)]] by blast
  with assms(1) have "init_interrupt m4 = Some m'" by (simp add: booted_def)
  from init_interrupt_keeps [OF this] m4
  have e: "tlb_e m' = (\<lambda>i. if i < 32 then zero_tlb else tlb_e m i)" and r: "tlb_LUT_r m' = (\<lambda>_. 0)" and w: "tlb_LUT_w m' = tlb_LUT_w m"
    by (simp_all add: booted_def cong: if_cong)
  have "\<not> entry_maps k zero_tlb p x" "tlb_wf zero_tlb" for k p x
    by (simp_all add: entry_maps_def half_maps_def zero_tlb_def tlb_wf_def half_aligned_def)
  then have "lut_sound m' \<longleftrightarrow> (\<forall>p. tlb_LUT_w m p = 0)" by (auto simp: lut_sound_def e r w)
  then show ?thesis by (simp add: lookup_normal [OF assms(2)] r w)
qed

definition stale_example :: "nat machine" where
  "stale_example = boot_example\<lparr>tlb_LUT_w := (\<lambda>p. if p = 1 then 0x80400000 else 0)\<rparr>"

theorem reset_keeps_write_translations_witness:
  "\<exists>m'. core_boot stale_example = Some m' \<and> tlb_lookup 0 0x1234 m' = None \<and> tlb_lookup 1 0x1234 m' = Some 0x80400234 \<and> \<not> lut_sound m'"
proof -
  obtain xs where xs: "queue_abs (queue stale_example) xs" using boot_example_rom(2) by (auto simp: stale_example_def)
  have rom: "0xFFC \<le> length (rom_bytes stale_example)" using boot_example_rom(1) by (simp add: stale_example_def rom_bytes_def)
  obtain m' where m': "core_boot stale_example = Some m'" using core_boot_runs [OF xs rom] by blast
  have no: "\<not> (0x7F000000 \<le> (0x1234::u32) \<and> (0x1234::u32) < 0x80000000)" by simp
  note R = reset_keeps_write_translations [OF m' no]
  have "tlb_lookup 1 0x1234 stale_example = Some 0x80400234"
    unfolding lookup_normal [OF no] by (simp add: stale_example_def page_of_def)
  moreover have "tlb_LUT_w stale_example 1 \<noteq> 0" by (simp add: stale_example_def)
  ultimately show ?thesis using m' R by auto
qed

lemma concat_replicate_replicate: "concat (replicate n (replicate k x)) = replicate (n * k) x"
  by (induction n) (simp_all add: replicate_add)

lemma clear_save_data_files:
  "g_mpak_file (pif (clear_save_data m)) = replicate 0x2000 0 @ drop 0x2000 (g_mpak_file (pif m))"
  "mempack (pif (clear_save_data m)) = replicate 4 (replicate 0x8000 0)"
  "g_eeprom_file (pif (clear_save_data m)) = replicate 0x800 0 @ drop 0x800 (g_eeprom_file (pif m))"
  "g_sram_file (flash (clear_save_data m)) = replicate 0x8000 0 @ drop 0x8000 (g_sram_file (flash m))"
  "g_fram_file (flash (clear_save_data m)) = g_fram_file (flash m)"
  by (simp_all add: clear_save_data_def Let_def fwrite_start_def fwrite0_def map_replicate_const concat_replicate_replicate)

text \<open>Clearing the save data leaves save data behind: \<^verbatim>\<open>clear_save_data\<close> zeroes the EEPROM and the SRAM and their
  files, but writes only \<^verbatim>\<open>0x800\<close> zeros for each of the four controller paks of \<^verbatim>\<open>0x8000\<close> bytes, one after the
  other, and does not write the flash memory at all.  The flash file and the paks of the controllers 2, 3
  and 4, as the next access reads them from a complete pak file, are what they were.\<close>

theorem clear_save_data_keeps_paks:
  assumes "pif_wf (pif m)" "length (g_mpak_file (pif m)) = 0x20000"
  shows "take 0x800 (g_eeprom_file (pif (clear_save_data m))) = replicate 0x800 0 \<and>
    take 0x8000 (g_sram_file (flash (clear_save_data m))) = replicate 0x8000 0 \<and>
    g_fram_file (flash (clear_save_data m)) = g_fram_file (flash m) \<and>
    (\<forall>k. 0 < k \<and> k < 4 \<longrightarrow> mempack (read_paks (pif (clear_save_data m))) ! k = mempack (read_paks (pif m)) ! k)"
proof -
  have "fread_at (k * 0x8000) (g_mpak_file (pif (clear_save_data m))) (mempack (pif (clear_save_data m)) ! k) =
      fread_at (k * 0x8000) (g_mpak_file (pif m)) (mempack (pif m) ! k)" if "0 < k" "k < 4" for k
  proof -
    have "drop (k * 0x8000) (replicate 0x2000 0 @ drop 0x2000 (g_mpak_file (pif m))) = drop (k * 0x8000) (g_mpak_file (pif m))"
      using that by simp
    moreover have "length (mempack (pif m) ! k) = 0x8000" using assms(1) that by (simp add: pif_wf_def)
    moreover have "0x8000 \<le> 0x20000 - k * 0x8000" using that by simp
    ultimately show ?thesis using that assms(2) by (simp add: fread_at_def clear_save_data_files Let_def)
  qed
  then have "\<forall>k. 0 < k \<and> k < 4 \<longrightarrow> mempack (read_paks (pif (clear_save_data m))) ! k = mempack (read_paks (pif m)) ! k"
    by (simp add: read_paks_def)
  then show ?thesis by (simp add: clear_save_data_files)
qed

definition saved_example :: "nat machine" where
  "saved_example = example_machine\<lparr>pif := pif_example\<lparr>g_mpak_file := replicate 0x20000 7\<rparr>\<rparr>"

theorem clear_save_data_keeps_paks_witness:
  "mempack (read_paks (pif (clear_save_data saved_example))) ! 1 = replicate 0x8000 7"
proof -
  have wf: "pif_wf (pif saved_example)" "length (g_mpak_file (pif saved_example)) = 0x20000"
    using pif_example_wf by (simp_all add: saved_example_def pif_wf_def)
  have "mempack (read_paks (pif saved_example)) ! 1 = replicate 0x8000 7"
    by (simp add: saved_example_def read_paks_def fread_at_def pif_example_def Let_def)
  with clear_save_data_keeps_paks [OF wf] show ?thesis by simp
qed

end
