(* ===== verification/Pif_Lut.thy ===== *)
theory Pif_Lut
  imports Pif
begin

text \<open>
  The table \<^verbatim>\<open>g_pif_lut\<close> of \<^verbatim>\<open>Core/memory/pif_lut.cpp\<close>: the challenges of the copy-protection chip that games send to the PIF
  and the answers to them, and what \<^verbatim>\<open>update_pif_write\<close> does with a challenge of the table.
\<close>

section \<open>The table\<close>

definition pif_lut_1 :: pif_lut where
  "pif_lut_1 =
  [([0xEC, 0x3C, 0xB6, 0x76, 0xB8, 0x1D, 0xBB, 0x8F, 0x6B, 0x3A, 0x80, 0xEC, 0xED, 0xEA, 0x5B, 0x02],
    [0x13, 0x6A, 0xF7, 0x4C, 0xDB, 0x4F, 0xB0, 0xDE, 0x45, 0x40, 0xC6, 0x4A, 0xE7, 0x73, 0x0B, 0x00]),
   ([0x00, 0x00, 0x40, 0x00, 0x10, 0x00, 0x04, 0x00, 0x01, 0x00, 0x00, 0x00, 0x00, 0x00, 0x00, 0x02],
    [0xBF, 0x9F, 0xD3, 0x71, 0xC6, 0xEC, 0x62, 0xA8, 0xCB, 0xF9, 0xF9, 0xF9, 0xF9, 0xF9, 0xF9, 0x00]),
   ([0x01, 0x00, 0x40, 0x00, 0x10, 0x00, 0x04, 0x00, 0x01, 0x00, 0x40, 0x00, 0x10, 0x00, 0x00, 0x02],
    [0xB4, 0xE6, 0x2A, 0x8C, 0xBF, 0x9F, 0x93, 0x71, 0x76, 0xEC, 0xA8, 0xC6, 0x37, 0x17, 0x17, 0x00]),
   ([0x02, 0x00, 0x40, 0x00, 0x10, 0x00, 0x04, 0x00, 0x01, 0x00, 0x80, 0x00, 0x20, 0x00, 0x00, 0x02],
    [0xB9, 0x99, 0xD3, 0x71, 0xC6, 0xEC, 0x62, 0xA8, 0xCB, 0xF9, 0x71, 0x71, 0x17, 0x17, 0x17, 0x00]),
   ([0x03, 0x00, 0x40, 0x00, 0x10, 0x00, 0x04, 0x00, 0x01, 0x00, 0xC0, 0x00, 0x30, 0x00, 0x00, 0x02],
    [0xBE, 0xC6, 0x2A, 0x8C, 0xBF, 0x9F, 0x93, 0x71, 0x76, 0xEC, 0x2A, 0x8C, 0x55, 0x55, 0x55, 0x00]),
   ([0x04, 0x00, 0x41, 0x00, 0x10, 0x00, 0x04, 0x00, 0x01, 0x00, 0x00, 0x00, 0x40, 0x00, 0x00, 0x02],
    [0xB3, 0x71, 0xB4, 0xE6, 0x37, 0x17, 0x1B, 0xF9, 0xFE, 0x6E, 0xC6, 0xEC, 0xA8, 0xC6, 0xEC, 0x00]),
   ([0x05, 0x00, 0x41, 0x00, 0x10, 0x00, 0x04, 0x00, 0x01, 0x00, 0x40, 0x00, 0x50, 0x00, 0x00, 0x02],
    [0xB8, 0xC6, 0x2F, 0x9F, 0xE6, 0xEC, 0x62, 0xA8, 0xCB, 0xF9, 0x37, 0x17, 0xA8, 0xC6, 0xEC, 0x00]),
   ([0x06, 0x00, 0x41, 0x00, 0x10, 0x00, 0x04, 0x00, 0x01, 0x00, 0x80, 0x00, 0x60, 0x00, 0x00, 0x02],
    [0xBD, 0x37, 0x5A, 0x8C, 0xBF, 0x9F, 0x93, 0x71, 0x76, 0xEC, 0xE6, 0xEC, 0x4E, 0x6E, 0xC6, 0x00]),
   ([0x07, 0x00, 0x41, 0x00, 0x10, 0x00, 0x04, 0x00, 0x01, 0x00, 0xC0, 0x00, 0x70, 0x00, 0x00, 0x02],
    [0xB2, 0xA8, 0x09, 0x99, 0xEC, 0x6E, 0xCA, 0x8C, 0x63, 0x71, 0x37, 0x17, 0x4E, 0x6E, 0xC6, 0x00]),
   ([0x08, 0x00, 0x42, 0x00, 0x10, 0x00, 0x04, 0x00, 0x01, 0x00, 0x00, 0x00, 0x80, 0x00, 0x00, 0x02],
    [0xB7, 0x17, 0x5F, 0x9F, 0xE6, 0xEC, 0x62, 0xA8, 0xCB, 0xF9, 0xF9, 0xF9, 0x71, 0x71, 0x71, 0x00]),
   ([0x09, 0x00, 0x42, 0x00, 0x10, 0x00, 0x04, 0x00, 0x01, 0x00, 0x40, 0x00, 0x90, 0x00, 0x00, 0x02],
    [0xBC, 0x6E, 0x0E, 0xC6, 0x37, 0x17, 0x1B, 0xF9, 0xFE, 0x6E, 0x04, 0xE6, 0xB5, 0x55, 0x55, 0x00]),
   ([0x0A, 0x00, 0x42, 0x00, 0x10, 0x00, 0x04, 0x00, 0x01, 0x00, 0x80, 0x00, 0xA0, 0x00, 0x00, 0x02],
    [0xB1, 0x11, 0x5F, 0x9F, 0xE6, 0xEC, 0x62, 0xA8, 0xCB, 0xF9, 0x71, 0x71, 0x9F, 0x9F, 0x9F, 0x00]),
   ([0x0B, 0x00, 0x42, 0x00, 0x10, 0x00, 0x04, 0x00, 0x01, 0x00, 0xC0, 0x00, 0xB0, 0x00, 0x00, 0x02],
    [0xB6, 0xEC, 0xA2, 0xA8, 0x11, 0x11, 0x15, 0x55, 0x5A, 0x8C, 0x2A, 0x8C, 0xD3, 0x71, 0x71, 0x00]),
   ([0x0C, 0x00, 0x43, 0x00, 0x10, 0x00, 0x04, 0x00, 0x01, 0x00, 0x00, 0x00, 0xC0, 0x00, 0x00, 0x02],
    [0xBB, 0x55, 0x98, 0xC6, 0x37, 0x17, 0x1B, 0xF9, 0xFE, 0x6E, 0xC6, 0xEC, 0x2A, 0x8C, 0x6E, 0x00]),
   ([0x0D, 0x00, 0x43, 0x00, 0x10, 0x00, 0x04, 0x00, 0x01, 0x00, 0x40, 0x00, 0xD0, 0x00, 0x00, 0x02],
    [0xB0, 0x4E, 0xA7, 0x17, 0x6E, 0xC6, 0xE0, 0x4E, 0x63, 0x71, 0xBF, 0x9F, 0xA8, 0xC6, 0xEC, 0x00]),
   ([0x0E, 0x00, 0x43, 0x00, 0x10, 0x00, 0x04, 0x00, 0x01, 0x00, 0x80, 0x00, 0xE0, 0x00, 0x00, 0x02],
    [0xB5, 0x55, 0x98, 0xC6, 0x37, 0x17, 0x1B, 0xF9, 0xFE, 0x6E, 0x4E, 0x6E, 0x2A, 0x8C, 0x6E, 0x00]),
   ([0x0F, 0x00, 0x43, 0x00, 0x10, 0x00, 0x04, 0x00, 0x01, 0x00, 0xC0, 0x00, 0xF0, 0x00, 0x00, 0x02],
    [0xBA, 0x8C, 0xA7, 0x17, 0x6E, 0xC6, 0xE0, 0x4E, 0x63, 0x71, 0x37, 0x17, 0xC6, 0xEC, 0x6E, 0x00]),
   ([0x10, 0x00, 0x44, 0x00, 0x11, 0x00, 0x04, 0x00, 0x01, 0x00, 0x00, 0x00, 0x00, 0x00, 0x00, 0x02],
    [0x04, 0xE6, 0x2E, 0xC6, 0x3C, 0x6E, 0xCA, 0x8C, 0x63, 0x71, 0x71, 0x71, 0x71, 0x71, 0x71, 0x00]),
   ([0x11, 0x00, 0x44, 0x00, 0x11, 0x00, 0x04, 0x00, 0x01, 0x00, 0x40, 0x00, 0x10, 0x00, 0x00, 0x02],
    [0x09, 0x99, 0xD7, 0x17, 0x63, 0x71, 0x75, 0x55, 0x5A, 0x8C, 0xA8, 0xC6, 0x37, 0x17, 0x17, 0x00]),
   ([0x12, 0x00, 0x44, 0x00, 0x11, 0x00, 0x04, 0x00, 0x01, 0x00, 0x80, 0x00, 0x20, 0x00, 0x00, 0x02],
    [0x0E, 0xC6, 0x2E, 0xC6, 0x3C, 0x6E, 0xCA, 0x8C, 0x63, 0x71, 0xF9, 0xF9, 0x9F, 0x9F, 0x9F, 0x00]),
   ([0x13, 0x00, 0x44, 0x00, 0x11, 0x00, 0x04, 0x00, 0x01, 0x00, 0xC0, 0x00, 0x30, 0x00, 0x00, 0x02],
    [0x03, 0x71, 0xB3, 0x71, 0xCB, 0xF9, 0xFD, 0x37, 0x1C, 0x6E, 0x8C, 0x6E, 0xBF, 0x9F, 0x9F, 0x00]),
   ([0x14, 0x00, 0x45, 0x00, 0x11, 0x00, 0x04, 0x00, 0x01, 0x00, 0x00, 0x00, 0x40, 0x00, 0x00, 0x02],
    [0x08, 0xC6, 0x23, 0x71, 0xCB, 0xF9, 0xFD, 0x37, 0x1C, 0x6E, 0xC6, 0xEC, 0xA8, 0xC6, 0xEC, 0x00]),
   ([0x15, 0x00, 0x45, 0x00, 0x11, 0x00, 0x04, 0x00, 0x01, 0x00, 0x40, 0x00, 0x50, 0x00, 0x00, 0x02],
    [0x0D, 0x37, 0x5E, 0xC6, 0x3C, 0x6E, 0xCA, 0x8C, 0x63, 0x71, 0xBF, 0x9F, 0x2A, 0x8C, 0x6E, 0x00]),
   ([0x16, 0x00, 0x45, 0x00, 0x11, 0x00, 0x04, 0x00, 0x01, 0x00, 0x80, 0x00, 0x60, 0x00, 0x00, 0x02],
    [0x02, 0xA8, 0x0D, 0x37, 0x63, 0x71, 0x75, 0x55, 0x5A, 0x8C, 0xE6, 0xEC, 0x4E, 0x6E, 0xC6, 0x00]),
   ([0x17, 0x00, 0x45, 0x00, 0x11, 0x00, 0x04, 0x00, 0x01, 0x00, 0xC0, 0x00, 0x70, 0x00, 0x00, 0x02],
    [0x07, 0x17, 0x5E, 0xC6, 0x3C, 0x6E, 0xCA, 0x8C, 0x63, 0x71, 0x37, 0x17, 0x4E, 0x6E, 0xC6, 0x00]),
   ([0x18, 0x00, 0x46, 0x00, 0x11, 0x00, 0x04, 0x00, 0x01, 0x00, 0x00, 0x00, 0x80, 0x00, 0x00, 0x02],
    [0x0C, 0x6E, 0x02, 0xA8, 0x16, 0xEC, 0x62, 0xA8, 0xCB, 0xF9, 0xF9, 0xF9, 0x71, 0x71, 0x71, 0x00]),
   ([0x19, 0x00, 0x46, 0x00, 0x11, 0x00, 0x04, 0x00, 0x01, 0x00, 0x40, 0x00, 0x90, 0x00, 0x00, 0x02],
    [0x01, 0x11, 0x53, 0x71, 0xCB, 0xF9, 0xFD, 0x37, 0x1C, 0x6E, 0x04, 0xE6, 0xB5, 0x55, 0x55, 0x00]),
   ([0x1A, 0x00, 0x46, 0x00, 0x11, 0x00, 0x04, 0x00, 0x01, 0x00, 0x80, 0x00, 0xA0, 0x00, 0x00, 0x02],
    [0x06, 0xEC, 0xA6, 0xEC, 0xB4, 0xE6, 0xE0, 0x4E, 0x63, 0x71, 0xF9, 0xF9, 0x17, 0x17, 0x17, 0x00]),
   ([0x1B, 0x00, 0x46, 0x00, 0x11, 0x00, 0x04, 0x00, 0x01, 0x00, 0xC0, 0x00, 0xB0, 0x00, 0x00, 0x02],
    [0x0B, 0x55, 0x97, 0x17, 0x63, 0x71, 0x75, 0x55, 0x5A, 0x8C, 0x2A, 0x8C, 0xD3, 0x71, 0x71, 0x00]),
   ([0x1C, 0x00, 0x47, 0x00, 0x11, 0x00, 0x04, 0x00, 0x01, 0x00, 0x00, 0x00, 0xC0, 0x00, 0x00, 0x02],
    [0x00, 0x4E, 0xAB, 0xF9, 0x43, 0x71, 0x75, 0x55, 0x5A, 0x8C, 0x6E, 0xC6, 0xA8, 0xC6, 0xEC, 0x00]),
   ([0x1D, 0x00, 0x47, 0x00, 0x11, 0x00, 0x04, 0x00, 0x01, 0x00, 0x40, 0x00, 0xD0, 0x00, 0x00, 0x02],
    [0x05, 0x55, 0x9C, 0x6E, 0x1C, 0x6E, 0xCA, 0x8C, 0x63, 0x71, 0xBF, 0x9F, 0xA8, 0xC6, 0xEC, 0x00]),
   ([0x1E, 0x00, 0x47, 0x00, 0x11, 0x00, 0x04, 0x00, 0x01, 0x00, 0x80, 0x00, 0xE0, 0x00, 0x00, 0x02],
    [0x0A, 0x8C, 0xAB, 0xF9, 0x43, 0x71, 0x75, 0x55, 0x5A, 0x8C, 0xE6, 0xEC, 0xC6, 0xEC, 0x6E, 0x00]),
   ([0x1F, 0x00, 0x47, 0x00, 0x11, 0x00, 0x04, 0x00, 0x01, 0x00, 0xC0, 0x00, 0xF0, 0x00, 0x00, 0x02],
    [0x0F, 0x9F, 0xD6, 0xEC, 0xB4, 0xE6, 0xE0, 0x4E, 0x63, 0x71, 0x37, 0x17, 0xC6, 0xEC, 0x6E, 0x00]),
   ([0x20, 0x00, 0x48, 0x00, 0x12, 0x00, 0x04, 0x00, 0x01, 0x00, 0x00, 0x00, 0x00, 0x00, 0x00, 0x02],
    [0x55, 0x55, 0x91, 0x11, 0x68, 0xC6, 0xE0, 0x4E, 0x63, 0x71, 0x71, 0x71, 0x71, 0x71, 0x71, 0x00]),
   ([0x21, 0x00, 0x48, 0x00, 0x12, 0x00, 0x04, 0x00, 0x01, 0x00, 0x40, 0x00, 0x10, 0x00, 0x00, 0x02],
    [0x5A, 0x8C, 0xA0, 0x4E, 0xBF, 0x9F, 0x93, 0x71, 0x76, 0xEC, 0xA8, 0xC6, 0x37, 0x17, 0x17, 0x00]),
   ([0x22, 0x00, 0x48, 0x00, 0x12, 0x00, 0x04, 0x00, 0x01, 0x00, 0x80, 0x00, 0x20, 0x00, 0x00, 0x02],
    [0x5F, 0x9F, 0xDB, 0xF9, 0x48, 0xC6, 0xE0, 0x4E, 0x63, 0x71, 0xF9, 0xF9, 0x9F, 0x9F, 0x9F, 0x00]),
   ([0x23, 0x00, 0x48, 0x00, 0x12, 0x00, 0x04, 0x00, 0x01, 0x00, 0xC0, 0x00, 0x30, 0x00, 0x00, 0x02],
    [0x54, 0xE6, 0x22, 0xA8, 0x1B, 0x55, 0x59, 0x99, 0x9E, 0xC6, 0xA8, 0xC6, 0xD3, 0x71, 0x71, 0x00]),
   ([0x24, 0x00, 0x49, 0x00, 0x12, 0x00, 0x04, 0x00, 0x01, 0x00, 0x00, 0x00, 0x40, 0x00, 0x00, 0x02],
    [0x59, 0x99, 0xD0, 0x4E, 0xBF, 0x9F, 0x93, 0x71, 0x76, 0xEC, 0x6E, 0xC6, 0x2A, 0x8C, 0x6E, 0x00]),
   ([0x25, 0x00, 0x49, 0x00, 0x12, 0x00, 0x04, 0x00, 0x01, 0x00, 0x40, 0x00, 0x50, 0x00, 0x00, 0x02],
    [0x5E, 0xC6, 0x27, 0x17, 0x68, 0xC6, 0xE0, 0x4E, 0x63, 0x71, 0xBF, 0x9F, 0x2A, 0x8C, 0x6E, 0x00]),
   ([0x26, 0x00, 0x49, 0x00, 0x12, 0x00, 0x04, 0x00, 0x01, 0x00, 0x80, 0x00, 0x60, 0x00, 0x00, 0x02],
    [0x53, 0x71, 0xBC, 0x6E, 0x11, 0x71, 0x75, 0x55, 0x5A, 0x8C, 0xE6, 0xEC, 0x4E, 0x6E, 0xC6, 0x00]),
   ([0x27, 0x00, 0x49, 0x00, 0x12, 0x00, 0x04, 0x00, 0x01, 0x00, 0xC0, 0x00, 0x70, 0x00, 0x00, 0x02],
    [0x58, 0xC6, 0x27, 0x17, 0x68, 0xC6, 0xE0, 0x4E, 0x63, 0x71, 0x37, 0x17, 0x4E, 0x6E, 0xC6, 0x00]),
   ([0x28, 0x00, 0x4A, 0x00, 0x12, 0x00, 0x04, 0x00, 0x01, 0x00, 0x00, 0x00, 0x80, 0x00, 0x00, 0x02],
    [0x5D, 0x37, 0x57, 0x17, 0x68, 0xC6, 0xE0, 0x4E, 0x63, 0x71, 0x71, 0x71, 0xF9, 0xF9, 0xF9, 0x00]),
   ([0x29, 0x00, 0x4A, 0x00, 0x12, 0x00, 0x04, 0x00, 0x01, 0x00, 0x40, 0x00, 0x90, 0x00, 0x00, 0x02],
    [0x52, 0xA8, 0x06, 0xEC, 0xB9, 0x99, 0x9D, 0x37, 0x1C, 0x6E, 0x04, 0xE6, 0xB5, 0x55, 0x55, 0x00]),
   ([0x2A, 0x00, 0x4A, 0x00, 0x12, 0x00, 0x04, 0x00, 0x01, 0x00, 0x80, 0x00, 0xA0, 0x00, 0x00, 0x02],
    [0x57, 0x17, 0x57, 0x17, 0x68, 0xC6, 0xE0, 0x4E, 0x63, 0x71, 0xF9, 0xF9, 0x17, 0x17, 0x17, 0x00]),
   ([0x2B, 0x00, 0x4A, 0x00, 0x12, 0x00, 0x04, 0x00, 0x01, 0x00, 0xC0, 0x00, 0xB0, 0x00, 0x00, 0x02],
    [0x5C, 0x6E, 0x06, 0xEC, 0xB9, 0x99, 0x9D, 0x37, 0x1C, 0x6E, 0x8C, 0x6E, 0x37, 0x17, 0x17, 0x00]),
   ([0x2C, 0x00, 0x4B, 0x00, 0x12, 0x00, 0x04, 0x00, 0x01, 0x00, 0x00, 0x00, 0xC0, 0x00, 0x00, 0x02],
    [0x51, 0x11, 0x5C, 0x6E, 0x11, 0x71, 0x75, 0x55, 0x5A, 0x8C, 0x6E, 0xC6, 0xA8, 0xC6, 0xEC, 0x00]),
   ([0x2D, 0x00, 0x4B, 0x00, 0x12, 0x00, 0x04, 0x00, 0x01, 0x00, 0x40, 0x00, 0xD0, 0x00, 0x00, 0x02],
    [0x56, 0xEC, 0xAF, 0x9F, 0xE0, 0x4E, 0x62, 0xA8, 0xCB, 0xF9, 0x37, 0x17, 0x2A, 0x8C, 0x6E, 0x00]),
   ([0x2E, 0x00, 0x4B, 0x00, 0x12, 0x00, 0x04, 0x00, 0x01, 0x00, 0x80, 0x00, 0xE0, 0x00, 0x00, 0x02],
    [0x5B, 0x55, 0x90, 0x4E, 0xBF, 0x9F, 0x93, 0x71, 0x76, 0xEC, 0xE6, 0xEC, 0xC6, 0xEC, 0x6E, 0x00]),
   ([0x2F, 0x00, 0x4B, 0x00, 0x12, 0x00, 0x04, 0x00, 0x01, 0x00, 0xC0, 0x00, 0xF0, 0x00, 0x00, 0x02],
    [0x50, 0x4E, 0xAF, 0x9F, 0xE0, 0x4E, 0x62, 0xA8, 0xCB, 0xF9, 0xBF, 0x9F, 0x4E, 0x6E, 0xC6, 0x00]),
   ([0x30, 0x00, 0x4C, 0x00, 0x13, 0x00, 0x04, 0x00, 0x01, 0x00, 0x00, 0x00, 0x00, 0x00, 0x00, 0x02],
    [0xA8, 0xC6, 0x26, 0xEC, 0xBE, 0xC6, 0xE0, 0x4E, 0x63, 0x71, 0x71, 0x71, 0x71, 0x71, 0x71, 0x00])]"

definition pif_lut_2 :: pif_lut where
  "pif_lut_2 =
  [([0x31, 0x00, 0x4C, 0x00, 0x13, 0x00, 0x04, 0x00, 0x01, 0x00, 0x40, 0x00, 0x10, 0x00, 0x00, 0x02],
    [0xAD, 0x37, 0x51, 0x11, 0x6D, 0x37, 0x1B, 0xF9, 0xFE, 0x6E, 0x04, 0xE6, 0x37, 0x17, 0x17, 0x00]),
   ([0x32, 0x00, 0x4C, 0x00, 0x13, 0x00, 0x04, 0x00, 0x01, 0x00, 0x80, 0x00, 0x20, 0x00, 0x00, 0x02],
    [0xA2, 0xA8, 0x00, 0x4E, 0xB4, 0xE6, 0xE0, 0x4E, 0x63, 0x71, 0xF9, 0xF9, 0x9F, 0x9F, 0x9F, 0x00]),
   ([0x33, 0x00, 0x4C, 0x00, 0x13, 0x00, 0x04, 0x00, 0x01, 0x00, 0xC0, 0x00, 0x30, 0x00, 0x00, 0x02],
    [0xA7, 0x17, 0x51, 0x11, 0x6D, 0x37, 0x1B, 0xF9, 0xFE, 0x6E, 0x8C, 0x6E, 0xBF, 0x9F, 0x9F, 0x00]),
   ([0x34, 0x00, 0x4D, 0x00, 0x13, 0x00, 0x04, 0x00, 0x01, 0x00, 0x00, 0x00, 0x40, 0x00, 0x00, 0x02],
    [0xAC, 0x6E, 0x05, 0x55, 0xA7, 0x17, 0x1B, 0xF9, 0xFE, 0x6E, 0xC6, 0xEC, 0xA8, 0xC6, 0xEC, 0x00]),
   ([0x35, 0x00, 0x4D, 0x00, 0x13, 0x00, 0x04, 0x00, 0x01, 0x00, 0x40, 0x00, 0x50, 0x00, 0x00, 0x02],
    [0xA1, 0x71, 0xB0, 0x4E, 0xB4, 0xE6, 0xE0, 0x4E, 0x63, 0x71, 0xBF, 0x9F, 0x2A, 0x8C, 0x6E, 0x00]),
   ([0x36, 0x00, 0x4D, 0x00, 0x13, 0x00, 0x04, 0x00, 0x01, 0x00, 0x80, 0x00, 0x60, 0x00, 0x00, 0x02],
    [0xA6, 0xEC, 0xA9, 0xF9, 0x4D, 0x37, 0x1B, 0xF9, 0xFE, 0x6E, 0x4E, 0x6E, 0xA8, 0xC6, 0xEC, 0x00]),
   ([0x37, 0x00, 0x4D, 0x00, 0x13, 0x00, 0x04, 0x00, 0x01, 0x00, 0xC0, 0x00, 0x70, 0x00, 0x00, 0x02],
    [0xAB, 0xF9, 0x38, 0xC6, 0x36, 0xEC, 0x62, 0xA8, 0xCB, 0xF9, 0xBF, 0x9F, 0xC6, 0xEC, 0x6E, 0x00]),
   ([0x38, 0x00, 0x4E, 0x00, 0x13, 0x00, 0x04, 0x00, 0x01, 0x00, 0x00, 0x00, 0x80, 0x00, 0x00, 0x02],
    [0xA0, 0x4E, 0xAE, 0x6E, 0x16, 0xEC, 0x62, 0xA8, 0xCB, 0xF9, 0xF9, 0xF9, 0x71, 0x71, 0x71, 0x00]),
   ([0x39, 0x00, 0x4E, 0x00, 0x13, 0x00, 0x04, 0x00, 0x01, 0x00, 0x40, 0x00, 0x90, 0x00, 0x00, 0x02],
    [0xA5, 0x55, 0x9F, 0x9F, 0xE5, 0x55, 0x59, 0x99, 0x9E, 0xC6, 0x2A, 0x8C, 0x37, 0x17, 0x17, 0x00]),
   ([0x3A, 0x00, 0x4E, 0x00, 0x13, 0x00, 0x04, 0x00, 0x01, 0x00, 0x80, 0x00, 0xA0, 0x00, 0x00, 0x02],
    [0xAA, 0x8C, 0xAE, 0x6E, 0x16, 0xEC, 0x62, 0xA8, 0xCB, 0xF9, 0x71, 0x71, 0x9F, 0x9F, 0x9F, 0x00]),
   ([0x3B, 0x00, 0x4E, 0x00, 0x13, 0x00, 0x04, 0x00, 0x01, 0x00, 0xC0, 0x00, 0xB0, 0x00, 0x00, 0x02],
    [0xAF, 0x9F, 0xD9, 0xF9, 0x4D, 0x37, 0x1B, 0xF9, 0xFE, 0x6E, 0x8C, 0x6E, 0x37, 0x17, 0x17, 0x00]),
   ([0x3C, 0x00, 0x4F, 0x00, 0x13, 0x00, 0x04, 0x00, 0x01, 0x00, 0x00, 0x00, 0xC0, 0x00, 0x00, 0x02],
    [0xA4, 0xE6, 0x25, 0x55, 0xA7, 0x17, 0x1B, 0xF9, 0xFE, 0x6E, 0xC6, 0xEC, 0x2A, 0x8C, 0x6E, 0x00]),
   ([0x3D, 0x00, 0x4F, 0x00, 0x13, 0x00, 0x04, 0x00, 0x01, 0x00, 0x40, 0x00, 0xD0, 0x00, 0x00, 0x02],
    [0xA9, 0xF9, 0x32, 0xA8, 0x10, 0x4E, 0x62, 0xA8, 0xCB, 0xF9, 0x37, 0x17, 0x2A, 0x8C, 0x6E, 0x00]),
   ([0x3E, 0x00, 0x4F, 0x00, 0x13, 0x00, 0x04, 0x00, 0x01, 0x00, 0x80, 0x00, 0xE0, 0x00, 0x00, 0x02],
    [0xAE, 0x6E, 0x0F, 0x9F, 0xE5, 0x55, 0x59, 0x99, 0x9E, 0xC6, 0x6E, 0xC6, 0x4E, 0x6E, 0xC6, 0x00]),
   ([0x3F, 0x00, 0x4F, 0x00, 0x13, 0x00, 0x04, 0x00, 0x01, 0x00, 0xC0, 0x00, 0xF0, 0x00, 0x00, 0x02],
    [0xA3, 0x71, 0xBA, 0x8C, 0xBE, 0xC6, 0xE0, 0x4E, 0x63, 0x71, 0x37, 0x17, 0xC6, 0xEC, 0x6E, 0x00]),
   ([0x40, 0x00, 0x50, 0x00, 0x14, 0x00, 0x05, 0x00, 0x01, 0x00, 0x00, 0x00, 0x00, 0x00, 0x00, 0x02],
    [0xF9, 0xF9, 0x8C, 0x6E, 0x1B, 0xF9, 0xF2, 0xA8, 0xCB, 0xF9, 0xF9, 0xF9, 0xF9, 0xF9, 0xF9, 0x00]),
   ([0x41, 0x00, 0x50, 0x00, 0x14, 0x00, 0x05, 0x00, 0x01, 0x00, 0x40, 0x00, 0x10, 0x00, 0x00, 0x02],
    [0xFE, 0x6E, 0x55, 0x55, 0xAC, 0x6E, 0xCF, 0x9F, 0x94, 0xE6, 0x2A, 0x8C, 0xBF, 0x9F, 0x9F, 0x00]),
   ([0x42, 0x00, 0x50, 0x00, 0x14, 0x00, 0x05, 0x00, 0x01, 0x00, 0x80, 0x00, 0x20, 0x00, 0x00, 0x02],
    [0xF3, 0x71, 0x04, 0xE6, 0x3B, 0x55, 0x5E, 0xC6, 0xE1, 0x71, 0xF9, 0xF9, 0x9F, 0x9F, 0x9F, 0x00]),
   ([0x43, 0x00, 0x50, 0x00, 0x14, 0x00, 0x05, 0x00, 0x01, 0x00, 0xC0, 0x00, 0x30, 0x00, 0x00, 0x02],
    [0xF8, 0xC6, 0x71, 0x71, 0xCA, 0x8C, 0x67, 0x17, 0x1C, 0x6E, 0x8C, 0x6E, 0xBF, 0x9F, 0x9F, 0x00]),
   ([0x44, 0x00, 0x51, 0x00, 0x14, 0x00, 0x05, 0x00, 0x01, 0x00, 0x00, 0x00, 0x40, 0x00, 0x00, 0x02],
    [0xFD, 0x37, 0xAD, 0x37, 0x62, 0xA8, 0xCF, 0x9F, 0x94, 0xE6, 0xEC, 0x6E, 0x04, 0xE6, 0xEC, 0x00]),
   ([0x45, 0x00, 0x51, 0x00, 0x14, 0x00, 0x05, 0x00, 0x01, 0x00, 0x40, 0x00, 0x50, 0x00, 0x00, 0x02],
    [0xF2, 0xA8, 0x5A, 0x8C, 0xB3, 0x71, 0x7A, 0x8C, 0x63, 0x71, 0xBF, 0x9F, 0x2A, 0x8C, 0x6E, 0x00]),
   ([0x46, 0x00, 0x51, 0x00, 0x14, 0x00, 0x05, 0x00, 0x01, 0x00, 0x80, 0x00, 0x60, 0x00, 0x00, 0x02],
    [0xF7, 0x17, 0xAD, 0x37, 0x62, 0xA8, 0xCF, 0x9F, 0x94, 0xE6, 0x6E, 0xC6, 0xC6, 0xEC, 0x6E, 0x00]),
   ([0x47, 0x00, 0x51, 0x00, 0x14, 0x00, 0x05, 0x00, 0x01, 0x00, 0xC0, 0x00, 0x70, 0x00, 0x00, 0x02],
    [0xFC, 0x6E, 0x5A, 0x8C, 0xB3, 0x71, 0x7A, 0x8C, 0x63, 0x71, 0x37, 0x17, 0x4E, 0x6E, 0xC6, 0x00]),
   ([0x48, 0x00, 0x52, 0x00, 0x14, 0x00, 0x05, 0x00, 0x01, 0x00, 0x00, 0x00, 0x80, 0x00, 0x00, 0x02],
    [0xF1, 0x71, 0x0E, 0xC6, 0x3B, 0x55, 0x5E, 0xC6, 0xE1, 0x71, 0x71, 0x71, 0xF9, 0xF9, 0xF9, 0x00]),
   ([0x49, 0x00, 0x52, 0x00, 0x14, 0x00, 0x05, 0x00, 0x01, 0x00, 0x40, 0x00, 0x90, 0x00, 0x00, 0x02],
    [0xF6, 0xEC, 0xF3, 0x71, 0xCA, 0x8C, 0x67, 0x17, 0x1C, 0x6E, 0x04, 0xE6, 0xB5, 0x55, 0x55, 0x00]),
   ([0x4A, 0x00, 0x52, 0x00, 0x14, 0x00, 0x05, 0x00, 0x01, 0x00, 0x80, 0x00, 0xA0, 0x00, 0x00, 0x02],
    [0xFB, 0xF9, 0x86, 0xEC, 0xB3, 0x71, 0x7A, 0x8C, 0x63, 0x71, 0xF9, 0xF9, 0x17, 0x17, 0x17, 0x00]),
   ([0x4B, 0x00, 0x52, 0x00, 0x14, 0x00, 0x05, 0x00, 0x01, 0x00, 0xC0, 0x00, 0xB0, 0x00, 0x00, 0x02],
    [0xF0, 0x4E, 0xF3, 0x71, 0xCA, 0x8C, 0x67, 0x17, 0x1C, 0x6E, 0x8C, 0x6E, 0x37, 0x17, 0x17, 0x00]),
   ([0x4C, 0x00, 0x53, 0x00, 0x14, 0x00, 0x05, 0x00, 0x01, 0x00, 0x00, 0x00, 0xC0, 0x00, 0x00, 0x02],
    [0xF5, 0x55, 0xEB, 0xF9, 0x42, 0xA8, 0xCF, 0x9F, 0x94, 0xE6, 0xEC, 0x6E, 0x8C, 0x6E, 0xC6, 0x00]),
   ([0x4D, 0x00, 0x53, 0x00, 0x14, 0x00, 0x05, 0x00, 0x01, 0x00, 0x40, 0x00, 0xD0, 0x00, 0x00, 0x02],
    [0xFA, 0x8C, 0xF8, 0xC6, 0x3B, 0x55, 0x5E, 0xC6, 0xE1, 0x71, 0xBF, 0x9F, 0xA8, 0xC6, 0xEC, 0x00]),
   ([0x4E, 0x00, 0x53, 0x00, 0x14, 0x00, 0x05, 0x00, 0x01, 0x00, 0x80, 0x00, 0xE0, 0x00, 0x00, 0x02],
    [0xFF, 0x9F, 0x29, 0x99, 0xE0, 0x4E, 0x67, 0x17, 0x1C, 0x6E, 0x4E, 0x6E, 0x2A, 0x8C, 0x6E, 0x00]),
   ([0x4F, 0x00, 0x53, 0x00, 0x14, 0x00, 0x05, 0x00, 0x01, 0x00, 0xC0, 0x00, 0xF0, 0x00, 0x00, 0x02],
    [0xF4, 0xE6, 0x70, 0x4E, 0xB9, 0xF9, 0xF2, 0xA8, 0xCB, 0xF9, 0xBF, 0x9F, 0x4E, 0x6E, 0xC6, 0x00]),
   ([0x50, 0x00, 0x54, 0x00, 0x15, 0x00, 0x05, 0x00, 0x01, 0x00, 0x00, 0x00, 0x00, 0x00, 0x00, 0x02],
    [0x4E, 0x6E, 0x59, 0x99, 0xE5, 0x55, 0x5E, 0xC6, 0xE1, 0x71, 0x71, 0x71, 0x71, 0x71, 0x71, 0x00]),
   ([0x51, 0x00, 0x54, 0x00, 0x15, 0x00, 0x05, 0x00, 0x01, 0x00, 0x40, 0x00, 0x10, 0x00, 0x00, 0x02],
    [0x43, 0x71, 0x08, 0xC6, 0x30, 0x4E, 0x67, 0x17, 0x1C, 0x6E, 0x04, 0xE6, 0x37, 0x17, 0x17, 0x00]),
   ([0x52, 0x00, 0x54, 0x00, 0x15, 0x00, 0x05, 0x00, 0x01, 0x00, 0x80, 0x00, 0x20, 0x00, 0x00, 0x02],
    [0x48, 0xC6, 0x75, 0x55, 0xA1, 0x71, 0x7A, 0x8C, 0x63, 0x71, 0xF9, 0xF9, 0x9F, 0x9F, 0x9F, 0x00]),
   ([0x53, 0x00, 0x54, 0x00, 0x15, 0x00, 0x05, 0x00, 0x01, 0x00, 0xC0, 0x00, 0x30, 0x00, 0x00, 0x02],
    [0x4D, 0x37, 0xAC, 0x6E, 0x10, 0x4E, 0x67, 0x17, 0x1C, 0x6E, 0x8C, 0x6E, 0xBF, 0x9F, 0x9F, 0x00]),
   ([0x54, 0x00, 0x55, 0x00, 0x15, 0x00, 0x05, 0x00, 0x01, 0x00, 0x00, 0x00, 0x40, 0x00, 0x00, 0x02],
    [0x42, 0xA8, 0x5E, 0xC6, 0x30, 0x4E, 0x67, 0x17, 0x1C, 0x6E, 0xC6, 0xEC, 0xA8, 0xC6, 0xEC, 0x00]),
   ([0x55, 0x00, 0x55, 0x00, 0x15, 0x00, 0x05, 0x00, 0x01, 0x00, 0x40, 0x00, 0x50, 0x00, 0x00, 0x02],
    [0x47, 0x17, 0xA1, 0x71, 0xCF, 0x9F, 0x98, 0xC6, 0xE1, 0x71, 0xBF, 0x9F, 0x2A, 0x8C, 0x6E, 0x00]),
   ([0x56, 0x00, 0x55, 0x00, 0x15, 0x00, 0x05, 0x00, 0x01, 0x00, 0x80, 0x00, 0x60, 0x00, 0x00, 0x02],
    [0x4C, 0x6E, 0x5E, 0xC6, 0x30, 0x4E, 0x67, 0x17, 0x1C, 0x6E, 0x4E, 0x6E, 0xA8, 0xC6, 0xEC, 0x00]),
   ([0x57, 0x00, 0x55, 0x00, 0x15, 0x00, 0x05, 0x00, 0x01, 0x00, 0xC0, 0x00, 0x70, 0x00, 0x00, 0x02],
    [0x41, 0x71, 0x0D, 0x37, 0x67, 0x17, 0x10, 0x4E, 0x63, 0x71, 0x37, 0x17, 0x4E, 0x6E, 0xC6, 0x00]),
   ([0x58, 0x00, 0x56, 0x00, 0x15, 0x00, 0x05, 0x00, 0x01, 0x00, 0x00, 0x00, 0x80, 0x00, 0x00, 0x02],
    [0x46, 0xEC, 0xF7, 0x17, 0x67, 0x17, 0x10, 0x4E, 0x63, 0x71, 0x71, 0x71, 0xF9, 0xF9, 0xF9, 0x00]),
   ([0x59, 0x00, 0x56, 0x00, 0x15, 0x00, 0x05, 0x00, 0x01, 0x00, 0x40, 0x00, 0x90, 0x00, 0x00, 0x02],
    [0x4B, 0xF9, 0x8A, 0x8C, 0xB8, 0xC6, 0xE5, 0x55, 0x5A, 0x8C, 0xA8, 0xC6, 0xB5, 0x55, 0x55, 0x00]),
   ([0x5A, 0x00, 0x56, 0x00, 0x15, 0x00, 0x05, 0x00, 0x01, 0x00, 0x80, 0x00, 0xA0, 0x00, 0x00, 0x02],
    [0x40, 0x4E, 0xF7, 0x17, 0x67, 0x17, 0x10, 0x4E, 0x63, 0x71, 0xF9, 0xF9, 0x17, 0x17, 0x17, 0x00]),
   ([0x5B, 0x00, 0x56, 0x00, 0x15, 0x00, 0x05, 0x00, 0x01, 0x00, 0xC0, 0x00, 0xB0, 0x00, 0x00, 0x02],
    [0x45, 0x55, 0xEA, 0x8C, 0xB8, 0xC6, 0xE5, 0x55, 0x5A, 0x8C, 0x2A, 0x8C, 0xD3, 0x71, 0x71, 0x00]),
   ([0x5C, 0x00, 0x57, 0x00, 0x15, 0x00, 0x05, 0x00, 0x01, 0x00, 0x00, 0x00, 0xC0, 0x00, 0x00, 0x02],
    [0x4A, 0x8C, 0xFC, 0x6E, 0x10, 0x4E, 0x67, 0x17, 0x1C, 0x6E, 0xC6, 0xEC, 0x2A, 0x8C, 0x6E, 0x00]),
   ([0x5D, 0x00, 0x57, 0x00, 0x15, 0x00, 0x05, 0x00, 0x01, 0x00, 0x40, 0x00, 0xD0, 0x00, 0x00, 0x02],
    [0x4F, 0x9F, 0x2D, 0x37, 0x67, 0x17, 0x10, 0x4E, 0x63, 0x71, 0xBF, 0x9F, 0xA8, 0xC6, 0xEC, 0x00]),
   ([0x5E, 0x00, 0x57, 0x00, 0x15, 0x00, 0x05, 0x00, 0x01, 0x00, 0x80, 0x00, 0xE0, 0x00, 0x00, 0x02],
    [0x44, 0xE6, 0x74, 0xE6, 0x30, 0x4E, 0x67, 0x17, 0x1C, 0x6E, 0x4E, 0x6E, 0x2A, 0x8C, 0x6E, 0x00]),
   ([0x5F, 0x00, 0x57, 0x00, 0x15, 0x00, 0x05, 0x00, 0x01, 0x00, 0xC0, 0x00, 0xF0, 0x00, 0x00, 0x02],
    [0x49, 0xF9, 0x8F, 0x9F, 0xEF, 0x9F, 0x98, 0xC6, 0xE1, 0x71, 0x37, 0x17, 0xC6, 0xEC, 0x6E, 0x00]),
   ([0x60, 0x00, 0x58, 0x00, 0x16, 0x00, 0x05, 0x00, 0x01, 0x00, 0x00, 0x00, 0x00, 0x00, 0x00, 0x02],
    [0x9F, 0x9F, 0x22, 0xA8, 0x1F, 0x9F, 0x98, 0xC6, 0xE1, 0x71, 0x71, 0x71, 0x71, 0x71, 0x71, 0x00]),
   ([0x61, 0x00, 0x58, 0x00, 0x16, 0x00, 0x05, 0x00, 0x01, 0x00, 0x40, 0x00, 0x10, 0x00, 0x00, 0x02],
    [0x94, 0xE6, 0x79, 0xF9, 0x4C, 0x6E, 0xCF, 0x9F, 0x94, 0xE6, 0x2A, 0x8C, 0xBF, 0x9F, 0x9F, 0x00]),
   ([0x62, 0x00, 0x58, 0x00, 0x16, 0x00, 0x05, 0x00, 0x01, 0x00, 0x80, 0x00, 0x20, 0x00, 0x00, 0x02],
    [0x99, 0xF9, 0x84, 0xE6, 0x35, 0x55, 0x5E, 0xC6, 0xE1, 0x71, 0xF9, 0xF9, 0x9F, 0x9F, 0x9F, 0x00])]"

definition pif_lut_3 :: pif_lut where
  "pif_lut_3 =
  [([0x63, 0x00, 0x58, 0x00, 0x16, 0x00, 0x05, 0x00, 0x01, 0x00, 0xC0, 0x00, 0x30, 0x00, 0x00, 0x02],
    [0x9E, 0x6E, 0x5D, 0x37, 0x6C, 0x6E, 0xCF, 0x9F, 0x94, 0xE6, 0xA8, 0xC6, 0xD3, 0x71, 0x71, 0x00]),
   ([0x64, 0x00, 0x59, 0x00, 0x16, 0x00, 0x05, 0x00, 0x01, 0x00, 0x00, 0x00, 0x40, 0x00, 0x00, 0x02],
    [0x93, 0x71, 0x01, 0x11, 0x6C, 0x6E, 0xCF, 0x9F, 0x94, 0xE6, 0xEC, 0x6E, 0x04, 0xE6, 0xEC, 0x00]),
   ([0x65, 0x00, 0x59, 0x00, 0x16, 0x00, 0x05, 0x00, 0x01, 0x00, 0x40, 0x00, 0x50, 0x00, 0x00, 0x02],
    [0x98, 0xC6, 0x7E, 0x6E, 0x15, 0x55, 0x5E, 0xC6, 0xE1, 0x71, 0xBF, 0x9F, 0x2A, 0x8C, 0x6E, 0x00]),
   ([0x66, 0x00, 0x59, 0x00, 0x16, 0x00, 0x05, 0x00, 0x01, 0x00, 0x80, 0x00, 0x60, 0x00, 0x00, 0x02],
    [0x9D, 0x37, 0xA5, 0x55, 0xA6, 0xEC, 0x67, 0x17, 0x1C, 0x6E, 0x4E, 0x6E, 0xA8, 0xC6, 0xEC, 0x00]),
   ([0x67, 0x00, 0x59, 0x00, 0x16, 0x00, 0x05, 0x00, 0x01, 0x00, 0xC0, 0x00, 0x70, 0x00, 0x00, 0x02],
    [0x92, 0xA8, 0x52, 0xA8, 0x1F, 0x9F, 0x98, 0xC6, 0xE1, 0x71, 0x37, 0x17, 0x4E, 0x6E, 0xC6, 0x00]),
   ([0x68, 0x00, 0x5A, 0x00, 0x16, 0x00, 0x05, 0x00, 0x01, 0x00, 0x00, 0x00, 0x80, 0x00, 0x00, 0x02],
    [0x97, 0x17, 0xAA, 0x8C, 0xBD, 0x37, 0x10, 0x4E, 0x63, 0x71, 0x71, 0x71, 0xF9, 0xF9, 0xF9, 0x00]),
   ([0x69, 0x00, 0x5A, 0x00, 0x16, 0x00, 0x05, 0x00, 0x01, 0x00, 0x40, 0x00, 0x90, 0x00, 0x00, 0x02],
    [0x9C, 0x6E, 0x57, 0x17, 0x6C, 0x6E, 0xCF, 0x9F, 0x94, 0xE6, 0x2A, 0x8C, 0x37, 0x17, 0x17, 0x00]),
   ([0x6A, 0x00, 0x5A, 0x00, 0x16, 0x00, 0x05, 0x00, 0x01, 0x00, 0x80, 0x00, 0xA0, 0x00, 0x00, 0x02],
    [0x91, 0x71, 0x06, 0xEC, 0xBD, 0x37, 0x10, 0x4E, 0x63, 0x71, 0xF9, 0xF9, 0x17, 0x17, 0x17, 0x00]),
   ([0x6B, 0x00, 0x5A, 0x00, 0x16, 0x00, 0x05, 0x00, 0x01, 0x00, 0xC0, 0x00, 0xB0, 0x00, 0x00, 0x02],
    [0x96, 0xEC, 0xFB, 0xF9, 0x4C, 0x6E, 0xCF, 0x9F, 0x94, 0xE6, 0xA8, 0xC6, 0x55, 0x55, 0x55, 0x00]),
   ([0x6C, 0x00, 0x5B, 0x00, 0x16, 0x00, 0x05, 0x00, 0x01, 0x00, 0x00, 0x00, 0xC0, 0x00, 0x00, 0x02],
    [0x9B, 0xF9, 0x83, 0x71, 0xC4, 0xE6, 0xE5, 0x55, 0x5A, 0x8C, 0x6E, 0xC6, 0xA8, 0xC6, 0xEC, 0x00]),
   ([0x6D, 0x00, 0x5B, 0x00, 0x16, 0x00, 0x05, 0x00, 0x01, 0x00, 0x40, 0x00, 0xD0, 0x00, 0x00, 0x02],
    [0x90, 0x4E, 0xF0, 0x4E, 0xB3, 0x71, 0x7A, 0x8C, 0x63, 0x71, 0xBF, 0x9F, 0xA8, 0xC6, 0xEC, 0x00]),
   ([0x6E, 0x00, 0x5B, 0x00, 0x16, 0x00, 0x05, 0x00, 0x01, 0x00, 0x80, 0x00, 0xE0, 0x00, 0x00, 0x02],
    [0x95, 0x55, 0xE3, 0x71, 0xC4, 0xE6, 0xE5, 0x55, 0x5A, 0x8C, 0xE6, 0xEC, 0xC6, 0xEC, 0x6E, 0x00]),
   ([0x6F, 0x00, 0x5B, 0x00, 0x16, 0x00, 0x05, 0x00, 0x01, 0x00, 0xC0, 0x00, 0xF0, 0x00, 0x00, 0x02],
    [0x9A, 0x8C, 0xF0, 0x4E, 0xB3, 0x71, 0x7A, 0x8C, 0x63, 0x71, 0x37, 0x17, 0xC6, 0xEC, 0x6E, 0x00]),
   ([0x70, 0x00, 0x5C, 0x00, 0x17, 0x00, 0x05, 0x00, 0x01, 0x00, 0x00, 0x00, 0x00, 0x00, 0x00, 0x02],
    [0xE6, 0xEC, 0xF5, 0x55, 0xAB, 0xF9, 0xF2, 0xA8, 0xCB, 0xF9, 0xF9, 0xF9, 0xF9, 0xF9, 0xF9, 0x00]),
   ([0x71, 0x00, 0x5C, 0x00, 0x17, 0x00, 0x05, 0x00, 0x01, 0x00, 0x40, 0x00, 0x10, 0x00, 0x00, 0x02],
    [0xEB, 0x55, 0xE8, 0xC6, 0x3A, 0x8C, 0x67, 0x17, 0x1C, 0x6E, 0x04, 0xE6, 0x37, 0x17, 0x17, 0x00]),
   ([0x72, 0x00, 0x5C, 0x00, 0x17, 0x00, 0x05, 0x00, 0x01, 0x00, 0x80, 0x00, 0x20, 0x00, 0x00, 0x02],
    [0xE0, 0x4E, 0xF5, 0x55, 0xAB, 0xF9, 0xF2, 0xA8, 0xCB, 0xF9, 0x71, 0x71, 0x17, 0x17, 0x17, 0x00]),
   ([0x73, 0x00, 0x5C, 0x00, 0x17, 0x00, 0x05, 0x00, 0x01, 0x00, 0xC0, 0x00, 0x30, 0x00, 0x00, 0x02],
    [0xE5, 0x55, 0xE8, 0xC6, 0x3A, 0x8C, 0x67, 0x17, 0x1C, 0x6E, 0x8C, 0x6E, 0xBF, 0x9F, 0x9F, 0x00]),
   ([0x74, 0x00, 0x5D, 0x00, 0x17, 0x00, 0x05, 0x00, 0x01, 0x00, 0x00, 0x00, 0x40, 0x00, 0x00, 0x02],
    [0xEA, 0x8C, 0xFA, 0x8C, 0xB2, 0xA8, 0xCF, 0x9F, 0x94, 0xE6, 0xEC, 0x6E, 0x04, 0xE6, 0xEC, 0x00]),
   ([0x75, 0x00, 0x5D, 0x00, 0x17, 0x00, 0x05, 0x00, 0x01, 0x00, 0x40, 0x00, 0x50, 0x00, 0x00, 0x02],
    [0xEF, 0x9F, 0x2B, 0x55, 0xAB, 0xF9, 0xF2, 0xA8, 0xCB, 0xF9, 0x37, 0x17, 0xA8, 0xC6, 0xEC, 0x00]),
   ([0x76, 0x00, 0x5D, 0x00, 0x17, 0x00, 0x05, 0x00, 0x01, 0x00, 0x80, 0x00, 0x60, 0x00, 0x00, 0x02],
    [0xE4, 0xE6, 0x72, 0xA8, 0x14, 0xE6, 0xE5, 0x55, 0x5A, 0x8C, 0xE6, 0xEC, 0x4E, 0x6E, 0xC6, 0x00]),
   ([0x77, 0x00, 0x5D, 0x00, 0x17, 0x00, 0x05, 0x00, 0x01, 0x00, 0xC0, 0x00, 0x70, 0x00, 0x00, 0x02],
    [0xE9, 0x99, 0x2B, 0x55, 0xAB, 0xF9, 0xF2, 0xA8, 0xCB, 0xF9, 0xBF, 0x9F, 0xC6, 0xEC, 0x6E, 0x00]),
   ([0x78, 0x00, 0x5E, 0x00, 0x17, 0x00, 0x05, 0x00, 0x01, 0x00, 0x00, 0x00, 0x80, 0x00, 0x00, 0x02],
    [0xEE, 0xC6, 0x77, 0x17, 0x61, 0x11, 0x1A, 0x8C, 0x63, 0x71, 0x71, 0x71, 0xF9, 0xF9, 0xF9, 0x00]),
   ([0x79, 0x00, 0x5E, 0x00, 0x17, 0x00, 0x05, 0x00, 0x01, 0x00, 0x40, 0x00, 0x90, 0x00, 0x00, 0x02],
    [0xE3, 0x71, 0x0A, 0x8C, 0xB2, 0xA8, 0xCF, 0x9F, 0x94, 0xE6, 0x2A, 0x8C, 0x37, 0x17, 0x17, 0x00]),
   ([0x7A, 0x00, 0x5E, 0x00, 0x17, 0x00, 0x05, 0x00, 0x01, 0x00, 0x80, 0x00, 0xA0, 0x00, 0x00, 0x02],
    [0xE8, 0xC6, 0x77, 0x17, 0x61, 0x11, 0x1A, 0x8C, 0x63, 0x71, 0xF9, 0xF9, 0x17, 0x17, 0x17, 0x00]),
   ([0x7B, 0x00, 0x5E, 0x00, 0x17, 0x00, 0x05, 0x00, 0x01, 0x00, 0xC0, 0x00, 0xB0, 0x00, 0x00, 0x02],
    [0xED, 0x37, 0xAE, 0x6E, 0x1A, 0x8C, 0x67, 0x17, 0x1C, 0x6E, 0x8C, 0x6E, 0x37, 0x17, 0x17, 0x00]),
   ([0x7C, 0x00, 0x5F, 0x00, 0x17, 0x00, 0x05, 0x00, 0x01, 0x00, 0x00, 0x00, 0xC0, 0x00, 0x00, 0x02],
    [0xE2, 0xA8, 0x50, 0x4E, 0xB8, 0xC6, 0xE5, 0x55, 0x5A, 0x8C, 0x6E, 0xC6, 0xA8, 0xC6, 0xEC, 0x00]),
   ([0x7D, 0x00, 0x5F, 0x00, 0x17, 0x00, 0x05, 0x00, 0x01, 0x00, 0x40, 0x00, 0xD0, 0x00, 0x00, 0x02],
    [0xE7, 0x17, 0xA3, 0x71, 0xC9, 0xF9, 0xF2, 0xA8, 0xCB, 0xF9, 0x37, 0x17, 0x2A, 0x8C, 0x6E, 0x00]),
   ([0x7E, 0x00, 0x5F, 0x00, 0x17, 0x00, 0x05, 0x00, 0x01, 0x00, 0x80, 0x00, 0xE0, 0x00, 0x00, 0x02],
    [0xEC, 0x6E, 0x50, 0x4E, 0xB8, 0xC6, 0xE5, 0x55, 0x5A, 0x8C, 0xE6, 0xEC, 0xC6, 0xEC, 0x6E, 0x00]),
   ([0x7F, 0x00, 0x5F, 0x00, 0x17, 0x00, 0x05, 0x00, 0x01, 0x00, 0xC0, 0x00, 0xF0, 0x00, 0x00, 0x02],
    [0xE1, 0x11, 0xA3, 0x71, 0xC9, 0xF9, 0xF2, 0xAB, 0xCB, 0xF9, 0xBF, 0x9F, 0x4E, 0x6E, 0xC6, 0x00]),
   ([0x80, 0x00, 0x60, 0x00, 0x18, 0x00, 0x06, 0x00, 0x01, 0x00, 0x00, 0x00, 0x00, 0x00, 0x00, 0x02],
    [0x37, 0x17, 0xF9, 0xF9, 0x46, 0xEC, 0x6C, 0x6E, 0xCB, 0xF9, 0xF9, 0xF9, 0xF9, 0xF9, 0xF9, 0x00]),
   ([0x81, 0x00, 0x60, 0x00, 0x18, 0x00, 0x06, 0x00, 0x01, 0x00, 0x40, 0x00, 0x10, 0x00, 0x00, 0x02],
    [0x3C, 0x6E, 0xA8, 0xC6, 0x3F, 0x9F, 0x9D, 0x37, 0x1C, 0x6E, 0x04, 0xE6, 0x37, 0x17, 0x17, 0x00]),
   ([0x82, 0x00, 0x60, 0x00, 0x18, 0x00, 0x06, 0x00, 0x01, 0x00, 0x80, 0x00, 0x20, 0x00, 0x00, 0x02],
    [0x31, 0x11, 0xF9, 0xF9, 0x46, 0xEC, 0x6C, 0x6E, 0xCB, 0xF9, 0x71, 0x71, 0x17, 0x17, 0x17, 0x00]),
   ([0x83, 0x00, 0x60, 0x00, 0x18, 0x00, 0x06, 0x00, 0x01, 0x00, 0xC0, 0x00, 0x30, 0x00, 0x00, 0x02],
    [0x36, 0xEC, 0x4E, 0x6E, 0x1F, 0x9F, 0x9D, 0x37, 0x1C, 0x6E, 0x8C, 0x6E, 0xBF, 0x9F, 0x9F, 0x00]),
   ([0x84, 0x00, 0x61, 0x00, 0x18, 0x00, 0x06, 0x00, 0x01, 0x00, 0x00, 0x00, 0x40, 0x00, 0x00, 0x02],
    [0x3B, 0x55, 0x3C, 0x6E, 0x1F, 0x9F, 0x9D, 0x37, 0x1C, 0x6E, 0xC6, 0xEC, 0xA8, 0xC6, 0xEC, 0x00]),
   ([0x85, 0x00, 0x61, 0x00, 0x18, 0x00, 0x06, 0x00, 0x01, 0x00, 0x40, 0x00, 0x50, 0x00, 0x00, 0x02],
    [0x30, 0x4E, 0x43, 0x71, 0xCE, 0x6E, 0xC4, 0xE6, 0xE1, 0x71, 0xBF, 0x9F, 0x2A, 0x8C, 0x6E, 0x00]),
   ([0x86, 0x00, 0x61, 0x00, 0x18, 0x00, 0x06, 0x00, 0x01, 0x00, 0x80, 0x00, 0x60, 0x00, 0x00, 0x02],
    [0x35, 0x55, 0x3C, 0x6E, 0x1F, 0x9F, 0x9D, 0x37, 0x1C, 0x6E, 0x4E, 0x6E, 0xA8, 0xC6, 0xEC, 0x00]),
   ([0x87, 0x00, 0x61, 0x00, 0x18, 0x00, 0x06, 0x00, 0x01, 0x00, 0xC0, 0x00, 0x70, 0x00, 0x00, 0x02],
    [0x3A, 0x8C, 0x43, 0x71, 0xCE, 0x6E, 0xC4, 0xE6, 0xE1, 0x71, 0x37, 0x17, 0x4E, 0x6E, 0xC6, 0x00]),
   ([0x88, 0x00, 0x62, 0x00, 0x18, 0x00, 0x06, 0x00, 0x01, 0x00, 0x00, 0x00, 0x80, 0x00, 0x00, 0x02],
    [0x3F, 0x9F, 0x7B, 0xF9, 0x46, 0xEC, 0x6C, 0x6E, 0xCB, 0xF9, 0xF9, 0xF9, 0x71, 0x71, 0x71, 0x00]),
   ([0x89, 0x00, 0x62, 0x00, 0x18, 0x00, 0x06, 0x00, 0x01, 0x00, 0x40, 0x00, 0x90, 0x00, 0x00, 0x02],
    [0x34, 0xE6, 0xC0, 0x4E, 0xBD, 0x37, 0x15, 0x55, 0x5A, 0x8C, 0xA8, 0xC6, 0xB5, 0x55, 0x55, 0x00]),
   ([0x8A, 0x00, 0x62, 0x00, 0x18, 0x00, 0x06, 0x00, 0x01, 0x00, 0x80, 0x00, 0xA0, 0x00, 0x00, 0x02],
    [0x39, 0x99, 0x7B, 0xF9, 0x46, 0xEC, 0x6C, 0x6E, 0xCB, 0xF9, 0x71, 0x71, 0x9F, 0x9F, 0x9F, 0x00]),
   ([0x8B, 0x00, 0x62, 0x00, 0x18, 0x00, 0x06, 0x00, 0x01, 0x00, 0xC0, 0x00, 0xB0, 0x00, 0x00, 0x02],
    [0x3E, 0xC6, 0xC0, 0x4E, 0xBD, 0x37, 0x15, 0x55, 0x5A, 0x8C, 0x2A, 0x8C, 0xD3, 0x71, 0x71, 0x00]),
   ([0x8C, 0x00, 0x63, 0x00, 0x18, 0x00, 0x06, 0x00, 0x01, 0x00, 0x00, 0x00, 0xC0, 0x00, 0x00, 0x02],
    [0x33, 0x71, 0x54, 0xE6, 0x3F, 0x9F, 0x9D, 0x37, 0x1C, 0x6E, 0xC6, 0xEC, 0x2A, 0x8C, 0x6E, 0x00]),
   ([0x8D, 0x00, 0x63, 0x00, 0x18, 0x00, 0x06, 0x00, 0x01, 0x00, 0x40, 0x00, 0xD0, 0x00, 0x00, 0x02],
    [0x38, 0xC6, 0xC5, 0x55, 0xA0, 0x4E, 0x6C, 0x6E, 0xCB, 0xF9, 0x37, 0x17, 0x2A, 0x8C, 0x6E, 0x00]),
   ([0x8E, 0x00, 0x63, 0x00, 0x18, 0x00, 0x06, 0x00, 0x01, 0x00, 0x80, 0x00, 0xE0, 0x00, 0x00, 0x02],
    [0x3D, 0x37, 0xF8, 0xC6, 0x3F, 0x9F, 0x9D, 0x37, 0x1C, 0x6E, 0x4E, 0x6E, 0x2A, 0x8C, 0x6E, 0x00]),
   ([0x8F, 0x00, 0x63, 0x00, 0x18, 0x00, 0x06, 0x00, 0x01, 0x00, 0xC0, 0x00, 0xF0, 0x00, 0x00, 0x02],
    [0x32, 0xA8, 0xA7, 0x17, 0x66, 0xEC, 0x6C, 0x6E, 0xCB, 0xF9, 0xBF, 0x9F, 0x4E, 0x6E, 0xC6, 0x00]),
   ([0x90, 0x00, 0x64, 0x00, 0x19, 0x00, 0x06, 0x00, 0x01, 0x00, 0x00, 0x00, 0x00, 0x00, 0x00, 0x02],
    [0x8C, 0x6E, 0xAC, 0x6E, 0x14, 0xE6, 0xEA, 0x8C, 0x63, 0x71, 0x71, 0x71, 0x71, 0x71, 0x71, 0x00]),
   ([0x91, 0x00, 0x64, 0x00, 0x19, 0x00, 0x06, 0x00, 0x01, 0x00, 0x40, 0x00, 0x10, 0x00, 0x00, 0x02],
    [0x81, 0x11, 0xFD, 0x37, 0x6B, 0x55, 0x53, 0x71, 0x76, 0xEC, 0xA8, 0xC6, 0x37, 0x17, 0x17, 0x00]),
   ([0x92, 0x00, 0x64, 0x00, 0x19, 0x00, 0x06, 0x00, 0x01, 0x00, 0x80, 0x00, 0x20, 0x00, 0x00, 0x02],
    [0x86, 0xEC, 0x42, 0xA8, 0x1E, 0xC6, 0xEA, 0x8C, 0x63, 0x71, 0xF9, 0xF9, 0x9F, 0x9F, 0x9F, 0x00]),
   ([0x93, 0x00, 0x64, 0x00, 0x19, 0x00, 0x06, 0x00, 0x01, 0x00, 0xC0, 0x00, 0x30, 0x00, 0x00, 0x02],
    [0x8B, 0x55, 0x3B, 0x55, 0xA5, 0x55, 0x53, 0x71, 0x76, 0xEC, 0x2A, 0x8C, 0x55, 0x55, 0x55, 0x00]),
   ([0x94, 0x00, 0x65, 0x00, 0x19, 0x00, 0x06, 0x00, 0x01, 0x00, 0x00, 0x00, 0x40, 0x00, 0x00, 0x02],
    [0x80, 0x4E, 0x47, 0x17, 0x6B, 0x55, 0x53, 0x71, 0x76, 0xEC, 0x6E, 0xC6, 0x2A, 0x8C, 0x6E, 0x00])]"

definition pif_lut_4 :: pif_lut where
  "pif_lut_4 =
  [([0x95, 0x00, 0x65, 0x00, 0x19, 0x00, 0x06, 0x00, 0x01, 0x00, 0x40, 0x00, 0x50, 0x00, 0x00, 0x02],
    [0x85, 0x55, 0x30, 0x4E, 0xB2, 0xA8, 0xC4, 0xE6, 0xE1, 0x71, 0xBF, 0x9F, 0x2A, 0x8C, 0x6E, 0x00]),
   ([0x96, 0x00, 0x65, 0x00, 0x19, 0x00, 0x06, 0x00, 0x01, 0x00, 0x80, 0x00, 0x60, 0x00, 0x00, 0x02],
    [0x8A, 0x8C, 0x47, 0x17, 0x6B, 0x55, 0x53, 0x71, 0x76, 0xEC, 0xE6, 0xEC, 0x4E, 0x6E, 0xC6, 0x00]),
   ([0x97, 0x00, 0x65, 0x00, 0x19, 0x00, 0x06, 0x00, 0x01, 0x00, 0xC0, 0x00, 0x70, 0x00, 0x00, 0x02],
    [0x8F, 0x9F, 0x7A, 0x8C, 0xBC, 0x6E, 0xC4, 0xE6, 0xE1, 0x71, 0x37, 0x17, 0x4E, 0x6E, 0xC6, 0x00]),
   ([0x98, 0x00, 0x66, 0x00, 0x19, 0x00, 0x06, 0x00, 0x01, 0x00, 0x00, 0x00, 0x80, 0x00, 0x00, 0x02],
    [0x84, 0xE6, 0xC4, 0xE6, 0x34, 0xE6, 0xEA, 0x8C, 0x63, 0x71, 0x71, 0x71, 0xF9, 0xF9, 0xF9, 0x00]),
   ([0x99, 0x00, 0x66, 0x00, 0x19, 0x00, 0x06, 0x00, 0x01, 0x00, 0x40, 0x00, 0x90, 0x00, 0x00, 0x02],
    [0x89, 0x99, 0x7F, 0x9F, 0xE3, 0x71, 0x7F, 0x9F, 0x94, 0xE6, 0x2A, 0x8C, 0x37, 0x17, 0x17, 0x00]),
   ([0x9A, 0x00, 0x66, 0x00, 0x19, 0x00, 0x06, 0x00, 0x01, 0x00, 0x80, 0x00, 0xA0, 0x00, 0x00, 0x02],
    [0x8E, 0xC6, 0xC4, 0xE6, 0x34, 0xE6, 0xEA, 0x8C, 0x63, 0x71, 0xF9, 0xF9, 0x17, 0x17, 0x17, 0x00]),
   ([0x9B, 0x00, 0x66, 0x00, 0x19, 0x00, 0x06, 0x00, 0x01, 0x00, 0xC0, 0x00, 0xB0, 0x00, 0x00, 0x02],
    [0x83, 0x71, 0x53, 0x71, 0xC3, 0x71, 0x7F, 0x9F, 0x94, 0xE6, 0xA8, 0xC6, 0x55, 0x55, 0x55, 0x00]),
   ([0x9C, 0x00, 0x67, 0x00, 0x19, 0x00, 0x06, 0x00, 0x01, 0x00, 0x00, 0x00, 0xC0, 0x00, 0x00, 0x02],
    [0x88, 0xC6, 0xC9, 0xF9, 0x4B, 0xF9, 0xF7, 0x17, 0x1C, 0x6E, 0xC6, 0xEC, 0x2A, 0x8C, 0x6E, 0x00]),
   ([0x9D, 0x00, 0x67, 0x00, 0x19, 0x00, 0x06, 0x00, 0x01, 0x00, 0x40, 0x00, 0xD0, 0x00, 0x00, 0x02],
    [0x8D, 0x37, 0xFC, 0x6E, 0x14, 0xE6, 0xEA, 0x8C, 0x63, 0x71, 0xBF, 0x9F, 0xA8, 0xC6, 0xEC, 0x00]),
   ([0x9E, 0x00, 0x67, 0x00, 0x19, 0x00, 0x06, 0x00, 0x01, 0x00, 0x80, 0x00, 0xE0, 0x00, 0x00, 0x02],
    [0x82, 0xA8, 0xAB, 0xF9, 0x4B, 0xF9, 0xF7, 0x17, 0x1C, 0x6E, 0x4E, 0x6E, 0x2A, 0x8C, 0x6E, 0x00]),
   ([0x9F, 0x00, 0x67, 0x00, 0x19, 0x00, 0x06, 0x00, 0x01, 0x00, 0xC0, 0x00, 0xF0, 0x00, 0x00, 0x02],
    [0x87, 0x17, 0xFC, 0x6E, 0x14, 0xE6, 0xEA, 0x8C, 0x63, 0x71, 0x37, 0x17, 0xC6, 0xEC, 0x6E, 0x00]),
   ([0xA0, 0x00, 0x28, 0x00, 0x0A, 0x00, 0x02, 0x00, 0x00, 0x00, 0x00, 0x00, 0x00, 0x00, 0x00, 0x02],
    [0xD3, 0x71, 0x1F, 0x9F, 0x91, 0x71, 0x7B, 0xF9, 0xF9, 0xF9, 0xF9, 0xF9, 0xF9, 0xF9, 0xF9, 0x00]),
   ([0xA1, 0x00, 0x28, 0x00, 0x0A, 0x00, 0x02, 0x00, 0x00, 0x00, 0x40, 0x00, 0x10, 0x00, 0x00, 0x02],
    [0xD8, 0xC6, 0x84, 0xE6, 0xEE, 0x6E, 0xC0, 0x4E, 0x6E, 0xC6, 0x2A, 0x8C, 0xBF, 0x9F, 0x9F, 0x00]),
   ([0xA2, 0x00, 0x28, 0x00, 0x0A, 0x00, 0x02, 0x00, 0x00, 0x00, 0x80, 0x00, 0x20, 0x00, 0x00, 0x02],
    [0xDD, 0x37, 0xB7, 0x17, 0x19, 0xF9, 0xF3, 0x71, 0x71, 0x71, 0xF9, 0xF9, 0x9F, 0x9F, 0x9F, 0x00]),
   ([0xA3, 0x00, 0x28, 0x00, 0x0A, 0x00, 0x02, 0x00, 0x00, 0x00, 0xC0, 0x00, 0x30, 0x00, 0x00, 0x02],
    [0xD2, 0xA8, 0x66, 0xEC, 0x60, 0x4E, 0x68, 0xC6, 0xEC, 0x6E, 0x8C, 0x6E, 0xBF, 0x9F, 0x9F, 0x00]),
   ([0xA4, 0x00, 0x29, 0x00, 0x0A, 0x00, 0x02, 0x00, 0x00, 0x00, 0x00, 0x00, 0x40, 0x00, 0x00, 0x02],
    [0xD7, 0x17, 0xBC, 0x6E, 0xC8, 0xC6, 0xE6, 0xEC, 0x6E, 0xC6, 0xEC, 0x6E, 0x04, 0xE6, 0xEC, 0x00]),
   ([0xA5, 0x00, 0x29, 0x00, 0x0A, 0x00, 0x02, 0x00, 0x00, 0x00, 0x40, 0x00, 0x50, 0x00, 0x00, 0x02],
    [0xDC, 0x6E, 0x6B, 0x55, 0x57, 0x17, 0x11, 0x71, 0x71, 0x71, 0xBF, 0x9F, 0x2A, 0x8C, 0x6E, 0x00]),
   ([0xA6, 0x00, 0x29, 0x00, 0x0A, 0x00, 0x02, 0x00, 0x00, 0x00, 0x80, 0x00, 0x60, 0x00, 0x00, 0x02],
    [0xD1, 0x71, 0x14, 0xE6, 0xEE, 0x6E, 0xC0, 0x4E, 0x6E, 0xC6, 0x6E, 0xC6, 0xC6, 0xEC, 0x6E, 0x00]),
   ([0xA7, 0x00, 0x29, 0x00, 0x0A, 0x00, 0x02, 0x00, 0x00, 0x00, 0xC0, 0x00, 0x70, 0x00, 0x00, 0x02],
    [0xD6, 0xEC, 0x01, 0x11, 0x13, 0x71, 0x7B, 0xF9, 0xF9, 0xF9, 0xBF, 0x9F, 0xC6, 0xEC, 0x6E, 0x00]),
   ([0xA8, 0x00, 0x2A, 0x00, 0x0A, 0x00, 0x02, 0x00, 0x00, 0x00, 0x00, 0x00, 0x80, 0x00, 0x00, 0x02],
    [0xDB, 0xF9, 0x91, 0x71, 0x73, 0x71, 0x7B, 0xF9, 0xF9, 0xF9, 0xF9, 0xF9, 0x71, 0x71, 0x71, 0x00]),
   ([0xA9, 0x00, 0x2A, 0x00, 0x0A, 0x00, 0x02, 0x00, 0x00, 0x00, 0x40, 0x00, 0x90, 0x00, 0x00, 0x02],
    [0xD0, 0x4E, 0x06, 0xEC, 0x60, 0x4E, 0x68, 0xC6, 0xEC, 0x6E, 0x04, 0xE6, 0xB5, 0x55, 0x55, 0x00]),
   ([0xAA, 0x00, 0x2A, 0x00, 0x0A, 0x00, 0x02, 0x00, 0x00, 0x00, 0x80, 0x00, 0xA0, 0x00, 0x00, 0x02],
    [0xD5, 0x55, 0xFB, 0xF9, 0xFB, 0xF9, 0xF3, 0x71, 0x71, 0x71, 0xF9, 0xF9, 0x17, 0x17, 0x17, 0x00]),
   ([0xAB, 0x00, 0x2A, 0x00, 0x0A, 0x00, 0x02, 0x00, 0x00, 0x00, 0xC0, 0x00, 0xB0, 0x00, 0x00, 0x02],
    [0xDA, 0x8C, 0x06, 0xEC, 0x60, 0x4E, 0x68, 0xC6, 0xEC, 0x6E, 0x8C, 0x6E, 0x37, 0x17, 0x17, 0x00]),
   ([0xAC, 0x00, 0x2B, 0x00, 0x0A, 0x00, 0x02, 0x00, 0x00, 0x00, 0x00, 0x00, 0xC0, 0x00, 0x00, 0x02],
    [0xDF, 0x9F, 0x3E, 0xC6, 0xEE, 0x6E, 0xC0, 0x4E, 0x6E, 0xC6, 0xEC, 0x6E, 0x8C, 0x6E, 0xC6, 0x00]),
   ([0xAD, 0x00, 0x2B, 0x00, 0x0A, 0x00, 0x02, 0x00, 0x00, 0x00, 0x40, 0x00, 0xD0, 0x00, 0x00, 0x02],
    [0xD4, 0xE6, 0x83, 0x71, 0x73, 0x71, 0x7B, 0xF9, 0xF9, 0xF9, 0x37, 0x17, 0x2A, 0x8C, 0x6E, 0x00]),
   ([0xAE, 0x00, 0x2B, 0x00, 0x0A, 0x00, 0x02, 0x00, 0x00, 0x00, 0x80, 0x00, 0xE0, 0x00, 0x00, 0x02],
    [0xD9, 0xF9, 0x96, 0xEC, 0x60, 0x4E, 0x68, 0xC6, 0xEC, 0x6E, 0x4E, 0x6E, 0x2A, 0x8C, 0x6E, 0x00]),
   ([0xAF, 0x00, 0x2B, 0x00, 0x0A, 0x00, 0x02, 0x00, 0x00, 0x00, 0xC0, 0x00, 0xF0, 0x00, 0x00, 0x02],
    [0xDE, 0x6E, 0x65, 0x55, 0x57, 0x17, 0x11, 0x71, 0x71, 0x71, 0x37, 0x17, 0xC6, 0xEC, 0x6E, 0x00]),
   ([0xB0, 0x00, 0x2C, 0x00, 0x0B, 0x00, 0x02, 0x00, 0x00, 0x00, 0x00, 0x00, 0x00, 0x00, 0x00, 0x02],
    [0x2A, 0x8C, 0x00, 0x4E, 0x65, 0x55, 0x5F, 0x9F, 0x9F, 0x9F, 0x9F, 0x9F, 0x9F, 0x9F, 0x9F, 0x00]),
   ([0xB1, 0x00, 0x2C, 0x00, 0x0B, 0x00, 0x02, 0x00, 0x00, 0x00, 0x40, 0x00, 0x10, 0x00, 0x00, 0x02],
    [0x2F, 0x9F, 0x33, 0x71, 0x78, 0xC6, 0xE6, 0xEC, 0x6E, 0xC6, 0x2A, 0x8C, 0xBF, 0x9F, 0x9F, 0x00]),
   ([0xB2, 0x00, 0x2C, 0x00, 0x0B, 0x00, 0x02, 0x00, 0x00, 0x00, 0x80, 0x00, 0x20, 0x00, 0x00, 0x02],
    [0x24, 0xE6, 0x88, 0xC6, 0xE3, 0x71, 0x7B, 0xF9, 0xF9, 0xF9, 0x71, 0x71, 0x17, 0x17, 0x17, 0x99]),
   ([0xB3, 0x00, 0x2C, 0x00, 0x0B, 0x00, 0x02, 0x00, 0x00, 0x00, 0xC0, 0x00, 0x30, 0x00, 0x00, 0x02],
    [0x29, 0x99, 0x33, 0x71, 0x78, 0xC6, 0xE6, 0xEC, 0x6E, 0xC6, 0xA8, 0xC6, 0xD3, 0x71, 0x71, 0x00]),
   ([0xB4, 0x00, 0x2D, 0x00, 0x0B, 0x00, 0x02, 0x00, 0x00, 0x00, 0x00, 0x00, 0x40, 0x00, 0x00, 0x02],
    [0x2E, 0xC6, 0x8D, 0x37, 0x1E, 0x6E, 0xC0, 0x4E, 0x6E, 0xC6, 0xEC, 0x6E, 0x04, 0xE6, 0xEC, 0x00]),
   ([0xB5, 0x00, 0x2D, 0x00, 0x0B, 0x00, 0x02, 0x00, 0x00, 0x00, 0x40, 0x00, 0x50, 0x00, 0x00, 0x02],
    [0x23, 0x71, 0x18, 0xC6, 0xE3, 0x71, 0x7B, 0xF9, 0xF9, 0xF9, 0x37, 0x17, 0xA8, 0xC6, 0xEC, 0x00]),
   ([0xB6, 0x00, 0x2D, 0x00, 0x0B, 0x00, 0x02, 0x00, 0x00, 0x00, 0x80, 0x00, 0x60, 0x00, 0x00, 0x02],
    [0x28, 0xC6, 0x8D, 0x37, 0x1E, 0x6E, 0xC0, 0x4E, 0x6E, 0xC6, 0x6E, 0xC6, 0xC6, 0xEC, 0x6E, 0x00]),
   ([0xB7, 0x00, 0x2D, 0x00, 0x0B, 0x00, 0x02, 0x00, 0x00, 0x00, 0xC0, 0x00, 0x70, 0x00, 0x00, 0x02],
    [0x2D, 0x37, 0xB0, 0x4E, 0x65, 0x55, 0x5F, 0x9F, 0x9F, 0x9F, 0x55, 0x55, 0x8C, 0x6E, 0xC6, 0x00]),
   ([0xB8, 0x00, 0x2E, 0x00, 0x0B, 0x00, 0x02, 0x00, 0x00, 0x00, 0x00, 0x00, 0x80, 0x00, 0x00, 0x02],
    [0x22, 0xA8, 0x64, 0xE6, 0xE3, 0x71, 0x7B, 0xF9, 0xF9, 0xF9, 0xF9, 0xF9, 0x71, 0x71, 0x71, 0x00]),
   ([0xB9, 0x00, 0x2E, 0x00, 0x0B, 0x00, 0x02, 0x00, 0x00, 0x00, 0x40, 0x00, 0x90, 0x00, 0x00, 0x02],
    [0x27, 0x17, 0xB5, 0x55, 0x5C, 0x6E, 0xC0, 0x4E, 0x6E, 0xC6, 0x2A, 0x8C, 0x37, 0x17, 0x17, 0x00]),
   ([0xBA, 0x00, 0x2E, 0x00, 0x0B, 0x00, 0x02, 0x00, 0x00, 0x00, 0x80, 0x00, 0xA0, 0x00, 0x00, 0x02],
    [0x2C, 0x6E, 0x64, 0xE6, 0xE3, 0x71, 0x7B, 0xF9, 0xF9, 0xF9, 0x71, 0x71, 0x9F, 0x9F, 0x9F, 0x00]),
   ([0xBB, 0x00, 0x2E, 0x00, 0x0B, 0x00, 0x02, 0x00, 0x00, 0x00, 0xC0, 0x00, 0xB0, 0x00, 0x00, 0x02],
    [0x21, 0x11, 0xBB, 0xF9, 0xF0, 0x4E, 0x68, 0xC6, 0xEC, 0x6E, 0x8C, 0x6E, 0x37, 0x17, 0x17, 0x00]),
   ([0xBC, 0x00, 0x2F, 0x00, 0x0B, 0x00, 0x02, 0x00, 0x00, 0x00, 0x00, 0x00, 0xC0, 0x00, 0x00, 0x02],
    [0x26, 0xEC, 0x0F, 0x9F, 0x96, 0xEC, 0x68, 0xC6, 0xEC, 0x6E, 0xC6, 0xEC, 0x2A, 0x8C, 0x6E, 0x00]),
   ([0xBD, 0x00, 0x2F, 0x00, 0x0B, 0x00, 0x02, 0x00, 0x00, 0x00, 0x40, 0x00, 0xD0, 0x00, 0x00, 0x02],
    [0x2B, 0x55, 0xF4, 0xE6, 0xE3, 0x71, 0x7B, 0xF9, 0xF9, 0xF9, 0x37, 0x17, 0x2A, 0x8C, 0x6E, 0x00]),
   ([0xBE, 0x00, 0x2F, 0x00, 0x0B, 0x00, 0x02, 0x00, 0x00, 0x00, 0x80, 0x00, 0xE0, 0x00, 0x00, 0x02],
    [0x20, 0x4E, 0x0F, 0x9F, 0x96, 0xEC, 0x68, 0xC6, 0xEC, 0x6E, 0x4E, 0x6E, 0x2A, 0x8C, 0x6E, 0x00]),
   ([0xBF, 0x00, 0x2F, 0x00, 0x0B, 0x00, 0x02, 0x00, 0x00, 0x00, 0xC0, 0x00, 0xF0, 0x00, 0x00, 0x02],
    [0x25, 0x55, 0xF4, 0xE6, 0xE3, 0x71, 0x7B, 0xF9, 0xF9, 0xF9, 0xBF, 0x9F, 0x4E, 0x6E, 0xC6, 0x00]),
   ([0xC0, 0x00, 0x30, 0x00, 0x0C, 0x00, 0x03, 0x00, 0x00, 0x00, 0x00, 0x00, 0x00, 0x00, 0x00, 0x02],
    [0x71, 0x71, 0x6E, 0xC6, 0xE8, 0xC6, 0xEB, 0xF9, 0xF9, 0xF9, 0xF9, 0xF9, 0xF9, 0xF9, 0xF9, 0x00]),
   ([0xC1, 0x00, 0x30, 0x00, 0x0C, 0x00, 0x03, 0x00, 0x00, 0x00, 0x40, 0x00, 0x10, 0x00, 0x00, 0x02],
    [0x76, 0xEC, 0x55, 0x55, 0x51, 0x11, 0x10, 0x4E, 0x6E, 0xC6, 0x2A, 0x8C, 0xBF, 0x9F, 0x9F, 0x00]),
   ([0xC2, 0x00, 0x30, 0x00, 0x0C, 0x00, 0x03, 0x00, 0x00, 0x00, 0x80, 0x00, 0x20, 0x00, 0x00, 0x02],
    [0x7B, 0xF9, 0xE6, 0xEC, 0x6A, 0x8C, 0x6D, 0x37, 0x17, 0x17, 0x9F, 0x9F, 0x37, 0x17, 0x17, 0x00]),
   ([0xC3, 0x00, 0x30, 0x00, 0x0C, 0x00, 0x03, 0x00, 0x00, 0x00, 0xC0, 0x00, 0x30, 0x00, 0x00, 0x02],
    [0x70, 0x4E, 0x55, 0x55, 0x51, 0x11, 0x10, 0x4E, 0x6E, 0xC6, 0xA8, 0xC6, 0xD3, 0x71, 0x71, 0x00]),
   ([0xC4, 0x00, 0x31, 0x00, 0x0C, 0x00, 0x03, 0x00, 0x00, 0x00, 0x00, 0x00, 0x40, 0x00, 0x00, 0x02],
    [0x75, 0x55, 0x43, 0x71, 0x7D, 0x37, 0x16, 0xEC, 0x6E, 0xC6, 0xEC, 0x6E, 0x04, 0xE6, 0xEC, 0x00]),
   ([0xC5, 0x00, 0x31, 0x00, 0x0C, 0x00, 0x03, 0x00, 0x00, 0x00, 0x40, 0x00, 0x50, 0x00, 0x00, 0x02],
    [0x7A, 0x8C, 0x5A, 0x8C, 0x6A, 0x8C, 0x6D, 0x37, 0x17, 0x17, 0x55, 0x55, 0xEC, 0x6E, 0xC6, 0x00]),
   ([0xC6, 0x00, 0x31, 0x00, 0x0C, 0x00, 0x03, 0x00, 0x00, 0x00, 0x80, 0x00, 0x60, 0x00, 0x00, 0x02],
    [0x7F, 0x9F, 0x81, 0x11, 0x1D, 0x37, 0x16, 0xEC, 0x6E, 0xC6, 0x6E, 0xC6, 0xC6, 0xEC, 0x6E, 0x00])]"

definition pif_lut_5 :: pif_lut where
  "pif_lut_5 =
  [([0xC7, 0x00, 0x31, 0x00, 0x0C, 0x00, 0x03, 0x00, 0x00, 0x00, 0xC0, 0x00, 0x70, 0x00, 0x00, 0x02],
    [0x74, 0xE6, 0xD8, 0xC6, 0xE8, 0xC6, 0xEB, 0xF9, 0xF9, 0xF9, 0xBF, 0x9F, 0xC6, 0xEC, 0x6E, 0x00]),
   ([0xC8, 0x00, 0x32, 0x00, 0x0C, 0x00, 0x03, 0x00, 0x00, 0x00, 0x00, 0x00, 0x80, 0x00, 0x00, 0x02],
    [0x79, 0xF9, 0xE0, 0x4E, 0x6A, 0x8C, 0x6D, 0x37, 0x17, 0x17, 0x17, 0x17, 0x9F, 0x9F, 0x9F, 0x00]),
   ([0xC9, 0x00, 0x32, 0x00, 0x0C, 0x00, 0x03, 0x00, 0x00, 0x00, 0x40, 0x00, 0x90, 0x00, 0x00, 0x02],
    [0x7E, 0x6E, 0xB9, 0x99, 0x95, 0x55, 0x54, 0xE6, 0xEC, 0x6E, 0x04, 0xE6, 0xB5, 0x55, 0x55, 0x00]),
   ([0xCA, 0x00, 0x32, 0x00, 0x0C, 0x00, 0x03, 0x00, 0x00, 0x00, 0x80, 0x00, 0xA0, 0x00, 0x00, 0x02],
    [0x73, 0x71, 0x68, 0xC6, 0xE8, 0xC6, 0xEB, 0xF9, 0xF9, 0xF9, 0x71, 0x71, 0x9F, 0x9F, 0x9F, 0x00]),
   ([0xCB, 0x00, 0x32, 0x00, 0x0C, 0x00, 0x03, 0x00, 0x00, 0x00, 0xC0, 0x00, 0xB0, 0x00, 0x00, 0x02],
    [0x78, 0xC6, 0xDD, 0x37, 0x13, 0x71, 0x70, 0x4E, 0x6E, 0xC6, 0xA8, 0xC6, 0x55, 0x55, 0x55, 0x00]),
   ([0xCC, 0x00, 0x33, 0x00, 0x0C, 0x00, 0x03, 0x00, 0x00, 0x00, 0x00, 0x00, 0xC0, 0x00, 0x00, 0x02],
    [0x7D, 0x37, 0x03, 0x71, 0x7D, 0x37, 0x16, 0xEC, 0x6E, 0xC6, 0xEC, 0x6E, 0x8C, 0x6E, 0xC6, 0x00]),
   ([0xCD, 0x00, 0x33, 0x00, 0x0C, 0x00, 0x03, 0x00, 0x00, 0x00, 0x40, 0x00, 0xD0, 0x00, 0x00, 0x02],
    [0x72, 0xA8, 0xB4, 0xE6, 0xE8, 0xC6, 0xEB, 0xF9, 0xF9, 0xF9, 0x37, 0x17, 0x2A, 0x8C, 0x6E, 0x00]),
   ([0xCE, 0x00, 0x33, 0x00, 0x0C, 0x00, 0x03, 0x00, 0x00, 0x00, 0x80, 0x00, 0xE0, 0x00, 0x00, 0x02],
    [0x77, 0x17, 0x03, 0x71, 0x7D, 0x37, 0x16, 0xEC, 0x6E, 0xC6, 0x6E, 0xC6, 0x4E, 0x6E, 0xC6, 0x00]),
   ([0xCF, 0x00, 0x33, 0x00, 0x0C, 0x00, 0x03, 0x00, 0x00, 0x00, 0xC0, 0x00, 0xF0, 0x00, 0x00, 0x02],
    [0x7C, 0x6E, 0xBE, 0xC6, 0xE8, 0xC6, 0xEB, 0xF9, 0xF9, 0xF9, 0xBF, 0x9F, 0x4E, 0x6E, 0xC6, 0x00]),
   ([0xD0, 0x00, 0x34, 0x00, 0x0D, 0x00, 0x03, 0x00, 0x00, 0x00, 0x00, 0x00, 0x00, 0x00, 0x00, 0x02],
    [0xC6, 0xEC, 0x59, 0x99, 0x9A, 0x8C, 0x6D, 0x37, 0x17, 0x17, 0x17, 0x17, 0x17, 0x17, 0x17, 0x00]),
   ([0xD1, 0x00, 0x34, 0x00, 0x0D, 0x00, 0x03, 0x00, 0x00, 0x00, 0x40, 0x00, 0x10, 0x00, 0x00, 0x02],
    [0xCB, 0xF9, 0xEA, 0x8C, 0x6F, 0x9F, 0x9E, 0x6E, 0xC6, 0xEC, 0xA8, 0xC6, 0x37, 0x17, 0x17, 0x00]),
   ([0xD2, 0x00, 0x34, 0x00, 0x0D, 0x00, 0x03, 0x00, 0x00, 0x00, 0x80, 0x00, 0x20, 0x00, 0x00, 0x02],
    [0xC0, 0x4E, 0x59, 0x99, 0x9A, 0x8C, 0x6D, 0x37, 0x17, 0x17, 0x9F, 0x9F, 0x37, 0x17, 0x17, 0x00]),
   ([0xD3, 0x00, 0x34, 0x00, 0x0D, 0x00, 0x03, 0x00, 0x00, 0x00, 0xC0, 0x00, 0x30, 0x00, 0x00, 0x02],
    [0xC5, 0x55, 0x42, 0xA8, 0xC7, 0x17, 0x16, 0xEC, 0x6E, 0xC6, 0xA8, 0xC6, 0xD3, 0x71, 0x71, 0x00]),
   ([0xD4, 0x00, 0x35, 0x00, 0x0D, 0x00, 0x03, 0x00, 0x00, 0x00, 0x00, 0x00, 0x40, 0x00, 0x00, 0x02],
    [0xCA, 0x8C, 0x5E, 0xC6, 0xED, 0x37, 0x16, 0xEC, 0x6E, 0xC6, 0xEC, 0x6E, 0x04, 0xE6, 0xEC, 0x00]),
   ([0xD5, 0x00, 0x35, 0x00, 0x0D, 0x00, 0x03, 0x00, 0x00, 0x00, 0x40, 0x00, 0x50, 0x00, 0x00, 0x02],
    [0xCF, 0x9F, 0x85, 0x55, 0x56, 0xEC, 0x6D, 0x37, 0x17, 0x17, 0x55, 0x55, 0xEC, 0x6E, 0xC6, 0x00]),
   ([0xD6, 0x00, 0x35, 0x00, 0x0D, 0x00, 0x03, 0x00, 0x00, 0x00, 0x80, 0x00, 0x60, 0x00, 0x00, 0x02],
    [0xC4, 0xE6, 0xDC, 0x6E, 0xC7, 0x17, 0x16, 0xEC, 0x6E, 0xC6, 0x6E, 0xC6, 0xC6, 0xEC, 0x6E, 0x00]),
   ([0xD7, 0x00, 0x35, 0x00, 0x0D, 0x00, 0x03, 0x00, 0x00, 0x00, 0xC0, 0x00, 0x70, 0x00, 0x00, 0x02],
    [0xC9, 0xF9, 0xEF, 0x9F, 0x90, 0x4E, 0x6D, 0x37, 0x17, 0x17, 0xD3, 0x71, 0xA8, 0xC6, 0xEC, 0x00]),
   ([0xD8, 0x00, 0x36, 0x00, 0x0D, 0x00, 0x03, 0x00, 0x00, 0x00, 0x00, 0x00, 0x80, 0x00, 0x00, 0x02],
    [0xCE, 0x6E, 0xBD, 0x37, 0x18, 0xC6, 0xEB, 0xF9, 0xF9, 0xF9, 0xF9, 0xF9, 0x71, 0x71, 0x71, 0x00]),
   ([0xD9, 0x00, 0x36, 0x00, 0x0D, 0x00, 0x03, 0x00, 0x00, 0x00, 0x40, 0x00, 0x90, 0x00, 0x00, 0x02],
    [0xC3, 0x71, 0x6C, 0x6E, 0xC7, 0x17, 0x16, 0xEC, 0x6E, 0xC6, 0x2A, 0x8C, 0x37, 0x17, 0x17, 0x00]),
   ([0xDA, 0x00, 0x36, 0x00, 0x0D, 0x00, 0x03, 0x00, 0x00, 0x00, 0x80, 0x00, 0xA0, 0x00, 0x00, 0x02],
    [0xC8, 0xC6, 0xD1, 0x71, 0x72, 0xA8, 0xC5, 0x55, 0x55, 0x55, 0xD3, 0x71, 0x9F, 0x9F, 0x9F, 0x00]),
   ([0xDB, 0x00, 0x36, 0x00, 0x0D, 0x00, 0x03, 0x00, 0x00, 0x00, 0xC0, 0x00, 0xB0, 0x00, 0x00, 0x02],
    [0xCD, 0x37, 0x02, 0xA8, 0xC7, 0x17, 0x16, 0xEC, 0x6E, 0xC6, 0xA8, 0xC6, 0x55, 0x55, 0x55, 0x00]),
   ([0xDC, 0x00, 0x37, 0x00, 0x0D, 0x00, 0x03, 0x00, 0x00, 0x00, 0x00, 0x00, 0xC0, 0x00, 0x00, 0x02],
    [0xC2, 0xA8, 0xB8, 0xC6, 0xED, 0x37, 0x16, 0xEC, 0x6E, 0xC6, 0xEC, 0x6E, 0x8C, 0x6E, 0xC6, 0x00]),
   ([0xDD, 0x00, 0x37, 0x00, 0x0D, 0x00, 0x03, 0x00, 0x00, 0x00, 0x40, 0x00, 0xD0, 0x00, 0x00, 0x02],
    [0xC7, 0x17, 0x07, 0x17, 0x18, 0xC6, 0xEB, 0xF9, 0xF9, 0xF9, 0x37, 0x17, 0x2A, 0x8C, 0x6E, 0x00]),
   ([0xDE, 0x00, 0x37, 0x00, 0x0D, 0x00, 0x03, 0x00, 0x00, 0x00, 0x80, 0x00, 0xE0, 0x00, 0x00, 0x02],
    [0xCC, 0x6E, 0xB2, 0xA8, 0xC7, 0x17, 0x16, 0xEC, 0x6E, 0xC6, 0x6E, 0xC6, 0x4E, 0x6E, 0xC6, 0x00]),
   ([0xDF, 0x00, 0x37, 0x00, 0x0D, 0x00, 0x03, 0x00, 0x00, 0x00, 0xC0, 0x00, 0xF0, 0x00, 0x00, 0x02],
    [0xC1, 0x71, 0x61, 0x11, 0x12, 0xA8, 0xC5, 0x55, 0x55, 0x55, 0x11, 0x11, 0xC6, 0xEC, 0x6E, 0x00]),
   ([0xE0, 0x00, 0x38, 0x00, 0x0E, 0x00, 0x03, 0x00, 0x00, 0x00, 0x00, 0x00, 0x00, 0x00, 0x00, 0x02],
    [0x17, 0x17, 0x0C, 0x6E, 0xCC, 0x6E, 0xC5, 0x55, 0x55, 0x55, 0x55, 0x55, 0x55, 0x55, 0x55, 0x00]),
   ([0xE1, 0x00, 0x38, 0x00, 0x0E, 0x00, 0x03, 0x00, 0x00, 0x00, 0x40, 0x00, 0x10, 0x00, 0x00, 0x02],
    [0x1C, 0x6E, 0xB7, 0x17, 0x1D, 0x37, 0x16, 0xEC, 0x6E, 0xC6, 0x2A, 0x8C, 0xBF, 0x9F, 0x9F, 0x00]),
   ([0xE2, 0x00, 0x38, 0x00, 0x0E, 0x00, 0x03, 0x00, 0x00, 0x00, 0x80, 0x00, 0x20, 0x00, 0x00, 0x02],
    [0x11, 0x71, 0x66, 0xEC, 0x64, 0xE6, 0xEB, 0xF9, 0xF9, 0xF9, 0x71, 0x71, 0x17, 0x17, 0x17, 0x00]),
   ([0xE3, 0x00, 0x38, 0x00, 0x0E, 0x00, 0x03, 0x00, 0x00, 0x00, 0xC0, 0x00, 0x30, 0x00, 0x00, 0x02],
    [0x16, 0xEC, 0x5D, 0x37, 0x1D, 0x37, 0x16, 0xEC, 0x6E, 0xC6, 0xA8, 0xC6, 0xD3, 0x71, 0x71, 0x00]),
   ([0xE4, 0x00, 0x39, 0x00, 0x0E, 0x00, 0x03, 0x00, 0x00, 0x00, 0x00, 0x00, 0x40, 0x00, 0x00, 0x02],
    [0x1B, 0xF9, 0xE3, 0x71, 0x77, 0x17, 0x16, 0xEC, 0x6E, 0xC6, 0xEC, 0x6E, 0x04, 0xE6, 0xEC, 0x00]),
   ([0xE5, 0x00, 0x39, 0x00, 0x0E, 0x00, 0x03, 0x00, 0x00, 0x00, 0x40, 0x00, 0x50, 0x00, 0x00, 0x02],
    [0x10, 0x4E, 0x52, 0xA8, 0xCC, 0x6E, 0xC5, 0x55, 0x55, 0x55, 0x99, 0x99, 0x2A, 0x8C, 0x6E, 0x00]),
   ([0xE6, 0x00, 0x39, 0x00, 0x0E, 0x00, 0x03, 0x00, 0x00, 0x00, 0x80, 0x00, 0x60, 0x00, 0x00, 0x02],
    [0x15, 0x55, 0x4B, 0xF9, 0xFF, 0x9F, 0x9E, 0x6E, 0xC6, 0xEC, 0xE6, 0xEC, 0x4E, 0x6E, 0xC6, 0x00]),
   ([0xE7, 0x00, 0x39, 0x00, 0x0E, 0x00, 0x03, 0x00, 0x00, 0x00, 0xC0, 0x00, 0x70, 0x00, 0x00, 0x02],
    [0x1A, 0x8C, 0x52, 0xA8, 0xCC, 0x6E, 0xC5, 0x55, 0x55, 0x55, 0x11, 0x11, 0x4E, 0x6E, 0xC6, 0x00]),
   ([0xE8, 0x00, 0x3A, 0x00, 0x0E, 0x00, 0x03, 0x00, 0x00, 0x00, 0x00, 0x00, 0x80, 0x00, 0x00, 0x02],
    [0x1F, 0x9F, 0x8E, 0xC6, 0xE2, 0xA8, 0xC5, 0x55, 0x55, 0x55, 0x55, 0x55, 0xD3, 0x71, 0x71, 0x00]),
   ([0xE9, 0x00, 0x3A, 0x00, 0x0E, 0x00, 0x03, 0x00, 0x00, 0x00, 0x40, 0x00, 0x90, 0x00, 0x00, 0x02],
    [0x14, 0xE6, 0xD5, 0x55, 0x5B, 0x55, 0x54, 0xE6, 0xEC, 0x6E, 0x04, 0xE6, 0xB5, 0x55, 0x55, 0x00]),
   ([0xEA, 0x00, 0x3A, 0x00, 0x0E, 0x00, 0x03, 0x00, 0x00, 0x00, 0x80, 0x00, 0xA0, 0x00, 0x00, 0x02],
    [0x19, 0xF9, 0xE8, 0xC6, 0xE2, 0xA8, 0xC5, 0x55, 0x55, 0x55, 0xD3, 0x71, 0x9F, 0x9F, 0x9F, 0x00]),
   ([0xEB, 0x00, 0x3A, 0x00, 0x0E, 0x00, 0x03, 0x00, 0x00, 0x00, 0xC0, 0x00, 0xB0, 0x00, 0x00, 0x02],
    [0x1E, 0x6E, 0xB1, 0x11, 0x17, 0x17, 0x16, 0xEC, 0x6E, 0xC6, 0xA8, 0xC6, 0x55, 0x55, 0x55, 0x00]),
   ([0xEC, 0x00, 0x3B, 0x00, 0x0E, 0x00, 0x03, 0x00, 0x00, 0x00, 0x00, 0x00, 0xC0, 0x00, 0x00, 0x02],
    [0x13, 0x71, 0x65, 0x55, 0x5B, 0x55, 0x54, 0xE6, 0xEC, 0x6E, 0xC6, 0xEC, 0x2A, 0x8C, 0x6E, 0x00]),
   ([0xED, 0x00, 0x3B, 0x00, 0x0E, 0x00, 0x03, 0x00, 0x00, 0x00, 0x40, 0x00, 0xD0, 0x00, 0x00, 0x02],
    [0x18, 0xC6, 0xDA, 0x8C, 0x64, 0xE6, 0xEB, 0xF9, 0xF9, 0xF9, 0x37, 0x17, 0x2A, 0x8C, 0x6E, 0x00]),
   ([0xEE, 0x00, 0x3B, 0x00, 0x0E, 0x00, 0x03, 0x00, 0x00, 0x00, 0x80, 0x00, 0xE0, 0x00, 0x00, 0x02],
    [0x1D, 0x37, 0x0B, 0x55, 0x5B, 0x55, 0x54, 0xE6, 0xEC, 0x6E, 0x4E, 0x6E, 0x2A, 0x8C, 0x6E, 0x00]),
   ([0xEF, 0x00, 0x3B, 0x00, 0x0E, 0x00, 0x03, 0x00, 0x00, 0x00, 0xC0, 0x00, 0xF0, 0x00, 0x00, 0x02],
    [0x12, 0xA8, 0xBC, 0x6E, 0xCC, 0x6E, 0xC5, 0x55, 0x55, 0x55, 0x11, 0x11, 0xC6, 0xEC, 0x6E, 0x00]),
   ([0xF0, 0x00, 0x3C, 0x00, 0x0F, 0x00, 0x03, 0x00, 0x00, 0x00, 0x00, 0x00, 0x00, 0x00, 0x00, 0x02],
    [0x6E, 0xC6, 0xDF, 0x9F, 0x9A, 0x8C, 0x6D, 0x37, 0x17, 0x17, 0x17, 0x17, 0x17, 0x17, 0x17, 0x00]),
   ([0xF1, 0x00, 0x3C, 0x00, 0x0F, 0x00, 0x03, 0x00, 0x00, 0x00, 0x40, 0x00, 0x10, 0x00, 0x00, 0x02],
    [0x63, 0x71, 0x6A, 0x8C, 0x69, 0x99, 0x98, 0xC6, 0xEC, 0x6E, 0x04, 0xE6, 0x37, 0x17, 0x17, 0x00]),
   ([0xF2, 0x00, 0x3C, 0x00, 0x0F, 0x00, 0x03, 0x00, 0x00, 0x00, 0x80, 0x00, 0x20, 0x00, 0x00, 0x02],
    [0x68, 0xC6, 0xDF, 0x9F, 0x9A, 0x8C, 0x6D, 0x37, 0x17, 0x17, 0x9F, 0x9F, 0x37, 0x17, 0x17, 0x00]),
   ([0xF3, 0x00, 0x3C, 0x00, 0x0F, 0x00, 0x03, 0x00, 0x00, 0x00, 0xC0, 0x00, 0x30, 0x00, 0x00, 0x02],
    [0x6D, 0x37, 0x00, 0x4E, 0x69, 0x99, 0x98, 0xC6, 0xEC, 0x6E, 0x8C, 0x6E, 0xBF, 0x9F, 0x9F, 0x00]),
   ([0xF4, 0x00, 0x3D, 0x00, 0x0F, 0x00, 0x03, 0x00, 0x00, 0x00, 0x00, 0x00, 0x40, 0x00, 0x00, 0x02],
    [0x62, 0xA8, 0xB6, 0xEC, 0x69, 0x99, 0x98, 0xC6, 0xEC, 0x6E, 0xC6, 0xEC, 0xA8, 0xC6, 0xEC, 0x00]),
   ([0xF5, 0x00, 0x3D, 0x00, 0x0F, 0x00, 0x03, 0x00, 0x00, 0x00, 0x40, 0x00, 0x50, 0x00, 0x00, 0x02],
    [0x67, 0x17, 0x05, 0x55, 0x50, 0x4E, 0x6D, 0x37, 0x17, 0x17, 0x55, 0x55, 0xEC, 0x6E, 0xC6, 0x00]),
   ([0xF6, 0x00, 0x3D, 0x00, 0x0F, 0x00, 0x03, 0x00, 0x00, 0x00, 0x80, 0x00, 0x60, 0x00, 0x00, 0x02],
    [0x6C, 0x6E, 0xB0, 0x4E, 0x69, 0x99, 0x98, 0xC6, 0xEC, 0x6E, 0x4E, 0x6E, 0xA8, 0xC6, 0xEC, 0x00]),
   ([0xF7, 0x00, 0x3D, 0x00, 0x0F, 0x00, 0x03, 0x00, 0x00, 0x00, 0xC0, 0x00, 0x70, 0x00, 0x00, 0x02],
    [0x61, 0x11, 0x05, 0x55, 0x50, 0x4E, 0x6D, 0x37, 0x17, 0x17, 0xD3, 0x71, 0xA8, 0xC6, 0xEC, 0x00]),
   ([0xF8, 0x00, 0x3E, 0x00, 0x0F, 0x00, 0x03, 0x00, 0x00, 0x00, 0x00, 0x00, 0x80, 0x00, 0x00, 0x02],
    [0x66, 0xEC, 0x5B, 0x55, 0x50, 0x4E, 0x6D, 0x37, 0x17, 0x17, 0x17, 0x17, 0x9F, 0x9F, 0x9F, 0x00])]"

definition pif_lut_6 :: pif_lut where
  "pif_lut_6 =
  [([0xF9, 0x00, 0x3E, 0x00, 0x0F, 0x00, 0x03, 0x00, 0x00, 0x00, 0x40, 0x00, 0x90, 0x00, 0x00, 0x02],
    [0x6B, 0x55, 0x44, 0xE6, 0xE7, 0x17, 0x16, 0xEC, 0x6E, 0xC6, 0x2A, 0x8C, 0x37, 0x17, 0x17, 0x00]),
   ([0xFA, 0x00, 0x3E, 0x00, 0x0F, 0x00, 0x03, 0x00, 0x00, 0x00, 0x80, 0x00, 0xA0, 0x00, 0x00, 0x02],
    [0x60, 0x4E, 0x5B, 0x55, 0x50, 0x4E, 0x6D, 0x37, 0x17, 0x17, 0x9F, 0x9F, 0xBF, 0x9F, 0x9F, 0x00]),
   ([0xFB, 0x00, 0x3E, 0x00, 0x0F, 0x00, 0x03, 0x00, 0x00, 0x00, 0xC0, 0x00, 0xB0, 0x00, 0x00, 0x02],
    [0x65, 0x55, 0x44, 0xE6, 0xE7, 0x17, 0x16, 0xEC, 0x6E, 0xC6, 0xA8, 0xC6, 0x55, 0x55, 0x55, 0x00]),
   ([0xFC, 0x00, 0x3F, 0x00, 0x0F, 0x00, 0x03, 0x00, 0x00, 0x00, 0x00, 0x00, 0xC0, 0x00, 0x00, 0x02],
    [0x6A, 0x8C, 0x50, 0x4E, 0x69, 0x99, 0x98, 0xC6, 0xEC, 0x6E, 0xC6, 0xEC, 0x2A, 0x8C, 0x6E, 0x00]),
   ([0xFD, 0x00, 0x3F, 0x00, 0x0F, 0x00, 0x03, 0x00, 0x00, 0x00, 0x40, 0x00, 0xD0, 0x00, 0x00, 0x02],
    [0x6F, 0x9F, 0x87, 0x17, 0x12, 0xA8, 0xC5, 0x55, 0x55, 0x55, 0x99, 0x99, 0xA8, 0xC6, 0xEC, 0x00]),
   ([0xFE, 0x00, 0x3F, 0x00, 0x0F, 0x00, 0x03, 0x00, 0x00, 0x00, 0x80, 0x00, 0xE0, 0x00, 0x00, 0x02],
    [0x64, 0xE6, 0xDE, 0x6E, 0xC1, 0x71, 0x70, 0x4E, 0x6E, 0xC6, 0x6E, 0xC6, 0x4E, 0x6E, 0xC6, 0x00]),
   ([0xFF, 0x00, 0x3F, 0x00, 0x0F, 0x00, 0x03, 0x00, 0x00, 0x00, 0xC0, 0x00, 0xF0, 0x00, 0x00, 0x02],
    [0x69, 0x99, 0x87, 0x17, 0x12, 0xA8, 0xC5, 0x55, 0x55, 0x55, 0x11, 0x11, 0xC6, 0xEC, 0x6E, 0x00]),
   ([0xA0, 0x00, 0x68, 0x00, 0x1A, 0x00, 0x06, 0x00, 0x01, 0x00, 0x00, 0x00, 0x00, 0x00, 0x00, 0x02],
    [0xD3, 0x71, 0x5D, 0x37, 0x60, 0x4E, 0x6C, 0x6E, 0xCB, 0xF9, 0xF9, 0xF9, 0xF9, 0xF9, 0xF9, 0x00]),
   ([0xA1, 0x00, 0x68, 0x00, 0x1A, 0x00, 0x06, 0x00, 0x01, 0x00, 0x40, 0x00, 0x10, 0x00, 0x00, 0x02],
    [0xD8, 0xC6, 0xCE, 0x6E, 0x19, 0xF9, 0xF7, 0x17, 0x1C, 0x6E, 0x04, 0xE6, 0x37, 0x17, 0x17, 0x00]),
   ([0xA2, 0x00, 0x68, 0x00, 0x1A, 0x00, 0x06, 0x00, 0x01, 0x00, 0x80, 0x00, 0x20, 0x00, 0x00, 0x02],
    [0xDD, 0x37, 0xF1, 0x71, 0xC8, 0xC6, 0xEA, 0x8C, 0x63, 0x71, 0xF9, 0xF9, 0x9F, 0x9F, 0x9F, 0x00]),
   ([0xA3, 0x00, 0x68, 0x00, 0x1A, 0x00, 0x06, 0x00, 0x01, 0x00, 0xC0, 0x00, 0x30, 0x00, 0x00, 0x02],
    [0xD2, 0xA8, 0xA0, 0x4E, 0xB7, 0x17, 0x15, 0x55, 0x5A, 0x8C, 0x2A, 0x8C, 0x55, 0x55, 0x55, 0x00]),
   ([0xA4, 0x00, 0x69, 0x00, 0x1A, 0x00, 0x06, 0x00, 0x01, 0x00, 0x00, 0x00, 0x40, 0x00, 0x00, 0x02],
    [0xD7, 0x17, 0xF6, 0xEC, 0xB1, 0x11, 0x1F, 0x9F, 0x94, 0xE6, 0xEC, 0x6E, 0x04, 0xE6, 0xEC, 0x00]),
   ([0xA5, 0x00, 0x69, 0x00, 0x1A, 0x00, 0x06, 0x00, 0x01, 0x00, 0x40, 0x00, 0x50, 0x00, 0x00, 0x02],
    [0xDC, 0x6E, 0xA5, 0x55, 0xAA, 0x8C, 0x6C, 0x6E, 0xCB, 0xF9, 0x37, 0x17, 0xA8, 0xC6, 0xEC, 0x00]),
   ([0xA6, 0x00, 0x69, 0x00, 0x1A, 0x00, 0x06, 0x00, 0x01, 0x00, 0x80, 0x00, 0x60, 0x00, 0x00, 0x02],
    [0xD1, 0x71, 0x52, 0xA8, 0x13, 0x71, 0x7F, 0x9F, 0x94, 0xE6, 0x6E, 0xC6, 0xC6, 0xEC, 0x6E, 0x00]),
   ([0xA7, 0x00, 0x69, 0x00, 0x1A, 0x00, 0x06, 0x00, 0x01, 0x00, 0xC0, 0x00, 0x70, 0x00, 0x00, 0x02],
    [0xD6, 0xEC, 0x4B, 0xF9, 0x40, 0x4E, 0x6C, 0x6E, 0xCB, 0xF9, 0xBF, 0x9F, 0xC6, 0xEC, 0x6E, 0x00]),
   ([0xA8, 0x00, 0x6A, 0x00, 0x1A, 0x00, 0x06, 0x00, 0x01, 0x00, 0x00, 0x00, 0x80, 0x00, 0x00, 0x02],
    [0xDB, 0xF9, 0xD5, 0x55, 0xAA, 0x8C, 0x6C, 0x6E, 0xCB, 0xF9, 0xF9, 0xF9, 0x71, 0x71, 0x71, 0x00]),
   ([0xA9, 0x00, 0x6A, 0x00, 0x1A, 0x00, 0x06, 0x00, 0x01, 0x00, 0x40, 0x00, 0x90, 0x00, 0x00, 0x02],
    [0xD0, 0x4E, 0x40, 0x4E, 0xB7, 0x17, 0x15, 0x55, 0x5A, 0x8C, 0xA8, 0xC6, 0xB5, 0x55, 0x55, 0x00]),
   ([0xAA, 0x00, 0x6A, 0x00, 0x1A, 0x00, 0x06, 0x00, 0x01, 0x00, 0x80, 0x00, 0xA0, 0x00, 0x00, 0x02],
    [0xD5, 0x55, 0x39, 0x99, 0xEE, 0x6E, 0xC4, 0xE6, 0xE1, 0x71, 0xF9, 0xF9, 0x17, 0x17, 0x17, 0x00]),
   ([0xAA, 0x00, 0x6A, 0x00, 0x1A, 0x00, 0x06, 0x00, 0x01, 0x00, 0x80, 0x00, 0xA0, 0x00, 0x00, 0x02],
    [0xD5, 0x55, 0x39, 0x99, 0xEE, 0x6E, 0xC4, 0xE6, 0xE1, 0x71, 0xF9, 0xF9, 0x17, 0x17, 0x17, 0x00])]"

definition pif_lut_table :: pif_lut where
  "pif_lut_table = pif_lut_1 @ pif_lut_2 @ pif_lut_3 @ pif_lut_4 @ pif_lut_5 @ pif_lut_6"

section \<open>Challenges and answers\<close>

text \<open>A challenge ends with the command 2, an answer with the command 0, but for one row.\<close>

definition odd_challenge :: bytes where
  "odd_challenge = [0xB2, 0x00, 0x2C, 0x00, 0x0B, 0x00, 0x02, 0x00, 0x00, 0x00, 0x80, 0x00, 0x20, 0x00, 0x00, 0x02]"

definition lut_row :: "bytes \<times> bytes \<Rightarrow> bool" where
  "lut_row e \<longleftrightarrow> length (fst e) = 16 \<and> fst e ! 15 = 2 \<and> length (snd e) = 16 \<and>
     snd e ! 15 = (if fst e = odd_challenge then 0x99 else 0)"

lemma pif_lut_1_rows: "list_all lut_row pif_lut_1"
  by (simp add: pif_lut_1_def lut_row_def odd_challenge_def)

lemma pif_lut_2_rows: "list_all lut_row pif_lut_2"
  by (simp add: pif_lut_2_def lut_row_def odd_challenge_def)

lemma pif_lut_3_rows: "list_all lut_row pif_lut_3"
  by (simp add: pif_lut_3_def lut_row_def odd_challenge_def)

lemma pif_lut_4_rows: "list_all lut_row pif_lut_4"
  by (simp add: pif_lut_4_def lut_row_def odd_challenge_def)

lemma pif_lut_5_rows: "list_all lut_row pif_lut_5"
  by (simp add: pif_lut_5_def lut_row_def odd_challenge_def)

lemma pif_lut_6_rows: "list_all lut_row pif_lut_6"
  by (simp add: pif_lut_6_def lut_row_def odd_challenge_def)

lemma pif_lut_rows: "e \<in> set pif_lut_table \<Longrightarrow> lut_row e"
  using pif_lut_1_rows pif_lut_2_rows pif_lut_3_rows pif_lut_4_rows pif_lut_5_rows pif_lut_6_rows
  by (auto simp: pif_lut_table_def list_all_iff)

text \<open>
  C39. Every challenge of the table is answered: when the block of a game ends with a known challenge, \<^verbatim>\<open>update_pif_write\<close> replaces it by the answer
  of the first row with that challenge and touches nothing else.  The command byte becomes 0, so that
  the PIF is ready for the next command, with one exception: one answer of the table ends with 0x99.
\<close>

theorem pif_challenge_answered:
  assumes "(key, ans) \<in> set pif_lut_table" "length blk = 48"
  shows "\<exists>a. (key, a) \<in> set pif_lut_table \<and> update_pif_write pif_lut_table pl ctl (blk @ key) s w = Some (blk @ a, s, w) \<and>
    bget (blk @ a) 0x3F = Some (if key = odd_challenge then 0x99 else 0)"
proof -
  have k: "length key = 16" "key ! 15 = 2" using pif_lut_rows [OF assms(1)] by (simp_all add: lut_row_def)
  obtain e where e: "List.find (\<lambda>e. fst e = key) pif_lut_table = Some e"
    using assms(1) by (cases "List.find (\<lambda>e. fst e = key) pif_lut_table") (auto simp: find_None_iff)
  then have m: "e \<in> set pif_lut_table" "fst e = key" by (auto simp: find_Some_iff)
  have a: "length (snd e) = 16" "snd e ! 15 = (if key = odd_challenge then 0x99 else 0)"
    using pif_lut_rows [OF m(1)] m(2) by (simp_all add: lut_row_def)
  have "bget (blk @ key) 0x3F = Some 2" "bblock (blk @ key) 48 16 = Some key" "bwrite 48 (snd e) (blk @ key) = Some (blk @ snd e)"
    "bget (blk @ snd e) 0x3F = Some (if key = odd_challenge then 0x99 else 0)"
    using k a assms(2) by (simp_all add: bget_def bblock_def bwrite_def nth_append)
  then show ?thesis using e m by (intro exI [of _ "snd e"]) (cases e, simp add: update_pif_write_def)
qed

theorem pif_challenge_answered_witness:
  "\<forall>pl ctl. \<exists>a. update_pif_write pif_lut_table pl ctl (replicate 48 0 @ fst (hd pif_lut_1)) pif_example (0 :: nat) = Some (replicate 48 0 @ a, pif_example, 0)"
proof (intro allI)
  fix pl ctl
  have "(fst (hd pif_lut_1), snd (hd pif_lut_1)) \<in> set pif_lut_table" by (simp add: pif_lut_table_def pif_lut_1_def)
  from pif_challenge_answered [OF this, of "replicate 48 0" pl ctl pif_example "0 :: nat"]
  show "\<exists>a. update_pif_write pif_lut_table pl ctl (replicate 48 0 @ fst (hd pif_lut_1)) pif_example (0 :: nat) = Some (replicate 48 0 @ a, pif_example, 0)"
    by auto
qed

end
