(* ===== verification/Spec2Isabelle.thy ===== *)
theory Spec2Isabelle
  imports Vcr_Correct Cpu_Correct Boot Pif_Lut
begin

text \<open>
  A verification development for mupen64-rr-lua, a Nintendo 64 emulator for tool-assisted
  speedruns. It models the emulator core (\<^verbatim>\<open>src/src/Core\<close>), as it runs with the pure interpreter, as functions on
  explicit states and proves what makes it correct, and where it is not.

  \<^bold>\<open>The program.\<close> The core interprets MIPS R4300 instructions (\<^verbatim>\<open>r4300/pure_interp.cpp\<close>). Loads and stores go through the TLB
  (\<^verbatim>\<open>memory/tlb.cpp\<close>) and a table of handlers for each 64-KiB page (\<^verbatim>\<open>memory/memory.cpp\<close>) to RDRAM, to the registers of the
  coprocessors (RCP), to the cartridge or to the serial interface; writing a register can start a DMA transfer (\<^verbatim>\<open>memory/dma.cpp\<close>) or a
  task of the signal processor. The transfers raise interrupts later, through a queue of timed events
  (\<^verbatim>\<open>r4300/interrupt.cpp\<close>, \<^verbatim>\<open>r4300/exception.cpp\<close>). The cartridge has flash memory (\<^verbatim>\<open>memory/flashram.cpp\<close>) or the SD card of a
  SummerCart64 (\<^verbatim>\<open>memory/summercart.cpp\<close>); the serial interface has EEPROM, controllers and controller paks (\<^verbatim>\<open>memory/pif.cpp\<close>).
  ROM images are loaded by \<^verbatim>\<open>r4300/rom.cpp\<close>, cheats applied by \<^verbatim>\<open>cheats.cpp\<close>, and movies recorded and played by
  \<^verbatim>\<open>r4300/vcr.cpp\<close>: the serial interface asks the movie engine for the input of every controller poll, the movie engine pushes and
  pops layers of cheats, resets the machine and creates savestates, and a savestate (\<^verbatim>\<open>memory/savestates.cpp\<close>) holds the machine,
  the event queue and the frozen movie.

  \<^bold>\<open>Conventions.\<close> Machine integers are words of their width; a C struct is a record with the fields'
  names; the global variables are the records \<^verbatim>\<open>r4300\<close> (processor), \<^verbatim>\<open>machine\<close> (everything else) and those of the parts they
  contain. \<^verbatim>\<open>None\<close> as a result is undefined behaviour of the C++ code (an access outside an array, a failed assertion, a
  dereferenced null pointer, a loop that never ends) and errors the code reports are ordinary results. Loops that may not end are
  \<^verbatim>\<open>partial_function\<close>s, and that they end is part of the theorems about them; the others are structural or have a
  termination proof. There is no fuel anywhere. Plugins, callbacks, dialogs, libdeflate, the clock and the other threads of the
  host are parameters (the records \<^verbatim>\<open>machine_env\<close>, \<^verbatim>\<open>vcr_env\<close>, \<^verbatim>\<open>input_plugin\<close>, \<^verbatim>\<open>rom_env\<close> and \<^verbatim>\<open>fpu_env\<close>), arbitrary functions on the machine unless a
  theorem names what it relies on. Files are bytes, or maps from paths to bytes.

  \<^bold>\<open>Foundations.\<close>
  \<^item> \<^verbatim>\<open>Mupen_Prelude\<close>: word types, option rules, little-endian encodings, sequences of operations, and the interfaces
    \<^verbatim>\<open>invariant_steps\<close> (operations that keep an invariant) and \<^verbatim>\<open>simulation\<close> (an implementation of a specification).
  \<^item> \<^verbatim>\<open>Host_Memory\<close>: byte arrays with bounds, the S8 and S16 address swaps of \<^verbatim>\<open>memory/memory.h\<close>, and the big-endian view \<^verbatim>\<open>guest\<close> of an array.
  \<^item> \<^verbatim>\<open>IO_Helpers\<close> (\<^verbatim>\<open>lib/IOHelpers\<close>): buffer and string helpers, and decompression, which ends on every gzip stream.
  \<^item> \<^verbatim>\<open>Machine\<close>, \<^verbatim>\<open>Machine_Example\<close>: the machine record, its register structures and parameters, and a concrete machine for the witnesses.

  \<^bold>\<open>The processor.\<close>
  \<^item> \<^verbatim>\<open>Cpu_State\<close>, \<^verbatim>\<open>Cpu_Alu\<close>: registers and instruction fields, and the arithmetic, logic, shift, multiply and divide
    instructions. DMULT, which the code assembles from 32-bit limbs, is the exact 128-bit product.
  \<^item> \<^verbatim>\<open>Event_Queue\<close>: the linked queue of events in its node pool. Every operation refines a specification on lists of
    events (interpretation of \<^verbatim>\<open>simulation\<close>); insertion keeps the queue sorted by time to go; saving and loading are inverse.
  \<^item> \<^verbatim>\<open>Interrupts\<close>: exceptions, and the delivery of interrupts. A pending interrupt is taken at the next check, and
    taking interrupts never loses a periodic event.
  \<^item> \<^verbatim>\<open>Tlb\<close>: translation and the TLB instructions. What the look-up tables translate is what the TLB defines (interpretation
    of \<^verbatim>\<open>invariant_steps\<close>); an exception and its return are inverse.
  \<^item> \<^verbatim>\<open>Cpu_Memory\<close>, \<^verbatim>\<open>Cpu_Interp\<close>, \<^verbatim>\<open>Cpu_Correct\<close>: loads and stores; coprocessor moves, branches with delay slots, dispatch, fetch and loop; unaligned
    loads, store and load, and a jump with its delay slot. An instruction returns an \<^verbatim>\<open>outcome\<close>, either completed or
    with the rest that follows its delay slot, so that \<^verbatim>\<open>execute\<close> is the only recursion.
  \<^item> \<^verbatim>\<open>Ieee\<close>, \<^verbatim>\<open>Cpu_Fpu\<close>, \<^verbatim>\<open>Fpu_Correct\<close>: IEEE 754 formats on bit patterns with rational values and directed rounding; the floating-point
    instructions of the 64-bit build with their exception checks; comparisons are those of the numbers, integers survive conversion, and no denormal result
    escapes the checks.
  \<^item> \<^verbatim>\<open>Boot\<close>: the state in which the core starts, and the clearing of the save files.

  \<^bold>\<open>Memory and devices.\<close>
  \<^item> \<^verbatim>\<open>Rcp\<close>, \<^verbatim>\<open>Rcp_Access\<close>: the write-to-set and write-to-clear registers, signal processor tasks and frame buffers, and the handlers that read and
    write each register block at the four widths.
  \<^item> \<^verbatim>\<open>Memory_Map\<close>, \<^verbatim>\<open>Memory_Init\<close>, \<^verbatim>\<open>Memory_Correct\<close>: the handlers of the memories, the access through the page table, and the filling of the table. An access to
    RDRAM through the code's swapped arrays is a big-endian access of the guest.
  \<^item> \<^verbatim>\<open>Rcp_Flags\<close>: the register blocks keep their types (interpretation of \<^verbatim>\<open>invariant_steps\<close>).
  \<^item> \<^verbatim>\<open>Dma\<close>: the transfers between RDRAM, cartridge, signal processor and serial interface.
  \<^item> \<^verbatim>\<open>Pif\<close>, \<^verbatim>\<open>Pif_Read\<close>, \<^verbatim>\<open>Pif_Lut\<close>: EEPROM and controller pak commands, controller polls with the pause loop, and the table of
    challenges with their answers.
  \<^item> \<^verbatim>\<open>Flashram\<close>, \<^verbatim>\<open>Summercart\<close>: the command state machines of the flash memory and of the SD card.
  \<^item> \<^verbatim>\<open>Rom\<close>, \<^verbatim>\<open>Cheats\<close>: byte orders, header and cache of ROM images; compilation, execution and files of GameShark codes.
  \<^item> \<^verbatim>\<open>Savestate_Block\<close>, \<^verbatim>\<open>Savestates\<close>: the bytes of a machine; saving, loading, the undo state and the task list. Saving and loading are inverse.

  \<^bold>\<open>Movies.\<close>
  \<^item> \<^verbatim>\<open>Movie_Format\<close>: layout, parsing of all versions, writing.
  \<^item> \<^verbatim>\<open>Vcr\<close> (\<^verbatim>\<open>r4300/vcr.cpp\<close>, the engine, and the pause gates of \<^verbatim>\<open>r4300/r4300.cpp\<close>): recording, playback, seeking, warp modification, freezing.
    Work for other threads is a list of pending tasks whose completion is an operation, so that interleavings are sequences of
    operations.
  \<^item> \<^verbatim>\<open>Vcr_Invariant\<close>: the invariant of the engine (interpretation of \<^verbatim>\<open>invariant_steps\<close>) and frame lemmas.
  \<^item> \<^verbatim>\<open>Vcr_Correct\<close>: what was recorded is played back, through the file; seeks end; frozen movies come back; and the departures.

  \<^bold>\<open>Not modelled.\<close> The dynamic recompiler (\<^verbatim>\<open>r4300/x86\<close>, \<^verbatim>\<open>r4300/recomp.cpp\<close>) emits x86 code and has no meaning without a
  model of the host processor. The cached interpreter (\<^verbatim>\<open>special.cpp\<close>, \<^verbatim>\<open>regimm.cpp\<close>, \<^verbatim>\<open>bc.cpp\<close>, \<^verbatim>\<open>cop0.cpp\<close>, \<^verbatim>\<open>cop1*.cpp\<close>) repeats the pure interpreter on predecoded
  blocks; its management of blocks is not modelled, and the machine is the one of the pure interpreter throughout. The x87
  variant of the floating-point macros (32-bit build) is not modelled. Starting and stopping the threads of the emulation
  (\<^verbatim>\<open>vr_start_rom_impl\<close> and its siblings) is thread and plugin management. The Windows front end, Lua and video
  capture (\<^verbatim>\<open>Views.Win32\<close>) are user interface code on libraries of the system. The log, disassembler, debugger and
  tracelog produce text only. Locks are not modelled: operations are atomic.
\<close>

section \<open>From the cartridge to the first instruction\<close>

text \<open>C7. The core starts to execute the boot code of the cartridge: after \<^verbatim>\<open>core_boot\<close> the interpreter's loop begins at a
  fetch that succeeds, and the instruction it fetches is the word at offset \<^verbatim>\<open>0x40\<close> of the ROM image.\<close>

theorem boot_fetches_rom:
  assumes "queue_abs (queue m) xs" "0xFFC \<le> length (rom_bytes m)"
  shows "\<exists>m0 m1 m2. core_boot m = Some m0 \<and> pure_interpreter env fpu m0 = interp_loop env fpu m1 \<and> \<not> stop (cpu m1) \<and>
    prefetch m1 = Some m2 \<and> vr_op (cpu m2) = ld32 (byte_array (rom_bytes m)) 0x40"
proof -
  obtain m4 m' q where b: "booted m m4" "core_boot m = Some m'"
    "m' = m4\<lparr>next_vi := 5000, vi_register := (vi_register m4)\<lparr>vi_delay := 5000\<rparr>, vi_field := 0, queue := q\<rparr>"
    using core_boot_runs [OF assms] by blast
  define m1 where "m1 = m'\<lparr>cpu := (cpu m')\<lparr>interp_addr := 0xa4000040, stop := False, last_addr := 0xa4000040\<rparr>\<rparr>"
  have d: "SP_DMEM m1 i = rom_bytes m ! i" if "0x40 \<le> i" "i < 0xFFC" for i
    using b(1,3) that by (simp add: booted_def m1_def)
  have "prefetch m1 = Some (set_op (ld32 (SP_DMEM m1) 0x40) m1)"
    by (subst prefetch.simps) (simp add: fetch_direct_def m1_def)
  moreover have "ld32 (SP_DMEM m1) 0x40 = ld32 (byte_array (rom_bytes m)) 0x40"
    using assms(2) by (simp add: ld32_def d byte_array_def)
  ultimately show ?thesis using b(2)
    by (intro exI [of _ m'] exI [of _ m1] exI [of _ "set_op (ld32 (SP_DMEM m1) 0x40) m1"])
      (simp add: pure_interpreter_def m1_def set_op_def)
qed

theorem boot_fetches_rom_witness:
  "\<exists>m0 m1 m2. core_boot boot_example = Some m0 \<and> pure_interpreter example_machine_env example_fpu m0 = interp_loop example_machine_env example_fpu m1 \<and>
    prefetch m1 = Some m2 \<and> vr_op (cpu m2) = 0"
proof -
  obtain xs where "queue_abs (queue boot_example) xs" using boot_example_rom(2) by blast
  from boot_fetches_rom [OF this boot_example_rom(1), of example_machine_env example_fpu] obtain m0 m1 m2 where
    m: "core_boot boot_example = Some m0" "pure_interpreter example_machine_env example_fpu m0 = interp_loop example_machine_env example_fpu m1"
      "prefetch m1 = Some m2" "vr_op (cpu m2) = ld32 (byte_array (rom_bytes boot_example)) 0x40" by blast
  have "ld32 (byte_array (rom_bytes boot_example)) 0x40 = 0"
    by (simp add: ld32_def byte_array_def rom_bytes_def boot_example_def)
  with m show ?thesis by metis
qed

end
